(* ===== verification/Project_Match.thy ===== *)
theory Project_Match
  imports Ordered_Map "HOL-Library.Product_Lexorder" "HOL-Library.Multiset"
begin

text \<open>
  \<open>src/config/user/project_match.rs\<close>: which \<open>[projects."<pattern>"]\<close> keys apply to a repository
  and in which order. \<open>glob_matches\<close> is the two-pointer loop of \<open>matches\<close> over indices, with the
  most recent star and the position it has been extended to as the retry point; \<open>glob_spec\<close> is
  what a pattern means. \<open>ranked_keys\<close> and \<open>matching_keys\<close> select the keys of a
  \<open>BTreeMap<String, T>\<close>, least to most specific.
\<close>

section \<open>Project identifiers\<close>

record project_id =
  current :: string
  legacy :: "string option"

definition with_legacy :: "string \<Rightarrow> string option \<Rightarrow> project_id" where
  "with_legacy c l =
     \<lparr>current = c, legacy = (case l of Some x \<Rightarrow> if x \<noteq> c then Some x else None | None \<Rightarrow> None)\<rparr>"

definition exact_keys :: "project_id \<Rightarrow> string list" where
  "exact_keys p = current p # (case legacy p of Some l \<Rightarrow> [l] | None \<Rightarrow> [])"

lemma distinct_exact_keys_with_legacy: "distinct (exact_keys (with_legacy c l))"
  by (auto simp: exact_keys_def with_legacy_def split: option.splits)

section \<open>The glob matcher\<close>

abbreviation star :: char where
  "star \<equiv> CHR ''*''"

text \<open>
  The loop \<open>while i < identifier.len()\<close> with its three variables. \<open>slice::get(p)\<close> is \<open>None\<close>
  past the end; after the loop, \<open>pattern[p..]\<close> must be all stars.
\<close>

definition byte_at :: "string \<Rightarrow> nat \<Rightarrow> char option" where
  "byte_at s k = (if k < length s then Some (s ! k) else None)"

lemma byte_at_drop: "drop k s = c # r \<Longrightarrow> byte_at s k = Some c"
  by (metis byte_at_def drop_all hd_drop_conv_nth list.distinct(1) list.sel(1) not_le)

function glob_loop :: "string \<Rightarrow> string \<Rightarrow> nat \<Rightarrow> nat \<Rightarrow> (nat \<times> nat) option \<Rightarrow> bool" where
  "glob_loop pat ident p i retry =
     (if i < length ident then
        (if byte_at pat p = Some star then glob_loop pat ident (Suc p) i (Some (p, i))
         else if byte_at pat p = Some (ident ! i) then glob_loop pat ident (Suc p) (Suc i) retry
         else (case retry of
             Some (s, m) \<Rightarrow> glob_loop pat ident (Suc s) (Suc m) (Some (s, Suc m))
           | None \<Rightarrow> False))
      else list_all (\<lambda>b. b = star) (drop p pat))"
  by pat_completeness auto
termination
proof -
  let ?a = "\<lambda>(pat :: string, ident :: string, p :: nat, i :: nat, r :: (nat \<times> nat) option).
     (case r of None \<Rightarrow> length ident + 2
      | Some (s, m) \<Rightarrow> if m \<le> i then Suc (length ident) - m else length ident + 3)"
  let ?b = "\<lambda>(pat :: string, ident :: string, p :: nat, i :: nat, r :: (nat \<times> nat) option).
     length pat - p"
  show ?thesis
    by (relation "measures [?a, ?b]") (auto simp: byte_at_def split: if_splits option.splits)
qed

declare glob_loop.simps [simp del]

definition glob_matches :: "string \<Rightarrow> string \<Rightarrow> bool" where
  "glob_matches pat ident = glob_loop pat ident 0 0 None"

text \<open>What a pattern means: a star is any run of bytes, every other byte is itself.\<close>

fun glob_spec :: "string \<Rightarrow> string \<Rightarrow> bool" where
  "glob_spec [] s \<longleftrightarrow> s = []"
| "glob_spec (c # p) s \<longleftrightarrow>
     (if c = star then (\<exists>k\<in>{0..length s}. glob_spec p (drop k s))
      else s \<noteq> [] \<and> hd s = c \<and> glob_spec p (tl s))"

lemma glob_spec_star: "glob_spec (star # p) s \<longleftrightarrow> (\<exists>u v. s = u @ v \<and> glob_spec p v)"
proof
  assume "glob_spec (star # p) s"
  then obtain k where "k \<le> length s" "glob_spec p (drop k s)" by auto
  then have "s = take k s @ drop k s \<and> glob_spec p (drop k s)" by simp
  then show "\<exists>u v. s = u @ v \<and> glob_spec p v" by blast
next
  assume "\<exists>u v. s = u @ v \<and> glob_spec p v"
  then obtain u v where "s = u @ v" "glob_spec p v" by blast
  then have "length u \<in> {0..length s} \<and> glob_spec p (drop (length u) s)" by simp
  then show "glob_spec (star # p) s" by auto
qed

lemma glob_spec_literals:
  "star \<notin> set l \<Longrightarrow> glob_spec (l @ p) s \<longleftrightarrow> (\<exists>t. s = l @ t \<and> glob_spec p t)"
proof (induction l arbitrary: s)
  case Nil
  then show ?case by simp
next
  case (Cons c l)
  then show ?case by (cases s) auto
qed

lemma glob_spec_star_absorb: "glob_spec (star # p) s \<Longrightarrow> glob_spec (star # p) (u @ s)"
  unfolding glob_spec_star by (metis append.assoc)

lemma glob_spec_Nil: "glob_spec p [] \<longleftrightarrow> list_all (\<lambda>b. b = star) p"
  by (induction p) auto

lemma overlong_append: "lit = u @ lit @ t \<Longrightarrow> u = [] \<and> t = []" for lit u t :: "'a list"
proof -
  assume "lit = u @ lit @ t"
  then have "length lit = length u + (length lit + length t)" by (metis length_append)
  then show ?thesis by simp
qed

lemma glob_spec_star_skip:
  assumes lit: "star \<notin> set lit"
  shows "glob_spec (star # lit @ star # r) (lit @ w) \<longleftrightarrow> glob_spec (star # r) w"
proof
  assume "glob_spec (star # r) w"
  then have "glob_spec (lit @ star # r) (lit @ w)" by (simp only: glob_spec_literals[OF lit]) blast
  then show "glob_spec (star # lit @ star # r) (lit @ w)"
    unfolding glob_spec_star[of "lit @ star # r"] by (metis append_Nil)
next
  assume "glob_spec (star # lit @ star # r) (lit @ w)"
  then obtain u v where uv: "lit @ w = u @ v" "glob_spec (lit @ star # r) v"
    unfolding glob_spec_star[of "lit @ star # r"] by blast
  then obtain t where t: "v = lit @ t" "glob_spec (star # r) t"
    using glob_spec_literals[OF lit, of "star # r" v] by blast
  have "(\<exists>us. lit = (u @ lit) @ us \<and> us @ w = t) \<or> (\<exists>us. lit @ us = u @ lit \<and> w = us @ t)"
    using uv(1) t(1) append_eq_append_conv2[of lit w "u @ lit" t] by auto
  moreover have "us = []" if "lit = (u @ lit) @ us" for us
    using overlong_append[of lit u us] that by simp
  ultimately have "\<exists>x. w = x @ t" by auto
  then show "glob_spec (star # r) w" using t(2) glob_spec_star_absorb by blast
qed

lemma glob_spec_star_end:
  assumes lit: "star \<notin> set lit"
  shows "glob_spec (star # lit @ rest) lit \<longleftrightarrow> glob_spec rest []"
proof
  assume "glob_spec (star # lit @ rest) lit"
  then obtain u v where uv: "lit = u @ v" "glob_spec (lit @ rest) v"
    unfolding glob_spec_star by blast
  then obtain t where t: "v = lit @ t" "glob_spec rest t"
    using glob_spec_literals[OF lit, of rest v] by blast
  with uv(1) overlong_append[of lit u t] show "glob_spec rest []" by simp
next
  assume "glob_spec rest []"
  then have "glob_spec (lit @ rest) lit" by (simp add: glob_spec_literals[OF lit])
  then show "glob_spec (star # lit @ rest) lit" unfolding glob_spec_star by (metis append_Nil)
qed

text \<open>
  The state of the loop with a retry point: the pattern is \<open>pre @ star # lit @ rest\<close> with \<open>rest\<close>
  left to match, the identifier is \<open>done @ lit @ todo\<close> with \<open>todo\<close> left, and \<open>lit\<close> is star free.
\<close>

definition retry_inv :: "string \<Rightarrow> string \<Rightarrow> nat \<Rightarrow> nat \<Rightarrow> nat \<Rightarrow> nat \<Rightarrow> bool" where
  "retry_inv pat ident p i s m \<longleftrightarrow>
     (\<exists>pre lit rest before todo. pat = pre @ star # lit @ rest \<and> star \<notin> set lit
        \<and> ident = before @ lit @ todo
        \<and> s = length pre \<and> p = Suc (s + length lit) \<and> m = length before \<and> i = m + length lit)"

definition retry_spec :: "string \<Rightarrow> string \<Rightarrow> nat \<Rightarrow> nat \<Rightarrow> bool" where
  "retry_spec pat ident s m \<longleftrightarrow> glob_spec (drop s pat) (drop m ident)"

lemma retry_spec_unfold:
  assumes "retry_inv pat ident p i s m"
  shows "retry_spec pat ident s m \<longleftrightarrow>
    glob_spec (drop p pat) (drop i ident) \<or> (m < length ident \<and> retry_spec pat ident s (Suc m))"
proof -
  from assms obtain pre lit rest before todo where
    pat: "pat = pre @ star # lit @ rest" and lit: "star \<notin> set lit"
    and ident: "ident = before @ lit @ todo" and s: "s = length pre" and p: "p = Suc (s + length lit)"
    and m: "m = length before" and i: "i = m + length lit"
    unfolding retry_inv_def by blast
  have here: "glob_spec (lit @ rest) (lit @ todo) \<longleftrightarrow> glob_spec (drop p pat) (drop i ident)"
    using pat ident s p m i lit by (simp add: glob_spec_literals)
  have later: "drop s pat = star # lit @ rest" "drop m ident = lit @ todo"
    using pat ident s m by simp_all
  have "glob_spec (star # lit @ rest) (lit @ todo) \<longleftrightarrow>
    glob_spec (lit @ rest) (lit @ todo) \<or>
    (lit @ todo \<noteq> [] \<and> glob_spec (star # lit @ rest) (tl (lit @ todo)))"
  proof (cases "lit @ todo")
    case Nil
    then show ?thesis by (simp add: glob_spec_star)
  next
    case (Cons c w)
    have "(\<exists>u v. c # w = u @ v \<and> glob_spec (lit @ rest) v) \<longleftrightarrow>
      glob_spec (lit @ rest) (c # w) \<or> (\<exists>u v. w = u @ v \<and> glob_spec (lit @ rest) v)"
      by (metis append_Cons append_Nil append_eq_Cons_conv)
    with Cons show ?thesis by (simp only: glob_spec_star) simp
  qed
  moreover have "lit @ todo \<noteq> [] \<longleftrightarrow> m < length ident" using ident m by auto
  moreover have "tl (lit @ todo) = drop (Suc m) ident"
    using later(2) by (metis drop_Suc tl_drop)
  ultimately show ?thesis
    unfolding retry_spec_def later using here later by simp
qed

lemma glob_loop_retry:
  "retry_inv pat ident p i s m \<Longrightarrow> glob_loop pat ident p i (Some (s, m)) \<longleftrightarrow> retry_spec pat ident s m"
proof (induction pat ident p i "Some (s, m)" arbitrary: s m rule: glob_loop.induct)
  case (1 pat ident p i s m)
  from "1.prems" obtain pre lit rest before todo where
    pat: "pat = pre @ star # lit @ rest" and lit: "star \<notin> set lit"
    and ident: "ident = before @ lit @ todo" and s: "s = length pre" and p: "p = Suc (s + length lit)"
    and m: "m = length before" and i: "i = m + length lit"
    unfolding retry_inv_def by blast
  have rest: "drop p pat = rest" and todo: "drop i ident = todo"
    using pat ident s p m i by simp_all
  have spec_star: "drop s pat = star # lit @ rest" "drop m ident = lit @ todo"
    using pat ident s m by simp_all
  show ?case
  proof (cases todo)
    case Nil
    have "\<not> i < length ident" using Nil ident m i by simp
    then show ?thesis
      using glob_spec_star_end[OF lit, of rest]
      by (simp add: glob_loop.simps[of pat ident p i] retry_spec_def spec_star Nil rest glob_spec_Nil)
  next
    case (Cons c w)
    have ilt: "i < length ident" and ati: "ident ! i = c"
      using Cons ident m i by (simp_all add: nth_append)
    consider (st) r where "rest = star # r" | (lit) r where "rest = c # r" "c \<noteq> star"
      | (no) "byte_at pat p \<noteq> Some star" "byte_at pat p \<noteq> Some c"
        "\<not> glob_spec (drop p pat) (drop i ident)"
    proof (cases rest)
      case Nil
      then have "byte_at pat p = None" using rest by (simp add: byte_at_def)
      moreover have "\<not> glob_spec (drop p pat) (drop i ident)" using Nil rest todo Cons by simp
      ultimately show ?thesis using that(3) by simp
    next
      case (Cons d r)
      then have "byte_at pat p = Some d"
        using rest byte_at_drop by simp
      then show ?thesis
        using that Cons rest todo \<open>todo = c # w\<close> by (cases "d = star"; cases "d = c") auto
    qed
    then show ?thesis
    proof cases
      case st
      have b: "byte_at pat p = Some star"
        using byte_at_drop rest st by simp
      have inv: "retry_inv pat ident (Suc p) i p i"
        unfolding retry_inv_def
        by (rule exI[of _ "pre @ star # lit"], rule exI[of _ "[]"], rule exI[of _ r],
            rule exI[of _ "before @ lit"], rule exI[of _ todo])
          (use pat st s p ident m i in simp)
      have "glob_loop pat ident p i (Some (s, m)) = glob_loop pat ident (Suc p) i (Some (p, i))"
        using ilt b by (simp add: glob_loop.simps[of pat ident p i])
      also have "\<dots> \<longleftrightarrow> retry_spec pat ident p i" using "1.hyps"(1)[OF ilt b inv] by simp
      also have "\<dots> \<longleftrightarrow> glob_spec (star # r) todo" by (simp add: retry_spec_def rest todo st)
      also have "\<dots> \<longleftrightarrow> glob_spec (star # lit @ rest) (lit @ todo)"
        using glob_spec_star_skip[OF lit, of r todo] st by simp
      finally show ?thesis by (simp add: retry_spec_def spec_star)
    next
      case lit
      have b: "byte_at pat p = Some c" "byte_at pat p \<noteq> Some star"
        using byte_at_drop rest lit by simp_all
      have inv: "retry_inv pat ident (Suc p) (Suc i) s m"
        unfolding retry_inv_def
        by (rule exI[of _ pre], rule exI[of _ "lit @ [c]"], rule exI[of _ r],
            rule exI[of _ before], rule exI[of _ w])
          (use pat lit \<open>star \<notin> set lit\<close> s p ident m i Cons in auto)
      have "glob_loop pat ident p i (Some (s, m)) = glob_loop pat ident (Suc p) (Suc i) (Some (s, m))"
        using ilt b ati by (simp add: glob_loop.simps[of pat ident p i])
      with "1.hyps"(2)[OF ilt b(2) _ inv] b(1) ati show ?thesis by simp
    next
      case no
      have inv: "retry_inv pat ident (Suc s) (Suc m) s (Suc m)"
        unfolding retry_inv_def
        by (rule exI[of _ pre], rule exI[of _ "[]"], rule exI[of _ "lit @ rest"],
            rule exI[of _ "take (Suc m) ident"], rule exI[of _ "drop (Suc m) ident"])
          (use pat s ilt m i in auto)
      have "glob_loop pat ident p i (Some (s, m)) = glob_loop pat ident (Suc s) (Suc m) (Some (s, Suc m))"
        using ilt no ati by (simp add: glob_loop.simps[of pat ident p i])
      also have "\<dots> \<longleftrightarrow> retry_spec pat ident s (Suc m)"
        using "1.hyps"(3)[OF ilt no(1) _ refl refl inv] no(2) ati by simp
      finally show ?thesis using retry_spec_unfold[OF "1.prems"] no(3) ilt i by auto
    qed
  qed
qed

text \<open>Before the first star every byte consumed is a literal, so no retry is needed.\<close>

lemma glob_loop_plain:
  assumes "pat = lit @ rest" and "ident = lit @ todo" and "star \<notin> set lit"
  shows "glob_loop pat ident (length lit) (length lit) None \<longleftrightarrow> glob_spec rest todo"
  using assms
proof (induction todo arbitrary: lit rest)
  case Nil
  then show ?case by (simp add: glob_loop.simps[of "lit @ rest" lit "length lit"] glob_spec_Nil)
next
  case (Cons c w)
  have ilt: "length lit < length ident" and ati: "ident ! length lit = c"
    using Cons.prems by (simp_all add: nth_append)
  have step: "glob_loop pat ident (length lit) (length lit) None =
     (if byte_at pat (length lit) = Some star
      then glob_loop pat ident (Suc (length lit)) (length lit) (Some (length lit, length lit))
      else if byte_at pat (length lit) = Some c
      then glob_loop pat ident (Suc (length lit)) (Suc (length lit)) None else False)"
    using ilt ati by (simp add: glob_loop.simps[of pat ident "length lit"])
  show ?case
  proof (cases rest)
    case Nil
    then have "byte_at pat (length lit) = None" using Cons.prems by (simp add: byte_at_def)
    with Nil step show ?thesis by simp
  next
    case (Cons d r)
    then have d: "byte_at pat (length lit) = Some d"
      using byte_at_drop[of "length lit" pat d r] Cons.prems(1) by simp
    consider (st) "d = star" | (lit) "d \<noteq> star" "d = c" | (no) "d \<noteq> star" "d \<noteq> c" by blast
    then show ?thesis
    proof cases
      case st
      have inv: "retry_inv pat ident (Suc (length lit)) (length lit) (length lit) (length lit)"
        unfolding retry_inv_def
        by (rule exI[of _ lit], rule exI[of _ "[]"], rule exI[of _ r], rule exI[of _ lit],
            rule exI[of _ "c # w"])
          (use Cons Cons.prems st in simp)
      show ?thesis
        using step d st glob_loop_retry[OF inv] Cons Cons.prems by (simp add: retry_spec_def)
    next
      case lit
      have "glob_loop pat ident (length (lit @ [c])) (length (lit @ [c])) None \<longleftrightarrow> glob_spec r w"
        by (rule Cons.IH) (use Cons Cons.prems lit in auto)
      with step d lit Cons show ?thesis by simp
    next
      case no
      with step d Cons show ?thesis by simp
    qed
  qed
qed

lemma glob_matches_iff: "glob_matches pat ident \<longleftrightarrow> glob_spec pat ident"
  unfolding glob_matches_def using glob_loop_plain[of pat "[]" pat ident ident] by simp

lemma glob_spec_literal: "star \<notin> set pat \<Longrightarrow> glob_spec pat s \<longleftrightarrow> pat = s"
  using glob_spec_literals[of pat "[]" s] by auto

section \<open>Ranking\<close>

text \<open>\<open>chars()\<close> counts characters: the bytes that are not UTF-8 continuation bytes.\<close>

definition is_char_start :: "char \<Rightarrow> bool" where
  "is_char_start c \<longleftrightarrow> (of_char c :: nat) div 64 \<noteq> 2"

definition literal_len :: "string \<Rightarrow> nat" where
  "literal_len pat = length (filter (\<lambda>c. is_char_start c \<and> c \<noteq> star) pat)"

definition has_star :: "string \<Rightarrow> bool" where
  "has_star k = contains_char k star"

definition rank_key :: "string \<Rightarrow> nat \<times> bool \<times> string" where
  "rank_key key = (literal_len key, \<not> has_star key, key)"

definition ranked_keys :: "(string, 'v) btree \<Rightarrow> string \<Rightarrow> string list" where
  "ranked_keys projects ident =
     (if \<not> list_ex has_star (bt_keys projects)
      then (case bt_get projects ident of Some _ \<Rightarrow> [ident] | None \<Rightarrow> [])
      else map (\<lambda>(_, _, k). k)
             (sort (map rank_key (filter (\<lambda>k. glob_matches k ident) (bt_keys projects)))))"

definition matching_key_names :: "(string, 'v) btree \<Rightarrow> project_id \<Rightarrow> string list" where
  "matching_key_names projects project =
     (let cur = ranked_keys projects (current project);
          old = (case legacy project of
                   Some l \<Rightarrow> filter (\<lambda>k. k \<notin> set cur) (ranked_keys projects l)
                 | None \<Rightarrow> [])
      in old @ cur)"

definition matching_keys :: "(string, 'v) btree \<Rightarrow> project_id \<Rightarrow> 'v list" where
  "matching_keys projects project =
     map (\<lambda>k. the (bt_get projects k)) (matching_key_names projects project)"

subsection \<open>What the ranking relies on of the matcher\<close>

text \<open>
  The key selection needs three laws of its matcher: a key without a star matches itself only,
  and a key that matches has at most as many literal characters as the identifier.
\<close>

lemma filter_eq_self_distinct:
  "distinct ks \<Longrightarrow> filter (\<lambda>k. k = x) ks = (if x \<in> set ks then [x] else [])"
  by (induction ks) auto

locale key_matcher =
  fixes matches :: "string \<Rightarrow> string \<Rightarrow> bool"
  assumes literal_only: "\<not> has_star key \<Longrightarrow> matches key ident \<longleftrightarrow> key = ident"
    and literals_bounded: "matches key ident \<Longrightarrow> literal_len key \<le> literal_len ident"
begin

lemma scan_without_stars:
  assumes "\<not> list_ex has_star keys" and "distinct keys"
  shows "filter (\<lambda>k. matches k ident) keys = (if ident \<in> set keys then [ident] else [])"
proof -
  have "filter (\<lambda>k. matches k ident) keys = filter (\<lambda>k. k = ident) keys"
    by (rule filter_cong) (use assms(1) in \<open>auto simp: list_ex_iff literal_only\<close>)
  also have "\<dots> = (if ident \<in> set keys then [ident] else [])"
    using assms(2) by (rule filter_eq_self_distinct)
  finally show ?thesis .
qed

lemma rank_below_literal:
  assumes "\<not> has_star ident" and "matches key ident"
  shows "rank_key key \<le> rank_key ident"
  using assms literal_only[of key ident] literals_bounded[OF assms(2)]
  by (cases "has_star key") (auto simp: rank_key_def)

end

lemma literal_len_append [simp]: "literal_len (a @ b) = literal_len a + literal_len b"
  by (simp add: literal_len_def)

lemma literal_len_Cons: "literal_len (c # p) = (if is_char_start c \<and> c \<noteq> star then 1 else 0) + literal_len p"
  by (simp add: literal_len_def)

lemma glob_spec_literal_len: "glob_spec pat s \<Longrightarrow> literal_len pat \<le> literal_len s"
proof (induction pat arbitrary: s)
  case Nil
  then show ?case by (simp add: literal_len_def)
next
  case (Cons c p)
  show ?case
  proof (cases "c = star")
    case True
    with Cons.prems obtain u v where "s = u @ v" "glob_spec p v" using glob_spec_star by blast
    with Cons.IH[of v] True show ?thesis by (simp add: literal_len_Cons)
  next
    case False
    with Cons.prems obtain t where "s = c # t" "glob_spec p t" by (cases s) auto
    with Cons.IH[of t] show ?thesis by (simp add: literal_len_Cons)
  qed
qed

interpretation gm: key_matcher glob_matches
proof unfold_locales
  fix key ident
  show "\<not> has_star key \<Longrightarrow> glob_matches key ident \<longleftrightarrow> key = ident"
    by (simp add: glob_matches_iff glob_spec_literal has_star_def contains_char_def)
  show "glob_matches key ident \<Longrightarrow> literal_len key \<le> literal_len ident"
    by (simp add: glob_matches_iff glob_spec_literal_len)
qed

text \<open>The shortcut for a map without patterns computes what the full scan would.\<close>

lemma ranked_keys_scan:
  assumes "bt_inv projects"
  shows "ranked_keys projects ident = map (\<lambda>(_, _, k). k)
    (sort (map rank_key (filter (\<lambda>k. glob_matches k ident) (bt_keys projects))))"
proof (cases "list_ex has_star (bt_keys projects)")
  case True
  then show ?thesis by (simp add: ranked_keys_def)
next
  case False
  then have "filter (\<lambda>k. glob_matches k ident) (bt_keys projects)
      = (if ident \<in> set (bt_keys projects) then [ident] else [])"
    using assms by (intro gm.scan_without_stars) (simp_all add: bt_keys_def bt_inv_distinct)
  with False show ?thesis
    by (auto simp: ranked_keys_def bt_keys_iff rank_key_def split: option.splits)
qed

lemma rank_key_third [simp]: "(case rank_key k of (_, _, x) \<Rightarrow> x) = k"
  by (simp add: rank_key_def)

lemma map_third_rank: "map (\<lambda>(_, _, k). k) (map rank_key ks) = ks"
  by (induction ks) (auto simp: rank_key_def)

lemma sort_rank_key: "\<exists>ks'. sort (map rank_key ks) = map rank_key ks' \<and> mset ks' = mset ks"
proof -
  let ?ks' = "map (\<lambda>(_, _, k). k) (sort (map rank_key ks))"
  have "\<forall>t\<in>set (sort (map rank_key ks)). rank_key (case t of (_, _, k) \<Rightarrow> k) = t"
    by (auto simp: rank_key_def)
  then have "map (\<lambda>t. rank_key (case t of (_, _, k) \<Rightarrow> k)) (sort (map rank_key ks)) = sort (map rank_key ks)"
    by (intro map_idI) blast
  then have "map rank_key ?ks' = sort (map rank_key ks)"
    by (simp add: comp_def)
  moreover have "mset ?ks' = mset ks"
    by (metis map_third_rank mset_map mset_sort)
  ultimately show ?thesis by metis
qed

lemma ranked_keys_props:
  assumes "bt_inv projects"
  shows "set (ranked_keys projects ident) = {k. bt_get projects k \<noteq> None \<and> glob_spec k ident}"
    and "distinct (ranked_keys projects ident)"
    and "sorted (map rank_key (ranked_keys projects ident))"
proof -
  let ?m = "filter (\<lambda>k. glob_matches k ident) (bt_keys projects)"
  obtain ks' where ks': "sort (map rank_key ?m) = map rank_key ks'" "mset ks' = mset ?m"
    using sort_rank_key by blast
  have eq: "ranked_keys projects ident = ks'"
    using ranked_keys_scan[OF assms] ks'(1) by (simp add: map_third_rank del: map_map)
  have "set ks' = set ?m" using ks'(2) by (metis mset_eq_setD)
  with eq show "set (ranked_keys projects ident) = {k. bt_get projects k \<noteq> None \<and> glob_spec k ident}"
    by (auto simp: bt_keys_iff glob_matches_iff)
  have "distinct ?m" using assms by (simp add: bt_keys_def bt_inv_distinct)
  with eq ks'(2) show "distinct (ranked_keys projects ident)" by (metis mset_eq_imp_distinct_iff)
  show "sorted (map rank_key (ranked_keys projects ident))"
    using eq ks'(1) by (metis sorted_sort)
qed

lemma ranked_keys_last:
  assumes "bt_inv projects" and "\<not> has_star ident" and "bt_get projects ident \<noteq> None"
  shows "ranked_keys projects ident \<noteq> [] \<and> last (ranked_keys projects ident) = ident"
proof -
  let ?r = "ranked_keys projects ident"
  have mem: "ident \<in> set ?r"
    using assms ranked_keys_props(1)[OF assms(1), of ident] gm.literal_only[of ident ident]
    by (simp add: glob_matches_iff)
  then have ne: "?r \<noteq> []" by auto
  have "glob_spec (last ?r) ident"
    using last_in_set[OF ne] ranked_keys_props(1)[OF assms(1), of ident] by blast
  then have "rank_key (last ?r) \<le> rank_key ident"
    using gm.rank_below_literal[OF assms(2)] by (simp add: glob_matches_iff)
  moreover have "rank_key ident \<le> rank_key (last ?r)"
  proof -
    obtain xs where xs: "?r = xs @ [last ?r]" using ne by (metis append_butlast_last_id)
    then have "ident \<in> set xs \<or> ident = last ?r" using mem by (metis Un_iff empty_set list.simps(15) set_append singletonD)
    moreover have "sorted (map rank_key (xs @ [last ?r]))" using ranked_keys_props(3)[OF assms(1)] xs by metis
    ultimately show ?thesis by (auto simp: sorted_append)
  qed
  ultimately have "rank_key (last ?r) = rank_key ident" by simp
  with ne show ?thesis by (simp add: rank_key_def)
qed

section \<open>Properties\<close>

text \<open>
  C1: the two-pointer loop decides exactly the meaning of a pattern: a star is any run of bytes,
  slash included, and every other byte matches itself. Revisiting only the most recent star
  loses no match.
\<close>

theorem glob_matches_correct: "glob_matches pat ident \<longleftrightarrow> glob_spec pat ident"
  by (rule glob_matches_iff)

text \<open>
  The ranked keys of a repository are the keys of the map that match its identifier, each
  once, in increasing specificity (literal characters, a literal key above a pattern it ties
  with, then byte order); the shortcut for maps without patterns gives the same list.
\<close>

theorem ranked_keys_ordered:
  assumes "bt_inv projects"
  shows "set (ranked_keys projects ident) = {k. bt_get projects k \<noteq> None \<and> glob_spec k ident}
    \<and> sorted_wrt (<) (map rank_key (ranked_keys projects ident))"
proof -
  have "distinct (map rank_key (ranked_keys projects ident))"
    using ranked_keys_props(2)[OF assms] by (simp add: distinct_map inj_on_def rank_key_def)
  then show ?thesis using ranked_keys_props(1,3)[OF assms] strict_sorted_iff by blast
qed

theorem ranked_keys_ordered_witness:
  "set (ranked_keys [(''*'', 1 :: nat), (''h/*'', 2), (''h/r'', 3)] ''h/r'')
     = {k. bt_get [(''*'', 1 :: nat), (''h/*'', 2), (''h/r'', 3)] k \<noteq> None \<and> glob_spec k ''h/r''}
   \<and> sorted_wrt (<) (map rank_key (ranked_keys [(''*'', 1 :: nat), (''h/*'', 2), (''h/r'', 3)] ''h/r''))"
proof -
  have "bt_inv [(''*'', 1 :: nat), (''h/*'', 2), (''h/r'', 3)]" by code_simp
  then show ?thesis by (rule ranked_keys_ordered)
qed

text \<open>
  A literal key has the last word. When the identifier itself is a key, no pattern that also
  matches, whatever its length, is applied after it.
\<close>

theorem literal_key_wins:
  assumes "bt_inv projects" and "\<not> has_star (current p)" and "bt_get projects (current p) = Some v"
  shows "matching_keys projects p \<noteq> [] \<and> last (matching_keys projects p) = v"
proof -
  have "ranked_keys projects (current p) \<noteq> []" "last (ranked_keys projects (current p)) = current p"
    using ranked_keys_last[OF assms(1,2)] assms(3) by simp_all
  then show ?thesis
    using assms(3) by (simp add: matching_keys_def matching_key_names_def Let_def last_map)
qed

theorem literal_key_wins_witness:
  "matching_keys [(''*'', 1 :: nat), (''h/r'', 2), (''h/r*'', 3)] (with_legacy ''h/r'' (Some ''H/r'')) \<noteq> []
   \<and> last (matching_keys [(''*'', 1 :: nat), (''h/r'', 2), (''h/r*'', 3)] (with_legacy ''h/r'' (Some ''H/r''))) = 2"
proof -
  have "bt_inv [(''*'', 1 :: nat), (''h/r'', 2), (''h/r*'', 3)]" by code_simp
  then show ?thesis
    by (rule literal_key_wins) (simp_all add: with_legacy_def has_star_def contains_char_def)
qed

end
