(* ===== verification/Approvals.thy ===== *)
theory Approvals
  imports Project_Match
begin

text \<open>
  \<open>src/config/approvals.rs\<close>, the store of approved project commands, with the template
  normalisation it compares commands by (\<open>src/config/deprecation.rs\<close>).

  The store is the \<open>BTreeMap\<close> of \<open>Approvals.projects\<close>; a mutation takes the in-memory store and
  the disk and returns the result, the store and the disk, because a failed save leaves the
  reloaded and mutated store in memory. TOML reading and rendering, the lock and the file system
  are the record \<open>store_io\<close>; the MiniJinja analysis of a template (the variables it reads with
  their byte spans, and the names it binds) is the parameter \<open>tv\<close>.
\<close>

section \<open>Template normalisation\<close>

record template_vars =
  reads :: "(string \<times> nat \<times> nat) list"
  bound :: "string list"

type_synonym template_parser = "string \<Rightarrow> template_vars option"

definition retired_vars :: "(string \<times> string) list" where
  "retired_vars =
     [(''repo_root'', ''repo_path''),
      (''worktree'', ''worktree_path''),
      (''main_worktree'', ''repo''),
      (''main_worktree_path'', ''primary_worktree_path''),
      (''commits'', ''commit_details'')]"

definition slice :: "string \<Rightarrow> nat \<Rightarrow> nat \<Rightarrow> string" where
  "slice s a b = take (b - a) (drop a s)"

fun splice :: "string \<Rightarrow> nat \<Rightarrow> ((nat \<times> nat) \<times> string) list \<Rightarrow> string" where
  "splice t cursor [] = drop cursor t"
| "splice t cursor (((a, b), new) # es) = slice t cursor a @ new @ splice t b es"

definition retired_replacements :: "template_vars \<Rightarrow> (string \<times> string) list" where
  "retired_replacements vars =
     filter (\<lambda>(old, new). list_ex (\<lambda>(name, _). name = old) (reads vars)
        \<and> old \<notin> set (bound vars) \<and> new \<notin> set (bound vars)) retired_vars"

definition retired_edits :: "template_vars \<Rightarrow> (string \<times> string) list \<Rightarrow> ((nat \<times> nat) \<times> string) list" where
  "retired_edits vars repl =
     sort_key (\<lambda>((a, _), _). a)
       (filter_map (\<lambda>(name, at). map_option (\<lambda>new. (at, new)) (map_of repl name)) (reads vars))"

definition migrate_retired_vars ::
  "template_parser \<Rightarrow> string \<Rightarrow> (string \<times> (string \<times> string) list) option" where
  "migrate_retired_vars tv t =
     (if \<not> list_ex (\<lambda>(old, _). is_infix old t) retired_vars then None
      else (case tv t of
          None \<Rightarrow> None
        | Some vars \<Rightarrow>
            (let repl = retired_replacements vars in
             if repl = [] then None else Some (splice t 0 (retired_edits vars repl), repl))))"

definition normalize_template_vars :: "template_parser \<Rightarrow> string \<Rightarrow> string" where
  "normalize_template_vars tv t =
     (case migrate_retired_vars tv t of Some (migrated, _) \<Rightarrow> migrated | None \<Rightarrow> t)"

text \<open>
  Rust slicing panics where \<open>cursor > at.start\<close> or a bound is past the end. The parser's spans of
  distinct variable tokens are in range and disjoint; then every slice the loop takes is in
  bounds, so \<open>slice\<close> is Rust's.
\<close>

fun slices_in_range :: "nat \<Rightarrow> nat \<Rightarrow> ((nat \<times> nat) \<times> string) list \<Rightarrow> bool" where
  "slices_in_range n cursor [] \<longleftrightarrow> cursor \<le> n"
| "slices_in_range n cursor (((a, b), _) # es) \<longleftrightarrow> cursor \<le> a \<and> a \<le> n \<and> slices_in_range n b es"

definition spans_ok :: "nat \<Rightarrow> (nat \<times> nat) list \<Rightarrow> bool" where
  "spans_ok n sp \<longleftrightarrow> (\<forall>(a, b)\<in>set sp. a < b \<and> b \<le> n)
     \<and> sorted_wrt (\<lambda>(a, b) (c, d). b \<le> c \<or> d \<le> a) sp"

lemma slices_in_range_sorted:
  assumes "sorted (map (\<lambda>((a, _), _). a) es)" and "spans_ok n (map fst es)"
    and "cursor \<le> n" and "\<forall>((a, b), _)\<in>set es. cursor \<le> a"
  shows "slices_in_range n cursor es"
  using assms
proof (induction es arbitrary: cursor)
  case Nil
  then show ?case by simp
next
  case (Cons e es)
  obtain a b new where e: "e = ((a, b), new)" by (metis prod.exhaust)
  have "\<forall>((c, d), _)\<in>set es. b \<le> c"
  proof (clarify)
    fix c d w
    assume m: "((c, d), w) \<in> set es"
    then have "a \<le> c" "c < d" "b \<le> c \<or> d \<le> a"
      using Cons.prems(1,2) e by (force simp: spans_ok_def)+
    then show "b \<le> c" by auto
  qed
  moreover have "spans_ok n (map fst es)" "b \<le> n" "a \<le> n"
    using Cons.prems(2) e by (auto simp: spans_ok_def)
  ultimately show ?case using Cons e by simp
qed

lemma normalize_without_retired:
  "\<forall>(old, _)\<in>set retired_vars. \<not> is_infix old t \<Longrightarrow> normalize_template_vars tv t = t"
  by (force simp: normalize_template_vars_def migrate_retired_vars_def list_ex_iff split: option.splits)

section \<open>The store\<close>

record approved_project =
  approved_commands :: "string list"

record approvals =
  projects :: "(string, approved_project) btree"

definition default_project :: approved_project where
  "default_project = \<lparr>approved_commands = []\<rparr>"

definition default_approvals :: approvals where
  "default_approvals = \<lparr>projects = []\<rparr>"

abbreviation store_ok :: "approvals \<Rightarrow> bool" where
  "store_ok a \<equiv> bt_inv (projects a)"

subsection \<open>Queries\<close>

definition is_command_approved :: "template_parser \<Rightarrow> approvals \<Rightarrow> project_id \<Rightarrow> string \<Rightarrow> bool" where
  "is_command_approved tv a project command =
     (let normalized = normalize_template_vars tv command in
      list_ex (\<lambda>p. list_ex (\<lambda>c. normalize_template_vars tv c = normalized) (approved_commands p))
        (matching_keys (projects a) project))"

definition matching_pattern_keys :: "approvals \<Rightarrow> project_id \<Rightarrow> string list" where
  "matching_pattern_keys a project =
     map fst (filter (\<lambda>(key, p). has_star key \<and> approved_commands p \<noteq> []
        \<and> list_ex (glob_matches key) (exact_keys project)) (projects a))"

fun collect_stale :: "template_parser \<Rightarrow> string list \<Rightarrow> string list \<Rightarrow> string list \<Rightarrow> string list" where
  "collect_stale tv normalized [] stale = stale"
| "collect_stale tv normalized (c # cs) stale =
     (if normalize_template_vars tv c \<notin> set normalized \<and> c \<notin> set stale
      then collect_stale tv normalized cs (stale @ [c])
      else collect_stale tv normalized cs stale)"

definition exact_commands :: "approvals \<Rightarrow> project_id \<Rightarrow> string list" where
  "exact_commands a project =
     concat (map approved_commands (filter_map (bt_get (projects a)) (exact_keys project)))"

definition stale_approvals :: "template_parser \<Rightarrow> approvals \<Rightarrow> project_id \<Rightarrow> string list \<Rightarrow> string list" where
  "stale_approvals tv a project templates =
     collect_stale tv (map (normalize_template_vars tv) templates) (exact_commands a project) []"

definition exact_approval_count :: "approvals \<Rightarrow> project_id \<Rightarrow> nat" where
  "exact_approval_count a project =
     sum_list (map (\<lambda>p. length (approved_commands p))
       (filter_map (bt_get (projects a)) (exact_keys project)))"

subsection \<open>The mutators\<close>

text \<open>Each mutator returns what it hands back, whether anything changed, and the new store.\<close>

fun add_commands :: "template_parser \<Rightarrow> string list \<Rightarrow> string list \<Rightarrow> bool \<Rightarrow> string list \<times> bool" where
  "add_commands tv [] existing changed = (existing, changed)"
| "add_commands tv (command # rest) existing changed =
     (let normalized = normalize_template_vars tv command in
      if \<not> list_ex (\<lambda>c. normalize_template_vars tv c = normalized) existing
      then add_commands tv rest (existing @ [command]) True
      else add_commands tv rest existing changed)"

definition approve_mutator :: "template_parser \<Rightarrow> string \<Rightarrow> string list \<Rightarrow> approvals \<Rightarrow> unit \<times> bool \<times> approvals" where
  "approve_mutator tv project commands a =
     (let entry = (case bt_get (projects a) project of Some p \<Rightarrow> p | None \<Rightarrow> default_project);
          (cmds, changed) = add_commands tv commands (approved_commands entry) False
      in ((), changed, a\<lparr>projects := bt_put project (entry\<lparr>approved_commands := cmds\<rparr>) (projects a)\<rparr>))"

fun revoke_keys :: "string list \<Rightarrow> bool \<Rightarrow> approvals \<Rightarrow> bool \<times> approvals" where
  "revoke_keys [] changed a = (changed, a)"
| "revoke_keys (key # keys) changed a =
     revoke_keys keys
       (changed \<or> (case bt_get (projects a) key of Some p \<Rightarrow> approved_commands p \<noteq> [] | None \<Rightarrow> False))
       (a\<lparr>projects := bt_remove key (projects a)\<rparr>)"

definition revoke_mutator :: "project_id \<Rightarrow> approvals \<Rightarrow> unit \<times> bool \<times> approvals" where
  "revoke_mutator project a = ((), revoke_keys (exact_keys project) False a)"

fun retain_keys :: "string list \<Rightarrow> string list \<Rightarrow> approvals \<Rightarrow> approvals" where
  "retain_keys stale [] a = a"
| "retain_keys stale (key # keys) a =
     retain_keys stale keys
       (case bt_get (projects a) key of
          None \<Rightarrow> a
        | Some p \<Rightarrow>
            (let kept = filter (\<lambda>c. c \<notin> set stale) (approved_commands p) in
             if kept = [] then a\<lparr>projects := bt_remove key (projects a)\<rparr>
             else a\<lparr>projects := bt_put key (p\<lparr>approved_commands := kept\<rparr>) (projects a)\<rparr>))"

definition revoke_stale_mutator ::
  "template_parser \<Rightarrow> project_id \<Rightarrow> string list \<Rightarrow> approvals \<Rightarrow> string list \<times> bool \<times> approvals" where
  "revoke_stale_mutator tv project templates a =
     (let stale = stale_approvals tv a project templates in
      if stale = [] then ([], False, a)
      else (stale, True, retain_keys stale (exact_keys project) a))"

definition clear_mutator :: "approvals \<Rightarrow> unit \<times> bool \<times> approvals" where
  "clear_mutator a = (if projects a = [] then ((), False, a) else ((), True, a\<lparr>projects := []\<rparr>))"

section \<open>Loading, saving and the locked mutation\<close>

datatype message_site =
  StarIdentifier string | ReadApprovals | ReadConfig | AcquireLock | CreateDirectory | WriteFile

datatype config_error = Message message_site | Parse

record approvals_disk =
  approvals_toml :: "string option"
  config_toml :: "string option"

text \<open>
  \<open>parse_approvals\<close> and \<open>parse_config\<close> are \<open>toml::from_str\<close> at the two file types (\<open>parse_config\<close>
  keeps the \<open>approved-commands\<close> of each \<open>[projects]\<close> entry), \<open>render\<close> is the text of the
  \<open>toml_edit\<close> document built from the \<open>projects\<close> table (\<open>None\<close>: no such table), and the flags say
  which operating-system calls succeed.
\<close>

record store_io =
  parse_approvals :: "string \<Rightarrow> (string, approved_project) btree option"
  parse_config :: "string \<Rightarrow> (string, string list) btree option"
  render :: "(string \<times> string list) list option \<Rightarrow> string"
  read_ok :: bool
  lock_ok :: bool
  mkdir_ok :: bool
  write_ok :: bool

definition load_from_file :: "store_io \<Rightarrow> string \<Rightarrow> config_error + approvals" where
  "load_from_file io content =
     (if \<not> read_ok io then Inl (Message ReadApprovals)
      else case parse_approvals io content of
          None \<Rightarrow> Inl Parse
        | Some m \<Rightarrow> Inr \<lparr>projects = m\<rparr>)"

fun insert_nonempty :: "(string \<times> string list) list \<Rightarrow> (string, approved_project) btree \<Rightarrow> (string, approved_project) btree" where
  "insert_nonempty [] m = m"
| "insert_nonempty ((key, cmds) # es) m =
     insert_nonempty es (if cmds \<noteq> [] then bt_put key \<lparr>approved_commands = cmds\<rparr> m else m)"

definition load_from_config_file :: "store_io \<Rightarrow> string \<Rightarrow> config_error + approvals" where
  "load_from_config_file io content =
     (if \<not> read_ok io then Inl (Message ReadConfig)
      else case parse_config io content of
          None \<Rightarrow> Inl Parse
        | Some m \<Rightarrow> Inr \<lparr>projects = insert_nonempty m []\<rparr>)"

definition load_with_fallback :: "store_io \<Rightarrow> approvals_disk \<Rightarrow> config_error + approvals" where
  "load_with_fallback io disk =
     (case approvals_toml disk of
        Some content \<Rightarrow> load_from_file io content
      | None \<Rightarrow> (case config_toml disk of
            Some content \<Rightarrow> load_from_config_file io content
          | None \<Rightarrow> Inr default_approvals))"

definition saved_entries :: "approvals \<Rightarrow> (string \<times> string list) list" where
  "saved_entries a =
     map (\<lambda>(k, p). (k, approved_commands p)) (filter (\<lambda>(k, p). approved_commands p \<noteq> []) (projects a))"

definition file_text :: "store_io \<Rightarrow> approvals \<Rightarrow> string" where
  "file_text io a =
     (let output = render io (if projects a = [] then None else Some (saved_entries a))
      in if trim output = [] then [] else output)"

definition save_to :: "store_io \<Rightarrow> approvals \<Rightarrow> approvals_disk \<Rightarrow> (config_error + unit) \<times> approvals_disk" where
  "save_to io a disk =
     (if \<not> mkdir_ok io then (Inl (Message CreateDirectory), disk)
      else if \<not> write_ok io then (Inl (Message WriteFile), disk)
      else (Inr (), disk\<lparr>approvals_toml := Some (file_text io a)\<rparr>))"

definition with_locked_mutation ::
  "store_io \<Rightarrow> (approvals \<Rightarrow> 'r \<times> bool \<times> approvals) \<Rightarrow> approvals \<Rightarrow> approvals_disk
     \<Rightarrow> (config_error + 'r) \<times> approvals \<times> approvals_disk" where
  "with_locked_mutation io mutate self disk =
     (if \<not> lock_ok io then (Inl (Message AcquireLock), self, disk)
      else case load_with_fallback io disk of
          Inl e \<Rightarrow> (Inl e, self, disk)
        | Inr fresh \<Rightarrow>
            (let (r, changed, self') = mutate (self\<lparr>projects := projects fresh\<rparr>) in
             if changed then
               (case save_to io self' disk of
                  (Inl e, disk') \<Rightarrow> (Inl e, self', disk')
                | (Inr _, disk') \<Rightarrow> (Inr r, self', disk'))
             else (Inr r, self', disk)))"

definition approve_commands ::
  "store_io \<Rightarrow> template_parser \<Rightarrow> string \<Rightarrow> string list \<Rightarrow> approvals \<Rightarrow> approvals_disk
     \<Rightarrow> (config_error + unit) \<times> approvals \<times> approvals_disk" where
  "approve_commands io tv project commands self disk =
     (if has_star project then (Inl (Message (StarIdentifier project)), self, disk)
      else with_locked_mutation io (approve_mutator tv project commands) self disk)"

definition revoke_project ::
  "store_io \<Rightarrow> project_id \<Rightarrow> approvals \<Rightarrow> approvals_disk
     \<Rightarrow> (config_error + unit) \<times> approvals \<times> approvals_disk" where
  "revoke_project io project self disk = with_locked_mutation io (revoke_mutator project) self disk"

definition revoke_stale ::
  "store_io \<Rightarrow> template_parser \<Rightarrow> project_id \<Rightarrow> string list \<Rightarrow> approvals \<Rightarrow> approvals_disk
     \<Rightarrow> (config_error + string list) \<times> approvals \<times> approvals_disk" where
  "revoke_stale io tv project templates self disk =
     with_locked_mutation io (revoke_stale_mutator tv project templates) self disk"

definition clear_all ::
  "store_io \<Rightarrow> approvals \<Rightarrow> approvals_disk \<Rightarrow> (config_error + unit) \<times> approvals \<times> approvals_disk" where
  "clear_all io self disk = with_locked_mutation io clear_mutator self disk"

section \<open>What is approved, declaratively\<close>

definition key_applies :: "string \<Rightarrow> project_id \<Rightarrow> bool" where
  "key_applies k p \<longleftrightarrow> glob_spec k (current p)
     \<or> (case legacy p of Some l \<Rightarrow> glob_spec k l | None \<Rightarrow> False)"

definition covers :: "template_parser \<Rightarrow> approved_project option \<Rightarrow> string \<Rightarrow> bool" where
  "covers tv entry c \<longleftrightarrow> (case entry of
       None \<Rightarrow> False
     | Some e \<Rightarrow> normalize_template_vars tv c \<in> normalize_template_vars tv ` set (approved_commands e))"

lemma covers_simps [simp]:
  "\<not> covers tv None c"
  "covers tv (Some e) c \<longleftrightarrow> normalize_template_vars tv c \<in> normalize_template_vars tv ` set (approved_commands e)"
  by (simp_all add: covers_def)

lemma set_matching_key_names:
  "bt_inv m \<Longrightarrow> set (matching_key_names m p) = {k. bt_get m k \<noteq> None \<and> key_applies k p}"
  using ranked_keys_props(1)[of m "current p"]
  by (cases "legacy p")
    (auto simp: matching_key_names_def Let_def key_applies_def ranked_keys_props(1))

lemma approved_iff:
  assumes "store_ok a"
  shows "is_command_approved tv a p c \<longleftrightarrow> (\<exists>k. key_applies k p \<and> covers tv (bt_get (projects a) k) c)"
proof -
  let ?names = "matching_key_names (projects a) p"
  have per_key: "list_ex (\<lambda>c'. normalize_template_vars tv c' = normalize_template_vars tv c)
      (approved_commands (the (bt_get (projects a) k))) \<longleftrightarrow> covers tv (bt_get (projects a) k) c"
    if "k \<in> set ?names" for k
  proof -
    from that obtain v where "bt_get (projects a) k = Some v"
      using set_matching_key_names[OF assms, of p] by auto
    then show ?thesis by (auto simp: list_ex_iff image_iff intro: sym)
  qed
  have "is_command_approved tv a p c \<longleftrightarrow> (\<exists>k\<in>set ?names. covers tv (bt_get (projects a) k) c)"
    using per_key by (simp add: is_command_approved_def Let_def matching_keys_def list_ex_iff[of _ "map _ _"])
  then show ?thesis
    using set_matching_key_names[OF assms, of p] by (auto simp: covers_def split: option.splits)
qed

lemma literal_key_applies:
  "\<not> has_star k \<Longrightarrow> key_applies k p \<longleftrightarrow> k \<in> set (exact_keys p)"
  by (auto simp: key_applies_def exact_keys_def has_star_def contains_char_def glob_spec_literal
      split: option.splits)

subsection \<open>Adding commands\<close>

lemma add_commands_props:
  "add_commands tv cmds existing ch = (out, ch') \<Longrightarrow>
     (\<exists>new. out = existing @ new \<and> set new \<subseteq> set cmds)
     \<and> normalize_template_vars tv ` set out
         = normalize_template_vars tv ` set existing \<union> normalize_template_vars tv ` set cmds
     \<and> (ch' \<longleftrightarrow> ch \<or> out \<noteq> existing)"
proof (induction tv cmds existing ch rule: add_commands.induct)
  case (1 tv existing changed)
  then show ?case by simp
next
  case (2 tv command rest existing changed)
  let ?known = "list_ex (\<lambda>c. normalize_template_vars tv c = normalize_template_vars tv command) existing"
  show ?case
  proof (cases ?known)
    case True
    then have "normalize_template_vars tv command \<in> normalize_template_vars tv ` set existing"
      by (auto simp: list_ex_iff image_iff intro: sym)
    moreover have "add_commands tv rest existing changed = (out, ch')"
      using "2.prems" True by (simp add: Let_def)
    ultimately show ?thesis using "2.IH"(2)[OF refl] True by auto
  next
    case False
    have "add_commands tv rest (existing @ [command]) True = (out, ch')"
      using "2.prems" False by (simp add: Let_def)
    then show ?thesis using "2.IH"(1)[OF refl] False by auto
  qed
qed

lemma approve_mutator_get:
  assumes "store_ok a" and "approve_mutator tv project cmds a = (u, ch, a')"
  shows "store_ok a'"
    and "k \<noteq> project \<Longrightarrow> bt_get (projects a') k = bt_get (projects a) k"
    and "covers tv (bt_get (projects a') project) c \<longleftrightarrow>
           covers tv (bt_get (projects a) project) c
           \<or> normalize_template_vars tv c \<in> normalize_template_vars tv ` set cmds"
    and "\<not> ch \<Longrightarrow> covers tv (bt_get (projects a') k) c = covers tv (bt_get (projects a) k) c"
proof -
  let ?e = "case bt_get (projects a) project of Some p \<Rightarrow> p | None \<Rightarrow> default_project"
  obtain out ch' where ac: "add_commands tv cmds (approved_commands ?e) False = (out, ch')"
    by (metis prod.exhaust)
  have a': "a' = a\<lparr>projects := bt_put project (?e\<lparr>approved_commands := out\<rparr>) (projects a)\<rparr>" and ch: "ch = ch'"
    using assms(2) ac by (auto simp: approve_mutator_def Let_def)
  have old: "normalize_template_vars tv c \<in> normalize_template_vars tv ` set (approved_commands ?e)
      \<longleftrightarrow> covers tv (bt_get (projects a) project) c" for c
    by (auto simp: covers_def default_project_def split: option.splits)
  show "store_ok a'" using assms(1) a' by (simp add: bt_inv_put)
  show "k \<noteq> project \<Longrightarrow> bt_get (projects a') k = bt_get (projects a) k"
    using a' assms(1) by (simp add: bt.get_put_other)
  have get: "bt_get (projects a') project = Some (?e\<lparr>approved_commands := out\<rparr>)"
    using a' assms(1) by (simp add: bt.get_put_same)
  show here: "covers tv (bt_get (projects a') project) c \<longleftrightarrow>
           covers tv (bt_get (projects a) project) c
           \<or> normalize_template_vars tv c \<in> normalize_template_vars tv ` set cmds"
    using add_commands_props[OF ac] old[of c] get by auto
  show "\<not> ch \<Longrightarrow> covers tv (bt_get (projects a') k) c = covers tv (bt_get (projects a) k) c"
  proof -
    assume "\<not> ch"
    then have "out = approved_commands ?e" using add_commands_props[OF ac] ch by simp
    then have "covers tv (bt_get (projects a') project) c = covers tv (bt_get (projects a) project) c"
      using old[of c] get by simp
    then show ?thesis using a' assms(1) by (cases "k = project") (simp_all add: bt.get_put_other)
  qed
qed

lemma approve_mutator_approved:
  assumes "store_ok a" and "approve_mutator tv project cmds a = (u, ch, a')"
  shows "is_command_approved tv a' p c \<longleftrightarrow>
    is_command_approved tv a p c
    \<or> (key_applies project p \<and> normalize_template_vars tv c \<in> normalize_template_vars tv ` set cmds)"
proof -
  note g = approve_mutator_get[OF assms]
  have "(\<exists>k. key_applies k p \<and> covers tv (bt_get (projects a') k) c) \<longleftrightarrow>
    (\<exists>k. key_applies k p \<and> covers tv (bt_get (projects a) k) c)
    \<or> (key_applies project p \<and> normalize_template_vars tv c \<in> normalize_template_vars tv ` set cmds)"
    using g(2) g(3)[of c] by metis
  then show ?thesis using approved_iff[OF assms(1)] approved_iff[OF g(1)] by simp
qed

lemma approve_mutator_unchanged:
  assumes "store_ok a" and "approve_mutator tv project cmds a = (u, False, a')"
  shows "is_command_approved tv a' p c \<longleftrightarrow> is_command_approved tv a p c"
  using approve_mutator_get(1,4)[OF assms] approved_iff[OF assms(1)] approved_iff
  by (metis (full_types))

subsection \<open>Removing commands\<close>

lemma collect_stale_set:
  "set (collect_stale tv normalized cs stale)
     = set stale \<union> {c \<in> set cs. normalize_template_vars tv c \<notin> set normalized}"
  by (induction tv normalized cs stale rule: collect_stale.induct) auto

lemma set_stale_approvals:
  "set (stale_approvals tv a p templates) =
     {c \<in> set (exact_commands a p). normalize_template_vars tv c \<notin> normalize_template_vars tv ` set templates}"
  by (simp add: stale_approvals_def collect_stale_set)

definition retained :: "string list \<Rightarrow> approved_project option \<Rightarrow> approved_project option" where
  "retained stale entry = (case entry of
       None \<Rightarrow> None
     | Some p \<Rightarrow> (let kept = filter (\<lambda>c. c \<notin> set stale) (approved_commands p) in
                 if kept = [] then None else Some (p\<lparr>approved_commands := kept\<rparr>)))"

lemma retained_idem [simp]: "retained stale (retained stale e) = retained stale e"
  by (auto simp: retained_def Let_def split: option.splits)

lemma retain_keys_get:
  "store_ok a \<Longrightarrow> store_ok (retain_keys stale keys a)
     \<and> bt_get (projects (retain_keys stale keys a)) k =
         (if k \<in> set keys then retained stale (bt_get (projects a) k) else bt_get (projects a) k)"
proof (induction stale keys a rule: retain_keys.induct)
  case (1 stale a)
  then show ?case by simp
next
  case (2 stale key keys a)
  let ?a = "case bt_get (projects a) key of
          None \<Rightarrow> a
        | Some p \<Rightarrow>
            (let kept = filter (\<lambda>c. c \<notin> set stale) (approved_commands p) in
             if kept = [] then a\<lparr>projects := bt_remove key (projects a)\<rparr>
             else a\<lparr>projects := bt_put key (p\<lparr>approved_commands := kept\<rparr>) (projects a)\<rparr>)"
  have ok: "store_ok ?a"
    using "2.prems" by (auto simp: Let_def bt_inv_put bt_inv_remove split: option.splits)
  have get: "bt_get (projects ?a) k = (if k = key then retained stale (bt_get (projects a) k) else bt_get (projects a) k)"
    using "2.prems" by (auto simp: Let_def retained_def bt_get_put bt_get_remove split: option.splits)
  show ?case using "2.IH"[OF ok] get by auto
qed

lemma revoke_keys_get:
  "store_ok a \<Longrightarrow> revoke_keys keys ch a = (ch', a') \<Longrightarrow> store_ok a'
     \<and> bt_get (projects a') k = (if k \<in> set keys then None else bt_get (projects a) k)"
  by (induction keys ch a arbitrary: ch' a' rule: revoke_keys.induct)
    (auto simp: bt_inv_remove bt_get_remove split: if_splits)

lemma set_exact_commands:
  "set (exact_commands a p) = {c. \<exists>k\<in>set (exact_keys p). \<exists>e. bt_get (projects a) k = Some e \<and> c \<in> set (approved_commands e)}"
  by (auto simp: exact_commands_def set_filter_map)

lemma retained_commands:
  "(\<exists>e'. retained stale entry = Some e' \<and> c \<in> set (approved_commands e')) \<longleftrightarrow>
     (\<exists>e. entry = Some e \<and> c \<in> set (approved_commands e) \<and> c \<notin> set stale)"
  by (cases entry) (auto simp: retained_def Let_def filter_empty_conv)

section \<open>The locked mutation\<close>

definition io_ok :: "store_io \<Rightarrow> bool" where
  "io_ok io \<longleftrightarrow> read_ok io \<and> lock_ok io \<and> mkdir_ok io \<and> write_ok io"

text \<open>
  What the store relies on of TOML: a blank document has no projects, and reading back the
  document rendered from a \<open>projects\<close> table gives that table.
\<close>

definition toml_codec :: "store_io \<Rightarrow> bool" where
  "toml_codec io \<longleftrightarrow>
     (\<forall>t. trim t = [] \<longrightarrow> parse_approvals io t = Some [])
     \<and> parse_approvals io (render io None) = Some []
     \<and> (\<forall>es. sorted_wrt (<) (map fst es) \<and> (\<forall>e\<in>set es. snd e \<noteq> []) \<longrightarrow>
          parse_approvals io (render io (Some es)) = Some (map (\<lambda>(k, cs). (k, \<lparr>approved_commands = cs\<rparr>)) es))"

definition nonempty_projects :: "approvals \<Rightarrow> approvals" where
  "nonempty_projects a = a\<lparr>projects := filter (\<lambda>(k, p). approved_commands p \<noteq> []) (projects a)\<rparr>"

lemma decode_encode_entries:
  "map (\<lambda>(k, cs). (k, \<lparr>approved_commands = cs\<rparr>)) (map (\<lambda>(k, p). (k, approved_commands p)) es) = es"
  by (induction es) auto

lemma saved_entries_decode:
  "map (\<lambda>(k, cs). (k, \<lparr>approved_commands = cs\<rparr>)) (saved_entries a) = projects (nonempty_projects a)"
  unfolding saved_entries_def by (simp only: decode_encode_entries) (simp add: nonempty_projects_def)

lemma sorted_wrt_map_filter: "sorted_wrt R (map f xs) \<Longrightarrow> sorted_wrt R (map f (filter P xs))"
  by (induction xs) auto

lemma saved_entries_sorted:
  "store_ok a \<Longrightarrow> sorted_wrt (<) (map fst (saved_entries a)) \<and> (\<forall>e\<in>set (saved_entries a). snd e \<noteq> [])"
  by (auto simp: saved_entries_def bt_inv_def comp_def case_prod_unfold intro: sorted_wrt_map_filter)

lemma file_text_decode:
  assumes "toml_codec io" and "store_ok a"
  shows "parse_approvals io (file_text io a) = Some (projects (nonempty_projects a))"
proof (cases "projects a = []")
  case True
  then have "projects (nonempty_projects a) = []" by (simp add: nonempty_projects_def)
  moreover have "trim [] = []" by (simp add: trim_def trim_start_def trim_end_def)
  ultimately show ?thesis using True assms(1) by (simp add: file_text_def toml_codec_def Let_def)
next
  case False
  have "parse_approvals io (render io (Some (saved_entries a))) = Some (projects (nonempty_projects a))"
    using assms saved_entries_sorted[OF assms(2)] by (simp add: toml_codec_def saved_entries_decode)
  moreover have "parse_approvals io t = Some []" if "trim t = []" for t
    using assms(1) that by (simp add: toml_codec_def)
  moreover have "trim [] = []" by (simp add: trim_def trim_start_def trim_end_def)
  ultimately show ?thesis using False by (auto simp: file_text_def Let_def)
qed

lemma covers_drop_empty:
  assumes "\<And>e. x = Some e \<longleftrightarrow> y = Some e \<and> approved_commands e \<noteq> []"
  shows "covers tv x c \<longleftrightarrow> covers tv y c"
proof (cases x)
  case None
  then have "\<And>e. y = Some e \<Longrightarrow> approved_commands e = []" using assms by blast
  with None show ?thesis by (cases y) (auto simp: covers_def)
next
  case (Some e)
  then show ?thesis using assms[of e] by simp
qed

lemma nonempty_projects_get:
  assumes "store_ok a"
  shows "store_ok (nonempty_projects a)"
    and "covers tv (bt_get (projects (nonempty_projects a)) k) c \<longleftrightarrow> covers tv (bt_get (projects a) k) c"
proof -
  show ok: "store_ok (nonempty_projects a)"
    using assms by (simp add: bt_inv_def nonempty_projects_def sorted_wrt_map_filter)
  have "bt_get (projects (nonempty_projects a)) k = Some e \<longleftrightarrow>
      bt_get (projects a) k = Some e \<and> approved_commands e \<noteq> []" for e
    using bt.entries_get[OF ok, of k e] bt.entries_get[OF assms, of k e]
    by (simp add: nonempty_projects_def)
  then show "covers tv (bt_get (projects (nonempty_projects a)) k) c \<longleftrightarrow> covers tv (bt_get (projects a) k) c"
    by (rule covers_drop_empty)
qed

lemma approved_nonempty_projects:
  "store_ok a \<Longrightarrow> is_command_approved tv (nonempty_projects a) p c \<longleftrightarrow> is_command_approved tv a p c"
  using approved_iff nonempty_projects_get by metis

text \<open>What a process that loads the store next sees.\<close>

definition disk_holds :: "store_io \<Rightarrow> approvals_disk \<Rightarrow> approvals \<Rightarrow> bool" where
  "disk_holds io disk a \<longleftrightarrow> load_with_fallback io disk = Inr a \<and> store_ok a"

lemma projects_update_same: "self\<lparr>projects := projects a\<rparr> = a" for self a :: approvals
  by (cases self; cases a) simp

lemma locked_mutation_disk:
  assumes "io_ok io" and "toml_codec io" and "disk_holds io disk a"
    and "mutate a = (r, ch, a')" and "store_ok a'"
  shows "with_locked_mutation io mutate self disk =
      (Inr r, a', if ch then disk\<lparr>approvals_toml := Some (file_text io a')\<rparr> else disk)"
    and "ch \<Longrightarrow> disk_holds io (disk\<lparr>approvals_toml := Some (file_text io a')\<rparr>) (nonempty_projects a')"
proof -
  have "mutate (self\<lparr>projects := projects a\<rparr>) = (r, ch, a')"
    using assms(4) by (simp only: projects_update_same)
  then show "with_locked_mutation io mutate self disk =
      (Inr r, a', if ch then disk\<lparr>approvals_toml := Some (file_text io a')\<rparr> else disk)"
    using assms by (simp add: with_locked_mutation_def io_ok_def disk_holds_def save_to_def)
  show "ch \<Longrightarrow> disk_holds io (disk\<lparr>approvals_toml := Some (file_text io a')\<rparr>) (nonempty_projects a')"
    using assms(1,2,5) file_text_decode[OF assms(2,5)] nonempty_projects_get(1)[OF assms(5)]
    by (simp add: disk_holds_def load_with_fallback_def load_from_file_def io_ok_def)
qed

text \<open>
  Several processes, each with its own, possibly outdated, store in memory, approve commands one
  after the other under the lock.
\<close>

fun approve_run :: "store_io \<Rightarrow> template_parser \<Rightarrow> (approvals \<times> string \<times> string list) list \<Rightarrow> approvals_disk \<Rightarrow> approvals_disk" where
  "approve_run io tv [] disk = disk"
| "approve_run io tv ((self, project, cmds) # rest) disk =
     approve_run io tv rest (snd (snd (approve_commands io tv project cmds self disk)))"

lemma approve_step_disk:
  assumes "io_ok io" and "toml_codec io" and "disk_holds io disk a"
  shows "\<exists>a'. disk_holds io (snd (snd (approve_commands io tv project cmds self disk))) a'
    \<and> (\<forall>p c. is_command_approved tv a' p c \<longleftrightarrow> is_command_approved tv a p c
         \<or> (\<not> has_star project \<and> project \<in> set (exact_keys p)
              \<and> normalize_template_vars tv c \<in> normalize_template_vars tv ` set cmds))"
proof (cases "has_star project")
  case True
  then show ?thesis using assms(3) by (auto simp: approve_commands_def)
next
  case False
  obtain u ch a1 where m: "approve_mutator tv project cmds a = (u, ch, a1)" by (metis prod.exhaust)
  have ok: "store_ok a" using assms(3) by (simp add: disk_holds_def)
  have ok1: "store_ok a1" by (rule approve_mutator_get(1)[OF ok m])
  note L = locked_mutation_disk[where mutate = "approve_mutator tv project cmds", OF assms m ok1]
  have spec: "is_command_approved tv a1 p c \<longleftrightarrow> is_command_approved tv a p c
         \<or> (\<not> has_star project \<and> project \<in> set (exact_keys p)
              \<and> normalize_template_vars tv c \<in> normalize_template_vars tv ` set cmds)" for p c
    using approve_mutator_approved[OF ok m, of p c] literal_key_applies[OF False, of p] False by simp
  show ?thesis
  proof (cases ch)
    case True
    then have "disk_holds io (snd (snd (approve_commands io tv project cmds self disk))) (nonempty_projects a1)"
      using L False by (simp add: approve_commands_def)
    then show ?thesis using spec approved_nonempty_projects[OF ok1] by blast
  next
    case no: False
    then have "snd (snd (approve_commands io tv project cmds self disk)) = disk"
      using L(1) False by (simp add: approve_commands_def)
    moreover have "is_command_approved tv a1 p c \<longleftrightarrow> is_command_approved tv a p c" for p c
      using approve_mutator_unchanged[OF ok] m no by metis
    ultimately show ?thesis using spec assms(3) by metis
  qed
qed

lemma approve_run_disk:
  assumes "io_ok io" and "toml_codec io" and "disk_holds io disk a"
  shows "\<exists>a'. disk_holds io (approve_run io tv run disk) a'
    \<and> (\<forall>p c. is_command_approved tv a' p c \<longleftrightarrow> is_command_approved tv a p c
         \<or> (\<exists>(self, project, cmds)\<in>set run. \<not> has_star project \<and> project \<in> set (exact_keys p)
              \<and> normalize_template_vars tv c \<in> normalize_template_vars tv ` set cmds))"
  using assms(3)
proof (induction run arbitrary: disk a)
  case Nil
  then show ?case by auto
next
  case (Cons r run)
  obtain self project cmds where r: "r = (self, project, cmds)" by (metis prod.exhaust)
  obtain a1 where a1: "disk_holds io (snd (snd (approve_commands io tv project cmds self disk))) a1"
    and s1: "\<And>p c. is_command_approved tv a1 p c \<longleftrightarrow> is_command_approved tv a p c
         \<or> (\<not> has_star project \<and> project \<in> set (exact_keys p)
              \<and> normalize_template_vars tv c \<in> normalize_template_vars tv ` set cmds)"
    using approve_step_disk[OF assms(1,2) Cons.prems, of tv project cmds self] by blast
  from Cons.IH[OF a1] s1 show ?case by (auto simp: r)
qed

subsection \<open>Counting and patterns\<close>

definition covers_nothing :: "approved_project option \<Rightarrow> bool" where
  "covers_nothing entry \<longleftrightarrow> (case entry of None \<Rightarrow> True | Some e \<Rightarrow> approved_commands e = [])"

lemma exact_approval_count_0:
  "exact_approval_count a p = 0 \<longleftrightarrow> (\<forall>k\<in>set (exact_keys p). covers_nothing (bt_get (projects a) k))"
  by (auto simp: exact_approval_count_def set_filter_map covers_nothing_def split: option.splits)

lemma revoke_keys_changed:
  "revoke_keys keys ch a = (ch', a') \<Longrightarrow>
     ch' \<longleftrightarrow> ch \<or> (\<exists>k\<in>set keys. \<not> covers_nothing (bt_get (projects a) k))"
proof (induction keys ch a rule: revoke_keys.induct)
  case (1 changed a)
  then show ?case by simp
next
  case (2 key keys changed a)
  then show ?case by (auto simp: bt_get_remove covers_nothing_def split: option.splits if_splits)
qed

lemma pattern_key_listed:
  assumes "store_ok a" and "has_star k" and "key_applies k p" and "covers tv (bt_get (projects a) k) c"
  shows "matching_pattern_keys a p \<noteq> []"
proof -
  from assms(4) obtain e where e: "bt_get (projects a) k = Some e"
    and "normalize_template_vars tv c \<in> normalize_template_vars tv ` set (approved_commands e)"
    by (auto simp: covers_def split: option.splits)
  then have ne: "approved_commands e \<noteq> []" by auto
  have "list_ex (glob_matches k) (exact_keys p)"
    using assms(3) by (auto simp: key_applies_def exact_keys_def glob_matches_iff split: option.splits)
  moreover have "(k, e) \<in> set (projects a)" using e by (rule map_of_SomeD)
  ultimately show ?thesis using assms(2) ne by (force simp: matching_pattern_keys_def filter_empty_conv)
qed

section \<open>A concrete codec\<close>

text \<open>
  An instance of the TOML parameter, for the witnesses: strings, lists of strings and tables in a
  tagged format that reads back, with a blank text for an empty table.
\<close>

definition enc_str :: "string \<Rightarrow> string" where
  "enc_str s = concat (map (\<lambda>c. [CHR ''c'', c]) s) @ ''.''"

fun dec_str :: "string \<Rightarrow> (string \<times> string) option" where
  "dec_str [] = None"
| "dec_str [t] = (if t = CHR ''.'' then Some ([], []) else None)"
| "dec_str (t # c # r) =
     (if t = CHR ''.'' then Some ([], c # r) else map_option (\<lambda>(s, q). (c # s, q)) (dec_str r))"

definition enc_list :: "('a \<Rightarrow> string) \<Rightarrow> 'a list \<Rightarrow> string" where
  "enc_list e xs = concat (map (\<lambda>x. ''+'' @ e x) xs) @ ''-''"

fun dec_list :: "(string \<Rightarrow> ('a \<times> string) option) \<Rightarrow> nat \<Rightarrow> string \<Rightarrow> ('a list \<times> string) option" where
  "dec_list d 0 t = None"
| "dec_list d (Suc n) [] = None"
| "dec_list d (Suc n) (t # r) =
     (if t = CHR ''-'' then Some ([], r)
      else case d r of None \<Rightarrow> None
        | Some (x, q) \<Rightarrow> map_option (\<lambda>(xs, q'). (x # xs, q')) (dec_list d n q))"

definition enc_entry :: "string \<times> string list \<Rightarrow> string" where
  "enc_entry e = enc_list enc_str (fst e # snd e)"

definition dec_entry :: "string \<Rightarrow> ((string \<times> string list) \<times> string) option" where
  "dec_entry t = (case dec_list dec_str (length t) t of Some (k # cs, q) \<Rightarrow> Some ((k, cs), q) | _ \<Rightarrow> None)"

definition tagged_io :: store_io where
  "tagged_io = \<lparr>
     parse_approvals = (\<lambda>t. if starts_with t ''+''
        then map_option (\<lambda>(es, _). map (\<lambda>(k, cs). (k, \<lparr>approved_commands = cs\<rparr>)) es) (dec_list dec_entry (length t) t)
        else Some []),
     parse_config = (\<lambda>t. None),
     render = (\<lambda>t. case t of None \<Rightarrow> [] | Some es \<Rightarrow> if es = [] then [] else enc_list enc_entry es),
     read_ok = True, lock_ok = True, mkdir_ok = True, write_ok = True\<rparr>"

lemma dec_enc_str: "dec_str (enc_str s @ q) = Some (s, q)"
proof (induction s)
  case Nil
  then show ?case by (cases q) (simp_all add: enc_str_def)
next
  case (Cons c s)
  then show ?case by (simp add: enc_str_def)
qed

lemma dec_enc_list:
  assumes "\<And>x q. d (e x @ q) = Some (x, q)" and "length xs < n"
  shows "dec_list d n (enc_list e xs @ q) = Some (xs, q)"
  using assms(2)
proof (induction xs arbitrary: n)
  case Nil
  then show ?case by (cases n) (simp_all add: enc_list_def)
next
  case (Cons x xs)
  then obtain m where n: "n = Suc m" "length xs < m" by (cases n) auto
  have "enc_list e (x # xs) @ q = CHR ''+'' # e x @ (enc_list e xs @ q)" by (simp add: enc_list_def)
  with Cons.IH[OF n(2)] n(1) show ?case by (simp add: assms(1))
qed

lemma length_enc_list: "length xs < length (enc_list e xs)"
  unfolding enc_list_def by (induction xs) auto

lemma dec_enc_entry: "dec_entry (enc_entry x @ q) = Some (x, q)"
proof -
  have "length (fst x # snd x) < length (enc_entry x @ q)"
    unfolding enc_entry_def using length_enc_list[of "fst x # snd x" enc_str] by simp
  then have "dec_list dec_str (length (enc_entry x @ q)) (enc_entry x @ q) = Some (fst x # snd x, q)"
    unfolding enc_entry_def by (intro dec_enc_list dec_enc_str)
  then show ?thesis by (simp add: dec_entry_def)
qed

lemma drop_leading_empty:
  "drop_leading ws s = [] \<Longrightarrow> s = [] \<or> (\<exists>w\<in>set ws. w \<noteq> [] \<and> ends_with s w)"
proof (induction ws s rule: drop_leading.induct)
  case (1 ws s)
  show ?case
  proof (cases "find (\<lambda>w. w \<noteq> [] \<and> starts_with s w) ws")
    case None
    with "1.prems" show ?thesis by (simp add: drop_leading.simps[of ws s])
  next
    case (Some w)
    then have w: "w \<in> set ws" "w \<noteq> []" "starts_with s w" by (auto simp: find_Some_iff)
    then obtain t where t: "s = w @ t" by (auto simp: starts_with_iff)
    have "drop_leading ws s = drop_leading ws (drop (length w) s)"
      using Some by (simp add: drop_leading.simps[of ws s])
    with "1.prems" t have "drop_leading ws t = []" by simp
    with "1.IH"[OF Some] t have "t = [] \<or> (\<exists>w\<in>set ws. w \<noteq> [] \<and> ends_with t w)" by simp
    with w t show ?thesis by (auto simp: ends_with_iff)
  qed
qed

lemma trim_plus_nonempty: "trim (CHR ''+'' # r) \<noteq> []"
proof
  assume e: "trim (CHR ''+'' # r) = []"
  have "\<forall>w\<in>set ws_encodings. hd w \<noteq> CHR ''+''" by code_simp
  then have start: "\<forall>w\<in>set ws_encodings. w = [] \<or> \<not> starts_with (CHR ''+'' # r) w"
    by (metis append_is_Nil_conv hd_append2 list.sel(1) starts_with_iff)
  then have "trim_start (CHR ''+'' # r) = CHR ''+'' # r"
    unfolding trim_start_def by (rule drop_leading_done)
  with e have "drop_leading (map rev ws_encodings) (rev (CHR ''+'' # r)) = []"
    by (simp add: trim_def trim_end_def)
  from drop_leading_empty[OF this] obtain w where
    "w \<in> set ws_encodings" "w \<noteq> []" "ends_with (rev (CHR ''+'' # r)) (rev w)" by auto
  then have "starts_with (CHR ''+'' # r) w" unfolding ends_with_def rev_rev_ident by simp
  with start \<open>w \<in> set ws_encodings\<close> \<open>w \<noteq> []\<close> show False by blast
qed

lemma tagged_io_codec: "toml_codec tagged_io"
  unfolding toml_codec_def
proof (intro conjI allI impI)
  show "trim t = [] \<Longrightarrow> parse_approvals tagged_io t = Some []" for t
    using trim_plus_nonempty by (auto simp: tagged_io_def starts_with_iff)
  show "parse_approvals tagged_io (render tagged_io None) = Some []"
    by (simp add: tagged_io_def starts_with_iff)
  fix es :: "(string \<times> string list) list"
  show "parse_approvals tagged_io (render tagged_io (Some es)) = Some (map (\<lambda>(k, cs). (k, \<lparr>approved_commands = cs\<rparr>)) es)"
  proof (cases es)
    case Nil
    then show ?thesis by (simp add: tagged_io_def starts_with_iff)
  next
    case (Cons x xs)
    have "starts_with (enc_list enc_entry es) ''+''" by (simp add: Cons enc_list_def starts_with_def)
    moreover have "dec_list dec_entry (length (enc_list enc_entry es)) (enc_list enc_entry es @ []) = Some (es, [])"
      by (intro dec_enc_list dec_enc_entry length_enc_list)
    ultimately show ?thesis using Cons by (simp add: tagged_io_def)
  qed
qed

section \<open>Properties\<close>



text \<open>
  after \<open>revoke_project\<close> the exact keys of the project hold nothing, other projects' entries
  are untouched, and a command that is still approved is covered by a hand-written pattern that
  \<open>matching_pattern_keys\<close> names.
\<close>

theorem revoke_project_traceable:
  assumes "store_ok a" and "\<not> list_ex has_star (exact_keys p)" and "revoke_mutator p a = (u, ch, a')"
  shows "exact_approval_count a' p = 0
    \<and> ch = (exact_approval_count a p \<noteq> 0)
    \<and> (\<forall>k. k \<notin> set (exact_keys p) \<longrightarrow> bt_get (projects a') k = bt_get (projects a) k)
    \<and> (is_command_approved tv a' p c \<longrightarrow> matching_pattern_keys a' p \<noteq> [])"
proof (intro conjI impI)
  have rk: "revoke_keys (exact_keys p) False a = (ch, a')"
    using assms(3) by (simp add: revoke_mutator_def)
  have get: "bt_get (projects a') k = (if k \<in> set (exact_keys p) then None else bt_get (projects a) k)" for k
    using revoke_keys_get[OF assms(1) rk] by blast
  have ok: "store_ok a'" using revoke_keys_get[OF assms(1) rk] by blast
  show "exact_approval_count a' p = 0" using get by (simp add: exact_approval_count_0 covers_nothing_def)
  show "ch = (exact_approval_count a p \<noteq> 0)"
    using revoke_keys_changed[OF rk] by (auto simp: exact_approval_count_0 covers_nothing_def split: option.splits)
  show "\<forall>k. k \<notin> set (exact_keys p) \<longrightarrow> bt_get (projects a') k = bt_get (projects a) k" by (simp add: get)
  assume "is_command_approved tv a' p c"
  then obtain k where k: "key_applies k p" "covers tv (bt_get (projects a') k) c"
    using approved_iff[OF ok] by blast
  then have "k \<notin> set (exact_keys p)" using get by auto
  then have "has_star k" using k(1) literal_key_applies by blast
  then show "matching_pattern_keys a' p \<noteq> []" using pattern_key_listed[OF ok] k by blast
qed

theorem revoke_project_traceable_witness:
  "\<exists>ch a'. revoke_mutator (with_legacy ''h/r'' (Some ''H/r''))
        \<lparr>projects = [(''H/r'', \<lparr>approved_commands = [''ls'']\<rparr>), (''h/*'', \<lparr>approved_commands = [''make'']\<rparr>)]\<rparr> = ((), ch, a')
    \<and> exact_approval_count a' (with_legacy ''h/r'' (Some ''H/r'')) = 0
    \<and> matching_pattern_keys a' (with_legacy ''h/r'' (Some ''H/r'')) \<noteq> []"
proof -
  let ?a = "\<lparr>projects = [(''H/r'', \<lparr>approved_commands = [''ls'']\<rparr>), (''h/*'', \<lparr>approved_commands = [''make'']\<rparr>)]\<rparr>"
  let ?p = "with_legacy ''h/r'' (Some ''H/r'')"
  let ?a' = "\<lparr>projects = [(''h/*'', \<lparr>approved_commands = [''make'']\<rparr>)]\<rparr>"
  have ok: "store_ok ?a" by code_simp
  have st: "\<not> list_ex has_star (exact_keys ?p)" by code_simp
  have run: "revoke_mutator ?p ?a = ((), True, ?a')" by code_simp
  have "is_command_approved (\<lambda>_. None) ?a' ?p ''make''" by code_simp
  with revoke_project_traceable[OF ok st run, of "\<lambda>_. None" "''make''"] run show ?thesis by blast
qed

text \<open>
  \<open>revoke_stale\<close> returns exactly the commands saved under the project's exact keys that match
  no current template, removes exactly those, and leaves nothing stale; entries under any other
  key, patterns included, are untouched, and every command of the current templates that was
  approved still is.
\<close>

theorem revoke_stale_exact:
  assumes "store_ok a" and "revoke_stale_mutator tv p templates a = (removed, ch, a')"
  shows "set removed = {c \<in> set (exact_commands a p). normalize_template_vars tv c \<notin> normalize_template_vars tv ` set templates}
    \<and> ch = (removed \<noteq> [])
    \<and> set (exact_commands a' p) = set (exact_commands a p) - set removed
    \<and> stale_approvals tv a' p templates = []
    \<and> (\<forall>k. k \<notin> set (exact_keys p) \<longrightarrow> bt_get (projects a') k = bt_get (projects a) k)
    \<and> (\<forall>c\<in>set templates. is_command_approved tv a' p c = is_command_approved tv a p c)"
proof -
  let ?st = "stale_approvals tv a p templates"
  have rem: "removed = ?st" and ch: "ch = (?st \<noteq> [])"
    and a': "a' = (if ?st = [] then a else retain_keys ?st (exact_keys p) a)"
    using assms(2) by (auto simp: revoke_stale_mutator_def Let_def split: if_splits)
  note S = set_stale_approvals[of tv a p templates]
  have frame: "store_ok a' \<and> (\<forall>k. k \<notin> set (exact_keys p) \<longrightarrow> bt_get (projects a') k = bt_get (projects a) k)
    \<and> (\<forall>k\<in>set (exact_keys p). \<forall>c. (\<exists>e. bt_get (projects a') k = Some e \<and> c \<in> set (approved_commands e)) \<longleftrightarrow>
         (\<exists>e. bt_get (projects a) k = Some e \<and> c \<in> set (approved_commands e) \<and> c \<notin> set ?st))"
    using assms(1) retain_keys_get[OF assms(1), of ?st "exact_keys p"] retained_commands[of ?st]
    by (cases "?st = []") (auto simp: a')
  have ex: "set (exact_commands a' p) = set (exact_commands a p) - set ?st"
    using frame by (fastforce simp: set_exact_commands)
  moreover have "set (stale_approvals tv a' p templates) = {}"
    using S ex by (auto simp: set_stale_approvals)
  moreover have "is_command_approved tv a' p c = is_command_approved tv a p c" if "c \<in> set templates" for c
  proof -
    have "covers tv (bt_get (projects a') k) c = covers tv (bt_get (projects a) k) c" for k
    proof (cases "k \<in> set (exact_keys p)")
      case True
      have cov: "covers tv x c \<longleftrightarrow> (\<exists>d. normalize_template_vars tv d = normalize_template_vars tv c
          \<and> (\<exists>e. x = Some e \<and> d \<in> set (approved_commands e)))" for x
        by (cases x) (auto simp: image_iff intro: sym)
      have "normalize_template_vars tv d = normalize_template_vars tv c \<Longrightarrow> d \<notin> set ?st" for d
        using S that by auto
      with frame True show ?thesis unfolding cov by blast
    next
      case False
      with frame show ?thesis by simp
    qed
    then show ?thesis using approved_iff assms(1) frame by metis
  qed
  ultimately show ?thesis using S rem ch frame by auto
qed

theorem revoke_stale_exact_witness:
  "\<exists>a'. revoke_stale_mutator (\<lambda>_. None) (with_legacy ''h/r'' None) [''make'']
        \<lparr>projects = [(''h/r'', \<lparr>approved_commands = [''ls'', ''make'']\<rparr>)]\<rparr> = ([''ls''], True, a')
    \<and> set (exact_commands a' (with_legacy ''h/r'' None)) = {''make''}"
proof -
  let ?a = "\<lparr>projects = [(''h/r'', \<lparr>approved_commands = [''ls'', ''make'']\<rparr>)]\<rparr>"
  let ?p = "with_legacy ''h/r'' None"
  let ?a' = "\<lparr>projects = [(''h/r'', \<lparr>approved_commands = [''make'']\<rparr>)]\<rparr>"
  have ok: "store_ok ?a" by code_simp
  have run: "revoke_stale_mutator (\<lambda>_. None) ?p [''make''] ?a = ([''ls''], True, ?a')" by code_simp
  have "set (exact_commands ?a ?p) = {''ls'', ''make''}" by code_simp
  with revoke_stale_exact[OF ok run] run show ?thesis by auto
qed

end
