(* ===== verification/Integration_Check.thy ===== *)
theory Integration_Check
  imports Prelude
begin

text \<open>
  The vocabulary of integration (\<open>src/git/mod.rs\<close>): why a branch counts as integrated
  (\<open>IntegrationReason\<close>), the signals the checks leave behind (\<open>IntegrationSignals\<close>, \<open>None\<close> for a
  signal that is unknown), and the priority check over them that \<open>wt list\<close>, \<open>wt remove\<close> and
  \<open>wt merge\<close> share (\<open>check_integration\<close>).
\<close>

section \<open>Glyphs\<close>

text \<open>Glyphs outside ASCII are written as their UTF-8 bytes.\<close>

definition utf8 :: "nat list \<Rightarrow> string" where
  "utf8 bs = map char_of bs"

lemma utf8_Nil_iff [simp]: "utf8 bs = [] \<longleftrightarrow> bs = []"
  by (simp add: utf8_def)

section \<open>Reasons and signals\<close>

datatype integration_reason =
    Same_Commit_As | Ancestor | No_Added_Changes | Trees_Match | Merge_Adds_Nothing | Patch_Id_Match

fun reason_description :: "integration_reason \<Rightarrow> string" where
  "reason_description Same_Commit_As = ''same commit as''"
| "reason_description Ancestor = ''ancestor of''"
| "reason_description No_Added_Changes = ''no added changes on''"
| "reason_description Trees_Match = ''tree matches''"
| "reason_description Merge_Adds_Nothing = ''all changes in''"
| "reason_description Patch_Id_Match = ''all changes in''"

definition reason_symbol :: "integration_reason \<Rightarrow> string" where
  "reason_symbol r = (if r = Same_Commit_As then ''_'' else utf8 [0xE2, 0x8A, 0x82])"

record integration_signals =
  is_same_commit :: "bool option"
  sig_is_ancestor :: "bool option"
  has_added_changes :: "bool option"
  trees_match :: "bool option"
  sig_would_merge_add :: "bool option"
  sig_is_patch_id_match :: "bool option"

definition default_signals :: integration_signals where
  "default_signals =
     \<lparr>is_same_commit = None, sig_is_ancestor = None, has_added_changes = None, trees_match = None,
      sig_would_merge_add = None, sig_is_patch_id_match = None\<rparr>"

definition check_integration :: "integration_signals \<Rightarrow> integration_reason option" where
  "check_integration s =
     (if is_same_commit s = Some True then Some Same_Commit_As
      else if sig_is_ancestor s = Some True then Some Ancestor
      else if has_added_changes s = Some False then Some No_Added_Changes
      else if trees_match s = Some True then Some Trees_Match
      else if sig_would_merge_add s = Some False then Some Merge_Adds_Nothing
      else if sig_is_patch_id_match s = Some True then Some Patch_Id_Match
      else None)"

section \<open>More information never retracts a verdict\<close>

text \<open>\<open>m \<sqsubseteq> n\<close>: whatever \<open>m\<close> knows, \<open>n\<close> knows too.\<close>

definition opt_le :: "'a option \<Rightarrow> 'a option \<Rightarrow> bool" where
  "opt_le m n \<longleftrightarrow> (\<forall>x. m = Some x \<longrightarrow> n = Some x)"

lemma opt_leD: "opt_le m n \<Longrightarrow> m = Some x \<Longrightarrow> n = Some x"
  by (simp add: opt_le_def)

lemma opt_le_refl [simp]: "opt_le m m"
  by (simp add: opt_le_def)

lemma opt_le_None [simp]: "opt_le None n"
  by (simp add: opt_le_def)

lemma opt_le_trans: "opt_le a b \<Longrightarrow> opt_le b c \<Longrightarrow> opt_le a c"
  by (simp add: opt_le_def)

lemma opt_le_Some [simp]: "opt_le (Some x) n \<longleftrightarrow> n = Some x"
  by (auto simp: opt_le_def)

lemma opt_le_map: "opt_le m n \<Longrightarrow> opt_le (map_option f m) (map_option f n)"
  by (auto simp: opt_le_def)

definition signals_le :: "integration_signals \<Rightarrow> integration_signals \<Rightarrow> bool" where
  "signals_le s t \<longleftrightarrow> opt_le (is_same_commit s) (is_same_commit t)
     \<and> opt_le (sig_is_ancestor s) (sig_is_ancestor t)
     \<and> opt_le (has_added_changes s) (has_added_changes t)
     \<and> opt_le (trees_match s) (trees_match t)
     \<and> opt_le (sig_would_merge_add s) (sig_would_merge_add t)
     \<and> opt_le (sig_is_patch_id_match s) (sig_is_patch_id_match t)"

definition signals_known :: "integration_signals \<Rightarrow> bool" where
  "signals_known s \<longleftrightarrow> is_same_commit s \<noteq> None \<and> sig_is_ancestor s \<noteq> None
     \<and> has_added_changes s \<noteq> None \<and> trees_match s \<noteq> None
     \<and> sig_would_merge_add s \<noteq> None \<and> sig_is_patch_id_match s \<noteq> None"

definition signals_integrated :: "integration_signals \<Rightarrow> bool" where
  "signals_integrated s \<longleftrightarrow> is_same_commit s = Some True \<or> sig_is_ancestor s = Some True
     \<or> has_added_changes s = Some False \<or> trees_match s = Some True
     \<or> sig_would_merge_add s = Some False \<or> sig_is_patch_id_match s = Some True"

lemma check_integration_None_iff: "check_integration s = None \<longleftrightarrow> \<not> signals_integrated s"
  by (auto simp: check_integration_def signals_integrated_def)

lemma signals_integrated_mono: "signals_le s t \<Longrightarrow> signals_integrated s \<Longrightarrow> signals_integrated t"
  by (auto simp: signals_le_def signals_integrated_def opt_le_def)

lemma check_integration_mono:
  "signals_le s t \<Longrightarrow> check_integration s \<noteq> None \<Longrightarrow> check_integration t \<noteq> None"
  using signals_integrated_mono by (simp add: check_integration_None_iff)

lemma opt_le_known: "opt_le m n \<Longrightarrow> m \<noteq> None \<Longrightarrow> n = m"
  by (auto simp: opt_le_def)

lemma signals_le_known: "signals_le s t \<Longrightarrow> signals_known s \<Longrightarrow> t = s"
  by (cases s; cases t) (auto simp: signals_le_def signals_known_def)

text \<open>How strong a reason is, in the order of the checks.\<close>

fun reason_rank :: "integration_reason \<Rightarrow> nat" where
  "reason_rank Same_Commit_As = 0"
| "reason_rank Ancestor = 1"
| "reason_rank No_Added_Changes = 2"
| "reason_rank Trees_Match = 3"
| "reason_rank Merge_Adds_Nothing = 4"
| "reason_rank Patch_Id_Match = 5"

lemma check_integration_refines:
  assumes "signals_le s t" and "check_integration s = Some r"
  shows "\<exists>r'. check_integration t = Some r' \<and> reason_rank r' \<le> reason_rank r"
  using assms
  by (auto simp: check_integration_def signals_le_def opt_le_def split: if_splits)

end
