(* ===== verification/List_State.thy ===== *)
theory List_State
  imports Integration_Check
begin

text \<open>
  The state enumerations of \<open>wt list\<close> (\<open>src/commands/list/model/state.rs\<close>, \<open>stats.rs\<close>) and the rendering
  of the Status column (\<open>status_symbols.rs\<close>): the divergence from the upstream, the worktree state,
  the relationship to the default branch with its tiers, the operation in progress, the working-tree
  flags, and the seven positions of the Status cell.

  \<open>color_print\<close>'s markup is the parameter \<open>paint\<close>, and the display width of a string (\<open>ansi_str\<close> and
  \<open>unicode_width\<close>) the parameter \<open>vwidth\<close>.
\<close>

datatype markup = Dim | Yellow | Red | Cyan

type_synonym painter = "markup \<Rightarrow> string \<Rightarrow> string"

section \<open>Counts and upstream status (\<open>stats.rs\<close>)\<close>

record ahead_behind =
  ahead :: nat
  behind :: nat

record line_diff =
  added :: nat
  deleted :: nat

definition diff_is_empty :: "line_diff \<Rightarrow> bool" where
  "diff_is_empty d \<longleftrightarrow> added d = 0 \<and> deleted d = 0"

record upstream_status =
  us_remote :: "string option"
  us_short :: "string option"
  us_ahead :: nat
  us_behind :: nat

record active_upstream =
  au_remote :: string
  au_branch :: "string option"
  au_ahead :: nat
  au_behind :: nat

definition default_upstream :: upstream_status where
  "default_upstream = \<lparr>us_remote = None, us_short = None, us_ahead = 0, us_behind = 0\<rparr>"

definition active :: "upstream_status \<Rightarrow> active_upstream option" where
  "active u = map_option (\<lambda>remote.
     \<lparr>au_remote = remote,
      au_branch = Option.bind (Option.bind (us_short u) (\<lambda>short. strip_prefix short remote))
                    (\<lambda>rest. strip_prefix rest ''/''),
      au_ahead = us_ahead u, au_behind = us_behind u\<rparr>) (us_remote u)"

section \<open>Upstream divergence\<close>

datatype divergence = Div_None | In_Sync | Div_Ahead | Div_Behind | Div_Diverged

fun from_counts_with_remote :: "nat \<Rightarrow> nat \<Rightarrow> divergence" where
  "from_counts_with_remote a b =
     (if a = 0 \<and> b = 0 then In_Sync else if b = 0 then Div_Ahead
      else if a = 0 then Div_Behind else Div_Diverged)"

fun divergence_symbol :: "divergence \<Rightarrow> string" where
  "divergence_symbol Div_None = []"
| "divergence_symbol In_Sync = ''|''"
| "divergence_symbol Div_Ahead = utf8 [0xE2, 0x87, 0xA1]"
| "divergence_symbol Div_Behind = utf8 [0xE2, 0x87, 0xA3]"
| "divergence_symbol Div_Diverged = utf8 [0xE2, 0x87, 0x85]"

definition divergence_styled :: "painter \<Rightarrow> divergence \<Rightarrow> string option" where
  "divergence_styled paint d = (if d = Div_None then None else Some (paint Dim (divergence_symbol d)))"

section \<open>Worktree state\<close>

datatype worktree_state =
    WS_None | Branch_Worktree_Mismatch | Duplicate_Branch | Detached | Prunable | Locked | WS_Branch

fun worktree_state_glyph :: "worktree_state \<Rightarrow> string" where
  "worktree_state_glyph WS_None = []"
| "worktree_state_glyph Branch_Worktree_Mismatch = utf8 [0xE2, 0x9A, 0x90]"
| "worktree_state_glyph Duplicate_Branch = utf8 [0xE2, 0x9A, 0x90]"
| "worktree_state_glyph Detached = utf8 [0xE2, 0x8A, 0x98]"
| "worktree_state_glyph Prunable = utf8 [0xE2, 0x8A, 0x9F]"
| "worktree_state_glyph Locked = utf8 [0xE2, 0x8A, 0x9E]"
| "worktree_state_glyph WS_Branch = ''/''"

section \<open>Relationship to the default branch\<close>

datatype main_state =
    Main_None | Is_Main | Would_Conflict | Main_Empty | Same_Commit
  | Integrated integration_reason | Orphan | Main_Diverged | Main_Ahead | Main_Behind

fun main_state_glyph :: "main_state \<Rightarrow> string" where
  "main_state_glyph Main_None = []"
| "main_state_glyph Is_Main = ''^''"
| "main_state_glyph Would_Conflict = utf8 [0xE2, 0x9C, 0x97]"
| "main_state_glyph Main_Empty = ''_''"
| "main_state_glyph Same_Commit = utf8 [0xE2, 0x80, 0x93]"
| "main_state_glyph (Integrated _) = utf8 [0xE2, 0x8A, 0x82]"
| "main_state_glyph Orphan = utf8 [0xE2, 0x88, 0x85]"
| "main_state_glyph Main_Diverged = utf8 [0xE2, 0x86, 0x95]"
| "main_state_glyph Main_Ahead = utf8 [0xE2, 0x86, 0x91]"
| "main_state_glyph Main_Behind = utf8 [0xE2, 0x86, 0x93]"

definition main_state_styled :: "painter \<Rightarrow> main_state \<Rightarrow> string option" where
  "main_state_styled paint ms =
     (case ms of
        Main_None \<Rightarrow> None
      | Would_Conflict \<Rightarrow> Some (paint Yellow (main_state_glyph ms))
      | _ \<Rightarrow> Some (paint Dim (main_state_glyph ms)))"

definition main_integration_reason :: "main_state \<Rightarrow> integration_reason option" where
  "main_integration_reason ms = (case ms of Integrated reason \<Rightarrow> Some reason | _ \<Rightarrow> None)"

fun main_state_name :: "main_state \<Rightarrow> string" where
  "main_state_name Main_None = []"
| "main_state_name Is_Main = ''is_main''"
| "main_state_name Would_Conflict = ''would_conflict''"
| "main_state_name Main_Empty = ''empty''"
| "main_state_name Same_Commit = ''same_commit''"
| "main_state_name (Integrated _) = ''integrated''"
| "main_state_name Orphan = ''orphan''"
| "main_state_name Main_Diverged = ''diverged''"
| "main_state_name Main_Ahead = ''ahead''"
| "main_state_name Main_Behind = ''behind''"

definition main_as_json_str :: "main_state \<Rightarrow> string option" where
  "main_as_json_str ms = (let s = main_state_name ms in if s = [] then None else Some s)"

definition from_integration_and_counts ::
  "bool \<Rightarrow> bool \<Rightarrow> main_state option \<Rightarrow> bool \<Rightarrow> bool \<Rightarrow> nat \<Rightarrow> nat \<Rightarrow> main_state" where
  "from_integration_and_counts is_main would_conflict integration same_commit_dirty orphan a b =
     (if is_main then Is_Main
      else if orphan then Orphan
      else case integration of
          Some state \<Rightarrow> state
        | None \<Rightarrow>
            (if would_conflict then Would_Conflict
             else if same_commit_dirty then Same_Commit
             else if a = 0 \<and> b = 0 then Main_None
             else if b = 0 then Main_Ahead
             else if a = 0 then Main_Behind
             else Main_Diverged))"

subsection \<open>Tiers\<close>

datatype 'a tier = Fired 'a | Ruled_Out | Wait

definition tier_is_main :: "bool \<Rightarrow> main_state tier" where
  "tier_is_main is_main = (if is_main then Fired Is_Main else Ruled_Out)"

definition tier_orphan :: "bool option \<Rightarrow> main_state tier" where
  "tier_orphan orphan =
     (case orphan of Some True \<Rightarrow> Fired Orphan | Some False \<Rightarrow> Ruled_Out | None \<Rightarrow> Wait)"

definition conflict_verdict :: "bool option \<Rightarrow> bool option option \<Rightarrow> bool option" where
  "conflict_verdict head_probe tree_probe =
     (case (head_probe, tree_probe) of
        (_, Some (Some True)) \<Rightarrow> Some True
      | (_, Some (Some False)) \<Rightarrow> Some False
      | (Some True, _) \<Rightarrow> Some True
      | (Some False, Some None) \<Rightarrow> Some False
      | (Some False, None) \<Rightarrow> None
      | (None, _) \<Rightarrow> None)"

definition tier_would_conflict :: "bool option \<Rightarrow> bool option option \<Rightarrow> bool \<Rightarrow> main_state tier" where
  "tier_would_conflict head_probe tree_probe integration_resolved =
     (case conflict_verdict head_probe tree_probe of
        Some True \<Rightarrow> (if integration_resolved then Fired Would_Conflict else Wait)
      | Some False \<Rightarrow> Ruled_Out
      | None \<Rightarrow> Wait)"

definition tier_counts :: "ahead_behind option \<Rightarrow> bool option \<Rightarrow> main_state tier" where
  "tier_counts counts is_clean =
     (case counts of
        None \<Rightarrow> Wait
      | Some c \<Rightarrow> (case is_clean of
            None \<Rightarrow> Wait
          | Some clean \<Rightarrow>
              Fired (from_integration_and_counts False False None
                (\<not> clean \<and> ahead c = 0 \<and> behind c = 0) False (ahead c) (behind c))))"

section \<open>Operations in progress\<close>

datatype in_progress_operation = Merge | Rebase | Cherry_Pick | Revert | Bisect

fun operation_name :: "in_progress_operation \<Rightarrow> string" where
  "operation_name Merge = ''merge''"
| "operation_name Rebase = ''rebase''"
| "operation_name Cherry_Pick = ''cherry_pick''"
| "operation_name Revert = ''revert''"
| "operation_name Bisect = ''bisect''"

datatype operation_state = Op_None | Conflicts | In_Progress in_progress_operation

fun operation_glyph :: "operation_state \<Rightarrow> string" where
  "operation_glyph Op_None = []"
| "operation_glyph Conflicts = utf8 [0xE2, 0x9C, 0x98]"
| "operation_glyph (In_Progress _) = utf8 [0xE2, 0x86, 0xBB]"

definition operation_styled :: "painter \<Rightarrow> operation_state \<Rightarrow> string option" where
  "operation_styled paint op =
     (case op of
        Op_None \<Rightarrow> None
      | Conflicts \<Rightarrow> Some (paint Red (operation_glyph op))
      | In_Progress _ \<Rightarrow> Some (paint Yellow (operation_glyph op)))"

definition operation_as_json_str :: "operation_state \<Rightarrow> string option" where
  "operation_as_json_str op =
     (case op of Op_None \<Rightarrow> None | Conflicts \<Rightarrow> Some ''conflicts''
      | In_Progress operation \<Rightarrow> Some (operation_name operation))"

section \<open>Working-tree flags\<close>

record working_tree_status =
  staged :: bool
  modified :: bool
  untracked :: bool
  renamed :: bool
  was_deleted :: bool

definition clean_status :: working_tree_status where
  "clean_status = \<lparr>staged = False, modified = False, untracked = False, renamed = False, was_deleted = False\<rparr>"

definition is_dirty :: "working_tree_status \<Rightarrow> bool" where
  "is_dirty s \<longleftrightarrow> staged s \<or> modified s \<or> untracked s \<or> renamed s \<or> was_deleted s"

definition to_symbols :: "working_tree_status \<Rightarrow> string" where
  "to_symbols s =
     (if staged s then ''+'' else []) @ (if modified s then ''!'' else [])
     @ (if untracked s then ''?'' else [])
     @ (if renamed s then utf8 [0xC2, 0xBB] else [])
     @ (if was_deleted s then utf8 [0xE2, 0x9C, 0x98] else [])"

lemma to_symbols_empty_iff: "to_symbols s = [] \<longleftrightarrow> \<not> is_dirty s"
  by (simp add: to_symbols_def is_dirty_def)

section \<open>The Status cell\<close>

definition full_mask :: "nat list" where
  "full_mask = [1, 1, 1, 1, 1, 1, 2]"

definition mask_width :: "nat list \<Rightarrow> nat \<Rightarrow> nat" where
  "mask_width pm pos = pm ! pos"

definition total_width :: "nat list \<Rightarrow> nat" where
  "total_width pm = sum_list pm"

record status_symbols =
  main_state :: "main_state option"
  operation_state :: "operation_state option"
  worktree_state :: "worktree_state option"
  upstream_divergence :: "divergence option"
  working_tree :: "working_tree_status option"
  ss_user_marker :: "string option option"

definition default_symbols :: status_symbols where
  "default_symbols =
     \<lparr>main_state = None, operation_state = None, worktree_state = None, upstream_divergence = None,
      working_tree = None, ss_user_marker = None\<rparr>"

datatype symbol_format = Raw | Styled

datatype slot_state = Loading | Empty | Visible string

definition from_content :: "string \<Rightarrow> slot_state" where
  "from_content content = (if content = [] then Empty else Visible content)"

definition flag_slot :: "painter \<Rightarrow> bool \<Rightarrow> char \<Rightarrow> slot_state" where
  "flag_slot paint has glyph = (if has then Visible (paint Cyan [glyph]) else Empty)"

definition working_tree_slots ::
  "painter \<Rightarrow> symbol_format \<Rightarrow> working_tree_status option \<Rightarrow> slot_state \<times> slot_state \<times> slot_state" where
  "working_tree_slots paint fmt wt =
     (case wt of
        None \<Rightarrow> (Loading, Empty, Empty)
      | Some s \<Rightarrow> (case fmt of
            Raw \<Rightarrow> (from_content (to_symbols s), Empty, Empty)
          | Styled \<Rightarrow> (flag_slot paint (staged s) (CHR ''+''), flag_slot paint (modified s) (CHR ''!''),
              flag_slot paint (untracked s) (CHR ''?''))))"

definition main_slot :: "painter \<Rightarrow> symbol_format \<Rightarrow> main_state option \<Rightarrow> slot_state" where
  "main_slot paint fmt ms =
     (case ms of
        None \<Rightarrow> Loading
      | Some m \<Rightarrow> from_content (case fmt of
            Raw \<Rightarrow> main_state_glyph m
          | Styled \<Rightarrow> (case main_state_styled paint m of Some s \<Rightarrow> s | None \<Rightarrow> [])))"

definition upstream_slot :: "painter \<Rightarrow> symbol_format \<Rightarrow> divergence option \<Rightarrow> slot_state" where
  "upstream_slot paint fmt d =
     (case d of
        None \<Rightarrow> Loading
      | Some v \<Rightarrow> from_content (case fmt of
            Raw \<Rightarrow> divergence_symbol v
          | Styled \<Rightarrow> (case divergence_styled paint v of Some s \<Rightarrow> s | None \<Rightarrow> [])))"

definition worktree_state_styled :: "painter \<Rightarrow> worktree_state \<Rightarrow> string" where
  "worktree_state_styled paint state =
     (case state of
        WS_Branch \<Rightarrow> paint Dim (worktree_state_glyph state)
      | Branch_Worktree_Mismatch \<Rightarrow> paint Dim (worktree_state_glyph state)
      | Duplicate_Branch \<Rightarrow> paint Dim (worktree_state_glyph state)
      | _ \<Rightarrow> paint Yellow (worktree_state_glyph state))"

definition worktree_slot ::
  "painter \<Rightarrow> symbol_format \<Rightarrow> operation_state option \<Rightarrow> worktree_state option \<Rightarrow> slot_state" where
  "worktree_slot paint fmt op ws =
     (case op of
        None \<Rightarrow> Loading
      | Some o' \<Rightarrow>
          (if o' \<noteq> Op_None then
             Visible (case fmt of
                 Raw \<Rightarrow> operation_glyph o'
               | Styled \<Rightarrow> (case operation_styled paint o' of Some s \<Rightarrow> s | None \<Rightarrow> []))
           else (case ws of
               None \<Rightarrow> Empty
             | Some state \<Rightarrow>
                 (if state = WS_None then Empty
                  else Visible (case fmt of
                      Raw \<Rightarrow> worktree_state_glyph state
                    | Styled \<Rightarrow> worktree_state_styled paint state)))))"

definition marker_slot :: "string option option \<Rightarrow> slot_state" where
  "marker_slot m =
     (case m of None \<Rightarrow> Loading | Some None \<Rightarrow> Empty | Some (Some s) \<Rightarrow> Visible s)"

definition symbols :: "painter \<Rightarrow> symbol_format \<Rightarrow> status_symbols \<Rightarrow> (nat \<times> slot_state) list" where
  "symbols paint fmt ss =
     (let (st, md, ut) = working_tree_slots paint fmt (working_tree ss) in
      [(0, st), (1, md), (2, ut),
       (3, worktree_slot paint fmt (operation_state ss) (worktree_state ss)),
       (4, main_slot paint fmt (main_state ss)),
       (5, upstream_slot paint fmt (upstream_divergence ss)),
       (6, marker_slot (ss_user_marker ss))])"

text \<open>\<open>pad_to\<close>: \<open>StyledLine::pad_to\<close> then \<open>render\<close> on one segment.\<close>

definition pad_to :: "(string \<Rightarrow> nat) \<Rightarrow> nat \<Rightarrow> string \<Rightarrow> string \<Rightarrow> string" where
  "pad_to vwidth w text rendered =
     rendered @ (if vwidth text < w then replicate (w - vwidth text) (CHR '' '') else [])"

definition render_slot ::
  "(string \<Rightarrow> nat) \<Rightarrow> painter \<Rightarrow> nat list \<Rightarrow> string \<Rightarrow> nat \<times> slot_state \<Rightarrow> string" where
  "render_slot vwidth paint pm placeholder p =
     (let w = mask_width pm (fst p) in
      case snd p of
        Visible content \<Rightarrow> pad_to vwidth w content content
      | Loading \<Rightarrow> pad_to vwidth w placeholder (paint Dim placeholder)
      | Empty \<Rightarrow> replicate w (CHR '' ''))"

definition render_with_mask ::
  "(string \<Rightarrow> nat) \<Rightarrow> painter \<Rightarrow> nat list \<Rightarrow> string \<Rightarrow> status_symbols \<Rightarrow> string" where
  "render_with_mask vwidth paint pm placeholder ss =
     concat (map (render_slot vwidth paint pm placeholder) (symbols paint Styled ss))"

fun visible :: "slot_state \<Rightarrow> string option" where
  "visible (Visible s) = Some s"
| "visible Loading = None"
| "visible Empty = None"

definition format_compact :: "painter \<Rightarrow> status_symbols \<Rightarrow> string" where
  "format_compact paint ss = concat (filter_map (\<lambda>(_, slot). visible slot) (symbols paint Styled ss))"

definition format_raw :: "painter \<Rightarrow> status_symbols \<Rightarrow> string" where
  "format_raw paint ss = concat (filter_map (\<lambda>(_, slot). visible slot) (symbols paint Raw ss))"

end
