(* ===== verification/Git_Refs.thy ===== *)
theory Git_Refs
  imports Prelude
begin

text \<open>
  The inventory of a repository (\<open>src/git/mod.rs\<close>): one worktree as \<open>git worktree list\<close> reports it
  (\<open>WorktreeInfo\<close>), the reference to a branch or worktree that the list tasks share (\<open>BranchRef\<close>,
  with its identity \<open>GitItemId\<close>), and the naming of a worktree that is in the middle of a rebase.

  Paths are byte strings. Path canonicalisation (\<open>canonicalize_with_parents\<close>, a file system call) is
  the parameter \<open>canon\<close>. \<open>short_name\<close> and \<open>remote_parts\<close> can panic; \<open>None\<close> is the panic and the
  lemmas below show that no value the constructors build reaches it.
\<close>

section \<open>Worktrees as git reports them\<close>

record worktree_info =
  wi_path :: string
  wi_head :: string
  wi_branch :: "string option"
  wi_bare :: bool
  wi_detached :: bool
  wi_locked :: "string option"
  wi_prunable :: "string option"

definition null_oid :: string where
  "null_oid = replicate 40 (CHR ''0'')"

definition wi_is_prunable :: "worktree_info \<Rightarrow> bool" where
  "wi_is_prunable wt \<longleftrightarrow> wi_prunable wt \<noteq> None"

definition has_commits :: "worktree_info \<Rightarrow> bool" where
  "has_commits wt \<longleftrightarrow> wi_head wt \<noteq> null_oid"

section \<open>References to branches and worktrees\<close>

datatype git_item_id = Worktree_Id string | Ref_Id string

record branch_ref =
  br_id :: git_item_id
  full_ref :: "string option"
  commit_sha :: string
  worktree_path :: "string option"
  remote_name_len :: "nat option"

definition local_ref :: "string \<Rightarrow> string" where
  "local_ref branch = ''refs/heads/'' @ branch"

definition remote_ref :: "string \<Rightarrow> string" where
  "remote_ref branch = ''refs/remotes/'' @ branch"

definition local_branch :: "string \<Rightarrow> string \<Rightarrow> branch_ref" where
  "local_branch branch sha =
     \<lparr>br_id = Ref_Id (local_ref branch), full_ref = Some (local_ref branch), commit_sha = sha,
      worktree_path = None, remote_name_len = None\<rparr>"

definition remote_branch :: "string \<Rightarrow> string \<Rightarrow> string \<Rightarrow> branch_ref" where
  "remote_branch remote branch sha =
     (let short = remote @ ''/'' @ branch in
      \<lparr>br_id = Ref_Id (remote_ref short), full_ref = Some (remote_ref short), commit_sha = sha,
       worktree_path = None, remote_name_len = Some (length remote)\<rparr>)"

definition worktree_ref_new :: "(string \<Rightarrow> string) \<Rightarrow> string \<Rightarrow> string option \<Rightarrow> string \<Rightarrow> branch_ref" where
  "worktree_ref_new canon path branch sha =
     \<lparr>br_id = Worktree_Id (canon path), full_ref = map_option local_ref branch, commit_sha = sha,
      worktree_path = Some path, remote_name_len = None\<rparr>"

definition worktree_ref :: "(string \<Rightarrow> string) \<Rightarrow> worktree_info \<Rightarrow> branch_ref" where
  "worktree_ref canon wt = worktree_ref_new canon (wi_path wt) (wi_branch wt) (wi_head wt)"

definition short_name :: "branch_ref \<Rightarrow> string option option" where
  "short_name b =
     (case full_ref b of
        None \<Rightarrow> Some None
      | Some r \<Rightarrow> (case strip_prefix r ''refs/heads/'' of
            Some s \<Rightarrow> Some (Some s)
          | None \<Rightarrow> (case strip_prefix r ''refs/remotes/'' of
                Some s \<Rightarrow> Some (Some s)
              | None \<Rightarrow> None)))"

definition is_remote :: "branch_ref \<Rightarrow> bool" where
  "is_remote b \<longleftrightarrow> remote_name_len b \<noteq> None"

text \<open>The slices \<open>short[..n]\<close> and \<open>short[n + 1..]\<close> panic when the boundary is past the end.\<close>

definition remote_parts :: "branch_ref \<Rightarrow> (string \<times> string) option option" where
  "remote_parts b =
     (case short_name b of
        None \<Rightarrow> None
      | Some None \<Rightarrow> Some None
      | Some (Some short) \<Rightarrow>
          (case remote_name_len b of
             None \<Rightarrow> Some None
           | Some n \<Rightarrow> if Suc n \<le> length short then Some (Some (take n short, drop (Suc n) short)) else None))"

definition br_item_id :: "branch_ref \<Rightarrow> git_item_id" where
  "br_item_id b = br_id b"

section \<open>The branch of a worktree in the middle of a rebase\<close>

text \<open>
  \<open>read\<close> is \<open>fs::read_to_string\<close> (\<open>None\<close> for an error), \<open>registration_at\<close> and \<open>git_dir\<close> are the two git
  queries (\<open>None\<close> for an error), each from a path.
\<close>

definition head_name_file :: "string \<Rightarrow> string \<Rightarrow> string" where
  "head_name_file git_dir rebase_dir = git_dir @ ''/'' @ rebase_dir @ ''/head-name''"

definition rebase_branch :: "(string \<Rightarrow> string option) \<Rightarrow> string \<Rightarrow> string option" where
  "rebase_branch read git_dir =
     find_map (\<lambda>d. map_option
         (\<lambda>content. let r = trim content in
            (case strip_prefix r ''refs/heads/'' of Some b \<Rightarrow> b | None \<Rightarrow> r))
         (read (head_name_file git_dir d)))
       [''rebase-merge'', ''rebase-apply'']"

definition finalize_worktree ::
  "(string \<Rightarrow> string option) \<Rightarrow> (string \<Rightarrow> string option) \<Rightarrow> (string \<Rightarrow> string option)
     \<Rightarrow> worktree_info \<Rightarrow> worktree_info" where
  "finalize_worktree read registration_at git_dir wt =
     (if wi_detached wt \<and> wi_branch wt = None then
        (case (if wi_is_prunable wt then registration_at (wi_path wt) else git_dir (wi_path wt)) of
           Some d \<Rightarrow> wt\<lparr>wi_branch := rebase_branch read d\<rparr>
         | None \<Rightarrow> wt)
      else wt)"

definition finalize_worktrees ::
  "(string \<Rightarrow> string option) \<Rightarrow> (string \<Rightarrow> string option) \<Rightarrow> (string \<Rightarrow> string option)
     \<Rightarrow> worktree_info list \<Rightarrow> worktree_info list" where
  "finalize_worktrees read registration_at git_dir wts =
     map (finalize_worktree read registration_at git_dir) wts"

section \<open>Facts about references\<close>

lemma short_name_local [simp]: "short_name (local_branch b sha) = Some (Some b)"
  by (simp add: short_name_def local_branch_def local_ref_def strip_prefix_def starts_with_def)

lemma short_name_remote [simp]: "short_name (remote_branch r b sha) = Some (Some (r @ ''/'' @ b))"
  by (simp add: short_name_def remote_branch_def remote_ref_def Let_def strip_prefix_def starts_with_def)

lemma short_name_worktree [simp]: "short_name (worktree_ref_new canon p b sha) = Some b"
  by (cases b) (simp_all add: short_name_def worktree_ref_new_def local_ref_def strip_prefix_def starts_with_def)

lemma remote_parts_remote [simp]: "remote_parts (remote_branch r b sha) = Some (Some (r, b))"
  unfolding remote_parts_def short_name_remote by (simp add: remote_branch_def Let_def)

lemma remote_parts_local [simp]: "remote_parts (local_branch b sha) = Some None"
  unfolding remote_parts_def short_name_local by (simp add: local_branch_def)

lemma ref_spaces_disjoint: "local_ref a \<noteq> remote_ref b"
  by (simp add: local_ref_def remote_ref_def)

section \<open>Properties\<close>

text \<open>
  The identity of an inventory item distinguishes exactly what it should: two local branches are
  the same item iff they have the same name; two remote branches iff the remote-qualified names agree;
  a local branch named \<open>origin/foo\<close> is never the remote branch \<open>foo\<close> of \<open>origin\<close> although both have the
  same short name; two worktrees are the same item iff their canonical paths agree (whatever branch
  they have checked out), and never the same as a branch. The short name and the remote parts the
  constructors were given are read back, so neither accessor panics.
\<close>

theorem item_identity:
  "(br_item_id (local_branch a s) = br_item_id (local_branch b t) \<longleftrightarrow> a = b)
   \<and> (br_item_id (remote_branch r a s) = br_item_id (remote_branch q b t) \<longleftrightarrow> r @ ''/'' @ a = q @ ''/'' @ b)
   \<and> br_item_id (local_branch (r @ ''/'' @ a) s) \<noteq> br_item_id (remote_branch r a t)
   \<and> short_name (local_branch (r @ ''/'' @ a) s) = short_name (remote_branch r a t)
   \<and> (br_item_id (worktree_ref_new canon p x s) = br_item_id (worktree_ref_new canon q' y t) \<longleftrightarrow> canon p = canon q')
   \<and> br_item_id (worktree_ref_new canon p x s) \<noteq> br_item_id (local_branch b t)
   \<and> br_item_id (worktree_ref_new canon p x s) \<noteq> br_item_id (remote_branch r b t)
   \<and> short_name (worktree_ref_new canon p x s) = Some x
   \<and> remote_parts (remote_branch r b t) = Some (Some (r, b))"
  by (simp add: br_item_id_def local_branch_def[of _ s] local_branch_def[of _ t] remote_branch_def
      worktree_ref_new_def Let_def ref_spaces_disjoint)
     (simp add: local_ref_def remote_ref_def short_name_def remote_parts_def strip_prefix_def starts_with_def
       split: option.split)

end
