(* ===== verification/List_Item.thy ===== *)
theory List_Item
  imports List_State Git_Refs
begin

text \<open>
  One row of \<open>wt list\<close> (\<open>src/commands/list/model/item.rs\<close>): the data the tasks fill in, the gates
  that turn the loaded part of it into status symbols, and \<open>refresh_status_symbols\<close>, which the drain
  calls after every result. \<open>None\<close> in a field is "not loaded". The forge's PR status is the type
  parameter \<open>'p\<close>: the gates never read it.
\<close>

section \<open>Rows\<close>

record worktree_data =
  wd_detached :: bool
  wd_locked :: "string option"
  wd_prunable :: "string option"
  working_tree_diff :: "line_diff option"
  working_tree_status :: "working_tree_status option"
  has_conflicts :: "bool option"
  has_working_tree_conflicts :: "bool option option"
  git_operation :: "in_progress_operation option option"
  wd_is_main :: bool
  is_current :: bool
  is_previous :: bool
  branch_worktree_mismatch :: bool
  duplicate_branch :: bool

definition from_worktree :: "worktree_info \<Rightarrow> bool \<Rightarrow> bool \<Rightarrow> bool \<Rightarrow> worktree_data" where
  "from_worktree wt main cur prev =
     \<lparr>wd_detached = wi_detached wt, wd_locked = wi_locked wt, wd_prunable = wi_prunable wt,
      working_tree_diff = None, working_tree_status = None, has_conflicts = None,
      has_working_tree_conflicts = None, git_operation = None,
      wd_is_main = main, is_current = cur, is_previous = prev,
      branch_worktree_mismatch = False, duplicate_branch = False\<rparr>"

definition is_prunable :: "worktree_data \<Rightarrow> bool" where
  "is_prunable d \<longleftrightarrow> wd_prunable d \<noteq> None"

datatype worktree_presence = Current | Primary | Linked

definition presence :: "worktree_data \<Rightarrow> worktree_presence" where
  "presence d = (if is_current d then Current else if wd_is_main d then Primary else Linked)"

fun presence_glyph :: "worktree_presence \<Rightarrow> char" where
  "presence_glyph Current = CHR ''@''"
| "presence_glyph Primary = CHR 0x5E"
| "presence_glyph Linked = CHR ''+''"

datatype branch_scope = Local | Remote

fun scope_glyph :: "branch_scope \<Rightarrow> char" where
  "scope_glyph Local = CHR ''/''"
| "scope_glyph Remote = CHR 0x7C"

datatype item_kind = Worktree worktree_data | Branch branch_scope

fun gutter_glyph :: "item_kind \<Rightarrow> char" where
  "gutter_glyph (Worktree d) = presence_glyph (presence d)"
| "gutter_glyph (Branch s) = scope_glyph s"

record commit_details =
  timestamp :: int
  commit_message :: string

record seeded_facts =
  seeded_orphan :: bool
  seeded_upstream :: bool
  seeded_merge_conflicts :: bool
  seeded_integration :: bool

record 'p list_item =
  li_ref :: branch_ref
  short_sha :: string
  commit :: "commit_details option"
  counts :: "ahead_behind option"
  branch_diff :: "line_diff option"
  committed_trees_match :: "bool option"
  has_file_changes :: "bool option"
  would_merge_add :: "bool option"
  is_patch_id_match :: "bool option"
  is_ancestor :: "bool option"
  is_orphan :: "bool option"
  upstream :: "upstream_status option"
  pr_status :: "'p option option"
  url :: "string option"
  url_active :: "bool option"
  summary :: "string option option"
  has_merge_tree_conflicts :: "bool option"
  user_marker :: "string option option"
  li_symbols :: status_symbols
  statusline :: "string option"
  custom_values :: "string list"
  seeded :: seeded_facts
  kind :: item_kind

definition no_seeds :: seeded_facts where
  "no_seeds = \<lparr>seeded_orphan = False, seeded_upstream = False, seeded_merge_conflicts = False,
     seeded_integration = False\<rparr>"

definition new_item :: "branch_ref \<Rightarrow> item_kind \<Rightarrow> 'p list_item" where
  "new_item r k =
     \<lparr>li_ref = r, short_sha = [], commit = None, counts = None, branch_diff = None,
      committed_trees_match = None, has_file_changes = None, would_merge_add = None,
      is_patch_id_match = None, is_ancestor = None, is_orphan = None, upstream = None,
      pr_status = None, url = None, url_active = None, summary = None,
      has_merge_tree_conflicts = None, user_marker = None, li_symbols = default_symbols,
      statusline = None, custom_values = [], seeded = no_seeds, kind = k\<rparr>"

definition new_branch :: "string \<Rightarrow> string \<Rightarrow> 'p list_item" where
  "new_branch head branch = new_item (local_branch branch head) (Branch Local)"

definition new_remote_branch :: "string \<Rightarrow> string \<Rightarrow> string \<Rightarrow> 'p list_item" where
  "new_remote_branch head remote branch = new_item (remote_branch remote branch head) (Branch Remote)"

definition new_worktree :: "branch_ref \<Rightarrow> worktree_data \<Rightarrow> 'p list_item" where
  "new_worktree r d = new_item r (Worktree d)"

definition build_worktree_item ::
  "(string \<Rightarrow> string) \<Rightarrow> worktree_info \<Rightarrow> bool \<Rightarrow> bool \<Rightarrow> bool \<Rightarrow> 'p list_item" where
  "build_worktree_item canon wt main cur prev =
     new_worktree (worktree_ref canon wt) (from_worktree wt main cur prev)"

text \<open>\<open>BranchRef::short_name\<close> never panics on a constructed reference (\<open>short_name_local\<close>,
  \<open>short_name_remote\<close>, \<open>short_name_worktree\<close>).\<close>

definition item_branch :: "'p list_item \<Rightarrow> string option" where
  "item_branch it = (case short_name (li_ref it) of Some b \<Rightarrow> b | None \<Rightarrow> None)"

definition branch_name :: "'p list_item \<Rightarrow> string" where
  "branch_name it = (case item_branch it of Some b \<Rightarrow> b | None \<Rightarrow> ''(detached)'')"

definition display_name :: "'p list_item \<Rightarrow> string" where
  "display_name it = (case item_branch it of Some b \<Rightarrow> b | None \<Rightarrow> short_sha it)"

definition reclassify_as_branch :: "string \<Rightarrow> 'p list_item \<Rightarrow> 'p list_item" where
  "reclassify_as_branch branch it =
     it\<lparr>li_ref := local_branch branch (commit_sha (li_ref it)), kind := Branch Local\<rparr>"

definition head_sha :: "'p list_item \<Rightarrow> string" where
  "head_sha it = commit_sha (li_ref it)"

definition worktree_data_of :: "'p list_item \<Rightarrow> worktree_data option" where
  "worktree_data_of it = (case kind it of Worktree d \<Rightarrow> Some d | Branch _ \<Rightarrow> None)"

definition item_is_main :: "'p list_item \<Rightarrow> bool" where
  "item_is_main it = (case kind it of Worktree d \<Rightarrow> wd_is_main d | Branch _ \<Rightarrow> False)"

definition placeholder_for :: "string \<Rightarrow> string \<Rightarrow> 'p list_item \<Rightarrow> string" where
  "placeholder_for blank rendering it =
     (if (case worktree_data_of it of Some d \<Rightarrow> is_prunable d | None \<Rightarrow> False) then blank else rendering)"

section \<open>The gates\<close>

definition metadata_worktree_state :: "worktree_data \<Rightarrow> bool \<Rightarrow> worktree_state" where
  "metadata_worktree_state d has_branch =
     (if is_prunable d then Prunable
      else if wd_locked d \<noteq> None then Locked
      else if \<not> has_branch then Detached
      else if duplicate_branch d then Duplicate_Branch
      else if branch_worktree_mismatch d then Branch_Worktree_Mismatch
      else WS_None)"

definition try_gate_working_tree :: "'p list_item \<Rightarrow> working_tree_status option" where
  "try_gate_working_tree it =
     (case kind it of Worktree d \<Rightarrow> working_tree_status d | Branch _ \<Rightarrow> Some clean_status)"

definition try_gate_operation_state :: "'p list_item \<Rightarrow> operation_state option" where
  "try_gate_operation_state it =
     (case kind it of
        Worktree d \<Rightarrow>
          (case has_conflicts d of
             None \<Rightarrow> None
           | Some True \<Rightarrow> Some Conflicts
           | Some False \<Rightarrow> (case git_operation d of
                 None \<Rightarrow> None
               | Some (Some operation) \<Rightarrow> Some (In_Progress operation)
               | Some None \<Rightarrow> Some Op_None))
      | Branch _ \<Rightarrow> Some Op_None)"

definition item_signals :: "'p list_item \<Rightarrow> integration_signals" where
  "item_signals it =
     \<lparr>is_same_commit = map_option (\<lambda>c. ahead c = 0 \<and> behind c = 0) (counts it),
      sig_is_ancestor = is_ancestor it,
      has_added_changes = has_file_changes it,
      trees_match = committed_trees_match it,
      sig_would_merge_add = would_merge_add it,
      sig_is_patch_id_match = is_patch_id_match it\<rparr>"

definition check_integration_state :: "'p list_item \<Rightarrow> bool \<Rightarrow> string option \<Rightarrow> bool \<Rightarrow> main_state option" where
  "check_integration_state it main default_branch clean =
     (if main \<or> default_branch = None then None
      else if \<not> clean then None
      else (case check_integration (item_signals it) of
          Some Same_Commit_As \<Rightarrow> Some Main_Empty
        | Some other \<Rightarrow> Some (Integrated other)
        | None \<Rightarrow> None))"

definition integration_resolved :: "'p list_item \<Rightarrow> string option \<Rightarrow> bool \<Rightarrow> bool" where
  "integration_resolved it default_branch clean \<longleftrightarrow>
     (if default_branch = None \<or> \<not> clean then True
      else counts it \<noteq> None \<and> is_ancestor it \<noteq> None \<and> has_file_changes it \<noteq> None
        \<and> committed_trees_match it \<noteq> None \<and> would_merge_add it \<noteq> None
        \<and> is_patch_id_match it \<noteq> None)"

definition item_is_clean :: "'p list_item \<Rightarrow> bool option" where
  "item_is_clean it =
     (case kind it of
        Worktree d \<Rightarrow>
          (case working_tree_diff d of
             None \<Rightarrow> None
           | Some diff \<Rightarrow> (case working_tree_status d of
                 None \<Rightarrow> None
               | Some status \<Rightarrow> Some (diff_is_empty diff \<and> \<not> untracked status)))
      | Branch _ \<Rightarrow> Some True)"

definition tree_conflicts :: "'p list_item \<Rightarrow> bool option option" where
  "tree_conflicts it =
     (case kind it of Worktree d \<Rightarrow> has_working_tree_conflicts d | Branch _ \<Rightarrow> Some None)"

definition try_gate_main_state :: "string option \<Rightarrow> 'p list_item \<Rightarrow> main_state option" where
  "try_gate_main_state default_branch it =
     (let main = item_is_main it in
      case tier_is_main main of
        Fired s \<Rightarrow> Some s
      | Wait \<Rightarrow> None
      | Ruled_Out \<Rightarrow> (case tier_orphan (is_orphan it) of
          Fired s \<Rightarrow> Some s
        | Wait \<Rightarrow> None
        | Ruled_Out \<Rightarrow> (case item_is_clean it of
            None \<Rightarrow> None
          | Some clean \<Rightarrow> (case check_integration_state it main default_branch clean of
              Some s \<Rightarrow> Some s
            | None \<Rightarrow>
                (case tier_would_conflict (has_merge_tree_conflicts it) (tree_conflicts it)
                        (integration_resolved it default_branch clean) of
                   Fired s \<Rightarrow> Some s
                 | Wait \<Rightarrow> None
                 | Ruled_Out \<Rightarrow> (case tier_counts (counts it) (Some clean) of
                       Fired s \<Rightarrow> Some s
                     | Ruled_Out \<Rightarrow> None
                     | Wait \<Rightarrow> None))))))"

definition try_gate_upstream_divergence :: "'p list_item \<Rightarrow> divergence option" where
  "try_gate_upstream_divergence it =
     map_option (\<lambda>u. case active u of
         Some a \<Rightarrow> from_counts_with_remote (au_ahead a) (au_behind a)
       | None \<Rightarrow> Div_None) (upstream it)"

definition try_gate_user_marker :: "'p list_item \<Rightarrow> string option option" where
  "try_gate_user_marker it = user_marker it"

section \<open>Refreshing the symbols\<close>

text \<open>\<open>if slot.is_none() && let Some(v) = gate { slot = Some(v) }\<close>\<close>

definition fill :: "'a option \<Rightarrow> 'a option \<Rightarrow> 'a option" where
  "fill slot gate = (case slot of None \<Rightarrow> gate | Some _ \<Rightarrow> slot)"

definition metadata_state :: "'p list_item \<Rightarrow> worktree_state" where
  "metadata_state it =
     (case kind it of
        Worktree d \<Rightarrow> metadata_worktree_state d (item_branch it \<noteq> None)
      | Branch _ \<Rightarrow> WS_Branch)"

definition refresh_status_symbols :: "string option \<Rightarrow> 'p list_item \<Rightarrow> 'p list_item" where
  "refresh_status_symbols default_branch it =
     (let ss = li_symbols it;
          ss = ss\<lparr>worktree_state := fill (worktree_state ss) (Some (metadata_state it))\<rparr>;
          ss = ss\<lparr>working_tree := fill (working_tree ss) (try_gate_working_tree it)\<rparr>;
          ss = ss\<lparr>operation_state := fill (operation_state ss) (try_gate_operation_state it)\<rparr>;
          ss = (case try_gate_main_state default_branch it of
                  Some ms \<Rightarrow> ss\<lparr>main_state := Some ms\<rparr> | None \<Rightarrow> ss);
          ss = ss\<lparr>upstream_divergence := fill (upstream_divergence ss) (try_gate_upstream_divergence it)\<rparr>;
          ss = ss\<lparr>ss_user_marker := fill (ss_user_marker ss) (try_gate_user_marker it)\<rparr>
      in it\<lparr>li_symbols := ss\<rparr>)"

definition is_potentially_removable :: "'p list_item \<Rightarrow> bool option" where
  "is_potentially_removable it =
     map_option (\<lambda>ms. case ms of Main_Empty \<Rightarrow> True | Integrated _ \<Rightarrow> True | _ \<Rightarrow> False)
       (main_state (li_symbols it))"

definition should_dim :: "'p list_item \<Rightarrow> bool" where
  "should_dim it \<longleftrightarrow> is_potentially_removable it = Some True"

end
