(* ===== verification/List_Drain.thy ===== *)
theory List_Drain
  imports List_Item
begin

text \<open>
  How the rows of \<open>wt list\<close> are filled in (\<open>src/commands/list/collect\<close>): the tasks and their results
  (\<open>types.rs\<close>), the work items of a row and the conservative values seeded for tasks that will not
  run (\<open>execution.rs\<close>), and the loop that receives results until the channel closes or the deadline
  passes (\<open>results.rs\<close>).

  The channel and the clock are the list of polls the loop sees: one entry per iteration, saying whether
  the reveal deadline has passed, whether the drain deadline has, and what \<open>recv_timeout\<close> returned. A
  poll list that ends before the loop does stands for a run that has not finished. An item index out of
  range is the panic of the slice access.
\<close>

section \<open>Tasks and results (\<open>types.rs\<close>)\<close>

datatype task_kind =
    K_Ahead_Behind | K_Committed_Trees_Match | K_Has_File_Changes | K_Would_Merge_Add | K_Is_Ancestor
  | K_Branch_Diff | K_Working_Tree_Diff | K_Merge_Tree_Conflicts | K_Working_Tree_Conflicts
  | K_Git_Operation | K_User_Marker | K_Upstream | K_Ci_Status | K_Url_Status | K_Summary_Generate

datatype 'p task_result =
    Ahead_Behind nat ahead_behind bool
  | Committed_Trees_Match nat bool
  | Has_File_Changes nat bool
  | Would_Merge_Add nat bool bool
  | Is_Ancestor nat bool
  | Branch_Diff nat line_diff
  | Working_Tree_Diff nat line_diff working_tree_status bool
  | Merge_Tree_Conflicts nat bool
  | Working_Tree_Conflicts nat "bool option"
  | Git_Operation nat "in_progress_operation option"
  | User_Marker nat "string option"
  | Upstream nat upstream_status
  | Ci_Status nat "'p option"
  | Url_Status nat "string option" "bool option"
  | Summary_Generate nat "string option"

fun item_idx :: "'p task_result \<Rightarrow> nat" where
  "item_idx (Ahead_Behind i _ _) = i"
| "item_idx (Committed_Trees_Match i _) = i"
| "item_idx (Has_File_Changes i _) = i"
| "item_idx (Would_Merge_Add i _ _) = i"
| "item_idx (Is_Ancestor i _) = i"
| "item_idx (Branch_Diff i _) = i"
| "item_idx (Working_Tree_Diff i _ _ _) = i"
| "item_idx (Merge_Tree_Conflicts i _) = i"
| "item_idx (Working_Tree_Conflicts i _) = i"
| "item_idx (Git_Operation i _) = i"
| "item_idx (User_Marker i _) = i"
| "item_idx (Upstream i _) = i"
| "item_idx (Ci_Status i _) = i"
| "item_idx (Url_Status i _ _) = i"
| "item_idx (Summary_Generate i _) = i"

fun result_kind :: "'p task_result \<Rightarrow> task_kind" where
  "result_kind (Ahead_Behind _ _ _) = K_Ahead_Behind"
| "result_kind (Committed_Trees_Match _ _) = K_Committed_Trees_Match"
| "result_kind (Has_File_Changes _ _) = K_Has_File_Changes"
| "result_kind (Would_Merge_Add _ _ _) = K_Would_Merge_Add"
| "result_kind (Is_Ancestor _ _) = K_Is_Ancestor"
| "result_kind (Branch_Diff _ _) = K_Branch_Diff"
| "result_kind (Working_Tree_Diff _ _ _ _) = K_Working_Tree_Diff"
| "result_kind (Merge_Tree_Conflicts _ _) = K_Merge_Tree_Conflicts"
| "result_kind (Working_Tree_Conflicts _ _) = K_Working_Tree_Conflicts"
| "result_kind (Git_Operation _ _) = K_Git_Operation"
| "result_kind (User_Marker _ _) = K_User_Marker"
| "result_kind (Upstream _ _) = K_Upstream"
| "result_kind (Ci_Status _ _) = K_Ci_Status"
| "result_kind (Url_Status _ _ _) = K_Url_Status"
| "result_kind (Summary_Generate _ _) = K_Summary_Generate"

definition is_network :: "task_kind \<Rightarrow> bool" where
  "is_network k \<longleftrightarrow> k = K_Ci_Status \<or> k = K_Url_Status \<or> k = K_Summary_Generate"

fun kind_display_name :: "task_kind \<Rightarrow> string" where
  "kind_display_name K_Ahead_Behind = ''ahead/behind counts''"
| "kind_display_name K_Committed_Trees_Match = ''trees-match check''"
| "kind_display_name K_Has_File_Changes = ''file-changes check''"
| "kind_display_name K_Would_Merge_Add = ''merge-simulation check''"
| "kind_display_name K_Is_Ancestor = ''ancestor check''"
| "kind_display_name K_Branch_Diff = ''branch diff''"
| "kind_display_name K_Working_Tree_Diff = ''working-tree diff''"
| "kind_display_name K_Merge_Tree_Conflicts = ''merge-conflict check''"
| "kind_display_name K_Working_Tree_Conflicts = ''working-tree conflict check''"
| "kind_display_name K_Git_Operation = ''operation-state check''"
| "kind_display_name K_User_Marker = ''user-marker lookup''"
| "kind_display_name K_Upstream = ''upstream status''"
| "kind_display_name K_Ci_Status = ''CI status''"
| "kind_display_name K_Url_Status = ''URL check''"
| "kind_display_name K_Summary_Generate = ''summary generation''"

datatype error_cause = Timeout | Other

record task_error =
  te_item_idx :: nat
  te_kind :: task_kind
  te_message :: string
  te_cause :: error_cause

definition is_timeout :: "task_error \<Rightarrow> bool" where
  "is_timeout e \<longleftrightarrow> te_cause e = Timeout"

record missing_result =
  mr_item_idx :: nat
  mr_name :: string
  missing_kinds :: "task_kind list"

datatype drain_outcome = Complete | Timed_Out nat "missing_result list"

section \<open>Expected results and seeds (\<open>execution.rs\<close>)\<close>

type_synonym expected_results = "task_kind list list"

definition expect_result :: "nat \<Rightarrow> task_kind \<Rightarrow> expected_results \<Rightarrow> expected_results" where
  "expect_result i k ex =
     (let ex = (if length ex \<le> i then ex @ replicate (i + 1 - length ex) [] else ex)
      in ex[i := ex ! i @ [k]])"

definition expected_count :: "expected_results \<Rightarrow> nat" where
  "expected_count ex = sum_list (map length ex)"

definition results_for :: "expected_results \<Rightarrow> nat \<Rightarrow> task_kind list" where
  "results_for ex i = (if i < length ex then ex ! i else [])"

definition commit_tasks :: "task_kind list" where
  "commit_tasks =
     [K_Ahead_Behind, K_Committed_Trees_Match, K_Has_File_Changes, K_Is_Ancestor, K_Branch_Diff,
      K_Merge_Tree_Conflicts, K_Would_Merge_Add, K_Ci_Status, K_Upstream, K_Working_Tree_Diff,
      K_Working_Tree_Conflicts]"

definition update_worktree :: "(worktree_data \<Rightarrow> worktree_data) \<Rightarrow> 'p list_item \<Rightarrow> 'p list_item" where
  "update_worktree f it = (case kind it of Worktree d \<Rightarrow> it\<lparr>kind := Worktree (f d)\<rparr> | Branch _ \<Rightarrow> it)"

fun seed_skipped_task_defaults :: "task_kind \<Rightarrow> 'p list_item \<Rightarrow> 'p list_item" where
  "seed_skipped_task_defaults K_Branch_Diff it = it"
| "seed_skipped_task_defaults K_Ci_Status it = it"
| "seed_skipped_task_defaults K_Url_Status it = it"
| "seed_skipped_task_defaults K_Summary_Generate it = it"
| "seed_skipped_task_defaults K_Ahead_Behind it =
     it\<lparr>is_orphan := Some False, seeded := (seeded it)\<lparr>seeded_orphan := True\<rparr>\<rparr>"
| "seed_skipped_task_defaults K_Upstream it =
     it\<lparr>upstream := Some default_upstream, seeded := (seeded it)\<lparr>seeded_upstream := True\<rparr>\<rparr>"
| "seed_skipped_task_defaults K_Committed_Trees_Match it =
     it\<lparr>committed_trees_match := Some False, seeded := (seeded it)\<lparr>seeded_integration := True\<rparr>\<rparr>"
| "seed_skipped_task_defaults K_Has_File_Changes it =
     it\<lparr>has_file_changes := Some True, seeded := (seeded it)\<lparr>seeded_integration := True\<rparr>\<rparr>"
| "seed_skipped_task_defaults K_Would_Merge_Add it =
     it\<lparr>would_merge_add := Some True, is_patch_id_match := Some False,
       seeded := (seeded it)\<lparr>seeded_integration := True\<rparr>\<rparr>"
| "seed_skipped_task_defaults K_Is_Ancestor it =
     it\<lparr>is_ancestor := Some False, seeded := (seeded it)\<lparr>seeded_integration := True\<rparr>\<rparr>"
| "seed_skipped_task_defaults K_Merge_Tree_Conflicts it =
     it\<lparr>has_merge_tree_conflicts := Some False, seeded := (seeded it)\<lparr>seeded_merge_conflicts := True\<rparr>\<rparr>"
| "seed_skipped_task_defaults K_User_Marker it = it\<lparr>user_marker := Some None\<rparr>"
| "seed_skipped_task_defaults K_Working_Tree_Diff it = it"
| "seed_skipped_task_defaults K_Working_Tree_Conflicts it =
     update_worktree (\<lambda>d. d\<lparr>has_working_tree_conflicts := Some None\<rparr>) it"
| "seed_skipped_task_defaults K_Git_Operation it =
     update_worktree (\<lambda>d. d\<lparr>git_operation := Some None\<rparr>) it"

definition seed_unborn_main_state :: "'p list_item \<Rightarrow> 'p list_item" where
  "seed_unborn_main_state it =
     it\<lparr>li_symbols := (li_symbols it)\<lparr>main_state := Some (if item_is_main it then Is_Main else Main_None)\<rparr>\<rparr>"

definition seed_prunable_item :: "'p list_item \<Rightarrow> 'p list_item" where
  "seed_prunable_item it =
     it\<lparr>li_symbols := \<lparr>main_state = Some Main_None, operation_state = Some Op_None,
        worktree_state = Some Prunable, upstream_divergence = Some Div_None,
        working_tree = Some clean_status, ss_user_marker = Some None\<rparr>\<rparr>"

subsection \<open>Work items\<close>

text \<open>
  A work item is its task kind; the task context it carries is the same for every task of the row.
  \<open>run\<close> is the set of planned tasks, \<open>expand_url\<close> the expansion of the URL template for a branch
  (\<open>None\<close> without a template or when it fails).
\<close>

definition worktree_task_order :: "task_kind list" where
  "worktree_task_order =
     [K_Ahead_Behind, K_Committed_Trees_Match, K_Has_File_Changes, K_Is_Ancestor, K_Upstream,
      K_Working_Tree_Diff, K_Git_Operation, K_User_Marker, K_Working_Tree_Conflicts, K_Branch_Diff,
      K_Merge_Tree_Conflicts, K_Ci_Status, K_Would_Merge_Add, K_Summary_Generate]"

definition branch_task_order :: "task_kind list" where
  "branch_task_order =
     [K_Ahead_Behind, K_Committed_Trees_Match, K_Has_File_Changes, K_Is_Ancestor, K_Upstream,
      K_Branch_Diff, K_Merge_Tree_Conflicts, K_Ci_Status, K_Would_Merge_Add, K_Summary_Generate]"

fun plan_tasks ::
  "(task_kind \<Rightarrow> bool) \<Rightarrow> nat \<Rightarrow> task_kind list \<Rightarrow> expected_results \<Rightarrow> 'p list_item \<Rightarrow> task_kind list
     \<Rightarrow> expected_results \<times> 'p list_item \<times> task_kind list" where
  "plan_tasks will_skip i [] ex it items = (ex, it, items)"
| "plan_tasks will_skip i (k # ks) ex it items =
     (if will_skip k then plan_tasks will_skip i ks ex (seed_skipped_task_defaults k it) items
      else plan_tasks will_skip i ks (expect_result i k ex) it (items @ [k]))"

record 'p spawn =
  sp_expected :: expected_results
  sp_sent :: "'p task_result list"
  sp_item :: "'p list_item"
  sp_items :: "task_kind list"

definition worktree_skips :: "task_kind set \<Rightarrow> 'p list_item \<Rightarrow> task_kind \<Rightarrow> bool" where
  "worktree_skips run it k \<longleftrightarrow> k \<notin> run \<or> \<not> head_sha it \<noteq> null_oid \<and> k \<in> set commit_tasks"

definition work_items_for_worktree ::
  "task_kind set \<Rightarrow> (string \<Rightarrow> string option) \<Rightarrow> nat \<Rightarrow> expected_results \<Rightarrow> 'p list_item \<Rightarrow> 'p spawn" where
  "work_items_for_worktree run expand_url i ex it =
     (if (case worktree_data_of it of Some d \<Rightarrow> is_prunable d | None \<Rightarrow> False)
      then \<lparr>sp_expected = ex, sp_sent = [], sp_item = seed_prunable_item it, sp_items = []\<rparr>
      else
        (let include_url = K_Url_Status \<in> run;
             item_url = (if include_url then Option.bind (item_branch it) expand_url else None);
             (ex, sent) = (case item_url of
                 Some u \<Rightarrow> (expect_result i K_Url_Status ex, [Url_Status i (Some u) None])
               | None \<Rightarrow> (ex, []));
             has_commits = head_sha it \<noteq> null_oid;
             (ex, it, items) = plan_tasks (worktree_skips run it) i worktree_task_order ex it [];
             it = (if \<not> has_commits then seed_unborn_main_state it else it)
         in (if item_url \<noteq> None
             then \<lparr>sp_expected = expect_result i K_Url_Status ex, sp_sent = sent, sp_item = it,
                   sp_items = items @ [K_Url_Status]\<rparr>
             else \<lparr>sp_expected = ex, sp_sent = sent, sp_item = it, sp_items = items\<rparr>)))"

definition work_items_for_branch ::
  "task_kind set \<Rightarrow> nat \<Rightarrow> expected_results \<Rightarrow> 'p list_item \<Rightarrow> 'p spawn" where
  "work_items_for_branch run i ex it =
     (let (ex, it, items) = plan_tasks (\<lambda>k. k \<notin> run) i branch_task_order ex it [];
          it = seed_skipped_task_defaults K_User_Marker it;
          it = fold seed_skipped_task_defaults
                 [K_Working_Tree_Diff, K_Working_Tree_Conflicts, K_Git_Operation] it
      in \<lparr>sp_expected = ex, sp_sent = [], sp_item = it, sp_items = items\<rparr>)"

section \<open>The drain loop (\<open>results.rs\<close>)\<close>

definition apply_result :: "'p task_result \<Rightarrow> 'p list_item \<Rightarrow> 'p list_item" where
  "apply_result r it =
     (case r of
        Ahead_Behind _ c orphan \<Rightarrow> it\<lparr>counts := Some c, is_orphan := Some orphan\<rparr>
      | Committed_Trees_Match _ b \<Rightarrow> it\<lparr>committed_trees_match := Some b\<rparr>
      | Has_File_Changes _ b \<Rightarrow> it\<lparr>has_file_changes := Some b\<rparr>
      | Would_Merge_Add _ add pid \<Rightarrow> it\<lparr>would_merge_add := Some add, is_patch_id_match := Some pid\<rparr>
      | Is_Ancestor _ b \<Rightarrow> it\<lparr>is_ancestor := Some b\<rparr>
      | Branch_Diff _ d \<Rightarrow> it\<lparr>branch_diff := Some d\<rparr>
      | Working_Tree_Diff _ diff status conflicts \<Rightarrow>
          update_worktree (\<lambda>d. d\<lparr>working_tree_diff := Some diff, working_tree_status := Some status,
            has_conflicts := Some conflicts\<rparr>) it
      | Merge_Tree_Conflicts _ b \<Rightarrow> it\<lparr>has_merge_tree_conflicts := Some b\<rparr>
      | Working_Tree_Conflicts _ b \<Rightarrow> update_worktree (\<lambda>d. d\<lparr>has_working_tree_conflicts := Some b\<rparr>) it
      | Git_Operation _ operation \<Rightarrow> update_worktree (\<lambda>d. d\<lparr>git_operation := Some operation\<rparr>) it
      | User_Marker _ m \<Rightarrow> it\<lparr>user_marker := Some m\<rparr>
      | Upstream _ u \<Rightarrow> it\<lparr>upstream := Some u\<rparr>
      | Ci_Status _ s \<Rightarrow> it\<lparr>pr_status := Some s\<rparr>
      | Url_Status _ u a \<Rightarrow>
          (let it = (if u \<noteq> None then it\<lparr>url := u\<rparr> else it)
           in (if a \<noteq> None then it\<lparr>url_active := a\<rparr> else it))
      | Summary_Generate _ s \<Rightarrow> it\<lparr>summary := Some s\<rparr>)"

definition drain_result :: "string option \<Rightarrow> 'p task_result \<Rightarrow> 'p list_item \<Rightarrow> 'p list_item" where
  "drain_result target r it = refresh_status_symbols target (apply_result r it)"

datatype 'p received =
    Got "task_error + 'p task_result"
  | Idle bool
  | Disconnected

record 'p poll =
  reveal_due :: bool
  deadline_passed :: bool
  received :: "'p received"

datatype drain_event =
    Result_Event nat
  | Reveal_Event
  | Stall_Event nat task_kind string

record 'p drain_state =
  ds_items :: "'p list_item list"
  ds_errors :: "task_error list"
  ds_received :: "task_kind list list"
  ds_reveal :: bool
  ds_events :: "drain_event list"

definition missing_for :: "expected_results \<Rightarrow> task_kind list \<Rightarrow> nat \<Rightarrow> task_kind list" where
  "missing_for ex got i = filter (\<lambda>k. k \<notin> set got) (results_for ex i)"

definition pick_pending_hint ::
  "expected_results \<Rightarrow> task_kind list list \<Rightarrow> 'p list_item list \<Rightarrow> nat \<times> (task_kind \<times> string) option" where
  "pick_pending_hint ex recv items =
     (expected_count ex - sum_list (map length recv),
      find_map (\<lambda>((i, got), it). map_option (\<lambda>k. (k, display_name it))
          (find (\<lambda>k. k \<notin> set got) (results_for ex i)))
        (zip (enumerate 0 recv) items))"

text \<open>The item list is scanned in index order, so the final sort by index leaves it as it is.\<close>

definition items_with_missing ::
  "expected_results \<Rightarrow> task_kind list list \<Rightarrow> 'p list_item list \<Rightarrow> missing_result list" where
  "items_with_missing ex recv items =
     sort_key mr_item_idx (filter_map (\<lambda>(i, it).
       (let missing = missing_for ex (recv ! i) i in
        if missing \<noteq> [] then Some \<lparr>mr_item_idx = i, mr_name = display_name it, missing_kinds = missing\<rparr>
        else None)) (enumerate 0 items))"

datatype 'p drained =
    Finished drain_outcome "'p drain_state"
  | Panicked
  | Still_Running "'p drain_state"

definition got_idx :: "task_error + 'p task_result \<Rightarrow> nat" where
  "got_idx out = (case out of Inl e \<Rightarrow> te_item_idx e | Inr r \<Rightarrow> item_idx r)"

definition got_kind :: "task_error + 'p task_result \<Rightarrow> task_kind" where
  "got_kind out = (case out of Inl e \<Rightarrow> te_kind e | Inr r \<Rightarrow> result_kind r)"

definition receive :: "string option \<Rightarrow> task_error + 'p task_result \<Rightarrow> 'p drain_state \<Rightarrow> 'p drain_state" where
  "receive target out st =
     (let i = got_idx out;
          st = st\<lparr>ds_received := (ds_received st)[i := ds_received st ! i @ [got_kind out]]\<rparr>
      in (case out of
            Inl e \<Rightarrow> st\<lparr>ds_errors := ds_errors st @ [e], ds_events := ds_events st @ [Result_Event i]\<rparr>
          | Inr r \<Rightarrow> st\<lparr>ds_items := (ds_items st)[i := drain_result target r (ds_items st ! i)],
              ds_events := ds_events st @ [Result_Event i]\<rparr>))"

definition on_idle :: "expected_results \<Rightarrow> bool \<Rightarrow> 'p drain_state \<Rightarrow> 'p drain_state" where
  "on_idle ex stalled st =
     (if stalled then
        (case pick_pending_hint ex (ds_received st) (ds_items st) of
           (n, Some (k, name)) \<Rightarrow> st\<lparr>ds_events := ds_events st @ [Stall_Event n k name]\<rparr>
         | (_, None) \<Rightarrow> st)
      else st)"

definition on_reveal :: "bool \<Rightarrow> 'p drain_state \<Rightarrow> 'p drain_state" where
  "on_reveal due st =
     (if ds_reveal st \<and> due then st\<lparr>ds_events := ds_events st @ [Reveal_Event], ds_reveal := False\<rparr> else st)"

fun drain_loop ::
  "expected_results \<Rightarrow> string option \<Rightarrow> 'p poll list \<Rightarrow> 'p drain_state \<Rightarrow> 'p drained" where
  "drain_loop ex target [] st = Still_Running st"
| "drain_loop ex target (p # ps) st =
     (let st = on_reveal (reveal_due p) st in
      if deadline_passed p then
        Finished (Timed_Out (sum_list (map length (ds_received st)))
          (items_with_missing ex (ds_received st) (ds_items st))) st
      else (case received p of
          Disconnected \<Rightarrow> Finished Complete st
        | Idle stalled \<Rightarrow> drain_loop ex target ps (on_idle ex stalled st)
        | Got out \<Rightarrow>
            (if got_idx out < length (ds_items st)
             then drain_loop ex target ps (receive target out st) else Panicked)))"

definition drain_results ::
  "expected_results \<Rightarrow> string option \<Rightarrow> bool \<Rightarrow> 'p poll list \<Rightarrow> 'p list_item list \<Rightarrow> task_error list \<Rightarrow> 'p drained" where
  "drain_results ex target reveal_at ps items errors =
     drain_loop ex target ps
       \<lparr>ds_items = items, ds_errors = errors, ds_received = replicate (length items) [],
        ds_reveal = reveal_at, ds_events = []\<rparr>"

end
