(* ===== verification/List_Convergence.thy ===== *)
theory List_Convergence
  imports List_Drain "HOL-Library.Multiset"
begin

text \<open>
  What the drain of \<open>wt list\<close> guarantees. The rows only gain information (\<open>info_le\<close>), every gate is
  monotone in it, and so refreshing after each result leaves what one refresh over all the results
  would: the rows do not depend on the order in which the tasks finish. The main-state gate agrees with
  \<open>MainState::from_integration_and_counts\<close> once everything is loaded and before that only ever moves to a
  more specific verdict. A timeout reports exactly the results that did not arrive.
\<close>

section \<open>Information order on rows\<close>

definition worktree_le :: "worktree_data \<Rightarrow> worktree_data \<Rightarrow> bool" where
  "worktree_le d d' \<longleftrightarrow>
     wd_locked d' = wd_locked d \<and> wd_prunable d' = wd_prunable d \<and> wd_is_main d' = wd_is_main d
     \<and> branch_worktree_mismatch d' = branch_worktree_mismatch d \<and> duplicate_branch d' = duplicate_branch d
     \<and> opt_le (working_tree_diff d) (working_tree_diff d')
     \<and> opt_le (working_tree_status d) (working_tree_status d')
     \<and> opt_le (has_conflicts d) (has_conflicts d')
     \<and> opt_le (has_working_tree_conflicts d) (has_working_tree_conflicts d')
     \<and> opt_le (git_operation d) (git_operation d')"

fun kind_le :: "item_kind \<Rightarrow> item_kind \<Rightarrow> bool" where
  "kind_le (Worktree d) (Worktree d') \<longleftrightarrow> worktree_le d d'"
| "kind_le (Branch s) (Branch s') \<longleftrightarrow> s = s'"
| "kind_le _ _ \<longleftrightarrow> False"

definition info_le :: "'p list_item \<Rightarrow> 'p list_item \<Rightarrow> bool" where
  "info_le a b \<longleftrightarrow> li_ref b = li_ref a \<and> kind_le (kind a) (kind b)
     \<and> opt_le (counts a) (counts b)
     \<and> opt_le (committed_trees_match a) (committed_trees_match b)
     \<and> opt_le (has_file_changes a) (has_file_changes b)
     \<and> opt_le (would_merge_add a) (would_merge_add b)
     \<and> opt_le (is_patch_id_match a) (is_patch_id_match b)
     \<and> opt_le (is_ancestor a) (is_ancestor b)
     \<and> opt_le (is_orphan a) (is_orphan b)
     \<and> opt_le (upstream a) (upstream b)
     \<and> opt_le (has_merge_tree_conflicts a) (has_merge_tree_conflicts b)
     \<and> opt_le (user_marker a) (user_marker b)"

lemma worktree_le_refl [simp]: "worktree_le d d"
  by (simp add: worktree_le_def)

lemma kind_le_refl [simp]: "kind_le k k"
  by (cases k) simp_all

lemma info_le_refl [simp]: "info_le a a"
  by (simp add: info_le_def)

lemma worktree_le_trans: "worktree_le a b \<Longrightarrow> worktree_le b c \<Longrightarrow> worktree_le a c"
  unfolding worktree_le_def by (auto intro: opt_le_trans)

lemma kind_le_trans: "kind_le a b \<Longrightarrow> kind_le b c \<Longrightarrow> kind_le a c"
  by (cases a; cases b; cases c) (auto intro: worktree_le_trans)

lemma info_le_trans: "info_le a b \<Longrightarrow> info_le b c \<Longrightarrow> info_le a c"
  unfolding info_le_def by (auto intro: opt_le_trans kind_le_trans)

section \<open>The gates are monotone\<close>

lemma parts_symbols_irrelevant:
  "kind (it\<lparr>li_symbols := s\<rparr>) = kind it"
  "is_orphan (it\<lparr>li_symbols := s\<rparr>) = is_orphan it"
  "counts (it\<lparr>li_symbols := s\<rparr>) = counts it"
  "has_merge_tree_conflicts (it\<lparr>li_symbols := s\<rparr>) = has_merge_tree_conflicts it"
  "item_branch (it\<lparr>li_symbols := s\<rparr>) = item_branch it"
  "item_is_main (it\<lparr>li_symbols := s\<rparr>) = item_is_main it"
  "item_is_clean (it\<lparr>li_symbols := s\<rparr>) = item_is_clean it"
  "item_signals (it\<lparr>li_symbols := s\<rparr>) = item_signals it"
  "tree_conflicts (it\<lparr>li_symbols := s\<rparr>) = tree_conflicts it"
  "integration_resolved (it\<lparr>li_symbols := s\<rparr>) t clean = integration_resolved it t clean"
  by (simp_all add: item_branch_def item_is_main_def item_is_clean_def item_signals_def
      tree_conflicts_def integration_resolved_def)

lemma gate_symbols_irrelevant [simp]:
  "try_gate_working_tree (it\<lparr>li_symbols := s\<rparr>) = try_gate_working_tree it"
  "try_gate_operation_state (it\<lparr>li_symbols := s\<rparr>) = try_gate_operation_state it"
  "try_gate_main_state t (it\<lparr>li_symbols := s\<rparr>) = try_gate_main_state t it"
  "try_gate_upstream_divergence (it\<lparr>li_symbols := s\<rparr>) = try_gate_upstream_divergence it"
  "try_gate_user_marker (it\<lparr>li_symbols := s\<rparr>) = try_gate_user_marker it"
  "metadata_state (it\<lparr>li_symbols := s\<rparr>) = metadata_state it"
  unfolding try_gate_working_tree_def try_gate_operation_state_def try_gate_main_state_def
    try_gate_upstream_divergence_def try_gate_user_marker_def metadata_state_def
    check_integration_state_def parts_symbols_irrelevant
  by simp_all

lemma gate_working_tree_mono: "info_le a b \<Longrightarrow> opt_le (try_gate_working_tree a) (try_gate_working_tree b)"
  by (cases "kind a"; cases "kind b") (auto simp: info_le_def worktree_le_def try_gate_working_tree_def)

lemma gate_operation_mono: "info_le a b \<Longrightarrow> opt_le (try_gate_operation_state a) (try_gate_operation_state b)"
  by (cases "kind a"; cases "kind b")
    (auto simp: info_le_def worktree_le_def try_gate_operation_state_def opt_le_def split: option.splits bool.splits)

lemma gate_upstream_mono:
  "info_le a b \<Longrightarrow> opt_le (try_gate_upstream_divergence a) (try_gate_upstream_divergence b)"
  by (auto simp: info_le_def try_gate_upstream_divergence_def intro: opt_le_map)

lemma gate_marker_mono: "info_le a b \<Longrightarrow> opt_le (try_gate_user_marker a) (try_gate_user_marker b)"
  by (auto simp: info_le_def try_gate_user_marker_def)

lemma metadata_state_same: "info_le a b \<Longrightarrow> metadata_state b = metadata_state a"
  by (cases "kind a"; cases "kind b")
    (auto simp: info_le_def worktree_le_def metadata_state_def metadata_worktree_state_def
      item_branch_def is_prunable_def)

lemma is_main_same: "info_le a b \<Longrightarrow> item_is_main b = item_is_main a"
  by (cases "kind a"; cases "kind b") (auto simp: info_le_def worktree_le_def item_is_main_def)

lemma is_clean_mono: "info_le a b \<Longrightarrow> opt_le (item_is_clean a) (item_is_clean b)"
  by (cases "kind a"; cases "kind b")
    (auto simp: info_le_def worktree_le_def item_is_clean_def opt_le_def split: option.splits)

lemma item_signals_mono: "info_le a b \<Longrightarrow> signals_le (item_signals a) (item_signals b)"
  by (auto simp: info_le_def signals_le_def item_signals_def intro: opt_le_map)

lemma tree_conflicts_mono: "info_le a b \<Longrightarrow> opt_le (tree_conflicts a) (tree_conflicts b)"
  by (cases "kind a"; cases "kind b") (auto simp: info_le_def worktree_le_def tree_conflicts_def)

lemma integration_resolved_mono:
  "info_le a b \<Longrightarrow> integration_resolved a t clean \<Longrightarrow> integration_resolved b t clean"
  by (auto simp: info_le_def integration_resolved_def opt_le_def split: if_splits)

lemma conflict_verdict_simps [simp]:
  "conflict_verdict h None = (if h = Some True then Some True else None)"
  "conflict_verdict h (Some None) = h"
  "conflict_verdict h (Some (Some b)) = Some b"
  by (auto simp: conflict_verdict_def split: option.splits bool.splits)

text \<open>
  The committed-HEAD probe and the working-tree probe of one row do not contradict each other: the HEAD
  probe skips its merge and answers \<open>False\<close> whenever the tree probe will answer.
\<close>

definition probes_agree :: "'p list_item \<Rightarrow> bool" where
  "probes_agree it \<longleftrightarrow> \<not> (has_merge_tree_conflicts it = Some True \<and> tree_conflicts it = Some (Some False))"

lemma conflict_verdict_mono:
  assumes "opt_le h h'" and "opt_le w w'" and "\<not> (h' = Some True \<and> w' = Some (Some False))"
  shows "opt_le (conflict_verdict h w) (conflict_verdict h' w')"
proof (cases w)
  case None
  then show ?thesis
  proof (cases "h = Some True")
    case True
    with assms(1) have h': "h' = Some True" by simp
    then have "conflict_verdict h' w' = Some True"
    proof (cases w')
      case (Some o')
      with h' assms(3) show ?thesis by (cases o') auto
    qed simp
    with True None show ?thesis by simp
  qed simp
next
  case (Some o')
  with assms(2) have "w' = Some o'" by simp
  with Some assms(1) show ?thesis by (cases o') auto
qed

lemma gate_main_unfold:
  "try_gate_main_state t it =
     (if item_is_main it then Some Is_Main
      else case is_orphan it of
        None \<Rightarrow> None
      | Some True \<Rightarrow> Some Orphan
      | Some False \<Rightarrow> (case item_is_clean it of
          None \<Rightarrow> None
        | Some clean \<Rightarrow> (case check_integration_state it False t clean of
            Some s \<Rightarrow> Some s
          | None \<Rightarrow> (case conflict_verdict (has_merge_tree_conflicts it) (tree_conflicts it) of
              None \<Rightarrow> None
            | Some True \<Rightarrow> (if integration_resolved it t clean then Some Would_Conflict else None)
            | Some False \<Rightarrow> map_option (\<lambda>c. from_integration_and_counts False False None
                  (\<not> clean \<and> ahead c = 0 \<and> behind c = 0) False (ahead c) (behind c)) (counts it)))))"
proof (cases "item_is_main it")
  case False
  note main = this
  show ?thesis
  proof (cases "is_orphan it = Some False")
    case True
    show ?thesis
    proof (cases "item_is_clean it")
      case (Some clean)
      show ?thesis
      proof (cases "check_integration_state it False t clean")
        case None
        show ?thesis
          by (cases "conflict_verdict (has_merge_tree_conflicts it) (tree_conflicts it)";
              cases "counts it")
            (auto simp: try_gate_main_state_def tier_is_main_def tier_orphan_def
              tier_would_conflict_def tier_counts_def main True Some None split: bool.split)
      qed (simp add: try_gate_main_state_def tier_is_main_def tier_orphan_def main True Some)
    qed (simp add: try_gate_main_state_def tier_is_main_def tier_orphan_def main True)
  next
    case False
    with main show ?thesis
      by (cases "is_orphan it") (auto simp: try_gate_main_state_def tier_is_main_def tier_orphan_def)
  qed
qed (simp add: try_gate_main_state_def tier_is_main_def)

text \<open>Which verdicts of the main-state gate may replace which, as more signals arrive.\<close>

fun refines :: "main_state \<Rightarrow> main_state \<Rightarrow> bool" where
  "refines (Integrated r) (Integrated r') \<longleftrightarrow> reason_rank r' \<le> reason_rank r"
| "refines (Integrated _) Main_Empty \<longleftrightarrow> True"
| "refines Main_Ahead (Integrated _) \<longleftrightarrow> True"
| "refines Main_Behind (Integrated _) \<longleftrightarrow> True"
| "refines Main_Diverged (Integrated _) \<longleftrightarrow> True"
| "refines m m' \<longleftrightarrow> m = m'"

lemma refines_refl [simp]: "refines m m"
  by (cases m) simp_all

lemma integration_state_refines:
  assumes "info_le a b" and "check_integration_state a False t clean = Some m"
  shows "\<exists>m'. check_integration_state b False t clean = Some m' \<and> refines m m'"
proof -
  from assms(2) obtain r where r: "check_integration (item_signals a) = Some r"
    and t: "t \<noteq> None" "clean"
    and m: "m = (if r = Same_Commit_As then Main_Empty else Integrated r)"
    by (auto simp: check_integration_state_def split: if_splits option.splits integration_reason.splits)
  from check_integration_refines[OF item_signals_mono[OF assms(1)] r]
  obtain r' where r': "check_integration (item_signals b) = Some r'" "reason_rank r' \<le> reason_rank r"
    by blast
  have "check_integration_state b False t clean = Some (if r' = Same_Commit_As then Main_Empty else Integrated r')"
    using r' t by (cases r') (auto simp: check_integration_state_def)
  moreover have "refines m (if r' = Same_Commit_As then Main_Empty else Integrated r')"
    using m r'(2) by (cases r; cases r') auto
  ultimately show ?thesis by blast
qed

lemma integration_state_final:
  assumes "info_le a b" and "integration_resolved a t clean"
    and "check_integration_state a False t clean = None"
  shows "check_integration_state b False t clean = None"
proof (cases "t = None \<or> \<not> clean")
  case False
  then have "signals_known (item_signals a)"
    using assms(2) by (auto simp: integration_resolved_def signals_known_def item_signals_def)
  with item_signals_mono[OF assms(1)] have same: "item_signals b = item_signals a"
    by (rule signals_le_known)
  have "check_integration_state b False t clean = check_integration_state a False t clean"
    unfolding check_integration_state_def same by (rule refl)
  with assms(3) show ?thesis by simp
qed (auto simp: check_integration_state_def)

lemma integration_needs_same_commit:
  "check_integration_state it False t clean = Some Main_Empty \<Longrightarrow> \<exists>c. counts it = Some c \<and> ahead c = 0 \<and> behind c = 0"
  by (auto simp: check_integration_state_def check_integration_def item_signals_def split: if_splits)

lemma integration_state_cases:
  "check_integration_state it False t clean = Some m \<Longrightarrow> t \<noteq> None \<and> clean \<and> (m = Main_Empty \<or> (\<exists>r. m = Integrated r))"
  by (auto simp: check_integration_state_def split: if_splits option.splits integration_reason.splits)

lemma integration_when_same_commit:
  assumes "counts it = Some c" "ahead c = 0" "behind c = 0" "t \<noteq> None" "clean"
  shows "check_integration_state it False t clean = Some Main_Empty"
  using assms by (simp add: check_integration_state_def check_integration_def item_signals_def)

lemma gate_main_refines:
  assumes le: "info_le a b" and agree: "probes_agree b" and m: "try_gate_main_state t a = Some m"
  shows "\<exists>m'. try_gate_main_state t b = Some m' \<and> refines m m'"
proof (cases "item_is_main a")
  case True
  with m is_main_same[OF le] show ?thesis by (auto simp: gate_main_unfold)
next
  case False
  note main = False is_main_same[OF le]
  from m False obtain orph where orph: "is_orphan a = Some orph"
    by (auto simp: gate_main_unfold split: option.splits)
  with le have orph': "is_orphan b = Some orph" by (simp add: info_le_def)
  show ?thesis
  proof (cases orph)
    case True
    with m main orph orph' show ?thesis by (auto simp: gate_main_unfold)
  next
    case False
    with m main orph obtain clean where clean: "item_is_clean a = Some clean"
      by (auto simp: gate_main_unfold split: option.splits)
    with is_clean_mono[OF le] have clean': "item_is_clean b = Some clean" by simp
    have ga: "try_gate_main_state t a = (case check_integration_state a False t clean of
            Some s \<Rightarrow> Some s
          | None \<Rightarrow> (case conflict_verdict (has_merge_tree_conflicts a) (tree_conflicts a) of
              None \<Rightarrow> None
            | Some True \<Rightarrow> (if integration_resolved a t clean then Some Would_Conflict else None)
            | Some False \<Rightarrow> map_option (\<lambda>c. from_integration_and_counts False False None
                  (\<not> clean \<and> ahead c = 0 \<and> behind c = 0) False (ahead c) (behind c)) (counts a)))"
      using main False orph clean by (subst gate_main_unfold) simp
    have gb: "try_gate_main_state t b = (case check_integration_state b False t clean of
            Some s \<Rightarrow> Some s
          | None \<Rightarrow> (case conflict_verdict (has_merge_tree_conflicts b) (tree_conflicts b) of
              None \<Rightarrow> None
            | Some True \<Rightarrow> (if integration_resolved b t clean then Some Would_Conflict else None)
            | Some False \<Rightarrow> map_option (\<lambda>c. from_integration_and_counts False False None
                  (\<not> clean \<and> ahead c = 0 \<and> behind c = 0) False (ahead c) (behind c)) (counts b)))"
      using main False orph' clean' by (subst gate_main_unfold) simp
    show ?thesis
    proof (cases "check_integration_state a False t clean")
      case (Some s)
      with integration_state_refines[OF le Some] m ga gb show ?thesis by auto
    next
      case None
      with m ga obtain v where v: "conflict_verdict (has_merge_tree_conflicts a) (tree_conflicts a) = Some v"
        by (auto split: option.splits)
      have "opt_le (conflict_verdict (has_merge_tree_conflicts a) (tree_conflicts a))
          (conflict_verdict (has_merge_tree_conflicts b) (tree_conflicts b))"
        using le agree by (intro conflict_verdict_mono tree_conflicts_mono) (auto simp: info_le_def probes_agree_def)
      with v have v': "conflict_verdict (has_merge_tree_conflicts b) (tree_conflicts b) = Some v" by simp
      show ?thesis
      proof (cases v)
        case True
        with m ga None v have res: "integration_resolved a t clean" and "m = Would_Conflict"
          by (auto split: if_splits)
        with integration_state_final[OF le res None] integration_resolved_mono[OF le res] gb v' True
        show ?thesis by simp
      next
        case False
        with m ga None v obtain c where c: "counts a = Some c"
          and mm: "m = from_integration_and_counts False False None
                  (\<not> clean \<and> ahead c = 0 \<and> behind c = 0) False (ahead c) (behind c)"
          by (auto split: option.splits)
        from c le have c': "counts b = Some c" by (simp add: info_le_def)
        show ?thesis
        proof (cases "check_integration_state b False t clean")
          case None
          with gb v' False c' mm show ?thesis by simp
        next
          case (Some s)
          from integration_state_cases[OF this] have cl: "t \<noteq> None" "clean" by auto
          have nz: "ahead c \<noteq> 0 \<or> behind c \<noteq> 0"
            using integration_when_same_commit[OF c _ _ cl] None by auto
          with integration_needs_same_commit c' Some have "s \<noteq> Main_Empty" by fastforce
          with integration_state_cases[OF Some] obtain r where r: "s = Integrated r" by auto
          have "m = Main_Ahead \<or> m = Main_Behind \<or> m = Main_Diverged"
            using mm nz cl by (auto simp: from_integration_and_counts_def)
          with r gb Some show ?thesis by auto
        qed
      qed
    qed
  qed
qed

section \<open>Refreshing after each result is refreshing once\<close>

definition merged_symbols :: "string option \<Rightarrow> 'p list_item \<Rightarrow> status_symbols \<Rightarrow> status_symbols" where
  "merged_symbols t it ss =
     \<lparr>main_state = (case try_gate_main_state t it of Some m \<Rightarrow> Some m | None \<Rightarrow> main_state ss),
      operation_state = fill (operation_state ss) (try_gate_operation_state it),
      worktree_state = fill (worktree_state ss) (Some (metadata_state it)),
      upstream_divergence = fill (upstream_divergence ss) (try_gate_upstream_divergence it),
      working_tree = fill (working_tree ss) (try_gate_working_tree it),
      ss_user_marker = fill (ss_user_marker ss) (try_gate_user_marker it)\<rparr>"

lemma refresh_merged: "refresh_status_symbols t it = it\<lparr>li_symbols := merged_symbols t it (li_symbols it)\<rparr>"
  by (cases "li_symbols it") (simp add: refresh_status_symbols_def merged_symbols_def Let_def split: option.split)

lemma fill_fill: "opt_le g g' \<Longrightarrow> fill (fill s g) g' = fill s g'"
  by (cases s; cases g) (auto simp: fill_def)

lemma merged_symbols_absorb:
  assumes "info_le a b" and "probes_agree b"
  shows "merged_symbols t b (merged_symbols t a ss) = merged_symbols t b ss"
  using gate_main_refines[OF assms, of t] metadata_state_same[OF assms(1)]
  by (cases "try_gate_main_state t a"; cases "try_gate_main_state t b")
    (auto simp: merged_symbols_def fill_fill[OF gate_operation_mono[OF assms(1)]]
      fill_fill[OF gate_upstream_mono[OF assms(1)]] fill_fill[OF gate_working_tree_mono[OF assms(1)]]
      fill_fill[OF gate_marker_mono[OF assms(1)]] fill_fill)

lemma merged_symbols_irrelevant [simp]:
  "merged_symbols t (it\<lparr>li_symbols := s\<rparr>) ss = merged_symbols t it ss"
  unfolding merged_symbols_def gate_symbols_irrelevant by (rule refl)

lemma li_symbols_apply [simp]: "li_symbols (apply_result r it) = li_symbols it"
  by (cases r; cases "kind it") (simp_all add: apply_result_def update_worktree_def Let_def)

lemma apply_symbols: "apply_result r (it\<lparr>li_symbols := s\<rparr>) = (apply_result r it)\<lparr>li_symbols := s\<rparr>"
  by (cases r; cases "kind it") (simp_all add: apply_result_def update_worktree_def Let_def)

text \<open>A result is fresh for a row when the gate inputs it carries are not loaded yet.\<close>

fun fresh :: "'p task_result \<Rightarrow> 'p list_item \<Rightarrow> bool" where
  "fresh (Ahead_Behind _ _ _) it \<longleftrightarrow> counts it = None \<and> is_orphan it = None"
| "fresh (Committed_Trees_Match _ _) it \<longleftrightarrow> committed_trees_match it = None"
| "fresh (Has_File_Changes _ _) it \<longleftrightarrow> has_file_changes it = None"
| "fresh (Would_Merge_Add _ _ _) it \<longleftrightarrow> would_merge_add it = None \<and> is_patch_id_match it = None"
| "fresh (Is_Ancestor _ _) it \<longleftrightarrow> is_ancestor it = None"
| "fresh (Working_Tree_Diff _ _ _ _) it \<longleftrightarrow>
     (case kind it of Worktree d \<Rightarrow> working_tree_diff d = None \<and> working_tree_status d = None \<and> has_conflicts d = None
      | Branch _ \<Rightarrow> True)"
| "fresh (Merge_Tree_Conflicts _ _) it \<longleftrightarrow> has_merge_tree_conflicts it = None"
| "fresh (Working_Tree_Conflicts _ _) it \<longleftrightarrow>
     (case kind it of Worktree d \<Rightarrow> has_working_tree_conflicts d = None | Branch _ \<Rightarrow> True)"
| "fresh (Git_Operation _ _) it \<longleftrightarrow>
     (case kind it of Worktree d \<Rightarrow> git_operation d = None | Branch _ \<Rightarrow> True)"
| "fresh (User_Marker _ _) it \<longleftrightarrow> user_marker it = None"
| "fresh (Upstream _ _) it \<longleftrightarrow> upstream it = None"
| "fresh (Branch_Diff _ _) it \<longleftrightarrow> True"
| "fresh (Ci_Status _ _) it \<longleftrightarrow> True"
| "fresh (Url_Status _ _ _) it \<longleftrightarrow> True"
| "fresh (Summary_Generate _ _) it \<longleftrightarrow> True"

lemma apply_info_le: "fresh r it \<Longrightarrow> info_le it (apply_result r it)"
  by (cases r; cases "kind it")
    (simp_all add: apply_result_def update_worktree_def info_le_def worktree_le_def Let_def)

lemma drain_refresh_absorb:
  assumes "fresh r it" and "probes_agree (apply_result r it)"
  shows "drain_result t r (refresh_status_symbols t it) = drain_result t r it"
  using merged_symbols_absorb[OF apply_info_le[OF assms(1)] assms(2), of t "li_symbols it"]
  by (simp add: drain_result_def refresh_merged apply_symbols)

text \<open>Two results of one row touch different data: they are of different tasks, or they are the URL
  and the health check, which \<open>UrlStatus\<close> sends apart.\<close>

fun independent :: "'p task_result \<Rightarrow> 'p task_result \<Rightarrow> bool" where
  "independent (Url_Status _ u a) (Url_Status _ u' a') \<longleftrightarrow> \<not> (u \<noteq> None \<and> u' \<noteq> None) \<and> \<not> (a \<noteq> None \<and> a' \<noteq> None)"
| "independent r r' \<longleftrightarrow> result_kind r \<noteq> result_kind r'"

lemma independent_kinds: "result_kind r \<noteq> result_kind r' \<Longrightarrow> independent r r'"
  by (cases r; cases r') auto

lemma independent_sym: "independent r r' \<Longrightarrow> independent r' r"
  by (cases r; cases r') auto

lemma apply_commute: "independent r r' \<Longrightarrow> apply_result r (apply_result r' it) = apply_result r' (apply_result r it)"
  by (cases r; cases r'; cases "kind it") (auto simp: apply_result_def update_worktree_def Let_def)

lemma fresh_apply: "independent r r' \<Longrightarrow> fresh r it \<Longrightarrow> fresh r (apply_result r' it)"
  by (cases r; cases r'; cases "kind it") (auto simp: apply_result_def update_worktree_def Let_def)

lemma probes_agree_symbols [simp]: "probes_agree (it\<lparr>li_symbols := s\<rparr>) = probes_agree it"
  unfolding probes_agree_def parts_symbols_irrelevant by (rule refl)

lemma probes_agree_mono: "info_le a b \<Longrightarrow> probes_agree b \<Longrightarrow> probes_agree a"
  using tree_conflicts_mono[of a b] by (auto simp: probes_agree_def info_le_def opt_le_def)

definition row_results_ok :: "'p list_item \<Rightarrow> 'p task_result list \<Rightarrow> bool" where
  "row_results_ok it rs \<longleftrightarrow> sorted_wrt independent rs \<and> (\<forall>r\<in>set rs. fresh r it)"

lemma fold_info_le: "row_results_ok it rs \<Longrightarrow> info_le it (fold apply_result rs it)"
proof (induction rs arbitrary: it)
  case (Cons r rs)
  then have "fresh r it" and "row_results_ok (apply_result r it) rs"
    by (auto simp: row_results_ok_def fresh_apply independent_sym)
  with Cons.IH show ?case by (auto intro: info_le_trans apply_info_le)
qed simp

lemma refresh_symbols_fold:
  "fold apply_result rs (it\<lparr>li_symbols := s\<rparr>) = (fold apply_result rs it)\<lparr>li_symbols := s\<rparr>"
  by (induction rs arbitrary: it) (simp_all add: apply_symbols)

lemma li_symbols_fold [simp]: "li_symbols (fold apply_result rs it) = li_symbols it"
  by (induction rs arbitrary: it) simp_all

lemma drain_fold_batch:
  assumes "row_results_ok it rs" and "rs \<noteq> []" and "probes_agree (fold apply_result rs it)"
  shows "fold (drain_result t) rs it = refresh_status_symbols t (fold apply_result rs it)"
  using assms
proof (induction rs arbitrary: it rule: rev_induct)
  case (snoc r rs)
  let ?m = "fold apply_result rs it"
  from snoc.prems(1) have ok: "row_results_ok it rs" and r: "fresh r it" "\<forall>r'\<in>set rs. independent r r'"
    by (auto simp: row_results_ok_def sorted_wrt_append independent_sym)
  from r have fr: "fresh r ?m"
    by (induction rs arbitrary: it) (auto simp: fresh_apply)
  have agree: "probes_agree (apply_result r ?m)" using snoc.prems(3) by simp
  show ?case
  proof (cases "rs = []")
    case True
    then show ?thesis by (simp add: drain_result_def)
  next
    case False
    have "probes_agree ?m" by (rule probes_agree_mono[OF apply_info_le[OF fr] agree])
    with snoc.IH[OF ok False] have "fold (drain_result t) rs it = refresh_status_symbols t ?m" by blast
    then have "fold (drain_result t) (rs @ [r]) it = drain_result t r (refresh_status_symbols t ?m)" by simp
    also have "\<dots> = drain_result t r ?m" by (rule drain_refresh_absorb[OF fr agree])
    also have "\<dots> = refresh_status_symbols t (apply_result r ?m)" by (rule drain_result_def)
    finally show ?thesis by simp
  qed
qed simp

lemma fold_apply_perm:
  assumes "sorted_wrt independent rs" and "mset rs' = mset rs"
  shows "fold apply_result rs' it = fold apply_result rs it"
  using assms
proof (induction rs arbitrary: rs' it)
  case (Cons r rs)
  then have "r \<in> set rs'" by (metis list.set_intros(1) set_mset_mset)
  then obtain us vs where rs': "rs' = us @ r # vs" by (meson split_list)
  with Cons.prems(2) have m: "mset (us @ vs) = mset rs" by simp
  then have "set us \<subseteq> set rs" by (metis mset_eq_setD set_append Un_upper1)
  with Cons.prems(1) have ind: "\<forall>u\<in>set us. independent r u" by auto
  have move: "fold apply_result us (apply_result r it) = apply_result r (fold apply_result us it)" for it
    using ind by (induction us arbitrary: it) (simp_all add: apply_commute[of r, symmetric])
  have "fold apply_result rs' it = fold apply_result (us @ vs) (apply_result r it)"
    by (simp add: rs' move)
  also have "\<dots> = fold apply_result rs (apply_result r it)"
    using Cons.IH[OF _ m] Cons.prems(1) by simp
  finally show ?case by simp
qed simp

section \<open>The rows after the loop\<close>

text \<open>What the loop received before it ended.\<close>

fun arrivals :: "'p poll list \<Rightarrow> (task_error + 'p task_result) list" where
  "arrivals [] = []"
| "arrivals (p # ps) =
     (if deadline_passed p then []
      else (case received p of Disconnected \<Rightarrow> [] | Idle _ \<Rightarrow> arrivals ps | Got out \<Rightarrow> out # arrivals ps))"

definition successes :: "(task_error + 'p task_result) list \<Rightarrow> 'p task_result list" where
  "successes outs = filter_map (\<lambda>out. case out of Inr r \<Rightarrow> Some r | Inl _ \<Rightarrow> None) outs"

definition row_results :: "nat \<Rightarrow> 'p poll list \<Rightarrow> 'p task_result list" where
  "row_results i ps = filter (\<lambda>r. item_idx r = i) (successes (arrivals ps))"

fun drained_state :: "'p drained \<Rightarrow> 'p drain_state option" where
  "drained_state (Finished _ st) = Some st"
| "drained_state (Still_Running st) = Some st"
| "drained_state Panicked = None"

lemma successes_simps [simp]:
  "successes [] = []" "successes (Inl e # outs) = successes outs" "successes (Inr r # outs) = r # successes outs"
  by (simp_all add: successes_def)

lemma on_reveal_fields [simp]:
  "ds_items (on_reveal d st) = ds_items st" "ds_received (on_reveal d st) = ds_received st"
  "ds_errors (on_reveal d st) = ds_errors st"
  by (simp_all add: on_reveal_def)

lemma on_idle_fields [simp]:
  "ds_items (on_idle ex s st) = ds_items st" "ds_received (on_idle ex s st) = ds_received st"
  "ds_errors (on_idle ex s st) = ds_errors st"
  by (simp_all add: on_idle_def split: prod.split option.split)

lemma receive_items:
  "ds_items (receive t out st) = (case out of Inl e \<Rightarrow> ds_items st
     | Inr r \<Rightarrow> (ds_items st)[item_idx r := drain_result t r (ds_items st ! item_idx r)])"
  by (cases out) (simp_all add: receive_def got_idx_def Let_def)

lemma receive_received:
  "ds_received (receive t out st) = (ds_received st)[got_idx out := ds_received st ! got_idx out @ [got_kind out]]"
  by (cases out) (simp_all add: receive_def Let_def)

lemma drain_loop_items:
  assumes "drained_state (drain_loop ex t ps st) = Some st'"
  shows "length (ds_items st') = length (ds_items st)
    \<and> (\<forall>i<length (ds_items st). ds_items st' ! i = fold (drain_result t) (row_results i ps) (ds_items st ! i))"
  using assms
proof (induction ex t ps st rule: drain_loop.induct)
  case (1 ex t st)
  then show ?case by (simp add: row_results_def)
next
  case (2 ex t p ps st)
  show ?case
  proof (cases "deadline_passed p")
    case True
    with 2 show ?thesis by (auto simp: Let_def row_results_def)
  next
    case False
    show ?thesis
    proof (cases "received p")
      case (Got out)
      with 2 False have lt: "got_idx out < length (ds_items st)" by (auto simp: Let_def split: if_splits)
      have "drained_state (drain_loop ex t ps (receive t out (on_reveal (reveal_due p) st))) = Some st'"
        using 2(3) False Got lt by (simp add: Let_def)
      from 2(1)[OF refl False Got _ this] lt show ?thesis
        by (cases out) (auto simp: receive_items row_results_def False Got got_idx_def nth_list_update)
    next
      case (Idle s)
      have "drained_state (drain_loop ex t ps (on_idle ex s (on_reveal (reveal_due p) st))) = Some st'"
        using 2(3) False Idle by (simp add: Let_def)
      from 2(2)[OF refl False Idle this] show ?thesis by (auto simp: row_results_def False Idle)
    next
      case Disconnected
      with 2 False show ?thesis by (auto simp: Let_def row_results_def)
    qed
  qed
qed

lemma sorted_wrt_perm:
  assumes "\<And>x y. R x y \<Longrightarrow> R y x" and "sorted_wrt R xs" and "mset ys = mset xs"
  shows "sorted_wrt R ys"
  using assms(2,3)
proof (induction xs arbitrary: ys)
  case (Cons x xs)
  then have "x \<in> set ys" by (metis list.set_intros(1) set_mset_mset)
  then obtain us vs where ys: "ys = us @ x # vs" by (meson split_list)
  with Cons.prems(2) have m: "mset (us @ vs) = mset xs" by simp
  then have "set (us @ vs) = set xs" by (rule mset_eq_setD)
  with Cons.prems(1) have "\<forall>y\<in>set (us @ vs). R x y" by auto
  moreover have "sorted_wrt R (us @ vs)" using Cons.IH[OF _ m] Cons.prems(1) by simp
  ultimately show ?case by (auto simp: ys sorted_wrt_append intro: assms(1))
qed simp

lemma row_results_ok_perm: "row_results_ok it rs \<Longrightarrow> mset rs' = mset rs \<Longrightarrow> row_results_ok it rs'"
  unfolding row_results_ok_def by (metis independent_sym mset_eq_setD sorted_wrt_perm)

definition settled :: "string option \<Rightarrow> 'p list_item \<Rightarrow> 'p task_result list \<Rightarrow> 'p list_item" where
  "settled t it rs = (if rs = [] then it else refresh_status_symbols t (fold apply_result rs it))"

lemma settled_perm:
  assumes "row_results_ok it rs" and "mset rs' = mset rs"
  shows "settled t it rs' = settled t it rs"
proof -
  have "rs' = [] \<longleftrightarrow> rs = []" using assms(2) by auto
  then show ?thesis
    using fold_apply_perm[OF _ assms(2)] assms(1) by (simp add: settled_def row_results_ok_def)
qed

lemma drain_row_settled:
  assumes "row_results_ok it rs" and "probes_agree (fold apply_result rs it)"
  shows "fold (drain_result t) rs it = settled t it rs"
  using drain_fold_batch[OF assms(1) _ assms(2)] by (simp add: settled_def)

lemma drain_results_row:
  assumes "drained_state (drain_results ex t rv ps items errs) = Some st" and "i < length items"
    and "row_results_ok (items ! i) (row_results i ps)"
    and "probes_agree (fold apply_result (row_results i ps) (items ! i))"
  shows "ds_items st ! i = settled t (items ! i) (row_results i ps)"
proof -
  have "ds_items st ! i = fold (drain_result t) (row_results i ps) (items ! i)"
    using drain_loop_items[OF assms(1)[unfolded drain_results_def]] assms(2) by simp
  with drain_row_settled[OF assms(3,4)] show ?thesis by simp
qed

section \<open>Rows as they are spawned\<close>

lemma plan_tasks_result:
  "plan_tasks skip i ks ex it items =
     (fold (expect_result i) (filter (Not \<circ> skip) ks) ex,
      fold seed_skipped_task_defaults (filter skip ks) it, items @ filter (Not \<circ> skip) ks)"
  by (induction skip i ks ex it items rule: plan_tasks.induct) simp_all

lemma fresh_seed: "k \<noteq> result_kind r \<Longrightarrow> fresh r it \<Longrightarrow> fresh r (seed_skipped_task_defaults k it)"
  by (cases r; cases k; cases "kind it") (simp_all add: update_worktree_def)

lemma fresh_seeds:
  "result_kind r \<notin> set ks \<Longrightarrow> fresh r it \<Longrightarrow> fresh r (fold seed_skipped_task_defaults ks it)"
  by (induction ks arbitrary: it) (auto simp: fresh_seed)

lemma fresh_symbols: "fresh r (it\<lparr>li_symbols := s\<rparr>) = fresh r it"
  by (cases r) simp_all

lemma fresh_new_branch: "fresh r (new_item ref (Branch scope))"
  by (cases r) (simp_all add: new_item_def)

lemma fresh_build_worktree: "fresh r (build_worktree_item canon wt main cur prev)"
  by (cases r) (simp_all add: build_worktree_item_def new_worktree_def new_item_def from_worktree_def)

text \<open>
  The results a row's tasks send: one per spawned task at most (a task that fails sends none), and, when
  the URL is known at spawn time, the URL itself ahead of the health check, which carries no URL.
\<close>

definition spawned_results :: "'p spawn \<Rightarrow> 'p task_result list \<Rightarrow> bool" where
  "spawned_results sp rs \<longleftrightarrow>
     (\<exists>qs. mset rs = mset (sp_sent sp) + mset qs \<and> distinct (map result_kind qs)
        \<and> set (map result_kind qs) \<subseteq> set (sp_items sp)
        \<and> (\<forall>i u a. Url_Status i u a \<in> set qs \<longrightarrow> u = None))"

lemma sorted_wrt_independent_kinds: "distinct (map result_kind qs) \<Longrightarrow> sorted_wrt independent qs"
  by (induction qs) (auto intro!: independent_kinds)

lemma distinct_task_orders: "distinct worktree_task_order" "distinct branch_task_order"
  by (simp_all add: worktree_task_order_def branch_task_order_def)

definition seeded_worktree :: "task_kind set \<Rightarrow> 'p list_item \<Rightarrow> 'p list_item" where
  "seeded_worktree run it = fold seed_skipped_task_defaults (filter (worktree_skips run it) worktree_task_order) it"

lemma spawned_worktree_item:
  assumes "\<not> (case worktree_data_of it of Some d \<Rightarrow> is_prunable d | None \<Rightarrow> False)"
  shows "sp_item (work_items_for_worktree run expand i ex it) =
    (if head_sha it = null_oid then seed_unborn_main_state (seeded_worktree run it) else seeded_worktree run it)"
  using assms by (simp add: work_items_for_worktree_def plan_tasks_result Let_def seeded_worktree_def
      del: if_split split: option.splits)

lemma spawned_worktree_tasks:
  assumes "\<not> (case worktree_data_of it of Some d \<Rightarrow> is_prunable d | None \<Rightarrow> False)"
  shows "\<exists>us. set us \<subseteq> {K_Url_Status} \<and> sp_items (work_items_for_worktree run expand i ex it) =
      filter (Not \<circ> worktree_skips run it) worktree_task_order @ us"
    and "sp_sent (work_items_for_worktree run expand i ex it) = []
      \<or> (\<exists>u. sp_sent (work_items_for_worktree run expand i ex it) = [Url_Status i (Some u) None])"
  using assms by (auto simp: work_items_for_worktree_def plan_tasks_result Let_def split: option.splits)

lemma fresh_url: "result_kind r = K_Url_Status \<Longrightarrow> fresh r it"
  by (cases r) simp_all

lemma fresh_unborn: "fresh r (seed_unborn_main_state it) = fresh r it"
  by (simp add: seed_unborn_main_state_def fresh_symbols)

lemma spawned_ok:
  assumes sent: "sp_sent sp = [] \<or> (\<exists>u. sp_sent sp = [Url_Status i (Some u) None])"
    and tasks: "\<And>r. result_kind r \<in> set (sp_items sp) \<Longrightarrow> fresh r (sp_item sp)"
    and rs: "spawned_results sp rs"
  shows "row_results_ok (sp_item sp) rs"
proof -
  from rs obtain qs where q: "mset rs = mset (sp_sent sp) + mset qs"
    "\<forall>i u a. Url_Status i u a \<in> set qs \<longrightarrow> u = None"
    and d: "distinct (map result_kind qs)" and k: "set (map result_kind qs) \<subseteq> set (sp_items sp)"
    unfolding spawned_results_def by blast
  from q(1) have m: "mset rs = mset (sp_sent sp @ qs)" by simp
  from q(2) have u: "u = None" if "Url_Status i u a \<in> set qs" for i u a using that by blast
  have url: "independent (Url_Status i (Some v) None) q" if "q \<in> set qs" for v q
    using u that by (cases q) auto
  have "sorted_wrt independent (sp_sent sp @ qs)"
    using sent sorted_wrt_independent_kinds[OF d] url by auto
  moreover have "\<forall>r\<in>set (sp_sent sp @ qs). fresh r (sp_item sp)"
    using sent tasks k by (force simp: fresh_url)
  ultimately have "row_results_ok (sp_item sp) (sp_sent sp @ qs)" by (simp add: row_results_ok_def)
  then show ?thesis using m by (rule row_results_ok_perm)
qed

lemma spawned_worktree_ok:
  fixes sp :: "'a spawn"
  assumes sp: "sp = work_items_for_worktree run expand i ex (build_worktree_item canon wt main cur prev)"
    and live: "wi_prunable wt = None" and rs: "spawned_results sp rs"
  shows "row_results_ok (sp_item sp) rs"
proof -
  let ?it = "build_worktree_item canon wt main cur prev :: 'a list_item"
  have l: "\<not> (case worktree_data_of ?it of Some d \<Rightarrow> is_prunable d | None \<Rightarrow> False)"
    using live by (simp add: worktree_data_of_def build_worktree_item_def new_worktree_def new_item_def
        from_worktree_def is_prunable_def)
  have seeds: "fresh r (seeded_worktree run ?it)" if "result_kind r \<notin> set (filter (worktree_skips run ?it) worktree_task_order)" for r :: "'a task_result"
    using that unfolding seeded_worktree_def by (intro fresh_seeds fresh_build_worktree)
  show ?thesis
  proof (rule spawned_ok[OF _ _ rs])
    show "sp_sent sp = [] \<or> (\<exists>u. sp_sent sp = [Url_Status i (Some u) None])"
      using spawned_worktree_tasks(2)[OF l] sp by blast
    fix r :: "'a task_result"
    assume "result_kind r \<in> set (sp_items sp)"
    then have "result_kind r = K_Url_Status \<or> result_kind r \<notin> set (filter (worktree_skips run ?it) worktree_task_order)"
      using spawned_worktree_tasks(1)[OF l, of run expand i ex] sp by auto
    then show "fresh r (sp_item sp)"
      using seeds by (auto simp: sp spawned_worktree_item[OF l] fresh_unborn fresh_url)
  qed
qed

lemma spawned_branch_parts:
  "sp_item (work_items_for_branch run i ex it) =
     fold seed_skipped_task_defaults
       (filter (\<lambda>k. k \<notin> run) branch_task_order
         @ [K_User_Marker, K_Working_Tree_Diff, K_Working_Tree_Conflicts, K_Git_Operation]) it"
  "sp_items (work_items_for_branch run i ex it) = filter (\<lambda>k. k \<in> run) branch_task_order"
  "sp_sent (work_items_for_branch run i ex it) = []"
  by (simp_all add: work_items_for_branch_def plan_tasks_result Let_def comp_def)

lemma branch_order_disjoint:
  "k \<in> set branch_task_order \<Longrightarrow> k \<notin> set [K_User_Marker, K_Working_Tree_Diff, K_Working_Tree_Conflicts, K_Git_Operation]"
  by (auto simp: branch_task_order_def)

lemma spawned_branch_ok:
  assumes sp: "sp = work_items_for_branch run i ex (new_item ref (Branch scope))" and rs: "spawned_results sp rs"
  shows "row_results_ok (sp_item sp) rs"
proof (rule spawned_ok[OF _ _ rs])
  fix r :: "'a task_result"
  assume "result_kind r \<in> set (sp_items sp)"
  then have "result_kind r \<notin> set (filter (\<lambda>k. k \<notin> run) branch_task_order
         @ [K_User_Marker, K_Working_Tree_Diff, K_Working_Tree_Conflicts, K_Git_Operation])"
    using branch_order_disjoint[of "result_kind r"] by (simp add: sp spawned_branch_parts)
  then show "fresh r (sp_item sp)"
    unfolding sp spawned_branch_parts by (intro fresh_seeds fresh_new_branch)
qed (simp add: sp spawned_branch_parts)

end
