(* ===== verification/List_Properties.thy ===== *)
theory List_Properties
  imports List_Convergence
begin

text \<open>
  The properties of the \<open>wt list\<close> drain: order independence, stability of the verdicts on screen,
  agreement with the reference verdict, no fabricated integration, every gate resolving, and the
  accounting of a timeout.
\<close>

section \<open>Auxiliary facts\<close>

lemma row_results_ok_append:
  assumes "row_results_ok it (rs @ qs)"
  shows "row_results_ok it rs" and "row_results_ok (fold apply_result rs it) qs"
proof -
  show "row_results_ok it rs" using assms by (auto simp: row_results_ok_def sorted_wrt_append)
  have "fresh q (fold apply_result rs it)" if "q \<in> set qs" for q
  proof -
    have "fresh q it" "\<forall>r\<in>set rs. independent q r"
      using assms that by (auto simp: row_results_ok_def sorted_wrt_append independent_sym)
    then show ?thesis by (induction rs arbitrary: it) (auto simp: fresh_apply)
  qed
  then show "row_results_ok (fold apply_result rs it) qs"
    using assms by (auto simp: row_results_ok_def sorted_wrt_append)
qed

lemma main_state_settled:
  "main_state (li_symbols (settled t it rs)) =
     (if rs = [] then main_state (li_symbols it)
      else case try_gate_main_state t (fold apply_result rs it) of
          Some m \<Rightarrow> Some m | None \<Rightarrow> main_state (li_symbols it))"
  by (simp add: settled_def refresh_merged merged_symbols_def)

lemma arrivals_append:
  "drain_loop ex t ps st = Still_Running st' \<Longrightarrow> arrivals (ps @ qs) = arrivals ps @ arrivals qs"
proof (induction ex t ps st rule: drain_loop.induct)
  case (2 ex t p ps st)
  show ?case
  proof (cases "received p")
    case (Got out)
    with 2(3) have "\<not> deadline_passed p" "got_idx out < length (ds_items st)"
      "drain_loop ex t ps (receive t out (on_reveal (reveal_due p) st)) = Still_Running st'"
      by (auto simp: Let_def split: if_splits)
    with 2(1)[OF refl _ Got] Got show ?thesis by simp
  next
    case (Idle s)
    with 2(3) have "\<not> deadline_passed p"
      "drain_loop ex t ps (on_idle ex s (on_reveal (reveal_due p) st)) = Still_Running st'"
      by (auto simp: Let_def split: if_splits)
    with 2(2)[OF refl _ Idle] Idle show ?thesis by simp
  qed (use 2(3) in \<open>auto simp: Let_def split: if_splits\<close>)
qed simp

lemma row_results_append:
  "drain_results ex t rv ps items errs = Still_Running st \<Longrightarrow>
     row_results i (ps @ qs) = row_results i ps @ row_results i qs"
  unfolding drain_results_def by (drule arrivals_append[where qs = qs]) (simp add: row_results_def successes_def)

lemma removable_refines:
  assumes "refines m m'" and "case m of Main_Empty \<Rightarrow> True | Integrated _ \<Rightarrow> True | _ \<Rightarrow> False"
  shows "case m' of Main_Empty \<Rightarrow> True | Integrated _ \<Rightarrow> True | _ \<Rightarrow> False"
  using assms by (cases m; cases m') auto

lemma main_gate_reference:
  assumes "is_orphan it = Some orphan" and "item_is_clean it = Some clean"
    and "counts it = Some c" and "signals_known (item_signals it)"
    and "conflict_verdict (has_merge_tree_conflicts it) (tree_conflicts it) = Some conflict"
  shows "try_gate_main_state t it =
    Some (from_integration_and_counts (item_is_main it) conflict
      (check_integration_state it (item_is_main it) t clean)
      (\<not> clean \<and> ahead c = 0 \<and> behind c = 0) orphan (ahead c) (behind c))"
proof -
  have "integration_resolved it t clean"
    using assms(4) by (auto simp: integration_resolved_def signals_known_def item_signals_def)
  then show ?thesis
    using assms by (auto simp: gate_main_unfold from_integration_and_counts_def split: option.split bool.split)
qed

subsection \<open>Where integration comes from\<close>

fun shows_integration :: "'p task_result \<Rightarrow> bool" where
  "shows_integration (Ahead_Behind _ c _) \<longleftrightarrow> ahead c = 0 \<and> behind c = 0"
| "shows_integration (Is_Ancestor _ b) \<longleftrightarrow> b"
| "shows_integration (Has_File_Changes _ b) \<longleftrightarrow> \<not> b"
| "shows_integration (Committed_Trees_Match _ b) \<longleftrightarrow> b"
| "shows_integration (Would_Merge_Add _ add pid) \<longleftrightarrow> \<not> add \<or> pid"
| "shows_integration _ \<longleftrightarrow> False"

lemma apply_integrated:
  "signals_integrated (item_signals (apply_result r it)) \<Longrightarrow> signals_integrated (item_signals it) \<or> shows_integration r"
  by (cases r; cases "kind it") (auto simp: apply_result_def update_worktree_def signals_integrated_def item_signals_def Let_def split: if_splits)

lemma fold_integrated:
  "signals_integrated (item_signals (fold apply_result rs it)) \<Longrightarrow>
     signals_integrated (item_signals it) \<or> (\<exists>r\<in>set rs. shows_integration r)"
  by (induction rs arbitrary: it) (auto dest: apply_integrated)

lemma seed_integrated:
  "signals_integrated (item_signals (seed_skipped_task_defaults k it)) \<Longrightarrow> signals_integrated (item_signals it)"
  by (cases k; cases "kind it") (auto simp: update_worktree_def signals_integrated_def item_signals_def)

lemma seeds_integrated:
  "signals_integrated (item_signals (fold seed_skipped_task_defaults ks it)) \<Longrightarrow> signals_integrated (item_signals it)"
  by (induction ks arbitrary: it) (auto dest: seed_integrated)

lemma new_item_not_integrated: "\<not> signals_integrated (item_signals (new_item ref k))"
  by (simp add: signals_integrated_def item_signals_def new_item_def)

lemma integration_state_None:
  "check_integration (item_signals it) = None \<Longrightarrow> check_integration_state it main t clean = None"
  by (simp add: check_integration_state_def)

lemma spawn_not_integrated:
  fixes sp :: "'a spawn"
  assumes "sp = work_items_for_worktree run expand i ex (new_item ref k) \<or> sp = work_items_for_branch run i ex (new_item ref k)"
  shows "\<not> signals_integrated (item_signals (sp_item sp))"
proof -
  let ?it = "new_item ref k :: 'a list_item"
  have sym: "item_signals (x\<lparr>li_symbols := s\<rparr>) = item_signals x" for x :: "'a list_item" and s
    by (rule parts_symbols_irrelevant)
  have seeds: "\<not> signals_integrated (item_signals (fold seed_skipped_task_defaults ks ?it))" for ks
    using seeds_integrated new_item_not_integrated by blast
  have "\<not> signals_integrated (item_signals (sp_item (work_items_for_worktree run expand i ex ?it)))"
  proof (cases "case worktree_data_of ?it of Some d \<Rightarrow> is_prunable d | None \<Rightarrow> False")
    case True
    have "sp_item (work_items_for_worktree run expand i ex ?it) = seed_prunable_item ?it"
      by (simp only: work_items_for_worktree_def if_P[OF True] spawn.simps)
    then show ?thesis
      using new_item_not_integrated[of ref k] by (simp add: seed_prunable_item_def sym)
  next
    case False
    then show ?thesis
      using seeds by (simp add: spawned_worktree_item seed_unborn_main_state_def sym seeded_worktree_def)
  qed
  then show ?thesis using assms seeds by (auto simp: spawned_branch_parts simp del: fold_append fold.simps)
qed

subsection \<open>Which gate inputs are loaded\<close>

fun loaded :: "task_kind \<Rightarrow> 'p list_item \<Rightarrow> bool" where
  "loaded K_Ahead_Behind it \<longleftrightarrow> counts it \<noteq> None \<and> is_orphan it \<noteq> None"
| "loaded K_Committed_Trees_Match it \<longleftrightarrow> committed_trees_match it \<noteq> None"
| "loaded K_Has_File_Changes it \<longleftrightarrow> has_file_changes it \<noteq> None"
| "loaded K_Would_Merge_Add it \<longleftrightarrow> would_merge_add it \<noteq> None \<and> is_patch_id_match it \<noteq> None"
| "loaded K_Is_Ancestor it \<longleftrightarrow> is_ancestor it \<noteq> None"
| "loaded K_Working_Tree_Diff it \<longleftrightarrow>
     (case kind it of Worktree d \<Rightarrow> working_tree_diff d \<noteq> None \<and> working_tree_status d \<noteq> None \<and> has_conflicts d \<noteq> None
      | Branch _ \<Rightarrow> True)"
| "loaded K_Merge_Tree_Conflicts it \<longleftrightarrow> has_merge_tree_conflicts it \<noteq> None"
| "loaded K_Working_Tree_Conflicts it \<longleftrightarrow>
     (case kind it of Worktree d \<Rightarrow> has_working_tree_conflicts d \<noteq> None | Branch _ \<Rightarrow> True)"
| "loaded K_Git_Operation it \<longleftrightarrow>
     (case kind it of Worktree d \<Rightarrow> git_operation d \<noteq> None | Branch _ \<Rightarrow> True)"
| "loaded K_User_Marker it \<longleftrightarrow> user_marker it \<noteq> None"
| "loaded K_Upstream it \<longleftrightarrow> upstream it \<noteq> None"
| "loaded K_Branch_Diff it \<longleftrightarrow> True"
| "loaded K_Ci_Status it \<longleftrightarrow> True"
| "loaded K_Url_Status it \<longleftrightarrow> True"
| "loaded K_Summary_Generate it \<longleftrightarrow> True"

lemma seed_loads:
  "k \<noteq> K_Ahead_Behind \<Longrightarrow> k \<noteq> K_Working_Tree_Diff \<or> kind it = Branch s \<Longrightarrow> loaded k (seed_skipped_task_defaults k it)"
  by (cases k; cases "kind it") (simp_all add: update_worktree_def)

lemma loaded_seed: "loaded k it \<Longrightarrow> loaded k (seed_skipped_task_defaults k' it)"
  by (cases k'; cases k; cases "kind it") (simp_all add: update_worktree_def)

lemma apply_loads: "loaded (result_kind r) (apply_result r it)"
  by (cases r; cases "kind it") (simp_all add: apply_result_def update_worktree_def)

lemma loaded_apply: "loaded k it \<Longrightarrow> loaded k (apply_result r it)"
  by (cases r; cases k; cases "kind it") (simp_all add: apply_result_def update_worktree_def Let_def)

lemma loaded_symbols: "loaded k (it\<lparr>li_symbols := s\<rparr>) = loaded k it"
  by (cases k) simp_all

lemma loaded_seeds: "loaded k it \<Longrightarrow> loaded k (fold seed_skipped_task_defaults ks it)"
  by (induction ks arbitrary: it) (simp_all add: loaded_seed)

lemma loaded_applies: "loaded k it \<or> k \<in> result_kind ` set rs \<Longrightarrow> loaded k (fold apply_result rs it)"
proof (induction rs arbitrary: it)
  case (Cons r rs)
  have "loaded k (apply_result r it) \<or> k \<in> result_kind ` set rs"
    using Cons.prems loaded_apply apply_loads[of r it] by auto
  with Cons.IH show ?case by simp
qed simp

subsection \<open>What the loop received\<close>

definition arrival_errors :: "(task_error + 'p task_result) list \<Rightarrow> task_error list" where
  "arrival_errors outs = filter_map (\<lambda>out. case out of Inl e \<Rightarrow> Some e | Inr _ \<Rightarrow> None) outs"

definition kinds_received :: "nat \<Rightarrow> (task_error + 'p task_result) list \<Rightarrow> task_kind list" where
  "kinds_received i outs = map got_kind (filter (\<lambda>out. got_idx out = i) outs)"

lemma receive_errors:
  "ds_errors (receive t out st) = ds_errors st @ arrival_errors [out]"
  by (cases out) (simp_all add: receive_def arrival_errors_def Let_def)

lemma arrival_errors_Cons: "arrival_errors (out # outs) = arrival_errors [out] @ arrival_errors outs"
  by (cases out) (simp_all add: arrival_errors_def)

lemma sum_list_update_append:
  "i < length xs \<Longrightarrow> sum_list (map length (xs[i := xs ! i @ [k]])) = Suc (sum_list (map length xs))"
  by (induction xs arbitrary: i) (auto split: nat.split)

lemma drain_loop_timeout:
  assumes "drain_loop ex t ps st = Finished (Timed_Out n miss) st'"
    and "length (ds_received st) = length (ds_items st)"
  shows "length (ds_items st') = length (ds_items st) \<and> length (ds_received st') = length (ds_items st)
    \<and> ds_errors st' = ds_errors st @ arrival_errors (arrivals ps)
    \<and> n = sum_list (map length (ds_received st)) + length (arrivals ps)
    \<and> (\<forall>i<length (ds_items st). ds_received st' ! i = ds_received st ! i @ kinds_received i (arrivals ps))
    \<and> miss = items_with_missing ex (ds_received st') (ds_items st')"
  using assms
proof (induction ex t ps st rule: drain_loop.induct)
  case (2 ex t p ps st)
  show ?case
  proof (cases "deadline_passed p")
    case True
    with 2 show ?thesis by (auto simp: Let_def kinds_received_def arrival_errors_def)
  next
    case False
    show ?thesis
    proof (cases "received p")
      case (Got out)
      with 2(3) False have lt: "got_idx out < length (ds_items st)"
        and run: "drain_loop ex t ps (receive t out (on_reveal (reveal_due p) st)) = Finished (Timed_Out n miss) st'"
        by (auto simp: Let_def split: if_splits)
      have len: "length (ds_items (receive t out (on_reveal (reveal_due p) st))) = length (ds_items st)"
        by (cases out) (simp_all add: receive_items)
      have "length (ds_received (receive t out (on_reveal (reveal_due p) st)))
          = length (ds_items (receive t out (on_reveal (reveal_due p) st)))"
        using 2(4) len by (simp add: receive_received)
      from 2(1)[OF refl False Got _ run this] lt 2(4)
      show ?thesis
        by (auto simp: len False Got receive_errors receive_received sum_list_update_append
            arrival_errors_Cons[of out "arrivals ps"] kinds_received_def nth_list_update)
    next
      case (Idle s)
      with 2(3) False have run: "drain_loop ex t ps (on_idle ex s (on_reveal (reveal_due p) st)) = Finished (Timed_Out n miss) st'"
        by (auto simp: Let_def)
      from 2(2)[OF refl False Idle run] 2(4) show ?thesis by (simp add: False Idle)
    next
      case Disconnected
      with 2(3) False show ?thesis by (auto simp: Let_def)
    qed
  qed
qed simp

lemma items_with_missing_idx:
  fixes items :: "'a list_item list"
  shows
  "map mr_item_idx (items_with_missing ex recv items) =
     filter (\<lambda>i. missing_for ex (recv ! i) i \<noteq> []) [0..<length items]"
  "m \<in> set (items_with_missing ex recv items) \<Longrightarrow>
     missing_kinds m = missing_for ex (recv ! mr_item_idx m) (mr_item_idx m) \<and> mr_item_idx m < length items"
proof -
  define rows where "rows = filter_map (\<lambda>(i, it).
       (let missing = missing_for ex (recv ! i) i in
        if missing \<noteq> [] then Some \<lparr>mr_item_idx = i, mr_name = display_name it, missing_kinds = missing\<rparr>
        else None)) (enumerate 0 items)"
  have "map mr_item_idx (filter_map (\<lambda>(i, it).
       (let missing = missing_for ex (recv ! i) i in
        if missing \<noteq> [] then Some \<lparr>mr_item_idx = i, mr_name = display_name it, missing_kinds = missing\<rparr>
        else None)) xs) = filter (\<lambda>i. missing_for ex (recv ! i) i \<noteq> []) (map fst xs)"
    for xs :: "(nat \<times> 'a list_item) list"
    by (induction xs) (auto simp: Let_def)
  then have idx: "map mr_item_idx rows = filter (\<lambda>i. missing_for ex (recv ! i) i \<noteq> []) (map fst (enumerate 0 items))"
    unfolding rows_def .
  also have "map fst (enumerate 0 items) = [0..<length items]" by (simp add: enumerate_eq_zip)
  finally have idx': "map mr_item_idx rows = filter (\<lambda>i. missing_for ex (recv ! i) i \<noteq> []) [0..<length items]" .
  then have "sorted (map mr_item_idx rows)" by (simp add: sorted_wrt_filter)
  then have same: "items_with_missing ex recv items = rows"
    unfolding items_with_missing_def rows_def[symmetric] by (rule sort_key_id_if_sorted)
  show "map mr_item_idx (items_with_missing ex recv items) =
     filter (\<lambda>i. missing_for ex (recv ! i) i \<noteq> []) [0..<length items]"
    using same idx' by simp
  assume "m \<in> set (items_with_missing ex recv items)"
  then show "missing_kinds m = missing_for ex (recv ! mr_item_idx m) (mr_item_idx m) \<and> mr_item_idx m < length items"
    unfolding same by (auto simp: rows_def set_filter_map Let_def in_set_enumerate_eq split: if_splits)
qed

subsection \<open>Spawned rows load every gate input\<close>

lemma worktree_all_loaded:
  assumes sp: "sp = work_items_for_worktree run expand i ex (build_worktree_item canon wt main cur prev)"
    and live: "wi_prunable wt = None" "has_commits wt"
    and run: "{K_Ahead_Behind, K_Working_Tree_Diff} \<subseteq> run"
    and reported: "set (sp_items sp) \<subseteq> result_kind ` set rs"
    and k: "k \<in> set worktree_task_order"
  shows "loaded k (fold apply_result rs (sp_item sp)) \<and> rs \<noteq> []"
proof -
  let ?it = "build_worktree_item canon wt main cur prev :: 'a list_item"
  have l: "\<not> (case worktree_data_of ?it of Some d \<Rightarrow> is_prunable d | None \<Rightarrow> False)"
    using live(1) by (simp add: worktree_data_of_def build_worktree_item_def new_worktree_def new_item_def
        from_worktree_def is_prunable_def)
  have commits: "head_sha ?it \<noteq> null_oid"
    using live(2) by (simp add: head_sha_def build_worktree_item_def new_worktree_def new_item_def
        worktree_ref_def worktree_ref_new_def has_commits_def)
  have spawned: "k \<in> set (sp_items sp)" if "\<not> worktree_skips run ?it k" "k \<in> set worktree_task_order" for k
    using that spawned_worktree_tasks(1)[OF l, of run expand i ex] sp by auto
  have "K_Ahead_Behind \<in> set (sp_items sp)"
    using run commits by (intro spawned) (auto simp: worktree_skips_def worktree_task_order_def)
  then have ne: "rs \<noteq> []" using reported by auto
  show ?thesis
  proof (cases "worktree_skips run ?it k")
    case True
    with run commits have "k \<noteq> K_Ahead_Behind" "k \<noteq> K_Working_Tree_Diff" by (auto simp: worktree_skips_def)
    moreover obtain us vs where "filter (worktree_skips run ?it) worktree_task_order = us @ k # vs"
      using True k split_list[of k "filter (worktree_skips run ?it) worktree_task_order"] by auto
    ultimately have "loaded k (seeded_worktree run ?it)"
      by (simp add: seeded_worktree_def seed_loads loaded_seeds)
    then show ?thesis using ne commits by (simp add: sp spawned_worktree_item[OF l] loaded_applies)
  next
    case False
    then show ?thesis using ne spawned[OF False k] reported by (auto intro: loaded_applies)
  qed
qed

lemma gates_resolve:
  assumes "\<And>k. k \<in> set worktree_task_order \<Longrightarrow> loaded k it"
  shows "try_gate_main_state t it \<noteq> None" "try_gate_operation_state it \<noteq> None"
    "try_gate_working_tree it \<noteq> None" "try_gate_upstream_divergence it \<noteq> None" "try_gate_user_marker it \<noteq> None"
proof -
  note l = assms[unfolded worktree_task_order_def]
  have wtd: "loaded K_Working_Tree_Diff it" and op: "loaded K_Git_Operation it"
    and wtc: "loaded K_Working_Tree_Conflicts it"
    by (rule l; simp)+
  obtain c orphan where ab: "counts it = Some c" "is_orphan it = Some orphan"
    using l[of K_Ahead_Behind] by auto
  have sig: "signals_known (item_signals it)"
    using ab(1) l[of K_Committed_Trees_Match] l[of K_Has_File_Changes] l[of K_Would_Merge_Add] l[of K_Is_Ancestor]
    by (simp add: signals_known_def item_signals_def)
  obtain clean where clean: "item_is_clean it = Some clean"
    using wtd by (cases "kind it") (auto simp: item_is_clean_def)
  obtain h w where "has_merge_tree_conflicts it = Some h" "tree_conflicts it = Some w"
    using wtc l[of K_Merge_Tree_Conflicts] by (cases "kind it") (auto simp: tree_conflicts_def)
  then obtain v where v: "conflict_verdict (has_merge_tree_conflicts it) (tree_conflicts it) = Some v"
    by (cases w) auto
  show "try_gate_main_state t it \<noteq> None" using main_gate_reference[OF ab(2) clean ab(1) sig v] by simp
  show "try_gate_operation_state it \<noteq> None" "try_gate_working_tree it \<noteq> None"
    using wtd op by (cases "kind it"; auto simp: try_gate_operation_state_def try_gate_working_tree_def split: option.split bool.split)+
  show "try_gate_upstream_divergence it \<noteq> None" "try_gate_user_marker it \<noteq> None"
    using l[of K_Upstream] l[of K_User_Marker] by (auto simp: try_gate_upstream_divergence_def try_gate_user_marker_def)
qed

lemma slots_not_loading:
  "from_content s \<noteq> Loading" "flag_slot paint b c \<noteq> Loading"
  "main_slot paint fmt (Some m) \<noteq> Loading" "upstream_slot paint fmt (Some d) \<noteq> Loading"
  "worktree_slot paint fmt (Some op) ws \<noteq> Loading" "marker_slot (Some u) \<noteq> Loading"
  by (simp_all add: from_content_def flag_slot_def main_slot_def upstream_slot_def worktree_slot_def
      marker_slot_def split: option.split)

lemma symbols_not_loading:
  assumes "main_state ss \<noteq> None" "operation_state ss \<noteq> None" "working_tree ss \<noteq> None"
    "upstream_divergence ss \<noteq> None" "ss_user_marker ss \<noteq> None"
  shows "list_all (\<lambda>p. snd p \<noteq> Loading) (symbols paint Styled ss)"
  using assms by (auto simp: symbols_def working_tree_slots_def slots_not_loading slots_not_loading[symmetric])

lemma fill_not_None: "g \<noteq> None \<Longrightarrow> fill s g \<noteq> None"
  by (cases s) (simp_all add: fill_def)

section \<open>Example rows and runs\<close>

text \<open>Concrete inputs on which the witnesses of the properties evaluate.\<close>

definition example_row :: "unit list_item" where
  "example_row = new_item (local_branch ''feat'' ''a1'') (Branch Local)"

definition example_poll :: "unit received \<Rightarrow> unit poll" where
  "example_poll r = \<lparr>reveal_due = False, deadline_passed = False, received = r\<rparr>"

definition example_result :: "unit task_result \<Rightarrow> unit poll" where
  "example_result r = example_poll (Got (Inr r))"

definition example_deadline :: "unit poll" where
  "example_deadline = \<lparr>reveal_due = True, deadline_passed = True, received = Idle False\<rparr>"

definition example_results :: "unit task_result list" where
  "example_results = [Ahead_Behind 0 \<lparr>ahead = 2, behind = 0\<rparr> False, Merge_Tree_Conflicts 0 False, Is_Ancestor 0 True]"

definition example_polls :: "unit poll list" where
  "example_polls = map example_result (take 2 example_results)"

definition example_more :: "unit poll list" where
  "example_more = [example_poll (Idle True), example_result (Is_Ancestor 0 True), example_poll Disconnected]"

definition example_reversed :: "unit poll list" where
  "example_reversed = map example_result (rev example_results) @ [example_deadline]"

definition example_worktree :: worktree_info where
  "example_worktree = \<lparr>wi_path = ''/w'', wi_head = ''a1'', wi_branch = Some ''feat'', wi_bare = False,
     wi_detached = False, wi_locked = None, wi_prunable = None\<rparr>"

definition example_spawn :: "unit spawn" where
  "example_spawn = work_items_for_branch {K_Ahead_Behind, K_Is_Ancestor} 0 []
     (new_item (local_branch ''feat'' ''a1'') (Branch Local))"

definition example_worktree_spawn :: "unit spawn" where
  "example_worktree_spawn = work_items_for_worktree {K_Ahead_Behind, K_Working_Tree_Diff} (\<lambda>_. None) 0 []
     (build_worktree_item (\<lambda>p. p) example_worktree False False False)"

definition example_loaded :: "unit list_item" where
  "example_loaded = fold apply_result [Ahead_Behind 0 \<lparr>ahead = 2, behind = 1\<rparr> False, Is_Ancestor 0 False,
     Has_File_Changes 0 True, Committed_Trees_Match 0 False, Would_Merge_Add 0 True False, Merge_Tree_Conflicts 0 True] example_row"

lemma example_drained:
  "drained_state (drain_results [] (Some ''main'') True (example_polls @ example_more) [example_row] []) \<noteq> None"
  "drained_state (drain_results [] (Some ''main'') False example_reversed [example_row] []) \<noteq> None"
  by code_simp+

lemma example_row_results:
  "row_results 0 (example_polls @ example_more) = example_results"
  "row_results 0 example_reversed = rev example_results"
  by code_simp+

lemma example_row_ok:
  "row_results_ok example_row example_results"
  "probes_agree (fold apply_result example_results example_row)"
  "main_state (li_symbols example_row) = None"
  "main_state (li_symbols (settled (Some ''main'') example_row example_results)) = Some (Integrated Ancestor)"
  by code_simp+

section \<open>Properties\<close>

text \<open>
  C3. The rows of \<open>wt list\<close> do not depend on the order in which tasks finish, nor on how the drain's
  polls interleave with idle ticks, errors and the reveal: two drains of the same rows that received the
  same results for each row leave the same rows, and each row is what one refresh over all of its results
  would give (a row without results is left as it was). The results of a row must touch data it has not
  loaded and be of different tasks, which \<open>spawned_rows_converge\<close> shows for the rows as they are spawned, and its two
  conflict probes must not contradict each other.
\<close>

theorem rows_independent_of_arrival_order:
  assumes "drained_state (drain_results ex t rv ps items errs) = Some st"
    and "drained_state (drain_results ex t rv' ps' items errs') = Some st'"
    and "\<forall>i<length items. mset (row_results i ps') = mset (row_results i ps)
       \<and> row_results_ok (items ! i) (row_results i ps)
       \<and> probes_agree (fold apply_result (row_results i ps) (items ! i))"
  shows "ds_items st' = ds_items st
    \<and> (\<forall>i<length items. ds_items st ! i = settled t (items ! i) (row_results i ps))"
proof -
  have a: "ds_items st ! i = settled t (items ! i) (row_results i ps)" if "i < length items" for i
    using drain_results_row[OF assms(1) that] assms(3) that by blast
  have b: "ds_items st' ! i = settled t (items ! i) (row_results i ps)" if "i < length items" for i
  proof -
    note h = assms(3)[rule_format, OF that]
    have "fold apply_result (row_results i ps') (items ! i) = fold apply_result (row_results i ps) (items ! i)"
      using h by (intro fold_apply_perm) (auto simp: row_results_ok_def)
    then have "ds_items st' ! i = settled t (items ! i) (row_results i ps')"
      using drain_results_row[OF assms(2) that] row_results_ok_perm h by metis
    with settled_perm h show ?thesis by metis
  qed
  have "length (ds_items st) = length items" "length (ds_items st') = length items"
    using drain_loop_items[OF assms(1)[unfolded drain_results_def]]
      drain_loop_items[OF assms(2)[unfolded drain_results_def]] by simp_all
  with a b show ?thesis by (auto intro: nth_equalityI)
qed

theorem rows_independent_of_arrival_order_witness:
  "\<exists>st st'. drained_state (drain_results [] (Some ''main'') True (example_polls @ example_more) [example_row] []) = Some st
     \<and> drained_state (drain_results [] (Some ''main'') False example_reversed [example_row] []) = Some st'
     \<and> ds_items st' = ds_items st \<and> main_state (li_symbols (ds_items st ! 0)) = Some (Integrated Ancestor)"
proof -
  obtain st st' where run: "drained_state (drain_results [] (Some ''main'') True (example_polls @ example_more) [example_row] []) = Some st"
    "drained_state (drain_results [] (Some ''main'') False example_reversed [example_row] []) = Some st'"
    using example_drained by auto
  have "\<forall>i<length [example_row]. mset (row_results i example_reversed) = mset (row_results i (example_polls @ example_more))
       \<and> row_results_ok ([example_row] ! i) (row_results i (example_polls @ example_more))
       \<and> probes_agree (fold apply_result (row_results i (example_polls @ example_more)) ([example_row] ! i))"
    using example_row_ok by (simp add: example_row_results)
  from rows_independent_of_arrival_order[OF run this] run example_row_ok(4) show ?thesis
    by (auto simp: example_row_results)
qed

text \<open>
  C4. The rows \<open>wt list\<close> spawns satisfy what C8 asks for: whatever tasks the column plan selects, the
  results the spawned tasks of a worktree row or of a branch row can send touch data the row has not
  loaded (no seed of a skipped task and no other task writes it) and do not overlap, so the row settles to
  the same state in every arrival order.
\<close>

theorem spawned_rows_converge:
  assumes "sp = work_items_for_worktree run expand i ex (build_worktree_item canon wt main cur prev)
             \<and> wi_prunable wt = None
         \<or> sp = work_items_for_branch run i ex (new_item ref (Branch scope))"
    and "spawned_results sp rs" and "probes_agree (fold apply_result rs (sp_item sp))"
    and "mset rs' = mset rs"
  shows "fold (drain_result t) rs' (sp_item sp) = fold (drain_result t) rs (sp_item sp)"
proof -
  have ok: "row_results_ok (sp_item sp) rs"
    using assms(1) spawned_worktree_ok[OF _ _ assms(2)] spawned_branch_ok[OF _ assms(2)] by blast
  have same: "fold apply_result rs' (sp_item sp) = fold apply_result rs (sp_item sp)"
    using ok assms(4) by (intro fold_apply_perm) (auto simp: row_results_ok_def)
  show ?thesis
    using drain_row_settled[OF ok assms(3)] drain_row_settled[OF row_results_ok_perm[OF ok assms(4)]]
      assms(3) same settled_perm[OF ok assms(4)] by metis
qed

theorem spawned_rows_converge_witness:
  "fold (drain_result (Some ''main'')) [Is_Ancestor 0 True, Ahead_Behind 0 \<lparr>ahead = 2, behind = 0\<rparr> False] (sp_item example_spawn)
     = fold (drain_result (Some ''main'')) [Ahead_Behind 0 \<lparr>ahead = 2, behind = 0\<rparr> False, Is_Ancestor 0 True] (sp_item example_spawn)"
proof (rule spawned_rows_converge[OF disjI2[OF example_spawn_def]])
  show "spawned_results example_spawn [Ahead_Behind 0 \<lparr>ahead = 2, behind = 0\<rparr> False, Is_Ancestor 0 True]"
    unfolding spawned_results_def
    by (rule exI[of _ "[Ahead_Behind 0 \<lparr>ahead = 2, behind = 0\<rparr> False, Is_Ancestor 0 True]"])
      (simp add: example_spawn_def spawned_branch_parts branch_task_order_def)
  show "probes_agree (fold apply_result [Ahead_Behind 0 \<lparr>ahead = 2, behind = 0\<rparr> False, Is_Ancestor 0 True] (sp_item example_spawn))"
    by code_simp
qed simp

text \<open>
  C5. What is on screen is only ever refined. If at some point of the drain a row shows a relationship
  to the default branch, then at every later point it shows one that refines it: \<open>^\<close>, the orphan sign,
  the conflict sign, same-commit and "nothing" stay, the ahead/behind arrows may become "integrated",
  an integration reason may become a cheaper one or "empty"; and a row dimmed as removable stays
  removable. So no conflict sign is flashed for a branch that turns out to be integrated.
\<close>

theorem shown_verdict_only_refines:
  assumes "drain_results ex t rv ps items errs = Still_Running st"
    and "drained_state (drain_results ex t rv (ps @ qs) items errs) = Some st'"
    and "i < length items"
    and "row_results_ok (items ! i) (row_results i (ps @ qs))"
    and "probes_agree (fold apply_result (row_results i (ps @ qs)) (items ! i))"
    and "main_state (li_symbols (items ! i)) = None"
    and "main_state (li_symbols (ds_items st ! i)) = Some m"
  shows "(\<exists>m'. main_state (li_symbols (ds_items st' ! i)) = Some m' \<and> refines m m')
    \<and> (should_dim (ds_items st ! i) \<longrightarrow> should_dim (ds_items st' ! i))"
proof -
  let ?rs = "row_results i ps" and ?qs = "row_results i qs" and ?it = "items ! i"
  have app: "row_results i (ps @ qs) = ?rs @ ?qs" by (rule row_results_append[OF assms(1)])
  note ok = row_results_ok_append[OF assms(4)[unfolded app]]
  have le: "info_le (fold apply_result ?rs ?it) (fold apply_result ?qs (fold apply_result ?rs ?it))"
    by (rule fold_info_le[OF ok(2)])
  have agree: "probes_agree (fold apply_result ?qs (fold apply_result ?rs ?it))"
    using assms(5) by (simp add: app)
  have "drained_state (drain_results ex t rv ps items errs) = Some st" by (simp add: assms(1))
  from drain_results_row[OF this assms(3) ok(1) probes_agree_mono[OF le agree]] assms(6,7)
  have m: "try_gate_main_state t (fold apply_result ?rs ?it) = Some m" and ne: "?rs \<noteq> []"
    by (auto simp: main_state_settled split: if_splits option.splits)
  from gate_main_refines[OF le agree m] obtain m' where
    m': "try_gate_main_state t (fold apply_result (?rs @ ?qs) ?it) = Some m'" "refines m m'" by auto
  have "main_state (li_symbols (ds_items st' ! i)) = Some m'"
    using drain_results_row[OF assms(2,3,4,5)] ne m'(1) by (simp add: main_state_settled app)
  with m'(2) removable_refines[OF m'(2)] assms(7) show ?thesis
    by (simp add: should_dim_def is_potentially_removable_def)
qed

theorem shown_verdict_only_refines_witness:
  "\<exists>st st'. drain_results [] (Some ''main'') True example_polls [example_row] [] = Still_Running st
     \<and> drained_state (drain_results [] (Some ''main'') True (example_polls @ example_more) [example_row] []) = Some st'
     \<and> main_state (li_symbols (ds_items st ! 0)) = Some Main_Ahead
     \<and> (\<exists>m'. main_state (li_symbols (ds_items st' ! 0)) = Some m' \<and> refines Main_Ahead m')"
proof -
  have a: "case drain_results [] (Some ''main'') True example_polls [example_row] [] of
      Still_Running st \<Rightarrow> main_state (li_symbols (ds_items st ! 0)) = Some Main_Ahead | _ \<Rightarrow> False"
    by code_simp
  then obtain st where st: "drain_results [] (Some ''main'') True example_polls [example_row] [] = Still_Running st"
    "main_state (li_symbols (ds_items st ! 0)) = Some Main_Ahead"
    by (auto split: drained.splits)
  obtain st' where st': "drained_state (drain_results [] (Some ''main'') True (example_polls @ example_more) [example_row] []) = Some st'"
    using example_drained by auto
  have "(\<exists>m'. main_state (li_symbols (ds_items st' ! 0)) = Some m' \<and> refines Main_Ahead m')
      \<and> (should_dim (ds_items st ! 0) \<longrightarrow> should_dim (ds_items st' ! 0))"
    by (rule shown_verdict_only_refines[OF st(1) st']) (use example_row_ok st(2) in \<open>simp_all add: example_row_results\<close>)
  with st st' show ?thesis by blast
qed

text \<open>
  C6. Once every input of the main-state gate is loaded, the tiered gate resolves and agrees with the
  one-shot reference \<open>MainState::from_integration_and_counts\<close> over the same data, for worktrees and
  branches, main or not.
\<close>

theorem main_gate_agrees_with_reference:
  assumes "is_orphan it = Some orphan" and "item_is_clean it = Some clean"
    and "counts it = Some c" and "signals_known (item_signals it)"
    and "conflict_verdict (has_merge_tree_conflicts it) (tree_conflicts it) = Some conflict"
  shows "try_gate_main_state t it =
    Some (from_integration_and_counts (item_is_main it) conflict
      (check_integration_state it (item_is_main it) t clean)
      (\<not> clean \<and> ahead c = 0 \<and> behind c = 0) orphan (ahead c) (behind c))"
  using assms by (rule main_gate_reference)

theorem main_gate_agrees_with_reference_witness:
  "try_gate_main_state (Some ''main'') example_loaded = Some Would_Conflict"
proof -
  have "try_gate_main_state (Some ''main'') example_loaded =
    Some (from_integration_and_counts (item_is_main example_loaded) True
      (check_integration_state example_loaded (item_is_main example_loaded) (Some ''main'') True)
      (\<not> True \<and> ahead \<lparr>ahead = 2, behind = 1\<rparr> = 0 \<and> behind \<lparr>ahead = 2, behind = 1\<rparr> = 0) False
      (ahead \<lparr>ahead = 2, behind = 1\<rparr>) (behind \<lparr>ahead = 2, behind = 1\<rparr>))"
    by (rule main_gate_agrees_with_reference) code_simp+
  also have "\<dots> = Some Would_Conflict" by code_simp
  finally show ?thesis .
qed



text \<open>
  A timed-out drain reports exactly what is missing: the count is the number of results received
  (errors included), every error received was recorded, in order, the listed rows are, in index order, the
  rows with an expected result that did not arrive, and each lists exactly those of its expected kinds.
\<close>

theorem timeout_reports_what_is_missing:
  assumes "drain_results ex t rv ps items errs = Finished (Timed_Out n miss) st"
  shows "n = length (arrivals ps) \<and> ds_errors st = errs @ arrival_errors (arrivals ps)
    \<and> map mr_item_idx miss =
        filter (\<lambda>i. \<exists>k\<in>set (results_for ex i). k \<notin> set (kinds_received i (arrivals ps))) [0..<length items]
    \<and> (\<forall>m\<in>set miss. missing_kinds m =
        filter (\<lambda>k. k \<notin> set (kinds_received (mr_item_idx m) (arrivals ps))) (results_for ex (mr_item_idx m)))"
proof -
  note d = drain_loop_timeout[OF assms[unfolded drain_results_def], simplified]
  have recv: "ds_received st ! i = kinds_received i (arrivals ps)" if "i < length items" for i
    using d that by simp
  have miss: "miss = items_with_missing ex (ds_received st) (ds_items st)" and len: "length (ds_items st) = length items"
    using d by auto
  have ne: "missing_for ex (ds_received st ! i) i \<noteq> []
      \<longleftrightarrow> (\<exists>k\<in>set (results_for ex i). k \<notin> set (kinds_received i (arrivals ps)))" if "i < length items" for i
    using recv[OF that] by (auto simp: missing_for_def filter_empty_conv)
  have "map mr_item_idx miss =
      filter (\<lambda>i. \<exists>k\<in>set (results_for ex i). k \<notin> set (kinds_received i (arrivals ps))) [0..<length items]"
    unfolding miss items_with_missing_idx(1) len by (rule filter_cong) (use ne in auto)
  moreover have "missing_kinds m =
      filter (\<lambda>k. k \<notin> set (kinds_received (mr_item_idx m) (arrivals ps))) (results_for ex (mr_item_idx m))"
    if "m \<in> set miss" for m
    using items_with_missing_idx(2)[of m ex "ds_received st" "ds_items st"] that miss len recv
    by (simp add: missing_for_def)
  ultimately show ?thesis using d by auto
qed

theorem timeout_reports_what_is_missing_witness:
  "\<exists>n miss st. drain_results [[K_Ahead_Behind, K_Upstream]] (Some ''main'') True (example_polls @ [example_deadline]) [example_row] []
       = Finished (Timed_Out n miss) st
     \<and> n = 2 \<and> map mr_item_idx miss = [0] \<and> map missing_kinds miss = [[K_Upstream]]"
proof -
  have "case drain_results [[K_Ahead_Behind, K_Upstream]] (Some ''main'') True (example_polls @ [example_deadline]) [example_row] [] of
      Finished (Timed_Out _ _) _ \<Rightarrow> True | _ \<Rightarrow> False"
    by code_simp
  then obtain n miss st where run:
    "drain_results [[K_Ahead_Behind, K_Upstream]] (Some ''main'') True (example_polls @ [example_deadline]) [example_row] []
       = Finished (Timed_Out n miss) st"
    by (auto split: drained.splits drain_outcome.splits)
  have vals: "length (arrivals (example_polls @ [example_deadline])) = 2"
    "filter (\<lambda>i. \<exists>k\<in>set (results_for [[K_Ahead_Behind, K_Upstream]] i).
       k \<notin> set (kinds_received i (arrivals (example_polls @ [example_deadline])))) [0..<length [example_row]] = [0]"
    "filter (\<lambda>k. k \<notin> set (kinds_received 0 (arrivals (example_polls @ [example_deadline]))))
       (results_for [[K_Ahead_Behind, K_Upstream]] 0) = [K_Upstream]"
    by code_simp+
  from timeout_reports_what_is_missing[OF run] vals run show ?thesis by auto
qed

text \<open>
  C8. Every gate of a row resolves: for a worktree with commits that git does not report prunable, if the
  column plan includes the ahead/behind and working-tree tasks (whatever else it skips) and every spawned
  task reports, then no position of the Status cell is left loading. The seeds of the skipped tasks are
  what makes this true.
\<close>

theorem every_gate_resolves:
  assumes "sp = work_items_for_worktree run expand i ex (build_worktree_item canon wt main cur prev)"
    and "wi_prunable wt = None" and "has_commits wt"
    and "{K_Ahead_Behind, K_Working_Tree_Diff} \<subseteq> run"
    and "set (sp_items sp) \<subseteq> result_kind ` set rs"
  shows "list_all (\<lambda>p. snd p \<noteq> Loading) (symbols paint Styled (li_symbols (settled t (sp_item sp) rs)))"
proof -
  note l = worktree_all_loaded[OF assms]
  have "rs \<noteq> []" using l[of K_Upstream] by (simp add: worktree_task_order_def)
  moreover have "loaded k (fold apply_result rs (sp_item sp))" if "k \<in> set worktree_task_order" for k
    using l[OF that] by simp
  note gates = gates_resolve[OF this]
  moreover obtain m where "try_gate_main_state t (fold apply_result rs (sp_item sp)) = Some m"
    using gates(1)[of t] by blast
  ultimately show ?thesis
    by (intro symbols_not_loading)
      (auto simp: settled_def refresh_merged merged_symbols_def fill_not_None split: option.split)
qed

theorem every_gate_resolves_witness:
  "list_all (\<lambda>p. snd p \<noteq> Loading) (symbols (\<lambda>_ s. s) Styled (li_symbols (settled (Some ''main'') (sp_item example_worktree_spawn)
     [Ahead_Behind 0 \<lparr>ahead = 2, behind = 1\<rparr> False, Working_Tree_Diff 0 \<lparr>added = 0, deleted = 0\<rparr> clean_status False])))"
proof (rule every_gate_resolves[OF example_worktree_spawn_def])
  show "wi_prunable example_worktree = None" "has_commits example_worktree" by code_simp+
  show "set (sp_items example_worktree_spawn) \<subseteq> result_kind ` set
     [Ahead_Behind 0 \<lparr>ahead = 2, behind = 1\<rparr> False, Working_Tree_Diff 0 \<lparr>added = 0, deleted = 0\<rparr> clean_status False]"
    by code_simp
qed simp

end
