(* ===== verification/Text_Decode.thy ===== *)
theory Text_Decode
  imports Prelude
begin

text \<open>
  Decoding of command output as the Rust standard library does it: \<open>String::from_utf8_lossy\<close> (every
  maximal ill-formed subpart becomes U+FFFD), \<open>str::lines\<close>, \<open>str::split_whitespace\<close>,
  \<open>str::parse::<usize>\<close> on a 64-bit target and \<open>str::parse::<i64>\<close>, with the facts the parsers need.
\<close>

section \<open>UTF-8\<close>

definition byte :: "char \<Rightarrow> int" where
  "byte c = of_char c"

lemma byte_char_of: "n < 256 \<Longrightarrow> byte (char_of (n :: nat)) = int n"
  unfolding byte_def by (subst of_nat_of_char[symmetric]) simp

definition is_cont :: "char \<Rightarrow> bool" where
  "is_cont c \<longleftrightarrow> 128 \<le> byte c \<and> byte c \<le> 191"

text \<open>The range of the second byte, by the first.\<close>

definition second_ok :: "int \<Rightarrow> char \<Rightarrow> bool" where
  "second_ok b0 c \<longleftrightarrow>
     (if b0 = 224 then 160 \<le> byte c \<and> byte c \<le> 191
      else if b0 = 237 then 128 \<le> byte c \<and> byte c \<le> 159
      else if b0 = 240 then 144 \<le> byte c \<and> byte c \<le> 191
      else if b0 = 244 then 128 \<le> byte c \<and> byte c \<le> 143
      else is_cont c)"

definition seq_len :: "int \<Rightarrow> nat" where
  "seq_len b = (if b < 128 then 1 else if 194 \<le> b \<and> b \<le> 223 then 2
     else if 224 \<le> b \<and> b \<le> 239 then 3 else if 240 \<le> b \<and> b \<le> 244 then 4 else 0)"

text \<open>How many of the first bytes form the next character (\<open>True\<close>) or the next ill-formed subpart.\<close>

definition utf8_step :: "string \<Rightarrow> bool \<times> nat" where
  "utf8_step s =
     (case s of
        [] \<Rightarrow> (True, 0)
      | c # cs \<Rightarrow>
          (let n = seq_len (byte c) in
           if n = 0 then (False, 1)
           else if n = 1 then (True, 1)
           else if cs = [] \<or> \<not> second_ok (byte c) (cs ! 0) then (False, 1)
           else if n = 2 then (True, 2)
           else if length cs < 2 \<or> \<not> is_cont (cs ! 1) then (False, 2)
           else if n = 3 then (True, 3)
           else if length cs < 3 \<or> \<not> is_cont (cs ! 2) then (False, 3)
           else (True, 4)))"

lemma utf8_step_pos: "s \<noteq> [] \<Longrightarrow> 0 < snd (utf8_step s)"
  by (auto simp: utf8_step_def Let_def split: list.split)

definition replacement :: string where
  "replacement = map char_of [0xEF :: nat, 0xBF, 0xBD]"

function from_utf8_lossy :: "string \<Rightarrow> string" where
  "from_utf8_lossy s =
     (if s = [] then []
      else (let (ok, n) = utf8_step s in
        (if ok then take n s else replacement) @ from_utf8_lossy (drop n s)))"
  by pat_completeness auto
termination
proof (relation "measure length")
  fix s :: string and x ok n
  assume s: "s \<noteq> []" and x: "x = utf8_step s" "(ok, n) = x"
  then have "0 < n" using utf8_step_pos[of s] by (metis snd_conv)
  with s show "(drop n s, s) \<in> measure length" by simp
qed simp

declare from_utf8_lossy.simps [simp del]

function valid_utf8 :: "string \<Rightarrow> bool" where
  "valid_utf8 s \<longleftrightarrow>
     (if s = [] then True else (let (ok, n) = utf8_step s in ok \<and> valid_utf8 (drop n s)))"
  by pat_completeness auto
termination
proof (relation "measure length")
  fix s :: string and x ok n
  assume s: "s \<noteq> []" and x: "x = utf8_step s" "(ok, n) = x"
  then have "0 < n" using utf8_step_pos[of s] by (metis snd_conv)
  with s show "(drop n s, s) \<in> measure length" by simp
qed simp

declare valid_utf8.simps [simp del]

lemma lossy_Nil [simp]: "from_utf8_lossy [] = []"
  by (subst from_utf8_lossy.simps) simp

lemma lossy_valid: "valid_utf8 s \<Longrightarrow> from_utf8_lossy s = s"
proof (induction s rule: from_utf8_lossy.induct)
  case (1 s)
  show ?case
  proof (cases "s = []")
    case False
    obtain ok n where st: "utf8_step s = (ok, n)" by (cases "utf8_step s")
    from 1(2) False st have "ok" and "valid_utf8 (drop n s)"
      by (subst (asm) valid_utf8.simps, simp)+
    with 1(1)[OF False st[symmetric] refl] False st show ?thesis
      by (subst from_utf8_lossy.simps) simp
  qed simp
qed

lemma valid_utf8_ascii: "\<forall>c\<in>set s. byte c < 128 \<Longrightarrow> valid_utf8 s"
proof (induction s)
  case Nil
  then show ?case by (subst valid_utf8.simps) simp
next
  case (Cons c s)
  then have "utf8_step (c # s) = (True, 1)" by (simp add: utf8_step_def seq_len_def)
  with Cons show ?case by (subst valid_utf8.simps) simp
qed

lemma lossy_ascii: "\<forall>c\<in>set s. byte c < 128 \<Longrightarrow> from_utf8_lossy s = s"
  by (simp add: lossy_valid valid_utf8_ascii)

section \<open>Lines and words\<close>

abbreviation newline :: char where
  "newline \<equiv> CHR 0x0A"

definition strip_cr :: "string \<Rightarrow> string" where
  "strip_cr l = (if l \<noteq> [] \<and> last l = CHR 0x0D then butlast l else l)"

definition str_lines :: "string \<Rightarrow> string list" where
  "str_lines s =
     (let ps = split_on newline s in
      map strip_cr (butlast ps) @ (if last ps = [] then [] else [last ps]))"

function split_ws :: "string \<Rightarrow> string \<Rightarrow> string list" where
  "split_ws acc s =
     (case find (\<lambda>w. w \<noteq> [] \<and> starts_with s w) ws_encodings of
        Some w \<Rightarrow> (if acc = [] then [] else [acc]) @ split_ws [] (drop (length w) s)
      | None \<Rightarrow> (case s of [] \<Rightarrow> (if acc = [] then [] else [acc]) | c # cs \<Rightarrow> split_ws (acc @ [c]) cs))"
  by pat_completeness auto
termination
proof (relation "measure (\<lambda>(acc, s). length s)")
  fix acc s w
  assume "find (\<lambda>w. w \<noteq> [] \<and> starts_with s w) ws_encodings = Some w"
  then have "w \<noteq> []" and "starts_with s w" by (auto simp: find_Some_iff)
  then obtain t where "s = w @ t" and "w \<noteq> []" by (auto simp: starts_with_iff)
  then show "(([], drop (length w) s), acc, s) \<in> measure (\<lambda>(acc, s). length s)" by auto
qed simp_all

declare split_ws.simps [simp del]

definition split_whitespace :: "string \<Rightarrow> string list" where
  "split_whitespace s = split_ws [] s"

section \<open>Numbers\<close>

definition digit_val :: "char \<Rightarrow> nat" where
  "digit_val c = nat (byte c - 48)"

text \<open>The value of a digit string, as an integer so that the bound of the type is compared in binary.\<close>

definition decimal :: "string \<Rightarrow> int" where
  "decimal ds = foldl (\<lambda>a c. 10 * a + int (digit_val c)) 0 ds"

definition parse_uint :: "nat \<Rightarrow> string \<Rightarrow> nat option" where
  "parse_uint width s =
     (let ds = (case s of [] \<Rightarrow> [] | c # cs \<Rightarrow> if c = CHR ''+'' then cs else s) in
      if ds = [] \<or> \<not> list_all is_ascii_digit ds then None
      else (let n = decimal ds in if n < 2 ^ width then Some (nat n) else None))"

definition parse_usize :: "string \<Rightarrow> nat option" where
  "parse_usize s = parse_uint 64 s"

fun show_nat_aux :: "nat \<Rightarrow> nat \<Rightarrow> string" where
  "show_nat_aux 0 n = []"
| "show_nat_aux (Suc f) n =
     (if n < 10 then [char_of (48 + n)] else show_nat_aux f (n div 10) @ [char_of (48 + n mod 10)])"

text \<open>\<open>n.to_string()\<close>; a number has at most \<open>n + 1\<close> decimal digits.\<close>

definition show_nat :: "nat \<Rightarrow> string" where
  "show_nat n = show_nat_aux (Suc n) n"

lemma show_nat_aux_digits: "c \<in> set (show_nat_aux f n) \<Longrightarrow> is_ascii_digit c"
proof (induction f n rule: show_nat_aux.induct)
  case (2 f n)
  have d: "is_ascii_digit (char_of (48 + k :: nat))" if "k < 10" for k
    using that by (simp add: is_ascii_digit_def flip: byte_def) (simp add: byte_char_of)
  show ?case
  proof (cases "n < 10")
    case True
    with 2 d show ?thesis by simp
  next
    case False
    with 2 d[of "n mod 10"] show ?thesis by auto
  qed
qed simp

lemma show_nat_aux_value: "n < f \<Longrightarrow> foldl (\<lambda>a c. 10 * a + digit_val c) 0 (show_nat_aux f n) = n"
proof (induction f n rule: show_nat_aux.induct)
  case (2 f n)
  have d: "digit_val (char_of (48 + k :: nat)) = k" if "k < 10" for k
    using that by (simp add: digit_val_def byte_char_of)
  show ?case
  proof (cases "n < 10")
    case True
    with d show ?thesis by simp
  next
    case False
    with 2(2) have "n div 10 < f" by auto
    with 2(1)[OF False this] False d[of "n mod 10"] show ?thesis by simp
  qed
qed simp

lemma decimal_value: "decimal ds = int (foldl (\<lambda>a c. 10 * a + digit_val c) 0 ds)"
proof -
  have "foldl (\<lambda>a c. 10 * a + int (digit_val c)) (int k) ds = int (foldl (\<lambda>a c. 10 * a + digit_val c) k ds)" for k
  proof (induction ds arbitrary: k)
    case (Cons c ds)
    from Cons[of "10 * k + digit_val c"] show ?case by simp
  qed simp
  from this[of 0] show ?thesis by (simp add: decimal_def)
qed

lemma show_nat_not_Nil [simp]: "show_nat n \<noteq> []"
  by (simp add: show_nat_def)

lemma show_nat_digits: "c \<in> set (show_nat n) \<Longrightarrow> is_ascii_digit c"
  unfolding show_nat_def by (rule show_nat_aux_digits)

lemma parse_show_nat: "n < 2 ^ w \<Longrightarrow> parse_uint w (show_nat n) = Some n"
proof -
  assume n: "n < 2 ^ w"
  have "CHR ''+'' \<notin> set (show_nat n)" using show_nat_digits by (force simp: is_ascii_digit_def)
  then have ds: "(case show_nat n of [] \<Rightarrow> [] | c # cs \<Rightarrow> if c = CHR ''+'' then cs else show_nat n) = show_nat n"
    by (cases "show_nat n") auto
  have "list_all is_ascii_digit (show_nat n)" using show_nat_digits by (auto simp: list_all_iff)
  moreover have "foldl (\<lambda>a c. 10 * a + digit_val c) 0 (show_nat n) = n"
    unfolding show_nat_def by (rule show_nat_aux_value) simp
  then have "decimal (show_nat n) = int n" by (simp add: decimal_value)
  moreover have "int n < 2 ^ w" using n by (metis of_nat_less_iff of_nat_numeral of_nat_power)
  ultimately show ?thesis by (simp add: parse_uint_def ds Let_def)
qed


text \<open>\<open>str::parse::<i64>\<close>.\<close>

definition parse_i64 :: "string \<Rightarrow> int option" where
  "parse_i64 s =
     (let (neg, ds) = (case s of [] \<Rightarrow> (False, [])
                       | c # cs \<Rightarrow> if c = CHR ''+'' then (False, cs)
                                  else if c = CHR ''-'' then (True, cs) else (False, s)) in
      if ds = [] \<or> \<not> list_all is_ascii_digit ds then None
      else (let n = decimal ds;
                v = (if neg then - n else n)
            in if - (2 ^ 63) \<le> v \<and> v < 2 ^ 63 then Some v else None))"

end
