(* ===== verification/Git_Command.thy ===== *)
theory Git_Command
  imports Text_Decode
begin

text \<open>
  Running git (\<open>src/git/repository/mod.rs\<close>, \<open>PlumbingDiff\<close> of \<open>src/git/diff.rs\<close>). The git binary is the
  parameter \<open>git\<close> of every definition here and in the theories above: from the arguments and the
  bytes on standard input to the exit code (\<open>None\<close> when a signal ended it), that signal and standard output, or
  an error when the process could not be run. What the crate asks git for in these theories is
  determined by commit and tree ids, so one function describes all calls of a run.
\<close>

record cmd_output =
  exit_code :: "int option"
  term_signal :: "int option"
  stdout :: string

type_synonym git = "string list \<Rightarrow> string \<Rightarrow> string + cmd_output"

text \<open>What an \<open>anyhow::Error\<close> of these operations carries.\<close>

datatype git_error =
    Not_Run string
  | Command_Failed "string list" cmd_output
  | Message string

definition run_command_output :: "git \<Rightarrow> string list \<Rightarrow> git_error + cmd_output" where
  "run_command_output git args = (case git args [] of Inl e \<Rightarrow> Inl (Not_Run e) | Inr out \<Rightarrow> Inr out)"

definition run_command :: "git \<Rightarrow> string list \<Rightarrow> git_error + string" where
  "run_command git args =
     rbind (run_command_output git args) (\<lambda>out.
       if exit_code out \<noteq> Some 0 then Inl (Command_Failed args out)
       else Inr (from_utf8_lossy (stdout out)))"

definition run_command_check :: "git \<Rightarrow> string list \<Rightarrow> git_error + bool" where
  "run_command_check git args =
     rbind (run_command_output git args) (\<lambda>out.
       if exit_code out = Some 0 then Inr True
       else if exit_code out = Some 1 then Inr False
       else Inl (Command_Failed args out))"

datatype plumbing_diff = Diff_Tree | Diff_Index | Diff_Files

definition plumbing_args :: "plumbing_diff \<Rightarrow> string list \<Rightarrow> string list" where
  "plumbing_args d args =
     [case d of Diff_Tree \<Rightarrow> ''diff-tree'' | Diff_Index \<Rightarrow> ''diff-index'' | Diff_Files \<Rightarrow> ''diff-files'',
      ''--ignore-submodules=none''] @ args"

definition is_ascii_hexdigit :: "char \<Rightarrow> bool" where
  "is_ascii_hexdigit c \<longleftrightarrow>
     (let n = (of_char c :: int) in 48 \<le> n \<and> n \<le> 57 \<or> 65 \<le> n \<and> n \<le> 70 \<or> 97 \<le> n \<and> n \<le> 102)"

definition is_hex_commit_sha :: "string \<Rightarrow> bool" where
  "is_hex_commit_sha s \<longleftrightarrow> length s = 40 \<and> list_all is_ascii_hexdigit s"

definition rev_parse :: "git \<Rightarrow> string \<Rightarrow> git_error + string" where
  "rev_parse git spec =
     rbind (run_command git [''rev-parse'', ''--verify'', ''--end-of-options'', spec]) (\<lambda>out. Inr (trim out))"

definition rev_parse_tree :: "git \<Rightarrow> string \<Rightarrow> git_error + string" where
  "rev_parse_tree git spec = rev_parse git spec"

definition rev_parse_commit :: "git \<Rightarrow> string \<Rightarrow> git_error + string" where
  "rev_parse_commit git r = rev_parse git r"

definition resolve_to_commit_sha :: "git \<Rightarrow> string \<Rightarrow> git_error + string" where
  "resolve_to_commit_sha git r = (if is_hex_commit_sha r then Inr r else rev_parse_commit git r)"

text \<open>
  What the SHA-keyed operations take: an id that git resolves to itself (a 40-digit SHA-1 is taken as
  one without asking git) and that contains neither separator of the cache file names.
\<close>

definition commit_id :: "git \<Rightarrow> string \<Rightarrow> bool" where
  "commit_id git s \<longleftrightarrow>
     resolve_to_commit_sha git s = Inr s \<and> \<not> contains_char s CHR ''-'' \<and> \<not> contains_char s CHR ''+''"

lemma hexdigit_neq: "is_ascii_hexdigit c \<Longrightarrow> c \<noteq> CHR ''-'' \<and> c \<noteq> CHR ''+''"
  by (auto simp: is_ascii_hexdigit_def Let_def)

lemma hex_commit_id: "is_hex_commit_sha s \<Longrightarrow> commit_id git s"
  unfolding commit_id_def contains_char_def resolve_to_commit_sha_def is_hex_commit_sha_def
  by (auto simp: list_all_iff dest: hexdigit_neq)

lemma commit_id_resolve: "commit_id git s \<Longrightarrow> resolve_to_commit_sha git s = Inr s"
  by (simp add: commit_id_def)

end
