(* ===== verification/Sha_Cache.thy ===== *)
theory Sha_Cache
  imports Text_Decode List_State
begin

text \<open>
  The on-disk caches under \<open>.git/wt/cache/\<close>: the file-system primitives of \<open>src/cache.rs\<close> (read,
  write, LRU sweep, clear, count) and the SHA-keyed caches of \<open>src/git/repository/sha_cache.rs\<close>
  (keys, one read and one put function per kind, clear and count over all kinds).

  A directory is the list of its entries in \<open>read_dir\<close> order. A file holds the JSON value
  \<open>serde_json\<close> printed (\<open>Whole\<close>), or text \<open>serde_json\<close> rejects (\<open>Corrupt\<close>: what a torn write leaves);
  \<open>Subdir\<close> is an entry \<open>remove_file\<close> refuses. Every write consumes one element of \<open>faults\<close>, which says
  how the file system treats it, so that each function is total on every failure pattern.

  The interface the SHA-keyed queries rely on is the locale \<open>result_cache\<close>.
\<close>

section \<open>The interface\<close>

locale result_cache =
  fixes lookup :: "'k \<Rightarrow> 's \<Rightarrow> 'v option"
    and put :: "'k \<Rightarrow> 'v \<Rightarrow> 's \<Rightarrow> 's"
  assumes lookup_put: "lookup k' (put k v s) = Some w \<Longrightarrow> k' = k \<and> w = v \<or> lookup k' s = Some w"
begin

text \<open>A cache is sound for a relation when every entry it still holds satisfies it.\<close>

definition sound :: "('k \<Rightarrow> 'v \<Rightarrow> bool) \<Rightarrow> 's \<Rightarrow> bool" where
  "sound truth s \<longleftrightarrow> (\<forall>k v. lookup k s = Some v \<longrightarrow> truth k v)"

lemma sound_put: "sound truth s \<Longrightarrow> truth k v \<Longrightarrow> sound truth (put k v s)"
  unfolding sound_def using lookup_put by blast

lemma sound_lookup: "sound truth s \<Longrightarrow> lookup k s = Some v \<Longrightarrow> truth k v"
  unfolding sound_def by blast

lemma sound_puts: "sound truth s \<Longrightarrow> \<forall>(k, v)\<in>set kvs. truth k v
   \<Longrightarrow> sound truth (foldl (\<lambda>s (k, v). put k v s) s kvs)"
  by (induction kvs arbitrary: s) (auto intro: sound_put)

end

section \<open>Files\<close>

datatype json =
    J_Null | J_Bool bool | J_Num nat | J_Str string | J_Arr "json list" | J_Obj "(string \<times> json) list"

datatype content = Whole json | Corrupt | Subdir

record dir_entry =
  file_name :: string
  content :: content
  mtime :: "nat option"

datatype dir_state = Missing | Not_A_Dir | Dir "dir_entry list"

datatype write_fault = Lands | Mkdir_Fails | Write_Tears | Write_Fails

record cache_disk =
  dirs :: "string \<Rightarrow> dir_state"
  clock :: nat
  faults :: "write_fault list"

definition dir_entries :: "dir_state \<Rightarrow> dir_entry list" where
  "dir_entries d = (case d of Dir es \<Rightarrow> es | _ \<Rightarrow> [])"

definition next_fault :: "cache_disk \<Rightarrow> write_fault" where
  "next_fault d = (case faults d of [] \<Rightarrow> Lands | f # fs \<Rightarrow> f)"

text \<open>\<open>Path::extension\<close> of a file name.\<close>

definition path_extension :: "string \<Rightarrow> string option" where
  "path_extension n =
     (if n = ''..'' then None
      else (case rsplit_once CHR ''.'' n of
              None \<Rightarrow> None
            | Some (stem, ext) \<Rightarrow> if stem = [] then None else Some ext))"

definition is_json_path :: "dir_entry \<Rightarrow> bool" where
  "is_json_path e \<longleftrightarrow> path_extension (file_name e) = Some ''json''"

definition is_json_name :: "dir_entry \<Rightarrow> bool" where
  "is_json_name e \<longleftrightarrow> valid_utf8 (file_name e) \<and> ends_with (file_name e) ''.json''"

definition entry_content :: "string \<Rightarrow> dir_entry list \<Rightarrow> content option" where
  "entry_content n es = map_option content (find (\<lambda>e. file_name e = n) es)"

definition read_json :: "(json \<Rightarrow> 'v option) \<Rightarrow> dir_state \<Rightarrow> string \<Rightarrow> 'v option" where
  "read_json dec d n =
     (case entry_content n (dir_entries d) of Some (Whole j) \<Rightarrow> dec j | _ \<Rightarrow> None)"

definition cache_read :: "(json \<Rightarrow> 'v option) \<Rightarrow> string \<Rightarrow> string \<Rightarrow> cache_disk \<Rightarrow> 'v option" where
  "cache_read dec kind key d = read_json dec (dirs d kind) key"

text \<open>\<open>fs::write\<close>: replaces the content of a file in place, or adds one; an error on a directory.\<close>

fun fs_write :: "string \<Rightarrow> content \<Rightarrow> nat \<Rightarrow> dir_entry list \<Rightarrow> dir_entry list" where
  "fs_write n c t [] = [\<lparr>file_name = n, content = c, mtime = Some t\<rparr>]"
| "fs_write n c t (e # es) =
     (if file_name e = n
      then (if content e = Subdir then e else e\<lparr>content := c, mtime := Some t\<rparr>) # es
      else e # fs_write n c t es)"

definition set_dir :: "string \<Rightarrow> dir_state \<Rightarrow> cache_disk \<Rightarrow> cache_disk" where
  "set_dir kind ds d = d\<lparr>dirs := (dirs d)(kind := ds)\<rparr>"

definition write_json :: "string \<Rightarrow> string \<Rightarrow> json \<Rightarrow> cache_disk \<Rightarrow> cache_disk" where
  "write_json kind key j d =
     (let f = next_fault d;
          d' = d\<lparr>faults := tl (faults d), clock := Suc (clock d)\<rparr>
      in if dirs d kind = Not_A_Dir \<or> dirs d kind = Missing \<and> f = Mkdir_Fails then d'
         else (let es = dir_entries (dirs d kind) in
               if f = Write_Fails then set_dir kind (Dir es) d'
               else set_dir kind
                      (Dir (fs_write key (if f = Write_Tears then Corrupt else Whole j) (clock d) es)) d'))"

definition count_json_files :: "dir_state \<Rightarrow> nat" where
  "count_json_files d = length (filter is_json_path (dir_entries d))"

text \<open>\<open>fs::remove_file\<close>; a directory stays.\<close>

definition remove_file :: "string \<Rightarrow> dir_entry list \<Rightarrow> dir_entry list" where
  "remove_file n es = filter (\<lambda>e. file_name e \<noteq> n \<or> content e = Subdir) es"

definition sweep_victims :: "nat \<Rightarrow> dir_entry list \<Rightarrow> dir_entry list" where
  "sweep_victims cap es =
     (let with_mtime = filter (\<lambda>e. mtime e \<noteq> None) (filter is_json_name es)
      in take (length with_mtime - cap) (sort_key (\<lambda>e. the (mtime e)) with_mtime))"

definition sweep_entries :: "nat \<Rightarrow> dir_entry list \<Rightarrow> dir_entry list" where
  "sweep_entries cap es =
     (if length (filter is_json_path es) \<le> cap then es
      else if length (filter is_json_name es) \<le> cap then es
      else foldl (\<lambda>es v. remove_file (file_name v) es) es (sweep_victims cap es))"

definition sweep_lru :: "string \<Rightarrow> nat \<Rightarrow> cache_disk \<Rightarrow> cache_disk" where
  "sweep_lru kind cap d =
     (if count_json_files (dirs d kind) \<le> cap then d
      else (case dirs d kind of
              Dir es \<Rightarrow> set_dir kind (Dir (sweep_entries cap es)) d
            | _ \<Rightarrow> d))"

definition write_with_lru :: "string \<Rightarrow> string \<Rightarrow> json \<Rightarrow> nat \<Rightarrow> cache_disk \<Rightarrow> cache_disk" where
  "write_with_lru kind key j cap d = sweep_lru kind cap (write_json kind key j d)"

subsection \<open>Clearing\<close>

definition clear_one :: "string \<Rightarrow> dir_entry list \<Rightarrow> dir_entry list \<times> (string + bool)" where
  "clear_one n es =
     (case find (\<lambda>e. file_name e = n) es of
        None \<Rightarrow> (es, Inr False)
      | Some e \<Rightarrow>
          if content e = Subdir then (es, Inl (''failed to remove '' @ n))
          else (remove_file n es, Inr True))"

fun clear_loop :: "dir_entry list \<Rightarrow> dir_entry list \<Rightarrow> nat \<Rightarrow> dir_entry list \<times> (string + nat)" where
  "clear_loop [] es cleared = (es, Inr cleared)"
| "clear_loop (e # rest) es cleared =
     (if \<not> is_json_path e then clear_loop rest es cleared
      else (case clear_one (file_name e) es of
              (es', Inl err) \<Rightarrow> (es', Inl err)
            | (es', Inr removed) \<Rightarrow> clear_loop rest es' (if removed then Suc cleared else cleared)))"

definition clear_json_files :: "string \<Rightarrow> cache_disk \<Rightarrow> cache_disk \<times> (string + nat)" where
  "clear_json_files kind d =
     (case dirs d kind of
        Missing \<Rightarrow> (d, Inr 0)
      | Not_A_Dir \<Rightarrow> (d, Inl (''failed to read '' @ kind))
      | Dir es \<Rightarrow> (case clear_loop es es 0 of (es', r) \<Rightarrow> (set_dir kind (Dir es') d, r)))"

section \<open>The SHA-keyed caches\<close>

definition MAX_ENTRIES_PER_KIND :: nat where
  "MAX_ENTRIES_PER_KIND = 5000"

definition KIND_MERGE_TREE_CONFLICTS :: string where
  "KIND_MERGE_TREE_CONFLICTS = ''merge-tree-conflicts''"
definition KIND_MERGE_ADD_PROBE :: string where
  "KIND_MERGE_ADD_PROBE = ''merge-add-probe''"
definition KIND_IS_ANCESTOR :: string where
  "KIND_IS_ANCESTOR = ''is-ancestor''"
definition KIND_HAS_ADDED_CHANGES :: string where
  "KIND_HAS_ADDED_CHANGES = ''has-added-changes''"
definition KIND_DIFF_STATS :: string where
  "KIND_DIFF_STATS = ''diff-stats''"
definition KIND_AHEAD_BEHIND :: string where
  "KIND_AHEAD_BEHIND = ''ahead-behind''"
definition KIND_MERGE_BASE :: string where
  "KIND_MERGE_BASE = ''merge-base''"

lemmas kind_defs =
  KIND_MERGE_TREE_CONFLICTS_def KIND_MERGE_ADD_PROBE_def KIND_IS_ANCESTOR_def
  KIND_HAS_ADDED_CHANGES_def KIND_DIFF_STATS_def KIND_AHEAD_BEHIND_def KIND_MERGE_BASE_def

definition ALL_KINDS :: "string list" where
  "ALL_KINDS =
     [KIND_MERGE_TREE_CONFLICTS, KIND_MERGE_ADD_PROBE, KIND_IS_ANCESTOR, KIND_HAS_ADDED_CHANGES,
      KIND_DIFF_STATS, KIND_AHEAD_BEHIND, KIND_MERGE_BASE]"

definition symmetric_key :: "string \<Rightarrow> string \<Rightarrow> string" where
  "symmetric_key sha1 sha2 =
     (if sha1 \<le> sha2 then sha1 @ ''-'' @ sha2 @ ''.json'' else sha2 @ ''-'' @ sha1 @ ''.json'')"

definition asymmetric_key :: "string \<Rightarrow> string \<Rightarrow> string" where
  "asymmetric_key a b = a @ ''-'' @ b @ ''.json''"

record merge_probe_result =
  would_merge_add :: bool
  is_patch_id_match :: bool

subsection \<open>The payloads as serde derives them\<close>

definition dec_bool :: "json \<Rightarrow> bool option" where
  "dec_bool j = (case j of J_Bool b \<Rightarrow> Some b | _ \<Rightarrow> None)"

definition dec_usize :: "json \<Rightarrow> nat option" where
  "dec_usize j = (case j of J_Num n \<Rightarrow> if int n < 2 ^ 64 then Some n else None | _ \<Rightarrow> None)"

definition enc_probe :: "merge_probe_result \<Rightarrow> json" where
  "enc_probe p =
     J_Obj [(''would_merge_add'', J_Bool (would_merge_add p)), (''is_patch_id_match'', J_Bool (is_patch_id_match p))]"

definition json_field :: "json \<Rightarrow> string \<Rightarrow> json option" where
  "json_field j k = (case j of J_Obj fs \<Rightarrow> map_of fs k | _ \<Rightarrow> None)"

definition dec_probe :: "json \<Rightarrow> merge_probe_result option" where
  "dec_probe j =
     Option.bind (Option.bind (json_field j ''would_merge_add'') dec_bool) (\<lambda>w.
     Option.bind (Option.bind (json_field j ''is_patch_id_match'') dec_bool) (\<lambda>p.
     Some \<lparr>would_merge_add = w, is_patch_id_match = p\<rparr>))"

definition enc_line_diff :: "line_diff \<Rightarrow> json" where
  "enc_line_diff l = J_Obj [(''added'', J_Num (added l)), (''deleted'', J_Num (deleted l))]"

definition dec_line_diff :: "json \<Rightarrow> line_diff option" where
  "dec_line_diff j =
     Option.bind (Option.bind (json_field j ''added'') dec_usize) (\<lambda>a.
     Option.bind (Option.bind (json_field j ''deleted'') dec_usize) (\<lambda>r.
     Some \<lparr>added = a, deleted = r\<rparr>))"

definition enc_counts :: "nat \<times> nat \<Rightarrow> json" where
  "enc_counts c = J_Arr [J_Num (fst c), J_Num (snd c)]"

definition dec_counts :: "json \<Rightarrow> (nat \<times> nat) option" where
  "dec_counts j =
     (case j of
        J_Arr [a, b] \<Rightarrow> Option.bind (dec_usize a) (\<lambda>x. Option.bind (dec_usize b) (\<lambda>y. Some (x, y)))
      | _ \<Rightarrow> None)"

definition enc_sha_opt :: "string option \<Rightarrow> json" where
  "enc_sha_opt v = (case v of None \<Rightarrow> J_Null | Some s \<Rightarrow> J_Str s)"

definition dec_sha_opt :: "json \<Rightarrow> string option option" where
  "dec_sha_opt j = (case j of J_Null \<Rightarrow> Some None | J_Str s \<Rightarrow> Some (Some s) | _ \<Rightarrow> None)"

lemma dec_enc:
  "dec_bool (J_Bool b) = Some b"
  "dec_probe (enc_probe p) = Some p"
  "int (added l) < 2 ^ 64 \<Longrightarrow> int (deleted l) < 2 ^ 64 \<Longrightarrow> dec_line_diff (enc_line_diff l) = Some l"
  "int (fst c) < 2 ^ 64 \<Longrightarrow> int (snd c) < 2 ^ 64 \<Longrightarrow> dec_counts (enc_counts c) = Some c"
  "dec_sha_opt (enc_sha_opt v) = Some v"
  by (auto simp: dec_bool_def dec_probe_def enc_probe_def json_field_def dec_line_diff_def
      enc_line_diff_def dec_usize_def dec_counts_def enc_counts_def dec_sha_opt_def enc_sha_opt_def
      split: option.splits)

lemma dec_enc_Some:
  "dec_line_diff (enc_line_diff l) = Some w \<Longrightarrow> w = l"
  "dec_counts (enc_counts c) = Some x \<Longrightarrow> x = c"
  by (auto simp: json_field_def dec_line_diff_def enc_line_diff_def dec_usize_def dec_counts_def
      enc_counts_def split: if_splits bind_splits)

subsection \<open>Reads and puts, one pair per kind\<close>

definition cached_merge_conflicts :: "string \<Rightarrow> string \<Rightarrow> cache_disk \<Rightarrow> bool option" where
  "cached_merge_conflicts a b d = cache_read dec_bool KIND_MERGE_TREE_CONFLICTS (symmetric_key a b) d"

definition put_merge_conflicts :: "string \<Rightarrow> string \<Rightarrow> bool \<Rightarrow> cache_disk \<Rightarrow> cache_disk" where
  "put_merge_conflicts a b v d =
     write_with_lru KIND_MERGE_TREE_CONFLICTS (symmetric_key a b) (J_Bool v) MAX_ENTRIES_PER_KIND d"

definition cached_merge_add_probe :: "string \<Rightarrow> string \<Rightarrow> cache_disk \<Rightarrow> merge_probe_result option" where
  "cached_merge_add_probe a b d = cache_read dec_probe KIND_MERGE_ADD_PROBE (asymmetric_key a b) d"

definition put_merge_add_probe :: "string \<Rightarrow> string \<Rightarrow> merge_probe_result \<Rightarrow> cache_disk \<Rightarrow> cache_disk" where
  "put_merge_add_probe a b v d =
     write_with_lru KIND_MERGE_ADD_PROBE (asymmetric_key a b) (enc_probe v) MAX_ENTRIES_PER_KIND d"

definition cached_is_ancestor :: "string \<Rightarrow> string \<Rightarrow> cache_disk \<Rightarrow> bool option" where
  "cached_is_ancestor a b d = cache_read dec_bool KIND_IS_ANCESTOR (asymmetric_key a b) d"

definition put_is_ancestor :: "string \<Rightarrow> string \<Rightarrow> bool \<Rightarrow> cache_disk \<Rightarrow> cache_disk" where
  "put_is_ancestor a b v d =
     write_with_lru KIND_IS_ANCESTOR (asymmetric_key a b) (J_Bool v) MAX_ENTRIES_PER_KIND d"

definition cached_has_added_changes :: "string \<Rightarrow> string \<Rightarrow> cache_disk \<Rightarrow> bool option" where
  "cached_has_added_changes a b d = cache_read dec_bool KIND_HAS_ADDED_CHANGES (asymmetric_key a b) d"

definition put_has_added_changes :: "string \<Rightarrow> string \<Rightarrow> bool \<Rightarrow> cache_disk \<Rightarrow> cache_disk" where
  "put_has_added_changes a b v d =
     write_with_lru KIND_HAS_ADDED_CHANGES (asymmetric_key a b) (J_Bool v) MAX_ENTRIES_PER_KIND d"

definition cached_diff_stats :: "string \<Rightarrow> string \<Rightarrow> cache_disk \<Rightarrow> line_diff option" where
  "cached_diff_stats a b d = cache_read dec_line_diff KIND_DIFF_STATS (asymmetric_key a b) d"

definition put_diff_stats :: "string \<Rightarrow> string \<Rightarrow> line_diff \<Rightarrow> cache_disk \<Rightarrow> cache_disk" where
  "put_diff_stats a b v d =
     write_with_lru KIND_DIFF_STATS (asymmetric_key a b) (enc_line_diff v) MAX_ENTRIES_PER_KIND d"

definition cached_ahead_behind :: "string \<Rightarrow> string \<Rightarrow> cache_disk \<Rightarrow> (nat \<times> nat) option" where
  "cached_ahead_behind a b d = cache_read dec_counts KIND_AHEAD_BEHIND (asymmetric_key a b) d"

definition put_ahead_behind :: "string \<Rightarrow> string \<Rightarrow> nat \<times> nat \<Rightarrow> cache_disk \<Rightarrow> cache_disk" where
  "put_ahead_behind a b v d =
     write_with_lru KIND_AHEAD_BEHIND (asymmetric_key a b) (enc_counts v) MAX_ENTRIES_PER_KIND d"

definition put_ahead_behind_bulk ::
  "(string \<times> string \<times> nat \<times> nat) list \<Rightarrow> cache_disk \<Rightarrow> cache_disk" where
  "put_ahead_behind_bulk entries d =
     sweep_lru KIND_AHEAD_BEHIND MAX_ENTRIES_PER_KIND
       (foldl (\<lambda>d (base, head, v). write_json KIND_AHEAD_BEHIND (asymmetric_key base head) (enc_counts v) d)
         d entries)"

definition cached_merge_base :: "string \<Rightarrow> string \<Rightarrow> cache_disk \<Rightarrow> string option option" where
  "cached_merge_base a b d = cache_read dec_sha_opt KIND_MERGE_BASE (symmetric_key a b) d"

definition put_merge_base :: "string \<Rightarrow> string \<Rightarrow> string option \<Rightarrow> cache_disk \<Rightarrow> cache_disk" where
  "put_merge_base a b v d =
     write_with_lru KIND_MERGE_BASE (symmetric_key a b) (enc_sha_opt v) MAX_ENTRIES_PER_KIND d"

fun clear_kinds :: "string list \<Rightarrow> nat \<Rightarrow> cache_disk \<Rightarrow> cache_disk \<times> (string + nat)" where
  "clear_kinds [] cleared d = (d, Inr cleared)"
| "clear_kinds (k # ks) cleared d =
     (case clear_json_files k d of
        (d', Inl e) \<Rightarrow> (d', Inl e)
      | (d', Inr n) \<Rightarrow> clear_kinds ks (cleared + n) d')"

definition clear_all_caches :: "cache_disk \<Rightarrow> cache_disk \<times> (string + nat)" where
  "clear_all_caches d = clear_kinds ALL_KINDS 0 d"

definition count_all_caches :: "cache_disk \<Rightarrow> nat" where
  "count_all_caches d = sum_list (map (\<lambda>k. count_json_files (dirs d k)) ALL_KINDS)"


section \<open>What a write can make visible\<close>

lemma dir_entries_simps [simp]:
  "dir_entries (Dir es) = es" "dir_entries Missing = []" "dir_entries Not_A_Dir = []"
  by (simp_all add: dir_entries_def)

lemma set_dir_simps [simp]:
  "dirs (set_dir kind ds d) = (dirs d)(kind := ds)"
  "clock (set_dir kind ds d) = clock d"
  "faults (set_dir kind ds d) = faults d"
  by (simp_all add: set_dir_def)

lemma entry_content_simps [simp]:
  "entry_content n [] = None"
  "entry_content n (e # es) = (if file_name e = n then Some (content e) else entry_content n es)"
  by (simp_all add: entry_content_def)

lemma entry_content_fs_write:
  "entry_content n' (fs_write n c t es) =
     (if n' = n then (if entry_content n es = Some Subdir then Some Subdir else Some c)
      else entry_content n' es)"
  by (induction n c t es rule: fs_write.induct) auto

lemma entry_content_remove:
  "entry_content n' (remove_file n es) = Some (Whole j) \<Longrightarrow> entry_content n' es = Some (Whole j)"
proof -
  have gone: "entry_content n (remove_file n es) \<noteq> Some (Whole j)"
    by (induction es) (auto simp: remove_file_def)
  have other: "entry_content n' (remove_file n es) = entry_content n' es" if "n' \<noteq> n"
    using that by (induction es) (auto simp: remove_file_def)
  assume "entry_content n' (remove_file n es) = Some (Whole j)"
  with gone other show ?thesis by metis
qed

lemma foldl_remove_file:
  "foldl (\<lambda>es v. remove_file (file_name v) es) es vs =
     filter (\<lambda>e. file_name e \<notin> file_name ` set vs \<or> content e = Subdir) es"
proof (induction vs arbitrary: es)
  case (Cons v vs)
  have "foldl (\<lambda>es v. remove_file (file_name v) es) es (v # vs) =
      filter (\<lambda>e. file_name e \<notin> file_name ` set vs \<or> content e = Subdir) (remove_file (file_name v) es)"
    by (simp add: Cons.IH)
  also have "\<dots> = filter (\<lambda>e. file_name e \<notin> file_name ` set (v # vs) \<or> content e = Subdir) es"
    unfolding remove_file_def filter_filter by (rule filter_cong) auto
  finally show ?case .
qed simp

lemma entry_content_sweep:
  "entry_content n (sweep_entries cap es) = Some (Whole j) \<Longrightarrow> entry_content n es = Some (Whole j)"
proof -
  have *: "entry_content n (foldl (\<lambda>es v. remove_file (file_name v) es) es vs) = Some (Whole j)
      \<Longrightarrow> entry_content n es = Some (Whole j)" for vs es
    by (induction vs arbitrary: es) (auto dest: entry_content_remove)
  assume "entry_content n (sweep_entries cap es) = Some (Whole j)"
  then show ?thesis unfolding sweep_entries_def by (auto split: if_splits dest: *)
qed

lemma cache_read_def2:
  "cache_read dec kind key d =
     (case entry_content key (dir_entries (dirs d kind)) of Some (Whole j) \<Rightarrow> dec j | _ \<Rightarrow> None)"
  by (simp add: cache_read_def read_json_def)

lemma dirs_sweep_lru:
  "dirs (sweep_lru kind cap d) kind' =
     (if kind' = kind then
        (case dirs d kind of Dir es \<Rightarrow> Dir (sweep_entries cap es) | ds \<Rightarrow> ds)
      else dirs d kind')"
  by (auto simp: sweep_lru_def count_json_files_def sweep_entries_def split: dir_state.split)

lemma dirs_write_json_other: "kind' \<noteq> kind \<Longrightarrow> dirs (write_json kind key j d) kind' = dirs d kind'"
  by (simp add: write_json_def Let_def)

lemma write_json_content:
  assumes "entry_content k' (dir_entries (dirs (write_json kind k j d) kind)) = Some (Whole j')"
  shows "k' = k \<and> j' = j \<or> entry_content k' (dir_entries (dirs d kind)) = Some (Whole j')"
  using assms
  by (cases "dirs d kind") (auto simp: write_json_def Let_def entry_content_fs_write split: if_splits)

lemma cache_read_sweep:
  "cache_read dec kind k (sweep_lru kind cap d) = Some w \<Longrightarrow> cache_read dec kind k d = Some w"
  unfolding cache_read_def2 dirs_sweep_lru
  by (auto split: option.splits content.splits dir_state.splits dest: entry_content_sweep)

lemma cache_read_write_json:
  "cache_read dec kind k' (write_json kind k j d) = Some w
   \<Longrightarrow> k' = k \<and> dec j = Some w \<or> cache_read dec kind k' d = Some w"
  unfolding cache_read_def2
  by (auto split: option.splits content.splits dest!: write_json_content)

lemma cache_read_write:
  "cache_read dec kind k' (write_with_lru kind k j cap d) = Some w
   \<Longrightarrow> k' = k \<and> dec j = Some w \<or> cache_read dec kind k' d = Some w"
  unfolding write_with_lru_def by (blast dest: cache_read_sweep cache_read_write_json)

lemma cache_read_write_other [simp]:
  "kind' \<noteq> kind \<Longrightarrow> cache_read dec kind' k' (write_with_lru kind k j cap d) = cache_read dec kind' k' d"
  by (simp add: cache_read_def write_with_lru_def dirs_sweep_lru dirs_write_json_other)

interpretation bools: result_cache "cache_read dec_bool kind"
    "\<lambda>k v. write_with_lru kind k (J_Bool v) cap" for kind cap
  by unfold_locales (auto dest!: cache_read_write simp: dec_enc)

interpretation probes: result_cache "cache_read dec_probe kind"
    "\<lambda>k v. write_with_lru kind k (enc_probe v) cap" for kind cap
  by unfold_locales (auto dest!: cache_read_write simp: dec_enc)

interpretation line_diffs: result_cache "cache_read dec_line_diff kind"
    "\<lambda>k v. write_with_lru kind k (enc_line_diff v) cap" for kind cap
  by unfold_locales (auto dest!: cache_read_write dest: dec_enc_Some)

interpretation counts: result_cache "cache_read dec_counts kind"
    "\<lambda>k v. write_with_lru kind k (enc_counts v) cap" for kind cap
  by unfold_locales (auto dest!: cache_read_write dest: dec_enc_Some)

interpretation shas: result_cache "cache_read dec_sha_opt kind"
    "\<lambda>k v. write_with_lru kind k (enc_sha_opt v) cap" for kind cap
  by unfold_locales (auto dest!: cache_read_write simp: dec_enc)

interpretation counts_bulk: result_cache "cache_read dec_counts kind"
    "\<lambda>k v. write_json kind k (enc_counts v)" for kind
  by unfold_locales (auto dest!: cache_read_write_json dest: dec_enc_Some)

subsection \<open>Keys\<close>

definition dash_free :: "string \<Rightarrow> bool" where
  "dash_free s \<longleftrightarrow> CHR ''-'' \<notin> set s"

lemma append_dash_inj:
  "a @ CHR ''-'' # s = b @ CHR ''-'' # t \<Longrightarrow> dash_free a \<Longrightarrow> dash_free b \<Longrightarrow> a = b \<and> s = t"
  unfolding dash_free_def by (metis option.inject prod.inject split_once_Some_iff)

lemma asymmetric_key_inj:
  "asymmetric_key a b = asymmetric_key c d \<Longrightarrow> dash_free a \<Longrightarrow> dash_free c \<Longrightarrow> a = c \<and> b = d"
  unfolding asymmetric_key_def by (auto dest!: append_dash_inj)

lemma symmetric_key_commute: "symmetric_key a b = symmetric_key b a"
  by (auto simp: symmetric_key_def)

lemma symmetric_key_inj:
  assumes "symmetric_key a b = symmetric_key c d"
    and "dash_free a" and "dash_free b" and "dash_free c" and "dash_free d"
  shows "a = c \<and> b = d \<or> a = d \<and> b = c"
  using assms unfolding symmetric_key_def by (auto split: if_splits dest!: append_dash_inj)

section \<open>The size bound\<close>

definition regular_dir :: "dir_entry list \<Rightarrow> bool" where
  "regular_dir es \<longleftrightarrow>
     distinct (map file_name es) \<and>
     list_all (\<lambda>e. valid_utf8 (file_name e) \<and> mtime e \<noteq> None \<and> (is_json_name e \<longrightarrow> content e \<noteq> Subdir)) es"

lemma json_path_name: "valid_utf8 (file_name e) \<Longrightarrow> is_json_path e \<Longrightarrow> is_json_name e"
  by (auto simp: is_json_path_def is_json_name_def path_extension_def ends_with_iff str_simps
      split: if_splits option.splits)

lemma fs_write_names: "file_name ` set (fs_write n c t es) = insert n (file_name ` set es)"
  by (induction n c t es rule: fs_write.induct) auto

lemma is_json_name_update [simp]: "is_json_name (e\<lparr>content := c, mtime := t\<rparr>) = is_json_name e"
  by (simp add: is_json_name_def)

lemma regular_fs_write:
  "regular_dir es \<Longrightarrow> valid_utf8 n \<Longrightarrow> c \<noteq> Subdir \<Longrightarrow> regular_dir (fs_write n c t es)"
proof (induction n c t es rule: fs_write.induct)
  case (2 n c t e es)
  show ?case
  proof (cases "file_name e = n")
    case True
    with 2 show ?thesis by (auto simp: regular_dir_def)
  next
    case False
    with 2 have "regular_dir (fs_write n c t es)" by (simp add: regular_dir_def)
    moreover have "file_name e \<notin> file_name ` set (fs_write n c t es)"
      using 2(2) False by (auto simp: fs_write_names regular_dir_def)
    ultimately show ?thesis using 2(2) False by (simp add: regular_dir_def)
  qed
qed (auto simp: regular_dir_def)

lemma regular_write_json:
  assumes "regular_dir (dir_entries (dirs d kind))" and "valid_utf8 key"
  shows "regular_dir (dir_entries (dirs (write_json kind key j d) kind))"
  using assms by (auto simp: write_json_def Let_def regular_fs_write)

text \<open>The sweep of a regular directory is a filter on names.\<close>

lemma sweep_entries_filter:
  assumes "regular_dir es" and "\<not> length (filter is_json_path es) \<le> cap"
    and "\<not> length (filter is_json_name es) \<le> cap"
  shows "sweep_entries cap es = filter (\<lambda>e. e \<notin> set (sweep_victims cap es)) es"
    and "set (sweep_victims cap es) \<subseteq> set (filter is_json_name es)"
proof -
  show sub: "set (sweep_victims cap es) \<subseteq> set (filter is_json_name es)"
    by (auto simp: sweep_victims_def Let_def dest!: in_set_takeD)
  have "file_name e \<notin> file_name ` set (sweep_victims cap es) \<or> content e = Subdir
      \<longleftrightarrow> e \<notin> set (sweep_victims cap es)" if e: "e \<in> set es" for e
  proof -
    have "inj_on file_name (set es)" using assms(1) by (simp add: regular_dir_def distinct_map)
    with sub e have "file_name e \<in> file_name ` set (sweep_victims cap es) \<longleftrightarrow> e \<in> set (sweep_victims cap es)"
      by (subst inj_on_image_mem_iff[of file_name "set es"]) auto
    moreover have "content v \<noteq> Subdir" if "v \<in> set (sweep_victims cap es)" for v
      using that sub assms(1) by (auto simp: regular_dir_def list_all_iff)
    ultimately show ?thesis by blast
  qed
  with assms show "sweep_entries cap es = filter (\<lambda>e. e \<notin> set (sweep_victims cap es)) es"
    unfolding sweep_entries_def by (simp add: foldl_remove_file cong: filter_cong)
qed

lemma length_filter_notin:
  assumes "distinct xs" and "distinct ys" and "set ys \<subseteq> set xs"
  shows "length (filter (\<lambda>x. x \<notin> set ys) xs) = length xs - length ys"
proof -
  have "set (filter (\<lambda>x. x \<notin> set ys) xs) = set xs - set ys" by auto
  then have "length (filter (\<lambda>x. x \<notin> set ys) xs) = card (set xs - set ys)"
    using assms(1) by (metis distinct_card distinct_filter)
  also have "\<dots> = length xs - length ys"
    using assms by (simp add: card_Diff_subset distinct_card)
  finally show ?thesis .
qed

lemma sweep_bound:
  assumes reg: "regular_dir es"
  shows "length (filter is_json_path (sweep_entries cap es)) \<le> cap"
proof (cases "length (filter is_json_path es) \<le> cap")
  case False
  have path_name: "length (filter is_json_path xs) \<le> length (filter is_json_name xs)"
    if "set xs \<subseteq> set es" for xs
    using that reg by (induction xs) (auto simp: regular_dir_def list_all_iff dest: json_path_name)
  show ?thesis
  proof (cases "length (filter is_json_name es) \<le> cap")
    case True
    with path_name[of es] show ?thesis by (simp add: sweep_entries_def)
  next
    case names: False
    let ?J = "filter is_json_name es" and ?V = "sweep_victims cap es"
    note sw = sweep_entries_filter[OF reg False names]
    have dJ: "distinct ?J" using reg by (simp add: regular_dir_def distinct_map)
    have full: "filter (\<lambda>e. mtime e \<noteq> None) ?J = ?J"
      by (rule filter_True) (use reg in \<open>auto simp: regular_dir_def list_all_iff\<close>)
    have dV: "distinct ?V"
      unfolding sweep_victims_def Let_def full by (intro distinct_take) (use dJ in simp)
    have lV: "length ?V = length ?J - cap" using full by (simp add: sweep_victims_def Let_def)
    have "filter is_json_name (sweep_entries cap es) = filter (\<lambda>e. e \<notin> set ?V) ?J"
      unfolding sw(1) by (simp add: conj_commute)
    then have "length (filter is_json_name (sweep_entries cap es)) = cap"
      using length_filter_notin[OF dJ dV sw(2)] lV names by simp
    moreover have "set (sweep_entries cap es) \<subseteq> set es" unfolding sw(1) by auto
    ultimately show ?thesis using path_name by metis
  qed
qed (simp add: sweep_entries_def)

lemma sorted_take_le:
  "sorted (map f xs) \<Longrightarrow> x \<in> set (take n xs) \<Longrightarrow> y \<in> set (drop n xs) \<Longrightarrow> f x \<le> f y"
proof -
  assume *: "sorted (map f xs)" "x \<in> set (take n xs)" "y \<in> set (drop n xs)"
  then have "sorted (map f (take n xs @ drop n xs))" by simp
  with *(2,3) show ?thesis by (simp only: map_append sorted_append) simp
qed

lemma sweep_oldest:
  assumes reg: "regular_dir es" and e: "e \<in> set es" "e \<notin> set (sweep_entries cap es)"
  shows "is_json_name e"
    and "k \<in> set (sweep_entries cap es) \<Longrightarrow> is_json_name k \<Longrightarrow> the (mtime e) \<le> the (mtime k)"
proof -
  have path: "\<not> length (filter is_json_path es) \<le> cap" and names: "\<not> length (filter is_json_name es) \<le> cap"
    using e by (auto simp: sweep_entries_def split: if_splits)
  note sw = sweep_entries_filter[OF reg path names]
  have eV: "e \<in> set (sweep_victims cap es)" using e unfolding sw(1) by simp
  then show "is_json_name e" using sw(2) by auto
  assume k: "k \<in> set (sweep_entries cap es)" "is_json_name k"
  let ?J = "filter (\<lambda>e. mtime e \<noteq> None) (filter is_json_name es)"
  let ?S = "sort_key (\<lambda>e. the (mtime e)) ?J"
  have V: "sweep_victims cap es = take (length ?J - cap) ?S" by (simp add: sweep_victims_def Let_def)
  have "k \<in> set ?S" using k reg unfolding sw(1) by (auto simp: regular_dir_def list_all_iff)
  moreover have "k \<notin> set (take (length ?J - cap) ?S)" using k V unfolding sw(1) by simp
  ultimately have "k \<in> set (drop (length ?J - cap) ?S)"
    by (metis Un_iff append_take_drop_id set_append)
  then show "the (mtime e) \<le> the (mtime k)"
    using sorted_take_le[of "\<lambda>e. the (mtime e)" ?S e] eV V by simp
qed

text \<open>An entry that was just written, with the newest time stamp, survives the sweep it triggers.\<close>

lemma newest_survives:
  assumes reg: "regular_dir es" and e: "e \<in> set es" "is_json_name e" and cap: "0 < cap"
    and newest: "\<forall>k\<in>set es. k \<noteq> e \<longrightarrow> the (mtime k) < the (mtime e)"
  shows "e \<in> set (sweep_entries cap es)"
proof (rule ccontr)
  assume gone: "e \<notin> set (sweep_entries cap es)"
  have path: "\<not> length (filter is_json_path es) \<le> cap" and names: "\<not> length (filter is_json_name es) \<le> cap"
    using e gone by (auto simp: sweep_entries_def split: if_splits)
  note sw = sweep_entries_filter[OF reg path names]
  let ?J = "filter (\<lambda>e. mtime e \<noteq> None) (filter is_json_name es)"
  let ?S = "sort_key (\<lambda>e. the (mtime e)) ?J" and ?x = "length ?J - cap"
  have V: "sweep_victims cap es = take ?x ?S" by (simp add: sweep_victims_def Let_def)
  have eV: "e \<in> set (take ?x ?S)" using e gone V unfolding sw(1) by simp
  have len: "?x < length ?S"
  proof -
    have "?J \<noteq> []" using eV by auto
    with cap show ?thesis by simp
  qed
  let ?y = "?S ! ?x"
  have y: "?y \<in> set (drop ?x ?S)" using len by (metis Cons_nth_drop_Suc list.set_intros(1))
  have le: "the (mtime e) \<le> the (mtime ?y)"
    by (rule sorted_take_le[OF _ eV y]) simp
  have "distinct ?S" using reg by (simp add: regular_dir_def distinct_map)
  then have "set (take ?x ?S) \<inter> set (drop ?x ?S) = {}" by (rule set_take_disj_set_drop_if_distinct) simp
  with eV y have "?y \<noteq> e" by blast
  moreover have "?y \<in> set es" using len nth_mem[of ?x ?S] by auto
  ultimately show False using newest le by fastforce
qed

section \<open>Clearing\<close>

definition removable_dir :: "dir_entry list \<Rightarrow> bool" where
  "removable_dir es \<longleftrightarrow>
     distinct (map file_name es) \<and> list_all (\<lambda>e. is_json_path e \<longrightarrow> content e \<noteq> Subdir) es"

lemma find_by_key: "distinct (map f xs) \<Longrightarrow> x \<in> set xs \<Longrightarrow> find (\<lambda>y. f y = f x) xs = Some x"
  by (induction xs) auto

lemma is_json_path_name: "file_name e = file_name e' \<Longrightarrow> is_json_path e = is_json_path e'"
  by (simp add: is_json_path_def)

lemma clear_loop_all:
  assumes "removable_dir todo" and "\<forall>e\<in>set es. is_json_path e \<longrightarrow> e \<in> set todo"
    and "\<forall>e\<in>set todo. is_json_path e \<longrightarrow> e \<in> set es" and "distinct (map file_name es)"
  shows "clear_loop todo es n =
    (filter (\<lambda>e. \<not> is_json_path e) es, Inr (n + length (filter is_json_path todo)))"
  using assms
proof (induction todo arbitrary: es n)
  case Nil
  then show ?case by (simp add: filter_id_conv)
next
  case (Cons e todo)
  have rem: "removable_dir todo" using Cons.prems(1) by (simp add: removable_dir_def)
  show ?case
  proof (cases "is_json_path e")
    case False
    with Cons.prems have "clear_loop todo es n =
        (filter (\<lambda>e. \<not> is_json_path e) es, Inr (n + length (filter is_json_path todo)))"
      by (intro Cons.IH[OF rem]) auto
    with False show ?thesis by simp
  next
    case True
    let ?es = "remove_file (file_name e) es"
    have e: "e \<in> set es" "content e \<noteq> Subdir"
      using Cons.prems True by (auto simp: removable_dir_def)
    have uniq: "e' = e" if "e' \<in> set es" "file_name e' = file_name e" for e'
      using that e(1) Cons.prems(4) by (metis distinct_map inj_onD)
    have es': "set ?es = set es - {e}" using uniq e by (auto simp: remove_file_def)
    have "find (\<lambda>e'. file_name e' = file_name e) es = Some e"
      using find_by_key[OF Cons.prems(4) e(1)] .
    then have one: "clear_one (file_name e) es = (?es, Inr True)" using e by (simp add: clear_one_def)
    have ne: "e \<notin> set todo" using Cons.prems(1) by (auto simp: removable_dir_def)
    have "clear_loop todo ?es (Suc n) =
        (filter (\<lambda>e. \<not> is_json_path e) ?es, Inr (Suc n + length (filter is_json_path todo)))"
    proof (rule Cons.IH[OF rem])
      show "\<forall>e\<in>set ?es. is_json_path e \<longrightarrow> e \<in> set todo" using Cons.prems(2) es' by auto
      show "\<forall>e\<in>set todo. is_json_path e \<longrightarrow> e \<in> set ?es" using Cons.prems(3) es' ne by auto
      show "distinct (map file_name ?es)" using Cons.prems(4) by (simp add: remove_file_def distinct_map_filter)
    qed
    moreover have "filter (\<lambda>e. \<not> is_json_path e) ?es = filter (\<lambda>e. \<not> is_json_path e) es"
    proof -
      have "(is_json_path x \<or> file_name x = file_name e \<and> content x \<noteq> Subdir) = is_json_path x" for x
        using is_json_path_name[of x e] True by blast
      then have "(\<lambda>x. (file_name x \<noteq> file_name e \<or> content x = Subdir) \<and> \<not> is_json_path x) =
          (\<lambda>x. \<not> is_json_path x)" by (intro ext) blast
      then show ?thesis by (simp add: remove_file_def)
    qed
    ultimately show ?thesis using True one by simp
  qed
qed

lemma clear_json_files_all:
  assumes "dirs d kind \<noteq> Not_A_Dir" and "removable_dir (dir_entries (dirs d kind))"
  shows "\<exists>d'. clear_json_files kind d = (d', Inr (count_json_files (dirs d kind))) \<and>
    count_json_files (dirs d' kind) = 0 \<and> (\<forall>k. k \<noteq> kind \<longrightarrow> dirs d' k = dirs d k)"
proof (cases "dirs d kind")
  case (Dir es)
  with assms have "clear_loop es es 0 = (filter (\<lambda>e. \<not> is_json_path e) es, Inr (length (filter is_json_path es)))"
    by (subst clear_loop_all) (auto simp: removable_dir_def)
  with Dir show ?thesis by (simp add: clear_json_files_def count_json_files_def)
qed (use assms in \<open>auto simp: clear_json_files_def count_json_files_def\<close>)

lemma clear_kinds_all:
  assumes "distinct ks" and "\<forall>k\<in>set ks. dirs d k \<noteq> Not_A_Dir \<and> removable_dir (dir_entries (dirs d k))"
  shows "\<exists>d'. clear_kinds ks n d = (d', Inr (n + sum_list (map (\<lambda>k. count_json_files (dirs d k)) ks))) \<and>
    (\<forall>k\<in>set ks. count_json_files (dirs d' k) = 0) \<and> (\<forall>k. k \<notin> set ks \<longrightarrow> dirs d' k = dirs d k)"
  using assms
proof (induction ks arbitrary: d n)
  case (Cons k ks)
  then obtain d1 where d1: "clear_json_files k d = (d1, Inr (count_json_files (dirs d k)))"
    "count_json_files (dirs d1 k) = 0" "\<forall>k'. k' \<noteq> k \<longrightarrow> dirs d1 k' = dirs d k'"
    using clear_json_files_all by (metis list.set_intros(1))
  have same: "dirs d1 k' = dirs d k'" if "k' \<in> set ks" for k' using that Cons.prems(1) d1(3) by auto
  have "\<forall>k\<in>set ks. dirs d1 k \<noteq> Not_A_Dir \<and> removable_dir (dir_entries (dirs d1 k))"
    using Cons.prems(2) same by simp
  with Cons.IH[of d1 "n + count_json_files (dirs d k)"] Cons.prems(1) obtain d' where
    d': "clear_kinds ks (n + count_json_files (dirs d k)) d1 =
      (d', Inr (n + count_json_files (dirs d k) + sum_list (map (\<lambda>k. count_json_files (dirs d1 k)) ks)))"
    "\<forall>k\<in>set ks. count_json_files (dirs d' k) = 0" "\<forall>k. k \<notin> set ks \<longrightarrow> dirs d' k = dirs d1 k"
    by auto
  have "map (\<lambda>k. count_json_files (dirs d1 k)) ks = map (\<lambda>k. count_json_files (dirs d k)) ks"
    using same by simp
  with d1 d' Cons.prems(1) show ?case by (auto simp: add.assoc)
qed auto

section \<open>Properties\<close>

text \<open>
  C9. The size bound of \<open>write_with_lru\<close>. Whatever the file system does with the write, the kind
  directory holds at most \<open>cap\<close> \<open>.json\<close> files afterwards; only \<open>.json\<close> files are ever evicted, and none
  of the evicted ones is newer than a \<open>.json\<close> file that stays.
\<close>

theorem write_bounds_cache_and_evicts_oldest:
  fixes d :: cache_disk and kind key j cap
  defines "before \<equiv> dir_entries (dirs (write_json kind key j d) kind)"
    and "after \<equiv> dir_entries (dirs (write_with_lru kind key j cap d) kind)"
  assumes "regular_dir (dir_entries (dirs d kind))" and "valid_utf8 key"
  shows "length (filter is_json_path after) \<le> cap \<and>
    (\<forall>e\<in>set before. e \<notin> set after \<longrightarrow>
       is_json_name e \<and> (\<forall>k\<in>set after. is_json_name k \<longrightarrow> the (mtime e) \<le> the (mtime k)))"
proof -
  have reg: "regular_dir before" unfolding before_def using assms(3,4) by (rule regular_write_json)
  have after: "after = sweep_entries cap before"
    unfolding after_def before_def write_with_lru_def dirs_sweep_lru
    by (simp split: dir_state.split) (simp add: sweep_entries_def)
  show ?thesis unfolding after using sweep_bound[OF reg] sweep_oldest[OF reg] by blast
qed

definition sample_dir :: "dir_entry list" where
  "sample_dir =
     [\<lparr>file_name = ''a-b.json'', content = Whole (J_Bool True), mtime = Some 3\<rparr>,
      \<lparr>file_name = ''a-c.json'', content = Corrupt, mtime = Some 1\<rparr>,
      \<lparr>file_name = ''README'', content = Whole J_Null, mtime = Some 0\<rparr>]"

definition sample_disk :: cache_disk where
  "sample_disk = \<lparr>dirs = (\<lambda>k. if k = KIND_IS_ANCESTOR then Dir sample_dir else Missing), clock = 7, faults = []\<rparr>"

lemma write_bounds_cache_and_evicts_oldest_witness:
  "length (filter is_json_path
      (dir_entries (dirs (write_with_lru KIND_IS_ANCESTOR ''d-e.json'' (J_Bool False) 2 sample_disk) KIND_IS_ANCESTOR))) \<le> 2 \<and>
   map file_name (dir_entries (dirs (write_with_lru KIND_IS_ANCESTOR ''d-e.json'' (J_Bool False) 2 sample_disk) KIND_IS_ANCESTOR))
     = [''a-b.json'', ''README'', ''d-e.json'']"
proof -
  have "regular_dir (dir_entries (dirs sample_disk KIND_IS_ANCESTOR))" by code_simp
  moreover have "valid_utf8 ''d-e.json''" by code_simp
  ultimately have "length (filter is_json_path
      (dir_entries (dirs (write_with_lru KIND_IS_ANCESTOR ''d-e.json'' (J_Bool False) 2 sample_disk) KIND_IS_ANCESTOR))) \<le> 2"
    using write_bounds_cache_and_evicts_oldest[of sample_disk KIND_IS_ANCESTOR "''d-e.json''" "J_Bool False" 2] by blast
  moreover have "map file_name (dir_entries (dirs (write_with_lru KIND_IS_ANCESTOR ''d-e.json'' (J_Bool False) 2 sample_disk) KIND_IS_ANCESTOR))
     = [''a-b.json'', ''README'', ''d-e.json'']" by code_simp
  ultimately show ?thesis by blast
qed

text \<open>
  A result that was written can be read back: when the write lands with a time stamp newer than
  every entry of the directory, its own sweep does not evict it, and the read that follows decodes it.
\<close>

theorem fresh_write_is_served:
  assumes "regular_dir (dir_entries (dirs d kind))" and "dirs d kind \<noteq> Not_A_Dir"
    and "next_fault d = Lands" and "valid_utf8 key" and "ends_with key ''.json''" and "0 < cap"
    and "list_all (\<lambda>e. the (mtime e) < clock d) (dir_entries (dirs d kind))"
    and "dec j = Some v"
  shows "cache_read dec kind key (write_with_lru kind key j cap d) = Some v"
proof -
  let ?old = "dir_entries (dirs d kind)"
  let ?es = "fs_write key (Whole j) (clock d) ?old"
  let ?e = "\<lparr>file_name = key, content = Whole j, mtime = Some (clock d)\<rparr>"
  have key_ok: "entry_content key ?old \<noteq> Some Subdir"
    using assms(1,4,5) by (auto simp: entry_content_def find_Some_iff regular_dir_def list_all_iff is_json_name_def)
  have w: "dirs (write_json kind key j d) kind = Dir ?es" using assms(2,3) by (simp add: write_json_def Let_def)
  have reg: "regular_dir ?es" using assms(1,4) by (rule regular_fs_write) simp
  have in_es: "?e \<in> set (fs_write key (Whole j) (clock d) es)" if "entry_content key es \<noteq> Some Subdir" for es
    using that by (induction es) (auto intro!: dir_entry.equality)
  have e: "?e \<in> set ?es" using key_ok by (rule in_es)
  have newest: "k = ?e \<or> the (mtime k) < clock d" if "k \<in> set ?es" for k
  proof -
    have "k = ?e \<or> k \<in> set es" if "k \<in> set (fs_write key (Whole j) (clock d) es)"
      "entry_content key es \<noteq> Some Subdir" for es
      using that by (induction es) (auto intro!: dir_entry.equality split: if_splits)
    with that key_ok assms(7) show ?thesis by (auto simp: list_all_iff)
  qed
  have "?e \<in> set (sweep_entries cap ?es)"
    using newest by (intro newest_survives[OF reg e _ assms(6)])
      (auto simp: is_json_name_def assms(4,5))
  moreover have "distinct (map file_name (sweep_entries cap ?es))"
    using reg by (auto simp: sweep_entries_def foldl_remove_file regular_dir_def distinct_map_filter)
  ultimately have "find (\<lambda>e. file_name e = file_name ?e) (sweep_entries cap ?es) = Some ?e"
    by (rule find_by_key[rotated])
  then have "entry_content key (sweep_entries cap ?es) = Some (Whole j)" by (simp add: entry_content_def)
  then show ?thesis using assms(8) w by (simp add: cache_read_def2 write_with_lru_def dirs_sweep_lru)
qed

lemma fresh_write_is_served_witness:
  "cached_is_ancestor ''d'' ''e'' (write_with_lru KIND_IS_ANCESTOR (asymmetric_key ''d'' ''e'') (J_Bool False) 2 sample_disk)
     = Some False"
  unfolding cached_is_ancestor_def
  by (rule fresh_write_is_served[of sample_disk KIND_IS_ANCESTOR]; code_simp)

text \<open>
  \<open>wt config state clear\<close> and \<open>wt config state get\<close> agree: when nothing refuses to be removed,
  \<open>clear_all\<close> removes exactly the number of entries \<open>count_all\<close> reports, and none is left.
\<close>

theorem clear_removes_what_count_reports:
  assumes "list_all (\<lambda>k. dirs d k \<noteq> Not_A_Dir \<and> removable_dir (dir_entries (dirs d k))) ALL_KINDS"
  shows "snd (clear_all_caches d) = Inr (count_all_caches d) \<and> count_all_caches (fst (clear_all_caches d)) = 0"
proof -
  have "distinct ALL_KINDS" by code_simp
  with clear_kinds_all[of ALL_KINDS d 0] assms show ?thesis
    by (auto simp: clear_all_caches_def count_all_caches_def list_all_iff)
qed

lemma clear_removes_what_count_reports_witness:
  "snd (clear_all_caches sample_disk) = Inr (2 :: nat)"
proof -
  have "list_all (\<lambda>k. dirs sample_disk k \<noteq> Not_A_Dir \<and> removable_dir (dir_entries (dirs sample_disk k))) ALL_KINDS"
    by code_simp
  then have "snd (clear_all_caches sample_disk) = Inr (count_all_caches sample_disk)"
    using clear_removes_what_count_reports by blast
  also have "count_all_caches sample_disk = 2" by code_simp
  finally show ?thesis .
qed

end
