(* ===== verification/Ref_Snapshot.thy ===== *)
theory Ref_Snapshot
  imports Git_Command Sha_Cache
begin

text \<open>
  The branch inventories (\<open>src/git/repository/branches.rs\<close>: the \<open>for-each-ref\<close> scans and their
  parsers) and the ref snapshot built from them (\<open>src/git/repository/ref_snapshot.rs\<close>), with its
  batch computation of ahead/behind counts. The configured remotes are the argument \<open>remotes\<close>.
\<close>

section \<open>Branch records\<close>

record local_branch_rec =
  lb_name :: string
  lb_sha :: string
  lb_ts :: int
  upstream_short :: "string option"
  upstream_remote :: "string option"
  push_remote :: "string option"

record remote_branch_rec =
  rb_short_name :: string
  rb_sha :: string
  rb_ts :: int
  rb_remote :: string
  rb_local_name :: string

definition nonempty :: "string \<Rightarrow> string option" where
  "nonempty s = (if s = [] then None else Some s)"

definition parse_local_branch_line :: "string \<Rightarrow> local_branch_rec option" where
  "parse_local_branch_line line =
     (case split_on CHR 0x00 line of
        name # sha # ts # up # track # push # upr # _ \<Rightarrow>
          (case parse_i64 ts of
             None \<Rightarrow> None
           | Some t \<Rightarrow>
               Some \<lparr>lb_name = name, lb_sha = sha, lb_ts = t,
                     upstream_short = (if up = [] \<or> track = ''[gone]'' then None else Some up),
                     upstream_remote = (if upr = ''.'' then None else nonempty upr),
                     push_remote = nonempty push\<rparr>)
      | _ \<Rightarrow> None)"

definition char_index :: "char \<Rightarrow> string \<Rightarrow> nat option" where
  "char_index c s = map_option (\<lambda>(a, b). length a) (split_once c s)"

definition split_remote_branch_name :: "string \<Rightarrow> (string \<times> string) list \<Rightarrow> (string \<times> string) option" where
  "split_remote_branch_name name remotes =
     (let lens = map (\<lambda>r. length (fst r))
                   (filter (\<lambda>r. case strip_prefix name (fst r) of
                              Some rest \<Rightarrow> starts_with rest ''/'' | None \<Rightarrow> False) remotes);
          boundary = (if lens = [] then char_index CHR ''/'' name else Some (fold max lens 0))
      in map_option (\<lambda>b. (take b name, drop (b + 1) name)) boundary)"

definition parse_remote_branch_line :: "(string \<times> string) list \<Rightarrow> string \<Rightarrow> remote_branch_rec option" where
  "parse_remote_branch_line remotes line =
     (case split_on CHR 0x00 line of
        short # sha # ts # _ \<Rightarrow>
          (case parse_i64 ts of
             None \<Rightarrow> None
           | Some t \<Rightarrow>
               (case split_remote_branch_name short remotes of
                  None \<Rightarrow> None
                | Some (remote, name) \<Rightarrow>
                    if name = ''HEAD'' then None
                    else Some \<lparr>rb_short_name = short, rb_sha = sha, rb_ts = t,
                               rb_remote = remote, rb_local_name = name\<rparr>))
      | _ \<Rightarrow> None)"

definition LOCAL_BRANCH_FORMAT :: string where
  "LOCAL_BRANCH_FORMAT = ''--format=%(refname:lstrip=2)%00%(objectname)%00%(committerdate:unix)%00%(upstream:short)%00%(upstream:track)%00%(push:remotename)%00%(upstream:remotename)''"

definition REMOTE_BRANCH_FORMAT :: string where
  "REMOTE_BRANCH_FORMAT = ''--format=%(refname:lstrip=2)%00%(objectname)%00%(committerdate:unix)''"

definition local_records :: "string \<Rightarrow> local_branch_rec list" where
  "local_records out = sort_key (\<lambda>b. - lb_ts b) (filter_map parse_local_branch_line (str_lines out))"

definition remote_records :: "(string \<times> string) list \<Rightarrow> string \<Rightarrow> remote_branch_rec list" where
  "remote_records remotes out =
     sort_key (\<lambda>b. - rb_ts b) (filter_map (parse_remote_branch_line remotes) (str_lines out))"

definition scan_local_branch_records :: "git \<Rightarrow> git_error + local_branch_rec list" where
  "scan_local_branch_records git =
     rbind (run_command git [''for-each-ref'', LOCAL_BRANCH_FORMAT, ''refs/heads/'']) (\<lambda>out.
       Inr (local_records out))"

definition scan_remote_branch_records ::
  "git \<Rightarrow> (string \<times> string) list \<Rightarrow> git_error + remote_branch_rec list" where
  "scan_remote_branch_records git remotes =
     rbind (run_command git [''for-each-ref'', REMOTE_BRANCH_FORMAT, ''refs/remotes/'']) (\<lambda>out.
       Inr (remote_records remotes out))"

text \<open>The name index maps a name to its last record.\<close>

definition inventory_get :: "local_branch_rec list \<Rightarrow> string \<Rightarrow> local_branch_rec option" where
  "inventory_get bs name = find (\<lambda>b. lb_name b = name) (rev bs)"

text \<open>\<open>Branch::upstream\<close>, over the scanned inventory or the error its scan raised.\<close>

definition branch_upstream :: "git_error + local_branch_rec list \<Rightarrow> string \<Rightarrow> git_error + string option" where
  "branch_upstream inventory name =
     rbind inventory (\<lambda>bs. Inr (Option.bind (inventory_get bs name) upstream_short))"

section \<open>The snapshot\<close>

record ref_snapshot =
  commits :: "string \<Rightarrow> string option"
  locals :: "local_branch_rec list"
  snap_remotes :: "remote_branch_rec list"
  snap_ahead_behind :: "string \<times> string \<Rightarrow> (nat \<times> nat) option"

definition heads_ref :: "string \<Rightarrow> string" where
  "heads_ref name = ''refs/heads/'' @ name"

definition remotes_ref :: "string \<Rightarrow> string" where
  "remotes_ref name = ''refs/remotes/'' @ name"

definition insert_local :: "local_branch_rec \<Rightarrow> (string \<Rightarrow> string option) \<Rightarrow> string \<Rightarrow> string option" where
  "insert_local b m = m(lb_name b \<mapsto> lb_sha b, heads_ref (lb_name b) \<mapsto> lb_sha b)"

definition insert_remote :: "remote_branch_rec \<Rightarrow> (string \<Rightarrow> string option) \<Rightarrow> string \<Rightarrow> string option" where
  "insert_remote r m = m(rb_short_name r \<mapsto> rb_sha r, remotes_ref (rb_short_name r) \<mapsto> rb_sha r)"

definition build_snapshot ::
  "local_branch_rec list \<Rightarrow> remote_branch_rec list \<Rightarrow> (string \<times> string \<Rightarrow> (nat \<times> nat) option) \<Rightarrow> ref_snapshot" where
  "build_snapshot ls rs ab =
     \<lparr>commits = fold insert_remote rs (fold insert_local ls (\<lambda>_. None)),
      locals = ls, snap_remotes = rs, snap_ahead_behind = ab\<rparr>"

definition snap_resolve :: "ref_snapshot \<Rightarrow> string \<Rightarrow> string option" where
  "snap_resolve s name = commits s name"

definition snap_local_branch :: "ref_snapshot \<Rightarrow> string \<Rightarrow> local_branch_rec option" where
  "snap_local_branch s name = inventory_get (locals s) name"

definition upstream_of :: "ref_snapshot \<Rightarrow> string \<Rightarrow> string option" where
  "upstream_of s name = Option.bind (snap_local_branch s name) upstream_short"

definition capture_refs :: "git \<Rightarrow> (string \<times> string) list \<Rightarrow> git_error + ref_snapshot" where
  "capture_refs git remotes =
     rbind (scan_local_branch_records git) (\<lambda>ls.
     rbind (scan_remote_branch_records git remotes) (\<lambda>rs.
       Inr (build_snapshot ls rs (\<lambda>_. None))))"

definition resolve_sha_from_scan ::
  "string \<Rightarrow> local_branch_rec list \<Rightarrow> remote_branch_rec list \<Rightarrow> string option" where
  "resolve_sha_from_scan name ls rs =
     (let local_short = (case strip_prefix name ''refs/heads/'' of Some t \<Rightarrow> t | None \<Rightarrow> name);
          remote_short = (case strip_prefix name ''refs/remotes/'' of Some t \<Rightarrow> t | None \<Rightarrow> name)
      in case find (\<lambda>b. lb_name b = local_short) ls of
           Some b \<Rightarrow> Some (lb_sha b)
         | None \<Rightarrow> map_option rb_sha (find (\<lambda>r. rb_short_name r = remote_short) rs))"

section \<open>Ahead/behind in one walk\<close>

text \<open>The line \<open>"<refname> <objectname> <ahead> <behind>"\<close>, split from the right.\<close>

definition parse_ahead_behind_line :: "string \<Rightarrow> (string \<times> string \<times> nat \<times> nat) option" where
  "parse_ahead_behind_line line =
     Option.bind (rsplit_once CHR '' '' line) (\<lambda>(r1, behind).
     Option.bind (parse_usize behind) (\<lambda>b.
     Option.bind (rsplit_once CHR '' '' r1) (\<lambda>(r2, ahead).
     Option.bind (parse_usize ahead) (\<lambda>a.
     Option.bind (rsplit_once CHR '' '' r2) (\<lambda>(refname, sha).
     Some (refname, sha, a, b))))))"

definition scan_ahead_behind ::
  "git \<Rightarrow> string \<Rightarrow> string list option \<Rightarrow> string \<Rightarrow> (string \<times> nat \<times> nat) option" where
  "scan_ahead_behind git base refs =
     (let args = [''for-each-ref'', ''--format=%(refname) %(objectname) %(ahead-behind:'' @ base @ '')'']
                 @ (case refs of Some rs \<Rightarrow> rs | None \<Rightarrow> [''refs/heads/''])
      in case run_command git args of
           Inl _ \<Rightarrow> (\<lambda>_. None)
         | Inr out \<Rightarrow> map_of (rev (filter_map parse_ahead_behind_line (str_lines out))))"

definition AHEAD_BEHIND_SCOPED_BATCH_MIN_MISSES :: nat where
  "AHEAD_BEHIND_SCOPED_BATCH_MIN_MISSES = 8"

text \<open>The count \<open>git rev-list --count base\<close> prints, \<open>None\<close> on any failure.\<close>

definition base_total :: "git \<Rightarrow> string \<Rightarrow> nat option" where
  "base_total git base =
     (case run_command git [''rev-list'', ''--count'', base] of
        Inl _ \<Rightarrow> None | Inr s \<Rightarrow> parse_usize (trim s))"

text \<open>Orphans are stored as \<open>(0, 0)\<close>, as the per-pair query reports them.\<close>

definition normalized_counts :: "nat option \<Rightarrow> nat \<times> nat \<Rightarrow> nat \<times> nat" where
  "normalized_counts tot c = (if tot = Some (snd c) then (0, 0) else c)"

definition fresh_writes ::
  "nat option \<Rightarrow> string \<Rightarrow> (string \<Rightarrow> (string \<times> nat \<times> nat) option) \<Rightarrow> local_branch_rec list
   \<Rightarrow> (string \<times> string \<times> nat \<times> nat) list" where
  "fresh_writes tot base_sha fresh missed =
     filter_map (\<lambda>b. map_option (\<lambda>(sha, c). (base_sha, sha, normalized_counts tot c))
                       (fresh (heads_ref (lb_name b)))) missed"

definition fresh_map ::
  "nat option \<Rightarrow> string \<Rightarrow> (string \<Rightarrow> (string \<times> nat \<times> nat) option) \<Rightarrow> local_branch_rec list
   \<Rightarrow> (string \<times> string \<Rightarrow> (nat \<times> nat) option) \<Rightarrow> string \<times> string \<Rightarrow> (nat \<times> nat) option" where
  "fresh_map tot base fresh missed m =
     fold (\<lambda>b m. case fresh (heads_ref (lb_name b)) of
                   None \<Rightarrow> m
                 | Some (sha, c) \<Rightarrow> m((base, heads_ref (lb_name b)) \<mapsto> normalized_counts tot c)) missed m"

definition cached_counts_map ::
  "cache_disk \<Rightarrow> string \<Rightarrow> string \<Rightarrow> local_branch_rec list \<Rightarrow> string \<times> string \<Rightarrow> (nat \<times> nat) option" where
  "cached_counts_map d base base_sha ls =
     fold (\<lambda>b m. case cached_ahead_behind base_sha (lb_sha b) d of
                   None \<Rightarrow> m | Some c \<Rightarrow> m((base, heads_ref (lb_name b)) \<mapsto> c)) ls (\<lambda>_. None)"

definition scan_counts_map ::
  "git \<Rightarrow> string \<Rightarrow> string \<times> string \<Rightarrow> (nat \<times> nat) option" where
  "scan_counts_map git base k =
     (if fst k = base then map_option snd (scan_ahead_behind git base None (snd k)) else None)"

definition capture_ahead_behind ::
  "git \<Rightarrow> string \<Rightarrow> local_branch_rec list \<Rightarrow> remote_branch_rec list \<Rightarrow> cache_disk
   \<Rightarrow> cache_disk \<times> (string \<times> string \<Rightarrow> (nat \<times> nat) option)" where
  "capture_ahead_behind git base ls rs d =
     (case resolve_sha_from_scan base ls rs of
        None \<Rightarrow> (d, scan_counts_map git base)
      | Some base_sha \<Rightarrow>
          (let m = cached_counts_map d base base_sha ls;
               missed = filter (\<lambda>b. cached_ahead_behind base_sha (lb_sha b) d = None) ls;
               all_cold = (length missed = length ls)
           in if missed = [] then (d, m)
              else if \<not> all_cold \<and> length missed \<le> AHEAD_BEHIND_SCOPED_BATCH_MIN_MISSES then (d, m)
              else (let scoped = (if all_cold then None else Some (map (\<lambda>b. heads_ref (lb_name b)) missed));
                        tot = base_total git base_sha;
                        fresh = scan_ahead_behind git base_sha scoped
                    in (put_ahead_behind_bulk (fresh_writes tot base_sha fresh missed) d,
                        fresh_map tot base fresh missed m))))"

definition inventory_snapshot ::
  "git \<Rightarrow> git_error + local_branch_rec list \<Rightarrow> git_error + remote_branch_rec list \<Rightarrow> string option \<Rightarrow> cache_disk
   \<Rightarrow> cache_disk \<times> (git_error + ref_snapshot)" where
  "inventory_snapshot git ls rs base d =
     (case ls of Inl e \<Rightarrow> (d, Inl e) | Inr ls \<Rightarrow>
      (case rs of Inl e \<Rightarrow> (d, Inl e) | Inr rs \<Rightarrow>
       (case base of
          None \<Rightarrow> (d, Inr (build_snapshot ls rs (\<lambda>_. None)))
        | Some b \<Rightarrow> (case capture_ahead_behind git b ls rs d of
                      (d', m) \<Rightarrow> (d', Inr (build_snapshot ls rs m))))))"

end
