(* ===== verification/Integration.thy ===== *)
theory Integration
  imports Ref_Snapshot Integration_Check
begin

text \<open>
  Integration detection (\<open>src/git/repository/integration.rs\<close>, the merge-base and ahead/behind queries of
  \<open>src/git/repository/diff.rs\<close>, \<open>compute_integration_lazy\<close> of \<open>src/git/mod.rs\<close>): every probe with its two
  caches, the on-disk one of \<open>Sha_Cache\<close> and the in-memory maps of \<open>RepoCache\<close>, which are the state
  \<open>repo_state\<close> the queries thread. Each query is followed by the value it has when no cache is
  consulted (\<open>pure_...\<close>), the reference the refinement proofs of \<open>Integration_Caches\<close> are about.
\<close>

section \<open>State and sequencing\<close>

datatype merge_tree_outcome = Clean string | Conflict

record repo_state =
  disk :: cache_disk
  mem_merge_base :: "string \<times> string \<Rightarrow> string option option"
  mem_commit_tree :: "string \<Rightarrow> string option"
  mem_merge_tree :: "string \<times> string \<Rightarrow> merge_tree_outcome option"

type_synonym 'a query = "repo_state \<Rightarrow> repo_state \<times> (git_error + 'a)"

definition qret :: "git_error + 'a \<Rightarrow> 'a query" where
  "qret r s = (s, r)"

definition qbind :: "'a query \<Rightarrow> ('a \<Rightarrow> 'b query) \<Rightarrow> 'b query" where
  "qbind m f s = (case m s of (s', Inl e) \<Rightarrow> (s', Inl e) | (s', Inr x) \<Rightarrow> f x s')"

text \<open>The read, compute, write shape of every disk-cached query; an error is not written.\<close>

definition disk_cached ::
  "(cache_disk \<Rightarrow> 'a option) \<Rightarrow> ('a \<Rightarrow> cache_disk \<Rightarrow> cache_disk) \<Rightarrow> 'a query \<Rightarrow> 'a query" where
  "disk_cached look store compute s =
     (case look (disk s) of
        Some v \<Rightarrow> (s, Inr v)
      | None \<Rightarrow>
          (case compute s of
             (s', Inl e) \<Rightarrow> (s', Inl e)
           | (s', Inr v) \<Rightarrow> (s'\<lparr>disk := store v (disk s')\<rparr>, Inr v)))"

section \<open>Merge base\<close>

definition merge_base_command :: "git \<Rightarrow> string \<Rightarrow> string \<Rightarrow> git_error + string option" where
  "merge_base_command git a b =
     (let args = [''merge-base'', a, b] in
      rbind (run_command_output git args) (\<lambda>out.
        if exit_code out = Some 0 then Inr (Some (trim (from_utf8_lossy (stdout out))))
        else if exit_code out = Some 1 then Inr None
        else Inl (Command_Failed args out)))"

definition sorted_pair :: "string \<Rightarrow> string \<Rightarrow> string \<times> string" where
  "sorted_pair a b = (if a \<le> b then (a, b) else (b, a))"

definition merge_base_by_sha :: "git \<Rightarrow> string \<Rightarrow> string \<Rightarrow> string option query" where
  "merge_base_by_sha git a b s =
     (if a = b then (s, Inr (Some a))
      else (case mem_merge_base s (sorted_pair a b) of
              Some v \<Rightarrow> (s, Inr v)
            | None \<Rightarrow>
                (case disk_cached (cached_merge_base a b) (put_merge_base a b) (qret (merge_base_command git a b)) s of
                   (s', Inl e) \<Rightarrow> (s', Inl e)
                 | (s', Inr v) \<Rightarrow>
                     (s'\<lparr>mem_merge_base := (mem_merge_base s')(sorted_pair a b \<mapsto> v)\<rparr>, Inr v))))"

definition merge_base :: "git \<Rightarrow> string \<Rightarrow> string \<Rightarrow> string option query" where
  "merge_base git c1 c2 =
     qbind (qret (resolve_to_commit_sha git c1)) (\<lambda>sha1.
     qbind (qret (resolve_to_commit_sha git c2)) (\<lambda>sha2.
     merge_base_by_sha git sha1 sha2))"

definition pure_merge_base :: "git \<Rightarrow> string \<Rightarrow> string \<Rightarrow> git_error + string option" where
  "pure_merge_base git a b = (if a = b then Inr (Some a) else merge_base_command git a b)"

section \<open>Ahead and behind\<close>

definition rev_list_count :: "git \<Rightarrow> string \<Rightarrow> git_error + nat" where
  "rev_list_count git rng =
     rbind (run_command git [''rev-list'', ''--count'', rng]) (\<lambda>out.
       case parse_usize (trim out) of
         None \<Rightarrow> Inl (Message ''Failed to parse rev-list count'')
       | Some n \<Rightarrow> Inr n)"

definition counts_from_merge_base ::
  "git \<Rightarrow> string \<Rightarrow> string \<Rightarrow> string option \<Rightarrow> git_error + nat \<times> nat" where
  "counts_from_merge_base git base head mb =
     (case mb of
        None \<Rightarrow> Inr (0, 0)
      | Some m \<Rightarrow>
          rbind (if m = head then Inr 0 else rev_list_count git (m @ ''..'' @ head)) (\<lambda>ahead.
          rbind (if m = base then Inr 0 else rev_list_count git (m @ ''..'' @ base)) (\<lambda>behind.
          Inr (ahead, behind))))"

definition compute_ahead_behind :: "git \<Rightarrow> string \<Rightarrow> string \<Rightarrow> (nat \<times> nat) query" where
  "compute_ahead_behind git base head =
     qbind (merge_base_by_sha git base head) (\<lambda>mb. qret (counts_from_merge_base git base head mb))"

definition ahead_behind_by_sha :: "git \<Rightarrow> string \<Rightarrow> string \<Rightarrow> (nat \<times> nat) query" where
  "ahead_behind_by_sha git base head =
     disk_cached (cached_ahead_behind base head) (put_ahead_behind base head) (compute_ahead_behind git base head)"

definition pure_ahead_behind :: "git \<Rightarrow> string \<Rightarrow> string \<Rightarrow> git_error + nat \<times> nat" where
  "pure_ahead_behind git base head =
     rbind (pure_merge_base git base head) (counts_from_merge_base git base head)"

section \<open>Ancestry\<close>

definition is_ancestor_command :: "git \<Rightarrow> string \<Rightarrow> string \<Rightarrow> git_error + bool" where
  "is_ancestor_command git base head = run_command_check git [''merge-base'', ''--is-ancestor'', base, head]"

definition is_ancestor_by_sha :: "git \<Rightarrow> string \<Rightarrow> string \<Rightarrow> bool query" where
  "is_ancestor_by_sha git base head =
     disk_cached (cached_is_ancestor base head) (put_is_ancestor base head) (qret (is_ancestor_command git base head))"

section \<open>Added changes\<close>

definition tree_diff_quiet :: "git \<Rightarrow> string \<Rightarrow> string \<Rightarrow> git_error + bool" where
  "tree_diff_quiet git mb branch =
     (let args = plumbing_args Diff_Tree [''--quiet'', mb, branch, ''--''] in
      rbind (run_command_output git args) (\<lambda>out.
        if exit_code out = Some 0 then Inr False
        else if exit_code out = Some 1 then Inr True
        else Inl (Command_Failed args out)))"

definition added_since :: "git \<Rightarrow> string \<Rightarrow> string option \<Rightarrow> git_error + bool" where
  "added_since git branch mb = (case mb of None \<Rightarrow> Inr True | Some m \<Rightarrow> tree_diff_quiet git m branch)"

definition has_added_changes_by_sha :: "git \<Rightarrow> string \<Rightarrow> string \<Rightarrow> bool query" where
  "has_added_changes_by_sha git branch tgt =
     disk_cached (cached_has_added_changes branch tgt) (put_has_added_changes branch tgt)
       (qbind (merge_base git tgt branch) (\<lambda>mb. qret (added_since git branch mb)))"

definition pure_has_added_changes :: "git \<Rightarrow> string \<Rightarrow> string \<Rightarrow> git_error + bool" where
  "pure_has_added_changes git branch tgt = rbind (pure_merge_base git tgt branch) (added_since git branch)"

section \<open>Trees\<close>

definition pure_tree :: "git \<Rightarrow> string \<Rightarrow> git_error + string" where
  "pure_tree git c = rev_parse_tree git (c @ ''^{tree}'')"

definition commit_to_tree_sha :: "git \<Rightarrow> string \<Rightarrow> string query" where
  "commit_to_tree_sha git c s =
     (case mem_commit_tree s c of
        Some t \<Rightarrow> (s, Inr t)
      | None \<Rightarrow>
          (case pure_tree git c of
             Inl e \<Rightarrow> (s, Inl e)
           | Inr t \<Rightarrow> (s\<lparr>mem_commit_tree := (mem_commit_tree s)(c \<mapsto> t)\<rparr>, Inr t)))"

definition trees_match_by_sha :: "git \<Rightarrow> string \<Rightarrow> string \<Rightarrow> bool query" where
  "trees_match_by_sha git a b =
     qbind (commit_to_tree_sha git a) (\<lambda>x. qbind (commit_to_tree_sha git b) (\<lambda>y. qret (Inr (x = y))))"

definition pure_trees_match :: "git \<Rightarrow> string \<Rightarrow> string \<Rightarrow> git_error + bool" where
  "pure_trees_match git a b = rbind (pure_tree git a) (\<lambda>x. rbind (pure_tree git b) (\<lambda>y. Inr (x = y)))"

section \<open>Merge simulation\<close>

definition compute_merge_tree_outcome :: "git \<Rightarrow> string \<Rightarrow> string \<Rightarrow> git_error + merge_tree_outcome" where
  "compute_merge_tree_outcome git a b =
     (let args = [''merge-tree'', ''--write-tree'', a, b] in
      rbind (run_command_output git args) (\<lambda>out.
        if exit_code out = Some 1 then Inr Conflict
        else if exit_code out \<noteq> Some 0 then Inl (Command_Failed args out)
        else Inr (Clean (trim (case str_lines (from_utf8_lossy (stdout out)) of [] \<Rightarrow> [] | l # _ \<Rightarrow> l)))))"

definition merge_tree_outcome_of :: "git \<Rightarrow> string \<Rightarrow> string \<Rightarrow> merge_tree_outcome query" where
  "merge_tree_outcome_of git a b s =
     (case mem_merge_tree s (a, b) of
        Some out \<Rightarrow> (s, Inr out)
      | None \<Rightarrow>
          (case compute_merge_tree_outcome git a b of
             Inl e \<Rightarrow> (s, Inl e)
           | Inr out \<Rightarrow> (s\<lparr>mem_merge_tree := (mem_merge_tree s)((a, b) \<mapsto> out)\<rparr>, Inr out)))"

text \<open>\<open>run_merge_tree\<close>: unrelated histories conflict. The result is stored under the given key pair.\<close>

definition merge_conflicts :: "git \<Rightarrow> string \<Rightarrow> string \<Rightarrow> bool query" where
  "merge_conflicts git base head =
     qbind (merge_base git base head) (\<lambda>mb.
       if mb = None then qret (Inr True)
       else qbind (merge_tree_outcome_of git base head) (\<lambda>out. qret (Inr (out = Conflict))))"

definition run_merge_tree :: "git \<Rightarrow> string \<Rightarrow> string \<Rightarrow> string \<Rightarrow> string \<Rightarrow> bool query" where
  "run_merge_tree git base head cache_base cache_head s =
     (case merge_conflicts git base head s of
        (s', Inl e) \<Rightarrow> (s', Inl e)
      | (s', Inr v) \<Rightarrow> (s'\<lparr>disk := put_merge_conflicts cache_base cache_head v (disk s')\<rparr>, Inr v))"

definition has_merge_conflicts_by_sha :: "git \<Rightarrow> string \<Rightarrow> string \<Rightarrow> bool query" where
  "has_merge_conflicts_by_sha git base head s =
     (case cached_merge_conflicts base head (disk s) of
        Some v \<Rightarrow> (s, Inr v)
      | None \<Rightarrow> run_merge_tree git base head base head s)"

definition composite_head :: "string \<Rightarrow> string \<Rightarrow> string" where
  "composite_head head tree = head @ ''+'' @ tree"

definition commit_tree :: "git \<Rightarrow> string \<Rightarrow> string \<Rightarrow> git_error + string" where
  "commit_tree git tree head =
     rbind (run_command git [''commit-tree'', tree, ''-p'', head, ''-m'', '''']) (\<lambda>out. Inr (trim out))"

definition has_merge_conflicts_by_tree_with_base_sha :: "git \<Rightarrow> string \<Rightarrow> string \<Rightarrow> string \<Rightarrow> bool query" where
  "has_merge_conflicts_by_tree_with_base_sha git base head tree s =
     (let cache_head = composite_head head tree in
      case cached_merge_conflicts base cache_head (disk s) of
        Some v \<Rightarrow> (s, Inr v)
      | None \<Rightarrow>
          qbind (qret (commit_tree git tree head)) (\<lambda>c. run_merge_tree git base c base cache_head) s)"

definition pure_conflicts :: "git \<Rightarrow> string \<Rightarrow> string \<Rightarrow> git_error + bool" where
  "pure_conflicts git base head =
     rbind (pure_merge_base git base head) (\<lambda>mb.
       if mb = None then Inr True
       else rbind (compute_merge_tree_outcome git base head) (\<lambda>out. Inr (out = Conflict)))"

definition pure_tree_conflicts :: "git \<Rightarrow> string \<Rightarrow> string \<Rightarrow> string \<Rightarrow> git_error + bool" where
  "pure_tree_conflicts git base head tree = rbind (commit_tree git tree head) (pure_conflicts git base)"

definition would_merge_add_to_target :: "git \<Rightarrow> string \<Rightarrow> string \<Rightarrow> bool option query" where
  "would_merge_add_to_target git branch tgt =
     qbind (merge_tree_outcome_of git tgt branch) (\<lambda>out.
       case out of
         Conflict \<Rightarrow> qret (Inr None)
       | Clean tree \<Rightarrow> qbind (commit_to_tree_sha git tgt) (\<lambda>t. qret (Inr (Some (tree \<noteq> t)))))"

definition pure_would_merge_add :: "git \<Rightarrow> string \<Rightarrow> string \<Rightarrow> git_error + bool option" where
  "pure_would_merge_add git branch tgt =
     rbind (compute_merge_tree_outcome git tgt branch) (\<lambda>out.
       case out of
         Conflict \<Rightarrow> Inr None
       | Clean tree \<Rightarrow> rbind (pure_tree git tgt) (\<lambda>t. Inr (Some (tree \<noteq> t))))"

section \<open>Squash merges by patch id\<close>

definition PATCH_ID_SCAN_MAX_COMMITS :: nat where
  "PATCH_ID_SCAN_MAX_COMMITS = 500"

text \<open>A diff piped into \<open>git patch-id --verbatim\<close>; only the status of the diff is checked.\<close>

definition patch_ids_from :: "git \<Rightarrow> string list \<Rightarrow> string \<Rightarrow> git_error + string" where
  "patch_ids_from git args stdin =
     (case git args stdin of
        Inl e \<Rightarrow> Inl (Not_Run e)
      | Inr src \<Rightarrow>
          (case git [''patch-id'', ''--verbatim''] (stdout src) of
             Inl e \<Rightarrow> Inl (Not_Run e)
           | Inr sink \<Rightarrow>
               if exit_code src \<noteq> Some 0 then Inl (Command_Failed args src)
               else Inr (from_utf8_lossy (stdout sink))))"

definition first_word :: "string \<Rightarrow> string option" where
  "first_word s = (case split_whitespace s of [] \<Rightarrow> None | w # _ \<Rightarrow> Some w)"

definition squash_scan :: "git \<Rightarrow> string \<Rightarrow> string \<Rightarrow> string \<Rightarrow> git_error + bool" where
  "squash_scan git branch tgt mb =
     (let rng = mb @ ''..'' @ tgt in
      rbind (run_command git [''rev-list'', ''--count'', rng]) (\<lambda>count_out.
      let n = (case parse_usize (trim count_out) of Some n \<Rightarrow> n | None \<Rightarrow> 0) in
      if n > PATCH_ID_SCAN_MAX_COMMITS then Inr False
      else
        rbind (patch_ids_from git (plumbing_args Diff_Tree [''--patch'', mb, branch, ''--'']) []) (\<lambda>branch_pids.
        case first_word branch_pids of
          None \<Rightarrow> Inr False
        | Some pid \<Rightarrow>
            rbind (run_command git [''rev-list'', rng]) (\<lambda>target_commits.
            rbind (patch_ids_from git (plumbing_args Diff_Tree [''--stdin'', ''--patch'']) target_commits) (\<lambda>target_pids.
            Inr (list_ex (\<lambda>l. first_word l = Some pid) (str_lines target_pids)))))))"

definition is_squash_merged_via_patch_id :: "git \<Rightarrow> string \<Rightarrow> string \<Rightarrow> bool query" where
  "is_squash_merged_via_patch_id git branch tgt =
     qbind (merge_base git tgt branch) (\<lambda>mb.
       case mb of None \<Rightarrow> qret (Inr False) | Some m \<Rightarrow> qret (squash_scan git branch tgt m))"

definition pure_squash_merged :: "git \<Rightarrow> string \<Rightarrow> string \<Rightarrow> git_error + bool" where
  "pure_squash_merged git branch tgt =
     rbind (pure_merge_base git tgt branch) (\<lambda>mb.
       case mb of None \<Rightarrow> Inr False | Some m \<Rightarrow> squash_scan git branch tgt m)"

definition unwrap_or :: "'a \<Rightarrow> 'e + 'a \<Rightarrow> 'a" where
  "unwrap_or d r = (case r of Inl _ \<Rightarrow> d | Inr x \<Rightarrow> x)"

text \<open>\<open>.unwrap_or(false)\<close> on a query: its effect on the caches stays.\<close>

definition q_or_false :: "bool query \<Rightarrow> bool query" where
  "q_or_false m s = (case m s of (s', r) \<Rightarrow> (s', Inr (unwrap_or False r)))"

definition merge_integration_probe_by_sha :: "git \<Rightarrow> string \<Rightarrow> string \<Rightarrow> merge_probe_result query" where
  "merge_integration_probe_by_sha git branch tgt =
     disk_cached (cached_merge_add_probe branch tgt) (put_merge_add_probe branch tgt)
       (qbind (merge_base git tgt branch) (\<lambda>mb.
          if mb = None then qret (Inr \<lparr>would_merge_add = True, is_patch_id_match = False\<rparr>)
          else qbind (would_merge_add_to_target git branch tgt) (\<lambda>r.
            case r of
              Some would_add \<Rightarrow> qret (Inr \<lparr>would_merge_add = would_add, is_patch_id_match = False\<rparr>)
            | None \<Rightarrow>
                qbind (q_or_false (is_squash_merged_via_patch_id git branch tgt)) (\<lambda>matched.
                qret (Inr \<lparr>would_merge_add = True, is_patch_id_match = matched\<rparr>)))))"

definition pure_probe :: "git \<Rightarrow> string \<Rightarrow> string \<Rightarrow> git_error + merge_probe_result" where
  "pure_probe git branch tgt =
     rbind (pure_merge_base git tgt branch) (\<lambda>mb.
       if mb = None then Inr \<lparr>would_merge_add = True, is_patch_id_match = False\<rparr>
       else rbind (pure_would_merge_add git branch tgt) (\<lambda>r.
         case r of
           Some would_add \<Rightarrow> Inr \<lparr>would_merge_add = would_add, is_patch_id_match = False\<rparr>
         | None \<Rightarrow> Inr \<lparr>would_merge_add = True,
                       is_patch_id_match = unwrap_or False (pure_squash_merged git branch tgt)\<rparr>))"

section \<open>The lazy signals and the verdict\<close>

definition snapshot_resolve :: "git \<Rightarrow> ref_snapshot \<Rightarrow> string \<Rightarrow> git_error + string" where
  "snapshot_resolve git snap name =
     (case snap_resolve snap name of Some sha \<Rightarrow> Inr sha | None \<Rightarrow> rev_parse git name)"

definition integration_lazy_by_sha :: "git \<Rightarrow> string \<Rightarrow> string \<Rightarrow> integration_signals query" where
  "integration_lazy_by_sha git b t =
     (let s1 = default_signals\<lparr>is_same_commit := Some (b = t)\<rparr> in
      if b = t then qret (Inr s1)
      else qbind (is_ancestor_by_sha git b t) (\<lambda>anc.
        let s2 = s1\<lparr>sig_is_ancestor := Some anc\<rparr> in
        if anc then qret (Inr s2)
        else qbind (has_added_changes_by_sha git b t) (\<lambda>added.
          let s3 = s2\<lparr>has_added_changes := Some added\<rparr> in
          if \<not> added then qret (Inr s3)
          else qbind (trees_match_by_sha git b t) (\<lambda>trees.
            let s4 = s3\<lparr>trees_match := Some trees\<rparr> in
            if trees then qret (Inr s4)
            else qbind (merge_integration_probe_by_sha git b t) (\<lambda>p.
              let s5 = s4\<lparr>sig_would_merge_add := Some (would_merge_add p)\<rparr> in
              if \<not> would_merge_add p then qret (Inr s5)
              else qret (Inr (s5\<lparr>sig_is_patch_id_match := Some (is_patch_id_match p)\<rparr>)))))))"

definition compute_integration_lazy :: "git \<Rightarrow> ref_snapshot \<Rightarrow> string \<Rightarrow> string \<Rightarrow> integration_signals query" where
  "compute_integration_lazy git snap branch tgt =
     qbind (qret (snapshot_resolve git snap branch)) (\<lambda>b.
     qbind (qret (snapshot_resolve git snap tgt)) (\<lambda>t.
     integration_lazy_by_sha git b t))"

text \<open>Which refs the verdict consults.\<close>

datatype checks = Upstream_Only string | Local_Then "string option"

definition relate_upstream :: "git \<Rightarrow> ref_snapshot \<Rightarrow> string \<Rightarrow> string option \<Rightarrow> checks query" where
  "relate_upstream git snap target_sha upstream =
     (case upstream of
        None \<Rightarrow> qret (Inr (Local_Then None))
      | Some u \<Rightarrow>
          qbind (qret (snapshot_resolve git snap u)) (\<lambda>usha.
          if target_sha = usha then qret (Inr (Local_Then None))
          else qbind (is_ancestor_by_sha git target_sha usha) (\<lambda>behind.
            if behind then qret (Inr (Upstream_Only u))
            else qbind (is_ancestor_by_sha git usha target_sha) (\<lambda>ahead.
              if ahead then qret (Inr (Local_Then None)) else qret (Inr (Local_Then (Some u)))))))"

definition resolved_upstream ::
  "ref_snapshot \<Rightarrow> (string \<Rightarrow> git_error + string option) \<Rightarrow> string \<Rightarrow> string option" where
  "resolved_upstream snap live tgt =
     (case upstream_of snap tgt of Some u \<Rightarrow> Some u | None \<Rightarrow> unwrap_or None (live tgt))"

definition branch_integration_reason ::
  "git \<Rightarrow> ref_snapshot \<Rightarrow> (string \<Rightarrow> git_error + string option) \<Rightarrow> string \<Rightarrow> string
   \<Rightarrow> (string \<times> integration_reason option) query" where
  "branch_integration_reason git snap live branch tgt =
     (let upstream = resolved_upstream snap live tgt in
      qbind (qret (snapshot_resolve git snap tgt)) (\<lambda>tsha.
      qbind (relate_upstream git snap tsha upstream) (\<lambda>c.
        case c of
          Upstream_Only u \<Rightarrow>
            qbind (compute_integration_lazy git snap branch u) (\<lambda>sig. qret (Inr (u, check_integration sig)))
        | Local_Then fallback \<Rightarrow>
            qbind (compute_integration_lazy git snap branch tgt) (\<lambda>sig.
              case check_integration sig of
                Some r \<Rightarrow> qret (Inr (tgt, Some r))
              | None \<Rightarrow>
                  (case fallback of
                     None \<Rightarrow> qret (Inr (tgt, None))
                   | Some u \<Rightarrow>
                       qbind (compute_integration_lazy git snap branch u) (\<lambda>sig.
                         case check_integration sig of
                           Some r \<Rightarrow> qret (Inr (u, Some r))
                         | None \<Rightarrow> qret (Inr (tgt, None))))))))"

section \<open>The targets of \<open>wt list\<close>\<close>

record integration_targets_rec =
  primary :: string
  secondary :: "string option"

text \<open>\<open>.unwrap_or(false)\<close> on the ancestor probes, \<open>.ok()?\<close> on the resolutions.\<close>

definition integration_targets ::
  "git \<Rightarrow> ref_snapshot \<Rightarrow> string option \<Rightarrow> repo_state \<Rightarrow> repo_state \<times> integration_targets_rec option" where
  "integration_targets git snap default_branch s =
     (case default_branch of
        None \<Rightarrow> (s, None)
      | Some tgt \<Rightarrow>
          (case snapshot_resolve git snap tgt of
             Inl _ \<Rightarrow> (s, None)
           | Inr tsha \<Rightarrow>
               (case upstream_of snap tgt of
                  None \<Rightarrow> (s, Some \<lparr>primary = tgt, secondary = None\<rparr>)
                | Some u \<Rightarrow>
                    (case snapshot_resolve git snap u of
                       Inl _ \<Rightarrow> (s, None)
                     | Inr usha \<Rightarrow>
                         if tsha = usha then (s, Some \<lparr>primary = tgt, secondary = None\<rparr>)
                         else (case q_or_false (is_ancestor_by_sha git tsha usha) s of
                           (s1, r1) \<Rightarrow>
                             if r1 = Inr True then (s1, Some \<lparr>primary = u, secondary = None\<rparr>)
                             else (case q_or_false (is_ancestor_by_sha git usha tsha) s1 of
                               (s2, r2) \<Rightarrow>
                                 if r2 = Inr True then (s2, Some \<lparr>primary = tgt, secondary = None\<rparr>)
                                 else (s2, Some \<lparr>primary = tgt, secondary = Some u\<rparr>)))))))"

definition select_comparison_base :: "integration_targets_rec option \<Rightarrow> string option \<Rightarrow> string option" where
  "select_comparison_base targets default_branch =
     (case targets of Some t \<Rightarrow> Some (primary t) | None \<Rightarrow> default_branch)"

definition comparison_base_from ::
  "git \<Rightarrow> ref_snapshot \<Rightarrow> string option \<Rightarrow> repo_state \<Rightarrow> repo_state \<times> (string \<times> string) option" where
  "comparison_base_from git snap default_branch s =
     (case integration_targets git snap default_branch s of
        (s', targets) \<Rightarrow>
          (case select_comparison_base targets default_branch of
             None \<Rightarrow> (s', None)
           | Some name \<Rightarrow>
               (case snapshot_resolve git snap name of
                  Inl _ \<Rightarrow> (s', None) | Inr sha \<Rightarrow> (s', Some (name, sha)))))"

section \<open>The base of the diff and summary panes\<close>

definition EMPTY_TREE_SHA1 :: string where
  "EMPTY_TREE_SHA1 = ''4b825dc642cb6eb9a060e54bf8d69288fbee4904''"

definition EMPTY_TREE_SHA256 :: string where
  "EMPTY_TREE_SHA256 = ''6ef19b41225c5369f1c104d45d8d85efa9b057b53b14b4b9b939dd74decc5321''"

definition empty_tree_sha :: "git_error + string option \<Rightarrow> git_error + string" where
  "empty_tree_sha object_format =
     rbind object_format (\<lambda>f. Inr (if f = Some ''sha256'' then EMPTY_TREE_SHA256 else EMPTY_TREE_SHA1))"

definition index_base_for :: "git_error + string option \<Rightarrow> string option \<Rightarrow> git_error + string" where
  "index_base_for object_format head =
     (case head of Some h \<Rightarrow> Inr h | None \<Rightarrow> empty_tree_sha object_format)"

record branch_diff_spec =
  diff_base :: "string option"
  base_name :: string
  cache_sha :: string

definition branch_diff_spec_of ::
  "git \<Rightarrow> git_error + string option \<Rightarrow> (string \<times> string) option \<Rightarrow> string
   \<Rightarrow> repo_state \<Rightarrow> repo_state \<times> branch_diff_spec option" where
  "branch_diff_spec_of git object_format comparison_base head s =
     (case comparison_base of
        None \<Rightarrow> (s, None)
      | Some (name, base_sha) \<Rightarrow>
          (case merge_base_by_sha git base_sha head s of
             (s', Inr None) \<Rightarrow>
               (case empty_tree_sha object_format of
                  Inl _ \<Rightarrow> (s', None)
                | Inr e \<Rightarrow> (s', Some \<lparr>diff_base = Some e, base_name = name, cache_sha = e\<rparr>))
           | (s', Inr (Some m)) \<Rightarrow> (s', Some \<lparr>diff_base = Some m, base_name = name, cache_sha = base_sha\<rparr>)
           | (s', Inl _) \<Rightarrow> (s', Some \<lparr>diff_base = None, base_name = name, cache_sha = base_sha\<rparr>)))"

text \<open>The upstream the rewrite steps measure against, when the local target lags it.\<close>

definition span_upstream ::
  "git \<Rightarrow> (string \<Rightarrow> git_error + string option) \<Rightarrow> string \<Rightarrow> string option query" where
  "span_upstream git live tgt =
     qbind (qret (live tgt)) (\<lambda>upstream.
       case upstream of
         None \<Rightarrow> qret (Inr None)
       | Some u \<Rightarrow>
           qbind (qret (resolve_to_commit_sha git tgt)) (\<lambda>tsha.
           qbind (qret (run_command git [''rev-parse'', ''HEAD''])) (\<lambda>head.
           qbind (merge_base git (trim head) u) (\<lambda>mb.
             case mb of
               None \<Rightarrow> qret (Inr None)
             | Some fork_point \<Rightarrow>
                 qbind (is_ancestor_by_sha git fork_point tsha) (\<lambda>anc.
                 qret (Inr (if anc then None else Some u)))))))"

definition empty_repo :: repo_state where
  "empty_repo =
     \<lparr>disk = \<lparr>dirs = (\<lambda>_. Missing), clock = 0, faults = []\<rparr>,
      mem_merge_base = (\<lambda>_. None), mem_commit_tree = (\<lambda>_. None), mem_merge_tree = (\<lambda>_. None)\<rparr>"

end
