(* ===== verification/Integration_Caches.thy ===== *)
theory Integration_Caches
  imports Integration
begin

text \<open>
  Why the caches are invisible: the invariant \<open>good\<close> of the repository state (every entry of every cache
  that a query can read holds what git answers without a cache), the rule that a memoized query over
  such a cache refines the uncached one (locale \<open>sound_memo\<close>), its interpretations on the nine caches,
  and the refinement of every query of \<open>Integration\<close> by its \<open>pure_...\<close> counterpart.
\<close>

section \<open>Memoized queries\<close>

definition memoized ::
  "('s \<Rightarrow> 'v option) \<Rightarrow> ('v \<Rightarrow> 's \<Rightarrow> 's) \<Rightarrow> ('s \<Rightarrow> 's \<times> ('e + 'v)) \<Rightarrow> 's \<Rightarrow> 's \<times> ('e + 'v)" where
  "memoized look store compute s =
     (case look s of
        Some v \<Rightarrow> (s, Inr v)
      | None \<Rightarrow> (case compute s of (s', Inl e) \<Rightarrow> (s', Inl e) | (s', Inr v) \<Rightarrow> (store v s', Inr v)))"

text \<open>\<open>m\<close> keeps the invariant and returns \<open>p\<close>.\<close>

definition yields :: "('s \<Rightarrow> bool) \<Rightarrow> ('s \<Rightarrow> 's \<times> 'r) \<Rightarrow> 'r \<Rightarrow> bool" where
  "yields ok m p \<longleftrightarrow> (\<forall>s. ok s \<longrightarrow> ok (fst (m s)) \<and> snd (m s) = p)"

lemma yieldsI: "(\<And>s. ok s \<Longrightarrow> ok (fst (m s)) \<and> snd (m s) = p) \<Longrightarrow> yields ok m p"
  by (simp add: yields_def)

lemma yieldsD: "yields ok m p \<Longrightarrow> ok s \<Longrightarrow> ok (fst (m s)) \<and> snd (m s) = p"
  by (simp add: yields_def)

locale sound_memo =
  fixes ok :: "'s \<Rightarrow> bool"
    and look :: "'s \<Rightarrow> 'v option"
    and store :: "'v \<Rightarrow> 's \<Rightarrow> 's"
    and truth :: "'e + 'v"
  assumes look_true: "ok s \<Longrightarrow> look s = Some v \<Longrightarrow> truth = Inr v"
    and store_ok: "ok s \<Longrightarrow> truth = Inr v \<Longrightarrow> ok (store v s)"
begin

lemma memoized_yields: "yields ok compute truth \<Longrightarrow> yields ok (memoized look store compute) truth"
proof (rule yieldsI)
  fix s
  assume c: "yields ok compute truth" and s: "ok s"
  note cs = yieldsD[OF c s]
  show "ok (fst (memoized look store compute s)) \<and> snd (memoized look store compute s) = truth"
  proof (cases "look s")
    case None
    obtain s' r where cr: "compute s = (s', r)" by (cases "compute s")
    with cs have "ok s'" and "r = truth" by auto
    with None cr show ?thesis by (cases r) (auto simp: memoized_def intro: store_ok)
  next
    case (Some v)
    with look_true[OF s Some] s show ?thesis by (simp add: memoized_def)
  qed
qed

end

section \<open>The invariant\<close>

text \<open>What the crate relies on git for, besides being a function of its arguments.\<close>

definition prints_ids :: "git \<Rightarrow> bool" where
  "prints_ids git \<longleftrightarrow>
     (\<forall>r s. rev_parse git r = Inr s \<longrightarrow> commit_id git s) \<and>
     (\<forall>t h s. commit_tree git t h = Inr s \<longrightarrow> commit_id git s)"

definition merge_base_symmetric :: "git \<Rightarrow> bool" where
  "merge_base_symmetric git \<longleftrightarrow>
     (\<forall>a b v. commit_id git a \<longrightarrow> commit_id git b \<longrightarrow>
        merge_base_command git a b = Inr v \<longrightarrow> merge_base_command git b a = Inr v)"

definition conflicts_symmetric :: "git \<Rightarrow> bool" where
  "conflicts_symmetric git \<longleftrightarrow>
     (\<forall>a b out. commit_id git a \<longrightarrow> commit_id git b \<longrightarrow> compute_merge_tree_outcome git a b = Inr out \<longrightarrow>
        (\<exists>out'. compute_merge_tree_outcome git b a = Inr out' \<and> (out' = Conflict \<longleftrightarrow> out = Conflict)))"

definition git_laws :: "git \<Rightarrow> bool" where
  "git_laws git \<longleftrightarrow> prints_ids git \<and> merge_base_symmetric git \<and> conflicts_symmetric git"

definition asym_truth :: "git \<Rightarrow> (string \<Rightarrow> string \<Rightarrow> git_error + 'v) \<Rightarrow> string \<Rightarrow> 'v \<Rightarrow> bool" where
  "asym_truth git p k v \<longleftrightarrow>
     (\<forall>a b. commit_id git a \<longrightarrow> commit_id git b \<longrightarrow> asymmetric_key a b = k \<longrightarrow> p a b = Inr v)"

definition sym_truth :: "git \<Rightarrow> (string \<Rightarrow> string \<Rightarrow> git_error + 'v) \<Rightarrow> string \<Rightarrow> 'v \<Rightarrow> bool" where
  "sym_truth git p k v \<longleftrightarrow>
     (\<forall>a b. commit_id git a \<longrightarrow> commit_id git b \<longrightarrow> symmetric_key a b = k \<longrightarrow> p a b = Inr v)"

definition separator_free :: "string \<Rightarrow> bool" where
  "separator_free s \<longleftrightarrow> \<not> contains_char s CHR ''-'' \<and> \<not> contains_char s CHR ''+''"

definition tree_truth :: "git \<Rightarrow> string \<Rightarrow> bool \<Rightarrow> bool" where
  "tree_truth git k v \<longleftrightarrow>
     (\<forall>base head tree. commit_id git base \<longrightarrow> commit_id git head \<longrightarrow> separator_free tree \<longrightarrow>
        symmetric_key base (composite_head head tree) = k \<longrightarrow> pure_tree_conflicts git base head tree = Inr v)"

definition conflict_truth :: "git \<Rightarrow> string \<Rightarrow> bool \<Rightarrow> bool" where
  "conflict_truth git k v \<longleftrightarrow> sym_truth git (pure_conflicts git) k v \<and> tree_truth git k v"

definition disk_ok :: "git \<Rightarrow> cache_disk \<Rightarrow> bool" where
  "disk_ok git d \<longleftrightarrow>
     result_cache.sound (cache_read dec_bool KIND_IS_ANCESTOR) (asym_truth git (is_ancestor_command git)) d \<and>
     result_cache.sound (cache_read dec_bool KIND_HAS_ADDED_CHANGES) (asym_truth git (pure_has_added_changes git)) d \<and>
     result_cache.sound (cache_read dec_probe KIND_MERGE_ADD_PROBE) (asym_truth git (pure_probe git)) d \<and>
     result_cache.sound (cache_read dec_counts KIND_AHEAD_BEHIND) (asym_truth git (pure_ahead_behind git)) d \<and>
     result_cache.sound (cache_read dec_sha_opt KIND_MERGE_BASE) (sym_truth git (pure_merge_base git)) d \<and>
     result_cache.sound (cache_read dec_bool KIND_MERGE_TREE_CONFLICTS) (conflict_truth git) d"

definition memory_ok :: "git \<Rightarrow> repo_state \<Rightarrow> bool" where
  "memory_ok git s \<longleftrightarrow>
     (\<forall>a b v. commit_id git a \<longrightarrow> commit_id git b \<longrightarrow> mem_merge_base s (sorted_pair a b) = Some v
        \<longrightarrow> pure_merge_base git a b = Inr v) \<and>
     (\<forall>c t. mem_commit_tree s c = Some t \<longrightarrow> pure_tree git c = Inr t) \<and>
     (\<forall>a b out. mem_merge_tree s (a, b) = Some out \<longrightarrow> compute_merge_tree_outcome git a b = Inr out)"

definition good :: "git \<Rightarrow> repo_state \<Rightarrow> bool" where
  "good git s \<longleftrightarrow> git_laws git \<and> disk_ok git (disk s) \<and> memory_ok git s"

lemma resolved_commit_id: "git_laws git \<Longrightarrow> resolve_to_commit_sha git r = Inr s \<Longrightarrow> commit_id git s"
  by (auto simp: git_laws_def prints_ids_def resolve_to_commit_sha_def rev_parse_commit_def hex_commit_id
      split: if_splits)

lemma commit_id_free:
  "commit_id git a \<Longrightarrow> dash_free a" "commit_id git a \<Longrightarrow> separator_free a" "separator_free a \<Longrightarrow> dash_free a"
  by (simp_all add: commit_id_def separator_free_def dash_free_def contains_char_def)

lemma pure_merge_base_symmetric:
  "git_laws git \<Longrightarrow> commit_id git a \<Longrightarrow> commit_id git b \<Longrightarrow>
   pure_merge_base git a b = Inr v \<Longrightarrow> pure_merge_base git b a = Inr v"
  unfolding pure_merge_base_def git_laws_def merge_base_symmetric_def
  by (cases "a = b") (simp, metis)

lemma pure_conflicts_symmetric:
  assumes "git_laws git" and "pure_conflicts git a b = Inr v" and ids: "commit_id git a" "commit_id git b"
  shows "pure_conflicts git b a = Inr v"
proof -
  obtain mb where mb: "pure_merge_base git a b = Inr mb" using assms(2)
    by (auto simp: pure_conflicts_def rbind_Inr_iff)
  with pure_merge_base_symmetric[OF assms(1) ids] have mb': "pure_merge_base git b a = Inr mb" by blast
  show ?thesis
  proof (cases mb)
    case (Some m)
    with assms(2) mb obtain out where
      "compute_merge_tree_outcome git a b = Inr out" "v = (out = Conflict)"
      by (auto simp: pure_conflicts_def rbind_Inr_iff)
    moreover then obtain out' where
      "compute_merge_tree_outcome git b a = Inr out'" "(out' = Conflict) = (out = Conflict)"
      using assms(1) ids unfolding git_laws_def conflicts_symmetric_def by blast
    ultimately show ?thesis using mb' Some by (simp add: pure_conflicts_def)
  qed (use assms(2) mb mb' in \<open>simp add: pure_conflicts_def\<close>)
qed

lemma asym_truthI:
  "commit_id git a \<Longrightarrow> commit_id git b \<Longrightarrow> p a b = Inr v \<Longrightarrow> asym_truth git p (asymmetric_key a b) v"
  unfolding asym_truth_def by (metis asymmetric_key_inj commit_id_free(1))

lemma sym_truthI:
  assumes "commit_id git a" "commit_id git b" "p a b = Inr v" and "p b a = Inr v"
  shows "sym_truth git p (symmetric_key a b) v"
  unfolding sym_truth_def
proof (intro allI impI)
  fix x y
  assume x: "commit_id git x" and y: "commit_id git y" and eq: "symmetric_key x y = symmetric_key a b"
  have "x = a \<and> y = b \<or> x = b \<and> y = a"
    by (rule symmetric_key_inj[OF eq commit_id_free(1)[OF x] commit_id_free(1)[OF y]
          commit_id_free(1)[OF assms(1)] commit_id_free(1)[OF assms(2)]])
  then consider "x = a \<and> y = b" | "x = b \<and> y = a" by blast
  then show "p x y = Inr v"
  proof cases
    case 1
    with assms(3) show ?thesis by (simp only:)
  next
    case 2
    with assms(4) show ?thesis by (simp only:)
  qed
qed

lemma composite_parts:
  assumes "separator_free h" "separator_free h'" "composite_head h t = composite_head h' t'"
  shows "h = h' \<and> t = t'"
proof -
  have "split_once CHR ''+'' (composite_head h t) = Some (h, t)"
    using assms(1) by (simp add: split_once_Some_iff composite_head_def separator_free_def contains_char_def)
  moreover have "split_once CHR ''+'' (composite_head h' t') = Some (h', t')"
    using assms(2) by (simp add: split_once_Some_iff composite_head_def separator_free_def contains_char_def)
  ultimately have "Some (h, t) = Some (h', t')" unfolding assms(3) by (rule trans[OF sym])
  then show ?thesis by simp
qed

lemma composite_not_plain: "separator_free a \<Longrightarrow> a \<noteq> composite_head h t"
  by (auto simp: separator_free_def composite_head_def contains_char_def)

lemma composite_dash_free: "separator_free h \<Longrightarrow> separator_free t \<Longrightarrow> dash_free (composite_head h t)"
  by (auto simp: separator_free_def composite_head_def contains_char_def dash_free_def)

lemma plain_conflict_truth:
  assumes laws: "git_laws git" and ids: "commit_id git a" "commit_id git b" and v: "pure_conflicts git a b = Inr v"
  shows "conflict_truth git (symmetric_key a b) v"
proof -
  have "sym_truth git (pure_conflicts git) (symmetric_key a b) v"
    using ids v pure_conflicts_symmetric[OF laws v ids] by (rule sym_truthI)
  moreover have "symmetric_key base (composite_head head tree) \<noteq> symmetric_key a b"
    if "commit_id git base" "commit_id git head" "separator_free tree" for base head tree
    using that ids symmetric_key_inj composite_not_plain composite_dash_free commit_id_free by metis
  ultimately show ?thesis by (auto simp: conflict_truth_def tree_truth_def)
qed

lemma tree_conflict_truth:
  assumes ids: "commit_id git base" "commit_id git head" "separator_free tree"
    and v: "pure_tree_conflicts git base head tree = Inr v"
  shows "conflict_truth git (symmetric_key base (composite_head head tree)) v"
proof -
  have df: "dash_free (composite_head head tree)" using ids commit_id_free composite_dash_free by blast
  have "symmetric_key a b \<noteq> symmetric_key base (composite_head head tree)"
    if "commit_id git a" "commit_id git b" for a b
    using that ids df symmetric_key_inj composite_not_plain commit_id_free by metis
  moreover have "base' = base \<and> head' = head \<and> tree' = tree"
    if "symmetric_key base' (composite_head head' tree') = symmetric_key base (composite_head head tree)"
      "commit_id git base'" "commit_id git head'" "separator_free tree'" for base' head' tree'
  proof -
    have "dash_free (composite_head head' tree')" using that commit_id_free composite_dash_free by blast
    then have "base' = base \<and> composite_head head' tree' = composite_head head tree"
      using symmetric_key_inj[OF that(1)] that ids df composite_not_plain commit_id_free by metis
    then show ?thesis using composite_parts[of head' head tree' tree] that(3) ids(2) commit_id_free by blast
  qed
  ultimately show ?thesis using v unfolding conflict_truth_def tree_truth_def sym_truth_def by metis
qed

section \<open>Puts keep the invariant\<close>

lemmas put_defs =
  put_is_ancestor_def put_has_added_changes_def put_merge_add_probe_def put_ahead_behind_def
  put_merge_base_def put_merge_conflicts_def

lemma kinds_distinct: "distinct ALL_KINDS"
  by code_simp

lemma kind_neqs [simp]:
  "KIND_IS_ANCESTOR \<noteq> KIND_HAS_ADDED_CHANGES" "KIND_HAS_ADDED_CHANGES \<noteq> KIND_IS_ANCESTOR"
  "KIND_IS_ANCESTOR \<noteq> KIND_MERGE_ADD_PROBE" "KIND_MERGE_ADD_PROBE \<noteq> KIND_IS_ANCESTOR"
  "KIND_IS_ANCESTOR \<noteq> KIND_AHEAD_BEHIND" "KIND_AHEAD_BEHIND \<noteq> KIND_IS_ANCESTOR"
  "KIND_IS_ANCESTOR \<noteq> KIND_MERGE_BASE" "KIND_MERGE_BASE \<noteq> KIND_IS_ANCESTOR"
  "KIND_IS_ANCESTOR \<noteq> KIND_MERGE_TREE_CONFLICTS" "KIND_MERGE_TREE_CONFLICTS \<noteq> KIND_IS_ANCESTOR"
  "KIND_HAS_ADDED_CHANGES \<noteq> KIND_MERGE_ADD_PROBE" "KIND_MERGE_ADD_PROBE \<noteq> KIND_HAS_ADDED_CHANGES"
  "KIND_HAS_ADDED_CHANGES \<noteq> KIND_AHEAD_BEHIND" "KIND_AHEAD_BEHIND \<noteq> KIND_HAS_ADDED_CHANGES"
  "KIND_HAS_ADDED_CHANGES \<noteq> KIND_MERGE_BASE" "KIND_MERGE_BASE \<noteq> KIND_HAS_ADDED_CHANGES"
  "KIND_HAS_ADDED_CHANGES \<noteq> KIND_MERGE_TREE_CONFLICTS" "KIND_MERGE_TREE_CONFLICTS \<noteq> KIND_HAS_ADDED_CHANGES"
  "KIND_MERGE_ADD_PROBE \<noteq> KIND_AHEAD_BEHIND" "KIND_AHEAD_BEHIND \<noteq> KIND_MERGE_ADD_PROBE"
  "KIND_MERGE_ADD_PROBE \<noteq> KIND_MERGE_BASE" "KIND_MERGE_BASE \<noteq> KIND_MERGE_ADD_PROBE"
  "KIND_MERGE_ADD_PROBE \<noteq> KIND_MERGE_TREE_CONFLICTS" "KIND_MERGE_TREE_CONFLICTS \<noteq> KIND_MERGE_ADD_PROBE"
  "KIND_AHEAD_BEHIND \<noteq> KIND_MERGE_BASE" "KIND_MERGE_BASE \<noteq> KIND_AHEAD_BEHIND"
  "KIND_AHEAD_BEHIND \<noteq> KIND_MERGE_TREE_CONFLICTS" "KIND_MERGE_TREE_CONFLICTS \<noteq> KIND_AHEAD_BEHIND"
  "KIND_MERGE_BASE \<noteq> KIND_MERGE_TREE_CONFLICTS" "KIND_MERGE_TREE_CONFLICTS \<noteq> KIND_MERGE_BASE"
  using kinds_distinct by (auto simp: ALL_KINDS_def)

lemma sound_other [simp]:
  "kind' \<noteq> kind \<Longrightarrow> result_cache.sound (cache_read dec_bool kind') t (write_with_lru kind k j cap d)
     = result_cache.sound (cache_read dec_bool kind') t d"
  "kind' \<noteq> kind \<Longrightarrow> result_cache.sound (cache_read dec_probe kind') tp (write_with_lru kind k j cap d)
     = result_cache.sound (cache_read dec_probe kind') tp d"
  "kind' \<noteq> kind \<Longrightarrow> result_cache.sound (cache_read dec_counts kind') tc (write_with_lru kind k j cap d)
     = result_cache.sound (cache_read dec_counts kind') tc d"
  "kind' \<noteq> kind \<Longrightarrow> result_cache.sound (cache_read dec_sha_opt kind') ts (write_with_lru kind k j cap d)
     = result_cache.sound (cache_read dec_sha_opt kind') ts d"
  by (simp_all add: bools.sound_def probes.sound_def counts.sound_def shas.sound_def)

lemma disk_ok_puts:
  assumes "disk_ok git d"
  shows "asym_truth git (is_ancestor_command git) (asymmetric_key a b) v \<Longrightarrow> disk_ok git (put_is_ancestor a b v d)"
    and "asym_truth git (pure_has_added_changes git) (asymmetric_key a b) v \<Longrightarrow> disk_ok git (put_has_added_changes a b v d)"
    and "asym_truth git (pure_probe git) (asymmetric_key a b) p \<Longrightarrow> disk_ok git (put_merge_add_probe a b p d)"
    and "asym_truth git (pure_ahead_behind git) (asymmetric_key a b) c \<Longrightarrow> disk_ok git (put_ahead_behind a b c d)"
    and "sym_truth git (pure_merge_base git) (symmetric_key a b) m \<Longrightarrow> disk_ok git (put_merge_base a b m d)"
    and "conflict_truth git (symmetric_key a b) v \<Longrightarrow> disk_ok git (put_merge_conflicts a b v d)"
  using assms unfolding disk_ok_def put_defs
  by (simp_all add: bools.sound_put probes.sound_put counts.sound_put shas.sound_put)

lemma good_put [intro]: "good git s \<Longrightarrow> disk_ok git d \<Longrightarrow> good git (s\<lparr>disk := d\<rparr>)"
  by (simp add: good_def memory_ok_def)

lemma good_parts:
  assumes "good git s"
  shows "git_laws git" and "disk_ok git (disk s)" and "memory_ok git s"
  using assms by (simp_all add: good_def)

text \<open>Every cache is a sound memo under the invariant, for arguments that are commit ids.\<close>

definition good_for :: "git \<Rightarrow> string \<Rightarrow> string \<Rightarrow> repo_state \<Rightarrow> bool" where
  "good_for git a b s \<longleftrightarrow> good git s \<and> commit_id git a \<and> commit_id git b"

lemma disk_cached_memoized:
  "disk_cached look store compute = memoized (\<lambda>s. look (disk s)) (\<lambda>v s. s\<lparr>disk := store v (disk s)\<rparr>) compute"
  by (rule ext) (simp add: disk_cached_def memoized_def)

interpretation ancestor_memo: sound_memo "good_for git a b" "\<lambda>s. cached_is_ancestor a b (disk s)"
  "\<lambda>v s. s\<lparr>disk := put_is_ancestor a b v (disk s)\<rparr>" "is_ancestor_command git a b" for git a b
proof
  fix s v
  assume s: "good_for git a b s"
  then have ok: "good git s" "disk_ok git (disk s)" and ids: "commit_id git a" "commit_id git b"
    by (auto simp: good_for_def dest: good_parts)
  show "is_ancestor_command git a b = Inr v" if "cached_is_ancestor a b (disk s) = Some v"
    using ok(2) that ids unfolding disk_ok_def cached_is_ancestor_def
    by (auto dest!: bools.sound_lookup simp: asym_truth_def)
  show "good_for git a b (s\<lparr>disk := put_is_ancestor a b v (disk s)\<rparr>)" if "is_ancestor_command git a b = Inr v"
    using ok ids that by (auto simp: good_for_def intro!: disk_ok_puts(1) asym_truthI)
qed

interpretation added_memo: sound_memo "good_for git a b" "\<lambda>s. cached_has_added_changes a b (disk s)"
  "\<lambda>v s. s\<lparr>disk := put_has_added_changes a b v (disk s)\<rparr>" "pure_has_added_changes git a b" for git a b
proof
  fix s v
  assume s: "good_for git a b s"
  then have ok: "good git s" "disk_ok git (disk s)" and ids: "commit_id git a" "commit_id git b"
    by (auto simp: good_for_def dest: good_parts)
  show "pure_has_added_changes git a b = Inr v" if "cached_has_added_changes a b (disk s) = Some v"
    using ok(2) that ids unfolding disk_ok_def cached_has_added_changes_def
    by (auto dest!: bools.sound_lookup simp: asym_truth_def)
  show "good_for git a b (s\<lparr>disk := put_has_added_changes a b v (disk s)\<rparr>)" if "pure_has_added_changes git a b = Inr v"
    using ok ids that by (auto simp: good_for_def intro!: disk_ok_puts(2) asym_truthI)
qed

interpretation probe_memo: sound_memo "good_for git a b" "\<lambda>s. cached_merge_add_probe a b (disk s)"
  "\<lambda>v s. s\<lparr>disk := put_merge_add_probe a b v (disk s)\<rparr>" "pure_probe git a b" for git a b
proof
  fix s v
  assume s: "good_for git a b s"
  then have ok: "good git s" "disk_ok git (disk s)" and ids: "commit_id git a" "commit_id git b"
    by (auto simp: good_for_def dest: good_parts)
  show "pure_probe git a b = Inr v" if "cached_merge_add_probe a b (disk s) = Some v"
    using ok(2) that ids unfolding disk_ok_def cached_merge_add_probe_def
    by (auto dest!: probes.sound_lookup simp: asym_truth_def)
  show "good_for git a b (s\<lparr>disk := put_merge_add_probe a b v (disk s)\<rparr>)" if "pure_probe git a b = Inr v"
    using ok ids that by (auto simp: good_for_def intro!: disk_ok_puts(3) asym_truthI)
qed

interpretation counts_memo: sound_memo "good_for git a b" "\<lambda>s. cached_ahead_behind a b (disk s)"
  "\<lambda>v s. s\<lparr>disk := put_ahead_behind a b v (disk s)\<rparr>" "pure_ahead_behind git a b" for git a b
proof
  fix s v
  assume s: "good_for git a b s"
  then have ok: "good git s" "disk_ok git (disk s)" and ids: "commit_id git a" "commit_id git b"
    by (auto simp: good_for_def dest: good_parts)
  show "pure_ahead_behind git a b = Inr v" if "cached_ahead_behind a b (disk s) = Some v"
    using ok(2) that ids unfolding disk_ok_def cached_ahead_behind_def
    by (auto dest!: counts.sound_lookup simp: asym_truth_def)
  show "good_for git a b (s\<lparr>disk := put_ahead_behind a b v (disk s)\<rparr>)" if "pure_ahead_behind git a b = Inr v"
    using ok ids that by (auto simp: good_for_def intro!: disk_ok_puts(4) asym_truthI)
qed

interpretation merge_base_disk_memo: sound_memo "good_for git a b" "\<lambda>s. cached_merge_base a b (disk s)"
  "\<lambda>v s. s\<lparr>disk := put_merge_base a b v (disk s)\<rparr>" "pure_merge_base git a b" for git a b
proof
  fix s v
  assume s: "good_for git a b s"
  then have ok: "good git s" "git_laws git" "disk_ok git (disk s)" and ids: "commit_id git a" "commit_id git b"
    by (auto simp: good_for_def dest: good_parts)
  show "pure_merge_base git a b = Inr v" if "cached_merge_base a b (disk s) = Some v"
    using ok(3) that ids unfolding disk_ok_def cached_merge_base_def
    by (auto dest!: shas.sound_lookup simp: sym_truth_def)
  show "good_for git a b (s\<lparr>disk := put_merge_base a b v (disk s)\<rparr>)" if "pure_merge_base git a b = Inr v"
    unfolding good_for_def
    using ok ids sym_truthI[of git a b "pure_merge_base git" v, OF ids that pure_merge_base_symmetric[OF ok(2) ids that]]
    by (auto intro!: disk_ok_puts(5))
qed

interpretation merge_base_mem_memo: sound_memo "good_for git a b" "\<lambda>s. mem_merge_base s (sorted_pair a b)"
  "\<lambda>v s. s\<lparr>mem_merge_base := (mem_merge_base s)(sorted_pair a b \<mapsto> v)\<rparr>" "pure_merge_base git a b" for git a b
proof
  fix s v
  assume s: "good_for git a b s"
  then have ok: "good git s" "git_laws git" "memory_ok git s" and ids: "commit_id git a" "commit_id git b"
    by (auto simp: good_for_def dest: good_parts)
  show "pure_merge_base git a b = Inr v" if "mem_merge_base s (sorted_pair a b) = Some v"
    using ok(3) that ids by (simp add: memory_ok_def)
  assume v: "pure_merge_base git a b = Inr v"
  have "sorted_pair x y = sorted_pair a b \<Longrightarrow> pure_merge_base git x y = Inr v" for x y
  proof -
    assume "sorted_pair x y = sorted_pair a b"
    then have "x = a \<and> y = b \<or> x = b \<and> y = a" by (auto simp: sorted_pair_def split: if_splits)
    then show ?thesis using v pure_merge_base_symmetric[OF ok(2) ids v] by blast
  qed
  then show "good_for git a b (s\<lparr>mem_merge_base := (mem_merge_base s)(sorted_pair a b \<mapsto> v)\<rparr>)"
    using ok ids by (auto simp: good_for_def good_def memory_ok_def)
qed

interpretation tree_memo: sound_memo "good git" "\<lambda>s. mem_commit_tree s c"
  "\<lambda>v s. s\<lparr>mem_commit_tree := (mem_commit_tree s)(c \<mapsto> v)\<rparr>" "pure_tree git c" for git c
  by unfold_locales (auto simp: good_def memory_ok_def)

interpretation merge_tree_memo: sound_memo "good git" "\<lambda>s. mem_merge_tree s (a, b)"
  "\<lambda>v s. s\<lparr>mem_merge_tree := (mem_merge_tree s)((a, b) \<mapsto> v)\<rparr>" "compute_merge_tree_outcome git a b" for git a b
  by unfold_locales (auto simp: good_def memory_ok_def)

interpretation conflict_memo: sound_memo "good_for git a b" "\<lambda>s. cached_merge_conflicts a b (disk s)"
  "\<lambda>v s. s\<lparr>disk := put_merge_conflicts a b v (disk s)\<rparr>" "pure_conflicts git a b" for git a b
proof
  fix s v
  assume s: "good_for git a b s"
  then have ok: "good git s" "git_laws git" "disk_ok git (disk s)" and ids: "commit_id git a" "commit_id git b"
    by (auto simp: good_for_def dest: good_parts)
  show "pure_conflicts git a b = Inr v" if "cached_merge_conflicts a b (disk s) = Some v"
    using ok(3) that ids unfolding disk_ok_def cached_merge_conflicts_def
    by (auto dest!: bools.sound_lookup simp: sym_truth_def conflict_truth_def)
  show "good_for git a b (s\<lparr>disk := put_merge_conflicts a b v (disk s)\<rparr>)" if "pure_conflicts git a b = Inr v"
    using ok ids that by (auto simp: good_for_def intro!: disk_ok_puts(6) plain_conflict_truth)
qed

interpretation tree_conflict_memo: sound_memo "\<lambda>s. good_for git a h s \<and> separator_free t"
  "\<lambda>s. cached_merge_conflicts a (composite_head h t) (disk s)"
  "\<lambda>v s. s\<lparr>disk := put_merge_conflicts a (composite_head h t) v (disk s)\<rparr>"
  "pure_tree_conflicts git a h t" for git a h t
proof
  fix s v
  assume s: "good_for git a h s \<and> separator_free t"
  then have ok: "good git s" "disk_ok git (disk s)" and ids: "commit_id git a" "commit_id git h" "separator_free t"
    by (auto simp: good_for_def dest: good_parts)
  show "pure_tree_conflicts git a h t = Inr v"
    if "cached_merge_conflicts a (composite_head h t) (disk s) = Some v"
    using ok(2) that ids unfolding disk_ok_def cached_merge_conflicts_def
    by (auto dest!: bools.sound_lookup simp: tree_truth_def conflict_truth_def)
  show "good_for git a h (s\<lparr>disk := put_merge_conflicts a (composite_head h t) v (disk s)\<rparr>) \<and> separator_free t"
    if "pure_tree_conflicts git a h t = Inr v"
    using ok ids that by (auto simp: good_for_def intro!: disk_ok_puts(6) tree_conflict_truth)
qed


section \<open>Every query yields its uncached value\<close>

lemma yields_ret: "yields ok (qret r) r"
  by (simp add: yields_def qret_def)

lemma yields_bind:
  assumes "yields ok m p" and "\<And>x. p = Inr x \<Longrightarrow> yields ok (f x) (g x)"
  shows "yields ok (qbind m f) (rbind p g)"
proof (rule yieldsI)
  fix s
  assume "ok s"
  with assms(1) have m: "ok (fst (m s))" "snd (m s) = p" by (auto dest: yieldsD)
  obtain s' r where mr: "m s = (s', r)" by (cases "m s")
  have p: "p = r" and s': "ok s'" using m mr by simp_all
  show "ok (fst (qbind m f s)) \<and> snd (qbind m f s) = rbind p g"
  proof (cases r)
    case (Inl e)
    with p s' mr show ?thesis by (simp add: qbind_def)
  next
    case (Inr x)
    with p assms(2)[of x] have "yields ok (f x) (g x)" by simp
    with p s' mr Inr show ?thesis by (auto simp: qbind_def dest: yieldsD)
  qed
qed

lemma yields_or_false: "yields ok m p \<Longrightarrow> yields ok (q_or_false m) (Inr (unwrap_or False p))"
  unfolding yields_def q_or_false_def by (auto split: prod.splits)

lemma yields_good_for:
  assumes "commit_id git a" "commit_id git b"
  shows "yields (good_for git a b) m p = yields (good git) m p"
  using assms by (simp add: yields_def good_for_def)

lemma merge_base_by_sha_memoized:
  "a \<noteq> b \<Longrightarrow> merge_base_by_sha git a b =
     memoized (\<lambda>s. mem_merge_base s (sorted_pair a b))
       (\<lambda>v s. s\<lparr>mem_merge_base := (mem_merge_base s)(sorted_pair a b \<mapsto> v)\<rparr>)
       (memoized (\<lambda>s. cached_merge_base a b (disk s)) (\<lambda>v s. s\<lparr>disk := put_merge_base a b v (disk s)\<rparr>)
          (qret (pure_merge_base git a b)))"
  by (rule ext)
    (simp add: merge_base_by_sha_def memoized_def disk_cached_memoized[symmetric] pure_merge_base_def
      disk_cached_def split: option.split)

lemma merge_base_by_sha_yields:
  assumes "commit_id git a" "commit_id git b"
  shows "yields (good git) (merge_base_by_sha git a b) (pure_merge_base git a b)"
proof (cases "a = b")
  case True
  then show ?thesis by (simp add: yields_def merge_base_by_sha_def pure_merge_base_def)
next
  case False
  have "yields (good_for git a b) (merge_base_by_sha git a b) (pure_merge_base git a b)"
    unfolding merge_base_by_sha_memoized[OF False]
    by (intro merge_base_mem_memo.memoized_yields merge_base_disk_memo.memoized_yields yields_ret)
  then show ?thesis using assms by (simp add: yields_good_for)
qed

definition pure_merge_base_refs :: "git \<Rightarrow> string \<Rightarrow> string \<Rightarrow> git_error + string option" where
  "pure_merge_base_refs git c1 c2 =
     rbind (resolve_to_commit_sha git c1) (\<lambda>a. rbind (resolve_to_commit_sha git c2) (pure_merge_base git a))"

lemma merge_base_refs_yields:
  assumes "git_laws git"
  shows "yields (good git) (merge_base git c1 c2) (pure_merge_base_refs git c1 c2)"
  unfolding merge_base_def pure_merge_base_refs_def
  by (intro yields_bind yields_ret merge_base_by_sha_yields)
    (use assms in \<open>auto dest: resolved_commit_id\<close>)

lemma pure_merge_base_refs_ids:
  "commit_id git a \<Longrightarrow> commit_id git b \<Longrightarrow> pure_merge_base_refs git a b = pure_merge_base git a b"
  by (simp add: pure_merge_base_refs_def commit_id_resolve)

lemma merge_base_yields:
  assumes "commit_id git a" "commit_id git b"
  shows "yields (good git) (merge_base git a b) (pure_merge_base git a b)"
  unfolding pure_merge_base_refs_ids[OF assms, symmetric]
  by (rule yieldsI) (metis good_parts(1) merge_base_refs_yields yieldsD)

lemma ahead_behind_yields:
  assumes "commit_id git a" "commit_id git b"
  shows "yields (good git) (ahead_behind_by_sha git a b) (pure_ahead_behind git a b)"
proof -
  have "yields (good git) (compute_ahead_behind git a b) (pure_ahead_behind git a b)"
    unfolding compute_ahead_behind_def pure_ahead_behind_def
    by (intro yields_bind merge_base_by_sha_yields yields_ret assms)
  then have "yields (good_for git a b) (ahead_behind_by_sha git a b) (pure_ahead_behind git a b)"
    unfolding ahead_behind_by_sha_def disk_cached_memoized
    by (intro counts_memo.memoized_yields) (simp add: yields_good_for assms)
  then show ?thesis by (simp add: yields_good_for assms)
qed

lemma is_ancestor_yields:
  assumes "commit_id git a" "commit_id git b"
  shows "yields (good git) (is_ancestor_by_sha git a b) (is_ancestor_command git a b)"
proof -
  have "yields (good_for git a b) (is_ancestor_by_sha git a b) (is_ancestor_command git a b)"
    unfolding is_ancestor_by_sha_def disk_cached_memoized
    by (intro ancestor_memo.memoized_yields yields_ret)
  then show ?thesis by (simp add: yields_good_for assms)
qed

lemma has_added_changes_yields:
  assumes "commit_id git a" "commit_id git b"
  shows "yields (good git) (has_added_changes_by_sha git a b) (pure_has_added_changes git a b)"
proof -
  have "yields (good git) (qbind (merge_base git b a) (\<lambda>mb. qret (added_since git a mb))) (pure_has_added_changes git a b)"
    unfolding pure_has_added_changes_def by (intro yields_bind merge_base_yields yields_ret assms)
  then have "yields (good_for git a b) (has_added_changes_by_sha git a b) (pure_has_added_changes git a b)"
    unfolding has_added_changes_by_sha_def disk_cached_memoized
    by (intro added_memo.memoized_yields) (simp add: yields_good_for assms)
  then show ?thesis by (simp add: yields_good_for assms)
qed

lemma commit_to_tree_yields: "yields (good git) (commit_to_tree_sha git c) (pure_tree git c)"
proof -
  have "commit_to_tree_sha git c = memoized (\<lambda>s. mem_commit_tree s c)
      (\<lambda>v s. s\<lparr>mem_commit_tree := (mem_commit_tree s)(c \<mapsto> v)\<rparr>) (qret (pure_tree git c))"
    by (rule ext) (simp add: commit_to_tree_sha_def memoized_def qret_def split: option.split sum.split)
  then show ?thesis by (simp add: tree_memo.memoized_yields yields_ret)
qed

lemma trees_match_yields: "yields (good git) (trees_match_by_sha git a b) (pure_trees_match git a b)"
  unfolding trees_match_by_sha_def pure_trees_match_def
  by (intro yields_bind commit_to_tree_yields yields_ret)

lemma merge_tree_outcome_yields:
  "yields (good git) (merge_tree_outcome_of git a b) (compute_merge_tree_outcome git a b)"
proof -
  have "merge_tree_outcome_of git a b = memoized (\<lambda>s. mem_merge_tree s (a, b))
      (\<lambda>v s. s\<lparr>mem_merge_tree := (mem_merge_tree s)((a, b) \<mapsto> v)\<rparr>) (qret (compute_merge_tree_outcome git a b))"
    by (rule ext) (simp add: merge_tree_outcome_of_def memoized_def qret_def split: option.split sum.split)
  then show ?thesis by (simp add: merge_tree_memo.memoized_yields yields_ret)
qed

lemma merge_conflicts_yields:
  assumes "commit_id git a" "commit_id git b"
  shows "yields (good git) (merge_conflicts git a b) (pure_conflicts git a b)"
  unfolding merge_conflicts_def pure_conflicts_def
proof (intro yields_bind merge_base_yields assms)
  fix mb
  show "yields (good git)
      (if mb = None then qret (Inr True)
       else qbind (merge_tree_outcome_of git a b) (\<lambda>out. qret (Inr (out = Conflict))))
      (if mb = None then Inr True
       else rbind (compute_merge_tree_outcome git a b) (\<lambda>out. Inr (out = Conflict)))"
    by (simp add: yields_ret yields_bind merge_tree_outcome_yields)
qed

lemma has_merge_conflicts_yields:
  assumes "commit_id git a" "commit_id git b"
  shows "yields (good git) (has_merge_conflicts_by_sha git a b) (pure_conflicts git a b)"
proof -
  have "has_merge_conflicts_by_sha git a b = memoized (\<lambda>s. cached_merge_conflicts a b (disk s))
      (\<lambda>v s. s\<lparr>disk := put_merge_conflicts a b v (disk s)\<rparr>) (merge_conflicts git a b)"
    by (rule ext) (simp add: has_merge_conflicts_by_sha_def run_merge_tree_def memoized_def split: option.split)
  moreover have "yields (good_for git a b) (merge_conflicts git a b) (pure_conflicts git a b)"
    using merge_conflicts_yields[OF assms] by (simp add: yields_good_for assms)
  ultimately have "yields (good_for git a b) (has_merge_conflicts_by_sha git a b) (pure_conflicts git a b)"
    by (simp add: conflict_memo.memoized_yields)
  then show ?thesis by (simp add: yields_good_for assms)
qed

lemma tree_conflicts_yields:
  assumes "git_laws git" "commit_id git a" "commit_id git h" "separator_free t"
  shows "yields (good git) (has_merge_conflicts_by_tree_with_base_sha git a h t) (pure_tree_conflicts git a h t)"
proof -
  let ?compute = "qbind (qret (commit_tree git t h)) (merge_conflicts git a)"
  have eq: "has_merge_conflicts_by_tree_with_base_sha git a h t =
      memoized (\<lambda>s. cached_merge_conflicts a (composite_head h t) (disk s))
        (\<lambda>v s. s\<lparr>disk := put_merge_conflicts a (composite_head h t) v (disk s)\<rparr>) ?compute"
    by (rule ext, cases "commit_tree git t h")
      (simp_all add: has_merge_conflicts_by_tree_with_base_sha_def run_merge_tree_def memoized_def Let_def
        qbind_def qret_def split: option.split)
  have "yields (good git) ?compute (pure_tree_conflicts git a h t)"
    unfolding pure_tree_conflicts_def
  proof (intro yields_bind yields_ret merge_conflicts_yields assms)
    show "commit_id git c" if "commit_tree git t h = Inr c" for c
      using assms(1) that unfolding git_laws_def prints_ids_def by blast
  qed
  then have "yields (\<lambda>s. good_for git a h s \<and> separator_free t)
      (has_merge_conflicts_by_tree_with_base_sha git a h t) (pure_tree_conflicts git a h t)"
    unfolding eq by (intro tree_conflict_memo.memoized_yields) (simp add: yields_def good_for_def assms)
  then show ?thesis by (simp add: yields_def good_for_def assms)
qed

lemma would_merge_add_yields:
  "yields (good git) (would_merge_add_to_target git b t) (pure_would_merge_add git b t)"
  unfolding would_merge_add_to_target_def pure_would_merge_add_def
  by (intro yields_bind merge_tree_outcome_yields)
    (auto intro!: yields_ret yields_bind commit_to_tree_yields split: merge_tree_outcome.split)

lemma squash_merged_yields:
  assumes "commit_id git b" "commit_id git t"
  shows "yields (good git) (is_squash_merged_via_patch_id git b t) (pure_squash_merged git b t)"
  unfolding is_squash_merged_via_patch_id_def pure_squash_merged_def
  by (intro yields_bind merge_base_yields assms) (auto intro!: yields_ret split: option.split)

lemma probe_yields:
  assumes "commit_id git b" "commit_id git t"
  shows "yields (good git) (merge_integration_probe_by_sha git b t) (pure_probe git b t)"
proof -
  let ?no = "\<lparr>would_merge_add = True, is_patch_id_match = False\<rparr>"
  let ?fallback = "qbind (q_or_false (is_squash_merged_via_patch_id git b t)) (\<lambda>matched.
      qret (Inr \<lparr>would_merge_add = True, is_patch_id_match = matched\<rparr>))"
  have fallback: "yields (good git) ?fallback
      (Inr \<lparr>would_merge_add = True, is_patch_id_match = unwrap_or False (pure_squash_merged git b t)\<rparr>)"
    using yields_bind[OF yields_or_false[OF squash_merged_yields[OF assms]] yields_ret] by simp
  have "yields (good_for git b t) (merge_integration_probe_by_sha git b t) (pure_probe git b t)"
    unfolding merge_integration_probe_by_sha_def disk_cached_memoized
  proof (rule probe_memo.memoized_yields)
    have "yields (good git) (qbind (merge_base git t b) (\<lambda>mb.
        if mb = None then qret (Inr ?no)
        else qbind (would_merge_add_to_target git b t) (\<lambda>r.
          case r of Some w \<Rightarrow> qret (Inr \<lparr>would_merge_add = w, is_patch_id_match = False\<rparr>) | None \<Rightarrow> ?fallback)))
        (pure_probe git b t)"
      unfolding pure_probe_def
      by (intro yields_bind merge_base_yields assms)
        (auto intro!: yields_ret yields_bind would_merge_add_yields fallback split: option.split)
    then show "yields (good_for git b t) (qbind (merge_base git t b) (\<lambda>mb.
        if mb = None then qret (Inr ?no)
        else qbind (would_merge_add_to_target git b t) (\<lambda>r.
          case r of Some w \<Rightarrow> qret (Inr \<lparr>would_merge_add = w, is_patch_id_match = False\<rparr>) | None \<Rightarrow> ?fallback)))
        (pure_probe git b t)"
      by (simp add: yields_good_for assms)
  qed
  then show ?thesis by (simp add: yields_good_for assms)
qed

subsection \<open>The verdict without caches\<close>

definition pure_lazy_by_sha :: "git \<Rightarrow> string \<Rightarrow> string \<Rightarrow> git_error + integration_signals" where
  "pure_lazy_by_sha git b t =
     (let s1 = default_signals\<lparr>is_same_commit := Some (b = t)\<rparr> in
      if b = t then Inr s1
      else rbind (is_ancestor_command git b t) (\<lambda>anc.
        let s2 = s1\<lparr>sig_is_ancestor := Some anc\<rparr> in
        if anc then Inr s2
        else rbind (pure_has_added_changes git b t) (\<lambda>added.
          let s3 = s2\<lparr>has_added_changes := Some added\<rparr> in
          if \<not> added then Inr s3
          else rbind (pure_trees_match git b t) (\<lambda>trees.
            let s4 = s3\<lparr>trees_match := Some trees\<rparr> in
            if trees then Inr s4
            else rbind (pure_probe git b t) (\<lambda>p.
              let s5 = s4\<lparr>sig_would_merge_add := Some (would_merge_add p)\<rparr> in
              if \<not> would_merge_add p then Inr s5
              else Inr (s5\<lparr>sig_is_patch_id_match := Some (is_patch_id_match p)\<rparr>))))))"

lemma lazy_by_sha_yields:
  assumes "commit_id git b" "commit_id git t"
  shows "yields (good git) (integration_lazy_by_sha git b t) (pure_lazy_by_sha git b t)"
  unfolding integration_lazy_by_sha_def pure_lazy_by_sha_def Let_def
  by (auto intro!: yields_ret yields_bind is_ancestor_yields has_added_changes_yields trees_match_yields
      probe_yields assms)

definition snap_ids :: "git \<Rightarrow> ref_snapshot \<Rightarrow> bool" where
  "snap_ids git snap \<longleftrightarrow> (\<forall>n s. snap_resolve snap n = Some s \<longrightarrow> commit_id git s)"

lemma snapshot_resolve_id:
  "git_laws git \<Longrightarrow> snap_ids git snap \<Longrightarrow> snapshot_resolve git snap n = Inr s \<Longrightarrow> commit_id git s"
  by (auto simp: snapshot_resolve_def snap_ids_def git_laws_def prints_ids_def split: option.splits)

definition pure_lazy :: "git \<Rightarrow> ref_snapshot \<Rightarrow> string \<Rightarrow> string \<Rightarrow> git_error + integration_signals" where
  "pure_lazy git snap branch tgt =
     rbind (snapshot_resolve git snap branch) (\<lambda>b.
     rbind (snapshot_resolve git snap tgt) (\<lambda>t. pure_lazy_by_sha git b t))"

lemma lazy_yields:
  assumes "git_laws git" "snap_ids git snap"
  shows "yields (good git) (compute_integration_lazy git snap b t) (pure_lazy git snap b t)"
  unfolding compute_integration_lazy_def pure_lazy_def
  by (intro yields_bind yields_ret lazy_by_sha_yields snapshot_resolve_id[OF assms])

definition pure_relate :: "git \<Rightarrow> ref_snapshot \<Rightarrow> string \<Rightarrow> string option \<Rightarrow> git_error + checks" where
  "pure_relate git snap tsha upstream =
     (case upstream of
        None \<Rightarrow> Inr (Local_Then None)
      | Some u \<Rightarrow>
          rbind (snapshot_resolve git snap u) (\<lambda>usha.
          if tsha = usha then Inr (Local_Then None)
          else rbind (is_ancestor_command git tsha usha) (\<lambda>behind.
            if behind then Inr (Upstream_Only u)
            else rbind (is_ancestor_command git usha tsha) (\<lambda>ahead.
              if ahead then Inr (Local_Then None) else Inr (Local_Then (Some u))))))"

lemma relate_yields:
  assumes "git_laws git" "snap_ids git snap" "commit_id git tsha"
  shows "yields (good git) (relate_upstream git snap tsha upstream) (pure_relate git snap tsha upstream)"
proof (cases upstream)
  case (Some u)
  have u: "commit_id git x" if "snapshot_resolve git snap u = Inr x" for x
    using assms(1,2) that by (rule snapshot_resolve_id)
  show ?thesis unfolding relate_upstream_def pure_relate_def Some option.case
    by (auto intro!: yields_ret yields_bind is_ancestor_yields assms(3) u)
qed (simp add: relate_upstream_def pure_relate_def yields_ret)

definition pure_reason ::
  "git \<Rightarrow> ref_snapshot \<Rightarrow> (string \<Rightarrow> git_error + string option) \<Rightarrow> string \<Rightarrow> string
   \<Rightarrow> git_error + string \<times> integration_reason option" where
  "pure_reason git snap live branch tgt =
     rbind (snapshot_resolve git snap tgt) (\<lambda>tsha.
     rbind (pure_relate git snap tsha (resolved_upstream snap live tgt)) (\<lambda>c.
       case c of
         Upstream_Only u \<Rightarrow> rbind (pure_lazy git snap branch u) (\<lambda>sig. Inr (u, check_integration sig))
       | Local_Then fallback \<Rightarrow>
           rbind (pure_lazy git snap branch tgt) (\<lambda>sig.
             case check_integration sig of
               Some r \<Rightarrow> Inr (tgt, Some r)
             | None \<Rightarrow>
                 (case fallback of
                    None \<Rightarrow> Inr (tgt, None)
                  | Some u \<Rightarrow>
                      rbind (pure_lazy git snap branch u) (\<lambda>sig.
                        case check_integration sig of
                          Some r \<Rightarrow> Inr (u, Some r)
                        | None \<Rightarrow> Inr (tgt, None))))))"

lemma reason_yields:
  assumes "git_laws git" "snap_ids git snap"
  shows "yields (good git) (branch_integration_reason git snap live b t) (pure_reason git snap live b t)"
  unfolding branch_integration_reason_def pure_reason_def Let_def
  by (auto intro!: yields_ret yields_bind relate_yields assms lazy_yields
      intro: snapshot_resolve_id[OF assms] split: checks.split option.split)

end
