(* ===== verification/Interaction.thy ===== *)
theory Interaction
  imports Git_Command Git_Refs
begin

text \<open>
  Programs that interact with a world other processes change while they run: git commands, the file
  system, the clock, locks. A program is a tree of requests, one constructor per primitive the code
  calls, each with the continuation from its answer; the world is not modelled, it may answer anything at any
  moment. \<open>runs p tr x\<close> says that \<open>p\<close> performs the requests of \<open>tr\<close>, is given the answers
  recorded there, and returns \<open>x\<close>. A property of all \<open>runs\<close> thus holds against every
  interleaving with other processes. \<open>replay\<close> is its executable form.
\<close>

section \<open>Requests and runs\<close>

named_theorems runs
named_theorems act_simps

text \<open>
  \<open>Git\<close>: a git command run in a directory; \<open>Metadata\<close> and \<open>Exists\<close> follow symbolic links, \<open>Lstat\<close> does
  not; \<open>Read_Dir\<close> gives the names of the readable entries, each with its own file type; \<open>Delete_Tree\<close> says whether the path is gone afterwards;
  \<open>Worktrees\<close> is \<open>list_worktrees\<close> through a new repository handle (no cache); \<open>Reap_Daemon\<close> is
  \<open>force_kill_fsmonitor_via_socket\<close>; \<open>Ask\<close> shows a prompt and reads a line from standard input (\<open>None\<close> at its
  end or on an error), \<open>Terminal\<close> is whether standard input is a terminal; \<open>Run_Tool\<close> runs another program
  (\<open>None\<close> when it cannot be run or times out); \<open>Clock\<close> is the time in the unit the caller reads it in;
  \<open>Shell\<close> runs a shell command in the foreground; \<open>Spawn\<close> starts one, \<open>Drain\<close> reads the output of the
  started ones until all have ended, \<open>Wait_Child\<close> and \<open>Kill_Child\<close> are for one of them; \<open>Open_Log\<close> creates a log under
  a directory, \<open>Spawn_Detached\<close> starts the program itself with arguments, a log and text for its input; the
  answer \<open>Some\<close> of these and of \<open>Write_File\<close> is an error; \<open>Rename_New\<close> is a rename that never replaces an existing
  path, \<open>Remove_Dir\<close> removes an empty directory; \<open>Say\<close> writes to standard error, \<open>Print\<close> to standard output;
  \<open>Pipe_Tool\<close> runs a shell command in a directory with text on its input and captures its output.
\<close>

datatype file_kind = Is_Dir | Is_File | Is_Other

datatype presence = Present | Absent | Unknown string

datatype read_error = Not_Found | Read_Failed string

datatype lock_attempt = Lock_Held | Would_Block | Lock_Failed string

datatype stdin_policy = Inherit_Stdin | Hand_Off | Closed_Stdin

record shell_call =
  sh_dir :: string
  sh_command :: string
  sh_label :: "string option"
  sh_stdin :: stdin_policy
  sh_merge_stdout :: bool
  sh_scrub :: bool
  sh_cd_file :: "string option"

text \<open>\<open>Shell_Exited\<close> is a status that is not success: code, signal, the interrupt observed meanwhile.\<close>

datatype shell_result = Shell_Ok | Shell_Exited int "int option" "int option" | Shell_Cancelled int | Shell_Failed string

text \<open>The outcome of a rename that must not replace anything.\<close>

datatype rename_outcome = Rename_Done | Name_Taken | Rename_Failed string

datatype 'a io =
    Ret 'a
  | Git string "string list" "string + cmd_output \<Rightarrow> 'a io"
  | Canonicalize string "string option \<Rightarrow> 'a io"
  | Exists string "bool \<Rightarrow> 'a io"
  | Metadata string "file_kind option \<Rightarrow> 'a io"
  | Lstat string "presence \<Rightarrow> 'a io"
  | Read_File string "read_error + string \<Rightarrow> 'a io"
  | Read_Dir string "(string \<times> file_kind option) list option \<Rightarrow> 'a io"
  | Create_Dirs string "bool \<Rightarrow> 'a io"
  | Read_Link string "string option \<Rightarrow> 'a io"
  | Rename string string "bool \<Rightarrow> 'a io"
  | Delete_Tree string "bool \<Rightarrow> 'a io"
  | Clock "nat \<Rightarrow> 'a io"
  | Acquire string "'a io"
  | Release string "'a io"
  | Try_Lock string "lock_attempt \<Rightarrow> 'a io"
  | Worktrees string "string + worktree_info list \<Rightarrow> 'a io"
  | Reap_Daemon string "'a io"
  | Say string "'a io"
  | Terminal "bool \<Rightarrow> 'a io"
  | Ask string "string option \<Rightarrow> 'a io"
  | Run_Tool "string list" "cmd_output option \<Rightarrow> 'a io"
  | Terminate nat "'a io"
  | Kill nat "'a io"
  | Alive nat "bool \<Rightarrow> 'a io"
  | Sleep nat "'a io"
  | Shell shell_call "shell_result \<Rightarrow> 'a io"
  | Spawn shell_call "shell_result + nat \<Rightarrow> 'a io"
  | Drain "nat list" "shell_result + shell_result list \<Rightarrow> 'a io"
  | Wait_Child nat "string + int option \<times> int option \<Rightarrow> 'a io"
  | Kill_Child nat "'a io"
  | Open_Log string string "string option \<Rightarrow> 'a io"
  | Spawn_Detached string "string list" string string "string option \<Rightarrow> 'a io"
  | Write_File string string "string option \<Rightarrow> 'a io"
  | Rename_New string string "rename_outcome \<Rightarrow> 'a io"
  | Remove_Dir string "bool \<Rightarrow> 'a io"
  | Print string "'a io"
  | Pipe_Tool string string string "string + cmd_output \<Rightarrow> 'a io"

datatype event =
    Ran string "string list" "string + cmd_output"
  | Canonicalized string "string option"
  | Existed string bool
  | Examined string "file_kind option"
  | Probed string presence
  | File_Read string "read_error + string"
  | Listed string "(string \<times> file_kind option) list option"
  | Dirs_Created string bool
  | Link_Read string "string option"
  | Renamed string string bool
  | Tree_Deleted string bool
  | Time_Read nat
  | Acquired string
  | Released string
  | Lock_Tried string lock_attempt
  | Worktrees_Listed string "string + worktree_info list"
  | Daemon_Reaped string
  | Said string
  | Terminal_Checked bool
  | Asked string "string option"
  | Tool_Run "string list" "cmd_output option"
  | Terminated nat
  | Killed nat
  | Alive_Checked nat bool
  | Slept nat
  | Shell_Ran shell_call shell_result
  | Spawned shell_call "shell_result + nat"
  | Drained "nat list" "shell_result + shell_result list"
  | Child_Waited nat "string + int option \<times> int option"
  | Child_Killed nat
  | Log_Opened string string "string option"
  | Detached string "string list" string string "string option"
  | File_Written string string "string option"
  | Renamed_New string string rename_outcome
  | Dir_Removed string bool
  | Printed string
  | Tool_Piped string string string "string + cmd_output"

primrec io_bind :: "'a io \<Rightarrow> ('a \<Rightarrow> 'b io) \<Rightarrow> 'b io" where
  "io_bind (Ret x) f = f x"
| "io_bind (Git a b k) f = Git a b (\<lambda>r. io_bind (k r) f)"
| "io_bind (Canonicalize a k) f = Canonicalize a (\<lambda>r. io_bind (k r) f)"
| "io_bind (Exists a k) f = Exists a (\<lambda>r. io_bind (k r) f)"
| "io_bind (Metadata a k) f = Metadata a (\<lambda>r. io_bind (k r) f)"
| "io_bind (Lstat a k) f = Lstat a (\<lambda>r. io_bind (k r) f)"
| "io_bind (Read_File a k) f = Read_File a (\<lambda>r. io_bind (k r) f)"
| "io_bind (Read_Dir a k) f = Read_Dir a (\<lambda>r. io_bind (k r) f)"
| "io_bind (Create_Dirs a k) f = Create_Dirs a (\<lambda>r. io_bind (k r) f)"
| "io_bind (Read_Link a k) f = Read_Link a (\<lambda>r. io_bind (k r) f)"
| "io_bind (Rename a b k) f = Rename a b (\<lambda>r. io_bind (k r) f)"
| "io_bind (Delete_Tree a k) f = Delete_Tree a (\<lambda>r. io_bind (k r) f)"
| "io_bind (Clock k) f = Clock (\<lambda>r. io_bind (k r) f)"
| "io_bind (Acquire a k) f = Acquire a (io_bind k f)"
| "io_bind (Release a k) f = Release a (io_bind k f)"
| "io_bind (Try_Lock a k) f = Try_Lock a (\<lambda>r. io_bind (k r) f)"
| "io_bind (Worktrees a k) f = Worktrees a (\<lambda>r. io_bind (k r) f)"
| "io_bind (Reap_Daemon a k) f = Reap_Daemon a (io_bind k f)"
| "io_bind (Say a k) f = Say a (io_bind k f)"
| "io_bind (Terminal k) f = Terminal (\<lambda>r. io_bind (k r) f)"
| "io_bind (Ask a k) f = Ask a (\<lambda>r. io_bind (k r) f)"
| "io_bind (Run_Tool a k) f = Run_Tool a (\<lambda>r. io_bind (k r) f)"
| "io_bind (Terminate a k) f = Terminate a (io_bind k f)"
| "io_bind (Kill a k) f = Kill a (io_bind k f)"
| "io_bind (Alive a k) f = Alive a (\<lambda>r. io_bind (k r) f)"
| "io_bind (Sleep a k) f = Sleep a (io_bind k f)"
| "io_bind (Shell a k) f = Shell a (\<lambda>r. io_bind (k r) f)"
| "io_bind (Spawn a k) f = Spawn a (\<lambda>r. io_bind (k r) f)"
| "io_bind (Drain a k) f = Drain a (\<lambda>r. io_bind (k r) f)"
| "io_bind (Wait_Child a k) f = Wait_Child a (\<lambda>r. io_bind (k r) f)"
| "io_bind (Kill_Child a k) f = Kill_Child a (io_bind k f)"
| "io_bind (Open_Log a b k) f = Open_Log a b (\<lambda>r. io_bind (k r) f)"
| "io_bind (Spawn_Detached a b c d k) f = Spawn_Detached a b c d (\<lambda>r. io_bind (k r) f)"
| "io_bind (Write_File a b k) f = Write_File a b (\<lambda>r. io_bind (k r) f)"
| "io_bind (Rename_New a b k) f = Rename_New a b (\<lambda>r. io_bind (k r) f)"
| "io_bind (Remove_Dir a k) f = Remove_Dir a (\<lambda>r. io_bind (k r) f)"
| "io_bind (Print a k) f = Print a (io_bind k f)"
| "io_bind (Pipe_Tool a b c k) f = Pipe_Tool a b c (\<lambda>r. io_bind (k r) f)"

inductive runs :: "'a io \<Rightarrow> event list \<Rightarrow> 'a \<Rightarrow> bool" where
  runs_Ret: "runs (Ret x) [] x"
| runs_Git: "runs (k r) tr x \<Longrightarrow> runs (Git a b k) (Ran a b r # tr) x"
| runs_Canonicalize: "runs (k r) tr x \<Longrightarrow> runs (Canonicalize a k) (Canonicalized a r # tr) x"
| runs_Exists: "runs (k r) tr x \<Longrightarrow> runs (Exists a k) (Existed a r # tr) x"
| runs_Metadata: "runs (k r) tr x \<Longrightarrow> runs (Metadata a k) (Examined a r # tr) x"
| runs_Lstat: "runs (k r) tr x \<Longrightarrow> runs (Lstat a k) (Probed a r # tr) x"
| runs_Read_File: "runs (k r) tr x \<Longrightarrow> runs (Read_File a k) (File_Read a r # tr) x"
| runs_Read_Dir: "runs (k r) tr x \<Longrightarrow> runs (Read_Dir a k) (Listed a r # tr) x"
| runs_Create_Dirs: "runs (k r) tr x \<Longrightarrow> runs (Create_Dirs a k) (Dirs_Created a r # tr) x"
| runs_Read_Link: "runs (k r) tr x \<Longrightarrow> runs (Read_Link a k) (Link_Read a r # tr) x"
| runs_Rename: "runs (k r) tr x \<Longrightarrow> runs (Rename a b k) (Renamed a b r # tr) x"
| runs_Delete_Tree: "runs (k r) tr x \<Longrightarrow> runs (Delete_Tree a k) (Tree_Deleted a r # tr) x"
| runs_Clock: "runs (k r) tr x \<Longrightarrow> runs (Clock k) (Time_Read r # tr) x"
| runs_Acquire: "runs k tr x \<Longrightarrow> runs (Acquire a k) (Acquired a # tr) x"
| runs_Release: "runs k tr x \<Longrightarrow> runs (Release a k) (Released a # tr) x"
| runs_Try_Lock: "runs (k r) tr x \<Longrightarrow> runs (Try_Lock a k) (Lock_Tried a r # tr) x"
| runs_Worktrees: "runs (k r) tr x \<Longrightarrow> runs (Worktrees a k) (Worktrees_Listed a r # tr) x"
| runs_Reap_Daemon: "runs k tr x \<Longrightarrow> runs (Reap_Daemon a k) (Daemon_Reaped a # tr) x"
| runs_Say: "runs k tr x \<Longrightarrow> runs (Say a k) (Said a # tr) x"
| runs_Terminal: "runs (k r) tr x \<Longrightarrow> runs (Terminal k) (Terminal_Checked r # tr) x"
| runs_Ask: "runs (k r) tr x \<Longrightarrow> runs (Ask a k) (Asked a r # tr) x"
| runs_Run_Tool: "runs (k r) tr x \<Longrightarrow> runs (Run_Tool a k) (Tool_Run a r # tr) x"
| runs_Terminate: "runs k tr x \<Longrightarrow> runs (Terminate a k) (Terminated a # tr) x"
| runs_Kill: "runs k tr x \<Longrightarrow> runs (Kill a k) (Killed a # tr) x"
| runs_Alive: "runs (k r) tr x \<Longrightarrow> runs (Alive a k) (Alive_Checked a r # tr) x"
| runs_Sleep: "runs k tr x \<Longrightarrow> runs (Sleep a k) (Slept a # tr) x"
| runs_Shell: "runs (k r) tr x \<Longrightarrow> runs (Shell a k) (Shell_Ran a r # tr) x"
| runs_Spawn: "runs (k r) tr x \<Longrightarrow> runs (Spawn a k) (Spawned a r # tr) x"
| runs_Drain: "runs (k r) tr x \<Longrightarrow> runs (Drain a k) (Drained a r # tr) x"
| runs_Wait_Child: "runs (k r) tr x \<Longrightarrow> runs (Wait_Child a k) (Child_Waited a r # tr) x"
| runs_Kill_Child: "runs k tr x \<Longrightarrow> runs (Kill_Child a k) (Child_Killed a # tr) x"
| runs_Open_Log: "runs (k r) tr x \<Longrightarrow> runs (Open_Log a b k) (Log_Opened a b r # tr) x"
| runs_Spawn_Detached: "runs (k r) tr x \<Longrightarrow> runs (Spawn_Detached a b c d k) (Detached a b c d r # tr) x"
| runs_Write_File: "runs (k r) tr x \<Longrightarrow> runs (Write_File a b k) (File_Written a b r # tr) x"
| runs_Rename_New: "runs (k r) tr x \<Longrightarrow> runs (Rename_New a b k) (Renamed_New a b r # tr) x"
| runs_Remove_Dir: "runs (k r) tr x \<Longrightarrow> runs (Remove_Dir a k) (Dir_Removed a r # tr) x"
| runs_Print: "runs k tr x \<Longrightarrow> runs (Print a k) (Printed a # tr) x"
| runs_Pipe_Tool: "runs (k r) tr x \<Longrightarrow> runs (Pipe_Tool a b c k) (Tool_Piped a b c r # tr) x"

inductive_simps runs_simps [simp, runs]:
  "runs (Ret x) tr y"
  "runs (Git a b k) tr y"
  "runs (Canonicalize a k) tr y"
  "runs (Exists a k) tr y"
  "runs (Metadata a k) tr y"
  "runs (Lstat a k) tr y"
  "runs (Read_File a k) tr y"
  "runs (Read_Dir a k) tr y"
  "runs (Create_Dirs a k) tr y"
  "runs (Read_Link a k) tr y"
  "runs (Rename a b k) tr y"
  "runs (Delete_Tree a k) tr y"
  "runs (Clock k) tr y"
  "runs (Acquire a k) tr y"
  "runs (Release a k) tr y"
  "runs (Try_Lock a k) tr y"
  "runs (Worktrees a k) tr y"
  "runs (Reap_Daemon a k) tr y"
  "runs (Say a k) tr y"
  "runs (Terminal k) tr y"
  "runs (Ask a k) tr y"
  "runs (Run_Tool a k) tr y"
  "runs (Terminate a k) tr y"
  "runs (Kill a k) tr y"
  "runs (Alive a k) tr y"
  "runs (Sleep a k) tr y"
  "runs (Shell a k) tr y"
  "runs (Spawn a k) tr y"
  "runs (Drain a k) tr y"
  "runs (Wait_Child a k) tr y"
  "runs (Kill_Child a k) tr y"
  "runs (Open_Log a b k) tr y"
  "runs (Spawn_Detached a b c d k) tr y"
  "runs (Write_File a b k) tr y"
  "runs (Rename_New a b k) tr y"
  "runs (Remove_Dir a k) tr y"
  "runs (Print a k) tr y"
  "runs (Pipe_Tool a b c k) tr y"

primrec replay :: "'a io \<Rightarrow> event list \<Rightarrow> 'a option" where
  "replay (Ret x) tr = (if tr = [] then Some x else None)"
| "replay (Git a b k) tr = (case tr of Ran a' b' r # tr' \<Rightarrow> if a' = a \<and> b' = b then replay (k r) tr' else None | _ \<Rightarrow> None)"
| "replay (Canonicalize a k) tr = (case tr of Canonicalized a' r # tr' \<Rightarrow> if a' = a then replay (k r) tr' else None | _ \<Rightarrow> None)"
| "replay (Exists a k) tr = (case tr of Existed a' r # tr' \<Rightarrow> if a' = a then replay (k r) tr' else None | _ \<Rightarrow> None)"
| "replay (Metadata a k) tr = (case tr of Examined a' r # tr' \<Rightarrow> if a' = a then replay (k r) tr' else None | _ \<Rightarrow> None)"
| "replay (Lstat a k) tr = (case tr of Probed a' r # tr' \<Rightarrow> if a' = a then replay (k r) tr' else None | _ \<Rightarrow> None)"
| "replay (Read_File a k) tr = (case tr of File_Read a' r # tr' \<Rightarrow> if a' = a then replay (k r) tr' else None | _ \<Rightarrow> None)"
| "replay (Read_Dir a k) tr = (case tr of Listed a' r # tr' \<Rightarrow> if a' = a then replay (k r) tr' else None | _ \<Rightarrow> None)"
| "replay (Create_Dirs a k) tr = (case tr of Dirs_Created a' r # tr' \<Rightarrow> if a' = a then replay (k r) tr' else None | _ \<Rightarrow> None)"
| "replay (Read_Link a k) tr = (case tr of Link_Read a' r # tr' \<Rightarrow> if a' = a then replay (k r) tr' else None | _ \<Rightarrow> None)"
| "replay (Rename a b k) tr = (case tr of Renamed a' b' r # tr' \<Rightarrow> if a' = a \<and> b' = b then replay (k r) tr' else None | _ \<Rightarrow> None)"
| "replay (Delete_Tree a k) tr = (case tr of Tree_Deleted a' r # tr' \<Rightarrow> if a' = a then replay (k r) tr' else None | _ \<Rightarrow> None)"
| "replay (Clock k) tr = (case tr of Time_Read r # tr' \<Rightarrow> replay (k r) tr' | _ \<Rightarrow> None)"
| "replay (Acquire a k) tr = (case tr of Acquired a' # tr' \<Rightarrow> if a' = a then replay k tr' else None | _ \<Rightarrow> None)"
| "replay (Release a k) tr = (case tr of Released a' # tr' \<Rightarrow> if a' = a then replay k tr' else None | _ \<Rightarrow> None)"
| "replay (Try_Lock a k) tr = (case tr of Lock_Tried a' r # tr' \<Rightarrow> if a' = a then replay (k r) tr' else None | _ \<Rightarrow> None)"
| "replay (Worktrees a k) tr = (case tr of Worktrees_Listed a' r # tr' \<Rightarrow> if a' = a then replay (k r) tr' else None | _ \<Rightarrow> None)"
| "replay (Reap_Daemon a k) tr = (case tr of Daemon_Reaped a' # tr' \<Rightarrow> if a' = a then replay k tr' else None | _ \<Rightarrow> None)"
| "replay (Say a k) tr = (case tr of Said a' # tr' \<Rightarrow> if a' = a then replay k tr' else None | _ \<Rightarrow> None)"
| "replay (Terminal k) tr = (case tr of Terminal_Checked r # tr' \<Rightarrow> replay (k r) tr' | _ \<Rightarrow> None)"
| "replay (Ask a k) tr = (case tr of Asked a' r # tr' \<Rightarrow> if a' = a then replay (k r) tr' else None | _ \<Rightarrow> None)"
| "replay (Run_Tool a k) tr = (case tr of Tool_Run a' r # tr' \<Rightarrow> if a' = a then replay (k r) tr' else None | _ \<Rightarrow> None)"
| "replay (Terminate a k) tr = (case tr of Terminated a' # tr' \<Rightarrow> if a' = a then replay k tr' else None | _ \<Rightarrow> None)"
| "replay (Kill a k) tr = (case tr of Killed a' # tr' \<Rightarrow> if a' = a then replay k tr' else None | _ \<Rightarrow> None)"
| "replay (Alive a k) tr = (case tr of Alive_Checked a' r # tr' \<Rightarrow> if a' = a then replay (k r) tr' else None | _ \<Rightarrow> None)"
| "replay (Sleep a k) tr = (case tr of Slept a' # tr' \<Rightarrow> if a' = a then replay k tr' else None | _ \<Rightarrow> None)"
| "replay (Shell a k) tr = (case tr of Shell_Ran a' r # tr' \<Rightarrow> if a' = a then replay (k r) tr' else None | _ \<Rightarrow> None)"
| "replay (Spawn a k) tr = (case tr of Spawned a' r # tr' \<Rightarrow> if a' = a then replay (k r) tr' else None | _ \<Rightarrow> None)"
| "replay (Drain a k) tr = (case tr of Drained a' r # tr' \<Rightarrow> if a' = a then replay (k r) tr' else None | _ \<Rightarrow> None)"
| "replay (Wait_Child a k) tr = (case tr of Child_Waited a' r # tr' \<Rightarrow> if a' = a then replay (k r) tr' else None | _ \<Rightarrow> None)"
| "replay (Kill_Child a k) tr = (case tr of Child_Killed a' # tr' \<Rightarrow> if a' = a then replay k tr' else None | _ \<Rightarrow> None)"
| "replay (Open_Log a b k) tr = (case tr of Log_Opened a' b' r # tr' \<Rightarrow> if a' = a \<and> b' = b then replay (k r) tr' else None | _ \<Rightarrow> None)"
| "replay (Spawn_Detached a b c d k) tr = (case tr of Detached a' b' c' d' r # tr' \<Rightarrow> if a' = a \<and> b' = b \<and> c' = c \<and> d' = d then replay (k r) tr' else None | _ \<Rightarrow> None)"
| "replay (Write_File a b k) tr = (case tr of File_Written a' b' r # tr' \<Rightarrow> if a' = a \<and> b' = b then replay (k r) tr' else None | _ \<Rightarrow> None)"
| "replay (Rename_New a b k) tr = (case tr of Renamed_New a' b' r # tr' \<Rightarrow> if a' = a \<and> b' = b then replay (k r) tr' else None | _ \<Rightarrow> None)"
| "replay (Remove_Dir a k) tr = (case tr of Dir_Removed a' r # tr' \<Rightarrow> if a' = a then replay (k r) tr' else None | _ \<Rightarrow> None)"
| "replay (Print a k) tr = (case tr of Printed a' # tr' \<Rightarrow> if a' = a then replay k tr' else None | _ \<Rightarrow> None)"
| "replay (Pipe_Tool a b c k) tr = (case tr of Tool_Piped a' b' c' r # tr' \<Rightarrow> if a' = a \<and> b' = b \<and> c' = c then replay (k r) tr' else None | _ \<Rightarrow> None)"

text \<open>\<open>runs\<close> and \<open>replay\<close> describe the same relation, so a run is checked by evaluation.\<close>

lemma runs_replay: "runs p tr x \<longleftrightarrow> replay p tr = Some x"
proof
  show "runs p tr x \<Longrightarrow> replay p tr = Some x"
    by (induction rule: runs.induct) simp_all
  show "replay p tr = Some x \<Longrightarrow> runs p tr x"
    by (induction p arbitrary: tr)
       (auto split: if_splits list.splits event.splits)
qed

lemma runs_bind [runs]:
  "runs (io_bind p f) tr y \<longleftrightarrow> (\<exists>x tr1 tr2. tr = tr1 @ tr2 \<and> runs p tr1 x \<and> runs (f x) tr2 y)"
proof (induction p arbitrary: tr)
  case (Ret x)
  then show ?case by auto
qed (simp_all, (metis append_Cons)+)

lemma io_bindE:
  assumes "runs (io_bind p f) tr y"
  obtains x tr1 tr2 where "tr = tr1 @ tr2" "runs p tr1 x" "runs (f x) tr2 y"
  using assms by (auto simp: runs_bind)

lemma runs_deterministic: "runs p tr x \<Longrightarrow> runs p tr y \<Longrightarrow> x = y"
  by (simp add: runs_replay)

text \<open>A program whose answer the caller drops.\<close>

lemma io_bind_Ret [simp]: "io_bind p Ret = p"
  by (induction p) simp_all

lemma io_bind_assoc: "io_bind (io_bind p f) g = io_bind p (\<lambda>x. io_bind (f x) g)"
  by (induction p) simp_all

lemmas runs_intros = runs.intros

lemma runs_result: "map_option snd (replay p tr) = Some r \<Longrightarrow> \<exists>s1. runs p tr (s1, r)"
  by (auto simp: runs_replay)

end
