(* ===== verification/Path_Resolution.thy ===== *)
theory Path_Resolution
  imports Interaction
begin

text \<open>
  Paths: the lexical operations of \<open>std::path\<close> on byte strings, the resolution of a path whose end
  does not exist (\<open>src/path.rs\<close>), the decoding of paths git prints or writes (\<open>src/git/mod.rs\<close>) and the
  two directions of the link between a worktree and its registration: \<open>git_dir_at\<close>
  (\<open>src/git/repository/mod.rs\<close>) reads the \<open>.git\<close> entry of a directory, \<open>registration_worktree_path\<close>
  (\<open>src/git/repository/working_tree.rs\<close>) the \<open>gitdir\<close> file of a registration. Unix paths only.
\<close>

section \<open>Components\<close>

text \<open>
  A path is absolute or not and has components; repeated and trailing separators and inner \<open>.\<close>
  do not count. \<open>Path\<close>s are compared by these, and \<open>parent\<close> is given in the normal form they render to.
\<close>

definition is_absolute :: "string \<Rightarrow> bool" where
  "is_absolute p \<longleftrightarrow> starts_with p ''/''"

definition components :: "string \<Rightarrow> string list" where
  "components p =
     (let pieces = filter (\<lambda>c. c \<noteq> []) (split_on CHR ''/'' p)
      in case pieces of
           c # cs \<Rightarrow> (if c = ''.'' \<and> is_absolute p then [] else [c]) @ filter (\<lambda>c. c \<noteq> ''.'') cs
         | [] \<Rightarrow> [])"

definition render :: "bool \<Rightarrow> string list \<Rightarrow> string" where
  "render absolute cs = (if absolute then ''/'' else []) @ join ''/'' cs"

definition same_path :: "string \<Rightarrow> string \<Rightarrow> bool" where
  "same_path a b \<longleftrightarrow> is_absolute a = is_absolute b \<and> components a = components b"

definition normal_component :: "string \<Rightarrow> bool" where
  "normal_component c \<longleftrightarrow> c \<noteq> ''.'' \<and> c \<noteq> ''..''"

definition path_file_name :: "string \<Rightarrow> string option" where
  "path_file_name p =
     (case rev (components p) of
        c # _ \<Rightarrow> if normal_component c then Some c else None
      | [] \<Rightarrow> None)"

definition path_parent :: "string \<Rightarrow> string option" where
  "path_parent p =
     (if components p = [] then None else Some (render (is_absolute p) (butlast (components p))))"

definition path_join :: "string \<Rightarrow> string \<Rightarrow> string" where
  "path_join a b =
     (if is_absolute b then b
      else if a = [] \<or> ends_with a ''/'' then a @ b
      else a @ ''/'' @ b)"

definition path_starts_with :: "string \<Rightarrow> string \<Rightarrow> bool" where
  "path_starts_with p root \<longleftrightarrow>
     is_absolute p = is_absolute root \<and> take (length (components root)) (components p) = components root"

section \<open>Resolving a path whose end does not exist\<close>

text \<open>
  The loop of \<open>resolve_with_parents\<close>: the reversed components of the prefix still to test, the
  components already taken off it.
\<close>

fun resolve_prefix :: "string \<Rightarrow> bool \<Rightarrow> string list \<Rightarrow> string list \<Rightarrow> string io" where
  "resolve_prefix path absolute prefix suffix =
     (let existing = render absolute (rev prefix) in
      Exists existing (\<lambda>yes.
        if yes then
          Canonicalize existing (\<lambda>c.
            Ret (foldl path_join (case c of Some p \<Rightarrow> p | None \<Rightarrow> existing) suffix))
        else
          (case prefix of
             [] \<Rightarrow> Ret path
           | c # prefix' \<Rightarrow>
               if normal_component c then resolve_prefix path absolute prefix' (c # suffix)
               else Ret path)))"

declare resolve_prefix.simps [simp del]

definition resolve_with_parents :: "string \<Rightarrow> string io" where
  "resolve_with_parents path =
     Canonicalize path (\<lambda>c.
       case c of
         Some canonical \<Rightarrow> Ret canonical
       | None \<Rightarrow> resolve_prefix path (is_absolute path) (rev (components path)) [])"

definition canonicalize_with_parents :: "string \<Rightarrow> string io" where
  "canonicalize_with_parents path = resolve_with_parents path"

definition paths_match :: "string \<Rightarrow> string \<Rightarrow> bool io" where
  "paths_match a b =
     io_bind (canonicalize_with_parents a) (\<lambda>a'.
     io_bind (canonicalize_with_parents b) (\<lambda>b'.
     Ret (same_path a' b')))"

text \<open>Whichever way the world answers, resolution comes to an end after at most one test per component.\<close>

lemma resolve_prefix_terminates:
  "runs (resolve_prefix path absolute prefix suffix) tr r \<Longrightarrow> length tr \<le> Suc (Suc (length prefix))"
proof (induction prefix arbitrary: suffix tr)
  case Nil
  then show ?case by (subst (asm) resolve_prefix.simps) (auto simp: Let_def split: if_splits)
next
  case (Cons c prefix)
  from Cons.prems show ?case
    by (subst (asm) resolve_prefix.simps)
       (auto simp: Let_def split: if_splits dest!: Cons.IH)
qed

section \<open>Paths git prints or writes\<close>

definition git_path_from_output :: "string \<Rightarrow> string option" where
  "git_path_from_output bytes = strip_suffix bytes [CHR 0x0A]"

definition trim_line_ends :: "string \<Rightarrow> string" where
  "trim_line_ends s = rev (dropWhile (\<lambda>c. c = CHR 0x0A \<or> c = CHR 0x0D) (rev s))"

definition git_path_from_file :: "string \<Rightarrow> string option" where
  "git_path_from_file bytes = (let p = trim_line_ends bytes in if p = [] then None else Some p)"

section \<open>A worktree and its registration\<close>

definition git_dir_at :: "string \<Rightarrow> string option io" where
  "git_dir_at dir =
     (let dot_git = path_join dir ''.git'';
          resolve = (\<lambda>target. Canonicalize target (\<lambda>c.
            case c of
              None \<Rightarrow> Ret None
            | Some p \<Rightarrow> Metadata p (\<lambda>m. Ret (if m = Some Is_Dir then Some p else None))))
      in Metadata dot_git (\<lambda>m.
           case m of
             Some Is_Dir \<Rightarrow> resolve dot_git
           | Some Is_File \<Rightarrow>
               Read_File dot_git (\<lambda>content.
                 case content of
                   Inl _ \<Rightarrow> Ret None
                 | Inr bytes \<Rightarrow>
                     (case Option.bind (strip_prefix bytes ''gitdir: '') git_path_from_file of
                        None \<Rightarrow> Ret None
                      | Some p \<Rightarrow> resolve (if is_absolute p then p else path_join dir p)))
           | _ \<Rightarrow> Ret None))"

definition registration_worktree_path :: "string \<Rightarrow> string option io" where
  "registration_worktree_path registration =
     Read_File (path_join registration ''gitdir'') (\<lambda>content.
       case content of
         Inl _ \<Rightarrow> Ret None
       | Inr bytes \<Rightarrow>
           (case git_path_from_file bytes of
              None \<Rightarrow> Ret None
            | Some recorded \<Rightarrow>
                (let absolute = (if is_absolute recorded then recorded else path_join registration recorded);
                     checkout = (if path_file_name absolute = Some ''.git''
                                 then (case path_parent absolute of Some p \<Rightarrow> p | None \<Rightarrow> absolute)
                                 else absolute)
                 in io_bind (canonicalize_with_parents checkout) (\<lambda>p. Ret (Some p)))))"

end
