(* ===== verification/Actions.thy ===== *)
theory Actions
  imports Path_Resolution Integration
begin

text \<open>
  What the operations that change a repository share: the process-wide caches (\<open>GIT_DIRS\<close>,
  \<open>CURRENT_BRANCHES\<close> of \<open>src/git/repository/mod.rs\<close>) and the latch of the deletion coordinator as the
  state \<open>process\<close>, the errors of \<open>src/git/error.rs\<close> these operations raise with the signal an error
  chain carries, an action (an interaction that threads the process state and may fail), and the
  queries on one worktree (\<open>src/git/repository/working_tree.rs\<close>).
\<close>

section \<open>State and errors\<close>

record process =
  queries :: repo_state
  git_dirs :: "string \<Rightarrow> string option"
  current_branches :: "string \<Rightarrow> string option option"
  latch :: "int option"

record repo_env =
  common_dir :: string
  discovery_path :: string
  fsmonitor_enabled :: bool

datatype wt_error =
    Git_Failed git_error
  | Interrupted int
  | Worktree_Locked string string "string option"
  | Uncommitted_Changes string "string option" bool "string list"
  | Unmerged_Paths string "string list"
  | Worktree_Path_Not_Ours string "string option"
  | Worktree_Removal_Failed string string wt_error "string list option"
  | Branch_Deletion_Failed string "string option" wt_error
  | Detached_Head string "string option"
  | Branch_Not_Found string bool
  | Reference_Not_Found string
  | Worktree_Not_Found_At_Path string
  | Worktree_Not_Found string
  | Worktree_Selector_Not_Found string
  | Worktree_Missing string string
  | Invalid_Branch_Name string
  | Stale_Default_Branch string
  | Unborn_Default_Branch string
  | Operation_In_Progress string "string option"
  | Not_Fast_Forward string string bool
  | Conflicting_Changes string "string list" string
  | Push_Failed string wt_error
  | Not_Rebased string
  | Rebase_Conflict string string
  | Merge_Target_Diverged string string
  | Remote_Only_Branch string string
  | Stale_Worktree_Holds_Work string string bool "in_progress_operation option"
  | Cannot_Remove_Main_Worktree
  | Cannot_Remove_Default_Branch string
  | Branch_Already_Exists string
  | Worktree_Path_Occupied string string "string option"
  | Worktree_Path_Exists string string bool bool
  | Worktree_Creation_Failed string "string option" wt_error bool
  | Branch_Namespace_Conflict string string
  | With_Context string wt_error
  | Failed string

text \<open>\<open>ErrorExt::interrupt_signal\<close>: SIGINT is 2, SIGTERM 15.\<close>

definition cancels :: "int \<Rightarrow> bool" where
  "cancels sig \<longleftrightarrow> sig = 2 \<or> sig = 15"

fun interrupt_signal :: "wt_error \<Rightarrow> int option" where
  "interrupt_signal (Interrupted sig) = (if cancels sig then Some sig else None)"
| "interrupt_signal (Git_Failed (Command_Failed _ out)) =
     (case term_signal out of Some sig \<Rightarrow> if cancels sig then Some sig else None | None \<Rightarrow> None)"
| "interrupt_signal (Worktree_Removal_Failed _ _ e _) = interrupt_signal e"
| "interrupt_signal (Branch_Deletion_Failed _ _ e) = interrupt_signal e"
| "interrupt_signal (With_Context _ e) = interrupt_signal e"
| "interrupt_signal _ = None"

section \<open>Actions\<close>

type_synonym ('s, 'e, 'a) stateful = "'s \<Rightarrow> ('s \<times> ('e + 'a)) io"

type_synonym 'a action = "(process, wt_error, 'a) stateful"

definition aret :: "'e + 'a \<Rightarrow> ('s, 'e, 'a) stateful" where
  "aret r s = Ret (s, r)"

definition abind :: "('s, 'e, 'a) stateful \<Rightarrow> ('a \<Rightarrow> ('s, 'e, 'b) stateful) \<Rightarrow> ('s, 'e, 'b) stateful" where
  "abind m f s = io_bind (m s) (\<lambda>(s', r). case r of Inl e \<Rightarrow> Ret (s', Inl e) | Inr x \<Rightarrow> f x s')"

text \<open>An interaction that cannot fail, and the result of an action as a value.\<close>

definition perform :: "'a io \<Rightarrow> ('s, 'e, 'a) stateful" where
  "perform p s = io_bind p (\<lambda>x. Ret (s, Inr x))"

definition outcome :: "('s, 'e, 'a) stateful \<Rightarrow> ('s, 'e, 'e + 'a) stateful" where
  "outcome m s = io_bind (m s) (\<lambda>(s', r). Ret (s', Inr r))"

definition with_error :: "('e \<Rightarrow> 'e) \<Rightarrow> ('s, 'e, 'a) stateful \<Rightarrow> ('s, 'e, 'a) stateful" where
  "with_error g m s = io_bind (m s) (\<lambda>(s', r). Ret (s', case r of Inl e \<Rightarrow> Inl (g e) | Inr x \<Rightarrow> Inr x))"

text \<open>A query of \<open>Integration\<close>: what it asks git for is fixed by commit ids, so it is not interleaved.\<close>

definition query :: "'a query \<Rightarrow> 'a action" where
  "query q s = (case q (queries s) of
     (d, Inl e) \<Rightarrow> Ret (s\<lparr>queries := d\<rparr>, Inl (Git_Failed e))
   | (d, Inr x) \<Rightarrow> Ret (s\<lparr>queries := d\<rparr>, Inr x))"

text \<open>\<open>run_command_bytes\<close> and \<open>run_command\<close>, in a directory.\<close>

definition in_context_of :: "string \<Rightarrow> ('s, wt_error, 'a) stateful \<Rightarrow> ('s, wt_error, 'a) stateful" where
  "in_context_of c m = with_error (With_Context c) m"

definition command_result :: "string list \<Rightarrow> string + cmd_output \<Rightarrow> wt_error + string" where
  "command_result args r =
     (case r of
        Inl e \<Rightarrow> Inl (Git_Failed (Not_Run e))
      | Inr out \<Rightarrow> if exit_code out \<noteq> Some 0 then Inl (Git_Failed (Command_Failed args out))
                  else Inr (stdout out))"

definition git_bytes :: "string \<Rightarrow> string list \<Rightarrow> ('s, wt_error, string) stateful" where
  "git_bytes dir args s = Git dir args (\<lambda>r. Ret (s, command_result args r))"

definition git_text :: "string \<Rightarrow> string list \<Rightarrow> ('s, wt_error, string) stateful" where
  "git_text dir args = abind (git_bytes dir args) (\<lambda>out. aret (Inr (from_utf8_lossy out)))"

lemma runs_aret [act_simps]: "runs (aret r s) tr y \<longleftrightarrow> tr = [] \<and> y = (s, r)"
  by (auto simp: aret_def)

lemma runs_abind [act_simps]:
  "runs (abind m f s) tr y \<longleftrightarrow>
     (\<exists>s1 e. runs (m s) tr (s1, Inl e) \<and> y = (s1, Inl e)) \<or>
     (\<exists>s1 x tr1 tr2. tr = tr1 @ tr2 \<and> runs (m s) tr1 (s1, Inr x) \<and> runs (f x s1) tr2 y)"
  by (simp add: abind_def runs_bind split_paired_Ex split_sum_ex ex_disj_distrib)

lemma abindE:
  assumes "runs (abind m f s) tr y"
  obtains (Err) s1 e where "runs (m s) tr (s1, Inl e)" "y = (s1, Inl e)"
    | (Ok) s1 x tr1 tr2 where "tr = tr1 @ tr2" "runs (m s) tr1 (s1, Inr x)" "runs (f x s1) tr2 y"
  using assms by (auto simp: runs_abind)

lemma abind_okE:
  assumes "runs (abind m f s) t (s', Inr y)"
  obtains s1 x t1 t2 where "t = t1 @ t2" "runs (m s) t1 (s1, Inr x)" "runs (f x s1) t2 (s', Inr y)"
  using assms by (auto elim: abindE)

lemma runs_perform [act_simps]: "runs (perform p s) tr y \<longleftrightarrow> (\<exists>x. runs p tr x \<and> y = (s, Inr x))"
  by (auto simp: perform_def runs_bind)

lemma runs_outcome [act_simps]: "runs (outcome m s) tr y \<longleftrightarrow> (\<exists>s1 r. runs (m s) tr (s1, r) \<and> y = (s1, Inr r))"
  by (auto simp: outcome_def runs_bind)

lemma runs_with_error [act_simps]:
  "runs (with_error g m s) tr y \<longleftrightarrow>
     (\<exists>s1 e. runs (m s) tr (s1, Inl e) \<and> y = (s1, Inl (g e))) \<or>
     (\<exists>s1 x. runs (m s) tr (s1, Inr x) \<and> y = (s1, Inr x))"
  by (auto simp: with_error_def runs_bind split_paired_Ex split_sum_ex)

lemma runs_query [act_simps]:
  "runs (query q s) tr y \<longleftrightarrow>
     tr = [] \<and> y = (s\<lparr>queries := fst (q (queries s))\<rparr>,
                   case snd (q (queries s)) of Inl e \<Rightarrow> Inl (Git_Failed e) | Inr x \<Rightarrow> Inr x)"
  by (auto simp: query_def split: prod.splits sum.splits)

lemma runs_git_bytes [act_simps]:
  "runs (git_bytes dir args s) tr y \<longleftrightarrow> (\<exists>r. tr = [Ran dir args r] \<and> y = (s, command_result args r))"
  by (auto simp: git_bytes_def)

lemma runs_git_text_Inr [act_simps]:
  "runs (git_text dir args s) tr (s1, Inr out) \<longleftrightarrow>
     s1 = s \<and> (\<exists>r o1. tr = [Ran dir args r] \<and> command_result args r = Inr o1 \<and> out = from_utf8_lossy o1)"
  by (simp add: git_text_def act_simps) metis

lemma runs_git_text_Inl [act_simps]:
  "runs (git_text dir args s) tr (s1, Inl e) \<longleftrightarrow>
     s1 = s \<and> (\<exists>r. tr = [Ran dir args r] \<and> command_result args r = Inl e)"
  by (auto simp: git_text_def act_simps)

lemma command_result_Inr_iff:
  "command_result args r = Inr out \<longleftrightarrow> (\<exists>o1. r = Inr o1 \<and> exit_code o1 = Some 0 \<and> out = stdout o1)"
  by (auto simp: command_result_def split: sum.splits)

text \<open>A case distinction in an action, as the disjunction of its branches.\<close>

named_theorems act_cases

lemma runs_case_sum [act_cases]:
  "runs ((case x of Inl e \<Rightarrow> f e | Inr v \<Rightarrow> g v) s) tr y \<longleftrightarrow>
     (\<exists>e. x = Inl e \<and> runs (f e s) tr y) \<or> (\<exists>v. x = Inr v \<and> runs (g v s) tr y)"
  by (cases x) auto

lemma runs_case_option [act_cases]:
  "runs ((case x of None \<Rightarrow> f | Some v \<Rightarrow> g v) s) tr y \<longleftrightarrow>
     (x = None \<and> runs (f s) tr y) \<or> (\<exists>v. x = Some v \<and> runs (g v s) tr y)"
  by (cases x) auto

lemma runs_if [act_cases]:
  "runs ((if c then f else g) s) tr y \<longleftrightarrow> c \<and> runs (f s) tr y \<or> \<not> c \<and> runs (g s) tr y"
  by simp

end
