(* ===== verification/Working_Tree.thy ===== *)
theory Working_Tree
  imports Actions List_State
begin

text \<open>
  Queries on one worktree (\<open>src/git/repository/working_tree.rs\<close>): its git dir and branch through the
  process-wide caches, the uncommitted files, the lock, an operation in progress, staging behind the
  unmerged-paths gate, and the check that the directory still holds this worktree. \<open>wt\<close> is the path of
  the worktree, as \<open>worktree_at\<close> gives it.
\<close>

definition worktree_at :: "string \<Rightarrow> string io" where
  "worktree_at raw = Canonicalize raw (\<lambda>c. Ret (case c of Some p \<Rightarrow> p | None \<Rightarrow> raw))"

section \<open>Cached facts\<close>

definition resolve_git_dir :: "string \<Rightarrow> string \<Rightarrow> string action" where
  "resolve_git_dir wt out =
     (case git_path_from_output out of
        None \<Rightarrow> aret (Inl (Failed ''Unterminated Git path output''))
      | Some p \<Rightarrow>
          abind (perform (Canonicalize (if is_absolute p then p else path_join wt p) Ret)) (\<lambda>c.
            case c of
              None \<Rightarrow> aret (Inl (Failed ''Failed to resolve git directory''))
            | Some d \<Rightarrow> aret (Inr d)))"

definition remember_git_dir :: "string \<Rightarrow> string \<Rightarrow> string action" where
  "remember_git_dir wt d s = Ret (s\<lparr>git_dirs := (git_dirs s)(wt \<mapsto> d)\<rparr>, Inr d)"

definition git_dir :: "string \<Rightarrow> string action" where
  "git_dir wt s =
     (case git_dirs s wt of
        Some d \<Rightarrow> Ret (s, Inr d)
      | None \<Rightarrow>
          abind (git_bytes wt [''rev-parse'', ''--git-dir'']) (\<lambda>out.
          abind (resolve_git_dir wt out) (remember_git_dir wt)) s)"

definition remember_branch :: "string \<Rightarrow> string option \<Rightarrow> string option action" where
  "remember_branch wt b s = Ret (s\<lparr>current_branches := (current_branches s)(wt \<mapsto> b)\<rparr>, Inr b)"

definition wt_branch :: "string \<Rightarrow> string option action" where
  "wt_branch wt s =
     (case current_branches s wt of
        Some b \<Rightarrow> Ret (s, Inr b)
      | None \<Rightarrow>
          abind (outcome (git_text wt [''rev-parse'', ''--symbolic-full-name'', ''HEAD''])) (\<lambda>r.
            case r of
              Inr out \<Rightarrow> remember_branch wt (strip_prefix (trim out) ''refs/heads/'')
            | Inl _ \<Rightarrow>
                abind (outcome (git_text wt [''symbolic-ref'', ''--short'', ''HEAD''])) (\<lambda>r.
                  remember_branch wt (case r of Inr out \<Rightarrow> Some (trim out) | Inl _ \<Rightarrow> None))) s)"

definition is_linked :: "repo_env \<Rightarrow> string \<Rightarrow> bool action" where
  "is_linked env wt = abind (git_dir wt) (\<lambda>d. aret (Inr (\<not> same_path d (common_dir env))))"

section \<open>Uncommitted files\<close>

definition status_args :: "string list" where
  "status_args = [''status'', ''--porcelain'', ''--untracked-files=normal'', ''--ignore-submodules=none'']"

definition dirty_files_with :: "string \<Rightarrow> string list \<Rightarrow> string list action" where
  "dirty_files_with wt config =
     abind (git_text wt (config @ status_args)) (\<lambda>out. aret (Inr (str_lines out)))"

definition dirty_files :: "string \<Rightarrow> string list action" where
  "dirty_files wt = dirty_files_with wt []"

definition require_no_dirty_files ::
  "string list \<Rightarrow> string \<Rightarrow> string option \<Rightarrow> bool \<Rightarrow> wt_error + unit" where
  "require_no_dirty_files files act branch force_hint =
     (if files \<noteq> [] then Inl (Uncommitted_Changes act branch force_hint files) else Inr ())"

definition ensure_clean :: "string \<Rightarrow> string \<Rightarrow> string option \<Rightarrow> bool \<Rightarrow> unit action" where
  "ensure_clean wt act branch force_hint =
     abind (dirty_files wt) (\<lambda>files. aret (require_no_dirty_files files act branch force_hint))"

definition ensure_clean_without_fsmonitor :: "string \<Rightarrow> string \<Rightarrow> string option \<Rightarrow> bool \<Rightarrow> unit action" where
  "ensure_clean_without_fsmonitor wt act branch force_hint =
     abind (dirty_files_with wt [''-c'', ''core.fsmonitor=false'']) (\<lambda>files.
       aret (require_no_dirty_files files act branch force_hint))"

text \<open>The first character of each line of \<open>git submodule status\<close>; a decoded line starts with a whole character.\<close>

definition has_initialized_submodules_from_status :: "string \<Rightarrow> bool" where
  "has_initialized_submodules_from_status status =
     list_ex (\<lambda>l. case l of [] \<Rightarrow> False | c # _ \<Rightarrow> c \<noteq> CHR ''-'') (str_lines status)"

definition has_initialized_submodules :: "string \<Rightarrow> bool action" where
  "has_initialized_submodules wt =
     abind (git_text wt [''submodule'', ''status'', ''--recursive'']) (\<lambda>out.
       aret (Inr (has_initialized_submodules_from_status out)))"

section \<open>The lock and operations in progress\<close>

text \<open>\<open>read_to_string\<close> rejects bytes that are not UTF-8.\<close>

definition lock_reason :: "string \<Rightarrow> string option option action" where
  "lock_reason wt =
     abind (git_dir wt) (\<lambda>d.
     abind (perform (Read_File (path_join d ''locked'') Ret)) (\<lambda>content.
       case content of
         Inr contents \<Rightarrow>
           if valid_utf8 contents
           then aret (Inr (Some (let t = trim contents in if t = [] then None else Some t)))
           else aret (Inl (Failed ''Failed to read worktree lock''))
       | Inl Not_Found \<Rightarrow> aret (Inr None)
       | Inl (Read_Failed _) \<Rightarrow> aret (Inl (Failed ''Failed to read worktree lock''))))"

definition sequencer_operation :: "string \<Rightarrow> in_progress_operation option io" where
  "sequencer_operation d =
     Read_File (path_join (path_join d ''sequencer'') ''todo'') (\<lambda>content.
       Ret (case content of
              Inl _ \<Rightarrow> None
            | Inr todo \<Rightarrow>
                if \<not> valid_utf8 todo then None
                else (case split_whitespace todo of
                        w # _ \<Rightarrow> if w = ''pick'' then Some Cherry_Pick
                                 else if w = ''revert'' then Some Revert else None
                      | [] \<Rightarrow> None)))"

definition if_exists :: "string \<Rightarrow> 'a io \<Rightarrow> 'a io \<Rightarrow> 'a io" where
  "if_exists p yes no = Exists p (\<lambda>e. if e then yes else no)"

definition operation_in_progress_at :: "string \<Rightarrow> in_progress_operation option io" where
  "operation_in_progress_at d =
     if_exists (path_join d ''MERGE_HEAD'') (Ret (Some Merge))
    (if_exists (path_join d ''rebase-merge'') (Ret (Some Rebase))
    (if_exists (path_join d ''rebase-apply'') (Ret (Some Rebase))
    (if_exists (path_join d ''CHERRY_PICK_HEAD'') (Ret (Some Cherry_Pick))
    (if_exists (path_join d ''REVERT_HEAD'') (Ret (Some Revert))
    (io_bind (sequencer_operation d) (\<lambda>seq.
       case seq of
         Some op \<Rightarrow> Ret (Some op)
       | None \<Rightarrow> if_exists (path_join d ''BISECT_LOG'') (Ret (Some Bisect)) (Ret None)))))))"

definition operation_in_progress :: "string \<Rightarrow> in_progress_operation option action" where
  "operation_in_progress wt = abind (git_dir wt) (\<lambda>d. perform (operation_in_progress_at d))"

section \<open>Staging behind the unmerged-paths gate\<close>

datatype stage_mode = Stage_All | Stage_Tracked | Stage_None

definition add_args :: "stage_mode \<Rightarrow> string list option" where
  "add_args mode = (case mode of
     Stage_All \<Rightarrow> Some [''add'', ''-A''] | Stage_Tracked \<Rightarrow> Some [''add'', ''-u''] | Stage_None \<Rightarrow> None)"

definition unmerged_paths :: "string \<Rightarrow> ('s, wt_error, string list) stateful" where
  "unmerged_paths wt =
     abind (in_context_of ''Failed to list unmerged paths''
              (git_text wt (plumbing_args Diff_Files [''--name-only'', ''--diff-filter=U'', ''-z'']))) (\<lambda>out.
       aret (Inr (filter (\<lambda>p. p \<noteq> []) (split_on CHR 0x00 out))))"

definition ensure_no_unmerged_paths :: "string \<Rightarrow> string \<Rightarrow> ('s, wt_error, unit) stateful" where
  "ensure_no_unmerged_paths wt act =
     abind (unmerged_paths wt) (\<lambda>files.
       aret (if files = [] then Inr () else Inl (Unmerged_Paths act files)))"

definition stage :: "string \<Rightarrow> stage_mode \<Rightarrow> ('s, wt_error, unit) stateful" where
  "stage wt mode =
     abind (ensure_no_unmerged_paths wt ''commit'') (\<lambda>_.
       case add_args mode of
         None \<Rightarrow> aret (Inr ())
       | Some args \<Rightarrow> abind (in_context_of ''Failed to stage changes'' (git_text wt args)) (\<lambda>_. aret (Inr ())))"

section \<open>Whether the directory holds this worktree\<close>

definition ensure_holds_this_worktree :: "repo_env \<Rightarrow> string \<Rightarrow> string action" where
  "ensure_holds_this_worktree env wt =
     abind (perform (git_dir_at wt)) (\<lambda>dir.
       case dir of
         None \<Rightarrow> aret (Inl (Worktree_Path_Not_Ours wt None))
       | Some d \<Rightarrow>
           if same_path d (common_dir env) then aret (Inr (common_dir env))
           else if \<not> (case path_parent d of
                        Some p \<Rightarrow> same_path p (path_join (common_dir env) ''worktrees'') | None \<Rightarrow> False)
           then aret (Inl (Worktree_Path_Not_Ours wt None))
           else
             abind (perform (registration_worktree_path d)) (\<lambda>recorded.
               case recorded of
                 None \<Rightarrow> aret (Inl (Worktree_Path_Not_Ours wt None))
               | Some r \<Rightarrow>
                   abind (perform (paths_match r wt)) (\<lambda>ours.
                     aret (if ours then Inr d else Inl (Worktree_Path_Not_Ours wt (Some r))))))"

end
