(* ===== verification/Worktree_Removal.thy ===== *)
theory Worktree_Removal
  imports Working_Tree
begin

text \<open>
  Removing a worktree and its branch: \<open>src/git/remove.rs\<close>, the deletion coordinator
  \<open>src/git/repository/ref_deletion.rs\<close> and the registry operations of
  \<open>src/git/repository/worktrees.rs\<close> they use. Each function is an action whose requests are in the order
  the code makes them.
\<close>

section \<open>Options and outcomes\<close>

datatype branch_deletion_mode = Keep | Safe_Delete | Force_Delete

definition mode_from_flags :: "bool \<Rightarrow> bool \<Rightarrow> branch_deletion_mode" where
  "mode_from_flags keep_branch force_delete =
     (if keep_branch then Keep else if force_delete then Force_Delete else Safe_Delete)"

definition should_keep :: "branch_deletion_mode \<Rightarrow> bool" where
  "should_keep mode \<longleftrightarrow> mode = Keep"

definition is_force :: "branch_deletion_mode \<Rightarrow> bool" where
  "is_force mode \<longleftrightarrow> mode = Force_Delete"

datatype branch_deletion_outcome =
    Not_Deleted
  | Retained_Checked_Out string
  | Retained_Raced
  | Force_Deleted
  | Integrated integration_reason

record branch_deletion_result =
  del_outcome :: branch_deletion_outcome
  integration_target :: string

record remove_options =
  opt_branch :: "string option"
  deletion_mode :: branch_deletion_mode
  target_branch :: "string option"
  force_worktree :: bool

record removal_output =
  branch_result :: "(wt_error + branch_deletion_result) option"
  staged_path :: "string option"

section \<open>The registry\<close>

definition path_dir_name :: "string \<Rightarrow> string" where
  "path_dir_name p =
     (case path_file_name p of Some n \<Rightarrow> if valid_utf8 n then n else ''(unknown)'' | None \<Rightarrow> ''(unknown)'')"

fun find_registration :: "string \<Rightarrow> string list \<Rightarrow> (string \<times> string) option io" where
  "find_registration path [] = Ret None"
| "find_registration path (r # rs) =
     io_bind (registration_worktree_path r) (\<lambda>recorded.
       case recorded of
         None \<Rightarrow> find_registration path rs
       | Some w \<Rightarrow> io_bind (paths_match w path) (\<lambda>same.
                     if same then Ret (Some (r, w)) else find_registration path rs))"

definition registration_at :: "repo_env \<Rightarrow> string \<Rightarrow> (string \<times> string) action" where
  "registration_at env path =
     (let registrations = path_join (common_dir env) ''worktrees'' in
      abind (perform (Read_Dir registrations Ret)) (\<lambda>entries.
        case entries of
          None \<Rightarrow> aret (Inl (Failed ''Failed to read worktrees''))
        | Some es \<Rightarrow>
            abind (perform (find_registration path (map (\<lambda>e. path_join registrations (fst e)) es))) (\<lambda>found.
              case found of
                None \<Rightarrow> aret (Inl (Failed ''No worktree registered''))
              | Some r \<Rightarrow> aret (Inr r))))"

definition definitely_absent :: "string \<Rightarrow> bool action" where
  "definitely_absent path =
     abind (perform (Lstat path Ret)) (\<lambda>p.
       case p of Present \<Rightarrow> aret (Inr False) | Absent \<Rightarrow> aret (Inr True) | Unknown e \<Rightarrow> aret (Inl (Failed e)))"

definition registry :: string where
  "registry = ''worktree_registry''"

text \<open>Holding the registry lock for the extent of an action; the guard is released on every exit.\<close>

definition with_registry :: "'a action \<Rightarrow> 'a action" where
  "with_registry m =
     abind (perform (Acquire registry (Ret ()))) (\<lambda>_.
     abind (outcome m) (\<lambda>r.
     abind (perform (Release registry (Ret ()))) (\<lambda>_. aret r)))"

definition prune_worktree_entry :: "repo_env \<Rightarrow> string \<Rightarrow> unit action" where
  "prune_worktree_entry env path =
     with_registry
      (abind (registration_at env path) (\<lambda>(registration, recorded).
       abind (definitely_absent (path_join registration ''locked'')) (\<lambda>unlocked.
       if \<not> unlocked then aret (Inl (Failed ''Worktree is locked''))
       else abind (definitely_absent (path_join recorded ''.git'')) (\<lambda>stale.
         if \<not> stale then aret (Inl (Failed ''Worktree is no longer stale; its .git exists''))
         else abind (perform (Delete_Tree registration Ret)) (\<lambda>gone.
                aret (if gone then Inr () else Inl (Failed ''Failed to delete registration'')))))))"

definition list_remaining_entries :: "string \<Rightarrow> string list option io" where
  "list_remaining_entries path =
     Read_Dir path (\<lambda>es. Ret (case es of
       None \<Rightarrow> None
     | Some es \<Rightarrow>
         (let names = sort (filter_map (\<lambda>(n, k). case k of
                        None \<Rightarrow> None
                      | Some Is_Dir \<Rightarrow> Some (from_utf8_lossy n @ ''/'')
                      | Some _ \<Rightarrow> Some (from_utf8_lossy n)) es)
          in if names = [] then None else Some names)))"

definition git_remove :: "repo_env \<Rightarrow> string \<Rightarrow> bool \<Rightarrow> string \<Rightarrow> unit action" where
  "git_remove env path use_force name =
     abind (outcome (git_text (discovery_path env)
              ([''worktree'', ''remove''] @ (if use_force then [''--force''] else []) @ [path]))) (\<lambda>r.
       case r of
         Inr _ \<Rightarrow> aret (Inr ())
       | Inl e \<Rightarrow> abind (perform (list_remaining_entries path)) (\<lambda>rest.
                   aret (Inl (Worktree_Removal_Failed name path e rest))))"

definition remove_worktree :: "repo_env \<Rightarrow> string \<Rightarrow> bool \<Rightarrow> unit action" where
  "remove_worktree env path force =
     abind (if force then aret (Inr True)
            else abind (perform (worktree_at path)) has_initialized_submodules) (\<lambda>use_force.
     with_registry
      (abind (if use_force \<and> \<not> force
              then abind (perform (worktree_at path)) (\<lambda>wt.
                     ensure_clean wt ''remove worktree with submodules'' None True)
              else aret (Inr ())) (\<lambda>_.
       abind (perform (worktree_at path)) (\<lambda>wt.
       abind (wt_branch wt) (\<lambda>branch.
       git_remove env path use_force (case branch of Some b \<Rightarrow> b | None \<Rightarrow> path_dir_name path))))))"

section \<open>Staging a worktree into the trash\<close>

definition stop_fsmonitor_daemon :: "string \<Rightarrow> unit action" where
  "stop_fsmonitor_daemon wt =
     abind (perform (Git wt [''fsmonitor--daemon'', ''stop''] Ret)) (\<lambda>_.
     abind (outcome (git_dir wt)) (\<lambda>d.
       case d of
         Inl _ \<Rightarrow> aret (Inr ())
       | Inr d \<Rightarrow> perform (Reap_Daemon (path_join d ''fsmonitor--daemon.ipc'') (Ret ()))))"

definition wt_trash_dir :: "repo_env \<Rightarrow> string" where
  "wt_trash_dir env = path_join (path_join (common_dir env) ''wt'') ''trash''"

definition generate_removing_path :: "string \<Rightarrow> string \<Rightarrow> string io" where
  "generate_removing_path trash_dir gd =
     Clock (\<lambda>timestamp.
       Ret (path_join trash_dir
              ((case path_file_name gd of Some n \<Rightarrow> from_utf8_lossy n | None \<Rightarrow> []) @ ''-'' @ show_nat timestamp)))"

definition rename_into_trash :: "repo_env \<Rightarrow> string \<Rightarrow> string \<Rightarrow> string option action" where
  "rename_into_trash env path gd =
     abind (perform (Create_Dirs (wt_trash_dir env) Ret)) (\<lambda>_.
     abind (perform (generate_removing_path (wt_trash_dir env) gd)) (\<lambda>staged.
     abind (perform (Rename path staged Ret)) (\<lambda>ok.
       if ok then abind (outcome (prune_worktree_entry env path)) (\<lambda>_. aret (Inr (Some staged)))
       else aret (Inr None))))"

definition disclose_dirty_files :: "string \<Rightarrow> unit action" where
  "disclose_dirty_files wt =
     abind (outcome (dirty_files wt)) (\<lambda>r.
       case r of
         Inr files \<Rightarrow>
           if files \<noteq> [] then
             perform (Say ''Discarding uncommitted changes (--force):'' (Say (join [CHR 0x0A] files) (Ret ())))
           else aret (Inr ())
       | Inl e \<Rightarrow>
           if interrupt_signal e \<noteq> None then aret (Inl e)
           else perform (Say ''Cannot list uncommitted changes; discarding worktree contents (--force):'' (Ret ())))"

definition stage_worktree_removal ::
  "repo_env \<Rightarrow> string \<Rightarrow> string option \<Rightarrow> bool \<Rightarrow> string option action" where
  "stage_worktree_removal env path branch force =
     abind (perform (worktree_at path)) (\<lambda>wt.
     abind (ensure_holds_this_worktree env wt) (\<lambda>gd.
     abind (lock_reason wt) (\<lambda>locked.
       case locked of
         Some reason \<Rightarrow>
           aret (Inl (Worktree_Locked (case branch of Some b \<Rightarrow> b | None \<Rightarrow> path_dir_name path) path reason))
       | None \<Rightarrow>
           abind (if force then disclose_dirty_files wt
                  else ensure_clean wt ''remove worktree'' branch True) (\<lambda>_.
           abind (stop_fsmonitor_daemon wt) (\<lambda>_.
           abind (if \<not> force \<and> fsmonitor_enabled env
                  then ensure_clean_without_fsmonitor wt ''remove worktree'' branch True
                  else aret (Inr ())) (\<lambda>_.
           rename_into_trash env path gd))))))"

section \<open>Deleting the branch\<close>

definition branch_checkout_requires_retention :: "worktree_info \<Rightarrow> string \<Rightarrow> bool" where
  "branch_checkout_requires_retention wt name \<longleftrightarrow>
     wi_branch wt = Some name \<and> (\<not> wi_is_prunable wt \<or> wi_locked wt \<noteq> None)"

definition fresh_branch_checkout :: "repo_env \<Rightarrow> string \<Rightarrow> string option action" where
  "fresh_branch_checkout env name =
     abind (perform (Worktrees (discovery_path env) Ret)) (\<lambda>r.
       case r of
         Inl e \<Rightarrow> aret (Inl (Failed e))
       | Inr wts \<Rightarrow> aret (Inr (map_option wi_path (find (\<lambda>wt. branch_checkout_requires_retention wt name) wts))))"

text \<open>\<open>RefDeletionCoordinator::delete\<close>; the latch is set before the mutex is released.\<close>

definition set_latch :: "int \<Rightarrow> 'a action" where
  "set_latch sig s = Ret (s\<lparr>latch := Some sig\<rparr>, Inl (Interrupted sig))"

definition deletion_attempt :: "repo_env \<Rightarrow> string \<Rightarrow> string \<Rightarrow> bool action" where
  "deletion_attempt env ref_name expected_sha =
     abind (outcome (git_text (discovery_path env) [''update-ref'', ''-d'', ref_name, expected_sha])) (\<lambda>r.
       case r of
         Inr _ \<Rightarrow> aret (Inr True)
       | Inl e \<Rightarrow>
           if interrupt_signal e \<noteq> None then aret (Inl e)
           else
             abind (outcome (git_text (discovery_path env)
                      [''show-ref'', ''--verify'', ''--hash'', ''--'', ref_name])) (\<lambda>live.
               case live of
                 Inr sha \<Rightarrow> aret (if trim sha \<noteq> expected_sha then Inr False else Inl e)
               | Inl e2 \<Rightarrow> aret (Inl (if interrupt_signal e2 \<noteq> None then e2 else e))))"

definition delete_ref :: "repo_env \<Rightarrow> string \<Rightarrow> string \<Rightarrow> bool action" where
  "delete_ref env ref_name expected_sha s =
     (case latch s of
        Some sig \<Rightarrow> Ret (s, Inl (Interrupted sig))
      | None \<Rightarrow>
          abind (outcome (deletion_attempt env ref_name expected_sha)) (\<lambda>r.
            case r of
              Inl e \<Rightarrow> (case interrupt_signal e of Some sig \<Rightarrow> set_latch sig | None \<Rightarrow> aret (Inl e))
            | Inr moved \<Rightarrow> aret (Inr moved)) s)"

definition cas_delete_branch_outcome ::
  "repo_env \<Rightarrow> string \<Rightarrow> string \<Rightarrow> integration_reason \<Rightarrow> branch_deletion_outcome action" where
  "cas_delete_branch_outcome env name expected_sha reason =
     abind (fresh_branch_checkout env name) (\<lambda>checkout.
       case checkout of
         Some path \<Rightarrow> aret (Inr (Retained_Checked_Out path))
       | None \<Rightarrow>
           abind (delete_ref env (heads_ref name) expected_sha) (\<lambda>deleted.
             aret (Inr (if deleted then Integrated reason else Retained_Raced))))"

definition delete_branch_if_safe ::
  "git \<Rightarrow> (string \<Rightarrow> git_error + string option) \<Rightarrow> repo_env \<Rightarrow> ref_snapshot \<Rightarrow> string \<Rightarrow> string \<Rightarrow> bool
   \<Rightarrow> branch_deletion_result action" where
  "delete_branch_if_safe git live env snap name tgt force_delete =
     (if force_delete then
        abind (git_text (discovery_path env) [''branch'', ''-D'', ''--'', name]) (\<lambda>_.
        aret (Inr \<lparr>del_outcome = Force_Deleted, integration_target = tgt\<rparr>))
      else
        abind (query (branch_integration_reason git snap live name tgt)) (\<lambda>(effective_target, reason).
        abind (case reason of
                 Some r \<Rightarrow>
                   (case snap_local_branch snap name of
                      None \<Rightarrow> aret (Inl (Failed ''Cannot safely delete branch: absent from ref snapshot''))
                    | Some b \<Rightarrow> cas_delete_branch_outcome env name (lb_sha b) r)
               | None \<Rightarrow> aret (Inr Not_Deleted)) (\<lambda>out.
        aret (Inr \<lparr>del_outcome = out, integration_target = effective_target\<rparr>))))"

definition capture_refs_now :: "repo_env \<Rightarrow> (string \<times> string) list \<Rightarrow> ref_snapshot action" where
  "capture_refs_now env remotes =
     abind (git_text (discovery_path env) [''for-each-ref'', LOCAL_BRANCH_FORMAT, ''refs/heads/'']) (\<lambda>l.
     abind (git_text (discovery_path env) [''for-each-ref'', REMOTE_BRANCH_FORMAT, ''refs/remotes/'']) (\<lambda>r.
     aret (Inr (build_snapshot (local_records l) (remote_records remotes r) (\<lambda>_. None)))))"

definition execute_branch_deletion ::
  "git \<Rightarrow> (string \<Rightarrow> git_error + string option) \<Rightarrow> repo_env \<Rightarrow> (string \<times> string) list \<Rightarrow> string \<Rightarrow> string
   \<Rightarrow> bool \<Rightarrow> branch_deletion_result action" where
  "execute_branch_deletion git live env remotes name tgt force_delete =
     abind (capture_refs_now env remotes) (\<lambda>snap.
     delete_branch_if_safe git live env snap name tgt force_delete)"

section \<open>The whole removal\<close>

definition remove_worktree_with_cleanup ::
  "git \<Rightarrow> (string \<Rightarrow> git_error + string option) \<Rightarrow> repo_env \<Rightarrow> ref_snapshot \<Rightarrow> string \<Rightarrow> remove_options
   \<Rightarrow> removal_output action" where
  "remove_worktree_with_cleanup git live env snap path opts =
     abind (stage_worktree_removal env path (opt_branch opts) (force_worktree opts)) (\<lambda>staged.
     abind (if staged = None then remove_worktree env path (force_worktree opts) else aret (Inr ())) (\<lambda>_.
       case opt_branch opts of
         Some branch \<Rightarrow>
           if should_keep (deletion_mode opts) then aret (Inr \<lparr>branch_result = None, staged_path = staged\<rparr>)
           else
             abind (outcome (with_error (Branch_Deletion_Failed branch (Some path))
                (delete_branch_if_safe git live env snap branch
                   (case target_branch opts of Some t \<Rightarrow> t | None \<Rightarrow> ''HEAD'') (is_force (deletion_mode opts)))))
               (\<lambda>r. aret (Inr \<lparr>branch_result = Some r, staged_path = staged\<rparr>))
       | None \<Rightarrow> aret (Inr \<lparr>branch_result = None, staged_path = staged\<rparr>)))"

end
