(* ===== verification/Observation.thy ===== *)
theory Observation
  imports Working_Tree
begin

text \<open>
  Which requests an action can make. \<open>avoids E p\<close>: no run of \<open>p\<close> makes a request in \<open>E\<close>. The locale
  \<open>observer\<close> is the contract of a set \<open>E\<close> of effects that the read-only requests are not in; under it
  the queries of \<open>Path_Resolution\<close> and \<open>Working_Tree\<close> avoid \<open>E\<close>. It is interpreted on the mutations of a removal,
  on the signals of the process sweeps, on the reads and writes of git configuration and on unanswered queries of
  a remote.
\<close>

definition changes_refs :: "string list \<Rightarrow> bool" where
  "changes_refs args \<longleftrightarrow> (\<exists>rest. args = ''update-ref'' # rest) \<or> (\<exists>rest. args = ''branch'' # rest)"

definition removes_worktree :: "string list \<Rightarrow> bool" where
  "removes_worktree args \<longleftrightarrow> (\<exists>rest. args = ''worktree'' # ''remove'' # rest)"

definition touches_config :: "string list \<Rightarrow> bool" where
  "touches_config args \<longleftrightarrow> (\<exists>rest. args = ''config'' # rest)"

definition queries_remote :: "string list \<Rightarrow> bool" where
  "queries_remote args \<longleftrightarrow> (\<exists>rest. args = ''ls-remote'' # rest)"

lemma plain_args [simp]:
  "\<not> changes_refs []" "\<not> removes_worktree []" "\<not> touches_config []" "\<not> queries_remote []"
  "queries_remote (c # args) \<longleftrightarrow> c = ''ls-remote''"
  "touches_config (c # args) \<longleftrightarrow> c = ''config''"
  "changes_refs (c # args) \<longleftrightarrow> c = ''update-ref'' \<or> c = ''branch''"
  "removes_worktree (c # args) \<longleftrightarrow> c = ''worktree'' \<and> args \<noteq> [] \<and> hd args = ''remove''"
  by (auto simp: changes_refs_def removes_worktree_def touches_config_def queries_remote_def neq_Nil_conv)

definition avoids :: "(event \<Rightarrow> bool) \<Rightarrow> 'a io \<Rightarrow> bool" where
  "avoids E p \<longleftrightarrow> (\<forall>tr x. runs p tr x \<longrightarrow> (\<forall>e\<in>set tr. \<not> E e))"

definition quiet_for :: "(event \<Rightarrow> bool) \<Rightarrow> ('s, 'e, 'a) stateful \<Rightarrow> bool" where
  "quiet_for E m \<longleftrightarrow> (\<forall>s. avoids E (m s))"

named_theorems quiet_intros

lemma avoids_bind [quiet_intros]: "avoids E p \<Longrightarrow> (\<And>x. avoids E (f x)) \<Longrightarrow> avoids E (io_bind p f)"
  by (fastforce simp: avoids_def runs_bind)

lemma avoids_Ret [quiet_intros]: "avoids E (Ret x)"
  by (simp add: avoids_def)

lemma avoidsD: "avoids E p \<Longrightarrow> runs p tr x \<Longrightarrow> e \<in> set tr \<Longrightarrow> \<not> E e"
  by (auto simp: avoids_def)

lemma quiet_actions [quiet_intros]:
  "quiet_for E (aret r)"
  "avoids E p \<Longrightarrow> quiet_for E (perform p)"
  "quiet_for E m \<Longrightarrow> quiet_for E (outcome m)"
  "quiet_for E m \<Longrightarrow> quiet_for E (with_error g m)"
  "quiet_for E (query q)"
  by (simp_all add: quiet_for_def avoids_def act_simps) blast+

lemma quiet_bind [quiet_intros]:
  "quiet_for E m \<Longrightarrow> (\<And>x. quiet_for E (f x)) \<Longrightarrow> quiet_for E (abind m f)"
  unfolding quiet_for_def avoids_def by (fastforce simp: act_simps)

lemma quiet_if [quiet_intros]: "(c \<Longrightarrow> quiet_for E m) \<Longrightarrow> (\<not> c \<Longrightarrow> quiet_for E n) \<Longrightarrow> quiet_for E (if c then m else n)"
  by simp

lemma quiet_state: "(\<And>s. avoids E (m s)) \<Longrightarrow> quiet_for E m"
  by (simp add: quiet_for_def)

lemma quietD: "quiet_for E m \<Longrightarrow> avoids E (m s)"
  by (simp add: quiet_for_def)

locale observer =
  fixes E :: "event \<Rightarrow> bool"
  assumes reads: "\<not> E (Canonicalized a r2)" "\<not> E (Existed a r3)" "\<not> E (Examined a r4)" "\<not> E (Probed a r5)"
      "\<not> E (File_Read a r6)" "\<not> E (Listed a r7)" "\<not> E (Dirs_Created a r8)" "\<not> E (Time_Read n)"
      "\<not> E (Acquired a)" "\<not> E (Released a)" "\<not> E (Worktrees_Listed a r11)" "\<not> E (Daemon_Reaped a)"
      "\<not> E (Said a)" "\<not> E (Tool_Run c r15)" "\<not> E (Link_Read a r17)"
    and git_reads: "\<not> changes_refs args \<Longrightarrow> \<not> removes_worktree args \<Longrightarrow> \<not> touches_config args \<Longrightarrow> \<not> queries_remote args \<Longrightarrow> \<not> E (Ran d args r12)"
begin

lemma avoids_io [quiet_intros]:
  "(\<And>r. avoids E (f1 r)) \<Longrightarrow> avoids E (Canonicalize a f1)"
  "(\<And>r. avoids E (f2 r)) \<Longrightarrow> avoids E (Exists a f2)"
  "(\<And>r. avoids E (f3 r)) \<Longrightarrow> avoids E (Metadata a f3)"
  "(\<And>r. avoids E (f4 r)) \<Longrightarrow> avoids E (Lstat a f4)"
  "(\<And>r. avoids E (f5 r)) \<Longrightarrow> avoids E (Read_File a f5)"
  "(\<And>r. avoids E (f6 r)) \<Longrightarrow> avoids E (Read_Dir a f6)"
  "(\<And>r. avoids E (f7 r)) \<Longrightarrow> avoids E (Create_Dirs a f7)"
  "(\<And>r. avoids E (f8 r)) \<Longrightarrow> avoids E (Clock f8)"
  "(\<And>r. avoids E (f9 r)) \<Longrightarrow> avoids E (Worktrees a f9)"
  "(\<And>r. avoids E (f10 r)) \<Longrightarrow> avoids E (Run_Tool c f10)"
  "avoids E p \<Longrightarrow> avoids E (Acquire a p)"
  "avoids E p \<Longrightarrow> avoids E (Release a p)"
  "avoids E p \<Longrightarrow> avoids E (Reap_Daemon a p)"
  "avoids E p \<Longrightarrow> avoids E (Say a p)"
  by (simp_all add: avoids_def reads) (fastforce simp: reads)+

lemma avoids_git [quiet_intros]:
  "\<not> changes_refs args \<Longrightarrow> \<not> removes_worktree args \<Longrightarrow> \<not> touches_config args \<Longrightarrow> \<not> queries_remote args \<Longrightarrow> (\<And>r. avoids E (f r)) \<Longrightarrow> avoids E (Git d args f)"
  by (simp add: avoids_def) (fastforce simp: git_reads)

lemma quiet_git_bytes [quiet_intros]:
  "\<not> changes_refs args \<Longrightarrow> \<not> removes_worktree args \<Longrightarrow> \<not> touches_config args \<Longrightarrow> \<not> queries_remote args \<Longrightarrow> quiet_for E (git_bytes d args)"
  by (auto simp: quiet_for_def avoids_def act_simps git_reads)

lemma quiet_git_text [quiet_intros]:
  "\<not> changes_refs args \<Longrightarrow> \<not> removes_worktree args \<Longrightarrow> \<not> touches_config args \<Longrightarrow> \<not> queries_remote args \<Longrightarrow> quiet_for E (git_text d args)"
  unfolding git_text_def by (intro quiet_intros)

lemma quiet_resolve_prefix [quiet_intros]: "avoids E (resolve_prefix p a cs suf)"
proof (induction cs arbitrary: suf)
  case Nil
  show ?case by (subst resolve_prefix.simps) (auto simp: Let_def intro!: quiet_intros)
next
  case (Cons c cs)
  show ?case
    by (subst resolve_prefix.simps) (auto simp: Let_def intro!: quiet_intros Cons.IH split: option.split)
qed

lemma quiet_paths [quiet_intros]:
  "avoids E (canonicalize_with_parents p)" "avoids E (paths_match p q)" "avoids E (git_dir_at p)"
  "avoids E (registration_worktree_path p)" "avoids E (worktree_at p)"
  unfolding canonicalize_with_parents_def resolve_with_parents_def paths_match_def git_dir_at_def
    registration_worktree_path_def worktree_at_def Let_def
  by (auto intro!: quiet_intros split: option.split sum.split file_kind.split)

lemma quiet_git_dir [quiet_intros]: "quiet_for E (git_dir wt)"
proof (rule quiet_state)
  fix s
  have "quiet_for E (remember_git_dir wt d)" for d
    by (auto simp: quiet_for_def avoids_def remember_git_dir_def)
  then have "quiet_for E (abind (git_bytes wt [''rev-parse'', ''--git-dir'']) (\<lambda>out.
          abind (resolve_git_dir wt out) (remember_git_dir wt)))"
    unfolding resolve_git_dir_def by (auto intro!: quiet_intros split: option.split)
  then show "avoids E (git_dir wt s)"
    by (auto simp: git_dir_def intro!: quiet_intros quietD split: option.split)
qed

lemma quiet_branch [quiet_intros]: "quiet_for E (wt_branch wt)"
proof (rule quiet_state)
  fix s
  have r: "quiet_for E (remember_branch wt b)" for b
    by (auto simp: quiet_for_def avoids_def remember_branch_def)
  show "avoids E (wt_branch wt s)"
    unfolding wt_branch_def
    by (cases "current_branches s wt")
       (auto intro!: quietD quiet_intros r split: sum.split)
qed

lemma quiet_worktree [quiet_intros]:
  "cfg = [] \<or> hd cfg = ''-c'' \<Longrightarrow> quiet_for E (dirty_files_with wt cfg)" "quiet_for E (dirty_files wt)"
  "quiet_for E (ensure_clean wt act b h)" "quiet_for E (ensure_clean_without_fsmonitor wt act b h)"
  "quiet_for E (has_initialized_submodules wt)" "quiet_for E (lock_reason wt)"
  "quiet_for E (ensure_holds_this_worktree env wt)"
proof -
  show d: "quiet_for E (dirty_files_with wt cfg)" if "cfg = [] \<or> hd cfg = ''-c''" for cfg
    using that unfolding dirty_files_with_def by (cases cfg) (auto intro!: quiet_intros simp: status_args_def)
  then show d2: "quiet_for E (dirty_files wt)" by (simp add: dirty_files_def)
  show "quiet_for E (ensure_clean wt act b h)"
    unfolding ensure_clean_def by (intro quiet_intros d2)
  show "quiet_for E (ensure_clean_without_fsmonitor wt act b h)"
    unfolding ensure_clean_without_fsmonitor_def by (intro quiet_intros d) simp
  show "quiet_for E (has_initialized_submodules wt)"
    unfolding has_initialized_submodules_def by (intro quiet_intros) simp_all
  show "quiet_for E (lock_reason wt)"
    unfolding lock_reason_def by (auto intro!: quiet_intros split: sum.split read_error.split)
  show "quiet_for E (ensure_holds_this_worktree env wt)"
    unfolding ensure_holds_this_worktree_def by (auto intro!: quiet_intros split: option.split)
qed

end

end
