(* ===== verification/Removal_Order.thy ===== *)
theory Removal_Order
  imports Worktree_Removal Observation
begin

text \<open>
  In which order a removal looks and acts. A request that changes the repository or the directory is
  a mutation; \<open>quiet\<close> actions make none. \<open>first_mutation\<close> peels the quiet steps off a run up to its
  mutation, which is how every ordering property below is proved: each step leaves its run in the
  prefix, and the run says what the step saw.
\<close>

section \<open>Mutations\<close>

definition mutates :: "event \<Rightarrow> bool" where
  "mutates e \<longleftrightarrow>
     (case e of
        Renamed _ _ _ \<Rightarrow> True
      | Tree_Deleted _ _ \<Rightarrow> True
      | Ran _ args _ \<Rightarrow> changes_refs args \<or> removes_worktree args
      | _ \<Rightarrow> False)"

lemma mutates_simps [simp]:
  "mutates (Renamed a b r1)" "mutates (Tree_Deleted a r1)"
  "\<not> mutates (Canonicalized a r2)" "\<not> mutates (Existed a r3)" "\<not> mutates (Examined a r4)"
  "\<not> mutates (Probed a r5)" "\<not> mutates (File_Read a r6)" "\<not> mutates (Listed a r7)"
  "\<not> mutates (Dirs_Created a r8)" "\<not> mutates (Time_Read r9)" "\<not> mutates (Acquired a)"
  "\<not> mutates (Released a)" "\<not> mutates (Lock_Tried a r10)" "\<not> mutates (Worktrees_Listed a r11)"
  "\<not> mutates (Daemon_Reaped a)" "\<not> mutates (Said a)" "\<not> mutates (Terminal_Checked r13)"
  "\<not> mutates (Asked a r14)" "\<not> mutates (Tool_Run c r15)" "\<not> mutates (Terminated n)"
  "\<not> mutates (Killed n)" "\<not> mutates (Alive_Checked n r16)" "\<not> mutates (Slept n)"
  "\<not> mutates (Link_Read a r17)"
  "mutates (Ran a args r12) = (changes_refs args \<or> removes_worktree args)"
  by (simp_all add: mutates_def)

abbreviation silent :: "'a io \<Rightarrow> bool" where
  "silent p \<equiv> avoids mutates p"

abbreviation quiet :: "'a action \<Rightarrow> bool" where
  "quiet m \<equiv> quiet_for mutates m"

interpretation mutations: observer mutates
  by unfold_locales simp_all

text \<open>The mutation of a run whose first step is quiet lies in the rest, after a completed run of that step.\<close>

lemma first_mutation:
  assumes "runs (abind m f s) (pre @ e # post) y" and "mutates e" and "quiet m"
  obtains s1 x t1 t2 where "pre = t1 @ t2" and "runs (m s) t1 (s1, Inr x)" and "runs (f x s1) (t2 @ e # post) y"
proof -
  have m: "e' \<notin> set t" if "runs (m s) t z" "mutates e'" for t z e'
    using assms(3) that unfolding quiet_for_def avoids_def by blast
  from assms(1) consider
      (Err) s1 er where "runs (m s) (pre @ e # post) (s1, Inl er)"
    | (Ok) s1 x t1 t2 where "pre @ e # post = t1 @ t2" "runs (m s) t1 (s1, Inr x)" "runs (f x s1) t2 y"
    by (auto simp: act_simps)
  then show ?thesis
  proof cases
    case Err
    with m[OF Err assms(2)] show ?thesis by simp
  next
    case Ok
    with m[OF Ok(2) assms(2)] have "e \<notin> set t1" by simp
    with Ok(1) obtain u where "pre = t1 @ u" "t2 = u @ e # post"
      by (auto simp: append_eq_append_conv2 append_eq_Cons_conv Cons_eq_append_conv)
    with Ok that show ?thesis by blast
  qed
qed

text \<open>What must hold of the requests before any mutation of an action.\<close>

definition guards :: "'a action \<Rightarrow> process \<Rightarrow> (event list \<Rightarrow> bool) \<Rightarrow> bool" where
  "guards m s Q \<longleftrightarrow> (\<forall>pre e post y. runs (m s) (pre @ e # post) y \<longrightarrow> mutates e \<longrightarrow> Q pre)"

lemma guardsD: "guards m s Q \<Longrightarrow> runs (m s) (pre @ e # post) y \<Longrightarrow> mutates e \<Longrightarrow> Q pre"
  unfolding guards_def by blast

lemma guardsI: "(\<And>pre. Q pre) \<Longrightarrow> guards m s Q"
  by (simp add: guards_def)

lemma guards_quiet: "quiet m \<Longrightarrow> guards m s Q"
  by (auto simp: guards_def quiet_for_def avoids_def)

lemma guards_bind:
  assumes "quiet m" and "\<And>t s1 x. runs (m s) t (s1, Inr x) \<Longrightarrow> guards (f x) s1 (\<lambda>pre. Q (t @ pre))"
  shows "guards (abind m f) s Q"
  unfolding guards_def
proof (intro allI impI)
  fix pre e post y
  assume "runs (abind m f s) (pre @ e # post) y" and mut: "mutates e"
  then obtain s1 x t1 t2 where *: "pre = t1 @ t2" "runs (m s) t1 (s1, Inr x)" "runs (f x s1) (t2 @ e # post) y"
    by (rule first_mutation) (rule assms(1))
  from guardsD[OF assms(2)[OF *(2)] *(3) mut] *(1) show "Q pre" by simp
qed

text \<open>A step that mutates, in front of one that may mutate again.\<close>

lemma guards_seq:
  assumes m: "guards m s Q" and f: "\<And>t s1 x. runs (m s) t (s1, Inr x) \<Longrightarrow> guards (f x) s1 (\<lambda>pre. Q (t @ pre))"
  shows "guards (abind m f) s Q"
  unfolding guards_def
proof (intro allI impI)
  fix pre e post y
  assume "runs (abind m f s) (pre @ e # post) y" and mut: "mutates e"
  then consider (Err) s1 er where "runs (m s) (pre @ e # post) (s1, Inl er)"
    | (Ok) s1 x t1 t2 where "pre @ e # post = t1 @ t2" "runs (m s) t1 (s1, Inr x)" "runs (f x s1) t2 y"
    by (auto simp: act_simps)
  then show "Q pre"
  proof cases
    case Err
    then show ?thesis by (rule guardsD[OF m _ mut])
  next
    case Ok
    from Ok(1) consider u where "t1 = pre @ e # u" | u where "pre = t1 @ u" "t2 = u @ e # post"
      by (auto simp: append_eq_append_conv2 append_eq_Cons_conv Cons_eq_append_conv)
    then show ?thesis
    proof cases
      case 1
      with Ok(2) show ?thesis using guardsD[OF m _ mut] by metis
    next
      case 2
      with guardsD[OF f[OF Ok(2)] _ mut] Ok(3) show ?thesis by simp
    qed
  qed
qed

lemma guards_outcome: "guards m s Q \<Longrightarrow> guards (outcome m) s Q"
  "guards m s Q \<Longrightarrow> guards (with_error g m) s Q"
  unfolding guards_def runs_outcome runs_with_error by blast+

text \<open>What every successful run of an action did.\<close>

definition achieves :: "'a action \<Rightarrow> (event \<Rightarrow> bool) \<Rightarrow> bool" where
  "achieves m P \<longleftrightarrow> (\<forall>s tr s1 x. runs (m s) tr (s1, Inr x) \<longrightarrow> (\<exists>e\<in>set tr. P e))"

lemma achieves_bind: "(\<And>x. achieves (f x) P) \<Longrightarrow> achieves (abind m f) P"
  unfolding achieves_def by (fastforce simp: act_simps)

lemma achieves_first: "achieves m P \<Longrightarrow> achieves (abind m f) P"
  unfolding achieves_def by (fastforce simp: act_simps)

lemma achieves_error: "achieves (aret (Inl e)) P"
  by (simp add: achieves_def act_simps)

lemma achievesD: "achieves m P \<Longrightarrow> runs (m s) tr (s1, Inr x) \<Longrightarrow> \<exists>e\<in>set tr. P e"
  unfolding achieves_def by blast

section \<open>Quiet steps of a removal\<close>

lemma quiet_removal [quiet_intros]:
  "quiet (disclose_dirty_files wt)" "quiet (stop_fsmonitor_daemon wt)" "quiet (fresh_branch_checkout env n)"
proof -
  show "quiet (disclose_dirty_files wt)"
    unfolding disclose_dirty_files_def by (auto intro!: quiet_intros split: sum.split)
  show "quiet (stop_fsmonitor_daemon wt)"
    unfolding stop_fsmonitor_daemon_def by (auto intro!: quiet_intros split: sum.split)
  show "quiet (fresh_branch_checkout env n)"
    unfolding fresh_branch_checkout_def by (auto intro!: quiet_intros split: sum.split)
qed

end
