(* ===== verification/Removal_Properties.thy ===== *)
theory Removal_Properties
  imports Removal_Order Integration_Properties
begin

text \<open>
  What removal guarantees whatever other processes do meanwhile: the gates in front of the first
  mutation, the compare-and-swap deletion of exactly the commit the verdict was about, the latch after
  an interruption, and one case where the verdict is about another commit.
\<close>

section \<open>The gates\<close>

definition clean_status :: "string \<Rightarrow> string list \<Rightarrow> event \<Rightarrow> bool" where
  "clean_status wt config e \<longleftrightarrow>
     (\<exists>out. e = Ran wt (config @ status_args) (Inr out) \<and> exit_code out = Some 0
        \<and> str_lines (from_utf8_lossy (stdout out)) = [])"

definition daemon_stopped :: "string \<Rightarrow> event \<Rightarrow> bool" where
  "daemon_stopped wt e \<longleftrightarrow> (\<exists>r. e = Ran wt [''fsmonitor--daemon'', ''stop''] r)"

text \<open>
  What the requests \<open>pre\<close> before a mutation established about the directory at \<open>path\<close>: its \<open>.git\<close> entry
  names a registration that names it back, no lock file, and unless forced a clean status, read once
  more without the daemon after the daemon was stopped.
\<close>

definition gates_passed :: "repo_env \<Rightarrow> string \<Rightarrow> bool \<Rightarrow> event list \<Rightarrow> bool" where
  "gates_passed env path force pre \<longleftrightarrow>
     (\<exists>c wt gd.
        (\<exists>rest. pre = Canonicalized path c # rest) \<and> wt = (case c of Some p \<Rightarrow> p | None \<Rightarrow> path) \<and>
        (\<exists>us own vs s. pre = us @ own @ vs \<and> runs (ensure_holds_this_worktree env wt s) own (s, Inr gd)) \<and>
        (\<exists>d. File_Read (path_join d ''locked'') (Inl Not_Found) \<in> set pre) \<and>
        (\<not> force \<longrightarrow> (\<exists>e\<in>set pre. clean_status wt [] e)) \<and>
        (\<not> force \<longrightarrow> fsmonitor_enabled env \<longrightarrow>
           (\<exists>us vs. pre = us @ vs \<and> (\<exists>e\<in>set us. daemon_stopped wt e) \<and>
              (\<exists>e\<in>set vs. clean_status wt [''-c'', ''core.fsmonitor=false''] e))))"

lemma ensure_clean_run:
  "runs (ensure_clean wt act b h s) tr (s1, Inr u) \<Longrightarrow> \<exists>e. tr = [e] \<and> clean_status wt [] e"
  by (auto simp: ensure_clean_def dirty_files_def dirty_files_with_def act_simps require_no_dirty_files_def
      clean_status_def command_result_Inr_iff split: if_splits)

lemma recheck_run:
  "runs (ensure_clean_without_fsmonitor wt act b h s) tr (s1, Inr u) \<Longrightarrow>
   \<exists>e. tr = [e] \<and> clean_status wt [''-c'', ''core.fsmonitor=false''] e"
  by (auto simp: ensure_clean_without_fsmonitor_def dirty_files_with_def act_simps require_no_dirty_files_def
      clean_status_def command_result_Inr_iff split: if_splits)

lemma holds_state:
  "runs (ensure_holds_this_worktree env wt s) tr (s1, r) \<Longrightarrow> s1 = s"
  by (auto simp: ensure_holds_this_worktree_def act_simps split: option.splits if_splits)

lemma unlocked_run:
  "runs (lock_reason wt s) tr (s1, Inr None) \<Longrightarrow> \<exists>d. File_Read (path_join d ''locked'') (Inl Not_Found) \<in> set tr"
proof -
  have *: "c = Inl Not_Found" if "runs ((case c of Inr contents \<Rightarrow>
           if valid_utf8 contents
           then aret (Inr (Some (let t = trim contents in if t = [] then None else Some t)))
           else aret (Inl (Failed ''Failed to read worktree lock''))
       | Inl Not_Found \<Rightarrow> aret (Inr None)
       | Inl (Read_Failed _) \<Rightarrow> aret (Inl (Failed ''Failed to read worktree lock''))) s') tr' (s1, Inr None)" for c s' tr'
    using that by (cases c rule: sum.exhaust; (cases "projl c")?; auto simp: act_simps split: if_splits)
  show "runs (lock_reason wt s) tr (s1, Inr None) \<Longrightarrow> ?thesis"
    unfolding lock_reason_def by (auto simp: runs_abind runs_perform dest!: *)
qed

lemma stopped_run:
  "runs (stop_fsmonitor_daemon wt s) tr y \<Longrightarrow> \<exists>e\<in>set tr. daemon_stopped wt e"
  by (auto simp: stop_fsmonitor_daemon_def act_simps daemon_stopped_def)

lemma gates_passedI:
  assumes "t1 = [Canonicalized path c]" "wt = (case c of Some p \<Rightarrow> p | None \<Rightarrow> path)"
    and own: "runs (ensure_holds_this_worktree env wt s) t2 (s2, Inr gd)"
    and lock: "runs (lock_reason wt s2) t3 (s3, Inr None)"
    and clean: "runs ((if force then disclose_dirty_files wt else ensure_clean wt a b h) s3) t4 (s4, Inr u)"
    and stop: "runs (stop_fsmonitor_daemon wt s4) t5 (s5, Inr v)"
    and recheck: "runs ((if \<not> force \<and> fsmonitor_enabled env
       then ensure_clean_without_fsmonitor wt a b h else aret (Inr ())) s5) t6 (s6, Inr w)"
  shows "gates_passed env path force (t1 @ t2 @ t3 @ t4 @ t5 @ t6 @ rest)"
proof -
  have "\<exists>us vs. t1 @ t2 @ t3 @ t4 @ t5 @ t6 @ rest = us @ vs \<and> (\<exists>e\<in>set us. daemon_stopped wt e) \<and>
              (\<exists>e\<in>set vs. clean_status wt [''-c'', ''core.fsmonitor=false''] e)"
    if "\<not> force" "fsmonitor_enabled env"
    using stopped_run[OF stop] recheck that
    by (intro exI[of _ "t1 @ t2 @ t3 @ t4 @ t5"] exI[of _ "t6 @ rest"]) (auto dest!: recheck_run)
  moreover have "\<exists>us own vs s. t1 @ t2 @ t3 @ t4 @ t5 @ t6 @ rest = us @ own @ vs \<and>
      runs (ensure_holds_this_worktree env wt s) own (s, Inr gd)"
    using own holds_state[OF own] by blast
  moreover have "\<exists>d. File_Read (path_join d ''locked'') (Inl Not_Found) \<in> set (t1 @ t2 @ t3 @ t4 @ t5 @ t6 @ rest)"
    using unlocked_run[OF lock] by auto
  moreover have "\<exists>e\<in>set (t1 @ t2 @ t3 @ t4 @ t5 @ t6 @ rest). clean_status wt [] e" if "\<not> force"
    using clean that by (auto dest!: ensure_clean_run)
  ultimately show ?thesis
    unfolding gates_passed_def using assms(1,2) by (intro exI[of _ c] exI[of _ wt] exI[of _ gd]) simp
qed

lemma stage_guards: "guards (stage_worktree_removal env path branch force) s (gates_passed env path force)"
  unfolding stage_worktree_removal_def
proof (rule guards_bind, rule quiet_intros, rule quiet_intros)
  fix t1 s1 wt
  assume 1: "runs (perform (worktree_at path) s) t1 (s1, Inr wt)"
  then obtain c where c: "t1 = [Canonicalized path c]" "wt = (case c of Some p \<Rightarrow> p | None \<Rightarrow> path)"
    by (auto simp: worktree_at_def act_simps)
  show "guards (abind (ensure_holds_this_worktree env wt) (\<lambda>gd.
     abind (lock_reason wt) (\<lambda>locked.
       case locked of
         Some reason \<Rightarrow>
           aret (Inl (Worktree_Locked (case branch of Some b \<Rightarrow> b | None \<Rightarrow> path_dir_name path) path reason))
       | None \<Rightarrow>
           abind (if force then disclose_dirty_files wt
                  else ensure_clean wt ''remove worktree'' branch True) (\<lambda>_.
           abind (stop_fsmonitor_daemon wt) (\<lambda>_.
           abind (if \<not> force \<and> fsmonitor_enabled env
                  then ensure_clean_without_fsmonitor wt ''remove worktree'' branch True
                  else aret (Inr ())) (\<lambda>_.
           rename_into_trash env path gd)))))) s1 (\<lambda>pre. gates_passed env path force (t1 @ pre))"
  proof (intro guards_bind quiet_intros)
    fix t2 s2 gd t3 s3 locked
    assume 2: "runs (ensure_holds_this_worktree env wt s1) t2 (s2, Inr gd)"
      and 3: "runs (lock_reason wt s2) t3 (s3, Inr locked)"
    show "guards (case locked of
         Some reason \<Rightarrow>
           aret (Inl (Worktree_Locked (case branch of Some b \<Rightarrow> b | None \<Rightarrow> path_dir_name path) path reason))
       | None \<Rightarrow>
           abind (if force then disclose_dirty_files wt
                  else ensure_clean wt ''remove worktree'' branch True) (\<lambda>_.
           abind (stop_fsmonitor_daemon wt) (\<lambda>_.
           abind (if \<not> force \<and> fsmonitor_enabled env
                  then ensure_clean_without_fsmonitor wt ''remove worktree'' branch True
                  else aret (Inr ())) (\<lambda>_.
           rename_into_trash env path gd)))) s3 (\<lambda>pre. gates_passed env path force (t1 @ t2 @ t3 @ pre))"
    proof (cases locked)
      case (Some r)
      then show ?thesis by (simp add: guards_quiet quiet_intros)
    next
      case None
      show ?thesis
        unfolding None option.case
        by (intro guards_bind quiet_intros, rule guardsI)
          (rule gates_passedI[OF c 2 3[unfolded None]]; assumption)
    qed
  qed
qed

lemma gates_passed_append:
  assumes "gates_passed env path force pre"
  shows "gates_passed env path force (pre @ suf)"
proof -
  from assms obtain c wt gd us own vs s d where
    *: "\<exists>rest. pre = Canonicalized path c # rest" "wt = (case c of Some p \<Rightarrow> p | None \<Rightarrow> path)"
      "pre = us @ own @ vs" "runs (ensure_holds_this_worktree env wt s) own (s, Inr gd)"
      "File_Read (path_join d ''locked'') (Inl Not_Found) \<in> set pre"
      "\<not> force \<longrightarrow> (\<exists>e\<in>set pre. clean_status wt [] e)"
    and r: "\<not> force \<longrightarrow> fsmonitor_enabled env \<longrightarrow>
           (\<exists>us vs. pre = us @ vs \<and> (\<exists>e\<in>set us. daemon_stopped wt e) \<and>
              (\<exists>e\<in>set vs. clean_status wt [''-c'', ''core.fsmonitor=false''] e))"
    unfolding gates_passed_def by blast
  have "\<exists>us own vs s. pre @ suf = us @ own @ vs \<and> runs (ensure_holds_this_worktree env wt s) own (s, Inr gd)"
    using *(3,4) by (intro exI[of _ us] exI[of _ own] exI[of _ "vs @ suf"] exI[of _ s]) simp
  moreover have "\<not> force \<longrightarrow> fsmonitor_enabled env \<longrightarrow>
           (\<exists>us vs. pre @ suf = us @ vs \<and> (\<exists>e\<in>set us. daemon_stopped wt e) \<and>
              (\<exists>e\<in>set vs. clean_status wt [''-c'', ''core.fsmonitor=false''] e))"
  proof (intro impI)
    assume "\<not> force" "fsmonitor_enabled env"
    with r obtain us vs where "pre = us @ vs" "\<exists>e\<in>set us. daemon_stopped wt e"
      "\<exists>e\<in>set vs. clean_status wt [''-c'', ''core.fsmonitor=false''] e" by blast
    then show "\<exists>us vs. pre @ suf = us @ vs \<and> (\<exists>e\<in>set us. daemon_stopped wt e) \<and>
              (\<exists>e\<in>set vs. clean_status wt [''-c'', ''core.fsmonitor=false''] e)"
      by (intro exI[of _ us] exI[of _ "vs @ suf"]) auto
  qed
  moreover have "\<exists>rest. pre @ suf = Canonicalized path c # rest" using *(1) by auto
  moreover have "\<exists>d. File_Read (path_join d ''locked'') (Inl Not_Found) \<in> set (pre @ suf)" using *(5) by auto
  moreover have "\<not> force \<longrightarrow> (\<exists>e\<in>set (pre @ suf). clean_status wt [] e)" using *(6) by auto
  ultimately show ?thesis
    unfolding gates_passed_def using *(2) by blast
qed

lemma stage_attempts_rename:
  "achieves (stage_worktree_removal env path branch force) (\<lambda>e. \<exists>a b r. e = Renamed a b r)"
proof -
  have "achieves (rename_into_trash env path gd) (\<lambda>e. \<exists>a b r. e = Renamed a b r)" for gd
    unfolding rename_into_trash_def
    by (rule achieves_bind, rule achieves_bind, rule achieves_first) (auto simp: achieves_def act_simps)
  then show ?thesis
    unfolding stage_worktree_removal_def
    by (auto intro!: achieves_bind achieves_error split: option.split)
qed


section \<open>A sample removal\<close>

definition fresh_process :: process where
  "fresh_process = \<lparr>queries = empty_repo, git_dirs = (\<lambda>_. None), current_branches = (\<lambda>_. None), latch = None\<rparr>"

definition sample_env :: repo_env where
  "sample_env = \<lparr>common_dir = ''/r/.git'', discovery_path = ''/r'', fsmonitor_enabled = True\<rparr>"

definition line :: "string \<Rightarrow> string" where
  "line s = s @ [newline]"

text \<open>The answers of a repository \<open>/r\<close> with a clean, unlocked worktree \<open>/w\<close>, up to the rename and from there on.\<close>

definition sample_before :: "event list" where
  "sample_before =
     [Canonicalized ''/w'' (Some ''/w''),
      Examined ''/w/.git'' (Some Is_File),
      File_Read ''/w/.git'' (Inr (line ''gitdir: /r/.git/worktrees/w'')),
      Canonicalized ''/r/.git/worktrees/w'' (Some ''/r/.git/worktrees/w''),
      Examined ''/r/.git/worktrees/w'' (Some Is_Dir),
      File_Read ''/r/.git/worktrees/w/gitdir'' (Inr (line ''/w/.git'')),
      Canonicalized ''/w'' (Some ''/w''), Canonicalized ''/w'' (Some ''/w''), Canonicalized ''/w'' (Some ''/w''),
      Ran ''/w'' [''rev-parse'', ''--git-dir''] (prints (line ''/r/.git/worktrees/w'')),
      Canonicalized ''/r/.git/worktrees/w'' (Some ''/r/.git/worktrees/w''),
      File_Read ''/r/.git/worktrees/w/locked'' (Inl Not_Found),
      Ran ''/w'' status_args (prints []),
      Ran ''/w'' [''fsmonitor--daemon'', ''stop''] (exits 1),
      Daemon_Reaped ''/r/.git/worktrees/w/fsmonitor--daemon.ipc'',
      Ran ''/w'' ([''-c'', ''core.fsmonitor=false''] @ status_args) (prints []),
      Dirs_Created ''/r/.git/wt/trash'' True,
      Time_Read 7]"

definition sample_after :: "event list" where
  "sample_after =
     [Acquired registry,
      Listed ''/r/.git/worktrees'' (Some [(''w'', Some Is_Dir)]),
      File_Read ''/r/.git/worktrees/w/gitdir'' (Inr (line ''/w/.git'')),
      Canonicalized ''/w'' None, Existed ''/w'' False, Existed ''/'' True, Canonicalized ''/'' (Some ''/''),
      Canonicalized ''/w'' None, Existed ''/w'' False, Existed ''/'' True, Canonicalized ''/'' (Some ''/''),
      Canonicalized ''/w'' None, Existed ''/w'' False, Existed ''/'' True, Canonicalized ''/'' (Some ''/''),
      Probed ''/r/.git/worktrees/w/locked'' Absent,
      Probed ''/w/.git'' Absent,
      Tree_Deleted ''/r/.git/worktrees/w'' True,
      Released registry]"

definition sample_options :: remove_options where
  "sample_options = \<lparr>opt_branch = None, deletion_mode = Safe_Delete, target_branch = None, force_worktree = False\<rparr>"

lemma runs_some: "replay p tr \<noteq> None \<Longrightarrow> \<exists>y. runs p tr y"
  by (auto simp: runs_replay)


section \<open>Deleting a branch\<close>

definition deletion_args :: "string \<Rightarrow> string \<Rightarrow> string list" where
  "deletion_args name sha = [''update-ref'', ''-d'', heads_ref name, sha]"

text \<open>What a run of the compare-and-swap deletion saw and did, for each of its outcomes.\<close>

definition deletion_account ::
  "repo_env \<Rightarrow> string \<Rightarrow> string \<Rightarrow> integration_reason \<Rightarrow> event list \<Rightarrow> branch_deletion_outcome \<Rightarrow> bool" where
  "deletion_account env name sha reason tr out \<longleftrightarrow>
     (\<exists>wts rest. tr = Worktrees_Listed (discovery_path env) (Inr wts) # rest \<and>
        (case find (\<lambda>wt. branch_checkout_requires_retention wt name) wts of
           Some wt \<Rightarrow> rest = [] \<and> out = Retained_Checked_Out (wi_path wt)
         | None \<Rightarrow>
             (\<exists>o1. exit_code o1 = Some 0 \<and> rest = [Ran (discovery_path env) (deletion_args name sha) (Inr o1)]
                 \<and> out = Integrated reason) \<or>
             (\<exists>r o2. (\<forall>o1. r = Inr o1 \<longrightarrow> exit_code o1 \<noteq> Some 0) \<and> exit_code o2 = Some 0 \<and>
                 trim (from_utf8_lossy (stdout o2)) \<noteq> sha \<and>
                 rest = [Ran (discovery_path env) (deletion_args name sha) r,
                         Ran (discovery_path env) [''show-ref'', ''--verify'', ''--hash'', ''--'', heads_ref name] (Inr o2)] \<and>
                 out = Retained_Raced)))"

lemma command_result_Inl_iff:
  "(\<exists>e. command_result args r = Inl e) \<longleftrightarrow> (\<forall>o1. r = Inr o1 \<longrightarrow> exit_code o1 \<noteq> Some 0)"
  by (auto simp: command_result_def split: sum.splits)

lemma delete_ref_run:
  assumes "runs (delete_ref env ref_name sha s) tr (s1, Inr gone)"
  shows "latch s = None \<and>
    (if gone then \<exists>o1. exit_code o1 = Some 0 \<and> tr = [Ran (discovery_path env) [''update-ref'', ''-d'', ref_name, sha] (Inr o1)]
     else \<exists>r o2. (\<forall>o1. r = Inr o1 \<longrightarrow> exit_code o1 \<noteq> Some 0) \<and> exit_code o2 = Some 0 \<and>
            trim (from_utf8_lossy (stdout o2)) \<noteq> sha \<and>
            tr = [Ran (discovery_path env) [''update-ref'', ''-d'', ref_name, sha] r,
                  Ran (discovery_path env) [''show-ref'', ''--verify'', ''--hash'', ''--'', ref_name] (Inr o2)])"
proof (cases "latch s")
  case (Some sig)
  with assms show ?thesis by (simp add: delete_ref_def)
next
  case None
  from assms None have att: "\<exists>s'. runs (deletion_attempt env ref_name sha s) tr (s', Inr gone)"
    by (auto simp: delete_ref_def act_simps act_cases set_latch_def)
  then show ?thesis
    using None command_result_Inl_iff
    by (auto simp: deletion_attempt_def act_simps act_cases command_result_Inr_iff split: if_splits) blast+
qed

lemma cas_run:
  assumes "runs (cas_delete_branch_outcome env name sha reason s) tr (s1, Inr out)"
  shows "deletion_account env name sha reason tr out"
  using assms
  by (auto simp: cas_delete_branch_outcome_def fresh_branch_checkout_def act_simps act_cases deletion_account_def
      deletion_args_def split: if_splits dest!: delete_ref_run)

lemma safe_deletion_run:
  assumes "runs (delete_branch_if_safe git live env snap name tgt False s) tr (s1, Inr res)"
  shows "\<exists>v. snd (branch_integration_reason git snap live name tgt (queries s)) = Inr (integration_target res, v) \<and>
    (case v of
       None \<Rightarrow> tr = [] \<and> del_outcome res = Not_Deleted
     | Some r \<Rightarrow> \<exists>b. snap_local_branch snap name = Some b \<and>
                    deletion_account env name (lb_sha b) r tr (del_outcome res))"
  using assms
  by (auto simp: delete_branch_if_safe_def act_simps act_cases split: sum.splits dest!: cas_run)

text \<open>
  C14. A safe deletion does what its outcome says, and only that. Whatever git answers: without a reason
  from the verdict nothing is run; with one, the worktrees are listed anew and a checkout retains the
  branch; otherwise exactly one deletion is attempted, conditional on the commit the snapshot recorded for
  the local branch, "integrated" is reported only when git performed it, and "raced" only when it did
  not and a fresh read shows another commit.
\<close>

theorem safe_deletion_account:
  assumes "runs (delete_branch_if_safe git live env snap name tgt False s) tr (s1, Inr res)"
  shows "\<exists>v. snd (branch_integration_reason git snap live name tgt (queries s)) = Inr (integration_target res, v) \<and>
    (case v of
       None \<Rightarrow> tr = [] \<and> del_outcome res = Not_Deleted
     | Some r \<Rightarrow> \<exists>b. snap_local_branch snap name = Some b \<and>
                    deletion_account env name (lb_sha b) r tr (del_outcome res))"
  using assms by (rule safe_deletion_run)

text \<open>The names a snapshot does not file under another ref as well.\<close>

definition unshadowed :: "string \<Rightarrow> local_branch_rec list \<Rightarrow> remote_branch_rec list \<Rightarrow> bool" where
  "unshadowed name ls rs \<longleftrightarrow>
     list_all (\<lambda>r. rb_short_name r \<noteq> name \<and> remotes_ref (rb_short_name r) \<noteq> name) rs \<and>
     list_all (\<lambda>b. heads_ref (lb_name b) \<noteq> name) ls"

lemma fold_remotes: "list_all (\<lambda>r. rb_short_name r \<noteq> name \<and> remotes_ref (rb_short_name r) \<noteq> name) rs \<Longrightarrow>
  fold insert_remote rs m name = m name"
  by (induction rs arbitrary: m) (auto simp: insert_remote_def)

lemma fold_locals: "list_all (\<lambda>b. heads_ref (lb_name b) \<noteq> name) ls \<Longrightarrow> inventory_get ls name = Some b \<Longrightarrow>
  fold insert_local ls m name = Some (lb_sha b)"
proof (induction ls arbitrary: m rule: rev_induct)
  case Nil
  then show ?case by (simp add: inventory_get_def)
next
  case (snoc x xs)
  then show ?case by (cases "lb_name x = name") (auto simp: inventory_get_def insert_local_def)
qed

lemma unshadowed_resolves:
  assumes "unshadowed name ls rs" and "inventory_get ls name = Some b"
  shows "snapshot_resolve git (build_snapshot ls rs ab) name = Inr (lb_sha b)"
  using assms fold_locals[of name ls b "\<lambda>_. None"] fold_remotes[of name rs]
  by (simp add: snapshot_resolve_def snap_resolve_def build_snapshot_def unshadowed_def)


text \<open>The squash-merged branch of the sample repository, deleted.\<close>

definition sample_locals :: "local_branch_rec list" where
  "sample_locals =
     [\<lparr>lb_name = ''main'', lb_sha = sha_of CHR ''2'', lb_ts = 2, upstream_short = None,
       upstream_remote = None, push_remote = None\<rparr>,
      \<lparr>lb_name = ''feature'', lb_sha = sha_of CHR ''1'', lb_ts = 1, upstream_short = None,
       upstream_remote = None, push_remote = None\<rparr>]"

definition sample_deletion :: "event list" where
  "sample_deletion = [Worktrees_Listed ''/r'' (Inr []), Ran ''/r'' (deletion_args ''feature'' (sha_of CHR ''1'')) (prints [])]"

definition sample_delete :: "branch_deletion_result action" where
  "sample_delete = delete_branch_if_safe (sample_git True) (\<lambda>_. Inr None) sample_env
     (build_snapshot sample_locals [] (\<lambda>_. None)) ''feature'' ''main'' False"

lemma sample_delete_runs:
  "\<exists>s1. runs (sample_delete fresh_process) sample_deletion
     (s1, Inr \<lparr>del_outcome = Integrated Patch_Id_Match, integration_target = ''main''\<rparr>)"
  by (rule runs_result) code_simp

lemma safe_deletion_account_witness:
  "\<exists>b. snap_local_branch (build_snapshot sample_locals [] (\<lambda>_. None)) ''feature'' = Some b \<and>
     deletion_account sample_env ''feature'' (lb_sha b) Patch_Id_Match sample_deletion (Integrated Patch_Id_Match)"
proof -
  from sample_delete_runs obtain s1 where r: "runs (sample_delete fresh_process) sample_deletion
     (s1, Inr \<lparr>del_outcome = Integrated Patch_Id_Match, integration_target = ''main''\<rparr>)" ..
  have "sample_deletion \<noteq> []" by (simp add: sample_deletion_def)
  with safe_deletion_account[OF r[unfolded sample_delete_def]] show ?thesis
    by (auto split: option.splits simp: deletion_account_def)
qed


section \<open>A shadowed name\<close>

text \<open>
  A local branch named like a remote-tracking branch: local \<open>origin/feature\<close> with unmerged work, remote
  \<open>feature\<close> on \<open>origin\<close> at the tip of \<open>main\<close>.
\<close>

definition shadowed_locals :: "local_branch_rec list" where
  "shadowed_locals =
     [\<lparr>lb_name = ''main'', lb_sha = sha_of CHR ''2'', lb_ts = 2, upstream_short = None,
       upstream_remote = None, push_remote = None\<rparr>,
      \<lparr>lb_name = ''origin/feature'', lb_sha = sha_of CHR ''1'', lb_ts = 1, upstream_short = None,
       upstream_remote = None, push_remote = None\<rparr>]"

definition shadowing_remotes :: "remote_branch_rec list" where
  "shadowing_remotes =
     [\<lparr>rb_short_name = ''origin/feature'', rb_sha = sha_of CHR ''2'', rb_ts = 2, rb_remote = ''origin'',
       rb_local_name = ''feature''\<rparr>]"

definition shadowed_deletion :: "event list" where
  "shadowed_deletion =
     [Worktrees_Listed ''/r'' (Inr []), Ran ''/r'' (deletion_args ''origin/feature'' (sha_of CHR ''1'')) (prints [])]"


section \<open>Interruption\<close>

text \<open>
  An interruption ends all deletions. When a deletion, or the read that classifies its failure, is killed
  by SIGINT or SIGTERM, the coordinator reports the interruption and latches it; from then on no
  request of any deletion reaches git, whichever branch it is for.
\<close>

theorem interruption_is_latched:
  assumes "runs (delete_ref env ref_name sha s) tr (s1, Inl er)" and "interrupt_signal er = Some sig"
  shows "latch s1 = Some sig \<and> er = Interrupted sig \<and>
    (runs (delete_ref env2 ref_name2 sha2 s1) tr2 y \<longleftrightarrow> tr2 = [] \<and> y = (s1, Inl (Interrupted sig)))"
proof -
  have "latch s1 = Some sig \<and> er = Interrupted sig"
  proof (cases "latch s")
    case (Some l)
    with assms show ?thesis by (auto simp: delete_ref_def split: if_splits)
  next
    case None
    with assms show ?thesis
      by (auto simp: delete_ref_def act_simps act_cases set_latch_def split: if_splits)
  qed
  then show ?thesis by (auto simp: delete_ref_def)
qed

definition killed :: "string + cmd_output" where
  "killed = Inr \<lparr>exit_code = None, term_signal = Some 2, stdout = []\<rparr>"

lemma interruption_is_latched_witness:
  "\<exists>s1. runs (delete_ref sample_env ''refs/heads/a'' ''1'' fresh_process) [Ran ''/r'' [''update-ref'', ''-d'', ''refs/heads/a'', ''1''] killed]
      (s1, Inl (Interrupted 2)) \<and> latch s1 = Some 2"
proof -
  have "\<exists>s1. runs (delete_ref sample_env ''refs/heads/a'' ''1'' fresh_process)
      [Ran ''/r'' [''update-ref'', ''-d'', ''refs/heads/a'', ''1''] killed] (s1, Inl (Interrupted 2))"
    by (rule runs_result) code_simp
  then obtain s1 where r: "runs (delete_ref sample_env ''refs/heads/a'' ''1'' fresh_process)
      [Ran ''/r'' [''update-ref'', ''-d'', ''refs/heads/a'', ''1''] killed] (s1, Inl (Interrupted 2))" ..
  have "interrupt_signal (Interrupted 2) = Some 2" by code_simp
  from interruption_is_latched[OF r this] r show ?thesis by blast
qed

end
