(* ===== verification/Background_Cleanup.thy ===== *)
theory Background_Cleanup
  imports Working_Tree
begin

text \<open>
  What runs after a removal: the drain of the trash (\<open>src/git/remove.rs\<close>), the sweep of orphaned
  \<open>git fsmonitor--daemon\<close> processes (\<open>src/git/fsmonitor.rs\<close>) and the reaping of processes that run in a
  removed worktree (\<open>src/git/reap.rs\<close>). Process ids are numbers, times milliseconds. Loops that wait for the
  world carry fuel: \<open>None\<close> is a loop still running when it is used up.
\<close>

section \<open>The trash\<close>

definition staged_name :: "string \<Rightarrow> bool" where
  "staged_name name \<longleftrightarrow>
     valid_utf8 name \<and>
     (case rsplit_once CHR ''-'' name of Some (_, ts) \<Rightarrow> parse_uint 64 ts \<noteq> None | None \<Rightarrow> False)"

definition staged_trash_entries :: "string \<Rightarrow> string list io" where
  "staged_trash_entries trash_dir =
     Read_Dir trash_dir (\<lambda>es. Ret (case es of
       None \<Rightarrow> []
     | Some es \<Rightarrow> map (path_join trash_dir) (filter staged_name (map fst es))))"

fun delete_each :: "string list \<Rightarrow> string list \<Rightarrow> string list io" where
  "delete_each [] undeletable = Ret undeletable"
| "delete_each (e # es) undeletable =
     Delete_Tree e (\<lambda>gone. delete_each es (if gone then undeletable else e # undeletable))"

fun drain_passes :: "nat \<Rightarrow> string \<Rightarrow> string list \<Rightarrow> string list option io" where
  "drain_passes 0 trash_dir undeletable = Ret None"
| "drain_passes (Suc fuel) trash_dir undeletable =
     io_bind (staged_trash_entries trash_dir) (\<lambda>es.
       let pending = filter (\<lambda>e. e \<notin> set undeletable) es in
       if pending = [] then Ret (Some undeletable)
       else io_bind (delete_each pending undeletable) (drain_passes fuel trash_dir))"

text \<open>\<open>Try_Lock\<close> covers opening the lock file as well; \<open>.lock\<close> replaces the extension of the directory's name.\<close>

definition path_with_extension :: "string \<Rightarrow> string \<Rightarrow> string" where
  "path_with_extension p ext =
     (case path_file_name p of
        None \<Rightarrow> p
      | Some n \<Rightarrow>
          render (is_absolute p) (butlast (components p) @
            [(case rsplit_once CHR ''.'' n of Some (stem, _) \<Rightarrow> if stem = [] then n else stem | None \<Rightarrow> n) @ ''.'' @ ext]))"

fun drain_trash :: "nat \<Rightarrow> string \<Rightarrow> string list \<Rightarrow> (string + unit) option io" where
  "drain_trash 0 trash_dir undeletable = Ret None"
| "drain_trash (Suc fuel) trash_dir undeletable =
     (let lock = path_with_extension trash_dir ''lock'' in
      Try_Lock lock (\<lambda>l.
        case l of
          Would_Block \<Rightarrow> Ret (Some (Inr ()))
        | Lock_Failed e \<Rightarrow> Ret (Some (Inl e))
        | Lock_Held \<Rightarrow>
            io_bind (drain_passes fuel trash_dir undeletable) (\<lambda>out.
              case out of
                None \<Rightarrow> Ret None
              | Some undeletable' \<Rightarrow>
                  Release lock
                   (io_bind (staged_trash_entries trash_dir) (\<lambda>es.
                      if list_all (\<lambda>e. e \<in> set undeletable') es then Ret (Some (Inr ()))
                      else drain_trash fuel trash_dir undeletable')))))"

section \<open>Stopping processes\<close>

text \<open>\<open>escalate_terminate\<close>: SIGTERM to all, wait until all are gone or the deadline passed, SIGKILL to the rest.\<close>

fun terminate_all :: "nat list \<Rightarrow> 'a io \<Rightarrow> 'a io" where
  "terminate_all [] k = k"
| "terminate_all (p # ps) k = Terminate p (terminate_all ps k)"

fun all_gone :: "nat list \<Rightarrow> (bool \<Rightarrow> 'a io) \<Rightarrow> 'a io" where
  "all_gone [] k = k True"
| "all_gone (p # ps) k = Alive p (\<lambda>alive. if alive then k False else all_gone ps k)"

fun kill_survivors :: "nat list \<Rightarrow> nat \<Rightarrow> nat io" where
  "kill_survivors [] gone = Ret gone"
| "kill_survivors (p # ps) gone =
     Alive p (\<lambda>alive.
       (let recount = Alive p (\<lambda>still. kill_survivors ps (if still then gone else Suc gone))
        in if alive then Kill p recount else recount))"

definition POLL_MS :: nat where
  "POLL_MS = 50"

fun poll_gone :: "nat \<Rightarrow> nat \<Rightarrow> nat list \<Rightarrow> nat \<Rightarrow> nat option io" where
  "poll_gone 0 start pids deadline = Ret None"
| "poll_gone (Suc fuel) start pids deadline =
     all_gone pids (\<lambda>gone.
       if gone then Ret (Some (length pids))
       else Clock (\<lambda>now.
         if deadline \<le> now - start then io_bind (kill_survivors pids 0) (\<lambda>n. Ret (Some n))
         else Sleep POLL_MS (poll_gone fuel start pids deadline)))"

definition escalate_terminate :: "nat \<Rightarrow> nat list \<Rightarrow> nat \<Rightarrow> nat option io" where
  "escalate_terminate fuel pids deadline =
     (if pids = [] then Ret (Some 0)
      else terminate_all pids (Clock (\<lambda>start. poll_gone fuel start pids deadline)))"

definition REAP_KILL_DEADLINE :: nat where
  "REAP_KILL_DEADLINE = 1500"

section \<open>Orphaned monitor daemons\<close>

definition IPC_SOCKET_NAME :: string where
  "IPC_SOCKET_NAME = ''fsmonitor--daemon.ipc''"

record daemon_process =
  dp_pid :: nat
  dp_socket :: "string option"

fun socket_in_lines :: "string list \<Rightarrow> string option" where
  "socket_in_lines [] = None"
| "socket_in_lines (l # ls) =
     (case strip_prefix l ''n'' of
        None \<Rightarrow> socket_in_lines ls
      | Some name \<Rightarrow>
          if starts_with name ''->'' then socket_in_lines ls
          else if name = IPC_SOCKET_NAME then None
          else if path_file_name name = Some IPC_SOCKET_NAME then Some name
          else socket_in_lines ls)"

definition parse_lsof_socket_path :: "string \<Rightarrow> string option" where
  "parse_lsof_socket_path out = socket_in_lines (str_lines out)"

definition canonicalize_socket :: "string \<Rightarrow> string io" where
  "canonicalize_socket socket =
     (case path_parent socket of
        None \<Rightarrow> Ret socket
      | Some p \<Rightarrow> Canonicalize p (\<lambda>c. Ret (case (c, path_file_name socket) of
          (Some real_parent, Some name) \<Rightarrow> path_join real_parent name | _ \<Rightarrow> socket)))"

definition daemon_from_lsof_stdout :: "nat \<Rightarrow> string \<Rightarrow> daemon_process option io" where
  "daemon_from_lsof_stdout pid out =
     (if \<not> is_infix IPC_SOCKET_NAME out then Ret None
      else (case parse_lsof_socket_path out of
              None \<Rightarrow> Ret (Some \<lparr>dp_pid = pid, dp_socket = None\<rparr>)
            | Some s \<Rightarrow> io_bind (canonicalize_socket s) (\<lambda>c. Ret (Some \<lparr>dp_pid = pid, dp_socket = Some c\<rparr>))))"

text \<open>The batch: \<open>open_record\<close> is the process whose record is being read and the lines read so far.\<close>

fun split_records :: "(nat \<times> string) option \<Rightarrow> string list \<Rightarrow> (nat \<times> string) list" where
  "split_records open_record [] = (case open_record of Some r \<Rightarrow> [r] | None \<Rightarrow> [])"
| "split_records open_record (l # ls) =
     (case strip_prefix l ''p'' of
        Some field \<Rightarrow>
          (case open_record of Some r \<Rightarrow> [r] | None \<Rightarrow> []) @
          split_records (map_option (\<lambda>pid. (pid, [])) (parse_uint 32 (trim field))) ls
      | None \<Rightarrow>
          split_records (map_option (\<lambda>(pid, record). (pid, record @ l @ [CHR 0x0A])) open_record) ls)"

fun collect_daemons :: "(nat \<times> string) list \<Rightarrow> daemon_process list io" where
  "collect_daemons [] = Ret []"
| "collect_daemons ((pid, record) # rs) =
     io_bind (daemon_from_lsof_stdout pid record) (\<lambda>d.
     io_bind (collect_daemons rs) (\<lambda>ds. Ret (case d of Some d \<Rightarrow> d # ds | None \<Rightarrow> ds)))"

definition daemons_from_batched_lsof :: "string \<Rightarrow> daemon_process list io" where
  "daemons_from_batched_lsof out = collect_daemons (split_records None (str_lines out))"

definition pid_lines :: "string \<Rightarrow> nat list" where
  "pid_lines out = filter_map (\<lambda>l. parse_uint 32 (trim l)) (str_lines out)"

definition comma_list :: "nat list \<Rightarrow> string" where
  "comma_list pids = join '','' (map show_nat pids)"

definition enumerate_daemons :: "daemon_process list io" where
  "enumerate_daemons =
     Run_Tool [''pgrep'', ''-f'', ''git fsmonitor--daemon''] (\<lambda>r.
       case r of
         None \<Rightarrow> Ret []
       | Some out \<Rightarrow>
           if exit_code out \<noteq> Some 0 then Ret []
           else (let pids = pid_lines (from_utf8_lossy (stdout out)) in
                 if pids = [] then Ret []
                 else Run_Tool [''lsof'', ''-a'', ''-p'', comma_list pids, ''-U'', ''-F'', ''pn''] (\<lambda>r.
                   case r of
                     None \<Rightarrow> Ret []
                   | Some lsof \<Rightarrow> daemons_from_batched_lsof (from_utf8_lossy (stdout lsof)))))"

definition socket_path_to_git_dir :: "string \<Rightarrow> string option" where
  "socket_path_to_git_dir socket = path_parent socket"

definition is_orphan :: "string list option \<Rightarrow> string \<Rightarrow> daemon_process \<Rightarrow> bool" where
  "is_orphan live common d \<longleftrightarrow>
     (case dp_socket d of
        None \<Rightarrow> True
      | Some socket \<Rightarrow>
          (case (live, socket_path_to_git_dir socket) of
             (Some live, Some gd) \<Rightarrow> \<not> list_ex (same_path gd) live \<and> path_starts_with gd common
           | _ \<Rightarrow> False))"

definition classify_orphans :: "daemon_process list \<Rightarrow> string list option \<Rightarrow> string \<Rightarrow> nat list" where
  "classify_orphans daemons live common = map dp_pid (filter (is_orphan live common) daemons)"

fun live_dirs_of :: "worktree_info list \<Rightarrow> string list action" where
  "live_dirs_of [] = aret (Inr [])"
| "live_dirs_of (wt # wts) =
     (if wi_is_prunable wt then live_dirs_of wts
      else abind (perform (Exists (wi_path wt) Ret)) (\<lambda>there.
        if \<not> there then live_dirs_of wts
        else abind (perform (worktree_at (wi_path wt))) (\<lambda>p.
             abind (outcome (git_dir p)) (\<lambda>d.
             abind (live_dirs_of wts) (\<lambda>ds.
             aret (Inr (case d of Inr d \<Rightarrow> d # ds | Inl _ \<Rightarrow> ds)))))))"

definition live_git_dirs :: "repo_env \<Rightarrow> string list option action" where
  "live_git_dirs env =
     abind (perform (Worktrees (discovery_path env) Ret)) (\<lambda>r.
       case r of
         Inl _ \<Rightarrow> aret (Inr None)
       | Inr wts \<Rightarrow> abind (live_dirs_of wts) (\<lambda>ds. aret (Inr (Some ds))))"

definition reap_orphan_fsmonitor_daemons :: "nat \<Rightarrow> repo_env \<Rightarrow> nat option action" where
  "reap_orphan_fsmonitor_daemons fuel env =
     abind (perform enumerate_daemons) (\<lambda>daemons.
       if daemons = [] then aret (Inr (Some 0))
       else
         abind (live_git_dirs env) (\<lambda>live.
         abind (perform (worktree_at (common_dir env))) (\<lambda>common.
         perform (escalate_terminate fuel (classify_orphans daemons live common) REAP_KILL_DEADLINE))))"

section \<open>Processes that run in the worktree\<close>

record cwd_process =
  cp_pid :: nat
  cp_command :: string
  cp_cwd :: string

text \<open>The tag is the first character of a line; a line that starts with a multi-byte one is skipped.\<close>

fun cwd_records :: "nat option \<Rightarrow> string \<Rightarrow> string list \<Rightarrow> cwd_process list" where
  "cwd_records pid command [] = []"
| "cwd_records pid command (l # ls) =
     (case l of
        [] \<Rightarrow> cwd_records pid command ls
      | tag # rest \<Rightarrow>
          if tag = CHR ''p'' then cwd_records (parse_uint 32 (trim rest)) [] ls
          else if tag = CHR ''c'' then cwd_records pid rest ls
          else if tag = CHR ''n'' then
            (case pid of Some p \<Rightarrow> [\<lparr>cp_pid = p, cp_command = command, cp_cwd = rest\<rparr>] | None \<Rightarrow> []) @
            cwd_records pid command ls
          else cwd_records pid command ls)"

definition parse_lsof_cwd :: "string \<Rightarrow> cwd_process list" where
  "parse_lsof_cwd out = cwd_records None [] (str_lines out)"

definition parse_ps_tty :: "string \<Rightarrow> (nat \<times> bool) list" where
  "parse_ps_tty out =
     filter_map (\<lambda>line.
       case split_whitespace line of
         [] \<Rightarrow> None
       | f # fs \<Rightarrow>
           map_option (\<lambda>pid. (pid, case fs of tty # _ \<Rightarrow> \<not> (starts_with tty ''?'' \<or> tty = ''-'') | [] \<Rightarrow> True))
             (parse_uint 32 f)) (str_lines out)"

definition without_controlling_terminal :: "nat list \<Rightarrow> nat list io" where
  "without_controlling_terminal pids =
     (if pids = [] then Ret []
      else Run_Tool [''ps'', ''-o'', ''pid=,tty='', ''-p'', comma_list pids] (\<lambda>r. Ret (case r of
        None \<Rightarrow> []
      | Some out \<Rightarrow> filter_map (\<lambda>(pid, has_tty). if has_tty then None else Some pid)
                      (parse_ps_tty (from_utf8_lossy (stdout out))))))"

fun proc_entries :: "string \<Rightarrow> string list \<Rightarrow> cwd_process list io" where
  "proc_entries root [] = Ret []"
| "proc_entries root (n # ns) =
     (case if valid_utf8 n then parse_uint 32 n else None of
        None \<Rightarrow> proc_entries root ns
      | Some pid \<Rightarrow>
          Read_Link (path_join (path_join root n) ''cwd'') (\<lambda>l.
            case l of
              None \<Rightarrow> proc_entries root ns
            | Some cwd \<Rightarrow>
                Read_File (path_join (path_join root n) ''comm'') (\<lambda>c.
                  io_bind (proc_entries root ns) (\<lambda>ps.
                  Ret (\<lparr>cp_pid = pid,
                        cp_command = (case c of Inr t \<Rightarrow> if valid_utf8 t then rev (dropWhile (\<lambda>x. x = CHR 0x0A) (rev t)) else []
                                      | Inl _ \<Rightarrow> []),
                        cp_cwd = cwd\<rparr> # ps)))))"

definition processes_from_proc :: "string \<Rightarrow> cwd_process list io" where
  "processes_from_proc root =
     Read_Dir root (\<lambda>es. case es of None \<Rightarrow> Ret [] | Some es \<Rightarrow> proc_entries root (map fst es))"

definition processes_from_lsof :: "cwd_process list io" where
  "processes_from_lsof =
     Run_Tool [''lsof'', ''-d'', ''cwd'', ''-F'', ''pcn''] (\<lambda>r.
       Ret (case r of None \<Rightarrow> [] | Some out \<Rightarrow> parse_lsof_cwd (from_utf8_lossy (stdout out))))"

text \<open>\<open>linux\<close> is the target platform, \<open>self_pid\<close> the current process.\<close>

definition processes_under :: "bool \<Rightarrow> nat \<Rightarrow> string \<Rightarrow> cwd_process list io" where
  "processes_under linux self_pid path =
     io_bind (worktree_at path) (\<lambda>canonical.
     io_bind (if linux then processes_from_proc ''/proc'' else processes_from_lsof) (\<lambda>ps.
     Ret (sort_key cp_pid (filter (\<lambda>p. path_starts_with (cp_cwd p) canonical) (filter (\<lambda>p. cp_pid p \<noteq> self_pid) ps)))))"

definition collect_reapable :: "bool \<Rightarrow> nat \<Rightarrow> string \<Rightarrow> cwd_process list io" where
  "collect_reapable linux self_pid path =
     io_bind (processes_under linux self_pid path) (\<lambda>candidates.
       if candidates = [] then Ret []
       else io_bind (without_controlling_terminal (map cp_pid candidates)) (\<lambda>reapable.
         Ret (filter (\<lambda>p. cp_pid p \<in> set reapable) candidates)))"

definition reap_pids :: "nat \<Rightarrow> nat list \<Rightarrow> nat option io" where
  "reap_pids fuel pids = escalate_terminate fuel pids REAP_KILL_DEADLINE"

end
