(* ===== verification/Git_Parse.thy ===== *)
theory Git_Parse
  imports Git_Refs Text_Decode
begin

text \<open>
  Parsers of git output: \<open>src/git/parse.rs\<close> (worktree lists, the default branch, porcelain status) and
  \<open>src/git/diff.rs\<close> (numstat and shortstat). Byte input is a list of bytes; decoding is \<open>from_utf8_lossy\<close>
  of \<open>Text_Decode\<close>.
\<close>

section \<open>Worktree lists\<close>

definition record_key :: "string \<Rightarrow> string \<times> string option" where
  "record_key r = (case split_once CHR '' '' r of Some (k, v) \<Rightarrow> (k, Some v) | None \<Rightarrow> (r, None))"

definition blank_worktree :: "string \<Rightarrow> worktree_info" where
  "blank_worktree path = \<lparr>wi_path = path, wi_head = [], wi_branch = None, wi_bare = False, wi_detached = False,
     wi_locked = None, wi_prunable = None\<rparr>"

text \<open>One attribute of the worktree being read.\<close>

definition read_attribute :: "string \<Rightarrow> string option \<Rightarrow> worktree_info \<Rightarrow> string + worktree_info" where
  "read_attribute key v wt =
     (if key = ''HEAD'' then
        (case v of None \<Rightarrow> Inl ''HEAD record missing SHA''
         | Some sha \<Rightarrow> Inr (wt\<lparr>wi_head := from_utf8_lossy sha\<rparr>))
      else if key = ''branch'' then
        (case v of None \<Rightarrow> Inl ''branch record missing ref''
         | Some r \<Rightarrow> Inr (wt\<lparr>wi_branch := Some (from_utf8_lossy
             (case strip_prefix r ''refs/heads/'' of Some b \<Rightarrow> b | None \<Rightarrow> r))\<rparr>))
      else if key = ''bare'' then Inr (wt\<lparr>wi_bare := True\<rparr>)
      else if key = ''detached'' then Inr (wt\<lparr>wi_detached := True\<rparr>)
      else if key = ''locked'' then
        Inr (wt\<lparr>wi_locked := Some (from_utf8_lossy (case v of Some r \<Rightarrow> r | None \<Rightarrow> []))\<rparr>)
      else if key = ''prunable'' then
        Inr (wt\<lparr>wi_prunable := Some (from_utf8_lossy (case v of Some r \<Rightarrow> r | None \<Rightarrow> []))\<rparr>)
      else Inr wt)"

definition finished :: "worktree_info option \<Rightarrow> worktree_info list" where
  "finished current = (case current of Some wt \<Rightarrow> [wt] | None \<Rightarrow> [])"

fun read_records :: "worktree_info option \<Rightarrow> string list \<Rightarrow> string + worktree_info list" where
  "read_records current [] = Inr (finished current)"
| "read_records current (r # rs) =
     (if r = [] then rbind (read_records None rs) (\<lambda>wts. Inr (finished current @ wts))
      else (case record_key r of (key, v) \<Rightarrow>
        if key = ''worktree'' then
          (case v of
             None \<Rightarrow> Inl ''worktree record missing path''
           | Some path \<Rightarrow> read_records (Some (blank_worktree path)) rs)
        else
          (case current of
             None \<Rightarrow> read_records None rs
           | Some wt \<Rightarrow> rbind (read_attribute key v wt) (\<lambda>wt'. read_records (Some wt') rs))))"

definition parse_porcelain_list_z :: "string \<Rightarrow> string + worktree_info list" where
  "parse_porcelain_list_z out = read_records None (split_on CHR 0x00 out)"

section \<open>The default branch\<close>

definition default_branch_from_local :: "string \<Rightarrow> string \<Rightarrow> string + string" where
  "default_branch_from_local remote out =
     (let t = trim out;
          branch = (case strip_prefix t (remote @ ''/'') of Some b \<Rightarrow> b | None \<Rightarrow> t)
      in if branch = [] then Inl (''Empty branch name from '' @ remote @ ''/HEAD'') else Inr branch)"

definition default_branch_from_remote :: "string \<Rightarrow> string + string" where
  "default_branch_from_remote out =
     (case find_map (\<lambda>line.
         Option.bind (strip_prefix line ''ref: '') (\<lambda>symref.
         Option.bind (split_once CHR 0x09 symref) (\<lambda>(ref_path, _).
         strip_prefix ref_path ''refs/heads/''))) (str_lines out) of
        Some b \<Rightarrow> Inr b
      | None \<Rightarrow> Inl ''Could not find symbolic ref in ls-remote output'')"

section \<open>Porcelain status\<close>

fun status_entries :: "string list \<Rightarrow> string list" where
  "status_entries [] = []"
| "status_entries [e] = (if length e < 3 then [] else [drop 3 e])"
| "status_entries (e # old # es) =
     (if length e < 3 then status_entries (old # es)
      else if CHR ''R'' \<in> set (take 2 e) \<or> CHR ''C'' \<in> set (take 2 e)
      then drop 3 e # old # status_entries es
      else drop 3 e # status_entries (old # es))"

definition parse_porcelain_z :: "string \<Rightarrow> string list" where
  "parse_porcelain_z out = status_entries (filter (\<lambda>e. e \<noteq> []) (split_on CHR 0x00 out))"

text \<open>
  \<open>parse_untracked_files\<close> slices a \<open>str\<close>: a slice that does not start and end between characters panics,
  which is \<open>None\<close>.
\<close>

definition char_boundary :: "string \<Rightarrow> nat \<Rightarrow> bool" where
  "char_boundary s n \<longleftrightarrow> n = length s \<or> n < length s \<and> \<not> is_cont (s ! n)"

fun untracked_entries :: "string list \<Rightarrow> string list option" where
  "untracked_entries [] = Some []"
| "untracked_entries (e # es) =
     (if length e < 3 then untracked_entries es
      else if \<not> char_boundary e 2 \<or> \<not> char_boundary e 3 then None
      else (let rest = untracked_entries
                  (if CHR ''R'' \<in> set (take 2 e) \<or> CHR ''C'' \<in> set (take 2 e) then drop 1 es else es)
            in if take 2 e = ''??'' then map_option (\<lambda>fs. drop 3 e # fs) rest else rest))"

definition parse_untracked_files :: "string \<Rightarrow> string list option" where
  "parse_untracked_files out = untracked_entries (filter (\<lambda>e. e \<noteq> []) (split_on CHR 0x00 out))"

section \<open>Diff statistics\<close>

text \<open>\<open>strip\<close> is \<open>ansi_strip\<close> of the crate \<open>ansi_str\<close>.\<close>

definition numstat_start :: "char \<Rightarrow> bool" where
  "numstat_start c \<longleftrightarrow> is_ascii_digit c \<or> c = CHR ''-''"

definition parse_numstat_line :: "(string \<Rightarrow> string) \<Rightarrow> string \<Rightarrow> (nat \<times> nat) option" where
  "parse_numstat_line strip line =
     (case split_on CHR 0x09 (dropWhile (\<lambda>c. \<not> numstat_start c) (strip line)) of
        a # d # _ \<Rightarrow>
          if a = ''-'' \<or> d = ''-'' then None
          else Option.bind (parse_usize a) (\<lambda>x. Option.bind (parse_usize d) (\<lambda>y. Some (x, y)))
      | _ \<Rightarrow> None)"

definition part_number :: "string \<Rightarrow> nat" where
  "part_number p = (case find_map parse_usize (split_whitespace p) of Some n \<Rightarrow> n | None \<Rightarrow> 0)"

definition stat_part :: "string \<Rightarrow> nat \<times> nat \<times> nat \<Rightarrow> nat \<times> nat \<times> nat" where
  "stat_part p = (\<lambda>(files, ins, del).
     if is_infix ''(+)'' p then (files, part_number p, del)
     else if is_infix ''(-)'' p then (files, ins, part_number p)
     else (files, ins, del))"

definition parse_shortstat :: "string \<Rightarrow> (nat \<times> nat \<times> nat) option" where
  "parse_shortstat out =
     (let l = trim out in
      if l = [] then None
      else (case split_on CHR '','' l of
              first # parts \<Rightarrow> Some (fold stat_part parts (part_number first, 0, 0))
            | [] \<Rightarrow> None))"

record diff_stats =
  st_files :: nat
  st_insertions :: nat
  st_deletions :: nat

definition diff_stats_from_shortstat :: "string \<Rightarrow> diff_stats" where
  "diff_stats_from_shortstat out =
     (case parse_shortstat out of
        None \<Rightarrow> \<lparr>st_files = 0, st_insertions = 0, st_deletions = 0\<rparr>
      | Some (f, i, d) \<Rightarrow> \<lparr>st_files = f, st_insertions = i, st_deletions = d\<rparr>)"

text \<open>\<open>green\<close> and \<open>red\<close> are the markup of \<open>color_print\<close>.\<close>

definition format_summary :: "(string \<Rightarrow> string) \<Rightarrow> (string \<Rightarrow> string) \<Rightarrow> diff_stats \<Rightarrow> string list" where
  "format_summary green red st =
     (if st_files st > 0 then [show_nat (st_files st) @ '' file'' @ (if st_files st = 1 then [] else ''s'')] else []) @
     (if st_insertions st > 0 then [green (''+'' @ show_nat (st_insertions st))] else []) @
     (if st_deletions st > 0 then [red (''-'' @ show_nat (st_deletions st))] else [])"

section \<open>Round trips\<close>

text \<open>What \<open>git worktree list --porcelain -z\<close> prints for a worktree.\<close>

definition worktree_records :: "worktree_info \<Rightarrow> string list" where
  "worktree_records wt =
     [''worktree '' @ wi_path wt] @
     (if wi_bare wt then [''bare''] else [''HEAD '' @ wi_head wt]) @
     (case wi_branch wt of Some b \<Rightarrow> [''branch refs/heads/'' @ b] | None \<Rightarrow> []) @
     (if wi_detached wt then [''detached''] else []) @
     (case wi_locked wt of None \<Rightarrow> [] | Some r \<Rightarrow> if r = [] then [''locked''] else [''locked '' @ r]) @
     (case wi_prunable wt of None \<Rightarrow> [] | Some r \<Rightarrow> [''prunable '' @ r])"

definition print_worktrees :: "worktree_info list \<Rightarrow> string" where
  "print_worktrees wts = concat (map (\<lambda>wt. concat (map (\<lambda>r. r @ [CHR 0x00]) (worktree_records wt @ [[]]))) wts)"

definition printable :: "worktree_info \<Rightarrow> bool" where
  "printable wt \<longleftrightarrow>
     CHR 0x00 \<notin> set (wi_path wt @ wi_head wt) \<and> valid_utf8 (wi_head wt) \<and> (wi_bare wt \<longrightarrow> wi_head wt = []) \<and>
     list_all (\<lambda>x. case x of None \<Rightarrow> True | Some s \<Rightarrow> CHR 0x00 \<notin> set s \<and> valid_utf8 s)
       [wi_branch wt, wi_locked wt, wi_prunable wt]"

lemma split_on_terminated:
  "\<forall>r\<in>set rs. c \<notin> set r \<Longrightarrow> split_on c (concat (map (\<lambda>r. r @ [c]) rs)) = rs @ [[]]"
  by (induction rs) (auto simp: split_on_append)

lemma split_print:
  "\<forall>wt\<in>set wts. \<forall>r\<in>set (worktree_records wt). CHR 0x00 \<notin> set r \<Longrightarrow>
   split_on CHR 0x00 (print_worktrees wts) = concat (map (\<lambda>wt. worktree_records wt @ [[]]) wts) @ [[]]"
proof -
  assume a: "\<forall>wt\<in>set wts. \<forall>r\<in>set (worktree_records wt). CHR 0x00 \<notin> set r"
  let ?rs = "concat (map (\<lambda>wt. worktree_records wt @ [[]]) wts)"
  have "print_worktrees wts = concat (map (\<lambda>r. r @ [CHR 0x00]) ?rs)"
    by (induction wts) (simp_all add: print_worktrees_def)
  moreover have "\<forall>r\<in>set ?rs. CHR 0x00 \<notin> set r" using a by auto
  ultimately show ?thesis by (simp only: split_on_terminated)
qed

lemma printable_records: "printable wt \<Longrightarrow> r \<in> set (worktree_records wt) \<Longrightarrow> CHR 0x00 \<notin> set r"
  by (auto simp: printable_def worktree_records_def split: option.splits if_splits)

lemma read_worktree:
  assumes "printable wt"
  shows "read_records None (worktree_records wt @ [] # rs) = rbind (read_records None rs) (\<lambda>ws. Inr (wt # ws))"
proof -
  have bare: "wi_bare wt \<longrightarrow> wi_head wt = []" and head: "from_utf8_lossy (wi_head wt) = wi_head wt"
    using assms by (simp_all add: printable_def lossy_valid)
  have opt: "from_utf8_lossy b = b" if "wi_branch wt = Some b \<or> wi_locked wt = Some b \<or> wi_prunable wt = Some b" for b
    using assms that by (auto simp: printable_def lossy_valid)
  show ?thesis
    using bare head opt
    by (cases wt) (auto simp: worktree_records_def record_key_def read_attribute_def blank_worktree_def finished_def
      strip_prefix_def starts_with_def split: option.splits)
qed

lemma read_worktrees:
  "\<forall>wt\<in>set wts. printable wt \<Longrightarrow>
   read_records None (concat (map (\<lambda>wt. worktree_records wt @ [[]]) wts) @ [[]]) = Inr wts"
  by (induction wts) (simp_all add: finished_def read_worktree)

text \<open>
  C21. Reading back what git prints gives the worktrees: paths of arbitrary bytes (newlines and spaces
  included), branches, lock and prune reasons, bare and detached flags, in git's order.
\<close>

theorem worktree_list_roundtrip:
  assumes "\<forall>wt\<in>set wts. printable wt"
  shows "parse_porcelain_list_z (print_worktrees wts) = Inr wts"
proof -
  have "\<forall>wt\<in>set wts. \<forall>r\<in>set (worktree_records wt). CHR 0x00 \<notin> set r"
    using assms printable_records by blast
  from split_print[OF this] show ?thesis
    by (simp add: parse_porcelain_list_z_def read_worktrees[OF assms])
qed

definition odd_worktrees :: "worktree_info list" where
  "odd_worktrees =
     [\<lparr>wi_path = ''/r'', wi_head = [], wi_branch = None, wi_bare = True, wi_detached = False, wi_locked = None, wi_prunable = None\<rparr>,
      \<lparr>wi_path = ''/w a'' @ [CHR 0x0A] @ ''b'' @ [CHR 0xFF], wi_head = ''12'', wi_branch = Some ''x/y'', wi_bare = False,
       wi_detached = False, wi_locked = Some [], wi_prunable = Some ''gone away''\<rparr>]"

lemma worktree_list_roundtrip_witness:
  "parse_porcelain_list_z (print_worktrees odd_worktrees) = Inr odd_worktrees"
proof -
  have "\<forall>wt\<in>set odd_worktrees. printable wt" by code_simp
  then show ?thesis by (rule worktree_list_roundtrip)
qed

end
