(* ===== verification/Remote_Url.thy ===== *)
theory Remote_Url
  imports Text_Decode
begin

text \<open>
  Remote URLs and forges: \<open>src/git/url.rs\<close>, the classification of \<open>src/git/ci_platform.rs\<close> and
  \<open>fork_remote_url\<close> of \<open>src/git/remote_ref/azure.rs\<close>. The transport syntax is parsed by the crate
  \<open>gix-url\<close> (the parameter \<open>gix\<close>, what its accessors return); percent-coding is the crate
  \<open>urlencoding\<close> (\<open>dec\<close>, \<open>enc\<close>). The theorems: what a parsed remote looks like, and that project
  identifiers, the keys of approvals, tell remotes apart.
\<close>

section \<open>Forges\<close>

datatype forge_kind = GitHub | GitLab | Gitea | AzureDevOps
datatype ref_type = Pr | Mr

definition all_digits :: "string \<Rightarrow> bool" where
  "all_digits s \<longleftrightarrow> s \<noteq> [] \<and> list_all is_ascii_digit s"

definition trim_end_dots :: "string \<Rightarrow> string" where
  "trim_end_dots s = rev (dropWhile (\<lambda>c. c = CHR ''.'') (rev s))"

definition normalized_hostname :: "string \<Rightarrow> string" where
  "normalized_hostname host =
     (let h = trim host;
          h' = (case rsplit_once CHR '':'' h of
                  Some (name, port) \<Rightarrow> if all_digits port then name else h
                | None \<Rightarrow> h)
      in to_ascii_lowercase (trim_end_dots h'))"

definition normalized_host_is_within :: "string \<Rightarrow> string \<Rightarrow> bool" where
  "normalized_host_is_within host domain \<longleftrightarrow>
     host = domain \<or> (case strip_suffix host domain of Some p \<Rightarrow> ends_with p ''.'' | None \<Rightarrow> False)"

definition host_is_within :: "string \<Rightarrow> string \<Rightarrow> bool" where
  "host_is_within host domain = normalized_host_is_within (normalized_hostname host) domain"

definition forge_from_host :: "string \<Rightarrow> forge_kind option" where
  "forge_from_host h =
     (let host = normalized_hostname h in
      if normalized_host_is_within host ''dev.azure.com'' \<or> normalized_host_is_within host ''visualstudio.com''
        then Some AzureDevOps
      else if is_infix ''github'' host then Some GitHub
      else if is_infix ''gitlab'' host then Some GitLab
      else if is_infix ''gitea'' host then Some Gitea
      else None)"

fun forge_cli :: "forge_kind \<Rightarrow> string" where
  "forge_cli GitHub = ''gh''"
| "forge_cli GitLab = ''glab''"
| "forge_cli Gitea = ''tea''"
| "forge_cli AzureDevOps = ''az''"

fun forge_ref_type :: "forge_kind \<Rightarrow> ref_type" where
  "forge_ref_type GitLab = Mr"
| "forge_ref_type _ = Pr"

text \<open>\<open>FromStr\<close> as \<open>strum\<close> derives it.\<close>

definition parse_forge_kind :: "string \<Rightarrow> forge_kind option" where
  "parse_forge_kind s =
     (if s = ''github'' then Some GitHub else if s = ''gitlab'' then Some GitLab
      else if s = ''gitea'' then Some Gitea
      else if s = ''azure-devops'' \<or> s = ''azuredevops'' then Some AzureDevOps else None)"

section \<open>Paths and authorities\<close>

definition split_namespace_repo :: "string \<Rightarrow> (string \<times> string) option" where
  "split_namespace_repo path =
     (let segments = filter (\<lambda>s. s \<noteq> []) (split_on CHR ''/'' path) in
      if length segments < 2 then None
      else (let repo = (case strip_suffix (last segments) ''.git'' of Some r \<Rightarrow> r | None \<Rightarrow> last segments);
                namespace = join ''/'' (butlast segments)
            in if namespace = [] \<or> repo = [] then None else Some (namespace, repo)))"

definition canonical_url_path_segment :: "(string \<Rightarrow> string option) \<Rightarrow> (string \<Rightarrow> string) \<Rightarrow> string \<Rightarrow> string" where
  "canonical_url_path_segment dec enc s = enc (case dec s of Some d \<Rightarrow> d | None \<Rightarrow> s)"

definition url_path_segments_eq :: "(string \<Rightarrow> string option) \<Rightarrow> (string \<Rightarrow> string) \<Rightarrow> string \<Rightarrow> string \<Rightarrow> bool" where
  "url_path_segments_eq dec enc l r \<longleftrightarrow>
     to_ascii_lowercase (canonical_url_path_segment dec enc l) =
     to_ascii_lowercase (canonical_url_path_segment dec enc r)"

definition authority_host :: "string \<Rightarrow> string option" where
  "authority_host authority =
     (let host = (case rsplit_once CHR ''@'' authority of Some (_, h) \<Rightarrow> h | None \<Rightarrow> authority)
      in if host \<noteq> [] \<and> normalized_hostname host \<noteq> [] then Some host else None)"

text \<open>
  The parser of \<open>std::net::Ipv6Addr\<close>: each reader returns the rest of the text, or \<open>None\<close> and reads
  nothing. A number has at most the given digits; an embedded IPv4 address takes two groups.
\<close>

definition digit_in :: "nat \<Rightarrow> char \<Rightarrow> nat option" where
  "digit_in radix c =
     (let n = of_char c;
          d = (if 48 \<le> n \<and> n \<le> 57 then n - 48
               else if 97 \<le> n \<and> n \<le> 122 then n - 87
               else if 65 \<le> n \<and> n \<le> 90 then n - 55 else 36 :: nat)
      in if d < radix then Some d else None)"

definition read_number :: "nat \<Rightarrow> nat \<Rightarrow> bool \<Rightarrow> nat \<Rightarrow> string \<Rightarrow> string option" where
  "read_number radix max_digits allow_zero bound s =
     (let ds = takeWhile (\<lambda>c. digit_in radix c \<noteq> None) s;
          value = foldl (\<lambda>a c. radix * a + the (digit_in radix c)) 0 ds
      in if max_digits < length ds \<or> ds = [] \<or> (\<not> allow_zero \<and> hd ds = CHR ''0'' \<and> 1 < length ds) \<or> bound \<le> value
         then None else Some (drop (length ds) s))"

definition read_given_char :: "char \<Rightarrow> string \<Rightarrow> string option" where
  "read_given_char c s = (case s of [] \<Rightarrow> None | d # r \<Rightarrow> if d = c then Some r else None)"

definition read_separator :: "char \<Rightarrow> nat \<Rightarrow> (string \<Rightarrow> string option) \<Rightarrow> string \<Rightarrow> string option" where
  "read_separator c i inner s = (if 0 < i then Option.bind (read_given_char c s) inner else inner s)"

fun read_octets :: "nat \<Rightarrow> nat \<Rightarrow> string \<Rightarrow> string option" where
  "read_octets 0 i s = Some s"
| "read_octets (Suc n) i s =
     Option.bind (read_separator CHR ''.'' i (read_number 10 3 False 256) s) (read_octets n (Suc i))"

definition read_ipv4_addr :: "string \<Rightarrow> string option" where
  "read_ipv4_addr s = read_octets 4 0 s"

fun read_groups :: "nat \<Rightarrow> nat \<Rightarrow> string \<Rightarrow> nat \<times> bool \<times> string" where
  "read_groups 0 i s = (i, False, s)"
| "read_groups (Suc n) i s =
     (case (if 0 < n then read_separator CHR '':'' i read_ipv4_addr s else None) of
        Some r \<Rightarrow> (i + 2, True, r)
      | None \<Rightarrow>
          (case read_separator CHR '':'' i (read_number 16 4 True 65536) s of
             Some r \<Rightarrow> read_groups n (Suc i) r
           | None \<Rightarrow> (i, False, s)))"

definition read_ipv6_addr :: "string \<Rightarrow> string option" where
  "read_ipv6_addr s =
     (case read_groups 8 0 s of (n, ipv4, r) \<Rightarrow>
        if n = 8 then Some r
        else if ipv4 then None
        else Option.bind (read_given_char CHR '':'' r) (\<lambda>r.
             Option.bind (read_given_char CHR '':'' r) (\<lambda>r.
             (case read_groups (8 - (n + 1)) 0 r of (_, _, r) \<Rightarrow> Some r))))"

definition is_ipv6_addr :: "string \<Rightarrow> bool" where
  "is_ipv6_addr s \<longleftrightarrow> read_ipv6_addr s = Some []"

definition identity_host :: "string \<Rightarrow> string option" where
  "identity_host host =
     (let inner = (case Option.bind (strip_prefix host ''['') (\<lambda>h. strip_suffix h '']'') of
                     Some i \<Rightarrow> i | None \<Rightarrow> host)
      in if CHR '':'' \<notin> set inner then (if inner = host then Some host else None)
         else (let address = (case split_once CHR ''%'' inner of Some (a, _) \<Rightarrow> a | None \<Rightarrow> inner)
               in if is_ipv6_addr address then Some (''['' @ inner @ '']'') else None))"

section \<open>Parsed remotes\<close>

datatype gix_scheme = Http | Https | Git_Scheme | Ssh | Other_Scheme

text \<open>
  What \<open>gix_url::parse\<close> returns: the scheme, \<open>host_argument_safe()\<close>, the port, the user, whether the URL
  has the SCP form, and the path in its original spelling.
\<close>

record gix_url =
  gx_scheme :: gix_scheme
  gx_host :: "string option"
  gx_port :: "nat option"
  gx_user :: "string option"
  gx_alternative_form :: bool
  gx_path :: string

type_synonym gix = "string \<Rightarrow> gix_url option"

record git_remote_url =
  gr_host :: string
  gr_ssh_port :: "nat option"
  gr_owner :: string
  gr_repo :: string

definition host_and_port :: "gix_url \<Rightarrow> string \<Rightarrow> (string \<times> nat option) option" where
  "host_and_port u host =
     (case gx_scheme u of
        Ssh \<Rightarrow>
          if gx_alternative_form u \<and> (case gx_user u of None \<Rightarrow> True | Some n \<Rightarrow> n = []) then None
          else Some (host, case gx_port u of Some p \<Rightarrow> if p = 22 then None else Some p | None \<Rightarrow> None)
      | Other_Scheme \<Rightarrow> None
      | _ \<Rightarrow> (case gx_port u of Some p \<Rightarrow> Some (host @ '':'' @ show_nat p, None) | None \<Rightarrow> Some (host, None)))"

definition parse_remote_url :: "gix \<Rightarrow> string \<Rightarrow> git_remote_url option" where
  "parse_remote_url gix url =
     Option.bind (gix (trim url)) (\<lambda>u.
     Option.bind (Option.bind (gx_host u) identity_host) (\<lambda>host.
     if normalized_hostname host = [] then None
     else Option.bind (host_and_port u host) (\<lambda>(host, port).
          if \<not> valid_utf8 (gx_path u) then None
          else Option.bind (split_namespace_repo (gx_path u)) (\<lambda>(namespace, repo).
            Some \<lparr>gr_host = host, gr_ssh_port = port, gr_owner = namespace, gr_repo = repo\<rparr>))))"

definition url_project_identifier :: "git_remote_url \<Rightarrow> string" where
  "url_project_identifier r =
     (case gr_ssh_port r of
        Some p \<Rightarrow> gr_host r @ '':'' @ show_nat p @ ''/'' @ gr_owner r @ ''/'' @ gr_repo r
      | None \<Rightarrow> gr_host r @ ''/'' @ gr_owner r @ ''/'' @ gr_repo r)"

definition url_forge_kind :: "git_remote_url \<Rightarrow> forge_kind option" where
  "url_forge_kind r = forge_from_host (gr_host r)"

definition is_github :: "git_remote_url \<Rightarrow> bool" where
  "is_github r \<longleftrightarrow> url_forge_kind r = Some GitHub"

definition is_gitea :: "git_remote_url \<Rightarrow> bool" where
  "is_gitea r \<longleftrightarrow> url_forge_kind r = Some Gitea"

definition is_azure_devops :: "git_remote_url \<Rightarrow> bool" where
  "is_azure_devops r \<longleftrightarrow> url_forge_kind r = Some AzureDevOps"

definition nth_part :: "string list \<Rightarrow> nat \<Rightarrow> string option" where
  "nth_part parts n = (if n < length parts then Some (parts ! n) else None)"

definition azure_organization :: "git_remote_url \<Rightarrow> string option" where
  "azure_organization r =
     (if \<not> is_azure_devops r then None
      else (let parts = split_on CHR ''/'' (gr_owner r);
                host = normalized_hostname (gr_host r)
            in if host = ''ssh.dev.azure.com'' then nth_part parts 1
               else if host_is_within host ''dev.azure.com'' then nth_part parts 0
               else nth_part (split_on CHR ''.'' (gr_host r)) 0))"

definition azure_project :: "git_remote_url \<Rightarrow> string option" where
  "azure_project r =
     (if \<not> is_azure_devops r then None
      else (let parts = split_on CHR ''/'' (gr_owner r);
                host = normalized_hostname (gr_host r)
            in if host = ''ssh.dev.azure.com'' then nth_part parts 2
               else if host_is_within host ''dev.azure.com'' then nth_part parts 1
               else nth_part parts 0))"

definition fork_remote_url ::
  "(string \<Rightarrow> string option) \<Rightarrow> (string \<Rightarrow> string) \<Rightarrow> string \<Rightarrow> string \<Rightarrow> string \<Rightarrow> string \<Rightarrow> string" where
  "fork_remote_url dec enc host organization project repo =
     (let o' = canonical_url_path_segment dec enc organization;
          p = canonical_url_path_segment dec enc project;
          r = canonical_url_path_segment dec enc repo
      in if host_is_within host ''visualstudio.com''
         then ''https://'' @ host @ ''/'' @ p @ ''/_git/'' @ r
         else ''https://'' @ host @ ''/'' @ o' @ ''/'' @ p @ ''/_git/'' @ r)"

definition web_url :: "(string \<Rightarrow> string option) \<Rightarrow> (string \<Rightarrow> string) \<Rightarrow> git_remote_url \<Rightarrow> string option" where
  "web_url dec enc r =
     (if is_azure_devops r then
        Option.bind (azure_organization r) (\<lambda>org.
        Option.bind (azure_project r) (\<lambda>project.
        Some (fork_remote_url dec enc
          (if host_is_within (gr_host r) ''visualstudio.com'' then gr_host r else ''dev.azure.com'')
          org project (gr_repo r))))
      else Some (''https://'' @ gr_host r @ ''/'' @ gr_owner r @ ''/'' @ gr_repo r))"

section \<open>Repository metadata\<close>

datatype git_repo_provider = Provider forge_kind | Provider_Unknown

record git_repo_info =
  ri_url :: string
  ri_provider :: git_repo_provider
  ri_host :: string
  ri_owner :: string
  ri_name :: string
  ri_project :: "string option"
  ri_remote :: "string option"

definition azure_repo_info_parts :: "git_remote_url \<Rightarrow> (string \<times> string \<times> string) option" where
  "azure_repo_info_parts r =
     (case (azure_organization r, azure_project r) of
        (Some org, Some project) \<Rightarrow>
          Some (if host_is_within (gr_host r) ''visualstudio.com'' then gr_host r else ''dev.azure.com'', org, project)
      | _ \<Rightarrow>
          (let parts = split_on CHR ''/'' (gr_owner r) in
           if 3 \<le> length parts \<and> parts ! 2 = ''_git'' then Some (gr_host r, parts ! 0, parts ! 1)
           else if 3 \<le> length parts \<and> parts ! 0 = ''v3'' then Some (gr_host r, parts ! 1, parts ! 2)
           else None))"

definition plain_repo_info ::
  "(string \<Rightarrow> string option) \<Rightarrow> (string \<Rightarrow> string) \<Rightarrow> git_remote_url \<Rightarrow> git_repo_provider \<Rightarrow> git_repo_info option" where
  "plain_repo_info dec enc r provider =
     map_option (\<lambda>url. \<lparr>ri_url = url, ri_provider = provider, ri_host = gr_host r, ri_owner = gr_owner r,
       ri_name = gr_repo r, ri_project = None, ri_remote = None\<rparr>) (web_url dec enc r)"

definition url_repo_info ::
  "(string \<Rightarrow> string option) \<Rightarrow> (string \<Rightarrow> string) \<Rightarrow> git_remote_url \<Rightarrow> string option \<Rightarrow> git_repo_info option" where
  "url_repo_info dec enc r override =
     (let over = Option.bind override parse_forge_kind;
          from_host = url_forge_kind r;
          provider = (case over of Some k \<Rightarrow> Provider k
                      | None \<Rightarrow> (case from_host of Some k \<Rightarrow> Provider k | None \<Rightarrow> Provider_Unknown))
      in if provider = Provider AzureDevOps then
           (case azure_repo_info_parts r of
              Some (host, org, project) \<Rightarrow>
                Some \<lparr>ri_url = fork_remote_url dec enc host org project (gr_repo r), ri_provider = provider,
                  ri_host = host, ri_owner = org, ri_name = gr_repo r, ri_project = Some project, ri_remote = None\<rparr>
            | None \<Rightarrow>
                if over = Some AzureDevOps \<and> from_host \<noteq> Some AzureDevOps
                then plain_repo_info dec enc r Provider_Unknown
                else plain_repo_info dec enc r provider)
         else plain_repo_info dec enc r provider)"

section \<open>Identifiers of earlier versions\<close>

definition legacy_parts :: "string \<Rightarrow> (string \<times> string) option" where
  "legacy_parts t =
     (case find_map (strip_prefix t) [''https://'', ''http://'', ''git://''] of
        Some rest \<Rightarrow>
          Option.bind (split_once CHR ''/'' rest) (\<lambda>(authority, path).
            map_option (\<lambda>h. (h, path)) (authority_host authority))
      | None \<Rightarrow>
          (case strip_prefix t ''ssh://'' of
             Some rest \<Rightarrow>
               Option.bind (split_once CHR ''/'' rest) (\<lambda>(authority, path).
                 map_option (\<lambda>h. (hd (split_on CHR '':'' h), path)) (authority_host authority))
           | None \<Rightarrow>
               (case split_once CHR '':'' t of
                  Some (authority, path) \<Rightarrow>
                    if CHR ''/'' \<in> set authority then None
                    else Option.bind (rsplit_once CHR ''@'' authority) (\<lambda>(user, h).
                      if user = [] then None else Some (h, path))
                | None \<Rightarrow> None)))"

definition legacy_parse :: "string \<Rightarrow> (string \<times> string \<times> string) option" where
  "legacy_parse t =
     Option.bind (legacy_parts t) (\<lambda>(host, path).
       if host = [] then None
       else map_option (\<lambda>(namespace, repo). (host, namespace, repo)) (split_namespace_repo path))"

definition legacy_project_identifier :: "gix \<Rightarrow> string \<Rightarrow> string option" where
  "legacy_project_identifier gix url =
     (let t = trim url in
      if starts_with t ''ssh://'' \<and>
         (case parse_remote_url gix t of None \<Rightarrow> True | Some r \<Rightarrow> gr_ssh_port r \<noteq> None)
      then None
      else (case legacy_parse t of
              Some (host, namespace, repo) \<Rightarrow>
                if starts_with t ''ssh://'' \<and> starts_with host ''['' then None
                else Some (host @ ''/'' @ namespace @ ''/'' @ repo)
            | None \<Rightarrow> Some (case strip_suffix url ''.git'' of Some u \<Rightarrow> u | None \<Rightarrow> url)))"

definition parse_owner_repo :: "gix \<Rightarrow> string \<Rightarrow> (string \<times> string) option" where
  "parse_owner_repo gix url = map_option (\<lambda>r. (gr_owner r, gr_repo r)) (parse_remote_url gix url)"

section \<open>The shape of a parsed remote\<close>

text \<open>What the model relies on from \<open>gix-url\<close>: a host is not empty and has no slash, it ends before the path.\<close>

definition hosts_end_before_paths :: "gix \<Rightarrow> bool" where
  "hosts_end_before_paths gix \<longleftrightarrow>
     (\<forall>s u h. gix s = Some u \<longrightarrow> gx_host u = Some h \<longrightarrow> h \<noteq> [] \<and> CHR ''/'' \<notin> set h)"

definition remote_wf :: "git_remote_url \<Rightarrow> bool" where
  "remote_wf r \<longleftrightarrow>
     gr_host r \<noteq> [] \<and> CHR ''/'' \<notin> set (gr_host r) \<and>
     gr_owner r \<noteq> [] \<and> [] \<notin> set (split_on CHR ''/'' (gr_owner r)) \<and>
     gr_repo r \<noteq> [] \<and> CHR ''/'' \<notin> set (gr_repo r) \<and>
     gr_ssh_port r \<noteq> Some 22"

definition network_authority :: "git_remote_url \<Rightarrow> string" where
  "network_authority r =
     gr_host r @ (case gr_ssh_port r of Some p \<Rightarrow> '':'' @ show_nat p | None \<Rightarrow> [])"

lemma identifier_authority:
  "url_project_identifier r = network_authority r @ ''/'' @ gr_owner r @ ''/'' @ gr_repo r"
  by (simp add: url_project_identifier_def network_authority_def split: option.splits)

lemma identity_host_shape:
  assumes "identity_host h = Some i"
  shows "i = h \<and> CHR '':'' \<notin> set h \<or> (\<exists>n. i = ''['' @ n @ '']'' \<and> (h = n \<or> h = i))"
  using assms
  by (auto simp: identity_host_def Let_def str_simps bind_eq_Some_conv split: if_splits option.splits)

lemma identity_host_slash:
  "identity_host h = Some i \<Longrightarrow> h \<noteq> [] \<and> CHR ''/'' \<notin> set h \<Longrightarrow> i \<noteq> [] \<and> CHR ''/'' \<notin> set i"
  by (drule identity_host_shape) auto

lemma show_nat_slash: "CHR ''/'' \<notin> set (show_nat p)" and show_nat_colon: "CHR '':'' \<notin> set (show_nat p)"
  using show_nat_digits by (force simp: is_ascii_digit_def)+

lemma show_nat_inject [simp]: "show_nat m = show_nat n \<longleftrightarrow> m = n"
proof
  assume "show_nat m = show_nat n"
  moreover have "foldl (\<lambda>a c. 10 * a + digit_val c) 0 (show_nat k) = k" for k
    unfolding show_nat_def by (rule show_nat_aux_value) simp
  ultimately show "m = n" by metis
qed simp

lemma split_namespace_repo_shape:
  assumes "split_namespace_repo path = Some (owner, repo)"
  shows "owner \<noteq> [] \<and> [] \<notin> set (split_on CHR ''/'' owner) \<and> repo \<noteq> [] \<and> CHR ''/'' \<notin> set repo"
proof -
  define segs where "segs = filter (\<lambda>s. s \<noteq> []) (split_on CHR ''/'' path)"
  have pieces: "\<forall>s\<in>set segs. CHR ''/'' \<notin> set s \<and> s \<noteq> []"
    unfolding segs_def using split_on_pieces by fastforce
  from assms have len: "2 \<le> length segs" and owner: "owner = join ''/'' (butlast segs)" "owner \<noteq> []"
    and repo: "repo \<noteq> []" "repo = (case strip_suffix (last segs) ''.git'' of Some r \<Rightarrow> r | None \<Rightarrow> last segs)"
    unfolding split_namespace_repo_def Let_def segs_def[symmetric] by (simp_all split: if_splits)
  from len have ne: "butlast segs \<noteq> []" "segs \<noteq> []" by (auto simp: butlast_conv_take)
  have "\<forall>s\<in>set (butlast segs). CHR ''/'' \<notin> set s" using pieces by (auto dest: in_set_butlastD)
  from split_on_join[OF ne(1) this] have "split_on CHR ''/'' owner = butlast segs" by (simp add: owner)
  moreover have "[] \<notin> set (butlast segs)" using pieces by (auto dest: in_set_butlastD)
  moreover have "CHR ''/'' \<notin> set (last segs)" using pieces ne by simp
  then have "CHR ''/'' \<notin> set repo"
    using repo by (auto simp: str_simps split: option.splits)
  ultimately show ?thesis using owner repo by simp
qed

lemma parse_remote_cases:
  assumes "parse_remote_url gix url = Some r"
  obtains u h i where "gix (trim url) = Some u" "gx_host u = Some h" "identity_host h = Some i"
    "host_and_port u i = Some (gr_host r, gr_ssh_port r)" "split_namespace_repo (gx_path u) = Some (gr_owner r, gr_repo r)"
  using assms by (fastforce simp: parse_remote_url_def bind_eq_Some_conv split: if_splits)

lemma host_and_port_shape:
  assumes "host_and_port u i = Some (h, p)"
  shows "gx_scheme u = Ssh \<and> h = i \<and> p \<noteq> Some 22 \<or>
    gx_scheme u \<noteq> Ssh \<and> p = None \<and> (h = i \<and> gx_port u = None \<or> (\<exists>q. gx_port u = Some q \<and> h = i @ '':'' @ show_nat q))"
  using assms by (auto simp: host_and_port_def split: gix_scheme.splits option.splits if_splits)

lemma parsed_remote_wf:
  assumes "parse_remote_url gix url = Some r" and "hosts_end_before_paths gix"
  shows "remote_wf r"
proof -
  from assms(1) obtain u h i where u: "gix (trim url) = Some u" "gx_host u = Some h" "identity_host h = Some i"
    "host_and_port u i = Some (gr_host r, gr_ssh_port r)" "split_namespace_repo (gx_path u) = Some (gr_owner r, gr_repo r)"
    by (rule parse_remote_cases)
  have "i \<noteq> [] \<and> CHR ''/'' \<notin> set i"
    using assms(2) u identity_host_slash[OF u(3)] by (auto simp: hosts_end_before_paths_def)
  then have "gr_host r \<noteq> [] \<and> CHR ''/'' \<notin> set (gr_host r) \<and> gr_ssh_port r \<noteq> Some 22"
    using host_and_port_shape[OF u(4)] by (auto simp: show_nat_slash)
  then show ?thesis using split_namespace_repo_shape[OF u(5)] by (auto simp: remote_wf_def)
qed

section \<open>Identifiers tell remotes apart\<close>

lemma split_on_snoc: "c \<notin> set w \<Longrightarrow> split_on c (s @ c # w) = split_on c s @ [w]"
proof (induction s)
  case (Cons x s)
  then show ?case by (cases "split_on c s") simp_all
qed (simp add: split_on_single)

lemma identifier_parts:
  assumes "remote_wf r1" "remote_wf r2" "url_project_identifier r1 = url_project_identifier r2"
  shows "network_authority r1 = network_authority r2" "gr_owner r1 = gr_owner r2" "gr_repo r1 = gr_repo r2"
proof -
  have "CHR ''/'' \<notin> set (network_authority r) \<and>
     split_on CHR ''/'' (url_project_identifier r) = network_authority r # split_on CHR ''/'' (gr_owner r) @ [gr_repo r]"
    if "remote_wf r" for r
  proof -
    have a: "CHR ''/'' \<notin> set (network_authority r)"
      using that by (auto simp: remote_wf_def network_authority_def show_nat_slash split: option.splits)
    have "CHR ''/'' \<notin> set (gr_repo r)" using that by (simp add: remote_wf_def)
    from split_on_snoc[OF this, of "gr_owner r"] split_on_append[OF a, of "gr_owner r @ ''/'' @ gr_repo r"] a
    show ?thesis by (simp add: identifier_authority)
  qed
  note 1 = this[OF assms(1)] and 2 = this[OF assms(2)]
  then have eq: "network_authority r1 # split_on CHR ''/'' (gr_owner r1) @ [gr_repo r1] =
    network_authority r2 # split_on CHR ''/'' (gr_owner r2) @ [gr_repo r2]" using assms(3) by metis
  then show "network_authority r1 = network_authority r2" "gr_repo r1 = gr_repo r2" by simp_all
  from eq have "split_on CHR ''/'' (gr_owner r1) = split_on CHR ''/'' (gr_owner r2)" by simp
  then show "gr_owner r1 = gr_owner r2" by (metis join_split_on)
qed

lemma last_colon: "a @ '':'' @ show_nat p = b @ '':'' @ show_nat q \<longleftrightarrow> a = b \<and> p = q"
proof
  assume eq: "a @ '':'' @ show_nat p = b @ '':'' @ show_nat q"
  have "rsplit_once CHR '':'' (a @ '':'' @ show_nat p) = Some (a, show_nat p)"
    by (simp add: rsplit_once_Some_iff show_nat_colon)
  moreover have "rsplit_once CHR '':'' (a @ '':'' @ show_nat p) = Some (b, show_nat q)"
    by (simp only: eq) (simp add: rsplit_once_Some_iff show_nat_colon)
  ultimately show "a = b \<and> p = q" by simp
qed simp

text \<open>A host that ends in a port was spelled with that port in an HTTP or git URL.\<close>

lemma host_with_port:
  assumes "parse_remote_url gix url = Some r" and "gr_host r = h @ '':'' @ show_nat p"
  shows "\<exists>u. gix (trim url) = Some u \<and> gx_scheme u \<noteq> Ssh \<and> gx_port u = Some p"
proof -
  from assms(1) obtain u h' i where u: "gix (trim url) = Some u" "gx_host u = Some h'" "identity_host h' = Some i"
    "host_and_port u i = Some (gr_host r, gr_ssh_port r)" by (rule parse_remote_cases)
  have "gr_host r \<noteq> i"
  proof
    assume "gr_host r = i"
    then have "CHR '':'' \<in> set i" "last i \<noteq> CHR '']''"
      using assms(2) show_nat_digits[of "last (show_nat p)" p] by (auto simp: is_ascii_digit_def)
    then show False using identity_host_shape[OF u(3)] by auto
  qed
  with host_and_port_shape[OF u(4)] obtain q where "gx_scheme u \<noteq> Ssh" "gx_port u = Some q" "gr_host r = i @ '':'' @ show_nat q"
    by auto
  then show ?thesis using u(1) assms(2) last_colon[of i q h p] by auto
qed

section \<open>Properties\<close>

text \<open>
  C22. A parsed remote is well formed: a host without a slash, an owner path whose segments are all
  non-empty, a repository name without a slash, and an SSH port only when it is not the default one. The web
  URL of a remote that is not on Azure DevOps is its host, owner and repository.
\<close>

theorem parsed_remote_is_well_formed:
  assumes "hosts_end_before_paths gix" and "parse_remote_url gix url = Some r"
  shows "remote_wf r \<and>
    (url_forge_kind r \<noteq> Some AzureDevOps \<longrightarrow>
       web_url dec enc r = Some (''https://'' @ gr_host r @ ''/'' @ gr_owner r @ ''/'' @ gr_repo r))"
  using parsed_remote_wf[OF assms(2,1)] by (simp add: web_url_def is_azure_devops_def)

definition two_spellings :: gix where
  "two_spellings s =
     (if s = ''ssh://git@h:2222/a/b/c.git''
      then Some \<lparr>gx_scheme = Ssh, gx_host = Some ''h'', gx_port = Some 2222, gx_user = Some ''git'',
        gx_alternative_form = False, gx_path = ''/a/b/c.git''\<rparr>
      else if s = ''https://h:2222/a/b/c''
      then Some \<lparr>gx_scheme = Https, gx_host = Some ''h'', gx_port = Some 2222, gx_user = None,
        gx_alternative_form = False, gx_path = ''/a/b/c''\<rparr>
      else None)"

lemma two_spellings_hosts: "hosts_end_before_paths two_spellings"
  by (auto simp: hosts_end_before_paths_def two_spellings_def split: if_splits)

lemma two_spellings_parsed:
  "parse_remote_url two_spellings ''ssh://git@h:2222/a/b/c.git'' =
     Some \<lparr>gr_host = ''h'', gr_ssh_port = Some 2222, gr_owner = ''a/b'', gr_repo = ''c''\<rparr>"
  "parse_remote_url two_spellings ''https://h:2222/a/b/c'' =
     Some \<lparr>gr_host = ''h:2222'', gr_ssh_port = None, gr_owner = ''a/b'', gr_repo = ''c''\<rparr>"
  by code_simp+

lemma parsed_remote_is_well_formed_witness:
  "remote_wf \<lparr>gr_host = ''h'', gr_ssh_port = Some 2222, gr_owner = ''a/b'', gr_repo = ''c''\<rparr>"
  using parsed_remote_is_well_formed[OF two_spellings_hosts two_spellings_parsed(1), of Some id] by simp

text \<open>
  C23. Project identifiers, which approvals are keyed by, tell remotes apart: two URLs with the same
  identifier have the same owner and repository, and they are the same remote, or one is an SSH remote with
  an explicit port and the other an HTTP or git URL of the same host that spells the same port.
\<close>

theorem identifiers_tell_remotes_apart:
  assumes "hosts_end_before_paths gix"
    and "parse_remote_url gix a = Some r" and "parse_remote_url gix b = Some s"
    and "url_project_identifier r = url_project_identifier s"
  shows "gr_owner r = gr_owner s \<and> gr_repo r = gr_repo s \<and>
    (r = s \<or>
     (\<exists>p u. gr_ssh_port r = Some p \<and> gr_ssh_port s = None \<and> gr_host s = gr_host r @ '':'' @ show_nat p \<and>
        gix (trim b) = Some u \<and> gx_scheme u \<noteq> Ssh \<and> gx_port u = Some p) \<or>
     (\<exists>p u. gr_ssh_port s = Some p \<and> gr_ssh_port r = None \<and> gr_host r = gr_host s @ '':'' @ show_nat p \<and>
        gix (trim a) = Some u \<and> gx_scheme u \<noteq> Ssh \<and> gx_port u = Some p))"
proof -
  note wf = parsed_remote_wf[OF assms(2,1)] parsed_remote_wf[OF assms(3,1)]
  note parts = identifier_parts[OF wf assms(4)]
  have ports: "gr_host r @ (case gr_ssh_port r of Some p \<Rightarrow> '':'' @ show_nat p | None \<Rightarrow> []) =
    gr_host s @ (case gr_ssh_port s of Some p \<Rightarrow> '':'' @ show_nat p | None \<Rightarrow> [])"
    using parts(1) by (simp add: network_authority_def)
  show ?thesis
  proof (cases "gr_ssh_port r = None \<longleftrightarrow> gr_ssh_port s = None")
    case True
    then have "gr_host r = gr_host s \<and> gr_ssh_port r = gr_ssh_port s"
      using ports last_colon[of "gr_host r" _ "gr_host s"] by (auto split: option.splits)
    with parts have "r = s" by simp
    with parts show ?thesis by blast
  next
    case False
    then consider p where "gr_ssh_port r = Some p" "gr_ssh_port s = None" "gr_host s = gr_host r @ '':'' @ show_nat p"
      | p where "gr_ssh_port s = Some p" "gr_ssh_port r = None" "gr_host r = gr_host s @ '':'' @ show_nat p"
      using ports by (cases "gr_ssh_port r"; cases "gr_ssh_port s") auto
    then show ?thesis
    proof cases
      case 1
      with host_with_port[OF assms(3) 1(3)] parts show ?thesis by blast
    next
      case 2
      with host_with_port[OF assms(2) 2(3)] parts show ?thesis by blast
    qed
  qed
qed

lemma identifiers_tell_remotes_apart_witness:
  "\<exists>u. two_spellings (trim ''https://h:2222/a/b/c'') = Some u \<and> gx_scheme u \<noteq> Ssh \<and> gx_port u = Some 2222"
proof -
  let ?r = "\<lparr>gr_host = ''h'', gr_ssh_port = Some 2222, gr_owner = ''a/b'', gr_repo = ''c''\<rparr>"
  let ?s = "\<lparr>gr_host = ''h:2222'', gr_ssh_port = None, gr_owner = ''a/b'', gr_repo = ''c''\<rparr>"
  have "url_project_identifier ?r = url_project_identifier ?s" by code_simp
  from identifiers_tell_remotes_apart[OF two_spellings_hosts two_spellings_parsed this] show ?thesis by auto
qed

text \<open>A hyphenated alias carries the name of its forge, so it is classified without any configuration.\<close>

lemma hyphenated_alias_is_classified: "forge_from_host ''github-personal'' = Some GitHub"
  by code_simp

end
