(* ===== verification/Git_Config.thy ===== *)
theory Git_Config
  imports Observation Remote_Url Ref_Snapshot Project_Match
begin

text \<open>
  The repository handle and git configuration: the bulk config map of \<open>src/git/repository/mod.rs\<close>
  (\<open>all_config\<close>, \<open>config_last\<close>, \<open>parse_config_list_z\<close>) and what \<open>src/git/repository/config.rs\<close> stores in
  it (values, the previous worktree, hint counters, variables). A \<open>handle\<close> is the \<open>RepoCache\<close> slots these
  operations fill; a \<open>command\<close> is an action on it.
\<close>

section \<open>The handle\<close>

text \<open>An \<open>IndexMap\<close> as its entries in order.\<close>

type_synonym git_config = "(string \<times> string list) list"

record handle =
  proc :: process
  config_map :: "git_config option"
  default_branch_slot :: "string option option"
  effective_urls :: "string \<Rightarrow> string option option"
  locals_slot :: "local_branch_rec list option"
  remotes_slot :: "remote_branch_rec list option"
  worktrees_slot :: "worktree_info list option"
  repo_path_slot :: "string option"
  project_slot :: "project_id option"
  roots :: "string \<Rightarrow> string option"
  warned :: "string list"

type_synonym 'a command = "(handle, wt_error, 'a) stateful"

text \<open>An action on the process-wide state, as a command.\<close>

definition in_process :: "'a action \<Rightarrow> 'a command" where
  "in_process m h = io_bind (m (proc h)) (\<lambda>(p, r). Ret (h\<lparr>proc := p\<rparr>, r))"

text \<open>\<open>.ok()\<close>: the value, if there is one.\<close>

definition ok :: "('s, 'e, 'a) stateful \<Rightarrow> ('s, 'e, 'a option) stateful" where
  "ok m = abind (outcome m) (\<lambda>r. aret (Inr (case r of Inr x \<Rightarrow> Some x | Inl _ \<Rightarrow> None)))"

section \<open>Keys and values\<close>

definition canonical_config_key :: "string \<Rightarrow> string" where
  "canonical_config_key key =
     (let parts = split_on CHR ''.'' key in
      if length parts \<le> 2 then to_ascii_lowercase key
      else join ''.'' ([to_ascii_lowercase (hd parts)] @ butlast (tl parts) @ [to_ascii_lowercase (last parts)]))"

definition parse_git_bool :: "string \<Rightarrow> bool" where
  "parse_git_bool v \<longleftrightarrow> to_ascii_lowercase (trim v) \<in> {''true'', ''1'', ''yes'', ''on''}"

definition cfg_get :: "git_config \<Rightarrow> string \<Rightarrow> string list option" where
  "cfg_get m k = map_of m k"

fun cfg_insert :: "string \<Rightarrow> string list \<Rightarrow> git_config \<Rightarrow> git_config" where
  "cfg_insert k v [] = [(k, v)]"
| "cfg_insert k v ((k', v') # m) = (if k' = k then (k, v) # m else (k', v') # cfg_insert k v m)"

definition cfg_remove :: "string \<Rightarrow> git_config \<Rightarrow> git_config" where
  "cfg_remove k m = filter (\<lambda>(k', _). k' \<noteq> k) m"

definition cfg_push :: "string \<times> string \<Rightarrow> git_config \<Rightarrow> git_config" where
  "cfg_push = (\<lambda>(k, v) m. cfg_insert k ((case cfg_get m k of Some vs \<Rightarrow> vs | None \<Rightarrow> []) @ [v]) m)"

definition config_entry :: "string \<Rightarrow> string \<times> string" where
  "config_entry e = (let t = from_utf8_lossy e in case split_once newline t of Some kv \<Rightarrow> kv | None \<Rightarrow> (t, ''true''))"

definition parse_config_list_z :: "string \<Rightarrow> git_config" where
  "parse_config_list_z out = fold (\<lambda>e m. cfg_push (config_entry e) m) (filter (\<lambda>e. e \<noteq> []) (split_on CHR 0x00 out)) []"

definition last_value :: "string list option \<Rightarrow> string option" where
  "last_value vs = (case vs of None \<Rightarrow> None | Some vs \<Rightarrow> if vs = [] then None else Some (last vs))"

definition worktree_config_enabled :: "git_config \<Rightarrow> bool" where
  "worktree_config_enabled m =
     (case last_value (cfg_get m ''extensions.worktreeconfig'') of Some v \<Rightarrow> parse_git_bool v | None \<Rightarrow> False)"

section \<open>Reading and writing\<close>

definition CONFIG_LIST :: "string list" where
  "CONFIG_LIST = [''config'', ''--list'', ''-z'']"

definition all_config :: "repo_env \<Rightarrow> git_config command" where
  "all_config env h =
     (case config_map h of
        Some m \<Rightarrow> Ret (h, Inr m)
      | None \<Rightarrow>
          abind (git_bytes (common_dir env) CONFIG_LIST) (\<lambda>out h.
            (let m = parse_config_list_z out in Ret (h\<lparr>config_map := Some m\<rparr>, Inr m))) h)"

definition config_last :: "repo_env \<Rightarrow> string \<Rightarrow> string option command" where
  "config_last env key =
     abind (all_config env) (\<lambda>m. aret (Inr (last_value (cfg_get m (canonical_config_key key)))))"

definition config_bool :: "repo_env \<Rightarrow> string \<Rightarrow> bool command" where
  "config_bool env key =
     abind (config_last env key) (\<lambda>v. aret (Inr (case v of Some s \<Rightarrow> parse_git_bool s | None \<Rightarrow> False)))"

definition is_bare :: "repo_env \<Rightarrow> bool command" where
  "is_bare env = config_bool env ''core.bare''"

definition is_builtin_fsmonitor_enabled :: "repo_env \<Rightarrow> bool command" where
  "is_builtin_fsmonitor_enabled env =
     abind (ok (config_bool env ''core.fsmonitor'')) (\<lambda>b. aret (Inr (b = Some True)))"

text \<open>A write goes to git first, and to the map if it has been read.\<close>

definition update_map :: "(git_config \<Rightarrow> git_config) \<Rightarrow> unit command" where
  "update_map f h = Ret (h\<lparr>config_map := map_option f (config_map h)\<rparr>, Inr ())"

definition set_config_value :: "repo_env \<Rightarrow> string \<Rightarrow> string \<Rightarrow> unit command" where
  "set_config_value env key v =
     abind (git_text (discovery_path env) [''config'', key, v]) (\<lambda>_.
       update_map (cfg_insert (canonical_config_key key) [v]))"

text \<open>\<open>run_command_output\<close>: a command whose exit status the caller reads.\<close>

definition git_output :: "string \<Rightarrow> string list \<Rightarrow> ('s, wt_error, cmd_output) stateful" where
  "git_output dir args s =
     Git dir args (\<lambda>r. Ret (s, case r of Inl e \<Rightarrow> Inl (Git_Failed (Not_Run e)) | Inr out \<Rightarrow> Inr out))"

definition unset_config_value :: "repo_env \<Rightarrow> string \<Rightarrow> bool command" where
  "unset_config_value env key =
     (let args = [''config'', ''--unset-all'', key] in
      abind (git_output (discovery_path env) args) (\<lambda>out.
        if exit_code out = Some 0 \<or> exit_code out = Some 5
        then abind (update_map (cfg_remove (canonical_config_key key))) (\<lambda>_. aret (Inr (exit_code out = Some 0)))
        else aret (Inl (Git_Failed (Command_Failed args out)))))"

definition config_regexp_entries :: "repo_env \<Rightarrow> string \<Rightarrow> (string \<times> string) list command" where
  "config_regexp_entries env pattern =
     (let args = [''config'', ''--null'', ''--get-regexp'', pattern] in
      abind (git_output (discovery_path env) args) (\<lambda>out.
        if exit_code out = Some 0
        then aret (Inr (filter_map (\<lambda>(k, vs). map_option (Pair k) (last_value (Some vs))) (parse_config_list_z (stdout out))))
        else if exit_code out = Some 1 then aret (Inr [])
        else aret (Inl (Git_Failed (Command_Failed args out)))))"

section \<open>What worktrunk keeps in git configuration\<close>

definition HISTORY :: string where
  "HISTORY = ''worktrunk.history''"

definition HISTORY_PATH :: string where
  "HISTORY_PATH = ''worktrunk.history-path''"

definition record_switch_source :: "repo_env \<Rightarrow> string \<Rightarrow> string option \<Rightarrow> unit command" where
  "record_switch_source env path branch =
     abind (case branch of
              Some b \<Rightarrow> set_config_value env HISTORY b
            | None \<Rightarrow> abind (unset_config_value env HISTORY) (\<lambda>_. aret (Inr ()))) (\<lambda>_.
       set_config_value env HISTORY_PATH (from_utf8_lossy path))"

definition set_switch_previous :: "repo_env \<Rightarrow> string \<Rightarrow> unit command" where
  "set_switch_previous env branch =
     abind (set_config_value env HISTORY branch) (\<lambda>_.
     abind (unset_config_value env HISTORY_PATH) (\<lambda>_. aret (Inr ())))"

definition clear_switch_previous :: "repo_env \<Rightarrow> bool command" where
  "clear_switch_previous env =
     abind (unset_config_value env HISTORY) (\<lambda>branch.
     abind (unset_config_value env HISTORY_PATH) (\<lambda>path. aret (Inr (branch \<or> path))))"

definition nonempty_value :: "string option option \<Rightarrow> string option" where
  "nonempty_value v = (case v of Some (Some s) \<Rightarrow> nonempty s | _ \<Rightarrow> None)"

definition switch_previous :: "repo_env \<Rightarrow> string option command" where
  "switch_previous env = abind (ok (config_last env HISTORY)) (\<lambda>v. aret (Inr (nonempty_value v)))"

text \<open>\<open>json\<close> is \<open>serde_json\<close> reading a marker record: its \<open>marker\<close> field, if the text is one that has it.\<close>

definition branch_marker :: "(string \<Rightarrow> string option) \<Rightarrow> repo_env \<Rightarrow> string \<Rightarrow> string option command" where
  "branch_marker json env branch =
     abind (ok (config_last env (''worktrunk.state.'' @ branch @ ''.marker''))) (\<lambda>v.
       aret (Inr (Option.bind (nonempty_value v) json)))"

definition user_marker :: "(string \<Rightarrow> string option) \<Rightarrow> repo_env \<Rightarrow> string option \<Rightarrow> string option command" where
  "user_marker json env branch = (case branch of Some b \<Rightarrow> branch_marker json env b | None \<Rightarrow> aret (Inr None))"

definition hint_key :: "string \<Rightarrow> string" where
  "hint_key name = ''worktrunk.hints.'' @ name"

definition has_shown_hint :: "repo_env \<Rightarrow> string \<Rightarrow> bool command" where
  "has_shown_hint env name =
     abind (ok (config_last env (hint_key name))) (\<lambda>v. aret (Inr (case v of Some (Some _) \<Rightarrow> True | _ \<Rightarrow> False)))"

definition count_of :: "string option option \<Rightarrow> nat" where
  "count_of v = (case v of
     Some (Some s) \<Rightarrow> (case parse_uint 32 s of Some n \<Rightarrow> n | None \<Rightarrow> 0)
   | _ \<Rightarrow> 0)"

definition hint_count :: "repo_env \<Rightarrow> string \<Rightarrow> nat command" where
  "hint_count env name = abind (ok (config_last env (hint_key name))) (\<lambda>v. aret (Inr (count_of v)))"

definition saturating_succ :: "nat \<Rightarrow> nat" where
  "saturating_succ n = (if n = 2 ^ 32 - 1 then n else n + 1)"

definition mark_hint_shown :: "repo_env \<Rightarrow> string \<Rightarrow> unit command" where
  "mark_hint_shown env name =
     abind (hint_count env name) (\<lambda>n. set_config_value env (hint_key name) (show_nat (saturating_succ n)))"

definition clear_hint :: "repo_env \<Rightarrow> string \<Rightarrow> bool command" where
  "clear_hint env name = unset_config_value env (hint_key name)"

definition hint_names :: "git_config \<Rightarrow> string list" where
  "hint_names m = sort (filter_map (\<lambda>(k, _). strip_prefix k ''worktrunk.hints.'') m)"

definition list_shown_hints :: "repo_env \<Rightarrow> string list command" where
  "list_shown_hints env =
     abind (ok (all_config env)) (\<lambda>m. aret (Inr (case m of Some m \<Rightarrow> hint_names m | None \<Rightarrow> [])))"

fun clear_hints :: "repo_env \<Rightarrow> string list \<Rightarrow> unit command" where
  "clear_hints env [] = aret (Inr ())"
| "clear_hints env (h # hs) = abind (clear_hint env h) (\<lambda>_. clear_hints env hs)"

definition clear_all_hints :: "repo_env \<Rightarrow> nat command" where
  "clear_all_hints env =
     abind (list_shown_hints env) (\<lambda>hints. abind (clear_hints env hints) (\<lambda>_. aret (Inr (length hints))))"

section \<open>Variables and branch settings\<close>

text \<open>\<open>rsplit_once\<close> with a string: at its last occurrence.\<close>

fun split_once_str :: "string \<Rightarrow> string \<Rightarrow> (string \<times> string) option" where
  "split_once_str sep s =
     (if starts_with s sep then Some ([], drop (length sep) s)
      else (case s of [] \<Rightarrow> None | c # cs \<Rightarrow> map_option (\<lambda>(a, b). (c # a, b)) (split_once_str sep cs)))"

definition rsplit_once_str :: "string \<Rightarrow> string \<Rightarrow> (string \<times> string) option" where
  "rsplit_once_str sep s = map_option (\<lambda>(a, b). (rev b, rev a)) (split_once_str (rev sep) (rev s))"

definition parse_vars_config_key :: "string \<Rightarrow> (string \<times> string) option" where
  "parse_vars_config_key k = Option.bind (strip_prefix k ''worktrunk.state.'') (rsplit_once_str ''.vars.'')"

definition parse_branch_config_key :: "string \<Rightarrow> (string \<times> string) option" where
  "parse_branch_config_key k = Option.bind (strip_prefix k ''branch.'') (rsplit_once CHR ''.'')"

text \<open>A map of ordered maps: the \<open>HashMap\<close> of branches as a function, each branch with its \<open>BTreeMap\<close>.\<close>

type_synonym branch_map = "string \<Rightarrow> (string, string) btree option"

definition bm_insert :: "string \<Rightarrow> string \<Rightarrow> string \<Rightarrow> branch_map \<Rightarrow> branch_map" where
  "bm_insert branch k v m = m(branch \<mapsto> bt_put k v (case m branch of Some t \<Rightarrow> t | None \<Rightarrow> []))"

definition subsection_map :: "(string \<Rightarrow> (string \<times> string) option) \<Rightarrow> git_config \<Rightarrow> branch_map" where
  "subsection_map parse m =
     fold (\<lambda>(key, vs) acc. case parse key of
             None \<Rightarrow> acc
           | Some (branch, k) \<Rightarrow> bm_insert branch k (case last_value (Some vs) of Some v \<Rightarrow> v | None \<Rightarrow> []) acc)
       m (\<lambda>_. None)"

definition all_vars_from_snapshot :: "repo_env \<Rightarrow> branch_map command" where
  "all_vars_from_snapshot env = abind (all_config env) (\<lambda>m. aret (Inr (subsection_map parse_vars_config_key m)))"

definition all_branch_config_from_snapshot :: "repo_env \<Rightarrow> branch_map command" where
  "all_branch_config_from_snapshot env = abind (all_config env) (\<lambda>m. aret (Inr (subsection_map parse_branch_config_key m)))"

text \<open>\<open>escape\<close> is \<open>regex::escape\<close>. These read git directly, so they see what other processes wrote.\<close>

definition vars_entries :: "(string \<Rightarrow> string) \<Rightarrow> repo_env \<Rightarrow> string \<Rightarrow> (string, string) btree command" where
  "vars_entries escape env branch =
     abind (ok (config_regexp_entries env
        ([CHR ''^''] @ ''worktrunk'' @ [CHR 0x5C, CHR ''.''] @ ''state'' @ [CHR 0x5C, CHR ''.''] @ escape branch @
         [CHR 0x5C, CHR ''.''] @ ''vars'' @ [CHR 0x5C, CHR ''.'']))) (\<lambda>es.
       aret (Inr (fold (\<lambda>(k, v). bt_put k v)
         (filter_map (\<lambda>(k, v). map_option (\<lambda>k. (k, v)) (strip_prefix k (''worktrunk.state.'' @ branch @ ''.vars.'')))
            (case es of Some es \<Rightarrow> es | None \<Rightarrow> [])) [])))"

text \<open>\<open>None\<close> when a key git matched does not split, where \<open>expect\<close> panics.\<close>

fun collect_vars :: "(string \<times> string) list \<Rightarrow> branch_map \<Rightarrow> branch_map option" where
  "collect_vars [] acc = Some acc"
| "collect_vars ((key, v) # es) acc =
     (case parse_vars_config_key key of
        None \<Rightarrow> None
      | Some (branch, k) \<Rightarrow> collect_vars es (bm_insert branch k v acc))"

definition all_vars_entries :: "repo_env \<Rightarrow> branch_map option command" where
  "all_vars_entries env =
     abind (ok (config_regexp_entries env
        ([CHR ''^''] @ ''worktrunk'' @ [CHR 0x5C, CHR ''.''] @ ''state'' @ [CHR 0x5C] @ ''..+'' @ [CHR 0x5C] @ ''.vars'' @
         [CHR 0x5C, CHR ''.'']))) (\<lambda>es.
       aret (Inr (collect_vars (case es of Some es \<Rightarrow> es | None \<Rightarrow> []) (\<lambda>_. None))))"

section \<open>The map follows what git was told\<close>

text \<open>
  How one request changes the bulk map: the first successful listing fills it, a successful write or removal
  changes a filled one. A command follows git's configuration if on every run, failed ones included, the map
  it leaves is the one its requests account for.
\<close>

definition config_step :: "repo_env \<Rightarrow> event \<Rightarrow> git_config option \<Rightarrow> git_config option" where
  "config_step env e m =
     (case e of
        Ran dir [c, a, b] (Inr out) \<Rightarrow>
          if c \<noteq> ''config'' then m
          else if a = ''--list'' then
            (if dir = common_dir env \<and> exit_code out = Some 0 \<and> m = None then Some (parse_config_list_z (stdout out)) else m)
          else if a = ''--unset-all'' then
            (if exit_code out = Some 0 \<or> exit_code out = Some 5 then map_option (cfg_remove (canonical_config_key b)) m else m)
          else if exit_code out = Some 0 then map_option (cfg_insert (canonical_config_key a) [b]) m
          else m
      | _ \<Rightarrow> m)"

definition follows_config :: "repo_env \<Rightarrow> 'a command \<Rightarrow> bool" where
  "follows_config env m \<longleftrightarrow>
     (\<forall>h tr h' r. runs (m h) tr (h', r) \<longrightarrow> config_map h' = fold (config_step env) tr (config_map h))"

definition config_key :: "string \<Rightarrow> bool" where
  "config_key key \<longleftrightarrow> key \<noteq> ''--list'' \<and> key \<noteq> ''--unset-all''"

named_theorems follows

lemma follows_aret [follows]: "follows_config env (aret r)"
  by (simp add: follows_config_def act_simps)

lemma follows_bind [follows]:
  assumes "follows_config env m" and "\<And>x. follows_config env (f x)"
  shows "follows_config env (abind m f)"
  unfolding follows_config_def
proof (intro allI impI)
  fix h tr h' r
  assume "runs (abind m f h) tr (h', r)"
  then show "config_map h' = fold (config_step env) tr (config_map h)"
  proof (cases rule: abindE)
    case (Ok s1 x tr1 tr2)
    then show ?thesis using assms unfolding follows_config_def by fastforce
  qed (use assms(1) in \<open>auto simp: follows_config_def\<close>)
qed

lemma follows_outcome [follows]: "follows_config env m \<Longrightarrow> follows_config env (outcome m)"
  by (auto simp: follows_config_def act_simps)

lemma follows_ok [follows]: "follows_config env m \<Longrightarrow> follows_config env (ok m)"
  unfolding ok_def by (intro follows)

definition config_request :: "event \<Rightarrow> bool" where
  "config_request e = (case e of Ran _ args _ \<Rightarrow> touches_config args | _ \<Rightarrow> False)"

lemma config_step_other: "\<not> config_request e \<Longrightarrow> config_step env e m = m"
  by (auto simp: config_step_def config_request_def split: event.splits list.splits sum.splits)

interpretation configuration: observer config_request
  by unfold_locales (auto simp: config_request_def)

lemma fold_config_quiet: "\<forall>e\<in>set tr. \<not> config_request e \<Longrightarrow> fold (config_step env) tr m = m"
  by (induction tr arbitrary: m) (auto simp: config_step_other)

lemma follows_perform [follows]: "avoids config_request p \<Longrightarrow> follows_config env (perform p)"
  by (auto simp: follows_config_def act_simps avoids_def fold_config_quiet)

lemma follows_in_process [follows]: "quiet_for config_request m \<Longrightarrow> follows_config env (in_process m)"
  unfolding follows_config_def
proof (intro allI impI)
  fix h tr h' r
  assume q: "quiet_for config_request m" and "runs (in_process m h) tr (h', r)"
  then obtain p where "runs (m (proc h)) tr (p, r)" "h' = h\<lparr>proc := p\<rparr>"
    by (auto simp: in_process_def runs_bind)
  with avoidsD[OF quietD[OF q] this(1)] show "config_map h' = fold (config_step env) tr (config_map h)"
    by (simp add: fold_config_quiet)
qed

lemma runs_git_output_result [act_simps]:
  "runs (git_output dir args s) tr (s1, Inl e) \<longleftrightarrow>
     s1 = s \<and> (\<exists>e1. tr = [Ran dir args (Inl e1)] \<and> e = Git_Failed (Not_Run e1))"
  "runs (git_output dir args s) tr (s1, Inr out) \<longleftrightarrow> s1 = s \<and> tr = [Ran dir args (Inr out)]"
  by (auto simp: git_output_def split: sum.split_asm)

lemma follows_git [follows]:
  assumes a: "\<not> touches_config args"
  shows "follows_config env (git_bytes d args)" "follows_config env (git_output d args)" "follows_config env (git_text d args)"
proof -
  have s: "config_step env (Ran d args r) m = m" for r m
    using a by (simp add: config_step_other config_request_def)
  show b: "follows_config env (git_bytes d args)"
    by (auto simp: follows_config_def act_simps s)
  show "follows_config env (git_output d args)"
    by (auto simp: follows_config_def git_output_def s)
  show "follows_config env (git_text d args)"
    unfolding git_text_def by (intro follows b)
qed

lemma follows_all_config [follows]: "follows_config env (all_config env)"
  unfolding follows_config_def
proof (intro allI impI)
  fix h tr h' r
  assume run: "runs (all_config env h) tr (h', r)"
  show "config_map h' = fold (config_step env) tr (config_map h)"
  proof (cases "config_map h")
    case None
    with run have "runs (abind (git_bytes (common_dir env) CONFIG_LIST) (\<lambda>out h.
        (let m = parse_config_list_z out in Ret (h\<lparr>config_map := Some m\<rparr>, Inr m))) h) tr (h', r)"
      by (simp add: all_config_def)
    then show ?thesis
    proof (cases rule: abindE)
      case (Err s1 e)
      then obtain q where "tr = [Ran (common_dir env) CONFIG_LIST q]" "s1 = h" "Inl e = command_result CONFIG_LIST q"
        by (auto simp: act_simps)
      then show ?thesis using Err None
        by (cases q) (auto simp: config_step_def CONFIG_LIST_def command_result_def split: if_splits)
    next
      case (Ok s1 x tr1 tr2)
      then obtain o1 where "tr1 = [Ran (common_dir env) CONFIG_LIST (Inr o1)]" "s1 = h" "exit_code o1 = Some 0" "x = stdout o1"
        by (auto simp: act_simps dest!: sym[of "Inr x"] simp: command_result_Inr_iff)
      then show ?thesis using Ok None
        by (auto simp: config_step_def CONFIG_LIST_def Let_def)
    qed
  qed (use run in \<open>simp add: all_config_def\<close>)
qed

lemma follows_config_last [follows]: "follows_config env (config_last env key)"
  and follows_config_bool [follows]: "follows_config env (config_bool env key)"
  unfolding config_last_def config_bool_def by (intro follows)+

lemma runs_update_map [act_simps]:
  "runs (update_map f h) tr y \<longleftrightarrow> tr = [] \<and> y = (h\<lparr>config_map := map_option f (config_map h)\<rparr>, Inr ())"
  by (auto simp: update_map_def)

lemma runs_set_config_value:
  assumes "runs (set_config_value env key v h) tr (h', r)"
  obtains (Ok) out where "tr = [Ran (discovery_path env) [''config'', key, v] (Inr out)]" "exit_code out = Some 0"
      "h' = h\<lparr>config_map := map_option (cfg_insert (canonical_config_key key) [v]) (config_map h)\<rparr>" "r = Inr ()"
    | (Err) q e where "tr = [Ran (discovery_path env) [''config'', key, v] q]" "h' = h" "r = Inl e"
      "\<forall>out. q = Inr out \<longrightarrow> exit_code out \<noteq> Some 0"
  using assms unfolding set_config_value_def
proof (cases rule: abindE)
  case (Err s1 e)
  then obtain q where "tr = [Ran (discovery_path env) [''config'', key, v] q]" "s1 = h" "command_result [''config'', key, v] q = Inl e"
    by (auto simp: act_simps)
  with Err that(2) show thesis by (cases q) (auto simp: command_result_def split: if_splits)
next
  case (Ok s1 x tr1 tr2)
  then obtain o1 where "tr1 = [Ran (discovery_path env) [''config'', key, v] (Inr o1)]" "s1 = h" "exit_code o1 = Some 0"
    by (auto simp: act_simps command_result_Inr_iff)
  with Ok that(1) show thesis by (auto simp: act_simps)
qed

lemma follows_set [follows]: "config_key key \<Longrightarrow> follows_config env (set_config_value env key v)"
  unfolding follows_config_def
  by (auto simp: config_step_def config_key_def split: sum.splits elim!: runs_set_config_value)

lemma follows_unset [follows]: "follows_config env (unset_config_value env key)"
  unfolding follows_config_def
proof (intro allI impI)
  fix h tr h' r
  assume "runs (unset_config_value env key h) tr (h', r)"
  then show "config_map h' = fold (config_step env) tr (config_map h)"
    unfolding unset_config_value_def Let_def
  proof (cases rule: abindE)
    case (Err s1 e)
    then show ?thesis by (auto simp: act_simps config_step_def)
  next
    case (Ok s1 out tr1 tr2)
    then have 1: "tr1 = [Ran (discovery_path env) [''config'', ''--unset-all'', key] (Inr out)]" "s1 = h"
      by (auto simp: act_simps)
    show ?thesis
    proof (cases "exit_code out = Some 0 \<or> exit_code out = Some 5")
      case True
      then have "runs (abind (update_map (cfg_remove (canonical_config_key key)))
          (\<lambda>_. aret (Inr (exit_code out = Some 0))) h) tr2 (h', r)" using Ok(3) 1 by simp
      then have "tr2 = []" "config_map h' = map_option (cfg_remove (canonical_config_key key)) (config_map h)"
        by (auto simp: act_simps)
      then show ?thesis using Ok(1) 1 True by (auto simp: config_step_def)
    next
      case False
      then show ?thesis using Ok 1 by (auto simp: act_simps config_step_def)
    qed
  qed
qed

lemma follows_regexp [follows]: "follows_config env (config_regexp_entries env pattern)"
proof -
  let ?args = "[''config'', ''--null'', ''--get-regexp'', pattern]"
  have g: "follows_config env (git_output (discovery_path env) ?args)"
    by (auto simp: follows_config_def git_output_def config_step_def split: sum.splits)
  show ?thesis
    unfolding config_regexp_entries_def Let_def by (auto intro!: follows g)
qed

lemma config_key_names [simp]: "config_key HISTORY" "config_key HISTORY_PATH" "config_key (hint_key name)"
  by (simp_all add: config_key_def HISTORY_def HISTORY_PATH_def hint_key_def)

lemma follows_clear_hints [follows]: "follows_config env (clear_hints env hs)"
  by (induction hs) (simp_all add: clear_hint_def follows)

section \<open>Properties\<close>

text \<open>
  C24. Whatever worktrunk writes to git configuration, the map it reads later in the same process follows:
  after any run, a failed one included, it is what the successful requests of that run make of it.
\<close>

theorem config_writers_follow_git:
  "follows_config env (record_switch_source env path branch) \<and>
   follows_config env (set_switch_previous env b) \<and>
   follows_config env (clear_switch_previous env) \<and>
   follows_config env (mark_hint_shown env name) \<and>
   follows_config env (clear_all_hints env) \<and>
   follows_config env (all_vars_from_snapshot env)"
  unfolding record_switch_source_def set_switch_previous_def clear_switch_previous_def mark_hint_shown_def
    hint_count_def clear_all_hints_def list_shown_hints_def all_vars_from_snapshot_def
  by (auto intro!: follows split: option.split)

lemma cfg_get_insert [simp]: "cfg_get (cfg_insert k v m) k' = (if k' = k then Some v else cfg_get m k')"
  by (induction k v m rule: cfg_insert.induct) (auto simp: cfg_get_def)

lemma cfg_insert_keys: "map fst (cfg_insert k v m) = (if k \<in> fst ` set m then map fst m else map fst m @ [k])"
  by (induction k v m rule: cfg_insert.induct) auto

lemma runs_all_config_read [act_simps]:
  "config_map h = Some m \<Longrightarrow> runs (all_config env h) tr y \<longleftrightarrow> tr = [] \<and> y = (h, Inr m)"
  by (auto simp: all_config_def)

lemma runs_config_last_read [act_simps]:
  "config_map h = Some m \<Longrightarrow>
   runs (config_last env key h) tr y \<longleftrightarrow> tr = [] \<and> y = (h, Inr (last_value (cfg_get m (canonical_config_key key))))"
  by (auto simp: config_last_def act_simps)

lemma runs_ok:
  "runs (ok m h) tr y \<longleftrightarrow> (\<exists>h' r. runs (m h) tr (h', r) \<and> y = (h', Inr (case r of Inr x \<Rightarrow> Some x | Inl _ \<Rightarrow> None)))"
  by (auto simp: ok_def act_simps)

lemma runs_hint_count_read:
  "config_map h = Some m \<Longrightarrow>
   runs (hint_count env name h) tr y \<longleftrightarrow>
     tr = [] \<and> y = (h, Inr (count_of (Some (last_value (cfg_get m (canonical_config_key (hint_key name)))))))"
  by (auto simp: hint_count_def act_simps runs_ok)

lemma count_of_bound: "count_of v \<le> 2 ^ 32 - 1"
proof -
  have "n \<le> 2 ^ 32 - 1" if "parse_uint 32 s = Some n" for s n
    using that by (auto simp: parse_uint_def Let_def split: if_splits)
  then show ?thesis by (auto simp: count_of_def split: option.splits)
qed

lemma saturating_succ_min: "n \<le> 2 ^ 32 - 1 \<Longrightarrow> saturating_succ n = min (n + 1) (2 ^ 32 - 1)"
  by (auto simp: saturating_succ_def min_def)

text \<open>
  Read your writes: after a value is stored, reading it in any spelling git treats as the same key gives
  that value without asking git, every other key keeps its values, and the order of the keys (from which the
  primary remote is taken) is that of before.
\<close>

theorem config_reads_its_writes:
  assumes "config_map h = Some m" and "runs (set_config_value env key v h) tr (h', Inr ())"
  shows "(runs (config_last env key' h') tr' y \<longleftrightarrow>
      tr' = [] \<and> y = (h', Inr (if canonical_config_key key' = canonical_config_key key then Some v
                               else last_value (cfg_get m (canonical_config_key key'))))) \<and>
    (\<exists>new. map fst (the (config_map h')) = map fst m @ new \<and> set new \<subseteq> {canonical_config_key key})"
proof -
  from assms(2,1) have m': "config_map h' = Some (cfg_insert (canonical_config_key key) [v] m)"
    by (auto elim!: runs_set_config_value)
  show ?thesis
    by (auto simp: act_simps m' last_value_def cfg_insert_keys)
qed

definition config_env :: repo_env where
  "config_env = \<lparr>common_dir = ''/r/.git'', discovery_path = ''/r'', fsmonitor_enabled = False\<rparr>"

definition config_handle :: "process \<Rightarrow> git_config \<Rightarrow> handle" where
  "config_handle p m = \<lparr>proc = p, config_map = Some m, default_branch_slot = None, effective_urls = (\<lambda>_. None),
     locals_slot = None, remotes_slot = None, worktrees_slot = None, repo_path_slot = None, project_slot = None,
     roots = (\<lambda>_. None), warned = []\<rparr>"

definition old_remotes :: git_config where
  "old_remotes = [(''remote.o.url'', [''u'']), (''branch.B.pushremote'', [''a'', ''b''])]"

lemma set_config_run:
  "runs (set_config_value env key v h) [Ran (discovery_path env) [''config'', key, v] (Inr \<lparr>exit_code = Some 0, term_signal = None, stdout = []\<rparr>)]
     (h\<lparr>config_map := map_option (cfg_insert (canonical_config_key key) [v]) (config_map h)\<rparr>, Inr ())"
  by (auto simp: set_config_value_def act_simps command_result_Inr_iff intro!: exI[of _ h])

lemma config_reads_its_writes_witness:
  "\<forall>p. \<exists>h'. runs (config_last config_env ''branch.B.PUSHREMOTE'' h') [] (h', Inr (Some ''x'')) \<and>
     runs (config_last config_env ''remote.o.url'' h') [] (h', Inr (Some ''u'')) \<and> proc h' = p"
proof
  fix p
  let ?h = "config_handle p old_remotes"
  have "config_map ?h = Some old_remotes" by (simp add: config_handle_def)
  note reads = config_reads_its_writes[OF this set_config_run[where env = config_env and key = "''branch.B.pushRemote''" and v = "''x''"]]
  have keys: "canonical_config_key ''branch.B.PUSHREMOTE'' = canonical_config_key ''branch.B.pushRemote''"
    "canonical_config_key ''remote.o.url'' \<noteq> canonical_config_key ''branch.B.pushRemote''"
    "last_value (cfg_get old_remotes (canonical_config_key ''remote.o.url'')) = Some ''u''"
    by code_simp+
  let ?h' = "?h\<lparr>config_map := map_option (cfg_insert (canonical_config_key ''branch.B.pushRemote'') [''x'']) (config_map ?h)\<rparr>"
  have "runs (config_last config_env ''branch.B.PUSHREMOTE'' ?h') [] (?h', Inr (Some ''x''))"
    by (subst reads[THEN conjunct1]) (simp add: keys)
  moreover have "runs (config_last config_env ''remote.o.url'' ?h') [] (?h', Inr (Some ''u''))"
    by (subst reads[THEN conjunct1]) (simp add: keys)
  moreover have "proc ?h' = p" by (simp add: config_handle_def)
  ultimately show "\<exists>h'. runs (config_last config_env ''branch.B.PUSHREMOTE'' h') [] (h', Inr (Some ''x'')) \<and>
     runs (config_last config_env ''remote.o.url'' h') [] (h', Inr (Some ''u'')) \<and> proc h' = p"
    by blast
qed

text \<open>
  A hint's counter is its displays, up to the largest \<open>u32\<close>: marking a hint makes the next count one
  more than the last one read, and stays at the largest value once there.
\<close>

theorem hint_counter_saturates:
  assumes "config_map h = Some m" and "runs (hint_count env name h) [] (h, Inr n)"
    and "runs (mark_hint_shown env name h) tr (h', Inr ())"
  shows "runs (hint_count env name h') [] (h', Inr (min (n + 1) (2 ^ 32 - 1)))"
proof -
  let ?n = "count_of (Some (last_value (cfg_get m (canonical_config_key (hint_key name)))))"
  have n: "n = ?n" using assms(1,2) by (simp add: runs_hint_count_read)
  from assms(3,1) have "runs (set_config_value env (hint_key name) (show_nat (saturating_succ n)) h) tr (h', Inr ())"
    by (auto simp: mark_hint_shown_def n runs_hint_count_read elim!: abindE)
  with assms(1) have m': "config_map h' = Some (cfg_insert (canonical_config_key (hint_key name)) [show_nat (saturating_succ n)] m)"
    by (auto elim!: runs_set_config_value)
  have succ: "saturating_succ n = min (n + 1) (2 ^ 32 - 1)"
    using count_of_bound n by (simp add: saturating_succ_min)
  then have "saturating_succ n < 2 ^ 32" by simp
  then have "count_of (Some (Some (show_nat (saturating_succ n)))) = saturating_succ n"
    by (simp only: count_of_def option.case parse_show_nat)
  then show ?thesis by (simp add: runs_hint_count_read m' last_value_def succ)
qed

lemma hint_counter_saturates_witness:
  "\<forall>p. \<exists>h'. runs (hint_count config_env ''x'' h') [] (h', Inr 8) \<and> proc h' = p"
proof
  fix p
  let ?m = "[(canonical_config_key (hint_key ''x''), [show_nat 7])]"
  let ?h = "config_handle p ?m"
  have m: "config_map ?h = Some ?m" by (simp add: config_handle_def)
  have "parse_uint 32 (show_nat 7) = Some 7" by (rule parse_show_nat) simp
  then have c: "runs (hint_count config_env ''x'' ?h) [] (?h, Inr 7)"
    by (simp add: runs_hint_count_read[OF m] cfg_get_def last_value_def count_of_def)
  let ?h' = "?h\<lparr>config_map := map_option (cfg_insert (canonical_config_key (hint_key ''x'')) [show_nat (saturating_succ 7)]) (config_map ?h)\<rparr>"
  have "\<exists>tr. runs (mark_hint_shown config_env ''x'' ?h) tr (?h', Inr ())"
    unfolding mark_hint_shown_def runs_abind
    by (intro exI disjI2 conjI, rule refl, rule c, rule set_config_run)
  then obtain tr where "runs (mark_hint_shown config_env ''x'' ?h) tr (?h', Inr ())" ..
  from hint_counter_saturates[OF m c this] show "\<exists>h'. runs (hint_count config_env ''x'' h') [] (h', Inr 8) \<and> proc h' = p"
    by (intro exI[of _ ?h']) (simp add: config_handle_def)
qed

end
