(* ===== verification/Worktree_Inventory.thy ===== *)
theory Worktree_Inventory
  imports Git_Config Worktree_Removal Git_Parse
begin

text \<open>
  Where the worktrees are: \<open>repo_path\<close> (\<open>src/git/repository/mod.rs\<close>), the cached worktree list with its
  correction of the main path and the branches of rebasing worktrees (\<open>finalize_worktrees\<close> of
  \<open>src/git/mod.rs\<close>), and the lookups by branch and by path of \<open>src/git/repository/worktrees.rs\<close>.
\<close>

section \<open>The repository's directory\<close>

definition separate_git_dir_work_tree :: "repo_env \<Rightarrow> string option io" where
  "separate_git_dir_work_tree env =
     io_bind (registration_worktree_path (common_dir env)) (\<lambda>w.
       case w of
         None \<Rightarrow> Ret None
       | Some w \<Rightarrow> io_bind (git_dir_at w) (\<lambda>d.
           Ret (case d of Some d \<Rightarrow> if same_path d (common_dir env) then Some w else None | None \<Rightarrow> None)))"

definition remember_repo_path :: "string \<Rightarrow> string command" where
  "remember_repo_path p h = Ret (h\<lparr>repo_path_slot := Some p\<rparr>, Inr p)"

text \<open>The directory recorded for the common dir itself; a git directory without a parent panics.\<close>

definition recorded_repo_path :: "repo_env \<Rightarrow> string command" where
  "recorded_repo_path env =
     abind (perform (separate_git_dir_work_tree env)) (\<lambda>w.
       case w of
         Some w \<Rightarrow> aret (Inr w)
       | None \<Rightarrow> (case path_parent (common_dir env) of
                   Some p \<Rightarrow> aret (Inr p)
                 | None \<Rightarrow> aret (Inl (Failed ''Git directory has no parent''))))"

definition find_repo_path :: "repo_env \<Rightarrow> string command" where
  "find_repo_path env =
     abind (is_bare env) (\<lambda>bare.
       if bare then aret (Inr (common_dir env))
       else abind (config_last env ''core.worktree'') (\<lambda>w.
         if w = None then recorded_repo_path env
         else abind (outcome (git_output (common_dir env) [''rev-parse'', ''--show-toplevel''])) (\<lambda>r.
           case r of
             Inr out \<Rightarrow>
               if exit_code out = Some 0
               then (case git_path_from_output (stdout out) of
                       Some p \<Rightarrow> aret (Inr p)
                     | None \<Rightarrow> aret (Inl (Failed ''Unterminated Git path output'')))
               else recorded_repo_path env
           | Inl _ \<Rightarrow> recorded_repo_path env)))"

definition repo_path :: "repo_env \<Rightarrow> string command" where
  "repo_path env h =
     (case repo_path_slot h of
        Some p \<Rightarrow> Ret (h, Inr p)
      | None \<Rightarrow> abind (find_repo_path env) remember_repo_path h)"

section \<open>The worktree list\<close>

definition registry_read :: string where
  "registry_read = ''worktree_registry (read)''"

definition read_rebase_branch :: "string \<Rightarrow> string option io" where
  "read_rebase_branch d =
     (let name = (\<lambda>bytes. let r = trim bytes in
                   case strip_prefix r ''refs/heads/'' of Some b \<Rightarrow> b | None \<Rightarrow> r)
      in Read_File (head_name_file d ''rebase-merge'') (\<lambda>m.
           case m of
             Inr bytes \<Rightarrow> if valid_utf8 bytes then Ret (Some (name bytes))
               else Read_File (head_name_file d ''rebase-apply'') (\<lambda>a. Ret (case a of
                 Inr bytes \<Rightarrow> if valid_utf8 bytes then Some (name bytes) else None | Inl _ \<Rightarrow> None))
           | Inl _ \<Rightarrow> Read_File (head_name_file d ''rebase-apply'') (\<lambda>a. Ret (case a of
                 Inr bytes \<Rightarrow> if valid_utf8 bytes then Some (name bytes) else None | Inl _ \<Rightarrow> None))))"

definition unnamed :: "worktree_info \<Rightarrow> bool" where
  "unnamed wt \<longleftrightarrow> wi_detached wt \<and> wi_branch wt = None"

text \<open>The stale ones first, each through its registration.\<close>

fun name_stale :: "repo_env \<Rightarrow> worktree_info list \<Rightarrow> worktree_info list command" where
  "name_stale env [] = aret (Inr [])"
| "name_stale env (wt # wts) =
     abind (if unnamed wt \<and> wi_is_prunable wt then
              abind (ok (in_process (registration_at env (wi_path wt)))) (\<lambda>r.
                case r of
                  Some (registration, _) \<Rightarrow>
                    abind (perform (read_rebase_branch registration)) (\<lambda>b. aret (Inr (wt\<lparr>wi_branch := b\<rparr>)))
                | None \<Rightarrow> aret (Inr wt))
            else aret (Inr wt)) (\<lambda>wt'.
     abind (name_stale env wts) (\<lambda>rest. aret (Inr (wt' # rest))))"

text \<open>
  \<open>git_dirs\<close> of the live ones, in order, then their rebase files. The code forks the git commands
  concurrently, this is one of their orders.
\<close>

fun trees_at :: "string list \<Rightarrow> string list command" where
  "trees_at [] = aret (Inr [])"
| "trees_at (p # ps) =
     abind (perform (worktree_at p)) (\<lambda>wt. abind (trees_at ps) (\<lambda>wts. aret (Inr (wt # wts))))"

fun git_dirs_of :: "string list \<Rightarrow> string option list command" where
  "git_dirs_of [] = aret (Inr [])"
| "git_dirs_of (wt # wts) =
     abind (ok (in_process (git_dir wt))) (\<lambda>d.
     abind (git_dirs_of wts) (\<lambda>ds. aret (Inr (d # ds))))"

definition live_unnamed :: "worktree_info \<Rightarrow> bool" where
  "live_unnamed wt \<longleftrightarrow> unnamed wt \<and> \<not> wi_is_prunable wt"

fun name_live :: "worktree_info list \<Rightarrow> string option list \<Rightarrow> worktree_info list command" where
  "name_live [] ds = aret (Inr [])"
| "name_live (wt # wts) ds =
     (if live_unnamed wt then
        abind (case ds of
                 Some d # _ \<Rightarrow> abind (perform (read_rebase_branch d)) (\<lambda>b. aret (Inr (wt\<lparr>wi_branch := b\<rparr>)))
               | _ \<Rightarrow> aret (Inr wt)) (\<lambda>wt'.
        abind (name_live wts (tl ds)) (\<lambda>rest. aret (Inr (wt' # rest))))
      else abind (name_live wts ds) (\<lambda>rest. aret (Inr (wt # rest))))"

definition name_rebasing :: "repo_env \<Rightarrow> worktree_info list \<Rightarrow> worktree_info list command" where
  "name_rebasing env wts =
     abind (name_stale env wts) (\<lambda>wts'.
     abind (trees_at (map wi_path (filter live_unnamed wts'))) (\<lambda>trees.
     abind (git_dirs_of trees) (\<lambda>ds. name_live wts' ds)))"

definition correct_main :: "repo_env \<Rightarrow> worktree_info list \<Rightarrow> worktree_info list command" where
  "correct_main env wts =
     (case wts of
        [] \<Rightarrow> aret (Inr [])
      | first # rest \<Rightarrow>
          abind (perform (Canonicalize (wi_path first) Ret)) (\<lambda>c.
            if (case c of Some p \<Rightarrow> same_path p (common_dir env) | None \<Rightarrow> False)
            then abind (repo_path env) (\<lambda>p. aret (Inr (first\<lparr>wi_path := p\<rparr> # rest)))
            else aret (Inr wts)))"

definition remember_worktrees :: "worktree_info list \<Rightarrow> worktree_info list command" where
  "remember_worktrees wts h = Ret (h\<lparr>worktrees_slot := Some wts\<rparr>, Inr wts)"

definition WORKTREE_LIST :: "string list" where
  "WORKTREE_LIST = [''worktree'', ''list'', ''--porcelain'', ''-z'']"

definition read_worktree_list :: "repo_env \<Rightarrow> string command" where
  "read_worktree_list env =
     abind (perform (Acquire registry_read (Ret ()))) (\<lambda>_.
     abind (outcome (git_bytes (discovery_path env) WORKTREE_LIST)) (\<lambda>r.
     abind (perform (Release registry_read (Ret ()))) (\<lambda>_. aret r)))"

definition list_worktrees :: "repo_env \<Rightarrow> worktree_info list command" where
  "list_worktrees env h =
     (case worktrees_slot h of
        Some wts \<Rightarrow> Ret (h, Inr wts)
      | None \<Rightarrow>
          abind (read_worktree_list env) (\<lambda>out.
            case parse_porcelain_list_z out of
              Inl e \<Rightarrow> aret (Inl (Failed e))
            | Inr raw \<Rightarrow>
                abind (correct_main env (filter (\<lambda>wt. \<not> wi_bare wt) raw)) (\<lambda>wts.
                abind (name_rebasing env wts) remember_worktrees)) h)"

section \<open>Lookups\<close>

definition worktree_paths_for_branch :: "worktree_info list \<Rightarrow> string \<Rightarrow> string list" where
  "worktree_paths_for_branch wts branch = map wi_path (filter (\<lambda>wt. wi_branch wt = Some branch) wts)"

text \<open>\<open>duplicated_branches\<close>, with the branches seen so far.\<close>

fun duplicates :: "string list \<Rightarrow> string list \<Rightarrow> string set" where
  "duplicates seen [] = {}"
| "duplicates seen (b # bs) = (if b \<in> set seen then {b} else {}) \<union> duplicates (b # seen) bs"

definition duplicated_branches :: "worktree_info list \<Rightarrow> string set" where
  "duplicated_branches wts = duplicates [] (filter_map wi_branch wts)"

definition duplicate_warning :: "string \<Rightarrow> string list \<Rightarrow> string" where
  "duplicate_warning branch paths =
     ''Branch '' @ branch @ '' is checked out in '' @ show_nat (length paths) @ '' worktrees; wt uses the first:'' @
     [newline] @ join [newline] paths"

definition warn_duplicate_checkout :: "string \<Rightarrow> string list \<Rightarrow> unit command" where
  "warn_duplicate_checkout branch paths h =
     (if branch \<in> set (warned h) then Ret (h, Inr ())
      else Say (duplicate_warning branch paths) (Ret (h\<lparr>warned := branch # warned h\<rparr>, Inr ())))"

definition head_option :: "'a list \<Rightarrow> 'a option" where
  "head_option xs = (case xs of x # _ \<Rightarrow> Some x | [] \<Rightarrow> None)"

definition worktree_for_branch :: "repo_env \<Rightarrow> string \<Rightarrow> string option command" where
  "worktree_for_branch env branch =
     abind (list_worktrees env) (\<lambda>wts.
       let paths = worktree_paths_for_branch wts branch in
       abind (if 1 < length paths then warn_duplicate_checkout branch paths else aret (Inr ())) (\<lambda>_.
         aret (Inr (head_option paths))))"

fun prunable_at :: "string \<Rightarrow> worktree_info list \<Rightarrow> bool io" where
  "prunable_at path [] = Ret False"
| "prunable_at path (wt # wts) =
     io_bind (paths_match (wi_path wt) path) (\<lambda>same.
       if same \<and> wi_is_prunable wt then Ret True else prunable_at path wts)"

definition worktree_is_unusable :: "repo_env \<Rightarrow> string \<Rightarrow> bool command" where
  "worktree_is_unusable env path =
     abind (perform (Exists path Ret)) (\<lambda>there.
       if \<not> there then aret (Inr True)
       else abind (list_worktrees env) (\<lambda>wts. perform (prunable_at path wts)))"

definition usable_worktree_for_branch :: "repo_env \<Rightarrow> string \<Rightarrow> string option command" where
  "usable_worktree_for_branch env branch =
     abind (worktree_for_branch env branch) (\<lambda>p.
       case p of
         None \<Rightarrow> aret (Inr None)
       | Some path \<Rightarrow>
           abind (worktree_is_unusable env path) (\<lambda>broken.
             aret (if broken then Inl (Worktree_Missing branch path) else Inr (Some path))))"

fun find_at_path :: "string \<Rightarrow> worktree_info list \<Rightarrow> (string \<times> string option) option io" where
  "find_at_path path [] = Ret None"
| "find_at_path path (wt # wts) =
     io_bind (paths_match (wi_path wt) path) (\<lambda>same.
       if same then Ret (Some (wi_path wt, wi_branch wt)) else find_at_path path wts)"

definition worktree_at_path :: "repo_env \<Rightarrow> string \<Rightarrow> (string \<times> string option) option command" where
  "worktree_at_path env path = abind (list_worktrees env) (\<lambda>wts. perform (find_at_path path wts))"

definition switch_previous_worktree :: "repo_env \<Rightarrow> (string \<times> string option) option command" where
  "switch_previous_worktree env =
     abind (config_last env HISTORY_PATH) (\<lambda>p.
       case p of
         None \<Rightarrow> aret (Inr None)
       | Some p \<Rightarrow>
           abind (worktree_at_path env p) (\<lambda>w.
             case w of
               None \<Rightarrow> aret (Inr None)
             | Some (path, branch) \<Rightarrow>
                 abind (switch_previous env) (\<lambda>prev.
                   aret (Inr (if branch = prev then Some (path, branch) else None)))))"

section \<open>What a stale registration holds\<close>

datatype stale_work = Staged_Changes | Operation_Underway in_progress_operation

text \<open>A git command on the registration itself, from the directory the process runs in.\<close>

definition registration_git :: "string \<Rightarrow> string list \<Rightarrow> (bool \<times> string) command" where
  "registration_git registration args =
     (let all = [''--git-dir'', registration] @ args in
      abind (git_output ''.'' all) (\<lambda>out.
        if exit_code out = Some 0 \<or> exit_code out = Some 1
        then aret (Inr (exit_code out = Some 0, trim (from_utf8_lossy (stdout out))))
        else aret (Inl (Git_Failed (Command_Failed all out)))))"

definition stale_index_base :: "repo_env \<Rightarrow> string option \<Rightarrow> string command" where
  "stale_index_base env head =
     (case head of
        Some h \<Rightarrow> aret (Inr h)
      | None \<Rightarrow> abind (config_last env ''extensions.objectFormat'') (\<lambda>f.
                  aret (Inr (if f = Some ''sha256'' then EMPTY_TREE_SHA256 else EMPTY_TREE_SHA1))))"

definition stale_worktree_work :: "repo_env \<Rightarrow> string \<Rightarrow> stale_work option command" where
  "stale_worktree_work env path =
     abind (in_process (registration_at env path)) (\<lambda>(registration, _).
     abind (perform (operation_in_progress_at registration)) (\<lambda>op.
       case op of
         Some op \<Rightarrow> aret (Inr (Some (Operation_Underway op)))
       | None \<Rightarrow>
           abind (in_process (definitely_absent (path_join registration ''index''))) (\<lambda>absent.
             if absent then aret (Inr None)
             else abind (registration_git registration [''rev-parse'', ''--verify'', ''--quiet'', ''HEAD'']) (\<lambda>(born, head).
                  abind (stale_index_base env (if born then Some head else None)) (\<lambda>base.
                  abind (registration_git registration (plumbing_args Diff_Index [''--cached'', ''--quiet'', base, ''--''])) (\<lambda>(unchanged, _).
                  aret (Inr (if unchanged then None else Some Staged_Changes))))))))"

end
