(* ===== verification/Remotes.thy ===== *)
theory Remotes
  imports Worktree_Inventory
begin

text \<open>
  Remotes and forges of a repository: \<open>src/git/repository/remotes.rs\<close> (the primary remote, URLs with and
  without \<open>insteadOf\<close> rewriting, search for the remote of a repository, project identifiers, the refspec
  test behind \<open>fetch_tracks_branch\<close>) and the platform of \<open>src/git/ci_platform.rs\<close>. The forge platform
  read from configuration files is the argument \<open>configured\<close>.
\<close>

section \<open>URLs\<close>

definition remote_url :: "repo_env \<Rightarrow> string \<Rightarrow> string option command" where
  "remote_url env remote =
     abind (ok (config_last env (''remote.'' @ remote @ ''.url''))) (\<lambda>v. aret (Inr (nonempty_value v)))"

text \<open>The remote whose URL a config key holds.\<close>

definition url_key_name :: "string \<Rightarrow> string option" where
  "url_key_name k = Option.bind (strip_prefix k ''remote.'') (\<lambda>rest. strip_suffix rest ''.url'')"

definition first_remote :: "repo_env \<Rightarrow> string command" where
  "first_remote env =
     abind (all_config env) (\<lambda>m.
       case find_map (\<lambda>(k, _). url_key_name k) m of
         Some name \<Rightarrow> aret (Inr name)
       | None \<Rightarrow> aret (Inl (Failed ''No remotes configured'')))"

definition primary_remote :: "repo_env \<Rightarrow> string command" where
  "primary_remote env =
     abind (config_last env ''checkout.defaultRemote'') (\<lambda>d.
       case map_option trim d of
         None \<Rightarrow> first_remote env
       | Some name \<Rightarrow>
           if name = [] then first_remote env
           else abind (remote_url env name) (\<lambda>u. if u \<noteq> None then aret (Inr name) else first_remote env))"

definition remember_url :: "string \<Rightarrow> string option \<Rightarrow> string option command" where
  "remember_url remote u h = Ret (h\<lparr>effective_urls := (effective_urls h)(remote \<mapsto> u)\<rparr>, Inr u)"

definition effective_remote_url :: "repo_env \<Rightarrow> string \<Rightarrow> string option command" where
  "effective_remote_url env remote h =
     (case effective_urls h remote of
        Some u \<Rightarrow> Ret (h, Inr u)
      | None \<Rightarrow>
          abind (ok (git_text (discovery_path env) [''remote'', ''get-url'', ''--'', remote])) (\<lambda>out.
            remember_url remote (Option.bind (map_option trim out) nonempty)) h)"

definition remote_entry :: "string \<times> string list \<Rightarrow> (string \<times> string) option" where
  "remote_entry = (\<lambda>(k, vs).
     Option.bind (url_key_name k) (\<lambda>name.
     Option.bind (last_value (Some vs)) (\<lambda>url. map_option (Pair name) (nonempty (trim url)))))"

definition all_remote_urls :: "repo_env \<Rightarrow> (string \<times> string) list command" where
  "all_remote_urls env =
     abind (ok (all_config env)) (\<lambda>m. aret (Inr (case m of Some m \<Rightarrow> filter_map remote_entry m | None \<Rightarrow> [])))"

definition primary_remote_url :: "repo_env \<Rightarrow> string option command" where
  "primary_remote_url env =
     abind (ok (primary_remote env)) (\<lambda>r. case r of Some r \<Rightarrow> remote_url env r | None \<Rightarrow> aret (Inr None))"

definition primary_remote_parsed_url :: "gix \<Rightarrow> repo_env \<Rightarrow> git_remote_url option command" where
  "primary_remote_parsed_url gix env =
     abind (primary_remote_url env) (\<lambda>u. aret (Inr (Option.bind u (parse_remote_url gix))))"

section \<open>The remote of a repository\<close>

definition url_matches :: "gix \<Rightarrow> (git_remote_url \<Rightarrow> bool) \<Rightarrow> string \<Rightarrow> bool" where
  "url_matches gix wanted url \<longleftrightarrow> (case parse_remote_url gix url of Some p \<Rightarrow> wanted p | None \<Rightarrow> False)"

fun search_remotes :: "gix \<Rightarrow> repo_env \<Rightarrow> (git_remote_url \<Rightarrow> bool) \<Rightarrow> (string \<times> string) list \<Rightarrow> string option command" where
  "search_remotes gix env wanted [] = aret (Inr None)"
| "search_remotes gix env wanted ((name, raw) # rs) =
     (if url_matches gix wanted raw then aret (Inr (Some name))
      else abind (effective_remote_url env name) (\<lambda>e.
        case e of
          Some url \<Rightarrow>
            if url \<noteq> raw \<and> url_matches gix wanted url then aret (Inr (Some name))
            else search_remotes gix env wanted rs
        | None \<Rightarrow> search_remotes gix env wanted rs))"

definition find_remote :: "gix \<Rightarrow> repo_env \<Rightarrow> (git_remote_url \<Rightarrow> bool) \<Rightarrow> string option command" where
  "find_remote gix env wanted = abind (all_remote_urls env) (search_remotes gix env wanted)"

definition same_ignoring_case :: "string \<Rightarrow> string \<Rightarrow> bool" where
  "same_ignoring_case a b \<longleftrightarrow> to_ascii_lowercase a = to_ascii_lowercase b"

definition names_repo :: "string option \<Rightarrow> string \<Rightarrow> string \<Rightarrow> git_remote_url \<Rightarrow> bool" where
  "names_repo host owner repo p \<longleftrightarrow>
     same_ignoring_case (gr_owner p) owner \<and> same_ignoring_case (gr_repo p) repo \<and>
     (case host of None \<Rightarrow> True | Some h \<Rightarrow> same_ignoring_case (gr_host p) h)"

definition find_remote_for_repo :: "gix \<Rightarrow> repo_env \<Rightarrow> string option \<Rightarrow> string \<Rightarrow> string \<Rightarrow> string option command" where
  "find_remote_for_repo gix env host owner repo = find_remote gix env (names_repo host owner repo)"

definition names_azure_repo ::
  "(string \<Rightarrow> string option) \<Rightarrow> (string \<Rightarrow> string) \<Rightarrow> string \<Rightarrow> string \<Rightarrow> string \<Rightarrow> git_remote_url \<Rightarrow> bool" where
  "names_azure_repo dec enc organization project name p \<longleftrightarrow>
     (case azure_organization p of Some q \<Rightarrow> same_ignoring_case q organization | None \<Rightarrow> False) \<and>
     (case azure_project p of Some q \<Rightarrow> url_path_segments_eq dec enc q project | None \<Rightarrow> False) \<and>
     url_path_segments_eq dec enc (gr_repo p) name"

definition find_remote_for_azure ::
  "gix \<Rightarrow> (string \<Rightarrow> string option) \<Rightarrow> (string \<Rightarrow> string) \<Rightarrow> repo_env \<Rightarrow> string \<Rightarrow> string \<Rightarrow> string \<Rightarrow> string option command" where
  "find_remote_for_azure gix dec enc env organization project name =
     find_remote gix env (names_azure_repo dec enc organization project name)"

definition find_remote_by_url :: "gix \<Rightarrow> repo_env \<Rightarrow> string \<Rightarrow> string option command" where
  "find_remote_by_url gix env url =
     (case parse_remote_url gix url of
        None \<Rightarrow> aret (Inr None)
      | Some p \<Rightarrow> find_remote_for_repo gix env (Some (gr_host p)) (gr_owner p) (gr_repo p))"

definition forge_remote_parsed_url :: "gix \<Rightarrow> repo_env \<Rightarrow> (git_remote_url \<Rightarrow> bool) \<Rightarrow> git_remote_url option command" where
  "forge_remote_parsed_url gix env is_forge =
     abind (primary_remote_parsed_url gix env) (\<lambda>p.
       if (case p of Some u \<Rightarrow> is_forge u | None \<Rightarrow> False) then aret (Inr p)
       else abind (all_remote_urls env) (\<lambda>rs.
         case find is_forge (filter_map (\<lambda>(_, url). parse_remote_url gix url) rs) of
           Some u \<Rightarrow> aret (Inr (Some u))
         | None \<Rightarrow> primary_remote_parsed_url gix env))"

definition remote_repo_info ::
  "gix \<Rightarrow> (string \<Rightarrow> string option) \<Rightarrow> (string \<Rightarrow> string) \<Rightarrow> repo_env \<Rightarrow> string option command \<Rightarrow> git_repo_info option command" where
  "remote_repo_info gix dec enc env configured =
     abind (ok (primary_remote env)) (\<lambda>r.
       case r of
         None \<Rightarrow> aret (Inr None)
       | Some remote \<Rightarrow>
           abind (remote_url env remote) (\<lambda>u.
             case Option.bind u (parse_remote_url gix) of
               None \<Rightarrow> aret (Inr None)
             | Some p \<Rightarrow>
                 abind configured (\<lambda>over.
                   aret (Inr (map_option (\<lambda>i. i\<lparr>ri_remote := Some remote\<rparr>) (url_repo_info dec enc p over))))))"

section \<open>The platform\<close>

definition platform_from_url :: "gix \<Rightarrow> string \<Rightarrow> forge_kind option" where
  "platform_from_url gix url = Option.bind (parse_remote_url gix url) url_forge_kind"

definition detect_ref_type :: "gix \<Rightarrow> repo_env \<Rightarrow> ref_type option command" where
  "detect_ref_type gix env =
     abind (ok (primary_remote env)) (\<lambda>r.
       case r of
         None \<Rightarrow> aret (Inr None)
       | Some remote \<Rightarrow>
           abind (effective_remote_url env remote) (\<lambda>u.
             aret (Inr (map_option forge_ref_type (Option.bind u (platform_from_url gix))))))"

definition configured_ci_platform :: "string option command \<Rightarrow> forge_kind option command" where
  "configured_ci_platform configured = abind configured (\<lambda>raw. aret (Inr (Option.bind raw parse_forge_kind)))"

definition platform_of_remote :: "gix \<Rightarrow> repo_env \<Rightarrow> string option \<Rightarrow> forge_kind option command" where
  "platform_of_remote gix env remote =
     (case remote of
        None \<Rightarrow> aret (Inr None)
      | Some r \<Rightarrow> abind (effective_remote_url env r) (\<lambda>u. aret (Inr (Option.bind u (platform_from_url gix)))))"

definition ci_platform :: "gix \<Rightarrow> repo_env \<Rightarrow> string option command \<Rightarrow> string option \<Rightarrow> forge_kind option command" where
  "ci_platform gix env configured hint =
     abind (configured_ci_platform configured) (\<lambda>c.
       if c \<noteq> None then aret (Inr c)
       else abind (platform_of_remote gix env hint) (\<lambda>p.
         if p \<noteq> None then aret (Inr p)
         else abind (ok (primary_remote env)) (platform_of_remote gix env)))"

section \<open>Project identifiers\<close>

definition remember_project :: "project_id \<Rightarrow> project_id command" where
  "remember_project p h = Ret (h\<lparr>project_slot := Some p\<rparr>, Inr p)"

definition project_of_url :: "gix \<Rightarrow> string \<Rightarrow> project_id" where
  "project_of_url gix url =
     with_legacy
       (case parse_remote_url gix (trim url) of
          Some p \<Rightarrow> url_project_identifier p
        | None \<Rightarrow> (case strip_suffix url ''.git'' of Some u \<Rightarrow> u | None \<Rightarrow> url))
       (legacy_project_identifier gix url)"

definition project_of_path :: "string \<Rightarrow> string option \<Rightarrow> wt_error + project_id" where
  "project_of_path root canonical =
     (let p = (case canonical of Some c \<Rightarrow> c | None \<Rightarrow> root)
      in if valid_utf8 p then Inr \<lparr>current = p, legacy = None\<rparr>
         else Inl (Failed ''Repository path is not valid UTF-8''))"

definition project_identifier :: "gix \<Rightarrow> repo_env \<Rightarrow> project_id command" where
  "project_identifier gix env h =
     (case project_slot h of
        Some p \<Rightarrow> Ret (h, Inr p)
      | None \<Rightarrow>
          abind (primary_remote_url env) (\<lambda>u.
            case u of
              Some url \<Rightarrow> remember_project (project_of_url gix url)
            | None \<Rightarrow>
                abind (repo_path env) (\<lambda>root.
                abind (perform (Canonicalize root Ret)) (\<lambda>c.
                abind (aret (project_of_path root c)) remember_project))) h)"

section \<open>Refspecs\<close>

definition refspec_side_matches :: "string \<Rightarrow> string \<Rightarrow> bool" where
  "refspec_side_matches pattern refname =
     (case split_once CHR ''*'' pattern of
        Some (pre, suf) \<Rightarrow>
          length pre + length suf \<le> length refname \<and> starts_with refname pre \<and> ends_with refname suf
      | None \<Rightarrow> pattern = refname)"

fun tracks_ref :: "bool \<Rightarrow> string list \<Rightarrow> string \<Rightarrow> bool" where
  "tracks_ref tracked [] refname = tracked"
| "tracks_ref tracked (spec # specs) refname =
     (case strip_prefix spec ''^'' of
        Some excluded \<Rightarrow> if refspec_side_matches excluded refname then False else tracks_ref tracked specs refname
      | None \<Rightarrow>
          (let s = (case strip_prefix spec ''+'' of Some t \<Rightarrow> t | None \<Rightarrow> spec)
           in case split_once CHR '':'' s of
                Some (src, dst) \<Rightarrow>
                  tracks_ref (tracked \<or> starts_with dst ''refs/remotes/'' \<and> refspec_side_matches src refname) specs refname
              | None \<Rightarrow> tracks_ref tracked specs refname))"

definition refspecs_track_ref :: "string list \<Rightarrow> string \<Rightarrow> bool" where
  "refspecs_track_ref specs refname = tracks_ref False specs refname"

definition fetch_tracks_branch :: "repo_env \<Rightarrow> string \<Rightarrow> string \<Rightarrow> bool command" where
  "fetch_tracks_branch env remote branch =
     abind (ok (all_config env)) (\<lambda>m.
       aret (Inr (case Option.bind m (\<lambda>m. cfg_get m (canonical_config_key (''remote.'' @ remote @ ''.fetch''))) of
         Some specs \<Rightarrow> refspecs_track_ref specs (''refs/heads/'' @ branch)
       | None \<Rightarrow> False)))"

section \<open>What a refspec means\<close>

text \<open>A side of a refspec stands for itself, or with its first star standing for any text.\<close>

definition side_means :: "string \<Rightarrow> string \<Rightarrow> bool" where
  "side_means pattern r \<longleftrightarrow>
     (if CHR ''*'' \<in> set pattern
      then (\<exists>pre suf. pattern = pre @ ''*'' @ suf \<and> CHR ''*'' \<notin> set pre \<and> (\<exists>mid. r = pre @ mid @ suf))
      else r = pattern)"

definition excludes :: "string \<Rightarrow> string \<Rightarrow> bool" where
  "excludes r spec \<longleftrightarrow> (\<exists>pattern. spec = ''^'' @ pattern \<and> side_means pattern r)"

definition maps_to_tracking :: "string \<Rightarrow> string \<Rightarrow> bool" where
  "maps_to_tracking r spec \<longleftrightarrow>
     \<not> starts_with spec ''^'' \<and>
     (\<exists>src dst. (spec = src @ '':'' @ dst \<and> \<not> starts_with spec ''+'' \<or> spec = ''+'' @ src @ '':'' @ dst) \<and>
        CHR '':'' \<notin> set src \<and> starts_with dst ''refs/remotes/'' \<and> side_means src r)"

lemma split_once_unique:
  "split_once c s = Some (a, b) \<Longrightarrow> (s = a' @ c # b' \<and> c \<notin> set a') = (a' = a \<and> b' = b)"
  using split_once_Some_iff[of c s a' b'] by auto

lemma split_once_ex:
  assumes "split_once c s = Some (a, b)"
  shows "(\<exists>a' b'. s = a' @ c # b' \<and> c \<notin> set a' \<and> P a' b') = P a b"
proof -
  have "(\<exists>a' b'. s = a' @ c # b' \<and> c \<notin> set a' \<and> P a' b') = (\<exists>a' b'. (s = a' @ c # b' \<and> c \<notin> set a') \<and> P a' b')"
    by (simp only: conj_assoc)
  also have "\<dots> = (\<exists>a' b'. (a' = a \<and> b' = b) \<and> P a' b')" by (simp only: split_once_unique[OF assms])
  finally show ?thesis by simp
qed

lemma case_split_once:
  "(case split_once c s of Some (a, b) \<Rightarrow> P a b | None \<Rightarrow> False) \<longleftrightarrow> (\<exists>a b. s = a @ c # b \<and> c \<notin> set a \<and> P a b)"
proof (cases "split_once c s")
  case None
  then have "c \<notin> set s" by (simp add: split_once_None_iff)
  with None show ?thesis by auto
next
  case (Some ab)
  then show ?thesis by (cases ab) (simp only: split_once_ex option.case prod.case)
qed

lemma refspec_side_means: "refspec_side_matches pattern r \<longleftrightarrow> side_means pattern r"
proof (cases "split_once CHR ''*'' pattern")
  case None
  moreover from this have "CHR ''*'' \<notin> set pattern" by (simp add: split_once_None_iff)
  ultimately show ?thesis by (auto simp: refspec_side_matches_def side_means_def)
next
  case (Some ps)
  obtain pre suf where ps: "ps = (pre, suf)" by (cases ps)
  have "length pre + length suf \<le> length r \<and> starts_with r pre \<and> ends_with r suf \<longleftrightarrow> (\<exists>mid. r = pre @ mid @ suf)"
  proof
    assume a: "length pre + length suf \<le> length r \<and> starts_with r pre \<and> ends_with r suf"
    then obtain t where t: "r = pre @ t" by (auto simp: starts_with_iff)
    from a obtain u where u: "r = u @ suf" by (auto simp: ends_with_iff)
    with a t have "length suf \<le> length t" by simp
    moreover from t u obtain us where "pre = u @ us \<and> us @ t = suf \<or> pre @ us = u \<and> t = us @ suf"
      using append_eq_append_conv2[of pre t u suf] by auto
    ultimately have "t = us @ suf" by auto
    with t show "\<exists>mid. r = pre @ mid @ suf" by blast
  qed (auto simp: starts_with_iff ends_with_iff)
  moreover have split: "split_once CHR ''*'' pattern = Some (pre, suf)" using Some ps by (simp only:)
  have "CHR ''*'' \<in> set pattern" and
    "(\<exists>a b. pattern = a @ CHR ''*'' # b \<and> CHR ''*'' \<notin> set a \<and> (\<exists>mid. r = a @ mid @ b)) = (\<exists>mid. r = pre @ mid @ suf)"
    using split split_once_ex[OF split, of "\<lambda>a b. \<exists>mid. r = a @ mid @ b"] by (auto simp: split_once_Some_iff)
  then have "side_means pattern r = (\<exists>mid. r = pre @ mid @ suf)"
    unfolding side_means_def by simp
  ultimately show ?thesis using Some ps by (simp add: refspec_side_matches_def)
qed

lemma maps_to_tracking_code:
  "maps_to_tracking r spec \<longleftrightarrow>
     \<not> starts_with spec ''^'' \<and>
     (case split_once CHR '':'' (case strip_prefix spec ''+'' of Some t \<Rightarrow> t | None \<Rightarrow> spec) of
        Some (src, dst) \<Rightarrow> starts_with dst ''refs/remotes/'' \<and> refspec_side_matches src r
      | None \<Rightarrow> False)"
proof (cases "starts_with spec ''+''")
  case True
  then obtain t where "spec = ''+'' @ t" by (auto simp: starts_with_iff)
  then show ?thesis
    by (auto simp: maps_to_tracking_def refspec_side_means case_split_once strip_prefix_def starts_with_def)
next
  case False
  then have "spec \<noteq> ''+'' @ t" for t by (auto simp: starts_with_iff)
  moreover from False have "strip_prefix spec ''+'' = None" by (simp add: strip_prefix_None_iff)
  ultimately show ?thesis
    using False by (auto simp: maps_to_tracking_def refspec_side_means case_split_once)
qed

lemma tracks_ref_iff:
  "tracks_ref tracked specs r \<longleftrightarrow> (tracked \<or> list_ex (maps_to_tracking r) specs) \<and> \<not> list_ex (excludes r) specs"
proof (induction specs arbitrary: tracked)
  case (Cons spec specs)
  show ?case
  proof (cases "strip_prefix spec ''^''")
    case (Some p)
    then have "starts_with spec ''^''" "excludes r spec = side_means p r"
      by (auto simp: str_simps excludes_def starts_with_iff)
    then show ?thesis using Some Cons.IH by (auto simp: refspec_side_means maps_to_tracking_code)
  next
    case None
    then have n: "\<not> starts_with spec ''^''" "\<not> excludes r spec"
      by (auto simp: str_simps excludes_def starts_with_iff)
    show ?thesis
      using None n Cons.IH by (auto simp: Let_def maps_to_tracking_code split: option.splits)
  qed
qed simp

text \<open>
  C25. A fetch records a branch exactly when some positive refspec maps its ref below \<open>refs/remotes/\<close> and no
  negative one matches it, whatever the order of the refspecs, where a star stands for any text.
\<close>

theorem fetch_refspecs_decide:
  "refspecs_track_ref specs r \<longleftrightarrow> list_ex (maps_to_tracking r) specs \<and> \<not> list_ex (excludes r) specs"
  by (simp add: refspecs_track_ref_def tracks_ref_iff)

end
