(* ===== verification/Default_Branch.thy ===== *)
theory Default_Branch
  imports Remotes Observation
begin

text \<open>
  Branches of a repository through its handle: the inventories and the completion list of
  \<open>src/git/repository/branches.rs\<close>, one branch (\<open>src/git/repository/branch.rs\<close>), detection and caching of the
  default branch and the targets of merge and rebase (\<open>src/git/repository/config.rs\<close>).
\<close>

section \<open>Inventories\<close>

definition remember_locals :: "local_branch_rec list \<Rightarrow> local_branch_rec list command" where
  "remember_locals bs h = Ret (h\<lparr>locals_slot := Some bs\<rparr>, Inr bs)"

definition local_branches :: "repo_env \<Rightarrow> local_branch_rec list command" where
  "local_branches env h =
     (case locals_slot h of
        Some bs \<Rightarrow> Ret (h, Inr bs)
      | None \<Rightarrow>
          abind (git_text (discovery_path env) [''for-each-ref'', LOCAL_BRANCH_FORMAT, ''refs/heads/'']) (\<lambda>out.
            remember_locals (local_records out)) h)"

definition remember_remotes :: "remote_branch_rec list \<Rightarrow> remote_branch_rec list command" where
  "remember_remotes bs h = Ret (h\<lparr>remotes_slot := Some bs\<rparr>, Inr bs)"

definition remote_branches :: "repo_env \<Rightarrow> remote_branch_rec list command" where
  "remote_branches env h =
     (case remotes_slot h of
        Some bs \<Rightarrow> Ret (h, Inr bs)
      | None \<Rightarrow>
          abind (git_text (discovery_path env) [''for-each-ref'', REMOTE_BRANCH_FORMAT, ''refs/remotes/'']) (\<lambda>out.
          abind (all_remote_urls env) (\<lambda>rs. remember_remotes (remote_records rs out))) h)"

definition all_branches :: "repo_env \<Rightarrow> string list command" where
  "all_branches env = abind (local_branches env) (\<lambda>bs. aret (Inr (map lb_name bs)))"

definition strip_remote_prefix :: "repo_env \<Rightarrow> string \<Rightarrow> string option command" where
  "strip_remote_prefix env name =
     abind (ok (remote_branches env)) (\<lambda>rs.
       aret (Inr (Option.bind rs (\<lambda>rs. map_option rb_local_name (find (\<lambda>r. rb_short_name r = name) rs)))))"

section \<open>One branch\<close>

definition git_check :: "string \<Rightarrow> string list \<Rightarrow> ('s, wt_error, bool) stateful" where
  "git_check dir args =
     abind (git_output dir args) (\<lambda>out.
       if exit_code out = Some 0 then aret (Inr True)
       else if exit_code out = Some 1 then aret (Inr False)
       else aret (Inl (Git_Failed (Command_Failed args out))))"

definition ref_exists :: "repo_env \<Rightarrow> string \<Rightarrow> bool command" where
  "ref_exists env reference =
     git_check (discovery_path env)
       [''rev-parse'', ''--verify'', ''--quiet'', ''--end-of-options'', reference @ [CHR ''^''] @ ''{commit}'']"

definition is_ascii_whitespace :: "char \<Rightarrow> bool" where
  "is_ascii_whitespace c \<longleftrightarrow> c \<in> {CHR '' '', CHR 0x09, CHR 0x0A, CHR 0x0C, CHR 0x0D}"

definition require_valid_name :: "repo_env \<Rightarrow> string \<Rightarrow> unit command" where
  "require_valid_name env name =
     (let args = [''check-ref-format'', ''--branch'', name] in
      abind (git_output (discovery_path env) args) (\<lambda>out.
        if exit_code out = Some 0 \<and> rev (dropWhile is_ascii_whitespace (rev (stdout out))) = name then aret (Inr ())
        else if exit_code out = Some 0 \<or> exit_code out = Some 128 then aret (Inl (Invalid_Branch_Name name))
        else aret (Inl (Git_Failed (Command_Failed args out)))))"

definition exists_locally :: "repo_env \<Rightarrow> string \<Rightarrow> bool command" where
  "exists_locally env name = ref_exists env (''refs/heads/'' @ name)"

definition branch_remotes :: "repo_env \<Rightarrow> string \<Rightarrow> string list command" where
  "branch_remotes env name =
     abind (remote_branches env) (\<lambda>rs. aret (Inr (map rb_remote (filter (\<lambda>r. rb_local_name r = name) rs))))"

definition branch_exists :: "repo_env \<Rightarrow> string \<Rightarrow> bool command" where
  "branch_exists env name =
     abind (exists_locally env name) (\<lambda>here.
       if here then aret (Inr True)
       else abind (branch_remotes env name) (\<lambda>rs. aret (Inr (rs \<noteq> []))))"

definition inventory_field ::
  "(local_branch_rec \<Rightarrow> string option) \<Rightarrow> repo_env \<Rightarrow> string \<Rightarrow> string option command" where
  "inventory_field f env name =
     abind (local_branches env) (\<lambda>bs. aret (Inr (Option.bind (inventory_get bs name) f)))"

definition upstream :: "repo_env \<Rightarrow> string \<Rightarrow> string option command" where
  "upstream = inventory_field upstream_short"

definition upstream_remote_of :: "repo_env \<Rightarrow> string \<Rightarrow> string option command" where
  "upstream_remote_of = inventory_field upstream_remote"

definition push_remote_of :: "repo_env \<Rightarrow> string \<Rightarrow> string option command" where
  "push_remote_of = inventory_field push_remote"

section \<open>Detecting the default branch\<close>

datatype remote_detection = Found string | Unavailable | Timed_Out

definition TIMED_OUT :: string where
  "TIMED_OUT = ''command timed out''"

definition timed_out :: "wt_error \<Rightarrow> bool" where
  "timed_out e \<longleftrightarrow> e = Git_Failed (Not_Run TIMED_OUT)"

definition parse_answer :: "string + string \<Rightarrow> wt_error + string" where
  "parse_answer r = (case r of Inl e \<Rightarrow> Inl (Failed e) | Inr b \<Rightarrow> Inr b)"

definition local_default_branch :: "repo_env \<Rightarrow> string \<Rightarrow> string command" where
  "local_default_branch env remote =
     abind (git_text (discovery_path env)
              [''rev-parse'', ''--abbrev-ref'', ''--verify'', ''refs/remotes/'' @ remote @ ''/HEAD'']) (\<lambda>out.
       aret (parse_answer (default_branch_from_local remote out)))"

definition query_remote_default_branch :: "repo_env \<Rightarrow> string \<Rightarrow> string command" where
  "query_remote_default_branch env remote =
     abind (git_text (discovery_path env) [''ls-remote'', ''--symref'', ''--'', remote, ''HEAD'']) (\<lambda>out.
       aret (parse_answer (default_branch_from_remote out)))"

definition detect_from_remote :: "repo_env \<Rightarrow> remote_detection command" where
  "detect_from_remote env =
     abind (ok (primary_remote env)) (\<lambda>r.
       case r of
         None \<Rightarrow> aret (Inr Unavailable)
       | Some remote \<Rightarrow>
           abind (ok (local_default_branch env remote)) (\<lambda>b.
             case b of
               Some branch \<Rightarrow> aret (Inr (Found branch))
             | None \<Rightarrow>
                 abind (outcome (query_remote_default_branch env remote)) (\<lambda>q.
                   aret (Inr (case q of
                     Inr branch \<Rightarrow> Found branch
                   | Inl e \<Rightarrow> if timed_out e then Timed_Out else Unavailable)))))"

definition COMMON_NAMES :: "string list" where
  "COMMON_NAMES = [''main'', ''master'', ''develop'', ''trunk'']"

definition infer_by_name :: "repo_env \<Rightarrow> string list \<Rightarrow> string command" where
  "infer_by_name env branches =
     abind (ok (config_last env ''init.defaultBranch'')) (\<lambda>d.
       let name = (case d of Some (Some n) \<Rightarrow> trim n | _ \<Rightarrow> []) in
       if name \<noteq> [] \<and> name \<in> set branches then aret (Inr name)
       else (case find (\<lambda>n. n \<in> set branches) COMMON_NAMES of
               Some n \<Rightarrow> aret (Inr n)
             | None \<Rightarrow> aret (Inl (Failed ''Could not infer default branch.''))))"

definition current_is_linked :: "repo_env \<Rightarrow> bool command" where
  "current_is_linked env =
     abind (perform (worktree_at (discovery_path env))) (\<lambda>wt. in_process (is_linked env wt))"

definition infer_from_head :: "repo_env \<Rightarrow> string list \<Rightarrow> string command" where
  "infer_from_head env branches =
     abind (ok (git_text (discovery_path env) [''symbolic-ref'', ''HEAD''])) (\<lambda>head.
       case Option.bind head (\<lambda>h. strip_prefix (trim h) ''refs/heads/'') of
         Some b \<Rightarrow> aret (Inr b)
       | None \<Rightarrow> infer_by_name env branches)"

definition infer_among :: "repo_env \<Rightarrow> string list \<Rightarrow> string command" where
  "infer_among env branches =
     abind (is_bare env) (\<lambda>bare.
     abind (current_is_linked env) (\<lambda>linked.
       if bare \<and> \<not> linked \<or> branches = [] then infer_from_head env branches
       else infer_by_name env branches))"

definition infer_default_branch_locally :: "repo_env \<Rightarrow> string command" where
  "infer_default_branch_locally env =
     abind (all_branches env) (\<lambda>branches.
       case branches of [b] \<Rightarrow> aret (Inr b) | _ \<Rightarrow> infer_among env branches)"

definition DEFAULT_BRANCH :: string where
  "DEFAULT_BRANCH = ''worktrunk.default-branch''"

definition remember_default :: "string option \<Rightarrow> string option command" where
  "remember_default b h = Ret (h\<lparr>default_branch_slot := Some b\<rparr>, Inr b)"

text \<open>The configured name: trimmed, unless that leaves nothing.\<close>

definition configured_name :: "string option option \<Rightarrow> string option" where
  "configured_name v = (case v of Some (Some s) \<Rightarrow> nonempty (trim s) | _ \<Rightarrow> None)"

definition detected_after :: "repo_env \<Rightarrow> remote_detection \<Rightarrow> string option command" where
  "detected_after env remote =
     (case remote of Found b \<Rightarrow> aret (Inr (Some b)) | _ \<Rightarrow> ok (infer_default_branch_locally env))"

definition store_detected :: "repo_env \<Rightarrow> remote_detection \<Rightarrow> string option \<Rightarrow> unit command" where
  "store_detected env remote detected =
     (case detected of
        Some b \<Rightarrow>
          if remote \<noteq> Timed_Out
          then abind (outcome (set_config_value env DEFAULT_BRANCH b)) (\<lambda>_. aret (Inr ()))
          else aret (Inr ())
      | None \<Rightarrow> aret (Inr ()))"

definition detect_default_branch :: "repo_env \<Rightarrow> string option command" where
  "detect_default_branch env =
     abind (detect_from_remote env) (\<lambda>remote.
     abind (detected_after env remote) (\<lambda>detected.
     abind (store_detected env remote detected) (\<lambda>_. aret (Inr detected))))"

definition default_branch :: "repo_env \<Rightarrow> string option command" where
  "default_branch env h =
     (case default_branch_slot h of
        Some b \<Rightarrow> Ret (h, Inr b)
      | None \<Rightarrow>
          abind (ok (config_last env DEFAULT_BRANCH)) (\<lambda>v.
            case configured_name v of
              Some b \<Rightarrow> remember_default (Some b)
            | None \<Rightarrow> abind (detect_default_branch env) remember_default) h)"

definition set_default_branch :: "repo_env \<Rightarrow> string \<Rightarrow> unit command" where
  "set_default_branch env b = set_config_value env DEFAULT_BRANCH b"

definition clear_default_branch_cache :: "repo_env \<Rightarrow> bool command" where
  "clear_default_branch_cache env = unset_config_value env DEFAULT_BRANCH"

definition cached_default_branch :: "repo_env \<Rightarrow> string option command" where
  "cached_default_branch env = abind (ok (config_last env DEFAULT_BRANCH)) (\<lambda>v. aret (Inr (configured_name v)))"

definition remote_head :: "repo_env \<Rightarrow> (string \<times> string) option command" where
  "remote_head env =
     abind (ok (primary_remote env)) (\<lambda>r.
       case r of
         None \<Rightarrow> aret (Inr None)
       | Some remote \<Rightarrow> abind (ok (local_default_branch env remote)) (\<lambda>b. aret (Inr (map_option (Pair remote) b))))"

definition default_branch_sha :: "repo_env \<Rightarrow> string option command" where
  "default_branch_sha env =
     abind (default_branch env) (\<lambda>name.
       case name of
         None \<Rightarrow> aret (Inr None)
       | Some n \<Rightarrow>
           abind (ok (local_branches env)) (\<lambda>bs.
             aret (Inr (Option.bind bs (\<lambda>bs. map_option lb_sha (inventory_get bs n))))))"

section \<open>Branches for completion\<close>

datatype branch_category = In_Worktree | Local_Branch | Remote_Only "string list"

record completion_branch =
  cb_name :: string
  cb_timestamp :: int
  cb_category :: branch_category

text \<open>The remotes that have a branch no local branch shadows, with the latest of their times.\<close>

type_synonym remote_group = "string \<times> string list \<times> int"

fun group_remote :: "remote_branch_rec \<Rightarrow> remote_group list \<Rightarrow> remote_group list" where
  "group_remote r [] = [(rb_local_name r, [rb_remote r], rb_ts r)]"
| "group_remote r ((name, remotes, ts) # gs) =
     (if name = rb_local_name r then (name, remotes @ [rb_remote r], max ts (rb_ts r)) # gs
      else (name, remotes, ts) # group_remote r gs)"

definition remote_groups :: "string set \<Rightarrow> remote_branch_rec list \<Rightarrow> remote_group list" where
  "remote_groups shadowed rs = fold group_remote (filter (\<lambda>r. rb_local_name r \<notin> shadowed) rs) []"

text \<open>The groups come out of a hash map; the sort fixes their order, as their names differ.\<close>

definition sorted_groups :: "remote_group list \<Rightarrow> remote_group list" where
  "sorted_groups gs = sort_key (\<lambda>(name, _, ts). (- ts, name)) (map (\<lambda>(name, remotes, ts). (name, sort remotes, ts)) gs)"

definition I64_MAX :: int where
  "I64_MAX = 9223372036854775807"

definition completion_entries ::
  "worktree_info list \<Rightarrow> local_branch_rec list \<Rightarrow> remote_branch_rec list \<Rightarrow> completion_branch list" where
  "completion_entries wts locals_list rs =
     (let in_wt = set (filter_map wi_branch wts);
          names = lb_name ` set locals_list;
          entry = (\<lambda>c b. \<lparr>cb_name = lb_name b, cb_timestamp = lb_ts b, cb_category = c\<rparr>)
      in map (\<lambda>b. \<lparr>cb_name = b, cb_timestamp = I64_MAX, cb_category = In_Worktree\<rparr>)
           (filter (\<lambda>b. b \<notin> names) (filter_map wi_branch wts)) @
         map (entry In_Worktree) (filter (\<lambda>b. lb_name b \<in> in_wt) locals_list) @
         map (entry Local_Branch) (filter (\<lambda>b. lb_name b \<notin> in_wt) locals_list) @
         map (\<lambda>(name, remotes, ts). \<lparr>cb_name = name, cb_timestamp = ts, cb_category = Remote_Only remotes\<rparr>)
           (sorted_groups (remote_groups names rs)))"

text \<open>The three scans are started together and awaited, whatever becomes of them; this is one of their orders.\<close>

definition branches_for_completion :: "repo_env \<Rightarrow> bool \<Rightarrow> completion_branch list command" where
  "branches_for_completion env include_remote =
     abind (ok (list_worktrees env)) (\<lambda>_.
     abind (ok (local_branches env)) (\<lambda>_.
     abind (if include_remote then ok (remote_branches env) else aret (Inr None)) (\<lambda>_.
     abind (list_worktrees env) (\<lambda>wts.
     abind (local_branches env) (\<lambda>locals_list.
     abind (if include_remote then remote_branches env else aret (Inr [])) (\<lambda>rs.
     aret (Inr (completion_entries wts locals_list rs))))))))"

section \<open>What detection leaves behind\<close>

text \<open>A set of effects that reading git configuration is not in either; the detection steps then avoid it too.\<close>

locale config_reader = observer +
  assumes listing: "\<not> E (Ran d CONFIG_LIST r)"
begin

lemma quiet_ok [quiet_intros]: "quiet_for E m \<Longrightarrow> quiet_for E (ok m)"
  unfolding ok_def by (intro quiet_intros)

lemma quiet_in_process [quiet_intros]: "quiet_for E m \<Longrightarrow> quiet_for E (in_process m)"
  by (auto simp: quiet_for_def in_process_def intro!: quiet_intros)

lemma quiet_all_config [quiet_intros]: "quiet_for E (all_config env)"
proof (rule quiet_state)
  fix h
  have q: "quiet_for E (git_bytes (common_dir env) CONFIG_LIST)"
    by (auto simp: quiet_for_def avoids_def act_simps listing)
  have "quiet_for E (abind (git_bytes (common_dir env) CONFIG_LIST) (\<lambda>out h.
      (let m = parse_config_list_z out in Ret (h\<lparr>config_map := Some m\<rparr>, Inr m))))"
    by (intro quiet_bind q quiet_state) (simp add: Let_def avoids_Ret)
  then show "avoids E (all_config env h)"
    by (auto simp: all_config_def intro!: quiet_intros dest: quietD split: option.split)
qed

lemma quiet_config_last [quiet_intros]: "quiet_for E (config_last env key)"
  and quiet_config_bool [quiet_intros]: "quiet_for E (config_bool env key)"
  unfolding config_last_def config_bool_def by (intro quiet_intros)+

lemma quiet_remote_url [quiet_intros]: "quiet_for E (remote_url env r)"
  unfolding remote_url_def by (intro quiet_intros)

lemma quiet_primary_remote [quiet_intros]: "quiet_for E (primary_remote env)"
  unfolding primary_remote_def first_remote_def Let_def by (auto intro!: quiet_intros split: option.split)

lemma quiet_local_default [quiet_intros]: "quiet_for E (local_default_branch env r)"
  unfolding local_default_branch_def by (intro quiet_intros) simp_all

lemma quiet_local_branches [quiet_intros]: "quiet_for E (local_branches env)"
proof (rule quiet_state)
  fix h
  have "quiet_for E (abind (git_text (discovery_path env) [''for-each-ref'', LOCAL_BRANCH_FORMAT, ''refs/heads/''])
      (\<lambda>out. remember_locals (local_records out)))"
    by (intro quiet_intros quiet_state) (simp_all add: remember_locals_def avoids_Ret)
  then show "avoids E (local_branches env h)"
    by (auto simp: local_branches_def intro!: quiet_intros dest: quietD split: option.split)
qed

lemma quiet_infer [quiet_intros]: "quiet_for E (infer_default_branch_locally env)"
proof -
  have n: "quiet_for E (infer_by_name env bs)" for bs
    unfolding infer_by_name_def Let_def by (auto intro!: quiet_intros split: option.split)
  have h: "quiet_for E (infer_from_head env bs)" for bs
    unfolding infer_from_head_def by (auto intro!: quiet_intros n split: option.split)
  have a: "quiet_for E (infer_among env bs)" for bs
    unfolding infer_among_def is_bare_def current_is_linked_def is_linked_def by (intro quiet_intros n h)
  have b: "quiet_for E (all_branches env)" unfolding all_branches_def by (intro quiet_intros)
  show ?thesis
    unfolding infer_default_branch_locally_def by (rule quiet_bind[OF b]) (auto intro!: quiet_intros a split: list.split)
qed

end

definition config_write :: "event \<Rightarrow> bool" where
  "config_write e = (case e of Ran _ args _ \<Rightarrow> touches_config args \<and> args \<noteq> CONFIG_LIST | _ \<Rightarrow> False)"

definition unanswered :: "event \<Rightarrow> bool" where
  "unanswered e = (case e of Ran _ args r \<Rightarrow> queries_remote args \<and> r = Inl TIMED_OUT | _ \<Rightarrow> False)"

interpretation writes: config_reader config_write
  by unfold_locales (auto simp: config_write_def)

interpretation silence: config_reader unanswered
  by unfold_locales (auto simp: unanswered_def CONFIG_LIST_def)

lemma quiet_git_call: "(\<And>r. \<not> E (Ran d args r)) \<Longrightarrow> quiet_for E (git_bytes d args)"
  by (auto simp: quiet_for_def avoids_def act_simps)

lemma quiet_git_text_call: "(\<And>r. \<not> E (Ran d args r)) \<Longrightarrow> quiet_for E (git_text d args)"
  unfolding git_text_def by (intro quiet_intros quiet_git_call)

lemma quiet_run: "quiet_for E m \<Longrightarrow> runs (m h) tr y \<Longrightarrow> e \<in> set tr \<Longrightarrow> \<not> E e"
  by (rule avoidsD[OF quietD])

lemma okE:
  assumes "runs (ok m h) tr (h', r)"
  obtains r0 where "runs (m h) tr (h', r0)" "r = Inr (case r0 of Inr x \<Rightarrow> Some x | Inl _ \<Rightarrow> None)"
  using assms by (auto simp: runs_ok)

lemma query_run:
  assumes "runs (outcome (query_remote_default_branch env remote) h) tr (h', r)"
  obtains q res where "tr = [Ran (discovery_path env) [''ls-remote'', ''--symref'', ''--'', remote, ''HEAD''] q]"
    "h' = h" "r = Inr res" "q = Inl TIMED_OUT \<Longrightarrow> res = Inl (Git_Failed (Not_Run TIMED_OUT))"
proof -
  let ?args = "[''ls-remote'', ''--symref'', ''--'', remote, ''HEAD'']"
  from assms obtain res where "runs (query_remote_default_branch env remote h) tr (h', res)" and r: "r = Inr res"
    by (auto simp: act_simps)
  then show thesis
    unfolding query_remote_default_branch_def
  proof (cases rule: abindE)
    case (Err s1 e)
    then obtain q where q: "tr = [Ran (discovery_path env) ?args q]" "s1 = h" "command_result ?args q = Inl e"
      by (auto simp: act_simps)
    show ?thesis
    proof (rule that[of q res])
      assume "q = Inl TIMED_OUT"
      with q Err show "res = Inl (Git_Failed (Not_Run TIMED_OUT))" by (simp add: command_result_def)
    qed (use q Err r in simp_all)
  next
    case (Ok s1 x tr1 tr2)
    then obtain q o1 where q: "tr1 = [Ran (discovery_path env) ?args q]" "s1 = h" "command_result ?args q = Inr o1"
      by (auto simp: act_simps)
    then have "q \<noteq> Inl TIMED_OUT" by (auto simp: command_result_def)
    with q Ok r show ?thesis by (intro that[of q res]) (auto simp: act_simps)
  qed
qed

lemma detect_from_remote_run:
  assumes "runs (detect_from_remote env h) tr (h', r)"
  shows "\<exists>rem. r = Inr rem \<and> (\<forall>e\<in>set tr. \<not> config_write e) \<and> ((\<exists>e\<in>set tr. unanswered e) \<longrightarrow> rem = Timed_Out)"
  using assms unfolding detect_from_remote_def
proof (cases rule: abindE)
  case (Ok h1 p t1 t2)
  have t1: "\<not> config_write e \<and> \<not> unanswered e" if "e \<in> set t1" for e
    using quiet_run[OF writes.quiet_ok[OF writes.quiet_primary_remote] Ok(2) that]
      quiet_run[OF silence.quiet_ok[OF silence.quiet_primary_remote] Ok(2) that] by blast
  show ?thesis
  proof (cases p)
    case None
    with Ok t1 show ?thesis by (auto simp: act_simps)
  next
    case (Some remote)
    with Ok(3) have "runs (abind (ok (local_default_branch env remote)) (\<lambda>b.
             case b of
               Some branch \<Rightarrow> aret (Inr (Found branch))
             | None \<Rightarrow>
                 abind (outcome (query_remote_default_branch env remote)) (\<lambda>q.
                   aret (Inr (case q of
                     Inr branch \<Rightarrow> Found branch
                   | Inl e \<Rightarrow> if timed_out e then Timed_Out else Unavailable)))) h1) t2 (h', r)" by simp
    then show ?thesis
    proof (cases rule: abindE)
      case (Err s1 e)
      then show ?thesis by (auto elim: okE)
    next
      case (Ok h2 b t3 t4)
      have t3: "\<not> config_write e \<and> \<not> unanswered e" if "e \<in> set t3" for e
        using quiet_run[OF writes.quiet_ok[OF writes.quiet_local_default] Ok(2) that]
          quiet_run[OF silence.quiet_ok[OF silence.quiet_local_default] Ok(2) that] by blast
      show ?thesis
      proof (cases b)
        case (Some branch)
        with Ok t1 t3 \<open>tr = t1 @ t2\<close> show ?thesis by (auto simp: act_simps)
      next
        case None
        with Ok(3) have "runs (abind (outcome (query_remote_default_branch env remote)) (\<lambda>q.
            aret (Inr (case q of Inr branch \<Rightarrow> Found branch
              | Inl e \<Rightarrow> if timed_out e then Timed_Out else Unavailable))) h2) t4 (h', r)" by simp
        then obtain h3 res t5 where o: "runs (outcome (query_remote_default_branch env remote) h2) t5 (h3, Inr res)"
          and r: "t4 = t5" "r = Inr (case res of Inr branch \<Rightarrow> Found branch | Inl e \<Rightarrow> if timed_out e then Timed_Out else Unavailable)"
          by (cases rule: abindE) (auto simp: act_simps)
        from o show ?thesis
          by (rule query_run)
             (use Ok(1) r t1 t3 \<open>tr = t1 @ t2\<close> in
              \<open>auto simp: config_write_def unanswered_def timed_out_def\<close>)
      qed
    qed
  qed
qed (auto elim: okE)

lemma detected_after_run:
  assumes "runs (detected_after env remote h) tr (h', r)"
  shows "(\<exists>d. r = Inr d) \<and> (\<forall>e\<in>set tr. \<not> config_write e \<and> \<not> unanswered e)"
proof -
  have "quiet_for config_write (detected_after env remote)" "quiet_for unanswered (detected_after env remote)"
    unfolding detected_after_def
    by (auto intro!: quiet_intros writes.quiet_ok silence.quiet_ok writes.quiet_infer silence.quiet_infer
        split: remote_detection.split)
  from quiet_run[OF this(1) assms] quiet_run[OF this(2) assms]
  show ?thesis using assms by (auto simp: detected_after_def act_simps elim: okE split: remote_detection.splits)
qed

lemma store_detected_run:
  assumes "runs (store_detected env remote detected h) tr (h', r)"
  shows "r = Inr () \<and> (\<forall>e\<in>set tr. \<exists>d q b. e = Ran d [''config'', DEFAULT_BRANCH, b] q \<and> detected = Some b \<and> remote \<noteq> Timed_Out)"
  using assms
  by (auto simp: store_detected_def act_simps split: option.splits if_splits elim!: runs_set_config_value abindE)

lemma detect_run:
  assumes "runs (detect_default_branch env h) tr (h', r)"
  shows "\<exists>b. r = Inr b \<and>
    (\<forall>e\<in>set tr. config_write e \<longrightarrow> (\<exists>d q n. e = Ran d [''config'', DEFAULT_BRANCH, n] q \<and> b = Some n \<and> (\<forall>e\<in>set tr. \<not> unanswered e)))"
  using assms unfolding detect_default_branch_def
proof (cases rule: abindE)
  case (Err s1 e)
  then show ?thesis using detect_from_remote_run by blast
next
  case (Ok h1 rem t1 t2)
  note d = detect_from_remote_run[OF Ok(2)]
  from Ok(3) show ?thesis
  proof (cases rule: abindE)
    case (Err s1 e)
    then show ?thesis using detected_after_run by blast
  next
    case (Ok h2 b t3 t4)
    note a = detected_after_run[OF Ok(2)]
    from Ok(3) show ?thesis
    proof (cases rule: abindE)
      case (Err s1 e)
      then show ?thesis using store_detected_run by blast
    next
      case (Ok h3 u t5 t6)
      note s = store_detected_run[OF Ok(2)]
      have t5: "\<forall>e\<in>set t5. \<not> unanswered e"
      proof
        fix e assume "e \<in> set t5"
        then obtain d q n where "e = Ran d [''config'', DEFAULT_BRANCH, n] q" using s by blast
        then show "\<not> unanswered e" by (simp add: unanswered_def)
      qed
      have t1: "\<forall>e\<in>set t1. \<not> config_write e" "(\<exists>e\<in>set t1. unanswered e) \<longrightarrow> rem = Timed_Out" using d by auto
      have all: "r = Inr b" "set tr = set t1 \<union> set t3 \<union> set t5"
        using Ok(1,3) \<open>t2 = t3 @ t4\<close> \<open>tr = t1 @ t2\<close> by (auto simp: act_simps)
      have "(\<exists>d q n. e = Ran d [''config'', DEFAULT_BRANCH, n] q \<and> b = Some n) \<and> (\<forall>e\<in>set tr. \<not> unanswered e)"
        if e: "e \<in> set tr" "config_write e" for e
      proof -
        have "e \<in> set t5" using e t1(1) a all(2) by blast
        then obtain d q n where w: "e = Ran d [''config'', DEFAULT_BRANCH, n] q" "b = Some n" "rem \<noteq> Timed_Out" using s by blast
        then have "\<forall>e\<in>set tr. \<not> unanswered e" using t1(2) t5 a all(2) by blast
        with w(1,2) show ?thesis by blast
      qed
      with all(1) show ?thesis by blast
    qed
  qed
qed

text \<open>
  C26. The default branch: looking it up never fails, answers the same without any request for the rest of the
  process, and stores at most the name it answers, and only if the remote, where it was asked, did answer. A
  name inferred while the network was down is not kept.
\<close>

theorem default_branch_is_kept_when_known:
  assumes "default_branch_slot h = None" and "runs (default_branch env h) tr (h', r)"
  shows "\<exists>b. r = Inr b \<and>
    (\<forall>tr2 y. runs (default_branch env h') tr2 y = (tr2 = [] \<and> y = (h', Inr b))) \<and>
    (\<forall>e. e \<in> set tr \<and> config_write e \<longrightarrow>
      (\<exists>d q n. e = Ran d [''config'', DEFAULT_BRANCH, n] q \<and> b = Some n) \<and> (\<forall>e. e \<in> set tr \<longrightarrow> \<not> unanswered e))"
proof -
  have again: "\<forall>tr2 y. runs (default_branch env h') tr2 y = (tr2 = [] \<and> y = (h', Inr b))" if "default_branch_slot h' = Some b" for b
    using that by (auto simp: default_branch_def)
  have "runs (abind (ok (config_last env DEFAULT_BRANCH)) (\<lambda>v.
      case configured_name v of
        Some b \<Rightarrow> remember_default (Some b)
      | None \<Rightarrow> abind (detect_default_branch env) remember_default) h) tr (h', r)"
    using assms by (simp add: default_branch_def)
  then show ?thesis
  proof (cases rule: abindE)
    case (Err s1 e)
    then show ?thesis by (auto elim: okE)
  next
    case (Ok h1 v t1 t2)
    have t1: "\<not> config_write e \<and> \<not> unanswered e" if "e \<in> set t1" for e
      using quiet_run[OF writes.quiet_ok[OF writes.quiet_config_last] Ok(2) that]
        quiet_run[OF silence.quiet_ok[OF silence.quiet_config_last] Ok(2) that] by blast
    show ?thesis
    proof (cases "configured_name v")
      case (Some b)
      with Ok have "tr = t1" "r = Inr (Some b)" "default_branch_slot h' = Some (Some b)"
        by (auto simp: remember_default_def)
      with again[OF this(3)] t1 show ?thesis by (intro exI[of _ "Some b"]) (simp, blast)
    next
      case None
      with Ok(3) have "runs (abind (detect_default_branch env) remember_default h1) t2 (h', r)" by simp
      then show ?thesis
      proof (cases rule: abindE)
        case (Err s1 e)
        then show ?thesis using detect_run by blast
      next
        case Ok2: (Ok h2 b t3 t4)
        then have "tr = t1 @ t3" "r = Inr b" "default_branch_slot h' = Some b"
          using Ok(1) by (auto simp: remember_default_def)
        note all = this
        have dr: "\<forall>e\<in>set t3. config_write e \<longrightarrow>
            (\<exists>d q n. e = Ran d [''config'', DEFAULT_BRANCH, n] q \<and> b = Some n \<and> (\<forall>e\<in>set t3. \<not> unanswered e))"
          using detect_run[OF Ok2(2)] by blast
        have "(\<exists>d q n. e = Ran d [''config'', DEFAULT_BRANCH, n] q \<and> b = Some n) \<and> (\<forall>e. e \<in> set tr \<longrightarrow> \<not> unanswered e)"
          if e: "e \<in> set tr" "config_write e" for e
        proof -
          have "e \<in> set t3" using e t1 all(1) by auto
          with dr e(2) obtain d q n where w: "e = Ran d [''config'', DEFAULT_BRANCH, n] q" "b = Some n"
            and u: "\<forall>e\<in>set t3. \<not> unanswered e" by blast
          from u have "\<forall>e. e \<in> set tr \<longrightarrow> \<not> unanswered e" using t1 all(1) by auto
          with w show ?thesis by blast
        qed
        then have "\<forall>e. e \<in> set tr \<and> config_write e \<longrightarrow>
            (\<exists>d q n. e = Ran d [''config'', DEFAULT_BRANCH, n] q \<and> b = Some n) \<and> (\<forall>e. e \<in> set tr \<longrightarrow> \<not> unanswered e)"
          by blast
        with all(2) again[OF all(3)] show ?thesis by (intro exI[of _ b] conjI)
      qed
    qed
  qed
qed

definition offline_run :: "event list" where
  "offline_run =
     [Ran ''/r'' [''rev-parse'', ''--abbrev-ref'', ''--verify'', ''refs/remotes/o/HEAD'']
        (Inr \<lparr>exit_code = Some 128, term_signal = None, stdout = []\<rparr>),
      Ran ''/r'' [''ls-remote'', ''--symref'', ''--'', ''o'', ''HEAD''] (Inl TIMED_OUT),
      Ran ''/r'' [''for-each-ref'', LOCAL_BRANCH_FORMAT, ''refs/heads/'']
        (Inr \<lparr>exit_code = Some 0, term_signal = None,
           stdout = join [CHR 0x00] [''main'', ''1'', ''5'', [], [], [], []] @ [newline]\<rparr>)]"

lemma default_branch_is_kept_when_known_witness:
  "\<exists>h'. (\<forall>tr2 y. runs (default_branch config_env h') tr2 y = (tr2 = [] \<and> y = (h', Inr (Some ''main'')))) \<and>
     (\<forall>e. e \<in> set offline_run \<and> config_write e \<longrightarrow> (\<forall>e. e \<in> set offline_run \<longrightarrow> \<not> unanswered e))"
proof -
  let ?p = "\<lparr>queries = empty_repo, git_dirs = (\<lambda>_. None), current_branches = (\<lambda>_. None), latch = None\<rparr>"
  let ?h = "config_handle ?p [(''remote.o.url'', [''u''])]"
  have "map_option snd (replay (default_branch config_env ?h) offline_run) = Some (Inr (Some ''main''))"
    by code_simp
  from runs_result[OF this]
  obtain h' where r: "runs (default_branch config_env ?h) offline_run (h', Inr (Some ''main''))"
    by (elim exE)
  have "default_branch_slot ?h = None" by (simp add: config_handle_def)
  from default_branch_is_kept_when_known[OF this r] show ?thesis by (intro exI[of _ h']) auto
qed

end
