(* ===== verification/Selectors.thy ===== *)
theory Selectors
  imports Default_Branch
begin

text \<open>
  From what the user typed to a worktree, a branch or a verdict: the resolution ladder of
  \<open>src/git/repository/worktrees.rs\<close> (\<open>expand_selector\<close>, \<open>resolve_worktree\<close>, \<open>resolve_selector\<close>, the requirements
  built on them), the selectors and item identities of \<open>src/git/repository/mod.rs\<close> and \<open>src/git/mod.rs\<close>, the
  current worktree of \<open>src/git/repository/working_tree.rs\<close>, and the targets of merge and rebase of
  \<open>src/git/repository/config.rs\<close>.
\<close>

section \<open>Names and paths the user types\<close>

definition forbidden_in_ref :: "char \<Rightarrow> bool" where
  "forbidden_in_ref c \<longleftrightarrow>
     of_char c < (32 :: nat) \<or> c = CHR 0x7F \<or> c \<in> {CHR '' '', CHR ''~'', CHR ''^'', CHR '':'', CHR ''?'', CHR ''*'', CHR ''['', CHR 0x5C}"

definition is_valid_branch_name :: "string \<Rightarrow> bool" where
  "is_valid_branch_name name \<longleftrightarrow>
     \<not> (name = [] \<or> ends_with name ''.'' \<or> is_infix ''..'' name \<or> is_infix [CHR ''@'', CHR 0x7B] name) \<and>
     \<not> list_ex forbidden_in_ref name \<and>
     list_all (\<lambda>part. part \<noteq> [] \<and> \<not> starts_with part ''.'' \<and> \<not> ends_with part ''.lock'') (split_on CHR ''/'' name)"

text \<open>The \<open>-C\<close> base, when given, and the user's home directory, when there is one.\<close>

record user_paths =
  base_dir :: "string option"
  home_dir :: "string option"

text \<open>\<open>Path::strip_prefix\<close> of a leading \<open>~\<close> drops the empty and \<open>.\<close> components around what is left.\<close>

definition trivial_component :: "string \<Rightarrow> bool" where
  "trivial_component c \<longleftrightarrow> c = [] \<or> c = ''.''"

definition strip_tilde :: "string \<Rightarrow> string option" where
  "strip_tilde path =
     (case split_on CHR ''/'' path of
        first # rest \<Rightarrow>
          if first = ''~'' then
            Some (join ''/'' (rev (dropWhile trivial_component (rev (dropWhile trivial_component rest)))))
          else None
      | [] \<Rightarrow> None)"

definition expand_tilde :: "user_paths \<Rightarrow> string \<Rightarrow> string" where
  "expand_tilde up path =
     (case strip_tilde path of
        None \<Rightarrow> path
      | Some rest \<Rightarrow> (case home_dir up of None \<Rightarrow> path | Some home \<Rightarrow> path_join home rest))"

definition resolve_input_path :: "user_paths \<Rightarrow> string \<Rightarrow> string" where
  "resolve_input_path up path =
     (let p = expand_tilde up path in case base_dir up of Some base \<Rightarrow> path_join base p | None \<Rightarrow> p)"

definition normalize_selector :: "string \<Rightarrow> string" where
  "normalize_selector name =
     (let trimmed = rev (dropWhile (\<lambda>c. c = CHR ''/'') (rev name)) in if trimmed = [] then name else trimmed)"

record selector =
  token :: string
  names_a_path :: bool

definition literal :: "string \<Rightarrow> selector" where
  "literal t = \<lparr>token = t, names_a_path = True\<rparr>"

definition rewritten_to :: "string \<Rightarrow> selector" where
  "rewritten_to t = \<lparr>token = t, names_a_path = False\<rparr>"

section \<open>Identities\<close>

definition worktree_item :: "string \<Rightarrow> git_item_id command" where
  "worktree_item path = abind (perform (canonicalize_with_parents path)) (\<lambda>p. aret (Inr (Worktree_Id p)))"

definition local_branch_item :: "string \<Rightarrow> git_item_id" where
  "local_branch_item branch = Ref_Id (''refs/heads/'' @ branch)"

definition remote_branch_item :: "string \<Rightarrow> git_item_id" where
  "remote_branch_item branch = Ref_Id (''refs/remotes/'' @ branch)"

text \<open>Equality of \<open>WorktreeId\<close>s is equality of \<open>Path\<close>s.\<close>

fun same_item :: "git_item_id \<Rightarrow> git_item_id \<Rightarrow> bool" where
  "same_item (Worktree_Id a) (Worktree_Id b) = same_path a b"
| "same_item (Ref_Id a) (Ref_Id b) = (a = b)"
| "same_item _ _ = False"

datatype resolved_worktree =
    Resolved_Worktree string "string option" git_item_id
  | Branch_Only string git_item_id
  | No_Worktree_At_Path string

fun resolved_id :: "resolved_worktree \<Rightarrow> git_item_id option" where
  "resolved_id (Resolved_Worktree _ _ i) = Some i"
| "resolved_id (Branch_Only _ i) = Some i"
| "resolved_id (No_Worktree_At_Path _) = None"

definition resolved_at :: "string \<Rightarrow> string option \<Rightarrow> resolved_worktree command" where
  "resolved_at path branch =
     abind (worktree_item path) (\<lambda>i. aret (Inr (Resolved_Worktree path branch i)))"

definition branch_only :: "string \<Rightarrow> resolved_worktree" where
  "branch_only branch = Branch_Only branch (local_branch_item branch)"

section \<open>The worktree the command runs in\<close>

definition remember_root :: "string \<Rightarrow> string \<Rightarrow> string command" where
  "remember_root wt r h =
     (let v = (case roots h wt of Some old \<Rightarrow> old | None \<Rightarrow> r)
      in Ret (h\<lparr>roots := (roots h)(wt \<mapsto> v)\<rparr>, Inr r))"

text \<open>The top level of the worktree; outside any it is the path itself, which is not kept.\<close>

definition worktree_root :: "string \<Rightarrow> string command" where
  "worktree_root wt h =
     (case roots h wt of
        Some r \<Rightarrow> Ret (h, Inr r)
      | None \<Rightarrow>
          abind (ok (git_bytes wt [''rev-parse'', ''--show-toplevel''])) (\<lambda>out.
            case Option.bind out git_path_from_output of
              None \<Rightarrow> aret (Inr wt)
            | Some p \<Rightarrow>
                abind (perform (Canonicalize p Ret)) (\<lambda>c.
                  case c of None \<Rightarrow> aret (Inr wt) | Some r \<Rightarrow> remember_root wt r)) h)"

record wt_git_info =
  gi_inside :: bool
  gi_root :: "string option"
  gi_git_dir :: "string option"
  gi_branch :: "string option option"

definition outside_info :: wt_git_info where
  "outside_info = \<lparr>gi_inside = False, gi_root = None, gi_git_dir = None, gi_branch = None\<rparr>"

definition cached_info :: "handle \<Rightarrow> string \<Rightarrow> string \<Rightarrow> wt_git_info" where
  "cached_info h wt r =
     \<lparr>gi_inside = True, gi_root = Some r, gi_git_dir = git_dirs (proc h) wt,
      gi_branch = current_branches (proc h) wt\<rparr>"

definition rev_parse_fields :: "cmd_output \<Rightarrow> nat \<Rightarrow> string list option" where
  "rev_parse_fields out n =
     Option.bind (strip_suffix (stdout out) [newline]) (\<lambda>bytes.
       let fields = split_on newline bytes in
       if length fields = n \<and> (exit_code out = Some 0 \<or> last fields = ''HEAD'') then Some fields else None)"

definition PREWARM_ARGS :: "string list" where
  "PREWARM_ARGS = [''rev-parse'', ''--is-inside-work-tree'', ''--show-toplevel'', ''--git-dir'', ''--symbolic-full-name'', ''HEAD'']"

text \<open>The caches keep what they already have; the snapshot holds what this batch said.\<close>

definition keep_git_dir :: "string \<Rightarrow> string \<Rightarrow> unit command" where
  "keep_git_dir wt d h =
     (let p = proc h; v = (case git_dirs p wt of Some old \<Rightarrow> old | None \<Rightarrow> d)
      in Ret (h\<lparr>proc := p\<lparr>git_dirs := (git_dirs p)(wt \<mapsto> v)\<rparr>\<rparr>, Inr ()))"

definition keep_branch :: "string \<Rightarrow> string option \<Rightarrow> unit command" where
  "keep_branch wt b h =
     (let p = proc h; v = (case current_branches p wt of Some old \<Rightarrow> old | None \<Rightarrow> b)
      in Ret (h\<lparr>proc := p\<lparr>current_branches := (current_branches p)(wt \<mapsto> v)\<rparr>\<rparr>, Inr ()))"

definition batch_root :: "string \<Rightarrow> string \<Rightarrow> string command" where
  "batch_root wt raw =
     abind (perform (Canonicalize raw Ret)) (\<lambda>c.
       case c of Some r \<Rightarrow> remember_root wt r | None \<Rightarrow> worktree_root wt)"

definition batch_git_dir :: "string \<Rightarrow> string \<Rightarrow> string option command" where
  "batch_git_dir wt raw =
     abind (perform (Canonicalize (if is_absolute raw then raw else path_join wt raw) Ret)) (\<lambda>c.
       case c of
         None \<Rightarrow> aret (Inr None)
       | Some d \<Rightarrow> abind (keep_git_dir wt d) (\<lambda>_. aret (Inr (Some d))))"

definition batch_branch :: "string \<Rightarrow> cmd_output \<Rightarrow> string \<Rightarrow> string option option command" where
  "batch_branch wt out raw =
     (if exit_code out = Some 0 \<and> valid_utf8 raw then
        (let b = strip_prefix raw ''refs/heads/'' in abind (keep_branch wt b) (\<lambda>_. aret (Inr (Some b))))
      else aret (Inr None))"

definition read_info :: "string \<Rightarrow> cmd_output \<Rightarrow> wt_git_info command" where
  "read_info wt out =
     (if \<not> starts_with (stdout out) (''true'' @ [newline]) then aret (Inr outside_info)
      else (case rev_parse_fields out 4 of
              Some [_, r, d, b] \<Rightarrow>
                abind (batch_root wt r) (\<lambda>root.
                abind (batch_git_dir wt d) (\<lambda>dir.
                abind (batch_branch wt out b) (\<lambda>branch.
                  aret (Inr \<lparr>gi_inside = True, gi_root = Some root, gi_git_dir = dir, gi_branch = branch\<rparr>))))
            | _ \<Rightarrow>
                abind (worktree_root wt) (\<lambda>root.
                  aret (Inr (outside_info\<lparr>gi_inside := True, gi_root := Some root\<rparr>)))))"

definition prewarm_info :: "string \<Rightarrow> wt_git_info command" where
  "prewarm_info wt h =
     (case roots h wt of
        Some r \<Rightarrow> Ret (h, Inr (cached_info h wt r))
      | None \<Rightarrow> abind (git_output wt PREWARM_ARGS) (read_info wt) h)"

definition current_worktree :: "repo_env \<Rightarrow> string command" where
  "current_worktree env = perform (worktree_at (discovery_path env))"

definition is_current_worktree :: "repo_env \<Rightarrow> string \<Rightarrow> bool command" where
  "is_current_worktree env path =
     abind (current_worktree env) (\<lambda>wt.
     abind (worktree_root wt) (\<lambda>r.
     abind (worktree_item r) (\<lambda>a.
     abind (worktree_item path) (\<lambda>b. aret (Inr (same_item a b))))))"

section \<open>Shortcuts\<close>

definition expand_shortcut :: "repo_env \<Rightarrow> string \<Rightarrow> string option command" where
  "expand_shortcut env name =
     (if name = ''@'' then
        abind (current_worktree env) (\<lambda>wt.
        abind (in_process (wt_branch wt)) (\<lambda>b.
          aret (case b of Some b \<Rightarrow> Inr (Some b) | None \<Rightarrow> Inl (Detached_Head ''resolve @ to current branch'' None))))
      else if name = ''-'' then
        abind (switch_previous env) (\<lambda>b.
          aret (case b of Some b \<Rightarrow> Inr (Some b) | None \<Rightarrow> Inl (Failed ''No previous branch found in history'')))
      else if name = ''^'' then
        abind (default_branch env) (\<lambda>b.
          aret (case b of Some b \<Rightarrow> Inr (Some b) | None \<Rightarrow> Inl (Failed ''Cannot determine default branch'')))
      else aret (Inr None))"

definition expand_selector :: "repo_env \<Rightarrow> string \<Rightarrow> selector command" where
  "expand_selector env name =
     (let n = normalize_selector name in
      abind (expand_shortcut env n) (\<lambda>e.
        aret (Inr (case e of Some t \<Rightarrow> rewritten_to t | None \<Rightarrow> literal n))))"

section \<open>The ladder\<close>

definition is_bare_repo_dir :: "string \<Rightarrow> bool io" where
  "is_bare_repo_dir dir =
     Metadata (path_join dir ''HEAD'') (\<lambda>m. if m \<noteq> Some Is_File then Ret False else
     Metadata (path_join dir ''objects'') (\<lambda>m. if m \<noteq> Some Is_Dir then Ret False else
     Metadata (path_join dir ''refs'') (\<lambda>m. Ret (m = Some Is_Dir))))"

text \<open>\<open>Absent\<close> is \<open>NotFound\<close> here: what is looked up is an entry of a directory.\<close>

definition holds_git_data :: "string \<Rightarrow> bool io" where
  "holds_git_data path =
     Lstat (path_join path ''.git'') (\<lambda>p. if p \<noteq> Absent then Ret True else is_bare_repo_dir path)"

definition worktree_at_input_path :: "user_paths \<Rightarrow> repo_env \<Rightarrow> string \<Rightarrow> (string \<times> string option) option command" where
  "worktree_at_input_path up env name = worktree_at_path env (resolve_input_path up name)"

definition path_selector_directory :: "user_paths \<Rightarrow> repo_env \<Rightarrow> string \<Rightarrow> string option command" where
  "path_selector_directory up env sel =
     (if is_valid_branch_name sel then aret (Inr None)
      else let path = resolve_input_path up sel in
        abind (perform (Metadata path Ret)) (\<lambda>m.
          if m \<noteq> Some Is_Dir then aret (Inr None)
          else abind (outcome (worktree_at_path env path)) (\<lambda>w.
            if w \<noteq> Inr None then aret (Inr None)
            else abind (perform (holds_git_data path)) (\<lambda>data.
              aret (Inr (if data then None else Some path))))))"

definition resolve_selector :: "user_paths \<Rightarrow> repo_env \<Rightarrow> selector \<Rightarrow> resolved_worktree command" where
  "resolve_selector up env sel =
     abind (worktree_for_branch env (token sel)) (\<lambda>p.
       case p of
         Some path \<Rightarrow> resolved_at path (Some (token sel))
       | None \<Rightarrow>
           if \<not> names_a_path sel then aret (Inr (branch_only (token sel)))
           else abind (worktree_at_input_path up env (token sel)) (\<lambda>w.
             case w of
               Some (path, branch) \<Rightarrow> resolved_at path branch
             | None \<Rightarrow>
                 abind (path_selector_directory up env (token sel)) (\<lambda>d.
                   aret (Inr (case d of Some path \<Rightarrow> No_Worktree_At_Path path | None \<Rightarrow> branch_only (token sel))))))"

fun find_by_id :: "git_item_id \<Rightarrow> worktree_info list \<Rightarrow> worktree_info option command" where
  "find_by_id i [] = aret (Inr None)"
| "find_by_id i (wt # wts) =
     abind (worktree_item (wi_path wt)) (\<lambda>j. if same_item j i then aret (Inr (Some wt)) else find_by_id i wts)"

text \<open>What \<open>@\<close> names by path; \<open>None\<close> when it falls through to the branch of \<open>HEAD\<close>.\<close>

definition resolve_current :: "repo_env \<Rightarrow> resolved_worktree option command" where
  "resolve_current env =
     abind (current_worktree env) (\<lambda>wt.
     abind (worktree_root wt) (\<lambda>path.
     abind (worktree_item path) (\<lambda>i.
     abind (list_worktrees env) (\<lambda>wts.
     abind (find_by_id i wts) (\<lambda>found.
       case found of
         Some w \<Rightarrow> abind (resolved_at path (wi_branch w)) (\<lambda>r. aret (Inr (Some r)))
       | None \<Rightarrow>
           abind (prewarm_info wt) (\<lambda>info.
             aret (Inr (if gi_inside info then Some (No_Worktree_At_Path path) else None))))))))"

definition resolve_previous :: "repo_env \<Rightarrow> resolved_worktree option command" where
  "resolve_previous env =
     abind (switch_previous_worktree env) (\<lambda>p.
       case p of
         None \<Rightarrow> aret (Inr None)
       | Some (path, branch) \<Rightarrow> abind (resolved_at path branch) (\<lambda>r. aret (Inr (Some r))))"

definition resolve_worktree :: "user_paths \<Rightarrow> repo_env \<Rightarrow> string \<Rightarrow> resolved_worktree command" where
  "resolve_worktree up env typed =
     (let name = normalize_selector typed in
      abind (if name = ''@'' then resolve_current env
             else if name = ''-'' then resolve_previous env
             else aret (Inr None)) (\<lambda>early.
        case early of
          Some r \<Rightarrow> aret (Inr r)
        | None \<Rightarrow> abind (expand_selector env name) (resolve_selector up env)))"

section \<open>Requirements\<close>

definition require_selected_branch :: "user_paths \<Rightarrow> repo_env \<Rightarrow> string \<Rightarrow> string \<Rightarrow> string command" where
  "require_selected_branch up env name act =
     abind (resolve_worktree up env name) (\<lambda>r.
       case r of
         Resolved_Worktree _ (Some branch) _ \<Rightarrow> aret (Inr branch)
       | Branch_Only branch _ \<Rightarrow> aret (Inr branch)
       | No_Worktree_At_Path path \<Rightarrow> aret (Inl (Worktree_Not_Found_At_Path path))
       | Resolved_Worktree path None _ \<Rightarrow>
           abind (is_current_worktree env path) (\<lambda>here.
             aret (Inl (if here then Detached_Head act None else Detached_Head act (Some path)))))"

definition no_worktree_error :: "repo_env \<Rightarrow> string \<Rightarrow> wt_error command" where
  "no_worktree_error env branch =
     abind (outcome (exists_locally env branch)) (\<lambda>e.
       aret (Inr (if e = Inr True then Worktree_Not_Found branch else Worktree_Selector_Not_Found branch)))"

definition require_worktree :: "user_paths \<Rightarrow> repo_env \<Rightarrow> string \<Rightarrow> (string \<times> string option) command" where
  "require_worktree up env name =
     abind (resolve_worktree up env name) (\<lambda>r.
       case r of
         Resolved_Worktree path branch _ \<Rightarrow> aret (Inr (path, branch))
       | Branch_Only branch _ \<Rightarrow> abind (no_worktree_error env branch) (\<lambda>e. aret (Inl e))
       | No_Worktree_At_Path path \<Rightarrow> aret (Inl (Worktree_Not_Found_At_Path path)))"

definition primary_worktree :: "repo_env \<Rightarrow> string option command" where
  "primary_worktree env =
     abind (is_bare env) (\<lambda>bare.
       if bare then
         abind (default_branch env) (\<lambda>b.
           case b of None \<Rightarrow> aret (Inr None) | Some branch \<Rightarrow> worktree_for_branch env branch)
       else abind (repo_path env) (\<lambda>p. aret (Inr (Some p))))"

definition home_path :: "repo_env \<Rightarrow> string command" where
  "home_path env =
     abind (primary_worktree env) (\<lambda>p. case p of Some p \<Rightarrow> aret (Inr p) | None \<Rightarrow> repo_path env)"

section \<open>Targets of merge and rebase\<close>

definition resolve_target_selector :: "repo_env \<Rightarrow> string option \<Rightarrow> selector command" where
  "resolve_target_selector env target =
     (case target of
        Some b \<Rightarrow> expand_selector env b
      | None \<Rightarrow>
          abind (default_branch env) (\<lambda>b.
            aret (case b of
                    Some b \<Rightarrow> Inr (rewritten_to b)
                  | None \<Rightarrow> Inl (Failed ''Cannot determine default branch''))))"

definition resolve_target_branch :: "repo_env \<Rightarrow> string option \<Rightarrow> string command" where
  "resolve_target_branch env target =
     abind (resolve_target_selector env target) (\<lambda>s. aret (Inr (token s)))"

definition target_worktree_at_path ::
  "user_paths \<Rightarrow> repo_env \<Rightarrow> selector \<Rightarrow> (string \<times> string option) option command" where
  "target_worktree_at_path up env sel =
     (if \<not> names_a_path sel then aret (Inr None) else worktree_at_input_path up env (token sel))"

definition is_unborn_branch :: "repo_env \<Rightarrow> string \<Rightarrow> bool command" where
  "is_unborn_branch env branch =
     abind (ok (list_worktrees env)) (\<lambda>wts.
       aret (Inr (case wts of
         Some wts \<Rightarrow> list_ex (\<lambda>wt. wi_branch wt = Some branch \<and> wi_head wt = null_oid) wts
       | None \<Rightarrow> False)))"

definition uncached_default_branch_error :: "repo_env \<Rightarrow> string \<Rightarrow> wt_error command" where
  "uncached_default_branch_error env branch =
     abind (is_unborn_branch env branch) (\<lambda>unborn.
       aret (Inr (if unborn then Unborn_Default_Branch branch else Stale_Default_Branch branch)))"

text \<open>The forge is looked up for the wording of the error.\<close>

definition missing_target_branch :: "gix \<Rightarrow> user_paths \<Rightarrow> repo_env \<Rightarrow> string \<Rightarrow> string command" where
  "missing_target_branch gix up env branch =
     abind (path_selector_directory up env branch) (\<lambda>d.
       case d of
         Some path \<Rightarrow> aret (Inl (Worktree_Not_Found_At_Path path))
       | None \<Rightarrow>
           abind (detect_ref_type gix env) (\<lambda>_.
             aret (Inl (Branch_Not_Found branch (is_valid_branch_name branch)))))"

definition require_target_branch :: "gix \<Rightarrow> user_paths \<Rightarrow> repo_env \<Rightarrow> string option \<Rightarrow> string command" where
  "require_target_branch gix up env target =
     abind (resolve_target_selector env target) (\<lambda>sel.
     abind (branch_exists env (token sel)) (\<lambda>there.
       if there then aret (Inr (token sel))
       else abind (target_worktree_at_path up env sel) (\<lambda>w.
         case w of
           Some (_, Some branch) \<Rightarrow> aret (Inr branch)
         | Some (path, None) \<Rightarrow> aret (Inl (Detached_Head ''use as a target'' (Some path)))
         | None \<Rightarrow>
             if target = None then abind (uncached_default_branch_error env (token sel)) (\<lambda>e. aret (Inl e))
             else missing_target_branch gix up env (token sel))))"

definition require_target_ref :: "user_paths \<Rightarrow> repo_env \<Rightarrow> string option \<Rightarrow> string command" where
  "require_target_ref up env target =
     abind (resolve_target_selector env target) (\<lambda>sel.
     abind (ref_exists env (token sel)) (\<lambda>there.
       if there then aret (Inr (token sel))
       else abind (target_worktree_at_path up env sel) (\<lambda>w.
         case w of
           Some (_, Some branch) \<Rightarrow> aret (Inr branch)
         | _ \<Rightarrow>
             if target = None then abind (uncached_default_branch_error env (token sel)) (\<lambda>e. aret (Inl e))
             else aret (Inl (Reference_Not_Found (token sel))))))"

section \<open>Which candidate wins\<close>

lemma list_worktrees_slot: "runs (list_worktrees env h) tr (h', Inr wts) \<Longrightarrow> worktrees_slot h' = Some wts"
  by (auto simp: list_worktrees_def remember_worktrees_def runs_aret split: option.splits sum.splits elim!: abindE)

lemma listed_already: "worktrees_slot h = Some wts \<Longrightarrow> runs (list_worktrees env h) tr y \<longleftrightarrow> tr = [] \<and> y = (h, Inr wts)"
  by (auto simp: list_worktrees_def)

lemma worktree_for_branch_run:
  assumes "runs (worktree_for_branch env b h) tr (h', Inr p)"
  shows "\<exists>wts. worktrees_slot h' = Some wts \<and> p = head_option (worktree_paths_for_branch wts b)"
  using assms unfolding worktree_for_branch_def Let_def
  by (auto simp: warn_duplicate_checkout_def runs_aret elim!: abindE split: if_splits dest!: list_worktrees_slot)

lemma worktree_at_path_run:
  "worktrees_slot h = Some wts \<Longrightarrow>
     runs (worktree_at_path env path h) tr y \<longleftrightarrow> (\<exists>w. runs (find_at_path path wts) tr w \<and> y = (h, Inr w))"
  unfolding worktree_at_path_def by (auto simp: act_simps listed_already)

lemma find_at_path_finds: "runs (find_at_path path wts) tr (Some (p, b)) \<Longrightarrow> \<exists>wt\<in>set wts. wi_path wt = p \<and> wi_branch wt = b"
  by (induction wts arbitrary: tr) (force elim!: io_bindE split: if_splits)+

definition saw_no_worktree :: "string \<Rightarrow> worktree_info list \<Rightarrow> event list \<Rightarrow> bool" where
  "saw_no_worktree path wts tr \<longleftrightarrow> (\<exists>pre mid post. tr = pre @ mid @ post \<and> runs (find_at_path path wts) mid None)"

lemma saw_no_worktree_later: "saw_no_worktree path wts tr \<Longrightarrow> saw_no_worktree path wts (pre @ tr)"
  unfolding saw_no_worktree_def by (metis append_assoc)

lemma directory_verdict:
  assumes slot: "worktrees_slot h = Some wts"
    and run: "runs (path_selector_directory up env sel h) tr (h', Inr (Some p))"
  shows "h' = h \<and> \<not> is_valid_branch_name sel \<and> p = resolve_input_path up sel \<and> Examined p (Some Is_Dir) \<in> set tr \<and>
    saw_no_worktree p wts tr \<and> Probed (path_join p ''.git'') Absent \<in> set tr"
proof -
  let ?p = "resolve_input_path up sel"
  from run have nv: "\<not> is_valid_branch_name sel" by (auto simp: path_selector_directory_def act_simps split: if_splits)
  with run obtain t2 t3 where r: "h' = h" "p = ?p" "tr = Examined ?p (Some Is_Dir) # t2 @ t3"
      "runs (find_at_path ?p wts) t2 None" "runs (holds_git_data ?p) t3 False"
    by (auto simp: path_selector_directory_def Let_def act_simps act_cases worktree_at_path_run[OF slot] split: if_splits)
  from r(5) have "Probed (path_join ?p ''.git'') Absent \<in> set t3"
    by (auto simp: holds_git_data_def split: if_splits)
  moreover have "saw_no_worktree ?p wts tr"
    unfolding saw_no_worktree_def using r(3,4) by (metis append_Cons append_Nil)
  ultimately show ?thesis using r nv by auto
qed

lemma resolved_at_run:
  "runs (resolved_at path b h) tr y \<longleftrightarrow>
     (\<exists>c. runs (canonicalize_with_parents path) tr c \<and> y = (h, Inr (Resolved_Worktree path b (Worktree_Id c))))"
  by (auto simp: resolved_at_def worktree_item_def act_simps)

lemma head_option_iff: "head_option xs = Some x \<longleftrightarrow> (\<exists>ys. xs = x # ys)" "head_option xs = None \<longleftrightarrow> xs = []"
  by (auto simp: head_option_def split: list.splits)


text \<open>\<open>wt switch ./old/\<close> beside the one worktree: a directory, and no worktree.\<close>

definition leftover_run :: "event list" where
  "leftover_run =
     [Canonicalized ''/r'' (Some ''/r''), Canonicalized ''./old'' (Some ''/d/old''),
      Examined ''./old'' (Some Is_Dir), Canonicalized ''/r'' (Some ''/r''), Canonicalized ''./old'' (Some ''/d/old''),
      Probed ''./old/.git'' Absent, Examined ''./old/HEAD'' None]"

definition one_worktree :: handle where
  "one_worktree =
     (config_handle \<lparr>queries = empty_repo, git_dirs = (\<lambda>_. None), current_branches = (\<lambda>_. None), latch = None\<rparr> [])
       \<lparr>worktrees_slot := Some [blank_worktree ''/r'']\<rparr>"


end
