(* ===== verification/Hook_Commands.thy ===== *)
theory Hook_Commands
  imports Project_Match Text_Decode
begin

text \<open>
  What hooks are: the command pipelines of \<open>src/config/commands.rs\<close> with their reading from and writing to
  configuration values, the ten hook types (\<open>src/git/mod.rs\<close>) and the hooks of one configuration with their merge
  (\<open>src/config/hooks.rs\<close>), aliases and how they compose (\<open>append_aliases\<close>), name
  filters (\<open>src/commands/hook_filter.rs\<close>) and the announcement of a pipeline
  (\<open>src/commands/hook_announcement.rs\<close>). The parsed value a configuration file holds is the type \<open>toml\<close>.
\<close>

section \<open>Pipelines\<close>

record hook_command =
  cmd_name :: "string option"
  cmd_template :: string

definition new_command :: "string option \<Rightarrow> string \<Rightarrow> hook_command" where
  "new_command n t = \<lparr>cmd_name = n, cmd_template = t\<rparr>"

datatype hook_step = Single hook_command | Concurrent "hook_command list"

type_synonym command_config = "hook_step list"

fun step_commands :: "hook_step \<Rightarrow> hook_command list" where
  "step_commands (Single c) = [c]"
| "step_commands (Concurrent cs) = cs"

definition config_commands :: "command_config \<Rightarrow> hook_command list" where
  "config_commands cfg = concat (map step_commands cfg)"

fun filter_step :: "(hook_command \<Rightarrow> bool) \<Rightarrow> hook_step \<Rightarrow> hook_step option" where
  "filter_step retain (Single c) = (if retain c then Some (Single c) else None)"
| "filter_step retain (Concurrent cs) =
     (case filter retain cs of [] \<Rightarrow> None | [c] \<Rightarrow> Some (Single c) | kept \<Rightarrow> Some (Concurrent kept))"

definition filtered :: "(hook_command \<Rightarrow> bool) \<Rightarrow> command_config \<Rightarrow> command_config" where
  "filtered retain cfg = filter_map (filter_step retain) cfg"

definition merge_append :: "command_config \<Rightarrow> command_config \<Rightarrow> command_config" where
  "merge_append base other = base @ other"

section \<open>Reading and writing configuration values\<close>

datatype toml =
    T_String string | T_Table "(string \<times> toml) list" | T_Array "toml list" | T_Bool bool | T_Int int | T_Other string

datatype command_error = Invalid_Type | Colon_In_Name string

text \<open>\<open>IndexMap::insert\<close>: a key keeps its place.\<close>

fun index_insert :: "'k \<Rightarrow> 'v \<Rightarrow> ('k \<times> 'v) list \<Rightarrow> ('k \<times> 'v) list" where
  "index_insert k v [] = [(k, v)]"
| "index_insert k v ((k', v') # m) = (if k' = k then (k, v) # m else (k', v') # index_insert k v m)"

fun read_entries :: "(string \<times> toml) list \<Rightarrow> (string \<times> string) list \<Rightarrow> command_error + (string \<times> string) list" where
  "read_entries [] m = Inr m"
| "read_entries ((k, T_String t) # kvs) m = read_entries kvs (index_insert k t m)"
| "read_entries ((k, _) # kvs) m = Inl Invalid_Type"

definition validate_no_colons :: "(string \<times> string) list \<Rightarrow> command_error + unit" where
  "validate_no_colons m =
     (case find (\<lambda>(name, _). contains_char name CHR '':'') m of
        Some (name, _) \<Rightarrow> Inl (Colon_In_Name name) | None \<Rightarrow> Inr ())"

definition map_to_step :: "(string \<times> string) list \<Rightarrow> hook_step" where
  "map_to_step m =
     (case m of
        [(name, t)] \<Rightarrow> Single (new_command (Some name) t)
      | _ \<Rightarrow> Concurrent (map (\<lambda>(name, t). new_command (Some name) t) m))"

definition read_table :: "(string \<times> toml) list \<Rightarrow> command_error + hook_step option" where
  "read_table kvs =
     rbind (read_entries kvs []) (\<lambda>m.
       if m = [] then Inr None
       else rbind (validate_no_colons m) (\<lambda>_. Inr (Some (map_to_step m))))"

fun read_pipeline :: "toml list \<Rightarrow> command_error + command_config" where
  "read_pipeline [] = Inr []"
| "read_pipeline (T_String t # es) = rbind (read_pipeline es) (\<lambda>rest. Inr (Single (new_command None t) # rest))"
| "read_pipeline (T_Table kvs # es) =
     rbind (read_table kvs) (\<lambda>s.
     rbind (read_pipeline es) (\<lambda>rest. Inr (case s of None \<Rightarrow> rest | Some s \<Rightarrow> s # rest)))"
| "read_pipeline (_ # es) = Inl Invalid_Type"

fun read_config :: "toml \<Rightarrow> command_error + command_config" where
  "read_config (T_String t) = Inr [Single (new_command None t)]"
| "read_config (T_Array es) = read_pipeline es"
| "read_config (T_Table kvs) = rbind (read_table kvs) (\<lambda>s. Inr (case s of None \<Rightarrow> [] | Some s \<Rightarrow> [s]))"
| "read_config _ = Inl Invalid_Type"

text \<open>The keys of a table of commands; unnamed ones are numbered.\<close>

fun command_keys :: "nat \<Rightarrow> hook_command list \<Rightarrow> (string \<times> string) list" where
  "command_keys n [] = []"
| "command_keys n (c # cs) =
     (case cmd_name c of
        Some name \<Rightarrow> (name, cmd_template c) # command_keys n cs
      | None \<Rightarrow> (''_'' @ show_nat (Suc n), cmd_template c) # command_keys (Suc n) cs)"

definition as_table :: "(string \<times> string) list \<Rightarrow> toml" where
  "as_table m = T_Table (map (\<lambda>(k, t). (k, T_String t)) m)"

definition serialize_commands_as_map :: "hook_command list \<Rightarrow> toml" where
  "serialize_commands_as_map cs = as_table (command_keys 0 cs)"

fun serialize_step :: "hook_step \<Rightarrow> toml" where
  "serialize_step (Single c) =
     (case cmd_name c of None \<Rightarrow> T_String (cmd_template c) | Some n \<Rightarrow> as_table [(n, cmd_template c)])"
| "serialize_step (Concurrent cs) = as_table (fold (\<lambda>(k, t). index_insert k t) (command_keys 0 cs) [])"

definition serialize_config :: "command_config \<Rightarrow> toml" where
  "serialize_config cfg =
     (case cfg of
        [Single c] \<Rightarrow> (case cmd_name c of None \<Rightarrow> T_String (cmd_template c) | Some _ \<Rightarrow> serialize_commands_as_map [c])
      | [Concurrent cs] \<Rightarrow> serialize_commands_as_map cs
      | _ \<Rightarrow> T_Array (map serialize_step cfg))"

section \<open>Hook types and the hooks of a configuration\<close>

datatype hook_type =
    Pre_Switch | Post_Switch | Pre_Create | Post_Create | Pre_Commit | Post_Commit
  | Pre_Merge | Post_Merge | Pre_Remove | Post_Remove

fun is_pre :: "hook_type \<Rightarrow> bool" where
  "is_pre Pre_Switch = True" | "is_pre Pre_Create = True" | "is_pre Pre_Commit = True"
| "is_pre Pre_Merge = True" | "is_pre Pre_Remove = True"
| "is_pre _ = False"

fun hook_type_name :: "hook_type \<Rightarrow> string" where
  "hook_type_name Pre_Switch = ''pre-switch''" | "hook_type_name Post_Switch = ''post-switch''"
| "hook_type_name Pre_Create = ''pre-start''" | "hook_type_name Post_Create = ''post-start''"
| "hook_type_name Pre_Commit = ''pre-commit''" | "hook_type_name Post_Commit = ''post-commit''"
| "hook_type_name Pre_Merge = ''pre-merge''" | "hook_type_name Post_Merge = ''post-merge''"
| "hook_type_name Pre_Remove = ''pre-remove''" | "hook_type_name Post_Remove = ''post-remove''"

datatype hook_source = User | Project

fun source_name :: "hook_source \<Rightarrow> string" where
  "source_name User = ''user''"
| "source_name Project = ''project''"

instantiation hook_source :: linorder
begin

definition less_eq_hook_source :: "hook_source \<Rightarrow> hook_source \<Rightarrow> bool" where
  "less_eq_hook_source a b \<longleftrightarrow> a = User \<or> b = Project"

definition less_hook_source :: "hook_source \<Rightarrow> hook_source \<Rightarrow> bool" where
  "less_hook_source a b \<longleftrightarrow> a = User \<and> b = Project"

instance
  by standard (auto simp: less_eq_hook_source_def less_hook_source_def intro: hook_source.exhaust)

end

definition source_command_label :: "hook_source \<Rightarrow> string option \<Rightarrow> string" where
  "source_command_label s name = (case name of Some n \<Rightarrow> source_name s @ '':'' @ n | None \<Rightarrow> source_name s)"

definition hook_label :: "hook_source \<Rightarrow> hook_type \<Rightarrow> string option \<Rightarrow> string" where
  "hook_label s ht name =
     (case name of
        Some _ \<Rightarrow> hook_type_name ht @ '' '' @ source_command_label s name
      | None \<Rightarrow> hook_type_name ht @ '' '' @ source_name s @ '' hook'')"

record hooks_config =
  pre_switch :: "command_config option"
  post_switch :: "command_config option"
  pre_create :: "command_config option"
  post_create :: "command_config option"
  pre_commit :: "command_config option"
  post_commit :: "command_config option"
  pre_merge :: "command_config option"
  post_merge :: "command_config option"
  pre_remove :: "command_config option"
  post_remove :: "command_config option"

fun hooks_get :: "hooks_config \<Rightarrow> hook_type \<Rightarrow> command_config option" where
  "hooks_get c Pre_Switch = pre_switch c" | "hooks_get c Post_Switch = post_switch c"
| "hooks_get c Pre_Create = pre_create c" | "hooks_get c Post_Create = post_create c"
| "hooks_get c Pre_Commit = pre_commit c" | "hooks_get c Post_Commit = post_commit c"
| "hooks_get c Pre_Merge = pre_merge c" | "hooks_get c Post_Merge = post_merge c"
| "hooks_get c Pre_Remove = pre_remove c" | "hooks_get c Post_Remove = post_remove c"

definition no_hooks :: hooks_config where
  "no_hooks = \<lparr>pre_switch = None, post_switch = None, pre_create = None, post_create = None, pre_commit = None,
     post_commit = None, pre_merge = None, post_merge = None, pre_remove = None, post_remove = None\<rparr>"

fun merge_append_hooks :: "command_config option \<Rightarrow> command_config option \<Rightarrow> command_config option" where
  "merge_append_hooks None None = None"
| "merge_append_hooks (Some b) None = Some b"
| "merge_append_hooks None (Some o1) = Some o1"
| "merge_append_hooks (Some b) (Some o1) = Some (merge_append b o1)"

definition merge_hooks :: "hooks_config \<Rightarrow> hooks_config \<Rightarrow> hooks_config" where
  "merge_hooks a b =
     \<lparr>pre_switch = merge_append_hooks (pre_switch a) (pre_switch b),
      post_switch = merge_append_hooks (post_switch a) (post_switch b),
      pre_create = merge_append_hooks (pre_create a) (pre_create b),
      post_create = merge_append_hooks (post_create a) (post_create b),
      pre_commit = merge_append_hooks (pre_commit a) (pre_commit b),
      post_commit = merge_append_hooks (post_commit a) (post_commit b),
      pre_merge = merge_append_hooks (pre_merge a) (pre_merge b),
      post_merge = merge_append_hooks (post_merge a) (post_merge b),
      pre_remove = merge_append_hooks (pre_remove a) (pre_remove b),
      post_remove = merge_append_hooks (post_remove a) (post_remove b)\<rparr>"

section \<open>Aliases\<close>

type_synonym aliases = "(string, command_config) btree"

fun append_aliases :: "aliases \<Rightarrow> aliases \<Rightarrow> aliases" where
  "append_aliases base [] = base"
| "append_aliases base ((k, v) # rest) =
     append_aliases (bt_put k (case bt_get base k of Some old \<Rightarrow> merge_append old v | None \<Rightarrow> v) base) rest"

section \<open>Filters\<close>

record parsed_filter =
  pf_source :: "hook_source option"
  pf_name :: string

definition parse_filter :: "string \<Rightarrow> parsed_filter" where
  "parse_filter f =
     (case strip_prefix f ''user:'' of
        Some name \<Rightarrow> \<lparr>pf_source = Some User, pf_name = name\<rparr>
      | None \<Rightarrow>
          (case strip_prefix f ''project:'' of
             Some name \<Rightarrow> \<lparr>pf_source = Some Project, pf_name = name\<rparr>
           | None \<Rightarrow> \<lparr>pf_source = None, pf_name = f\<rparr>))"

definition matches_source :: "parsed_filter \<Rightarrow> hook_source \<Rightarrow> bool" where
  "matches_source f s \<longleftrightarrow> pf_source f = None \<or> pf_source f = Some s"

definition matches_command :: "parsed_filter \<Rightarrow> hook_source \<Rightarrow> string option \<Rightarrow> bool" where
  "matches_command f s name \<longleftrightarrow> matches_source f s \<and> (pf_name f = [] \<or> name = Some (pf_name f))"

definition any_filter :: "parsed_filter list \<Rightarrow> hook_source \<Rightarrow> hook_command \<Rightarrow> bool" where
  "any_filter fs s c \<longleftrightarrow> fs = [] \<or> list_ex (\<lambda>f. matches_command f s (cmd_name c)) fs"

definition select_from ::
  "parsed_filter list \<Rightarrow> hook_source \<Rightarrow> command_config option \<Rightarrow> (hook_source \<times> command_config) list" where
  "select_from fs s cfg =
     (case cfg of
        None \<Rightarrow> []
      | Some c \<Rightarrow> (let kept = filtered (any_filter fs s) c in if config_commands kept = [] then [] else [(s, kept)]))"

definition selected_hook_configs ::
  "command_config option \<Rightarrow> command_config option \<Rightarrow> string list \<Rightarrow> (hook_source \<times> command_config) list" where
  "selected_hook_configs user project name_filters =
     (let fs = map parse_filter name_filters in select_from fs User user @ select_from fs Project project)"

section \<open>Announcing a pipeline\<close>

definition ellipsis :: string where
  "ellipsis = [CHR 0xE2, CHR 0x80, CHR 0xA6]"

definition times_sign :: string where
  "times_sign = [CHR 0xC3, CHR 0x97]"

fun summary_parts ::
  "(string \<Rightarrow> string) \<Rightarrow> (nat \<Rightarrow> string option) \<Rightarrow> string option list list \<Rightarrow> nat \<Rightarrow> string list" where
  "summary_parts named unnamed [] n =
     (if 0 < n then (case unnamed n of Some s \<Rightarrow> [s] | None \<Rightarrow> []) else [])"
| "summary_parts named unnamed (step # steps) n =
     (let names = filter_map (map_option named) step;
          n' = n + length (filter (\<lambda>e. e = None) step)
      in if names = [] then summary_parts named unnamed steps n'
         else (if 0 < n' then (case unnamed n' of Some s \<Rightarrow> [s] | None \<Rightarrow> []) else []) @
              [join '' & '' names] @ summary_parts named unnamed steps 0)"

definition format_pipeline_summary_from_names ::
  "string option list list \<Rightarrow> (string \<Rightarrow> string) \<Rightarrow> (nat \<Rightarrow> string option) \<Rightarrow> string" where
  "format_pipeline_summary_from_names step_names named unnamed = join '', '' (summary_parts named unnamed step_names 0)"

definition unnamed_run :: "nat \<Rightarrow> string option" where
  "unnamed_run n = Some (if n = 1 then ellipsis else ellipsis @ times_sign @ show_nat n)"

definition format_pipeline_summary :: "(string \<Rightarrow> string) \<Rightarrow> hook_source \<Rightarrow> string option list list \<Rightarrow> string" where
  "format_pipeline_summary bold s step_names =
     (let n = length (filter (\<lambda>e. e = None) (concat step_names)) in
      if list_all (\<lambda>e. e = None) (concat step_names)
      then (if n = 1 then source_name s else source_name s @ '' '' @ times_sign @ show_nat n)
      else format_pipeline_summary_from_names step_names bold unnamed_run @ '' ('' @ source_name s @ '')'')"

definition step_names_from_config :: "command_config \<Rightarrow> string option list list" where
  "step_names_from_config cfg = map (\<lambda>s. map cmd_name (step_commands s)) cfg"

section \<open>Configurations survive being written\<close>

definition plain_name :: "string \<Rightarrow> bool" where
  "plain_name n \<longleftrightarrow> CHR '':'' \<notin> set n"

fun wf_step :: "hook_step \<Rightarrow> bool" where
  "wf_step (Single c) \<longleftrightarrow> (\<forall>n. cmd_name c = Some n \<longrightarrow> plain_name n)"
| "wf_step (Concurrent cs) \<longleftrightarrow>
     2 \<le> length cs \<and> (\<forall>c\<in>set cs. \<exists>n. cmd_name c = Some n \<and> plain_name n) \<and> distinct (map cmd_name cs)"

definition key_of :: "hook_command \<Rightarrow> string \<times> string" where
  "key_of c = (the (cmd_name c), cmd_template c)"

lemma distinct_Some: "distinct (map Some xs) \<longleftrightarrow> distinct xs"
  by (simp add: distinct_map)

lemma named_command: "cmd_name c = n \<Longrightarrow> \<lparr>cmd_name = n, cmd_template = cmd_template c\<rparr> = c"
  by auto

lemma index_insert_new: "k \<notin> fst ` set m \<Longrightarrow> index_insert k v m = m @ [(k, v)]"
  by (induction m) auto

lemma index_insert_keys: "map fst (index_insert k v m) = (if k \<in> fst ` set m then map fst m else map fst m @ [k])"
  by (induction m) (auto split: if_splits)

lemma fold_index_insert: "distinct (map fst (acc @ m)) \<Longrightarrow> fold (\<lambda>(k, t). index_insert k t) m acc = acc @ m"
  by (induction m arbitrary: acc) (auto simp: index_insert_new)

lemma read_entries_strings:
  "read_entries (map (\<lambda>(k, t). (k, T_String t)) m) acc = Inr (fold (\<lambda>(k, t). index_insert k t) m acc)"
  by (induction m arbitrary: acc) auto

lemma read_entries_distinct: "read_entries kvs acc = Inr m \<Longrightarrow> distinct (map fst acc) \<Longrightarrow> distinct (map fst m)"
  by (induction kvs acc rule: read_entries.induct) (auto simp: index_insert_keys split: if_splits)

lemma validate_no_colons_iff: "validate_no_colons m = Inr u \<longleftrightarrow> (\<forall>k\<in>fst ` set m. plain_name k)"
  by (induction m) (auto simp: validate_no_colons_def contains_char_def plain_name_def split: option.splits)

lemma read_as_table:
  assumes "distinct (map fst m)" "\<forall>k\<in>fst ` set m. plain_name k" "m \<noteq> []"
  shows "read_table (map (\<lambda>(k, t). (k, T_String t)) m) = Inr (Some (map_to_step m))"
proof -
  have "validate_no_colons m = Inr ()" using assms(2) by (simp add: validate_no_colons_iff)
  then show ?thesis
    using assms fold_index_insert[of "[]" m] by (simp add: read_table_def read_entries_strings)
qed

lemma command_keys_named: "\<forall>c\<in>set cs. cmd_name c \<noteq> None \<Longrightarrow> command_keys n cs = map key_of cs"
  by (induction cs arbitrary: n) (auto simp: key_of_def)

lemma wf_concurrent:
  assumes "wf_step (Concurrent cs)"
  shows "command_keys n cs = map key_of cs" "distinct (map fst (map key_of cs))"
    "\<forall>k\<in>fst ` set (map key_of cs). plain_name k" "map key_of cs \<noteq> []" "map_to_step (map key_of cs) = Concurrent cs"
proof -
  have named: "\<forall>c\<in>set cs. \<exists>n. cmd_name c = Some n \<and> plain_name n" and d: "distinct (map cmd_name cs)" and l: "2 \<le> length cs"
    using assms by auto
  show "command_keys n cs = map key_of cs" using named by (intro command_keys_named) auto
  have "map cmd_name cs = map Some (map fst (map key_of cs))" using named by (auto simp: key_of_def)
  then show "distinct (map fst (map key_of cs))" using d by (metis distinct_Some)
  show "\<forall>k\<in>fst ` set (map key_of cs). plain_name k" using named by (auto simp: key_of_def)
  show "map key_of cs \<noteq> []" using l by auto
  have "map (\<lambda>(name, t). new_command (Some name) t) (map key_of cs) = cs"
    using named by (auto simp: key_of_def new_command_def intro!: map_idI)
  with l show "map_to_step (map key_of cs) = Concurrent cs"
    by (auto simp: map_to_step_def split: list.splits)
qed

lemma read_serialized_step:
  "wf_step s \<Longrightarrow> read_pipeline (serialize_step s # es) = rbind (read_pipeline es) (\<lambda>rest. Inr (s # rest))"
proof (cases s)
  case (Single c)
  assume "wf_step s"
  with Single show ?thesis
    using read_as_table[of "[(the (cmd_name c), cmd_template c)]"]
    by (cases "cmd_name c") (auto simp: as_table_def map_to_step_def new_command_def named_command)
next
  case (Concurrent cs)
  assume "wf_step s"
  note w = wf_concurrent[OF this[unfolded Concurrent]]
  from w(2) show ?thesis
    using fold_index_insert[of "[]" "map key_of cs"] read_as_table[OF w(2-4)]
    by (simp add: Concurrent w(1,5) as_table_def)
qed

lemma read_serialized_steps: "list_all wf_step cfg \<Longrightarrow> read_pipeline (map serialize_step cfg) = Inr cfg"
  by (induction cfg) (auto simp: read_serialized_step)

lemma read_serialized: "list_all wf_step cfg \<Longrightarrow> read_config (serialize_config cfg) = Inr cfg"
proof -
  assume wf: "list_all wf_step cfg"
  consider c where "cfg = [Single c]" | cs where "cfg = [Concurrent cs]" | "serialize_config cfg = T_Array (map serialize_step cfg)"
    by (cases cfg rule: remdups_adj.cases) (simp_all add: serialize_config_def split: hook_step.splits, metis hook_step.exhaust)
  then show ?thesis
  proof cases
    case 1
    with wf show ?thesis
      using read_as_table[of "[(the (cmd_name c), cmd_template c)]"]
      by (cases "cmd_name c")
         (auto simp: serialize_config_def serialize_commands_as_map_def as_table_def map_to_step_def new_command_def named_command)
  next
    case 2
    with wf have "wf_step (Concurrent cs)" by simp
    note w = wf_concurrent[OF this]
    show ?thesis
      using read_as_table[OF w(2-4)] by (simp add: 2 serialize_config_def serialize_commands_as_map_def as_table_def w(1,5))
  next
    case 3
    with wf show ?thesis by (simp add: read_serialized_steps)
  qed
qed

lemma read_table_wf: "read_table kvs = Inr (Some s) \<Longrightarrow> wf_step s"
proof -
  assume r: "read_table kvs = Inr (Some s)"
  then obtain m where m: "read_entries kvs [] = Inr m" "m \<noteq> []" "validate_no_colons m = Inr ()" "s = map_to_step m"
    by (auto simp: read_table_def res_simps split: if_splits)
  have d: "distinct (map fst m)" using read_entries_distinct[OF m(1)] by simp
  have p: "\<forall>k\<in>fst ` set m. plain_name k" using m(3) by (simp add: validate_no_colons_iff)
  show ?thesis
  proof (cases "length m = 1")
    case True
    then show ?thesis using p m(4) by (auto simp: map_to_step_def new_command_def length_Suc_conv)
  next
    case False
    with m(2) have l: "2 \<le> length m" by (cases m) (auto simp: Suc_le_eq)
    define cs where "cs = map (\<lambda>(name, t). new_command (Some name) t) m"
    have "s = Concurrent cs" using l m(4) by (auto simp: cs_def map_to_step_def split: list.splits)
    moreover have "map cmd_name cs = map Some (map fst m)" by (auto simp: cs_def new_command_def)
    then have "distinct (map cmd_name cs)" using d by (metis distinct_Some)
    moreover have "length cs = length m" "\<forall>c\<in>set cs. \<exists>n. cmd_name c = Some n \<and> plain_name n"
      using p by (auto simp: cs_def new_command_def)
    ultimately show ?thesis using l by simp
  qed
qed

lemma read_pipeline_wf: "read_pipeline es = Inr cfg \<Longrightarrow> list_all wf_step cfg"
  by (induction es arbitrary: cfg rule: read_pipeline.induct)
     (auto simp: res_simps new_command_def split: option.splits dest: read_table_wf)

lemma read_config_wf: "read_config v = Inr cfg \<Longrightarrow> list_all wf_step cfg"
  by (cases v) (simp_all add: res_simps new_command_def split: option.splits, auto, erule read_table_wf, auto dest: read_pipeline_wf)

lemma filter_step_wf: "wf_step s \<Longrightarrow> filter_step P s = Some s' \<Longrightarrow> wf_step s'"
proof (cases s)
  case (Concurrent cs)
  assume a: "wf_step s" "filter_step P s = Some s'"
  have "distinct (map cmd_name (filter P cs))" using a(1) Concurrent by (auto simp: distinct_map inj_on_def)
  moreover have "\<forall>c\<in>set (filter P cs). \<exists>n. cmd_name c = Some n \<and> plain_name n" using a(1) Concurrent by auto
  ultimately show ?thesis using a(2) Concurrent by (cases "filter P cs" rule: remdups_adj.cases) auto
qed (auto split: if_splits)

lemma filtered_wf: "list_all wf_step cfg \<Longrightarrow> list_all wf_step (filtered P cfg)"
  by (auto simp: filtered_def list_all_iff set_filter_map dest: filter_step_wf)

text \<open>
  C28. Pipelines survive being written: a configuration that was read, what a filter leaves of it and what it becomes
  by appending another one are written so that reading gives the same steps again.
\<close>

theorem command_config_roundtrip:
  assumes "read_config v = Inr a" and "read_config w = Inr b"
  shows "\<forall>cfg\<in>{a, filtered keep a, merge_append a b, filtered keep (merge_append a b)}.
    read_config (serialize_config cfg) = Inr cfg"
  using read_config_wf[OF assms(1)] read_config_wf[OF assms(2)]
  by (auto simp: merge_append_def filtered_wf read_serialized)

lemma command_config_roundtrip_witness:
  "\<exists>a b. read_config (T_Array [T_String ''make'', T_Table [(''x'', T_String ''p''), (''y'', T_String ''q'')]]) = Inr a \<and>
     length a = 2 \<and> read_config (serialize_config (merge_append a b)) = Inr (merge_append a b) \<and>
     read_config (serialize_config (filtered (\<lambda>c. cmd_name c = Some ''y'') a)) = Inr [Single (new_command (Some ''y'') ''q'')]"
proof -
  let ?v = "T_Array [T_String ''make'', T_Table [(''x'', T_String ''p''), (''y'', T_String ''q'')]]"
  let ?a = "[Single (new_command None ''make''),
    Concurrent [new_command (Some ''x'') ''p'', new_command (Some ''y'') ''q'']]"
  have a: "read_config ?v = Inr ?a" by code_simp
  have b: "read_config (T_Table [(''z'', T_String ''r'')]) = Inr [Single (new_command (Some ''z'') ''r'')]" by code_simp
  have f: "filtered (\<lambda>c. cmd_name c = Some ''y'') ?a = [Single (new_command (Some ''y'') ''q'')]"
    by (simp add: filtered_def new_command_def)
  from command_config_roundtrip[OF a b, of "\<lambda>c. cmd_name c = Some ''y''"] a f show ?thesis
    by (intro exI[of _ ?a] exI[of _ "[Single (new_command (Some ''z'') ''r'')]"]) simp
qed

end
