(* ===== verification/Hook_Approval.thy ===== *)
theory Hook_Approval
  imports Hook_Commands Approvals Actions
begin

text \<open>
  Project commands run only after approval: the prompt for a batch of commands
  (\<open>src/commands/command_approval.rs\<close>), the commands a project configuration declares
  (\<open>src/commands/project_config.rs\<close>) and the frozen plan of the hooks an operation runs
  (\<open>src/commands/hook_plan.rs\<close>). A \<open>gate\<close> is an interaction on the approvals store: its state is what is on
  disk. Loading the project configuration and the project identifier are arguments; text is without its styling.
\<close>

section \<open>Commands to approve\<close>

datatype phase = Phase_Hook hook_type | Phase_Alias | Phase_Commit_Template_Append

fun phase_name :: "phase \<Rightarrow> string" where
  "phase_name (Phase_Hook ht) = hook_type_name ht"
| "phase_name Phase_Alias = ''alias''"
| "phase_name Phase_Commit_Template_Append = ''commit-template-append''"

record approvable_command =
  ac_phase :: phase
  ac_command :: hook_command

definition commit_template_append :: "string \<Rightarrow> approvable_command" where
  "commit_template_append t = \<lparr>ac_phase = Phase_Commit_Template_Append, ac_command = new_command None t\<rparr>"

definition command_label :: "phase \<Rightarrow> string option \<Rightarrow> string" where
  "command_label ph name =
     (case name of Some n \<Rightarrow> phase_name ph @ '' '' @ n @ '':'' | None \<Rightarrow> phase_name ph @ '':'')"

record project_config =
  pc_hooks :: hooks_config
  pc_aliases :: aliases
  pc_commit_append :: "string option"

definition collect_commands_for_hooks :: "project_config \<Rightarrow> hook_type list \<Rightarrow> approvable_command list" where
  "collect_commands_for_hooks pc hooks =
     concat (map (\<lambda>ht. case hooks_get (pc_hooks pc) ht of
                         Some cfg \<Rightarrow> map (\<lambda>c. \<lparr>ac_phase = Phase_Hook ht, ac_command = c\<rparr>) (config_commands cfg)
                       | None \<Rightarrow> []) hooks)"

definition alias_commands :: "string \<Rightarrow> command_config \<Rightarrow> approvable_command list" where
  "alias_commands name cfg =
     map (\<lambda>c. \<lparr>ac_phase = Phase_Alias,
               ac_command = new_command (Some (case cmd_name c of Some n \<Rightarrow> n | None \<Rightarrow> name)) (cmd_template c)\<rparr>)
       (config_commands cfg)"

definition collect_commands_for_aliases :: "project_config \<Rightarrow> approvable_command list" where
  "collect_commands_for_aliases pc = concat (map (\<lambda>(name, cfg). alias_commands name cfg) (pc_aliases pc))"

section \<open>The prompt\<close>

text \<open>
  \<open>format_bash_with_gutter\<close> and \<open>format_with_gutter\<close> as functions of the text; \<open>ae_meanwhile\<close> is what other
  processes make of the store while the prompt waits, \<open>has_path\<close> whether there is a path to save approvals to.
\<close>

record approval_env =
  ae_parser :: template_parser
  ae_store :: store_io
  ae_bash :: "string \<Rightarrow> string"
  ae_gutter :: "string \<Rightarrow> string"
  ae_meanwhile :: "approvals_disk \<Rightarrow> approvals_disk"
  has_path :: bool

datatype gate_error =
    Approvals_Unloadable config_error
  | Not_Interactive
  | Input_Failed
  | No_Project_Identifier
  | Repository_Error wt_error

type_synonym 'a gate = "(approvals_disk, gate_error, 'a) stateful"

definition format_template :: "approval_env \<Rightarrow> approvable_command \<Rightarrow> string" where
  "format_template env c =
     (case ac_phase c of
        Phase_Commit_Template_Append \<Rightarrow> ae_gutter env (cmd_template (ac_command c))
      | _ \<Rightarrow> ae_bash env (cmd_template (ac_command c)))"

definition display_project_name :: "string \<Rightarrow> string" where
  "display_project_name p =
     (case path_file_name p of Some n \<Rightarrow> if valid_utf8 n then n else p | None \<Rightarrow> p)"

fun show_commands :: "approval_env \<Rightarrow> approvable_command list \<Rightarrow> unit io" where
  "show_commands env [] = Ret ()"
| "show_commands env (c # cs) =
     Say (command_label (ac_phase c) (cmd_name (ac_command c)))
    (Say (format_template env c) (show_commands env cs))"

definition print_command_batch :: "approval_env \<Rightarrow> string \<Rightarrow> approvable_command list \<Rightarrow> unit io" where
  "print_command_batch env header cs = Say header (show_commands env cs)"

definition plural :: "nat \<Rightarrow> string" where
  "plural n = (if n = 1 then [] else ''s'')"

definition announce_batch_approval :: "approval_env \<Rightarrow> approvable_command list \<Rightarrow> string \<Rightarrow> unit gate" where
  "announce_batch_approval env cs project =
     perform (print_command_batch env
       (''Approving '' @ show_nat (length cs) @ '' command'' @ plural (length cs) @ '' for '' @
        display_project_name project @ '' (--yes):'') cs)"

definition ALLOW :: string where
  "ALLOW = ''Allow and remember? [y/N]''"

definition agrees :: "string \<Rightarrow> bool" where
  "agrees response \<longleftrightarrow> to_ascii_lowercase (trim response) = ''y''"

text \<open>\<open>read_line\<close> fails on a line that is not UTF-8, as on a failed read; at the end of input it reads nothing.\<close>

definition prompt_with_header :: "approval_env \<Rightarrow> approvable_command list \<Rightarrow> string \<Rightarrow> bool gate" where
  "prompt_with_header env cs header =
     abind (perform (print_command_batch env header cs)) (\<lambda>_.
     abind (perform (Terminal Ret)) (\<lambda>tty.
       if \<not> tty then aret (Inl Not_Interactive)
       else abind (perform (Ask ALLOW Ret)) (\<lambda>a.
         aret (case a of
           None \<Rightarrow> Inr (agrees [])
         | Some line \<Rightarrow> if valid_utf8 line then Inr (agrees line) else Inl Input_Failed))))"

definition prompt_for_batch_approval :: "approval_env \<Rightarrow> approvable_command list \<Rightarrow> string \<Rightarrow> bool gate" where
  "prompt_for_batch_approval env cs project =
     prompt_with_header env cs
       (display_project_name project @ '' needs approval to execute '' @ show_nat (length cs) @ '' command'' @
        plural (length cs) @ '':'')"

definition prompt_for_batch_review :: "approval_env \<Rightarrow> approvable_command list \<Rightarrow> string \<Rightarrow> bool gate" where
  "prompt_for_batch_review env cs project =
     prompt_with_header env cs
       (''Review '' @ show_nat (length cs) @ '' command'' @ plural (length cs) @ '' for '' @
        display_project_name project @ '':'')"

section \<open>The gate\<close>

definition needs_approval ::
  "approval_env \<Rightarrow> approvals \<Rightarrow> project_id \<Rightarrow> approvable_command list \<Rightarrow> approvable_command list" where
  "needs_approval env a project cs =
     filter (\<lambda>c. \<not> is_command_approved (ae_parser env) a project (cmd_template (ac_command c))) cs"

definition save_approved :: "approval_env \<Rightarrow> approvals \<Rightarrow> project_id \<Rightarrow> approvable_command list \<Rightarrow> unit gate" where
  "save_approved env a project cs d1 =
     (let here = ae_meanwhile env d1;
          (r, _, d2) =
            (if has_path env
             then approve_commands (ae_store env) (ae_parser env) (current project) (map (cmd_template \<circ> ac_command) cs) a here
             else (Inl Parse, a, here))
      in case r of
           Inr _ \<Rightarrow> Ret (d2, Inr ())
         | Inl _ \<Rightarrow> Say ''Failed to save command approval''
                    (Say ''Approval will be requested again next time'' (Ret (d2, Inr ()))))"

definition load_approvals :: "approval_env \<Rightarrow> approvals gate" where
  "load_approvals env d1 =
     Ret (d1, case load_with_fallback (ae_store env) d1 of Inl e \<Rightarrow> Inl (Approvals_Unloadable e) | Inr a \<Rightarrow> Inr a)"

definition approve_command_batch ::
  "approval_env \<Rightarrow> approvable_command list \<Rightarrow> project_id \<Rightarrow> bool \<Rightarrow> bool gate" where
  "approve_command_batch env cs project yes =
     (if yes then aret (Inr True)
      else abind (load_approvals env) (\<lambda>a.
        let needed = needs_approval env a project cs in
        if needed = [] then aret (Inr True)
        else abind (prompt_for_batch_approval env needed (current project)) (\<lambda>agreed.
          if \<not> agreed then aret (Inr False)
          else abind (save_approved env a project needed) (\<lambda>_. aret (Inr True)))))"

definition approve_alias_commands ::
  "approval_env \<Rightarrow> command_config \<Rightarrow> string \<Rightarrow> project_id \<Rightarrow> bool \<Rightarrow> bool gate" where
  "approve_alias_commands env cfg name project yes = approve_command_batch env (alias_commands name cfg) project yes"

definition from_repository :: "wt_error + 'a \<Rightarrow> 'a gate" where
  "from_repository r = aret (case r of Inl e \<Rightarrow> Inl (Repository_Error e) | Inr x \<Rightarrow> Inr x)"

definition targeted :: "parsed_filter list \<Rightarrow> approvable_command list \<Rightarrow> approvable_command list" where
  "targeted fs cs =
     (if fs = [] then cs else filter (\<lambda>c. list_ex (\<lambda>f. matches_command f Project (cmd_name (ac_command c))) fs) cs)"

definition approve_hooks_filtered ::
  "approval_env \<Rightarrow> wt_error + project_config option \<Rightarrow> wt_error + project_id \<Rightarrow> bool \<Rightarrow>
   hook_type list \<Rightarrow> string list \<Rightarrow> bool gate" where
  "approve_hooks_filtered env loaded project yes hooks name_filters =
     (let fs = map parse_filter name_filters in
      if fs \<noteq> [] \<and> list_all (\<lambda>f. pf_source f = Some User) fs then aret (Inr True)
      else abind (from_repository loaded) (\<lambda>pc.
        case pc of
          None \<Rightarrow> aret (Inr True)
        | Some pc \<Rightarrow>
            (let cs = targeted fs (collect_commands_for_hooks pc hooks) in
             if cs = [] then aret (Inr True)
             else abind (from_repository project) (\<lambda>p. approve_command_batch env cs p yes))))"

definition approve_hooks ::
  "approval_env \<Rightarrow> wt_error + project_config option \<Rightarrow> wt_error + project_id \<Rightarrow> bool \<Rightarrow> hook_type list \<Rightarrow> bool gate" where
  "approve_hooks env loaded project yes hooks = approve_hooks_filtered env loaded project yes hooks []"

definition approve_or_skip ::
  "approval_env \<Rightarrow> wt_error + project_config option \<Rightarrow> wt_error + project_id \<Rightarrow> bool \<Rightarrow> hook_type list \<Rightarrow> string \<Rightarrow> bool gate" where
  "approve_or_skip env loaded project yes hooks on_decline =
     abind (approve_hooks env loaded project yes hooks) (\<lambda>approved.
     abind (perform (if approved then Ret () else Say on_decline (Ret ()))) (\<lambda>_. aret (Inr approved)))"

definition approve_commit_template_append ::
  "approval_env \<Rightarrow> wt_error + project_config option \<Rightarrow> wt_error + project_id \<Rightarrow> bool \<Rightarrow> string option gate" where
  "approve_commit_template_append env loaded project yes =
     abind (from_repository loaded) (\<lambda>pc.
       case Option.bind pc pc_commit_append of
         None \<Rightarrow> aret (Inr None)
       | Some fragment \<Rightarrow>
           abind (from_repository project) (\<lambda>p.
           abind (approve_command_batch env [commit_template_append fragment] p yes) (\<lambda>approved.
             if approved then aret (Inr (Some fragment))
             else abind (perform (Say ''Project commit guidance declined; generating without it'' (Ret ()))) (\<lambda>_.
               aret (Inr None)))))"

definition resolve_template_for_preview ::
  "approval_env \<Rightarrow> wt_error + project_config option \<Rightarrow> wt_error + project_id \<Rightarrow> bool \<Rightarrow> bool \<Rightarrow> bool \<Rightarrow> string option gate" where
  "resolve_template_for_preview env loaded project yes configured dry_run =
     (if dry_run \<and> configured then approve_commit_template_append env loaded project yes
      else abind (from_repository loaded) (\<lambda>pc. aret (Inr (Option.bind pc pc_commit_append))))"

section \<open>Plans\<close>

type_synonym selection = "(hook_source \<times> command_config) list"

record plan_entry =
  pe_type :: hook_type
  pe_anchor :: string
  pe_selection :: selection

type_synonym hook_plan = "plan_entry list"

text \<open>The hooks the gate resolved once: those of the user and the project's, if it has a configuration.\<close>

record plan_builder =
  pb_project :: "project_config option"
  pb_user :: hooks_config

definition select_hook :: "plan_builder \<Rightarrow> hook_type \<Rightarrow> selection" where
  "select_hook b ht =
     (case hooks_get (pb_user b) ht of Some cfg \<Rightarrow> [(User, cfg)] | None \<Rightarrow> []) @
     (case Option.bind (pb_project b) (\<lambda>pc. hooks_get (pc_hooks pc) ht) of Some cfg \<Rightarrow> [(Project, cfg)] | None \<Rightarrow> [])"

definition entry_for :: "hook_type \<Rightarrow> string \<Rightarrow> plan_entry \<Rightarrow> bool" where
  "entry_for ht anchor e \<longleftrightarrow> pe_type e = ht \<and> same_path (pe_anchor e) anchor"

fun extend_plan :: "hook_type \<Rightarrow> string \<Rightarrow> selection \<Rightarrow> hook_plan \<Rightarrow> hook_plan" where
  "extend_plan ht anchor s [] = [\<lparr>pe_type = ht, pe_anchor = anchor, pe_selection = s\<rparr>]"
| "extend_plan ht anchor s (e # es) =
     (if entry_for ht anchor e then e\<lparr>pe_selection := sort_key fst (pe_selection e @ s)\<rparr> # es
      else e # extend_plan ht anchor s es)"

fun add_hooks :: "plan_builder \<Rightarrow> string \<Rightarrow> hook_type list \<Rightarrow> hook_plan \<Rightarrow> hook_plan" where
  "add_hooks b anchor [] plan = plan"
| "add_hooks b anchor (ht # hts) plan =
     (let s = select_hook b ht in
      add_hooks b anchor hts (if s = [] then plan else extend_plan ht anchor s plan))"

fun first_uses :: "string list \<Rightarrow> (string \<times> 'a) list \<Rightarrow> 'a list" where
  "first_uses seen [] = []"
| "first_uses seen ((t, x) # rest) = (if t \<in> set seen then first_uses seen rest else x # first_uses (t # seen) rest)"

definition project_commands :: "hook_plan \<Rightarrow> (hook_type \<times> hook_command) list" where
  "project_commands plan =
     concat (map (\<lambda>e. map (Pair (pe_type e)) (concat (map (config_commands \<circ> snd) (filter (\<lambda>(s, _). s = Project) (pe_selection e))))) plan)"

definition approvable :: "hook_plan \<Rightarrow> approvable_command list" where
  "approvable plan =
     first_uses [] (map (\<lambda>(ht, c). (cmd_template c, \<lparr>ac_phase = Phase_Hook ht, ac_command = c\<rparr>)) (project_commands plan))"

record approved_plan =
  ap_entries :: hook_plan

definition empty_plan :: approved_plan where
  "empty_plan = \<lparr>ap_entries = []\<rparr>"

definition approve_plan ::
  "approval_env \<Rightarrow> hook_plan \<Rightarrow> project_id option \<Rightarrow> bool \<Rightarrow> approved_plan option gate" where
  "approve_plan env plan project yes =
     (if approvable plan = [] then aret (Inr (Some \<lparr>ap_entries = plan\<rparr>))
      else (case project of
              None \<Rightarrow> aret (Inl No_Project_Identifier)
            | Some p \<Rightarrow>
                abind (approve_command_batch env (approvable plan) p yes) (\<lambda>approved.
                  aret (Inr (if approved then Some \<lparr>ap_entries = plan\<rparr> else None)))))"

definition readable_selection ::
  "template_parser \<Rightarrow> approvals \<Rightarrow> project_id option \<Rightarrow> hook_source \<times> command_config \<Rightarrow> bool" where
  "readable_selection tv a project = (\<lambda>(s, cfg).
     s \<noteq> Project \<or> (case project of
                      Some p \<Rightarrow> list_all (\<lambda>c. is_command_approved tv a p (cmd_template c)) (config_commands cfg)
                    | None \<Rightarrow> False))"

definition approve_readonly :: "template_parser \<Rightarrow> approvals \<Rightarrow> project_id option \<Rightarrow> hook_plan \<Rightarrow> approved_plan" where
  "approve_readonly tv a project plan =
     \<lparr>ap_entries = filter (\<lambda>e. pe_selection e \<noteq> [])
        (map (\<lambda>e. e\<lparr>pe_selection := filter (readable_selection tv a project) (pe_selection e)\<rparr>) plan)\<rparr>"

definition unapproved_project_commands ::
  "template_parser \<Rightarrow> approvals \<Rightarrow> project_id option \<Rightarrow> hook_plan \<Rightarrow> string list" where
  "unapproved_project_commands tv a project plan =
     (case project of
        None \<Rightarrow> []
      | Some p \<Rightarrow>
          first_uses [] (filter_map (\<lambda>(_, c). if is_command_approved tv a p (cmd_template c) then None
                                             else Some (cmd_template c, cmd_template c)) (project_commands plan)))"

definition plan_lookup :: "approved_plan \<Rightarrow> hook_type \<Rightarrow> string \<Rightarrow> selection" where
  "plan_lookup plan ht anchor =
     (case find (entry_for ht anchor) (ap_entries plan) of Some e \<Rightarrow> pe_selection e | None \<Rightarrow> [])"

definition has_hooks_for :: "approved_plan \<Rightarrow> string \<Rightarrow> hook_type list \<Rightarrow> bool" where
  "has_hooks_for plan anchor hts \<longleftrightarrow> list_ex (\<lambda>ht. plan_lookup plan ht anchor \<noteq> []) hts"

section \<open>Only cleared commands are in a plan\<close>

lemma show_commands_run:
  "runs (show_commands env cs) tr x \<Longrightarrow> \<forall>c\<in>set cs. Said (format_template env c) \<in> set tr"
  by (induction cs arbitrary: tr) auto

lemma not_agreed: "\<not> agrees []"
  by (simp add: agrees_def trim_def trim_start_def trim_end_def to_ascii_lowercase_def)

lemma prompt_run:
  assumes "runs (prompt_with_header env cs header d) tr (d2, Inr True)"
  shows "\<exists>pre line. tr = pre @ [Asked ALLOW (Some line)] \<and> agrees line \<and> (\<forall>c\<in>set cs. Said (format_template env c) \<in> set pre)"
proof -
  from assms obtain t1 tty t2 where t: "tr = t1 @ Terminal_Checked tty # t2" "runs (print_command_batch env header cs) t1 ()"
      "runs ((if \<not> tty then aret (Inl Not_Interactive)
       else abind (perform (Ask ALLOW Ret)) (\<lambda>a.
         aret (case a of None \<Rightarrow> Inr (agrees [])
                       | Some line \<Rightarrow> if valid_utf8 line then Inr (agrees line) else Inl Input_Failed))) d) t2 (d2, Inr True)"
    unfolding prompt_with_header_def by (auto simp: act_simps)
  from t(3) obtain line where "t2 = [Asked ALLOW (Some line)]" "agrees line"
    by (auto simp: act_simps not_agreed split: if_splits option.splits)
  moreover have "\<forall>c\<in>set cs. Said (format_template env c) \<in> set t1"
    using t(2) show_commands_run[of env cs] by (fastforce simp: print_command_batch_def)
  ultimately show ?thesis using t(1) by (intro exI[of _ "t1 @ [Terminal_Checked tty]"] exI[of _ line]) auto
qed

text \<open>A template is cleared by the store as it was loaded, or by a yes to a prompt that showed it.\<close>

definition consented :: "approval_env \<Rightarrow> event list \<Rightarrow> string \<Rightarrow> bool" where
  "consented env tr shown \<longleftrightarrow>
     (\<exists>pre line post. tr = pre @ Asked ALLOW (Some line) # post \<and> agrees line \<and> Said shown \<in> set pre)"

definition cleared :: "approval_env \<Rightarrow> approvals_disk \<Rightarrow> project_id \<Rightarrow> event list \<Rightarrow> string \<Rightarrow> string \<Rightarrow> bool" where
  "cleared env d project tr t shown \<longleftrightarrow>
     (\<exists>a. load_with_fallback (ae_store env) d = Inr a \<and>
        (is_command_approved (ae_parser env) a project t \<or> consented env tr shown))"

lemma batch_cleared:
  assumes "runs (approve_command_batch env cs project False d) tr (d2, Inr True)" and c: "c \<in> set cs"
  shows "cleared env d project tr (cmd_template (ac_command c)) (format_template env c)"
proof -
  from assms(1) obtain a where a: "load_with_fallback (ae_store env) d = Inr a"
      and run: "runs ((let needed = needs_approval env a project cs in
        if needed = [] then aret (Inr True)
        else abind (prompt_for_batch_approval env needed (current project)) (\<lambda>agreed.
          if \<not> agreed then aret (Inr False)
          else abind (save_approved env a project needed) (\<lambda>_. aret (Inr True)))) d) tr (d2, Inr True)"
    unfolding approve_command_batch_def
    by (auto simp: load_approvals_def runs_abind runs_aret split: sum.splits)
  show ?thesis
  proof (cases "is_command_approved (ae_parser env) a project (cmd_template (ac_command c))")
    case True
    with a show ?thesis by (auto simp: cleared_def)
  next
    case False
    then have n: "c \<in> set (needs_approval env a project cs)" using c by (simp add: needs_approval_def)
    then have "needs_approval env a project cs \<noteq> []" by auto
    with run obtain t1 t2 d1 where t: "tr = t1 @ t2"
        "runs (prompt_for_batch_approval env (needs_approval env a project cs) (current project) d) t1 (d1, Inr True)"
      by (auto simp: Let_def runs_abind runs_aret split: if_splits)
    from prompt_run[OF t(2)[unfolded prompt_for_batch_approval_def]] n t(1)
    have "consented env tr (format_template env c)" by (fastforce simp: consented_def)
    with a show ?thesis by (auto simp: cleared_def)
  qed
qed

lemma first_uses_covers:
  "(t, x) \<in> set xs \<Longrightarrow> t \<notin> set seen \<Longrightarrow> \<exists>x'. (t, x') \<in> set xs \<and> x' \<in> set (first_uses seen xs)"
proof (induction xs arbitrary: seen)
  case Nil
  then show ?case by simp
next
  case (Cons y ys)
  obtain u z where y: "y = (u, z)" by fastforce
  show ?case
  proof (cases "u = t")
    case True
    with y Cons.prems(2) show ?thesis by auto
  next
    case False
    with y Cons.prems have "(t, x) \<in> set ys" "t \<notin> set (u # seen)" by auto
    with Cons.IH[OF this] Cons.IH[of seen] Cons.prems(2) y show ?thesis by auto
  qed
qed

lemma approvable_covers:
  assumes "(ht, c) \<in> set (project_commands plan)"
  shows "\<exists>x\<in>set (approvable plan). cmd_template (ac_command x) = cmd_template c \<and> (\<exists>ht'. ac_phase x = Phase_Hook ht')"
proof -
  let ?f = "\<lambda>(ht, c). (cmd_template c, \<lparr>ac_phase = Phase_Hook ht, ac_command = c\<rparr>)"
  have "(cmd_template c, \<lparr>ac_phase = Phase_Hook ht, ac_command = c\<rparr>) \<in> set (map ?f (project_commands plan))"
    using assms by force
  from first_uses_covers[OF this, of "[]", simplified list.set empty_iff not_False_eq_True, OF TrueI] obtain x where x: "(cmd_template c, x) \<in> set (map ?f (project_commands plan))"
    "x \<in> set (approvable plan)" unfolding approvable_def by blast
  from x(1) have "cmd_template (ac_command x) = cmd_template c" "\<exists>ht'. ac_phase x = Phase_Hook ht'" by auto
  with x(2) show ?thesis by blast
qed

text \<open>
  C29. Project commands run only after approval: in a plan the gate approved without \<open>--yes\<close>, which is the plan it
  was given, the template of every project command was approved in the store as the gate loaded it, or the user
  answered yes to a prompt that had shown this template.
\<close>

theorem approved_plan_is_cleared:
  assumes "runs (approve_plan env plan project False d) tr (d2, Inr (Some ap))"
    and "(ht, c) \<in> set (project_commands (ap_entries ap))"
  shows "ap_entries ap = plan \<and>
    (\<exists>p. project = Some p \<and> cleared env d p tr (cmd_template c) (ae_bash env (cmd_template c)))"
proof (cases "approvable plan = []")
  case True
  with assms(1) have "ap_entries ap = plan" by (auto simp: approve_plan_def runs_aret)
  with assms(2) True approvable_covers[of ht c plan] show ?thesis by auto
next
  case False
  with assms(1) obtain p where p: "project = Some p"
    by (cases project) (auto simp: approve_plan_def runs_aret)
  with False assms(1) have plan: "ap_entries ap = plan"
    and run: "runs (approve_command_batch env (approvable plan) p False d) tr (d2, Inr True)"
    by (auto simp: approve_plan_def runs_abind runs_aret split: if_splits)
  from approvable_covers[of ht c plan] assms(2) plan obtain x ht' where
    x: "x \<in> set (approvable plan)" "cmd_template (ac_command x) = cmd_template c" "ac_phase x = Phase_Hook ht'" by auto
  with batch_cleared[OF run x(1)] plan p show ?thesis by (auto simp: format_template_def)
qed

definition plain_env :: approval_env where
  "plain_env =
     \<lparr>ae_parser = (\<lambda>_. None),
      ae_store = \<lparr>parse_approvals = (\<lambda>_. Some []), parse_config = (\<lambda>_. None), render = (\<lambda>_. []),
                  read_ok = True, lock_ok = True, mkdir_ok = True, write_ok = True\<rparr>,
      ae_bash = (\<lambda>t. '' '' @ t), ae_gutter = (\<lambda>t. t), ae_meanwhile = (\<lambda>d. d), has_path = True\<rparr>"

definition build_plan :: hook_plan where
  "build_plan = [\<lparr>pe_type = Pre_Merge, pe_anchor = ''/r'', pe_selection = [(Project, [Single (new_command None ''make'')])]\<rparr>]"

definition yes_run :: "event list" where
  "yes_run =
     [Said ''r needs approval to execute 1 command:'', Said ''pre-merge:'', Said '' make'', Terminal_Checked True,
      Asked ALLOW (Some ''Y'')]"

lemma approved_plan_is_cleared_witness:
  "cleared plain_env \<lparr>approvals_toml = None, config_toml = None\<rparr> \<lparr>current = ''host/r'', legacy = None\<rparr> yes_run ''make'' '' make''"
proof -
  let ?d = "\<lparr>approvals_toml = None, config_toml = None\<rparr>" and ?p = "\<lparr>current = ''host/r'', legacy = None\<rparr>"
  have "map_option snd (replay (approve_plan plain_env build_plan (Some ?p) False ?d) yes_run) =
      Some (Inr (Some \<lparr>ap_entries = build_plan\<rparr>))"
    by code_simp
  from runs_result[OF this] obtain d2
    where r: "runs (approve_plan plain_env build_plan (Some ?p) False ?d) yes_run (d2, Inr (Some \<lparr>ap_entries = build_plan\<rparr>))"
    by (elim exE)
  have c: "(Pre_Merge, new_command None ''make'') \<in> set (project_commands (ap_entries \<lparr>ap_entries = build_plan\<rparr>))"
    by code_simp
  from approved_plan_is_cleared[OF r c] show ?thesis
    by (auto simp: new_command_def plain_env_def)
qed

section \<open>A plan holds what its adds selected\<close>

definition path_key :: "string \<Rightarrow> bool \<times> string list" where
  "path_key p = (is_absolute p, components p)"

lemma same_path_key: "same_path a b \<longleftrightarrow> path_key a = path_key b"
  by (simp add: same_path_def path_key_def)

lemma entry_for_key: "entry_for ht a e \<longleftrightarrow> pe_type e = ht \<and> path_key (pe_anchor e) = path_key a"
  by (simp add: entry_for_def same_path_key)

lemma filter_source: "map fst (filter (\<lambda>x. fst x = s) xs) = replicate (length (filter (\<lambda>x. fst x = s) xs)) s"
  by (induction xs) auto

lemma by_source:
  "sort_key fst (xs :: (hook_source \<times> 'a) list) = filter (\<lambda>x. fst x = User) xs @ filter (\<lambda>x. fst x = Project) xs"
proof (rule properties_for_sort_key)
  show "mset (filter (\<lambda>x. fst x = User) xs @ filter (\<lambda>x. fst x = Project) xs) = mset xs"
  proof -
    have "filter (\<lambda>x. fst x = Project) xs = filter (\<lambda>x. fst x \<noteq> User) xs"
      by (rule filter_cong) (auto intro: hook_source.exhaust)
    then show ?thesis by simp
  qed
  show "filter (\<lambda>x. fst k = fst x) (filter (\<lambda>x. fst x = User) xs @ filter (\<lambda>x. fst x = Project) xs) =
      filter (\<lambda>x. fst k = fst x) xs" for k
    by (cases "fst k") (auto intro!: filter_cong)
  show "sorted (map fst (filter (\<lambda>x. fst x = User) xs @ filter (\<lambda>x. fst x = Project) xs))"
    by (simp add: filter_source sorted_append less_eq_hook_source_def)
qed

text \<open>What a plan has for a hook and an anchor after the pair was added \<open>n\<close> times.\<close>

definition repeated :: "plan_builder \<Rightarrow> hook_type \<Rightarrow> nat \<Rightarrow> selection" where
  "repeated b ht n =
     (case hooks_get (pb_user b) ht of Some cfg \<Rightarrow> replicate n (User, cfg) | None \<Rightarrow> []) @
     (case Option.bind (pb_project b) (\<lambda>pc. hooks_get (pc_hooks pc) ht) of Some cfg \<Rightarrow> replicate n (Project, cfg) | None \<Rightarrow> [])"

lemma repeated_Suc: "sort_key fst (repeated b ht n @ select_hook b ht) = repeated b ht (Suc n)"
  by (auto simp: repeated_def select_hook_def by_source replicate_append_same split: option.split)

lemma repeated_sorted: "sort_key fst (repeated b ht n) = repeated b ht n"
  by (auto simp: repeated_def by_source split: option.split)

lemma repeated_0 [simp]: "repeated b ht 0 = []"
  by (auto simp: repeated_def split: option.split)

lemma repeated_nothing: "select_hook b ht = [] \<Longrightarrow> repeated b ht n = []"
  by (auto simp: repeated_def select_hook_def split: option.splits)

lemma lookup_extend:
  "plan_lookup \<lparr>ap_entries = extend_plan ht a s plan\<rparr> ht' a' =
     (if ht' = ht \<and> same_path a a'
      then (if find (entry_for ht a) plan = None then s
            else sort_key fst (plan_lookup \<lparr>ap_entries = plan\<rparr> ht a @ s))
      else plan_lookup \<lparr>ap_entries = plan\<rparr> ht' a')"
proof (induction plan)
  case Nil
  then show ?case by (auto simp: plan_lookup_def entry_for_def)
next
  case (Cons e es)
  have "entry_for ht' a' (e\<lparr>pe_selection := z\<rparr>) = entry_for ht' a' e" for z ht' a'
    by (simp add: entry_for_def)
  then show ?case using Cons by (auto simp: plan_lookup_def entry_for_key same_path_key)
qed

lemma find_extend:
  "find (entry_for ht a) (extend_plan h anchor s plan) = None \<longleftrightarrow>
     find (entry_for ht a) plan = None \<and> \<not> (ht = h \<and> same_path anchor a)"
proof (induction plan)
  case Nil
  show ?case by (auto simp: entry_for_key same_path_key)
next
  case (Cons e es)
  show ?case
  proof (cases "entry_for h anchor e")
    case True
    then have "entry_for ht a e \<longleftrightarrow> ht = h \<and> same_path anchor a" by (auto simp: entry_for_key same_path_key)
    moreover have "entry_for ht a (e\<lparr>pe_selection := z\<rparr>) = entry_for ht a e" for z by (simp add: entry_for_def)
    ultimately show ?thesis using True by simp
  next
    case False
    with Cons show ?thesis by simp
  qed
qed

definition times_added :: "hook_type \<Rightarrow> string \<Rightarrow> (string \<times> hook_type list) list \<Rightarrow> nat" where
  "times_added ht anchor adds = sum_list (map (\<lambda>(a, hts). if same_path a anchor then count_list hts ht else 0) adds)"

definition build :: "plan_builder \<Rightarrow> (string \<times> hook_type list) list \<Rightarrow> hook_plan" where
  "build b adds = foldl (\<lambda>plan (a, hts). add_hooks b a hts plan) [] adds"

lemma lookup_add_hooks:
  assumes "\<forall>ht a. plan_lookup \<lparr>ap_entries = plan\<rparr> ht a = repeated b ht (n ht a)"
    and "\<forall>ht a. select_hook b ht \<noteq> [] \<longrightarrow> (find (entry_for ht a) plan = None \<longleftrightarrow> n ht a = 0)"
    and "\<forall>ht a a'. same_path a a' \<longrightarrow> n ht a = n ht a'"
  shows "(\<forall>ht a. plan_lookup \<lparr>ap_entries = add_hooks b anchor hts plan\<rparr> ht a =
      repeated b ht (n ht a + (if same_path anchor a then count_list hts ht else 0))) \<and>
    (\<forall>ht a. select_hook b ht \<noteq> [] \<longrightarrow> (find (entry_for ht a) (add_hooks b anchor hts plan) = None \<longleftrightarrow>
      n ht a + (if same_path anchor a then count_list hts ht else 0) = 0))"
  using assms
proof (induction hts arbitrary: plan n)
  case Nil
  then show ?case by simp
next
  case (Cons h hts)
  let ?n = "\<lambda>ht a. n ht a + (if ht = h \<and> same_path anchor a then 1 else 0)"
  let ?plan = "if select_hook b h = [] then plan else extend_plan h anchor (select_hook b h) plan"
  have found: "find (entry_for ht a) (extend_plan h anchor s plan) = None \<longleftrightarrow>
      find (entry_for ht a) plan = None \<and> \<not> (ht = h \<and> same_path anchor a)" for ht a s
    by (rule find_extend)
  have "plan_lookup \<lparr>ap_entries = ?plan\<rparr> ht a = repeated b ht (?n ht a)" for ht a
  proof (cases "select_hook b h = []")
    case True
    have "repeated b h m = []" for m by (rule repeated_nothing[OF True])
    then show ?thesis using True by (cases "ht = h") (simp_all add: Cons.prems(1))
  next
    case False
    have "find (entry_for h anchor) plan = None \<longleftrightarrow> n h anchor = 0" using Cons.prems(2) False by blast
    moreover have "sort_key fst (repeated b h (n h anchor) @ select_hook b h) = repeated b h (Suc (n h anchor))"
      by (rule repeated_Suc)
    moreover have "select_hook b h = repeated b h (Suc 0)"
      by (auto simp: select_hook_def repeated_def split: option.split)
    moreover have "same_path anchor a \<Longrightarrow> n h anchor = n h a" using Cons.prems(3) by blast
    ultimately show ?thesis using False
      by (cases "ht = h \<and> same_path anchor a") (auto simp: lookup_extend Cons.prems(1) split: if_splits)
  qed
  then have lookups: "\<forall>ht a. plan_lookup \<lparr>ap_entries = ?plan\<rparr> ht a = repeated b ht (?n ht a)" by blast
  have entries: "\<forall>ht a. select_hook b ht \<noteq> [] \<longrightarrow> (find (entry_for ht a) ?plan = None \<longleftrightarrow> ?n ht a = 0)"
  proof (intro allI impI)
    fix ht a
    assume "select_hook b ht \<noteq> []"
    moreover from this have "find (entry_for ht a) plan = None \<longleftrightarrow> n ht a = 0" using Cons.prems(2) by blast
    ultimately show "find (entry_for ht a) ?plan = None \<longleftrightarrow> ?n ht a = 0"
      by (cases "select_hook b h = []"; cases "ht = h") (simp_all add: found)
  qed
  have keys: "\<forall>ht a a'. same_path a a' \<longrightarrow> ?n ht a = ?n ht a'"
  proof (intro allI impI)
    fix ht a a'
    assume "same_path a a'"
    moreover from this have "n ht a = n ht a'" using Cons.prems(3) by blast
    ultimately show "?n ht a = ?n ht a'" by (simp add: same_path_key)
  qed
  have total: "?n ht a + (if same_path anchor a then count_list hts ht else 0) =
      n ht a + (if same_path anchor a then count_list (h # hts) ht else 0)" for ht a
    by simp
  have step: "add_hooks b anchor (h # hts) plan = add_hooks b anchor hts ?plan" by (simp add: Let_def)
  show ?case unfolding step using Cons.IH[OF lookups entries keys] unfolding total by blast
qed

text \<open>
  C30. Selection happens once: what a plan runs for a hook in a worktree is the user's hook and then the project's of
  the configuration the gate resolved, as often as the pair was added, the user's all before the project's, and
  nothing for a pair that was never added.
\<close>

theorem plan_holds_what_was_added:
  "plan_lookup \<lparr>ap_entries = build b adds\<rparr> ht anchor = repeated b ht (times_added ht anchor adds)"
proof -
  have "(\<forall>ht a. plan_lookup \<lparr>ap_entries = build b adds\<rparr> ht a = repeated b ht (times_added ht a adds)) \<and>
    (\<forall>ht a. select_hook b ht \<noteq> [] \<longrightarrow> (find (entry_for ht a) (build b adds) = None \<longleftrightarrow> times_added ht a adds = 0))"
  proof (induction adds rule: rev_induct)
    case Nil
    then show ?case by (simp add: build_def times_added_def plan_lookup_def)
  next
    case (snoc x adds)
    obtain anchor hts where x: "x = (anchor, hts)" by fastforce
    have "\<forall>ht a a'. same_path a a' \<longrightarrow> times_added ht a adds = times_added ht a' adds"
      by (simp add: times_added_def same_path_key)
    from lookup_add_hooks[OF conjunct1[OF snoc] conjunct2[OF snoc] this, of anchor hts]
    show ?case by (simp add: x build_def times_added_def)
  qed
  then show ?thesis by blast
qed

section \<open>Plans approved without a prompt\<close>

lemma first_uses_Nil: "first_uses [] xs = [] \<longleftrightarrow> xs = []"
  by (cases xs) auto

lemma selection_commands:
  "(s, cfg) \<in> set (pe_selection e) \<Longrightarrow> s = Project \<Longrightarrow> e \<in> set plan \<Longrightarrow> c \<in> set (config_commands cfg) \<Longrightarrow>
     (pe_type e, c) \<in> set (project_commands plan)"
  unfolding project_commands_def by fastforce

text \<open>
  Where no prompt is possible, a plan keeps the user's hooks and exactly those pipelines of the project all of
  whose commands are approved; nothing is dropped when no unapproved command is reported for a known project.
\<close>

theorem readonly_plan_is_cleared:
  "(\<forall>e\<in>set (ap_entries (approve_readonly tv a project plan)). \<forall>(s, cfg)\<in>set (pe_selection e).
      s = Project \<longrightarrow> (\<exists>p. project = Some p \<and> (\<forall>c\<in>set (config_commands cfg). is_command_approved tv a p (cmd_template c)))) \<and>
   (\<forall>e\<in>set plan. \<forall>cfg. (User, cfg) \<in> set (pe_selection e) \<longrightarrow>
      (\<exists>e'\<in>set (ap_entries (approve_readonly tv a project plan)).
         pe_type e' = pe_type e \<and> pe_anchor e' = pe_anchor e \<and> (User, cfg) \<in> set (pe_selection e'))) \<and>
   (project \<noteq> None \<and> unapproved_project_commands tv a project plan = [] \<longrightarrow>
      ap_entries (approve_readonly tv a project plan) = filter (\<lambda>e. pe_selection e \<noteq> []) plan)"
proof (rule conjI[OF _ conjI])
  show "\<forall>e\<in>set (ap_entries (approve_readonly tv a project plan)). \<forall>(s, cfg)\<in>set (pe_selection e).
      s = Project \<longrightarrow> (\<exists>p. project = Some p \<and> (\<forall>c\<in>set (config_commands cfg). is_command_approved tv a p (cmd_template c)))"
    by (auto simp: approve_readonly_def readable_selection_def list_all_iff split: option.splits)
next
  show "\<forall>e\<in>set plan. \<forall>cfg. (User, cfg) \<in> set (pe_selection e) \<longrightarrow>
      (\<exists>e'\<in>set (ap_entries (approve_readonly tv a project plan)).
         pe_type e' = pe_type e \<and> pe_anchor e' = pe_anchor e \<and> (User, cfg) \<in> set (pe_selection e'))"
  proof (intro ballI allI impI)
    fix e cfg assume e: "e \<in> set plan" "(User, cfg) \<in> set (pe_selection e)"
    let ?e = "e\<lparr>pe_selection := filter (readable_selection tv a project) (pe_selection e)\<rparr>"
    have "(User, cfg) \<in> set (pe_selection ?e)" using e(2) by (simp add: readable_selection_def)
    moreover from this have "?e \<in> set (ap_entries (approve_readonly tv a project plan))"
      using e(1) by (auto simp: approve_readonly_def filter_empty_conv)
    ultimately show "\<exists>e'\<in>set (ap_entries (approve_readonly tv a project plan)).
         pe_type e' = pe_type e \<and> pe_anchor e' = pe_anchor e \<and> (User, cfg) \<in> set (pe_selection e')"
      by (intro bexI[of _ ?e]) simp_all
  qed
next
  show "project \<noteq> None \<and> unapproved_project_commands tv a project plan = [] \<longrightarrow>
      ap_entries (approve_readonly tv a project plan) = filter (\<lambda>e. pe_selection e \<noteq> []) plan"
  proof
  assume known: "project \<noteq> None \<and> unapproved_project_commands tv a project plan = []"
  then obtain p where p: "project = Some p" by auto
  have cleared: "is_command_approved tv a p (cmd_template c)" if "(ht, c) \<in> set (project_commands plan)" for ht c
    using known that p
    by (force simp: unapproved_project_commands_def first_uses_Nil set_filter_map
        dest: arg_cong[where f = set] split: if_splits)
  have "filter (readable_selection tv a project) (pe_selection e) = pe_selection e" if "e \<in> set plan" for e
  proof (rule filter_True, clarify)
    fix s cfg
    assume "(s, cfg) \<in> set (pe_selection e)"
    then have "s = Project \<Longrightarrow> c \<in> set (config_commands cfg) \<Longrightarrow> is_command_approved tv a p (cmd_template c)" for c
      using selection_commands[OF _ _ that] cleared by blast
    then show "readable_selection tv a project (s, cfg)"
      by (auto simp: readable_selection_def list_all_iff p)
  qed
  then have "map (\<lambda>e. e\<lparr>pe_selection := filter (readable_selection tv a project) (pe_selection e)\<rparr>) plan = plan"
    by (intro map_idI) simp
  then show "ap_entries (approve_readonly tv a project plan) = filter (\<lambda>e. pe_selection e \<noteq> []) plan"
    by (simp add: approve_readonly_def)
  qed
qed

lemma readonly_plan_is_cleared_witness:
  "ap_entries (approve_readonly (\<lambda>_. None) \<lparr>projects = [(''host/r'', \<lparr>approved_commands = [''make'']\<rparr>)]\<rparr>
     (Some \<lparr>current = ''host/r'', legacy = None\<rparr>) build_plan) = build_plan"
proof -
  let ?a = "\<lparr>projects = [(''host/r'', \<lparr>approved_commands = [''make'']\<rparr>)]\<rparr>"
  let ?p = "Some \<lparr>current = ''host/r'', legacy = None\<rparr>"
  have "unapproved_project_commands (\<lambda>_. None) ?a ?p build_plan = []" by code_simp
  moreover have "filter (\<lambda>e. pe_selection e \<noteq> []) build_plan = build_plan" by code_simp
  ultimately show ?thesis
    using readonly_plan_is_cleared[THEN conjunct2, THEN conjunct2, of ?p "\<lambda>_. None" ?a build_plan] by simp
qed

end
