(* ===== verification/Template_Filters.thy ===== *)
theory Template_Filters
  imports Complex_Main Hook_Commands "HOL-Library.Word"
begin

text \<open>
  The filters of templates, of \<open>src/config/expansion.rs\<close>: branch names for paths and databases, hashes, ports and
  code names, redaction of credentials; and what \<open>src/utils.rs\<close> and \<open>src/path.rs\<close> do to text that is shown
  or names a file. Parameters are the hash of the standard library, whose algorithm it leaves open, SHA-256, the
  crate that replaces what a file system forbids, the word lists of code names and the similarity of names.
\<close>

section \<open>Names made safe\<close>

definition sanitize_branch_name :: "string \<Rightarrow> string" where
  "sanitize_branch_name branch = map (\<lambda>c. if c = CHR ''/'' \<or> c = CHR 0x5C then CHR ''-'' else c) branch"

text \<open>\<open>short_hash\<close>: three digits in base 36 of the 64-bit hash.\<close>

definition base36 :: string where
  "base36 = ''0123456789abcdefghijklmnopqrstuvwxyz''"

definition short_hash :: "(string \<Rightarrow> 64 word) \<Rightarrow> string \<Rightarrow> string" where
  "short_hash hash s =
     (let h = hash s in
      map (\<lambda>d. base36 ! unat d) [h mod 36, h div 36 mod 36, h div 1296 mod 36])"

fun db_chars :: "bool \<Rightarrow> string \<Rightarrow> string" where
  "db_chars prev [] = []"
| "db_chars prev (c # cs) =
     (if is_ascii_alphanumeric c then to_ascii_lower c # db_chars False cs
      else if \<not> prev then CHR ''_'' # db_chars True cs
      else db_chars prev cs)"

definition sanitize_db :: "(string \<Rightarrow> 64 word) \<Rightarrow> string \<Rightarrow> string" where
  "sanitize_db hash s =
     (if s = [] then []
      else
        let r = db_chars False s;
            r = (if r \<noteq> [] \<and> is_ascii_digit (hd r) then CHR ''_'' # r else r);
            r = (if 44 < length r then take 44 r else r);
            r = (if \<not> ends_with r ''_'' then r @ ''_'' else r)
        in r @ short_hash hash s)"

text \<open>\<open>safe\<close> is the crate \<open>sanitize-filename\<close> with the options the code gives it.\<close>

definition sanitize_for_filename :: "(string \<Rightarrow> string) \<Rightarrow> (string \<Rightarrow> 64 word) \<Rightarrow> string \<Rightarrow> string" where
  "sanitize_for_filename safe hash v =
     (let s = safe v in
      if s = v \<and> v \<noteq> [] then s
      else
        let r = (if s = [] then ''_empty'' else s);
            r = (if \<not> ends_with r ''-'' then r @ ''-'' else r)
        in r @ short_hash hash v)"

definition string_to_port :: "(string \<Rightarrow> 64 word) \<Rightarrow> string \<Rightarrow> 16 word" where
  "string_to_port hash s = 10000 + ucast (hash s mod 10000)"

section \<open>Code names\<close>

record petnames =
  adjectives :: "string list"
  nouns :: "string list"

definition CODENAME_MAX_WORDS :: nat where
  "CODENAME_MAX_WORDS = 8"

definition le_byte :: "64 word \<Rightarrow> nat \<Rightarrow> char" where
  "le_byte w i = char_of (unat (drop_bit (8 * i) w))"

definition to_le_bytes :: "64 word \<Rightarrow> string" where
  "to_le_bytes w = map (le_byte w) [0, 1, 2, 3, 4, 5, 6, 7]"

definition from_le_bytes :: "string \<Rightarrow> 64 word" where
  "from_le_bytes bs = foldr (\<lambda>b w. of_nat (of_char b) + push_bit 8 w) bs 0"

text \<open>\<open>sha\<close> is SHA-256 on bytes; the pools of the crate are not empty.\<close>

definition codename_index :: "(string \<Rightarrow> string) \<Rightarrow> string \<Rightarrow> nat \<Rightarrow> nat \<Rightarrow> string \<Rightarrow> nat \<Rightarrow> nat" where
  "codename_index sha input position salt pool len =
     (let digest = sha (input @ [CHR 0x00] @ to_le_bytes (of_nat position) @ to_le_bytes (of_nat salt) @ pool)
      in unat (from_le_bytes (take 8 digest) mod of_nat len))"

text \<open>The inner loop: salts until the word is new, at most as many as there are adjectives.\<close>

function pick_adjective :: "(string \<Rightarrow> string) \<Rightarrow> string list \<Rightarrow> string \<Rightarrow> string list \<Rightarrow> nat \<Rightarrow> nat \<Rightarrow> string" where
  "pick_adjective sha pool input parts position salt =
     (let word = pool ! codename_index sha input position salt ''adjective'' (length pool) in
      if word \<notin> set parts \<or> length pool \<le> salt then word
      else pick_adjective sha pool input parts position (Suc salt))"
  by pat_completeness auto
termination
  by (relation "measure (\<lambda>(sha, pool, input, parts, position, salt). length pool - salt)") (auto simp: Let_def)

declare pick_adjective.simps [simp del]

fun pick_adjectives :: "(string \<Rightarrow> string) \<Rightarrow> string list \<Rightarrow> string \<Rightarrow> string list \<Rightarrow> nat list \<Rightarrow> string list" where
  "pick_adjectives sha pool input parts [] = parts"
| "pick_adjectives sha pool input parts (p # ps) =
     pick_adjectives sha pool input (parts @ [pick_adjective sha pool input parts p 0]) ps"

definition codename :: "(string \<Rightarrow> string) \<Rightarrow> petnames \<Rightarrow> string \<Rightarrow> nat \<Rightarrow> string" where
  "codename sha pn input words =
     (let parts = pick_adjectives sha (adjectives pn) input [] [0..<words - 1];
          noun = nouns pn ! codename_index sha input (words - 1) 0 ''noun'' (length (nouns pn))
      in join ''-'' (parts @ [noun]))"

definition codename_filter :: "(string \<Rightarrow> string) \<Rightarrow> petnames \<Rightarrow> string \<Rightarrow> nat option \<Rightarrow> string + string" where
  "codename_filter sha pn input words =
     (let n = (case words of Some n \<Rightarrow> n | None \<Rightarrow> 2) in
      if n = 0 \<or> CODENAME_MAX_WORDS < n
      then Inl (''codename word count must be between 1 and '' @ show_nat CODENAME_MAX_WORDS)
      else Inr (codename sha pn input n))"

section \<open>Text that is shown\<close>

text \<open>\<open>redact_credentials\<close>: the expression \<open>^([a-z][a-z0-9+.-]*://)([^@/]+)@\<close>, matched once at the start.\<close>

definition scheme_char :: "char \<Rightarrow> bool" where
  "scheme_char c \<longleftrightarrow> is_ascii_digit c \<or> (97 \<le> (of_char c :: nat) \<and> (of_char c :: nat) \<le> 122) \<or> c \<in> set ''+.-''"

definition url_scheme :: "string \<Rightarrow> (string \<times> string) option" where
  "url_scheme s =
     (let scheme = takeWhile scheme_char s in
      if scheme \<noteq> [] \<and> 97 \<le> (of_char (hd scheme) :: nat) \<and> (of_char (hd scheme) :: nat) \<le> 122
      then map_option (Pair scheme) (strip_prefix (dropWhile scheme_char s) ''://'')
      else None)"

definition redact_credentials :: "string \<Rightarrow> string" where
  "redact_credentials s =
     (case url_scheme s of
        None \<Rightarrow> s
      | Some (scheme, rest) \<Rightarrow>
          (let cred = takeWhile (\<lambda>c. c \<noteq> CHR ''@'' \<and> c \<noteq> CHR ''/'') rest;
               after = drop (length cred) rest
           in if cred \<noteq> [] \<and> starts_with after ''@''
              then scheme @ ''://[REDACTED]'' @ after
              else s))"

text \<open>
  \<open>escape_controls\<close> on the UTF-8 bytes of a text: the control characters below 128 are one byte, those from U+0080 to
  U+009F the byte C2 and a second one. \<open>char::escape_default\<close> writes a carriage return as backslash r and the
  others with their code in hexadecimal.
\<close>

definition hex_digit :: "nat \<Rightarrow> char" where
  "hex_digit n = (if n < 10 then char_of (48 + n) else char_of (87 + n))"

definition escape_unicode :: "nat \<Rightarrow> string" where
  "escape_unicode n =
     [CHR 0x5C, CHR ''u'', CHR 0x7B] @ (if n < 16 then [] else [hex_digit (n div 16 mod 16)]) @ [hex_digit (n mod 16), CHR 0x7D]"

definition escape_default_control :: "nat \<Rightarrow> string" where
  "escape_default_control n = (if n = 13 then [CHR 0x5C, CHR ''r''] else escape_unicode n)"

definition ascii_control :: "char \<Rightarrow> bool" where
  "ascii_control c \<longleftrightarrow> (of_char c :: nat) < 32 \<or> (of_char c :: nat) = 127"

definition c1_second :: "char \<Rightarrow> bool" where
  "c1_second c \<longleftrightarrow> 128 \<le> (of_char c :: nat) \<and> (of_char c :: nat) < 160"

fun escape_controls :: "string \<Rightarrow> string" where
  "escape_controls [] = []"
| "escape_controls [c] =
     (if c = CHR 0x09 \<or> c = CHR 0x0A then [c]
      else if c = CHR 0x00 then [CHR 0x5C, CHR ''0'']
      else if ascii_control c then escape_default_control (of_char c)
      else [c])"
| "escape_controls (c # d # cs) =
     (if c = CHR 0x09 \<or> c = CHR 0x0A then c # escape_controls (d # cs)
      else if c = CHR 0x00 then [CHR 0x5C, CHR ''0''] @ escape_controls (d # cs)
      else if ascii_control c then escape_default_control (of_char c) @ escape_controls (d # cs)
      else if c = CHR 0xC2 \<and> c1_second d then escape_unicode (of_char d) @ escape_controls cs
      else c # escape_controls (d # cs))"

text \<open>\<open>did_you_mean\<close>: \<open>score\<close> is the Jaro-Winkler similarity; equal scores keep the order of the candidates.\<close>

fun first_occurrences :: "'a list \<Rightarrow> 'a list \<Rightarrow> 'a list" where
  "first_occurrences seen [] = []"
| "first_occurrences seen (x # xs) =
     (if x \<in> set seen then first_occurrences seen xs else x # first_occurrences (x # seen) xs)"

definition did_you_mean :: "(string \<Rightarrow> string \<Rightarrow> rat) \<Rightarrow> string \<Rightarrow> string list \<Rightarrow> string list" where
  "did_you_mean score query candidates =
     first_occurrences []
       (sort_key (\<lambda>c. - score query c) (filter (\<lambda>c. 7 / 10 < score query c) candidates))"

section \<open>What the filters promise\<close>

definition db_char :: "char \<Rightarrow> bool" where
  "db_char c \<longleftrightarrow> is_ascii_digit c \<or> c = CHR ''_'' \<or> (97 \<le> (of_char c :: nat) \<and> (of_char c :: nat) \<le> 122)"

lemma is_ascii_digit_nat: "is_ascii_digit c \<longleftrightarrow> 48 \<le> (of_char c :: nat) \<and> (of_char c :: nat) \<le> 57"
  unfolding is_ascii_digit_def by (subst (1 2) of_nat_of_char[symmetric]) simp

lemma db_chars_db: "c \<in> set (db_chars prev s) \<Longrightarrow> db_char c"
  by (induction prev s rule: db_chars.induct)
     (auto simp: db_char_def is_ascii_alphanumeric_def is_ascii_digit_nat to_ascii_lower_def Let_def split: if_splits)

lemma db_chars_nonempty: "s \<noteq> [] \<Longrightarrow> db_chars False s \<noteq> []"
  by (cases s) auto

lemma length_short_hash [simp]: "length (short_hash hash s) = 3"
  by (simp add: short_hash_def Let_def)

lemma base36_db: "n < 36 \<Longrightarrow> db_char (base36 ! n)"
proof -
  have "list_all db_char base36" by code_simp
  moreover assume "n < 36"
  then have "n < length base36" by (simp add: base36_def)
  ultimately show "db_char (base36 ! n)" by (simp add: list_all_length)
qed

lemma mod_36: "unat (x mod 36 :: 64 word) < 36"
  by (simp add: unat_mod_distrib)

lemma short_hash_db: "c \<in> set (short_hash hash s) \<Longrightarrow> db_char c"
  by (auto simp: short_hash_def Let_def intro!: base36_db mod_36)

lemma db_prefix:
  fixes r :: string
  assumes "r \<noteq> []" "\<forall>c\<in>set r. db_char c" "\<not> is_ascii_digit (hd r)"
  defines "t \<equiv> (if 44 < length r then take 44 r else r)"
  defines "u \<equiv> (if \<not> ends_with t ''_'' then t @ ''_'' else t)"
  shows "u \<noteq> [] \<and> length u \<le> 45 \<and> (\<forall>c\<in>set u. db_char c) \<and> \<not> is_ascii_digit (hd u) \<and> ends_with u ''_''"
proof -
  have t: "t \<noteq> [] \<and> length t \<le> 44 \<and> (\<forall>c\<in>set t. db_char c) \<and> hd t = hd r"
    using assms(1,2) by (auto simp: t_def dest: in_set_takeD)
  have underscore: "db_char CHR ''_''" by (simp add: db_char_def)
  show ?thesis using t underscore assms(3) by (auto simp: u_def ends_with_iff hd_append)
qed

lemma sanitize_db_identifier:
  assumes "s \<noteq> []"
  shows "length (sanitize_db hash s) \<le> 48 \<and> sanitize_db hash s \<noteq> [] \<and> \<not> is_ascii_digit (hd (sanitize_db hash s)) \<and>
    list_all db_char (sanitize_db hash s) \<and> (\<exists>base. sanitize_db hash s = base @ ''_'' @ short_hash hash s)"
proof -
  let ?r = "db_chars False s"
  define r where "r = (if ?r \<noteq> [] \<and> is_ascii_digit (hd ?r) then CHR ''_'' # ?r else ?r)"
  have r: "r \<noteq> []" "\<forall>c\<in>set r. db_char c" "\<not> is_ascii_digit (hd r)"
    using db_chars_nonempty[OF assms] db_chars_db[of _ False s]
    by (auto simp: r_def db_char_def is_ascii_digit_def)
  define t where "t = (if 44 < length r then take 44 r else r)"
  define u where "u = (if \<not> ends_with t ''_'' then t @ ''_'' else t)"
  have u: "u \<noteq> [] \<and> length u \<le> 45 \<and> (\<forall>c\<in>set u. db_char c) \<and> \<not> is_ascii_digit (hd u) \<and> ends_with u ''_''"
    unfolding u_def t_def by (rule db_prefix[OF r])
  have eq: "sanitize_db hash s = u @ short_hash hash s"
    using assms by (simp add: sanitize_db_def Let_def r_def t_def u_def)
  from u obtain base where "u = base @ ''_''" by (auto simp: ends_with_iff)
  with u short_hash_db show ?thesis by (auto simp: eq list_all_iff hd_append)
qed

lemma port_in_range: "10000 \<le> string_to_port hash s \<and> string_to_port hash s < 20000"
proof -
  have "unat (hash s mod 10000) < 10000" by (simp add: unat_mod_distrib)
  then have "unat (ucast (hash s mod 10000) :: 16 word) < 10000"
    by (simp add: unsigned_ucast_eq take_bit_nat_eq_self)
  then show ?thesis
    by (simp add: string_to_port_def word_le_nat_alt word_less_nat_alt unat_word_ariths)
qed

lemma redacted_url:
  assumes "scheme \<noteq> []" "list_all scheme_char scheme" "97 \<le> (of_char (hd scheme) :: nat) \<and> (of_char (hd scheme) :: nat) \<le> 122"
    and "cred \<noteq> []" "CHR ''@'' \<notin> set cred" "CHR ''/'' \<notin> set cred"
  shows "redact_credentials (scheme @ ''://'' @ cred @ ''@'' @ rest) = scheme @ ''://[REDACTED]@'' @ rest"
proof -
  have "\<not> scheme_char CHR '':''" by (simp add: scheme_char_def is_ascii_digit_def)
  then have "takeWhile scheme_char (scheme @ ''://'' @ cred @ ''@'' @ rest) = scheme"
    "dropWhile scheme_char (scheme @ ''://'' @ cred @ ''@'' @ rest) = ''://'' @ cred @ ''@'' @ rest"
    using assms(2) by (simp_all add: takeWhile_append dropWhile_append list_all_iff)
  then have scheme: "url_scheme (scheme @ ''://'' @ cred @ ''@'' @ rest) = Some (scheme, cred @ ''@'' @ rest)"
    using assms(1,3) by (simp add: url_scheme_def strip_prefix_def starts_with_iff)
  have "takeWhile (\<lambda>c. c \<noteq> CHR ''@'' \<and> c \<noteq> CHR ''/'') (cred @ ''@'' @ rest) = cred"
    using assms(5,6) by (auto simp: takeWhile_append)
  with scheme assms(4) show ?thesis by (simp add: redact_credentials_def Let_def starts_with_iff)
qed

end
