(* ===== verification/Template_Syntax.thy ===== *)
theory Template_Syntax
  imports Prelude
begin

text \<open>
  The syntax analysis of templates of \<open>src/config/template_analysis.rs\<close>: a visitor over MiniJinja's syntax tree that
  records the variables a template reads with their byte ranges, the names it binds, and which output
  expressions are plain variables. The tree has the constructors of the dependency the visitor matches; its parser is
  a parameter (\<open>None\<close> where it rejects the template).
\<close>

type_synonym span = "nat \<times> nat"

datatype texpr =
    Var_Expr string span
  | Const_Expr
  | Slice_Expr texpr "texpr option" "texpr option" "texpr option"
  | Unary_Expr texpr
  | Binary_Expr texpr texpr
  | Compare_Expr texpr "texpr list"
  | If_Expr texpr texpr "texpr option"
  | Filter_Expr "texpr option" "call_arg list"
  | Test_Expr texpr "call_arg list"
  | Attr_Expr texpr
  | Item_Expr texpr texpr
  | Call_Expr texpr "call_arg list"
  | List_Expr "texpr list"
  | Tuple_Expr "texpr list"
  | Map_Expr "texpr list" "texpr list"
and call_arg = Pos_Arg texpr | Keyword_Arg string texpr | Pos_Splat texpr | Keyword_Splat texpr

datatype tstmt =
    Template "tstmt list"
  | Emit_Expr texpr span
  | Emit_Raw
  | For_Loop texpr texpr "texpr option" "tstmt list" "tstmt list"
  | If_Cond texpr "tstmt list" "tstmt list"
  | With_Block "(texpr \<times> texpr) list" "tstmt list"
  | Set_Stmt texpr texpr
  | Set_Block texpr "texpr option" "tstmt list"
  | Auto_Escape texpr "tstmt list"
  | Filter_Block texpr "tstmt list"
  | Do_Stmt texpr "call_arg list"

record syntax_vars =
  tv_reads :: "(string \<times> span) list"
  tv_bound :: "string set"
  tv_outputs :: "(string \<times> span) list"

definition no_vars :: syntax_vars where
  "no_vars = \<lparr>tv_reads = [], tv_bound = {}, tv_outputs = []\<rparr>"

fun opt_list :: "'a option \<Rightarrow> 'a list" where
  "opt_list None = []"
| "opt_list (Some x) = [x]"

text \<open>The variables an expression reads, in visit order; an argument's keyword is not a read.\<close>

fun expr_reads :: "texpr \<Rightarrow> (string \<times> span) list"
  and arg_reads :: "call_arg \<Rightarrow> (string \<times> span) list" where
  "expr_reads (Var_Expr x sp) = [(x, sp)]"
| "expr_reads Const_Expr = []"
| "expr_reads (Slice_Expr e a b c) =
     expr_reads e @ (case a of None \<Rightarrow> [] | Some x \<Rightarrow> expr_reads x) @
     (case b of None \<Rightarrow> [] | Some x \<Rightarrow> expr_reads x) @ (case c of None \<Rightarrow> [] | Some x \<Rightarrow> expr_reads x)"
| "expr_reads (Unary_Expr e) = expr_reads e"
| "expr_reads (Binary_Expr l r) = expr_reads l @ expr_reads r"
| "expr_reads (Compare_Expr e es) = expr_reads e @ concat (map expr_reads es)"
| "expr_reads (If_Expr c t f) = expr_reads c @ expr_reads t @ (case f of None \<Rightarrow> [] | Some x \<Rightarrow> expr_reads x)"
| "expr_reads (Filter_Expr e as) = (case e of None \<Rightarrow> [] | Some x \<Rightarrow> expr_reads x) @ concat (map arg_reads as)"
| "expr_reads (Test_Expr e as) = expr_reads e @ concat (map arg_reads as)"
| "expr_reads (Attr_Expr e) = expr_reads e"
| "expr_reads (Item_Expr e i) = expr_reads e @ expr_reads i"
| "expr_reads (Call_Expr e as) = expr_reads e @ concat (map arg_reads as)"
| "expr_reads (List_Expr es) = concat (map expr_reads es)"
| "expr_reads (Tuple_Expr es) = concat (map expr_reads es)"
| "expr_reads (Map_Expr ks vs) = concat (map expr_reads ks) @ concat (map expr_reads vs)"
| "arg_reads (Pos_Arg e) = expr_reads e"
| "arg_reads (Keyword_Arg k e) = expr_reads e"
| "arg_reads (Pos_Splat e) = expr_reads e"
| "arg_reads (Keyword_Splat e) = expr_reads e"

definition visit_expr :: "texpr \<Rightarrow> syntax_vars \<Rightarrow> syntax_vars" where
  "visit_expr e tv = tv\<lparr>tv_reads := tv_reads tv @ expr_reads e\<rparr>"

text \<open>The names an assignment target binds; a dotted target reads what it mutates.\<close>

fun visit_target :: "texpr \<Rightarrow> syntax_vars \<Rightarrow> syntax_vars" where
  "visit_target (Var_Expr x sp) tv = tv\<lparr>tv_bound := insert x (tv_bound tv)\<rparr>"
| "visit_target (List_Expr es) tv = fold visit_target es tv"
| "visit_target e tv = visit_expr e tv"

text \<open>An output that is one variable, perhaps through filters without arguments.\<close>

fun plain_output :: "texpr \<Rightarrow> string option" where
  "plain_output (Filter_Expr (Some e) []) = plain_output e"
| "plain_output (Var_Expr x sp) = Some x"
| "plain_output e = None"

fun visit_stmt :: "tstmt \<Rightarrow> syntax_vars \<Rightarrow> syntax_vars" where
  "visit_stmt (Template ss) tv = fold visit_stmt ss tv"
| "visit_stmt (Emit_Expr e sp) tv =
     visit_expr e (case plain_output e of
                     None \<Rightarrow> tv
                   | Some x \<Rightarrow> tv\<lparr>tv_outputs := tv_outputs tv @ [(x, sp)]\<rparr>)"
| "visit_stmt Emit_Raw tv = tv"
| "visit_stmt (For_Loop t i f body els) tv =
     fold visit_stmt els (fold visit_stmt body
       (fold visit_expr (opt_list f) (visit_expr i (visit_target t (tv\<lparr>tv_bound := insert ''loop'' (tv_bound tv)\<rparr>)))))"
| "visit_stmt (If_Cond c a b) tv = fold visit_stmt b (fold visit_stmt a (visit_expr c tv))"
| "visit_stmt (With_Block asg body) tv =
     fold visit_stmt body (fold (\<lambda>(t, v) tv. visit_expr v (visit_target t tv)) asg tv)"
| "visit_stmt (Set_Stmt t e) tv = visit_expr e (visit_target t tv)"
| "visit_stmt (Set_Block t f body) tv = fold visit_stmt body (fold visit_expr (opt_list f) (visit_target t tv))"
| "visit_stmt (Auto_Escape e body) tv = fold visit_stmt body (visit_expr e tv)"
| "visit_stmt (Filter_Block f body) tv = fold visit_stmt body (visit_expr f tv)"
| "visit_stmt (Do_Stmt e as) tv = visit_expr (Call_Expr e as) tv"

definition vars_of :: "(string \<Rightarrow> tstmt option) \<Rightarrow> string \<Rightarrow> syntax_vars option" where
  "vars_of parse t = map_option (\<lambda>ast. visit_stmt ast no_vars) (parse t)"

definition output_at :: "syntax_vars \<Rightarrow> span \<Rightarrow> string option" where
  "output_at tv r =
     map_option fst (find (\<lambda>(x, sp). fst sp \<le> fst r \<and> snd r \<le> snd sp \<and> x \<notin> tv_bound tv) (tv_outputs tv))"

section \<open>What the analysis reports\<close>

text \<open>A state of the visitor that only grows.\<close>

definition grows :: "syntax_vars \<Rightarrow> syntax_vars \<Rightarrow> bool" where
  "grows tv tv' \<longleftrightarrow> set (tv_reads tv) \<subseteq> set (tv_reads tv') \<and> tv_bound tv \<subseteq> tv_bound tv' \<and> set (tv_outputs tv) \<subseteq> set (tv_outputs tv')"

definition outputs_read :: "syntax_vars \<Rightarrow> bool" where
  "outputs_read tv \<longleftrightarrow> fst ` set (tv_outputs tv) \<subseteq> fst ` set (tv_reads tv)"

lemma fold_invariant:
  "P s \<Longrightarrow> (\<And>x s. x \<in> set xs \<Longrightarrow> P s \<Longrightarrow> P (f x s)) \<Longrightarrow> P (fold f xs s)"
  by (induction xs arbitrary: s) auto

lemma outputs_read_expr: "outputs_read tv \<Longrightarrow> outputs_read (visit_expr e tv)"
  by (auto simp: outputs_read_def visit_expr_def)

lemma outputs_read_bound: "outputs_read tv \<Longrightarrow> outputs_read (tv\<lparr>tv_bound := b\<rparr>)"
  by (simp add: outputs_read_def)

lemma outputs_read_fold:
  "outputs_read tv \<Longrightarrow> (\<And>x s. x \<in> set xs \<Longrightarrow> outputs_read s \<Longrightarrow> outputs_read (f x s)) \<Longrightarrow> outputs_read (fold f xs tv)"
  by (rule fold_invariant[where P = outputs_read])

lemma outputs_read_target: "outputs_read tv \<Longrightarrow> outputs_read (visit_target t tv)"
proof (induction t tv rule: visit_target.induct)
  case (2 es tv)
  have "outputs_read (fold visit_target es tv)" by (rule outputs_read_fold[OF 2(2)]) (rule 2(1))
  then show ?case by simp
qed (simp_all add: outputs_read_expr outputs_read_bound)

lemma plain_output_read: "plain_output e = Some x \<Longrightarrow> x \<in> fst ` set (expr_reads e)"
  by (induction e rule: plain_output.induct) auto

lemma outputs_read_emit: "outputs_read tv \<Longrightarrow> outputs_read (visit_stmt (Emit_Expr e sp) tv)"
proof (cases "plain_output e")
  case (Some x)
  assume "outputs_read tv"
  moreover have "x \<in> fst ` set (expr_reads e)" by (rule plain_output_read[OF Some])
  ultimately show ?thesis by (auto simp: Some outputs_read_def visit_expr_def image_Un)
qed (simp add: outputs_read_expr)

lemma outputs_read_stmt: "outputs_read tv \<Longrightarrow> outputs_read (visit_stmt s tv)"
proof (induction s tv rule: visit_stmt.induct)
  case (2 e sp tv)
  then show ?case by (rule outputs_read_emit)
next
  case (6 asg body tv)
  have "outputs_read (fold visit_stmt body (fold (\<lambda>(t, v) tv. visit_expr v (visit_target t tv)) asg tv))"
    by (intro outputs_read_fold 6) (auto intro!: outputs_read_expr outputs_read_target)
  then show ?case by simp
qed (simp_all only: visit_stmt.simps,
     (intro outputs_read_fold outputs_read_expr outputs_read_target outputs_read_bound; assumption | blast)+)

text \<open>A name reported for an error is an output of the template that covers the error, read and never bound.\<close>

lemma output_at_reads:
  assumes "vars_of parse t = Some tv" "output_at tv r = Some x"
  shows "x \<in> fst ` set (tv_reads tv) \<and> x \<notin> tv_bound tv"
proof -
  have "outputs_read no_vars" by (simp add: outputs_read_def no_vars_def)
  with assms(1) have reads: "outputs_read tv" by (auto simp: vars_of_def outputs_read_stmt)
  from assms(2) obtain i sp where "i < length (tv_outputs tv)" "tv_outputs tv ! i = (x, sp)" "x \<notin> tv_bound tv"
    by (auto simp: output_at_def find_Some_iff)
  then have "(x, sp) \<in> set (tv_outputs tv)" "x \<notin> tv_bound tv" by (metis nth_mem, simp)
  with reads show ?thesis unfolding outputs_read_def by (metis fst_conv image_eqI subsetD)
qed

end
