(* ===== verification/User_Settings.thy ===== *)
theory User_Settings
  imports Hook_Commands Working_Tree
begin

text \<open>
  The sections of the user configuration and what is effective for a project: the section structs of
  \<open>src/config/user/sections.rs\<close> with their defaults and merges (\<open>merge.rs\<close>), \<open>UserConfig\<close> (\<open>src/config/user/mod.rs\<close>), the
  project-aware accessors of \<open>accessors.rs\<close>, the resolved configuration of \<open>resolved.rs\<close> and the validation of
  \<open>persistence.rs\<close>. Which entries of \<open>[projects]\<close> apply, and in which order, is \<open>Project_Match\<close>.
\<close>

section \<open>Sections\<close>

text \<open>\<open>Option::or\<close>.\<close>

definition opt_or :: "'a option \<Rightarrow> 'a option \<Rightarrow> 'a option" where
  "opt_or a b = (case a of Some x \<Rightarrow> Some x | None \<Rightarrow> b)"

lemma opt_or_simps [simp]: "opt_or None b = b" "opt_or (Some x) b = Some x" "opt_or a None = a"
  by (simp_all add: opt_or_def split: option.splits)

lemma opt_or_assoc: "opt_or (opt_or a b) c = opt_or a (opt_or b c)"
  by (cases a) simp_all

definition merge_optional :: "('a \<Rightarrow> 'a \<Rightarrow> 'a) \<Rightarrow> 'a option \<Rightarrow> 'a option \<Rightarrow> 'a option" where
  "merge_optional merge g p =
     (case (g, p) of
        (Some g, Some p) \<Rightarrow> Some (merge g p) | (None, Some p) \<Rightarrow> Some p | (Some g, None) \<Rightarrow> Some g | (None, None) \<Rightarrow> None)"

record commit_generation_config =
  cg_command :: "string option"
  cg_template :: "string option"
  cg_squash_template :: "string option"
  cg_template_append :: "string option"

definition generation_command :: "commit_generation_config \<Rightarrow> string option" where
  "generation_command c =
     (case cg_command c of Some s \<Rightarrow> if trim s = [] then None else Some s | None \<Rightarrow> None)"

definition is_configured :: "commit_generation_config \<Rightarrow> bool" where
  "is_configured c \<longleftrightarrow> generation_command c \<noteq> None"

definition merge_commit_generation ::
  "commit_generation_config \<Rightarrow> commit_generation_config \<Rightarrow> commit_generation_config" where
  "merge_commit_generation self other =
     \<lparr>cg_command = opt_or (cg_command other) (cg_command self),
      cg_template = opt_or (cg_template other) (cg_template self),
      cg_squash_template = opt_or (cg_squash_template other) (cg_squash_template self),
      cg_template_append = opt_or (cg_template_append other) (cg_template_append self)\<rparr>"

record list_column_config =
  col_template :: string
  col_width :: "nat option"
  col_priority :: "nat option"

record list_config =
  lc_full :: "bool option"
  lc_branches :: "bool option"
  lc_remotes :: "bool option"
  lc_summary :: "bool option"
  lc_json_schema :: "nat option"
  lc_timeout_ms :: "nat option"
  lc_columns :: "string list"
  lc_custom_columns :: "(string, list_column_config) btree"

definition or_default :: "'a \<Rightarrow> 'a option \<Rightarrow> 'a" where
  "or_default d x = (case x of Some v \<Rightarrow> v | None \<Rightarrow> d)"

definition list_full :: "list_config \<Rightarrow> bool" where
  "list_full c = or_default False (lc_full c)"

definition list_branches :: "list_config \<Rightarrow> bool" where
  "list_branches c = or_default False (lc_branches c)"

definition list_remotes :: "list_config \<Rightarrow> bool" where
  "list_remotes c = or_default False (lc_remotes c)"

definition list_summary :: "list_config \<Rightarrow> bool" where
  "list_summary c = or_default False (lc_summary c)"

definition list_timeout :: "list_config \<Rightarrow> nat option" where
  "list_timeout c = (case lc_timeout_ms c of Some ms \<Rightarrow> if ms > 0 then Some ms else None | None \<Rightarrow> None)"

definition merge_list :: "list_config \<Rightarrow> list_config \<Rightarrow> list_config" where
  "merge_list self other =
     \<lparr>lc_full = opt_or (lc_full other) (lc_full self),
      lc_branches = opt_or (lc_branches other) (lc_branches self),
      lc_remotes = opt_or (lc_remotes other) (lc_remotes self),
      lc_summary = opt_or (lc_summary other) (lc_summary self),
      lc_json_schema = opt_or (lc_json_schema other) (lc_json_schema self),
      lc_timeout_ms = opt_or (lc_timeout_ms other) (lc_timeout_ms self),
      lc_columns = (if lc_columns other = [] then lc_columns self else lc_columns other),
      lc_custom_columns = fold (\<lambda>(k, v). bt_put k v) (lc_custom_columns other) (lc_custom_columns self)\<rparr>"

record commit_config =
  cc_stage :: "stage_mode option"
  cc_generation :: "commit_generation_config option"

definition commit_stage :: "commit_config \<Rightarrow> stage_mode" where
  "commit_stage c = or_default Stage_All (cc_stage c)"

definition merge_commit :: "commit_config \<Rightarrow> commit_config \<Rightarrow> commit_config" where
  "merge_commit self other =
     \<lparr>cc_stage = opt_or (cc_stage other) (cc_stage self),
      cc_generation = merge_optional merge_commit_generation (cc_generation self) (cc_generation other)\<rparr>"

record merge_config =
  mc_squash :: "bool option"
  mc_commit :: "bool option"
  mc_rebase :: "bool option"
  mc_remove :: "bool option"
  mc_verify :: "bool option"
  mc_ff :: "bool option"

definition merge_squash :: "merge_config \<Rightarrow> bool" where
  "merge_squash c = or_default True (mc_squash c)"

definition merge_commits :: "merge_config \<Rightarrow> bool" where
  "merge_commits c = or_default True (mc_commit c)"

definition merge_rebase :: "merge_config \<Rightarrow> bool" where
  "merge_rebase c = or_default True (mc_rebase c)"

definition merge_remove :: "merge_config \<Rightarrow> bool" where
  "merge_remove c = or_default True (mc_remove c)"

definition merge_verify :: "merge_config \<Rightarrow> bool" where
  "merge_verify c = or_default True (mc_verify c)"

definition merge_ff :: "merge_config \<Rightarrow> bool" where
  "merge_ff c = or_default True (mc_ff c)"

definition merge_merge :: "merge_config \<Rightarrow> merge_config \<Rightarrow> merge_config" where
  "merge_merge self other =
     \<lparr>mc_squash = opt_or (mc_squash other) (mc_squash self),
      mc_commit = opt_or (mc_commit other) (mc_commit self),
      mc_rebase = opt_or (mc_rebase other) (mc_rebase self),
      mc_remove = opt_or (mc_remove other) (mc_remove self),
      mc_verify = opt_or (mc_verify other) (mc_verify self),
      mc_ff = opt_or (mc_ff other) (mc_ff self)\<rparr>"

record remove_config =
  rc_delete_branch :: "bool option"

definition remove_deletes_branch :: "remove_config \<Rightarrow> bool" where
  "remove_deletes_branch c = or_default True (rc_delete_branch c)"

definition merge_remove_config :: "remove_config \<Rightarrow> remove_config \<Rightarrow> remove_config" where
  "merge_remove_config self other = \<lparr>rc_delete_branch = opt_or (rc_delete_branch other) (rc_delete_branch self)\<rparr>"

record switch_picker_config =
  sp_pager :: "string option"
  sp_preview :: "bool option"

definition picker_preview :: "switch_picker_config \<Rightarrow> bool" where
  "picker_preview c = or_default True (sp_preview c)"

definition merge_switch_picker :: "switch_picker_config \<Rightarrow> switch_picker_config \<Rightarrow> switch_picker_config" where
  "merge_switch_picker self other =
     \<lparr>sp_pager = opt_or (sp_pager other) (sp_pager self),
      sp_preview = opt_or (sp_preview other) (sp_preview self)\<rparr>"

record switch_config =
  sc_cd :: "bool option"
  sc_picker :: "switch_picker_config option"

definition switch_cd :: "switch_config \<Rightarrow> bool" where
  "switch_cd c = or_default True (sc_cd c)"

definition merge_switch :: "switch_config \<Rightarrow> switch_config \<Rightarrow> switch_config" where
  "merge_switch self other =
     \<lparr>sc_cd = opt_or (sc_cd other) (sc_cd self),
      sc_picker = merge_optional merge_switch_picker (sc_picker self) (sc_picker other)\<rparr>"

text \<open>\<open>CopyIgnoredConfig\<close> is its list of patterns.\<close>

fun merge_copy_ignored :: "string list \<Rightarrow> string list \<Rightarrow> string list" where
  "merge_copy_ignored ex [] = ex"
| "merge_copy_ignored ex (p # ps) = merge_copy_ignored (if p \<in> set ex then ex else ex @ [p]) ps"

record step_config =
  st_copy_ignored :: "string list option"

definition step_copy_ignored :: "step_config \<Rightarrow> string list" where
  "step_copy_ignored c = or_default [] (st_copy_ignored c)"

definition merge_step :: "step_config \<Rightarrow> step_config \<Rightarrow> step_config" where
  "merge_step self other =
     \<lparr>st_copy_ignored = merge_optional merge_copy_ignored (st_copy_ignored self) (st_copy_ignored other)\<rparr>"

record forge_config =
  fg_platform :: "string option"
  fg_hostname :: "string option"

section \<open>The user configuration\<close>

record project_overrides =
  po_approved_commands :: "string list"
  po_hooks :: hooks_config
  po_worktree_path :: "string option"
  po_list :: list_config
  po_commit :: commit_config
  po_merge :: merge_config
  po_remove :: remove_config
  po_switch :: switch_config
  po_step :: step_config
  po_forge :: forge_config
  po_aliases :: aliases

record user_config =
  uc_projects :: "(string, project_overrides) btree"
  uc_hooks :: hooks_config
  uc_worktree_path :: "string option"
  uc_list :: list_config
  uc_commit :: commit_config
  uc_merge :: merge_config
  uc_remove :: remove_config
  uc_switch :: switch_config
  uc_step :: step_config
  uc_aliases :: aliases
  uc_skip_shell_integration_prompt :: bool
  uc_skip_commit_generation_prompt :: bool

text \<open>What an empty file deserializes to: the derived \<open>Default\<close> of every struct.\<close>

definition default_generation :: commit_generation_config where
  "default_generation = \<lparr>cg_command = None, cg_template = None, cg_squash_template = None, cg_template_append = None\<rparr>"

definition default_list :: list_config where
  "default_list = \<lparr>lc_full = None, lc_branches = None, lc_remotes = None, lc_summary = None, lc_json_schema = None,
     lc_timeout_ms = None, lc_columns = [], lc_custom_columns = []\<rparr>"

definition default_merge :: merge_config where
  "default_merge = \<lparr>mc_squash = None, mc_commit = None, mc_rebase = None, mc_remove = None, mc_verify = None, mc_ff = None\<rparr>"

definition default_picker :: switch_picker_config where
  "default_picker = \<lparr>sp_pager = None, sp_preview = None\<rparr>"

definition default_overrides :: project_overrides where
  "default_overrides = \<lparr>po_approved_commands = [], po_hooks = no_hooks, po_worktree_path = None, po_list = default_list,
     po_commit = \<lparr>cc_stage = None, cc_generation = None\<rparr>, po_merge = default_merge,
     po_remove = \<lparr>rc_delete_branch = None\<rparr>, po_switch = \<lparr>sc_cd = None, sc_picker = None\<rparr>,
     po_step = \<lparr>st_copy_ignored = None\<rparr>, po_forge = \<lparr>fg_platform = None, fg_hostname = None\<rparr>, po_aliases = []\<rparr>"

definition default_config :: user_config where
  "default_config = \<lparr>uc_projects = [], uc_hooks = no_hooks, uc_worktree_path = None, uc_list = default_list,
     uc_commit = \<lparr>cc_stage = None, cc_generation = None\<rparr>, uc_merge = default_merge,
     uc_remove = \<lparr>rc_delete_branch = None\<rparr>, uc_switch = \<lparr>sc_cd = None, sc_picker = None\<rparr>,
     uc_step = \<lparr>st_copy_ignored = None\<rparr>, uc_aliases = [], uc_skip_shell_integration_prompt = False,
     uc_skip_commit_generation_prompt = False\<rparr>"

section \<open>What is effective for a project\<close>

definition overrides_for :: "user_config \<Rightarrow> project_id option \<Rightarrow> project_overrides list" where
  "overrides_for uc project = (case project of None \<Rightarrow> [] | Some p \<Rightarrow> matching_keys (uc_projects uc) p)"

definition merged_project_config ::
  "('a \<Rightarrow> 'a \<Rightarrow> 'a) \<Rightarrow> user_config \<Rightarrow> project_id option \<Rightarrow> 'a \<Rightarrow> (project_overrides \<Rightarrow> 'a) \<Rightarrow> 'a" where
  "merged_project_config merge uc project global f =
     foldl (\<lambda>merged o1. merge merged (f o1)) global (overrides_for uc project)"

definition last_option :: "'a list \<Rightarrow> 'a option" where
  "last_option xs = (if xs = [] then None else Some (last xs))"

definition project_field :: "user_config \<Rightarrow> project_id option \<Rightarrow> (project_overrides \<Rightarrow> 'a option) \<Rightarrow> 'a option" where
  "project_field uc project f = last_option (filter_map f (overrides_for uc project))"

definition default_worktree_path :: string where
  "default_worktree_path =
     [CHR 0x7B, CHR 0x7B] @ '' repo_path '' @ [CHR 0x7D, CHR 0x7D] @ ''/../'' @ [CHR 0x7B, CHR 0x7B] @ '' repo '' @
     [CHR 0x7D, CHR 0x7D] @ ''.'' @ [CHR 0x7B, CHR 0x7B] @ '' branch | sanitize '' @ [CHR 0x7D, CHR 0x7D]"

definition worktree_path :: "user_config \<Rightarrow> string" where
  "worktree_path uc = or_default default_worktree_path (uc_worktree_path uc)"

definition has_custom_worktree_path :: "user_config \<Rightarrow> bool" where
  "has_custom_worktree_path uc \<longleftrightarrow> uc_worktree_path uc \<noteq> None"

definition has_project_worktree_path :: "user_config \<Rightarrow> project_id \<Rightarrow> bool" where
  "has_project_worktree_path uc p \<longleftrightarrow> project_field uc (Some p) po_worktree_path \<noteq> None"

definition worktree_path_for_project :: "user_config \<Rightarrow> project_id \<Rightarrow> string" where
  "worktree_path_for_project uc p = or_default (worktree_path uc) (project_field uc (Some p) po_worktree_path)"

definition forge_platform :: "user_config \<Rightarrow> project_id option \<Rightarrow> string option" where
  "forge_platform uc project = project_field uc project (\<lambda>p. fg_platform (po_forge p))"

definition forge_hostname :: "user_config \<Rightarrow> project_id option \<Rightarrow> string option" where
  "forge_hostname uc project = project_field uc project (\<lambda>p. fg_hostname (po_forge p))"

definition commit_generation :: "user_config \<Rightarrow> project_id option \<Rightarrow> commit_generation_config" where
  "commit_generation uc project =
     foldl merge_commit_generation (or_default default_generation (cc_generation (uc_commit uc)))
       (filter_map (\<lambda>o1. cc_generation (po_commit o1)) (overrides_for uc project))"

definition config_list :: "user_config \<Rightarrow> project_id option \<Rightarrow> list_config" where
  "config_list uc project = merged_project_config merge_list uc project (uc_list uc) po_list"

definition config_commit :: "user_config \<Rightarrow> project_id option \<Rightarrow> commit_config" where
  "config_commit uc project = merged_project_config merge_commit uc project (uc_commit uc) po_commit"

definition config_merge :: "user_config \<Rightarrow> project_id option \<Rightarrow> merge_config" where
  "config_merge uc project = merged_project_config merge_merge uc project (uc_merge uc) po_merge"

definition config_remove :: "user_config \<Rightarrow> project_id option \<Rightarrow> remove_config" where
  "config_remove uc project = merged_project_config merge_remove_config uc project (uc_remove uc) po_remove"

definition config_switch :: "user_config \<Rightarrow> project_id option \<Rightarrow> switch_config" where
  "config_switch uc project = merged_project_config merge_switch uc project (uc_switch uc) po_switch"

definition config_step :: "user_config \<Rightarrow> project_id option \<Rightarrow> step_config" where
  "config_step uc project = merged_project_config merge_step uc project (uc_step uc) po_step"

definition copy_ignored :: "user_config \<Rightarrow> project_id option \<Rightarrow> string list" where
  "copy_ignored uc project = or_default [] (st_copy_ignored (config_step uc project))"

definition switch_picker :: "user_config \<Rightarrow> project_id option \<Rightarrow> switch_picker_config" where
  "switch_picker uc project =
     foldl merge_switch_picker (or_default default_picker (sc_picker (uc_switch uc)))
       (filter_map (\<lambda>o1. sc_picker (po_switch o1)) (overrides_for uc project))"

definition user_hooks :: "user_config \<Rightarrow> project_id option \<Rightarrow> hooks_config" where
  "user_hooks uc project = foldl (\<lambda>merged o1. merge_hooks merged (po_hooks o1)) (uc_hooks uc) (overrides_for uc project)"

definition user_aliases :: "user_config \<Rightarrow> project_id option \<Rightarrow> aliases" where
  "user_aliases uc project = foldl (\<lambda>result o1. append_aliases result (po_aliases o1)) (uc_aliases uc) (overrides_for uc project)"

record resolved_config =
  r_list :: list_config
  r_merge :: merge_config
  r_remove :: remove_config
  r_commit :: commit_config
  r_commit_generation :: commit_generation_config
  r_switch_picker :: switch_picker_config
  r_switch :: switch_config
  r_step :: step_config

definition resolved_for_project :: "user_config \<Rightarrow> project_id option \<Rightarrow> resolved_config" where
  "resolved_for_project uc project =
     \<lparr>r_list = config_list uc project, r_merge = config_merge uc project, r_remove = config_remove uc project,
      r_commit = config_commit uc project, r_commit_generation = commit_generation uc project,
      r_switch_picker = switch_picker uc project, r_switch = config_switch uc project, r_step = config_step uc project\<rparr>"

section \<open>Validation\<close>

datatype validation_issue = Empty_Worktree_Path | Empty_Project_Worktree_Path string

definition issue_path :: "validation_issue \<Rightarrow> string list" where
  "issue_path i =
     (case i of
        Empty_Worktree_Path \<Rightarrow> [''worktree-path'']
      | Empty_Project_Worktree_Path p \<Rightarrow> [''projects'', p, ''worktree-path''])"

definition show_issue :: "validation_issue \<Rightarrow> string" where
  "show_issue i = join ''.'' (issue_path i) @ '' cannot be empty''"

definition blank :: "string option \<Rightarrow> bool" where
  "blank v \<longleftrightarrow> (case v of Some s \<Rightarrow> trim s = [] | None \<Rightarrow> False)"

definition validation_issues :: "user_config \<Rightarrow> validation_issue list" where
  "validation_issues uc =
     (if blank (uc_worktree_path uc) then [Empty_Worktree_Path] else []) @
     map (\<lambda>(p, _). Empty_Project_Worktree_Path p) (filter (\<lambda>(p, o1). blank (po_worktree_path o1)) (uc_projects uc))"

definition validate_config :: "user_config \<Rightarrow> string + unit" where
  "validate_config uc = (case validation_issues uc of i # _ \<Rightarrow> Inl (show_issue i) | [] \<Rightarrow> Inr ())"

section \<open>Layering: the most specific setting wins\<close>

text \<open>
  The interface a section offers to the accessors: a merge, and a setting of it whose value after a merge is the
  overriding one when that is set.
\<close>

locale layered_setting =
  fixes merge :: "'a \<Rightarrow> 'a \<Rightarrow> 'a" and setting :: "'a \<Rightarrow> 'b option"
  assumes setting_merge: "setting (merge base over) = opt_or (setting over) (setting base)"
begin

lemma setting_layers: "setting (foldl merge base layers) = opt_or (last_option (filter_map setting layers)) (setting base)"
proof (induction layers arbitrary: base)
  case Nil
  then show ?case by (simp add: last_option_def)
next
  case (Cons l ls)
  then show ?case by (cases "setting l") (auto simp: setting_merge last_option_def)
qed

text \<open>Merging first the layers among themselves gives the same setting.\<close>

lemma setting_grouped: "setting (foldl merge base (l # ls)) = setting (merge base (foldl merge l ls))"
  by (simp add: setting_layers setting_merge opt_or_assoc)

end

interpretation merge_squash: layered_setting merge_merge mc_squash by unfold_locales (simp add: merge_merge_def)
interpretation merge_commit: layered_setting merge_merge mc_commit by unfold_locales (simp add: merge_merge_def)
interpretation merge_rebase: layered_setting merge_merge mc_rebase by unfold_locales (simp add: merge_merge_def)
interpretation merge_remove: layered_setting merge_merge mc_remove by unfold_locales (simp add: merge_merge_def)
interpretation merge_verify: layered_setting merge_merge mc_verify by unfold_locales (simp add: merge_merge_def)
interpretation merge_ff: layered_setting merge_merge mc_ff by unfold_locales (simp add: merge_merge_def)
interpretation list_full: layered_setting merge_list lc_full by unfold_locales (simp add: merge_list_def)
interpretation list_timeout: layered_setting merge_list lc_timeout_ms by unfold_locales (simp add: merge_list_def)
interpretation commit_stage: layered_setting merge_commit cc_stage by unfold_locales (simp add: merge_commit_def)
interpretation remove_branch: layered_setting merge_remove_config rc_delete_branch
  by unfold_locales (simp add: merge_remove_config_def)
interpretation switch_cd: layered_setting merge_switch sc_cd by unfold_locales (simp add: merge_switch_def)
interpretation generation_command: layered_setting merge_commit_generation cg_command
  by unfold_locales (simp add: merge_commit_generation_def)
interpretation generation_append: layered_setting merge_commit_generation cg_template_append
  by unfold_locales (simp add: merge_commit_generation_def)
interpretation picker_pager: layered_setting merge_switch_picker sp_pager
  by unfold_locales (simp add: merge_switch_picker_def)

text \<open>An optional section is a setting of settings; its own settings layer in turn.\<close>

definition within :: "('a \<Rightarrow> 'b option) \<Rightarrow> 'a option \<Rightarrow> 'b option" where
  "within setting s = Option.bind s setting"

context layered_setting
begin

lemma optional_setting: "layered_setting (merge_optional merge) (within setting)"
  by unfold_locales (auto simp: merge_optional_def within_def setting_merge split: option.splits)

end

interpretation picker_preview: layered_setting merge_switch_picker sp_preview
  by unfold_locales (simp add: merge_switch_picker_def)

interpretation section_command: layered_setting "merge_optional merge_commit_generation" "within cg_command"
  by (rule generation_command.optional_setting)

lemma foldl_map: "foldl (\<lambda>m x. merge m (f x)) b xs = foldl merge b (map f xs)"
  by (induction xs arbitrary: b) simp_all

lemma filter_map_map: "filter_map g (map f xs) = filter_map (\<lambda>x. g (f x)) xs"
  by (induction xs) (auto split: option.splits)

lemma merged_setting:
  assumes "layered_setting merge setting"
  shows "setting (merged_project_config merge uc project g f) =
    opt_or (project_field uc project (\<lambda>o1. setting (f o1))) (setting g)"
  using layered_setting.setting_layers[OF assms, of g "map f (overrides_for uc project)"]
  by (simp add: merged_project_config_def foldl_map project_field_def filter_map_map)

text \<open>The value \<open>v\<close> is the one of the most specific entry that sets it, else the global one, else the default.\<close>

definition decides ::
  "project_overrides list \<Rightarrow> (project_overrides \<Rightarrow> 'a option) \<Rightarrow> 'a option \<Rightarrow> 'a \<Rightarrow> 'a \<Rightarrow> bool" where
  "decides layers f global d v \<longleftrightarrow>
     (\<exists>pre o1 post. layers = pre @ o1 # post \<and> f o1 = Some v \<and> (\<forall>o2\<in>set post. f o2 = None)) \<or>
     (\<forall>o1\<in>set layers. f o1 = None) \<and> v = or_default d global"

lemma decides_last: "decides layers f global d (or_default d (opt_or (last_option (filter_map f layers)) global))"
proof (induction layers rule: rev_induct)
  case Nil
  then show ?case by (simp add: decides_def last_option_def)
next
  case (snoc l ls)
  show ?case
  proof (cases "f l")
    case None
    define v where "v = or_default d (opt_or (last_option (filter_map f ls)) global)"
    have "decides ls f global d v" unfolding v_def by (rule snoc)
    then consider (some) pre o1 post where "ls = pre @ o1 # post" "f o1 = Some v" "\<forall>o2\<in>set post. f o2 = None"
      | (none) "\<forall>o1\<in>set ls. f o1 = None" "v = or_default d global"
      unfolding decides_def by blast
    then show ?thesis
    proof cases
      case some
      have "ls @ [l] = pre @ o1 # (post @ [l]) \<and> f o1 = Some v \<and> (\<forall>o2\<in>set (post @ [l]). f o2 = None)"
        using some None by auto
      then have "decides (ls @ [l]) f global d v" unfolding decides_def by blast
      with None show ?thesis by (simp add: v_def)
    next
      case none
      with None have "decides (ls @ [l]) f global d v" by (simp add: decides_def)
      with None show ?thesis by (simp add: v_def)
    qed
  next
    case (Some v)
    then have "ls @ [l] = ls @ l # [] \<and> f l = Some v \<and> (\<forall>o2\<in>set []. f o2 = None)" by simp
    then have "decides (ls @ [l]) f global d v" unfolding decides_def by blast
    with Some show ?thesis by (simp add: last_option_def or_default_def)
  qed
qed

lemma merged_decides:
  assumes "layered_setting merge setting"
  shows "decides (overrides_for uc project) (\<lambda>o1. setting (f o1)) (setting g) d
    (or_default d (setting (merged_project_config merge uc project g f)))"
  unfolding merged_setting[OF assms] project_field_def by (rule decides_last)

text \<open>An optional section resolved on its own, and inside the section that holds it.\<close>

locale section_monoid = layered_section: layered_setting merge setting for merge :: "'a \<Rightarrow> 'a \<Rightarrow> 'a" and setting :: "'a \<Rightarrow> 'b option" +
  fixes empty :: 'a
  assumes merge_empty: "merge empty x = x"
begin

lemma optional_layers:
  "or_default empty (foldl (merge_optional merge) g layers) = foldl merge (or_default empty g) (filter_map id layers)"
proof (induction layers arbitrary: g)
  case Nil
  then show ?case by simp
next
  case (Cons l ls)
  then show ?case
    by (cases l; cases g) (simp_all add: merge_optional_def or_default_def merge_empty)
qed

end

interpretation generations: section_monoid merge_commit_generation cg_command default_generation
  by unfold_locales (simp add: merge_commit_generation_def default_generation_def)

interpretation pickers: section_monoid merge_switch_picker sp_pager default_picker
  by unfold_locales (simp add: merge_switch_picker_def default_picker_def)

lemma foldl_generation:
  "cc_generation (foldl merge_commit c cs) =
     foldl (merge_optional merge_commit_generation) (cc_generation c) (map cc_generation cs)"
  by (induction cs arbitrary: c) (simp_all add: merge_commit_def)

lemma foldl_picker:
  "sc_picker (foldl merge_switch c cs) = foldl (merge_optional merge_switch_picker) (sc_picker c) (map sc_picker cs)"
  by (induction cs arbitrary: c) (simp_all add: merge_switch_def)

lemma generation_agrees:
  "commit_generation uc project = or_default default_generation (cc_generation (config_commit uc project))"
  by (simp add: commit_generation_def config_commit_def merged_project_config_def foldl_map foldl_generation
      generations.optional_layers filter_map_map)

lemma picker_agrees: "switch_picker uc project = or_default default_picker (sc_picker (config_switch uc project))"
  by (simp add: switch_picker_def config_switch_def merged_project_config_def foldl_map foldl_picker
      pickers.optional_layers filter_map_map)

lemma generation_setting:
  assumes "layered_setting merge_commit_generation setting" "setting default_generation = None"
  shows "decides (overrides_for uc project) (\<lambda>o1. within setting (cc_generation (po_commit o1)))
    (within setting (cc_generation (uc_commit uc))) d (or_default d (setting (commit_generation uc project)))"
proof -
  have "setting (or_default default_generation x) = within setting x" for x
    using assms(2) by (cases x) (simp_all add: or_default_def within_def)
  then have "setting (commit_generation uc project) = within setting (cc_generation (config_commit uc project))"
    by (simp add: generation_agrees)
  moreover have "layered_setting merge_commit (\<lambda>c. within setting (cc_generation c))"
    using layered_setting.setting_merge[OF layered_setting.optional_setting[OF assms(1)]]
    by unfold_locales (simp add: merge_commit_def)
  from merged_decides[OF this] have "decides (overrides_for uc project) (\<lambda>o1. within setting (cc_generation (po_commit o1)))
    (within setting (cc_generation (uc_commit uc))) d (or_default d (within setting (cc_generation (config_commit uc project))))"
    unfolding config_commit_def .
  ultimately show ?thesis by simp
qed

lemma commit_stage_decides:
  "decides (overrides_for uc project) (\<lambda>o1. cc_stage (po_commit o1)) (cc_stage (uc_commit uc)) d
     (or_default d (cc_stage (config_commit uc project)))"
  unfolding config_commit_def by (rule merged_decides[OF commit_stage.layered_setting_axioms])

text \<open>
  Every setting of the resolved configuration of a project is the one of the most specific entry that sets it, else
  the global one, else its documented default; and the commit generation and the picker settings are the same
  whether they are resolved on their own or inside the sections that hold them.
\<close>

theorem most_specific_setting_decides:
  fixes uc project
  defines "r \<equiv> resolved_for_project uc project" and "layers \<equiv> overrides_for uc project"
  shows "decides layers (\<lambda>o1. mc_squash (po_merge o1)) (mc_squash (uc_merge uc)) True (merge_squash (r_merge r)) \<and>
    decides layers (\<lambda>o1. mc_verify (po_merge o1)) (mc_verify (uc_merge uc)) True (merge_verify (r_merge r)) \<and>
    decides layers (\<lambda>o1. mc_ff (po_merge o1)) (mc_ff (uc_merge uc)) True (merge_ff (r_merge r)) \<and>
    decides layers (\<lambda>o1. rc_delete_branch (po_remove o1)) (rc_delete_branch (uc_remove uc)) True (remove_deletes_branch (r_remove r)) \<and>
    decides layers (\<lambda>o1. sc_cd (po_switch o1)) (sc_cd (uc_switch uc)) True (switch_cd (r_switch r)) \<and>
    decides layers (\<lambda>o1. lc_full (po_list o1)) (lc_full (uc_list uc)) False (list_full (r_list r)) \<and>
    decides layers (\<lambda>o1. cc_stage (po_commit o1)) (cc_stage (uc_commit uc)) Stage_All (commit_stage (r_commit r)) \<and>
    decides layers (\<lambda>o1. within cg_command (cc_generation (po_commit o1))) (within cg_command (cc_generation (uc_commit uc))) d
      (or_default d (cg_command (r_commit_generation r))) \<and>
    r_commit_generation r = or_default default_generation (cc_generation (r_commit r)) \<and>
    r_switch_picker r = or_default default_picker (sc_picker (r_switch r))"
  unfolding r_def layers_def resolved_for_project_def resolved_config.simps
    merge_squash_def merge_verify_def merge_ff_def remove_deletes_branch_def switch_cd_def list_full_def commit_stage_def
    config_merge_def config_remove_def config_list_def
    config_switch_def
  by (intro conjI merged_decides[OF merge_squash.layered_setting_axioms] merged_decides[OF merge_verify.layered_setting_axioms]
      merged_decides[OF merge_ff.layered_setting_axioms] merged_decides[OF remove_branch.layered_setting_axioms]
      merged_decides[OF switch_cd.layered_setting_axioms] merged_decides[OF list_full.layered_setting_axioms]
      commit_stage_decides
      generation_setting[OF generation_command.layered_setting_axioms] generation_agrees
      picker_agrees[unfolded config_switch_def]) (simp add: default_generation_def)

end
