(* ===== verification/Config_Layers.thy ===== *)
theory Config_Layers
  imports User_Settings Git_Config
begin

text \<open>
  How the layers of the user configuration become one (\<open>src/config/user/mod.rs\<close>): system file, user file,
  \<open>WORKTRUNK_*\<close> variables and \<open>--config-set\<close> are tables merged in this order by \<open>merge_layer\<close>, which ranks what a
  layer sets globally above what lower layers set per project; each layer degrades on its own. Deserialization of a
  table (derived by serde), the TOML parser, Unicode lower case, the floats of the standard library and the
  migration of deprecated settings are parameters (\<open>config_codec\<close>).
\<close>

section \<open>Tables\<close>

text \<open>\<open>toml::Table\<close> keeps its entries in order of insertion.\<close>

type_synonym table = "(string \<times> toml) list"

definition tbl_remove :: "string \<Rightarrow> table \<Rightarrow> table" where
  "tbl_remove k t = filter (\<lambda>(k', _). k' \<noteq> k) t"

fun set_nested_value :: "table \<Rightarrow> string list \<Rightarrow> toml \<Rightarrow> table" where
  "set_nested_value t [] v = t"
| "set_nested_value t [k] v = index_insert k v t"
| "set_nested_value t (k # ks) v =
     (case map_of t k of
        Some (T_Table inner) \<Rightarrow> index_insert k (T_Table (set_nested_value inner ks v)) t
      | Some _ \<Rightarrow> t
      | None \<Rightarrow> index_insert k (T_Table (set_nested_value [] ks v)) t)"

fun deep_merge_table :: "table \<Rightarrow> table \<Rightarrow> table" where
  "deep_merge_table base [] = base"
| "deep_merge_table base ((k, v) # rest) =
     deep_merge_table
       (case v of
          T_Table ot \<Rightarrow>
            (case map_of base k of
               Some (T_Table bt) \<Rightarrow> index_insert k (T_Table (deep_merge_table bt ot)) base
             | _ \<Rightarrow> index_insert k v base)
        | _ \<Rightarrow> index_insert k v base) rest"

section \<open>Ranking a layer above the entries beneath it\<close>

definition is_atomic_section :: "string list \<Rightarrow> bool" where
  "is_atomic_section s \<longleftrightarrow> s = [''list'', ''custom-columns'']"

definition hook_keys :: "string list" where
  "hook_keys = map hook_type_name
     [Pre_Switch, Post_Switch, Pre_Create, Post_Create, Pre_Commit, Post_Commit, Pre_Merge, Post_Merge, Pre_Remove, Post_Remove]"

definition is_compose_only :: "string list \<Rightarrow> string \<Rightarrow> bool" where
  "is_compose_only s key \<longleftrightarrow>
     (if s = [] then key = ''aliases'' \<or> key \<in> set hook_keys
      else s = [''step'', ''copy-ignored''] \<and> key = ''exclude'')"

fun drop_overridden_keys :: "string list \<Rightarrow> table \<Rightarrow> table \<Rightarrow> table" where
  "drop_overridden_keys sec entry [] = entry"
| "drop_overridden_keys sec entry ((key, v) # rest) =
     drop_overridden_keys sec
       (if is_compose_only sec key then entry
        else case v of
          T_Table ot \<Rightarrow>
            (case map_of entry key of
               Some (T_Table et) \<Rightarrow>
                 if is_atomic_section sec then tbl_remove key entry
                 else
                   (case drop_overridden_keys (sec @ [key]) et ot of
                      [] \<Rightarrow> tbl_remove key entry
                    | et' \<Rightarrow> index_insert key (T_Table et') entry)
             | Some _ \<Rightarrow> tbl_remove key entry
             | None \<Rightarrow> entry)
        | _ \<Rightarrow> (case map_of entry key of Some _ \<Rightarrow> tbl_remove key entry | None \<Rightarrow> entry)) rest"

text \<open>\<open>migrate_content\<close> canonicalizes a text, \<open>migrate_table\<close> a table through its text; \<open>parse_float\<close> gives a float's text.\<close>

record config_codec =
  deserialize :: "table \<Rightarrow> string + user_config"
  migrate_table :: "table \<Rightarrow> table"
  migrate_content :: "string \<Rightarrow> string"
  parse_toml :: "string \<Rightarrow> string + table"
  parse_float :: "string \<Rightarrow> string option"
  to_lowercase :: "string \<Rightarrow> string"

definition deserialize_and_validate :: "config_codec \<Rightarrow> table \<Rightarrow> string + unit" where
  "deserialize_and_validate cc t = rbind (deserialize cc t) validate_config"

definition deserialize_validation_issues :: "config_codec \<Rightarrow> table \<Rightarrow> string + validation_issue list" where
  "deserialize_validation_issues cc t = rbind (deserialize cc t) (\<lambda>c. Inr (validation_issues c))"

definition drop_in_projects :: "table \<Rightarrow> table \<Rightarrow> table" where
  "drop_in_projects global merged =
     (case map_of merged ''projects'' of
        Some (T_Table ps) \<Rightarrow>
          index_insert ''projects''
            (T_Table (map (\<lambda>(n, e). (n, case e of T_Table et \<Rightarrow> T_Table (drop_overridden_keys [] et global) | _ \<Rightarrow> e)) ps))
            merged
      | _ \<Rightarrow> merged)"

definition merge_layer :: "config_codec \<Rightarrow> table \<Rightarrow> table \<Rightarrow> table" where
  "merge_layer cc merged layer =
     (if map_of merged ''projects'' = None \<or> list_all (\<lambda>(k, _). k = ''projects'') layer then deep_merge_table merged layer
      else
        let candidate = deep_merge_table (drop_in_projects (tbl_remove ''projects'' layer) merged) layer in
        if deserialize_and_validate cc candidate = Inr () then candidate else deep_merge_table merged layer)"

section \<open>Environment variables\<close>

record env_var =
  ev_name :: string
  ev_segments :: "string list"
  ev_typed :: toml
  ev_raw :: string

definition eq_ignore_ascii_case :: "string \<Rightarrow> string \<Rightarrow> bool" where
  "eq_ignore_ascii_case a b \<longleftrightarrow> to_ascii_lowercase a = to_ascii_lowercase b"

definition try_parse_value :: "config_codec \<Rightarrow> string \<Rightarrow> toml" where
  "try_parse_value cc s =
     (if eq_ignore_ascii_case s ''true'' then T_Bool True
      else if eq_ignore_ascii_case s ''false'' then T_Bool False
      else case parse_i64 s of
        Some n \<Rightarrow> T_Int n
      | None \<Rightarrow> (case parse_float cc s of Some f \<Rightarrow> T_Other f | None \<Rightarrow> T_String s))"

definition INFRA_VARS :: "string list" where
  "INFRA_VARS = [''WORKTRUNK_CONFIG_PATH'', ''WORKTRUNK_SYSTEM_CONFIG_PATH'', ''WORKTRUNK_APPROVALS_PATH'']"

lemma split_once_str_shorter: "split_once_str sep s = Some (a, b) \<Longrightarrow> sep \<noteq> [] \<Longrightarrow> length b < length s"
proof (induction s arbitrary: a)
  case Nil
  then show ?case by (auto simp: starts_with_iff split: if_splits)
next
  case (Cons c s)
  show ?case
  proof (cases "starts_with (c # s) sep")
    case True
    with Cons.prems show ?thesis by (cases sep) auto
  next
    case False
    with Cons.prems obtain a' where "split_once_str sep s = Some (a', b)"
      by (subst (asm) split_once_str.simps) (auto split: option.splits)
    with Cons show ?thesis by fastforce
  qed
qed

text \<open>\<open>str::split\<close> on two underscores.\<close>

function split_dunder :: "string \<Rightarrow> string list" where
  "split_dunder s = (case split_once_str ''__'' s of None \<Rightarrow> [s] | Some (a, b) \<Rightarrow> a # split_dunder b)"
  by pat_completeness auto
termination
  by (relation "measure length") (auto dest: split_once_str_shorter simp del: split_once_str.simps)

declare split_dunder.simps [simp del]

definition env_segments :: "config_codec \<Rightarrow> string \<Rightarrow> string list" where
  "env_segments cc name =
     filter (\<lambda>s. s \<noteq> [])
       (map (\<lambda>s. dropWhile (\<lambda>c. c = CHR ''-'') (map (\<lambda>c. if c = CHR ''_'' then CHR ''-'' else c) (to_lowercase cc s)))
         (split_dunder (drop (length ''WORKTRUNK_'') name)))"

definition read_env_var :: "config_codec \<Rightarrow> string \<times> string \<Rightarrow> env_var option" where
  "read_env_var cc nv =
     (case nv of (name, v) \<Rightarrow>
        let segs = env_segments cc name in
        if segs = [] then None
        else Some \<lparr>ev_name = name, ev_segments = segs, ev_typed = try_parse_value cc v, ev_raw = v\<rparr>)"

text \<open>The argument is the part of the environment that is UTF-8.\<close>

definition parse_worktrunk_env_vars :: "config_codec \<Rightarrow> (string \<times> string) list \<Rightarrow> env_var list" where
  "parse_worktrunk_env_vars cc env =
     filter_map (read_env_var cc)
       (sort_key fst
         (filter (\<lambda>(k, _). starts_with k ''WORKTRUNK_'' \<and> k \<notin> set INFRA_VARS \<and> \<not> starts_with k ''WORKTRUNK_TEST_'') env))"

fun env_overlay_path :: "table \<Rightarrow> string list option" where
  "env_overlay_path [] = None"
| "env_overlay_path ((k, T_Table (e # es)) # rest) = map_option ((#) k) (env_overlay_path (e # es))"
| "env_overlay_path ((k, v) # rest) = Some [k]"

definition env_override_key :: "string list \<Rightarrow> string list" where
  "env_override_key path =
     (case find (\<lambda>n. let s = take n path in
          is_atomic_section s \<or> length s = 4 \<and> hd s = ''projects'' \<and> is_atomic_section (drop 2 s)) [0..<length path] of
        Some n \<Rightarrow> take (Suc n) path
      | None \<Rightarrow> path)"

definition env_overlay_from_values :: "config_codec \<Rightarrow> env_var list \<Rightarrow> toml list \<Rightarrow> table" where
  "env_overlay_from_values cc vars values =
     migrate_table cc (fold (\<lambda>(v, x) t. set_nested_value t (ev_segments v) x) (zip vars values) [])"

definition loads :: "config_codec \<Rightarrow> table \<Rightarrow> bool" where
  "loads cc t \<longleftrightarrow> (case deserialize cc t of Inr _ \<Rightarrow> True | Inl _ \<Rightarrow> False)"

definition unit_loads :: "config_codec \<Rightarrow> table \<Rightarrow> env_var list \<Rightarrow> toml list \<Rightarrow> bool" where
  "unit_loads cc ft vars values \<longleftrightarrow> loads cc (merge_layer cc ft (env_overlay_from_values cc vars values))"

text \<open>One pass of the loop over the variables: a typed value that does not load gives way to its raw text.\<close>

fun retype_pass ::
  "config_codec \<Rightarrow> table \<Rightarrow> env_var list \<Rightarrow> (nat \<times> env_var) list \<Rightarrow> toml list \<Rightarrow> bool \<Rightarrow> toml list \<times> bool" where
  "retype_pass cc ft vars [] values changed = (values, changed)"
| "retype_pass cc ft vars ((i, v) # rest) values changed =
     (if unit_loads cc ft vars values then retype_pass cc ft vars rest values changed
      else
        let raw = values[i := T_String (ev_raw v)] in
        if unit_loads cc ft vars raw then retype_pass cc ft vars rest raw True
        else retype_pass cc ft vars rest values changed)"

lemma retype_pass_loads:
  "unit_loads cc ft vars values \<Longrightarrow> retype_pass cc ft vars ivs values changed = (values, changed)"
  by (induction ivs) auto

lemma retype_pass_changed:
  "retype_pass cc ft vars ivs values changed = (values', True) \<Longrightarrow> \<not> changed \<Longrightarrow>
     \<not> unit_loads cc ft vars values \<and> unit_loads cc ft vars values'"
  by (induction ivs) (auto simp: Let_def retype_pass_loads split: if_splits)

text \<open>The loop ends: after a pass that changed a value the unit loads, and the next pass changes nothing.\<close>

function resolve_values :: "config_codec \<Rightarrow> table \<Rightarrow> env_var list \<Rightarrow> toml list \<Rightarrow> toml list" where
  "resolve_values cc ft vars values =
     (let (values', changed) = retype_pass cc ft vars (enumerate 0 vars) values False in
      if changed then resolve_values cc ft vars values' else values')"
  by pat_completeness auto
termination
proof (relation "measure (\<lambda>(cc, ft, vars, values). if unit_loads cc ft vars values then 0 else 1)")
  show "wf (measure (\<lambda>(cc, ft, vars, values). if unit_loads cc ft vars values then 0 else (1::nat)))" by simp
next
  fix cc ft vars vals x xa y
  assume "x = retype_pass cc ft vars (enumerate 0 vars) vals False" "(xa, y) = x" "y"
  then have "retype_pass cc ft vars (enumerate 0 vars) vals False = (xa, True)" by simp
  from retype_pass_changed[OF this]
  show "((cc, ft, vars, xa), cc, ft, vars, vals)
      \<in> measure (\<lambda>(cc, ft, vars, vals). if unit_loads cc ft vars vals then 0 else 1)" by simp
qed

declare resolve_values.simps [simp del]

definition resolve_env_override_unit :: "config_codec \<Rightarrow> table \<Rightarrow> env_var list \<Rightarrow> table" where
  "resolve_env_override_unit cc ft vars =
     env_overlay_from_values cc vars (resolve_values cc ft vars (map ev_typed vars))"

definition group_var ::
  "config_codec \<Rightarrow> env_var \<Rightarrow> (string list, env_var list) btree \<Rightarrow> (string list, env_var list) btree" where
  "group_var cc v groups =
     (case env_overlay_path (env_overlay_from_values cc [v] [ev_typed v]) of
        None \<Rightarrow> groups
      | Some path \<Rightarrow>
          (let key = env_override_key path
           in bt_put key ((case bt_get groups key of Some vs \<Rightarrow> vs | None \<Rightarrow> []) @ [v]) groups))"

definition env_override_units :: "config_codec \<Rightarrow> table \<Rightarrow> env_var list \<Rightarrow> (env_var list \<times> table) list" where
  "env_override_units cc ft vars =
     map (\<lambda>(_, vs). (vs, resolve_env_override_unit cc ft vs)) (fold (group_var cc) (sort_key ev_name vars) [])"

section \<open>Loading\<close>

datatype load_error =
    Load_File string
  | Load_Env string "(string \<times> string) list"
  | Load_Cli_Override string "string list"
  | Load_Validation string

text \<open>\<open>UserConfigValidationIssue::is_set_in\<close>.\<close>

fun table_value :: "toml option \<Rightarrow> string list \<Rightarrow> toml option" where
  "table_value v [] = v"
| "table_value v (k # ks) = table_value (case v of Some (T_Table t) \<Rightarrow> map_of t k | _ \<Rightarrow> None) ks"

definition is_set_in :: "validation_issue \<Rightarrow> table \<Rightarrow> bool" where
  "is_set_in i t \<longleftrightarrow> table_value (Some (T_Table t)) (issue_path i) \<noteq> None"

definition env_error :: "string \<Rightarrow> env_var list \<Rightarrow> load_error" where
  "env_error err vars = Load_Env err (map (\<lambda>v. (ev_name v, ev_raw v)) vars)"

fun accept_units ::
  "config_codec \<Rightarrow> table \<Rightarrow> validation_issue list \<Rightarrow> (env_var list \<times> table) list \<Rightarrow> table \<Rightarrow> load_error list \<Rightarrow> table \<times> load_error list" where
  "accept_units cc ft lower [] acc ws = (acc, ws)"
| "accept_units cc ft lower ((vars, overlay) # rest) acc ws =
     (case deserialize_validation_issues cc (merge_layer cc ft overlay) of
        Inr issues \<Rightarrow>
          (case find (\<lambda>i. i \<notin> set lower \<or> is_set_in i overlay) issues of
             Some i \<Rightarrow> accept_units cc ft lower rest acc (ws @ [env_error (show_issue i) vars])
           | None \<Rightarrow> accept_units cc ft lower rest (deep_merge_table acc overlay) ws)
      | Inl err \<Rightarrow> accept_units cc ft lower rest acc (ws @ [env_error err vars]))"

definition apply_env_vars ::
  "config_codec \<Rightarrow> env_var list \<Rightarrow> table \<Rightarrow> load_error list \<Rightarrow> string + table \<times> load_error list" where
  "apply_env_vars cc vars merged ws =
     (if vars = [] then Inr (merged, ws)
      else rbind (deserialize_validation_issues cc merged) (\<lambda>lower.
        let (accepted, ws') = accept_units cc merged lower (env_override_units cc merged vars) [] ws in
        Inr (if accepted = [] then merged else merge_layer cc merged accepted, ws')))"

fun cli_overlay :: "config_codec \<Rightarrow> string list \<Rightarrow> table \<Rightarrow> string + table" where
  "cli_overlay cc [] acc = Inr acc"
| "cli_overlay cc (raw # raws) acc =
     rbind (parse_toml cc (migrate_content cc raw)) (\<lambda>fragment. cli_overlay cc raws (deep_merge_table acc fragment))"

definition apply_cli_overrides ::
  "config_codec \<Rightarrow> string list \<Rightarrow> table \<Rightarrow> load_error list \<Rightarrow> table \<times> load_error list" where
  "apply_cli_overrides cc overrides merged ws =
     (if overrides = [] then (merged, ws)
      else case cli_overlay cc overrides [] of
        Inl err \<Rightarrow> (merged, ws @ [Load_Cli_Override err overrides])
      | Inr overlay \<Rightarrow>
          (let candidate = merge_layer cc merged overlay in
           case deserialize_and_validate cc candidate of
             Inl err \<Rightarrow> (merged, ws @ [Load_Cli_Override err overrides])
           | Inr _ \<Rightarrow> (candidate, ws)))"

definition finalize :: "config_codec \<Rightarrow> table \<Rightarrow> load_error list \<Rightarrow> user_config \<times> load_error list" where
  "finalize cc t ws =
     (case deserialize cc t of
        Inr c \<Rightarrow> (case validate_config c of Inr _ \<Rightarrow> (c, ws) | Inl e \<Rightarrow> (default_config, ws @ [Load_Validation e]))
      | Inl e \<Rightarrow> (default_config, ws @ [Load_Validation e]))"

datatype config_kind = User_Config_File | System_Config | Project_Config_File

text \<open>
  \<open>ld_migrate\<close> is \<open>deprecation::check_and_migrate\<close> with \<open>warn_unknown_fields\<close>: the migrated text or why the file is
  rejected, with the messages it prints.
\<close>

record loader =
  ld_codec :: config_codec
  ld_system_path :: "string option"
  ld_user_path :: "string option"
  ld_explicit :: bool
  ld_migrate :: "string \<Rightarrow> string \<Rightarrow> config_kind \<Rightarrow> (string + string) io"
  ld_show_path :: "string \<Rightarrow> string"
  ld_env :: "(string \<times> string) list"
  ld_overrides :: "string list"

definition load_config_file :: "config_codec \<Rightarrow> string \<Rightarrow> load_error + table" where
  "load_config_file cc migrated =
     (case rbind (parse_toml cc migrated) (\<lambda>t. rbind (deserialize cc t) (\<lambda>_. Inr t)) of
        Inl e \<Rightarrow> Inl (Load_File e) | Inr t \<Rightarrow> Inr t)"

definition kind_label :: "config_kind \<Rightarrow> string" where
  "kind_label k = map to_ascii_lower (case k of User_Config_File \<Rightarrow> ''User config'' | System_Config \<Rightarrow> ''System config'' | Project_Config_File \<Rightarrow> ''Project config'')"

definition read_failure :: "loader \<Rightarrow> config_kind \<Rightarrow> string \<Rightarrow> string \<Rightarrow> load_error" where
  "read_failure ld kind path err =
     Load_Validation (''Failed to read '' @ kind_label kind @ '' @ '' @ ld_show_path ld path @ '': '' @ err)"

text \<open>The state of the loop: the explicit paths reported missing, the merged table, the warnings.\<close>

type_synonym loading = "string list \<times> table \<times> load_error list"

definition load_layer :: "loader \<Rightarrow> string \<Rightarrow> config_kind \<Rightarrow> loading \<Rightarrow> loading io" where
  "load_layer ld path kind st =
     (case st of (told, merged, ws) \<Rightarrow>
        Read_File path (\<lambda>r. case r of
          Inl Not_Found \<Rightarrow>
            if kind = User_Config_File \<and> ld_explicit ld \<and> path \<notin> set told
            then Say (''Config file not found: '' @ ld_show_path ld path) (Ret (path # told, merged, ws))
            else Ret (told, merged, ws)
        | Inl (Read_Failed e) \<Rightarrow> Ret (told, merged, ws @ [read_failure ld kind path e])
        | Inr bytes \<Rightarrow>
            if \<not> valid_utf8 bytes then Ret (told, merged, ws @ [read_failure ld kind path ''stream did not contain valid UTF-8''])
            else io_bind (ld_migrate ld path bytes kind) (\<lambda>m.
              case m of
                Inl e \<Rightarrow> Ret (told, merged, ws @ [Load_Validation e])
              | Inr migrated \<Rightarrow>
                  (case load_config_file (ld_codec ld) migrated of
                     Inl e \<Rightarrow> Ret (told, merged, ws @ [e])
                   | Inr t \<Rightarrow> Ret (told, merge_layer (ld_codec ld) merged t, ws)))))"

fun load_files :: "loader \<Rightarrow> (string option \<times> config_kind) list \<Rightarrow> loading \<Rightarrow> loading io" where
  "load_files ld [] st = Ret st"
| "load_files ld ((None, kind) # rest) st = load_files ld rest st"
| "load_files ld ((Some path, kind) # rest) st = io_bind (load_layer ld path kind st) (load_files ld rest)"

definition load_with_warnings :: "loader \<Rightarrow> string list \<Rightarrow> (string list \<times> user_config \<times> load_error list) io" where
  "load_with_warnings ld told =
     io_bind (load_files ld [(ld_system_path ld, System_Config), (ld_user_path ld, User_Config_File)] (told, [], []))
       (\<lambda>(told, merged, ws).
         case apply_env_vars (ld_codec ld) (parse_worktrunk_env_vars (ld_codec ld) (ld_env ld)) merged ws of
           Inl e \<Rightarrow> Ret (told, default_config, ws @ [Load_Validation e])
         | Inr (merged, ws) \<Rightarrow>
             (case apply_cli_overrides (ld_codec ld) (ld_overrides ld) merged ws of
                (merged, ws) \<Rightarrow> Ret (told, finalize (ld_codec ld) merged ws)))"

definition load_config :: "loader \<Rightarrow> string list \<Rightarrow> (load_error + user_config) io" where
  "load_config ld told =
     io_bind (load_with_warnings ld told) (\<lambda>(_, c, ws).
       Ret (case ws of w # _ \<Rightarrow> Inl w | [] \<Rightarrow> Inr c))"

section \<open>Looking settings up\<close>

fun wf_table :: "table \<Rightarrow> bool" where
  "wf_table [] \<longleftrightarrow> True"
| "wf_table ((k, v) # rest) \<longleftrightarrow>
     k \<notin> fst ` set rest \<and> (case v of T_Table t \<Rightarrow> wf_table t | _ \<Rightarrow> True) \<and> wf_table rest"

definition is_table :: "toml \<Rightarrow> bool" where
  "is_table v \<longleftrightarrow> (case v of T_Table _ \<Rightarrow> True | _ \<Rightarrow> False)"

fun get_path :: "table \<Rightarrow> string list \<Rightarrow> toml option" where
  "get_path t [] = None"
| "get_path t [k] = map_of t k"
| "get_path t (k # ks) = (case map_of t k of Some (T_Table s) \<Rightarrow> get_path s ks | _ \<Rightarrow> None)"

text \<open>Does a table set the path, or replace something above it by a value that is not a table?\<close>

fun sets_path :: "table \<Rightarrow> string list \<Rightarrow> bool" where
  "sets_path t [] \<longleftrightarrow> False"
| "sets_path t [k] \<longleftrightarrow> map_of t k \<noteq> None"
| "sets_path t (k # ks) \<longleftrightarrow> (case map_of t k of None \<Rightarrow> False | Some (T_Table s) \<Rightarrow> sets_path s ks | Some _ \<Rightarrow> True)"

lemma is_table_simps [simp]: "is_table (T_Table s)" "\<not> is_table (T_String x)" "\<not> is_table (T_Array a)"
    "\<not> is_table (T_Bool b)" "\<not> is_table (T_Int i)" "\<not> is_table (T_Other y)"
  by (simp_all add: is_table_def)

lemma not_table: "\<not> is_table v \<Longrightarrow> (case v of T_Table s \<Rightarrow> f s | _ \<Rightarrow> b) = b"
  by (cases v) auto

lemma get_path_Cons: "ks \<noteq> [] \<Longrightarrow>
    get_path t (k # ks) = (case map_of t k of Some (T_Table s) \<Rightarrow> get_path s ks | _ \<Rightarrow> None)"
  by (cases ks) auto

lemma sets_path_Cons: "ks \<noteq> [] \<Longrightarrow>
    sets_path t (k # ks) = (case map_of t k of None \<Rightarrow> False | Some (T_Table s) \<Rightarrow> sets_path s ks | Some _ \<Rightarrow> True)"
  by (cases ks) auto

lemma map_of_index_insert [simp]: "map_of (index_insert k v m) = (map_of m)(k \<mapsto> v)"
  by (induction k v m rule: index_insert.induct) (auto simp: fun_eq_iff)

lemma map_of_tbl_remove [simp]: "map_of (tbl_remove k t) = (map_of t)(k := None)"
  by (induction t) (auto simp: tbl_remove_def fun_eq_iff)

lemma wf_table_fresh: "wf_table ((k, v) # rest) \<Longrightarrow> map_of rest k = None"
  by (simp add: map_of_eq_None_iff)

text \<open>One key of a deep merge.\<close>

definition merged_value :: "toml option \<Rightarrow> toml \<Rightarrow> toml" where
  "merged_value b v = (case (b, v) of (Some (T_Table bt), T_Table ot) \<Rightarrow> T_Table (deep_merge_table bt ot) | _ \<Rightarrow> v)"

lemma deep_merge_step: "(case v of
          T_Table ot \<Rightarrow>
            (case map_of base k of
               Some (T_Table bt) \<Rightarrow> index_insert k (T_Table (deep_merge_table bt ot)) base
             | _ \<Rightarrow> index_insert k v base)
        | _ \<Rightarrow> index_insert k v base) = index_insert k (merged_value (map_of base k) v) base"
  by (auto simp: merged_value_def split: toml.splits option.splits)

lemma deep_merge_get:
  "wf_table over \<Longrightarrow>
     map_of (deep_merge_table base over) k =
       (case map_of over k of None \<Rightarrow> map_of base k | Some v \<Rightarrow> Some (merged_value (map_of base k) v))"
proof (induction over arbitrary: base)
  case Nil
  then show ?case by simp
next
  case (Cons kv rest)
  obtain k' v where kv: "kv = (k', v)" by fastforce
  have "wf_table rest" using Cons.prems by (simp add: kv)
  note IH = Cons.IH[OF this]
  have fresh: "map_of rest k' = None" using Cons.prems unfolding kv by (rule wf_table_fresh)
  have "deep_merge_table base (kv # rest) = deep_merge_table (index_insert k' (merged_value (map_of base k') v) base) rest"
    unfolding kv by (subst deep_merge_table.simps) (simp only: deep_merge_step)
  then show ?case using fresh by (auto simp: IH kv split: option.splits)
qed

lemma wf_table_get: "wf_table t \<Longrightarrow> map_of t k = Some (T_Table s) \<Longrightarrow> wf_table s"
  by (induction t rule: wf_table.induct) (auto split: if_splits)

text \<open>A leaf the overlay sets is the merged leaf; a path it leaves alone is the one of the base.\<close>

lemma deep_merge_sets:
  "wf_table over \<Longrightarrow> get_path over p = Some v \<Longrightarrow> \<not> is_table v \<Longrightarrow> get_path (deep_merge_table base over) p = Some v"
proof (induction p arbitrary: base over)
  case Nil
  then show ?case by simp
next
  case (Cons k ks)
  show ?case
  proof (cases "ks = []")
    case True
    with Cons.prems show ?thesis
      by (simp add: deep_merge_get merged_value_def not_table split: option.splits toml.splits)
  next
    case False
    with Cons.prems(2) obtain s where s: "map_of over k = Some (T_Table s)" "get_path s ks = Some v"
      by (auto simp: get_path_Cons split: option.splits toml.splits)
    have "wf_table s" by (rule wf_table_get[OF Cons.prems(1) s(1)])
    note IH = Cons.IH[OF this s(2) Cons.prems(3)]
    show ?thesis using False s IH Cons.prems(1)
      by (auto simp: get_path_Cons deep_merge_get merged_value_def split: option.splits toml.splits)
  qed
qed

lemma unset_path: "\<not> sets_path t p \<Longrightarrow> get_path t p = None"
proof (induction t p rule: get_path.induct)
  case (3 t k v va)
  then show ?case by (auto split: option.splits toml.splits)
qed auto

lemma deep_merge_leaves:
  "wf_table over \<Longrightarrow> \<not> sets_path over p \<Longrightarrow> get_path (deep_merge_table base over) p = get_path base p"
proof (induction p arbitrary: base over)
  case Nil
  then show ?case by simp
next
  case (Cons k ks)
  show ?case
  proof (cases "ks = []")
    case True
    with Cons.prems show ?thesis by (simp add: deep_merge_get)
  next
    case False
    show ?thesis
    proof (cases "map_of over k")
      case None
      with False Cons.prems(1) show ?thesis by (simp add: get_path_Cons deep_merge_get)
    next
      case (Some v)
      with False Cons.prems(2) obtain s where s: "v = T_Table s" "\<not> sets_path s ks"
        by (auto simp: sets_path_Cons split: toml.splits)
      have wf: "wf_table s" using Some s(1) Cons.prems(1) by (auto dest: wf_table_get)
      note IH = Cons.IH[OF wf s(2)]
      have unset: "get_path s ks = None" by (rule unset_path[OF s(2)])
      have "get_path (deep_merge_table base over) (k # ks) =
          (case map_of base k of Some (T_Table bt) \<Rightarrow> get_path (deep_merge_table bt s) ks | _ \<Rightarrow> get_path s ks)"
        using False Some s(1) Cons.prems(1)
        by (auto simp: get_path_Cons deep_merge_get merged_value_def split: option.splits toml.splits)
      then show ?thesis using False by (simp add: get_path_Cons IH unset split: option.splits toml.splits)
    qed
  qed
qed

section \<open>What a layer drops beneath it\<close>

text \<open>One key after the drop.\<close>

definition left_over :: "string list \<Rightarrow> string \<Rightarrow> toml option \<Rightarrow> toml \<Rightarrow> toml option" where
  "left_over sec key e v =
     (if is_compose_only sec key then e
      else case (e, v) of
        (Some (T_Table et), T_Table ot) \<Rightarrow>
          if is_atomic_section sec then None
          else (case drop_overridden_keys (sec @ [key]) et ot of [] \<Rightarrow> None | et' \<Rightarrow> Some (T_Table et'))
      | _ \<Rightarrow> None)"

lemma drop_step:
  "map_of (if is_compose_only sec key then entry
        else case v of
          T_Table ot \<Rightarrow>
            (case map_of entry key of
               Some (T_Table et) \<Rightarrow>
                 if is_atomic_section sec then tbl_remove key entry
                 else
                   (case drop_overridden_keys (sec @ [key]) et ot of
                      [] \<Rightarrow> tbl_remove key entry
                    | et' \<Rightarrow> index_insert key (T_Table et') entry)
             | Some _ \<Rightarrow> tbl_remove key entry
             | None \<Rightarrow> entry)
        | _ \<Rightarrow> (case map_of entry key of Some _ \<Rightarrow> tbl_remove key entry | None \<Rightarrow> entry)) =
   (map_of entry)(key := left_over sec key (map_of entry key) v)"
  by (auto simp: left_over_def fun_eq_iff split: toml.splits option.splits list.splits)

lemma drop_get:
  "wf_table over \<Longrightarrow>
     map_of (drop_overridden_keys sec entry over) k =
       (case map_of over k of None \<Rightarrow> map_of entry k | Some v \<Rightarrow> left_over sec k (map_of entry k) v)"
proof (induction over arbitrary: entry)
  case Nil
  then show ?case by simp
next
  case (Cons kv rest)
  obtain k' v where kv: "kv = (k', v)" by fastforce
  have "wf_table rest" using Cons.prems by (simp add: kv)
  note IH = Cons.IH[OF this]
  have fresh: "map_of rest k' = None" using Cons.prems unfolding kv by (rule wf_table_fresh)
  show ?case unfolding kv
    by (subst drop_overridden_keys.simps) (use fresh in \<open>auto simp only: IH drop_step map_of.simps fst_conv snd_conv fun_upd_apply split: option.splits if_splits\<close>)
qed

fun composes :: "string list \<Rightarrow> string list \<Rightarrow> bool" where
  "composes sec [] \<longleftrightarrow> False"
| "composes sec (k # ks) \<longleftrightarrow> is_compose_only sec k \<or> composes (sec @ [k]) ks"

lemma drop_clears:
  "wf_table over \<Longrightarrow> get_path over p = Some v \<Longrightarrow> \<not> is_table v \<Longrightarrow> \<not> composes sec p \<Longrightarrow>
     get_path (drop_overridden_keys sec entry over) p = None"
proof (induction p arbitrary: sec entry over)
  case Nil
  then show ?case by simp
next
  case (Cons k ks)
  show ?case
  proof (cases "ks = []")
    case True
    with Cons.prems show ?thesis
      by (auto simp: drop_get left_over_def split: option.splits toml.splits)
  next
    case False
    with Cons.prems(2) obtain s where s: "map_of over k = Some (T_Table s)" "get_path s ks = Some v"
      by (auto simp: get_path_Cons split: option.splits toml.splits)
    have wf: "wf_table s" by (rule wf_table_get[OF Cons.prems(1) s(1)])
    have nc: "\<not> composes (sec @ [k]) ks" "\<not> is_compose_only sec k" using Cons.prems(4) by auto
    note IH = Cons.IH[OF wf s(2) Cons.prems(3) nc(1)]
    show ?thesis using False s nc(2) Cons.prems(1) IH
      by (auto simp: get_path_Cons drop_get left_over_def split: option.splits toml.splits list.splits)
         (metis get_path.simps(1) list.exhaust)+
  qed
qed

lemma drop_keeps_composing:
  "wf_table over \<Longrightarrow> is_compose_only sec k \<Longrightarrow> get_path (drop_overridden_keys sec entry over) [k] = get_path entry [k]"
  by (simp add: drop_get left_over_def split: option.splits)

text \<open>A layer without its \<open>[projects]\<close> table, and the entries of the layers beneath after the drop.\<close>

lemma wf_tbl_remove: "wf_table t \<Longrightarrow> wf_table (tbl_remove k t)"
  by (induction t rule: wf_table.induct) (auto simp: tbl_remove_def)

lemma get_path_tbl_remove: "hd p \<noteq> k \<Longrightarrow> get_path (tbl_remove k t) p = get_path t p"
  by (cases p; cases "tl p") (auto simp: get_path_Cons)

lemma dropped_entry:
  "map_of (map (\<lambda>(n, e). (n, case e of T_Table et \<Rightarrow> T_Table (drop_overridden_keys [] et g) | _ \<Rightarrow> e)) ps) n =
     map_option (\<lambda>e. case e of T_Table et \<Rightarrow> T_Table (drop_overridden_keys [] et g) | _ \<Rightarrow> e) (map_of ps n)"
  by (induction ps) (auto simp: case_prod_unfold)

lemma get_dropped:
  assumes "map_of merged ''projects'' = Some (T_Table ps)" "map_of ps n = Some (T_Table e)" "q \<noteq> []"
  shows "get_path (drop_in_projects g merged) (''projects'' # n # q) = get_path (drop_overridden_keys [] e g) q"
  using assms by (cases q) (simp_all add: drop_in_projects_def get_path_Cons dropped_entry)

lemma get_dropped_other: "hd q \<noteq> ''projects'' \<Longrightarrow> get_path (drop_in_projects g merged) q = get_path merged q"
  by (cases q; cases "tl q") (auto simp: drop_in_projects_def get_path_Cons split: option.splits toml.splits)

lemma merge_layer_accepted:
  assumes "map_of merged ''projects'' = Some ps" "get_path layer p = Some v" "hd p \<noteq> ''projects''"
    and "deserialize_and_validate cc (deep_merge_table (drop_in_projects (tbl_remove ''projects'' layer) merged) layer) = Inr ()"
  shows "merge_layer cc merged layer = deep_merge_table (drop_in_projects (tbl_remove ''projects'' layer) merged) layer"
proof -
  from assms(2) obtain k ks where p: "p = k # ks" by (cases p) auto
  with assms(2) obtain w where "map_of layer k = Some w" by (cases ks) (auto split: option.splits)
  then have "(k, w) \<in> set layer" by (rule map_of_SomeD)
  with p assms(3) have "\<not> list_all (\<lambda>(k, _). k = ''projects'') layer" by (auto simp: list_all_iff)
  with assms(1,4) show ?thesis by (simp add: merge_layer_def Let_def)
qed


definition lenient_codec :: config_codec where
  "lenient_codec = \<lparr>deserialize = (\<lambda>_. Inr default_config), migrate_table = id, migrate_content = id,
     parse_toml = (\<lambda>_. Inl []), parse_float = (\<lambda>_. None), to_lowercase = to_ascii_lowercase\<rparr>"

definition squash_entry :: table where
  "squash_entry = [(''projects'', T_Table [(''github.com/a/b'', T_Table [(''merge'', T_Table [(''squash'', T_Bool True)]),
     (''pre-merge'', T_String ''make'')])])]"

definition squash_layer :: table where
  "squash_layer = [(''merge'', T_Table [(''squash'', T_Bool False)])]"




end
