(* ===== verification/Error_Chain.thy ===== *)
theory Error_Chain
  imports Actions Hook_Commands
begin

text \<open>
  Error chains (\<open>src/git/error.rs\<close>): an \<open>anyhow::Error\<close> as the list of its causes, outermost first.
  \<open>HookCommandFailed\<close> and \<open>HookErrorWithHint\<close> are followed by the chain they wrap, a context by what it was added to,
  a typed or plain leaf ends the list. On it the queries of \<open>ErrorExt\<close>: exit code, signal, diagnostic. The text
  of a \<open>GitError\<close> and of a failed git command is a parameter (\<open>renderer\<close>); text is without its styling.
\<close>

section \<open>Causes\<close>

record template_error =
  tx_message :: string
  tx_source_line :: "string option"
  tx_available :: "string list"
  tx_suggestion :: "string option"

text \<open>The two errors of \<open>GitError\<close> for a hook that is not there.\<close>

datatype lookup_error =
    Hook_Source_Not_Configured string hook_type "string option"
  | Hook_Command_Not_Found string "string list"

datatype cause =
    Git_Error wt_error
  | Lookup_Error lookup_error
  | Command_Error "string list" cmd_output
  | Stream_Error string "int option"
  | Child_Exited int "int option" "int option"
  | Hook_Failed hook_type hook_source "string option" "string option"
  | Not_Approved
  | Already_Displayed int
  | Cancelled int "string option"
  | Skip_Hint hook_type
  | Template_Failed template_error
  | Context string
  | Plain string

type_synonym error_chain = "cause list"

text \<open>The chain of an error of a repository operation: \<open>GitError::source\<close>, with \<open>Interrupted\<close> and captured commands as leaves.\<close>

fun repo_chain :: "wt_error \<Rightarrow> error_chain" where
  "repo_chain (Interrupted sig) = [Cancelled sig None]"
| "repo_chain (Git_Failed (Command_Failed args out)) = [Command_Error args out]"
| "repo_chain (Git_Failed (Not_Run e)) = [Plain e]"
| "repo_chain (Git_Failed (Message e)) = [Plain e]"
| "repo_chain (Failed e) = [Plain e]"
| "repo_chain (Worktree_Removal_Failed b p e l) = Git_Error (Worktree_Removal_Failed b p e l) # repo_chain e"
| "repo_chain (Branch_Deletion_Failed b s e) = Git_Error (Branch_Deletion_Failed b s e) # repo_chain e"
| "repo_chain (With_Context c e) = Context c # repo_chain e"
| "repo_chain e = [Git_Error e]"

definition worktrunk_error :: "cause \<Rightarrow> bool" where
  "worktrunk_error c \<longleftrightarrow>
     (case c of
        Child_Exited _ _ _ \<Rightarrow> True | Hook_Failed _ _ _ _ \<Rightarrow> True | Not_Approved \<Rightarrow> True
      | Already_Displayed _ \<Rightarrow> True | Cancelled _ _ \<Rightarrow> True | _ \<Rightarrow> False)"

definition from_child_status :: "int option \<Rightarrow> int option \<Rightarrow> int option \<Rightarrow> cause" where
  "from_child_status code sig cancellation =
     Child_Exited
       (case code of Some c \<Rightarrow> c | None \<Rightarrow> (case sig of Some s \<Rightarrow> 128 + s | None \<Rightarrow> 1)) sig cancellation"

section \<open>Queries on a chain\<close>

text \<open>The first \<open>WorktrunkError\<close> decides; a hook failure asks the error it holds.\<close>

fun chain_exit_code :: "error_chain \<Rightarrow> int option" where
  "chain_exit_code [] = None"
| "chain_exit_code (c # cs) =
     (case c of
        Child_Exited code _ _ \<Rightarrow> Some code
      | Hook_Failed _ _ _ _ \<Rightarrow> chain_exit_code cs
      | Already_Displayed code \<Rightarrow> Some code
      | Cancelled sig _ \<Rightarrow> Some (128 + sig)
      | Not_Approved \<Rightarrow> None
      | _ \<Rightarrow> chain_exit_code cs)"

definition cancelling :: "int option \<Rightarrow> int option" where
  "cancelling sig = (case sig of Some s \<Rightarrow> if cancels s then Some s else None | None \<Rightarrow> None)"

definition operation_signal :: "cause \<Rightarrow> int option" where
  "operation_signal c =
     (case c of
        Child_Exited _ physical cancellation \<Rightarrow> cancelling (case cancellation of Some s \<Rightarrow> Some s | None \<Rightarrow> physical)
      | Cancelled s _ \<Rightarrow> cancelling (Some s)
      | _ \<Rightarrow> None)"

definition stream_status :: "cause \<Rightarrow> int option option" where
  "stream_status c = (case c of Stream_Error _ sig \<Rightarrow> Some sig | _ \<Rightarrow> None)"

definition command_status :: "cause \<Rightarrow> int option option" where
  "command_status c = (case c of Command_Error _ out \<Rightarrow> Some (term_signal out) | _ \<Rightarrow> None)"

definition chain_signal :: "error_chain \<Rightarrow> int option" where
  "chain_signal ch =
     (case find_map operation_signal ch of
        Some s \<Rightarrow> Some s
      | None \<Rightarrow>
          (case cancelling (Option.bind (find_map stream_status ch) id) of
             Some s \<Rightarrow> Some s
           | None \<Rightarrow> cancelling (Option.bind (find_map command_status ch) id)))"

text \<open>\<open>anyhow::Error::downcast\<close> sees through contexts, not through sources.\<close>

definition downcast :: "error_chain \<Rightarrow> error_chain" where
  "downcast ch = dropWhile (\<lambda>c. case c of Context _ \<Rightarrow> True | _ \<Rightarrow> False) ch"

definition add_hook_skip_hint :: "error_chain \<Rightarrow> error_chain" where
  "add_hook_skip_hint ch =
     (case downcast ch of
        Hook_Failed ht src name tmpl # rest \<Rightarrow> Skip_Hint ht # Hook_Failed ht src name tmpl # rest
      | c # rest \<Rightarrow> if worktrunk_error c then c # rest else ch
      | [] \<Rightarrow> ch)"

section \<open>Text\<close>

definition show_int :: "int \<Rightarrow> string" where
  "show_int i = (if i < 0 then ''-'' @ show_nat (nat (- i)) else show_nat (nat i))"

definition process_exit_description :: "int option \<Rightarrow> int option \<Rightarrow> string" where
  "process_exit_description code sig =
     (case sig of
        Some s \<Rightarrow> ''killed by signal '' @ show_int s
      | None \<Rightarrow> (case code of Some c \<Rightarrow> ''exit code '' @ show_int c | None \<Rightarrow> ''unknown exit status''))"

definition command_string :: "string list \<Rightarrow> string" where
  "command_string args = (if args = [] then ''git'' else ''git '' @ join '' '' args)"

definition show_command_error :: "string list \<Rightarrow> cmd_output \<Rightarrow> string" where
  "show_command_error args out =
     (if exit_code out = None \<and> term_signal out = None then command_string args @ '' failed''
      else command_string args @ '' failed ('' @ process_exit_description (exit_code out) (term_signal out) @ '')'')"

record renderer =
  rn_title :: "wt_error \<Rightarrow> string"
  rn_git :: "wt_error \<Rightarrow> string"
  rn_lookup_title :: "lookup_error \<Rightarrow> string"
  rn_lookup :: "lookup_error \<Rightarrow> string"
  rn_command :: "string list \<Rightarrow> cmd_output \<Rightarrow> string"
  rn_gutter :: "string \<Rightarrow> string"
  rn_bash :: "string \<Rightarrow> string"

text \<open>\<open>Display\<close> of one layer.\<close>

fun show_cause :: "renderer \<Rightarrow> cause \<Rightarrow> cause list \<Rightarrow> string" where
  "show_cause rn (Git_Error e) rest = rn_title rn e"
| "show_cause rn (Lookup_Error e) rest = rn_lookup_title rn e"
| "show_cause rn (Command_Error args out) rest = show_command_error args out"
| "show_cause rn (Stream_Error msg sig) rest = msg"
| "show_cause rn (Child_Exited code physical c) rest = process_exit_description (Some code) physical"
| "show_cause rn (Hook_Failed ht src name tmpl) rest = hook_label src ht name @ '' failed''"
| "show_cause rn Not_Approved rest = []"
| "show_cause rn (Already_Displayed c) rest = []"
| "show_cause rn (Cancelled sig hint) rest =
     (if sig = 2 then [] else if sig = 15 then ''Terminated'' else ''Killed by signal '' @ show_int sig)"
| "show_cause rn (Skip_Hint ht) rest = (case rest of c # cs \<Rightarrow> show_cause rn c cs | [] \<Rightarrow> [])"
| "show_cause rn (Template_Failed t) rest = tx_message t"
| "show_cause rn (Context s) rest = s"
| "show_cause rn (Plain s) rest = s"

fun show_chain :: "renderer \<Rightarrow> error_chain \<Rightarrow> string list" where
  "show_chain rn [] = []"
| "show_chain rn (c # cs) = show_cause rn c cs # show_chain rn cs"

definition NL :: string where
  "NL = [CHR 0x0A]"

definition child_status :: "renderer \<Rightarrow> cause \<Rightarrow> string option" where
  "child_status rn c = (case c of Child_Exited code physical _ \<Rightarrow> Some (process_exit_description (Some code) physical) | _ \<Rightarrow> None)"

definition render_hook_failure ::
  "renderer \<Rightarrow> hook_type \<Rightarrow> hook_source \<Rightarrow> string option \<Rightarrow> string option \<Rightarrow> error_chain \<Rightarrow> string" where
  "render_hook_failure rn ht src name tmpl rest =
     (let summary = hook_label src ht name @ '' failed'';
          status = find_map (child_status rn) rest
      in (case status of Some s \<Rightarrow> summary @ '' ('' @ s @ '')'' | None \<Rightarrow> summary) @
         (case (name, tmpl) of (None, Some t) \<Rightarrow> NL @ rn_bash rn t | _ \<Rightarrow> []) @
         (if status = None then NL @ rn_gutter rn (join NL (show_chain rn rest)) else []))"

text \<open>On Unix the shell reports an interrupt or a termination itself.\<close>

definition render_interrupted :: "int \<Rightarrow> string option \<Rightarrow> string" where
  "render_interrupted sig hint =
     join NL ((if cancels sig then [] else [''Killed by signal '' @ show_int sig]) @
              (case hint of Some h \<Rightarrow> [h] | None \<Rightarrow> []))"

definition render_template_error :: "renderer \<Rightarrow> template_error \<Rightarrow> string" where
  "render_template_error rn t =
     join NL
       ([tx_message t] @
        (case tx_source_line t of Some l \<Rightarrow> [rn_gutter rn l] | None \<Rightarrow> []) @
        (case tx_suggestion t of Some s \<Rightarrow> [''Did you mean '' @ s @ ''?''] | None \<Rightarrow> []) @
        (if tx_available t = [] then [] else [''Available variables: '' @ join '', '' (tx_available t)]))"

text \<open>\<open>try_render_diagnostic\<close> of the first layer; \<open>None\<close> when it has no rendering of its own.\<close>

fun render_head :: "renderer \<Rightarrow> error_chain \<Rightarrow> string option" where
  "render_head rn [] = None"
| "render_head rn (Git_Error e # rest) = Some (rn_git rn e)"
| "render_head rn (Lookup_Error e # rest) = Some (rn_lookup rn e)"
| "render_head rn (Skip_Hint ht # rest) =
     Some ((case render_head rn rest of Some r \<Rightarrow> r | None \<Rightarrow> []) @ NL @
           ''To skip '' @ hook_type_name ht @ '' hooks, re-run with --no-hooks'')"
| "render_head rn (Child_Exited code physical c # rest) = Some (process_exit_description (Some code) physical)"
| "render_head rn (Hook_Failed ht src name tmpl # rest) = Some (render_hook_failure rn ht src name tmpl rest)"
| "render_head rn (Not_Approved # rest) = Some []"
| "render_head rn (Already_Displayed c # rest) = Some []"
| "render_head rn (Cancelled sig hint # rest) = Some (render_interrupted sig hint)"
| "render_head rn (Template_Failed t # rest) = Some (render_template_error rn t)"
| "render_head rn (Command_Error args out # rest) = Some (rn_command rn args out)"
| "render_head rn (c # rest) = None"

fun render_diagnostic :: "renderer \<Rightarrow> error_chain \<Rightarrow> string option" where
  "render_diagnostic rn [] = None"
| "render_diagnostic rn (c # cs) =
     (case render_head rn (c # cs) of Some r \<Rightarrow> Some r | None \<Rightarrow> render_diagnostic rn cs)"

definition error_text :: "renderer \<Rightarrow> error_chain \<Rightarrow> string" where
  "error_text rn ch = (case ch of c # cs \<Rightarrow> show_cause rn c cs | [] \<Rightarrow> [])"

section \<open>Laws\<close>

text \<open>The signal of a repository error is the one of its chain.\<close>

lemma find_map_single [simp]: "find_map f [x] = f x"
  by (cases "f x") simp_all

lemma chain_signal_skip:
  "operation_signal c = None \<Longrightarrow> stream_status c = None \<Longrightarrow> command_status c = None \<Longrightarrow>
     chain_signal (c # cs) = chain_signal cs"
  by (simp add: chain_signal_def cong: option.case_cong)

lemma chain_signal_leaf:
  "chain_signal [] = None" "chain_signal [Plain p] = None"
  "chain_signal [Cancelled sig h] = cancelling (Some sig)"
  "chain_signal [Command_Error args out] = cancelling (term_signal out)"
  by (simp_all add: chain_signal_def operation_signal_def stream_status_def command_status_def cancelling_def)

lemma chain_signal_git: "chain_signal (Git_Error e # cs) = chain_signal cs"
  by (rule chain_signal_skip) (simp_all add: operation_signal_def stream_status_def command_status_def)

lemma chain_signal_context: "chain_signal (Context c # cs) = chain_signal cs"
  by (rule chain_signal_skip) (simp_all add: operation_signal_def stream_status_def command_status_def)

lemma chain_signal_repo: "chain_signal (repo_chain e) = interrupt_signal e"
  by (induction e rule: repo_chain.induct) (simp_all add: chain_signal_leaf chain_signal_git chain_signal_context cancelling_def)

text \<open>A layer that carries no status leaves the exit code and the signal of a chain as they are.\<close>

definition status_free :: "cause \<Rightarrow> bool" where
  "status_free c \<longleftrightarrow>
     (case c of Hook_Failed _ _ _ _ \<Rightarrow> True | Skip_Hint _ \<Rightarrow> True | Context _ \<Rightarrow> True | Plain _ \<Rightarrow> True | Git_Error _ \<Rightarrow> True
      | Lookup_Error _ \<Rightarrow> True
      | Template_Failed _ \<Rightarrow> True | _ \<Rightarrow> False)"

lemma status_free_exit: "status_free c \<Longrightarrow> chain_exit_code (c # cs) = chain_exit_code cs"
  by (cases c) (simp_all add: status_free_def)

lemma status_free_signal: "status_free c \<Longrightarrow> chain_signal (c # cs) = chain_signal cs"
  by (rule chain_signal_skip; cases c)
     (simp_all add: status_free_def operation_signal_def stream_status_def command_status_def)

lemma downcast_status:
  "chain_exit_code (downcast ch) = chain_exit_code ch" "chain_signal (downcast ch) = chain_signal ch"
  by (induction ch)
     (auto simp: downcast_def status_free_def status_free_signal split: cause.splits)

lemma downcast_suffix: "downcast ch = c # cs \<Longrightarrow> \<exists>pre. ch = pre @ c # cs"
  unfolding downcast_def by (metis takeWhile_dropWhile_id)

text \<open>The hint of a skipped hook changes neither the exit code nor the signal.\<close>

lemma skip_hint_status:
  "chain_exit_code (add_hook_skip_hint ch) = chain_exit_code ch"
  "chain_signal (add_hook_skip_hint ch) = chain_signal ch"
proof -
  note d = downcast_status[of ch]
  have "chain_exit_code (add_hook_skip_hint ch) = chain_exit_code (downcast ch) \<or> add_hook_skip_hint ch = ch"
    and "chain_signal (add_hook_skip_hint ch) = chain_signal (downcast ch) \<or> add_hook_skip_hint ch = ch"
    by (auto simp: add_hook_skip_hint_def status_free_signal status_free_def split: list.splits cause.splits)
  with d show "chain_exit_code (add_hook_skip_hint ch) = chain_exit_code ch"
    "chain_signal (add_hook_skip_hint ch) = chain_signal ch" by auto
qed

end
