(* ===== verification/Template_Expansion.thy ===== *)
theory Template_Expansion
  imports Template_Filters Template_Syntax User_Settings Error_Chain Selectors
begin

text \<open>
  Expansion of templates (\<open>src/config/expansion.rs\<close>): the variables every scope offers, the environment of filters
  and functions the crate gives to MiniJinja, expansion and validation with their diagnostics, and the path of a new
  worktree (\<open>format_path\<close>, \<open>expected_worktree_path\<close> of \<open>src/config/user/accessors.rs\<close>), whose template may call
  back into the environment. The engine, serde_json, shell-escape, shellexpand and the other crates the filters
  call are the parameter \<open>templating\<close>. A context is a sorted association list for the \<open>HashMap\<close> of the
  code, whose order nothing reads. Text is without its styling.
\<close>

section \<open>Variables\<close>

definition ACTIVE_VARS :: "string list" where
  "ACTIVE_VARS = [''branch'', ''worktree_path'', ''worktree_name'', ''commit'', ''short_commit'', ''upstream'']"

definition REPO_VARS :: "string list" where
  "REPO_VARS = [''repo'', ''repo_path'', ''owner'', ''remote_repo'', ''primary_worktree_path'', ''default_branch'',
     ''remote'', ''remote_url'']"

definition EXEC_BASE_VARS :: "string list" where
  "EXEC_BASE_VARS = [''cwd'']"

definition base_vars :: "string list" where
  "base_vars = ACTIVE_VARS @ REPO_VARS @ EXEC_BASE_VARS"

definition ALIAS_ARGS_KEY :: string where
  "ALIAS_ARGS_KEY = ''args''"

definition binds_cli_var :: "string \<Rightarrow> string set \<Rightarrow> bool" where
  "binds_cli_var key referenced \<longleftrightarrow> key \<noteq> ALIAS_ARGS_KEY \<and> key \<noteq> ''vars'' \<and> key \<in> referenced"

definition LIST_COLUMN_VARS :: "string list" where
  "LIST_COLUMN_VARS = [''branch'', ''worktree_path'', ''worktree_name'']"

type_synonym template_context = "(string, string) btree"

datatype var_scope = Referenced "string set" | All_Vars

definition wants :: "var_scope \<Rightarrow> string \<Rightarrow> bool" where
  "wants s key \<longleftrightarrow> (case s of All_Vars \<Rightarrow> True | Referenced r \<Rightarrow> key \<in> r)"

datatype validation_scope = Hook_Scope hook_type | Switch_Execute_Scope | Alias_Scope

definition hook_extras :: "hook_type \<Rightarrow> string list" where
  "hook_extras ht =
     (case ht of
        Pre_Commit \<Rightarrow> [''target''] | Post_Commit \<Rightarrow> [''target'']
      | Pre_Merge \<Rightarrow> [''target'', ''target_worktree_path''] | Post_Merge \<Rightarrow> [''target'', ''target_worktree_path'']
      | Pre_Remove \<Rightarrow> [''target'', ''target_worktree_path''] | Post_Remove \<Rightarrow> [''target'', ''target_worktree_path'']
      | _ \<Rightarrow> [''base'', ''base_worktree_path'', ''target'', ''target_worktree_path'', ''pr_number'', ''pr_url''])"

definition HOOK_INFRASTRUCTURE_VARS :: "string list" where
  "HOOK_INFRASTRUCTURE_VARS = [''hook_type'', ''hook_name'']"

definition vars_available_in :: "validation_scope \<Rightarrow> string list" where
  "vars_available_in s =
     base_vars @
     (case s of
        Hook_Scope ht \<Rightarrow> HOOK_INFRASTRUCTURE_VARS @ hook_extras ht @ [ALIAS_ARGS_KEY]
      | Switch_Execute_Scope \<Rightarrow> [''base'', ''base_worktree_path'']
      | Alias_Scope \<Rightarrow> [ALIAS_ARGS_KEY])"

definition hook_types :: "hook_type list" where
  "hook_types = [Pre_Switch, Post_Switch, Pre_Create, Post_Create, Pre_Commit, Post_Commit, Pre_Merge, Post_Merge,
     Pre_Remove, Post_Remove]"

definition is_worktrunk_var :: "string \<Rightarrow> bool" where
  "is_worktrunk_var name \<longleftrightarrow> list_ex (\<lambda>ht. name \<in> set (vars_available_in (Hook_Scope ht))) hook_types"

definition ALWAYS_COMPUTED_VARS :: "string list" where
  "ALWAYS_COMPUTED_VARS = [''branch'']"

section \<open>Values and the engine\<close>

text \<open>
  The values the code tells apart: \<open>V_Args\<close> is \<open>ShellArgs\<close>, \<open>V_Vars\<close> a \<open>LiteralVars\<close> path, \<open>V_Any_Key\<close> the stand-in
  \<open>AnyKeyVars\<close>; \<open>V_Other\<close> is any other value of the engine, by its text.
\<close>

datatype tvalue =
    V_Undefined
  | V_None
  | V_String string
  | V_Args "string list"
  | V_Vars string
  | V_Map "(string \<times> tvalue) list"
  | V_Any_Key
  | V_Other string

datatype error_kind = Undefined_Kind | Other_Kind

record engine_error =
  ee_kind :: error_kind
  ee_text :: string
  ee_detail :: "string option"
  ee_line :: "nat option"
  ee_range :: "span option"

type_synonym 'a call = "(handle, engine_error, 'a) stateful"

text \<open>What the code installs in an engine.\<close>

record environment =
  env_filters :: "(string \<times> (tvalue \<Rightarrow> tvalue list \<Rightarrow> engine_error + tvalue)) list"
  env_functions :: "(string \<times> (string \<Rightarrow> string call)) list"
  env_keep_newline :: bool
  env_formatter :: "(tvalue \<Rightarrow> string) option"

text \<open>
  \<open>tg_compile\<close> parses a template under a name, \<open>tg_undeclared\<close> are its undeclared variables, \<open>tg_render\<close> evaluates it
  in an environment and may call the functions installed there; \<open>tg_input\<close> is \<open>StringInput::new\<close>, \<open>tg_text\<close> and
  \<open>tg_count\<close> the conversions of filter arguments, \<open>tg_invalid\<close> an error of kind \<open>InvalidOperation\<close>.
\<close>

record templating =
  tg_compile :: "string \<Rightarrow> string \<Rightarrow> engine_error option"
  tg_undeclared :: "string \<Rightarrow> string list"
  tg_render :: "environment \<Rightarrow> string \<Rightarrow> string \<Rightarrow> (string \<times> tvalue) list \<Rightarrow> string call"
  tg_syntax_error :: "engine_error option"
  tg_globals :: "string list"
  tg_ast :: "string \<Rightarrow> tstmt option"
  tg_invalid :: "string \<Rightarrow> engine_error"
  tg_display :: "tvalue \<Rightarrow> string"
  tg_input :: "tvalue \<Rightarrow> engine_error option"
  tg_text :: "tvalue \<Rightarrow> engine_error + string"
  tg_count :: "tvalue \<Rightarrow> engine_error + nat"
  tg_tojson :: "tvalue \<Rightarrow> tvalue list \<Rightarrow> engine_error + tvalue"
  tg_hash :: "string \<Rightarrow> 64 word"
  tg_safe :: "string \<Rightarrow> string"
  tg_sha :: "string \<Rightarrow> string"
  tg_petnames :: petnames
  tg_score :: "string \<Rightarrow> string \<Rightarrow> rat"
  tg_posix :: "string \<Rightarrow> string"
  tg_args :: "string \<Rightarrow> string list option"
  tg_compound :: "string \<Rightarrow> tvalue option"
  tg_tilde :: "string \<Rightarrow> string"
  tg_normalize :: "string \<Rightarrow> string"
  tg_escape :: "string \<Rightarrow> string"
  tg_show_path :: "string \<Rightarrow> string"
  tg_verbosity :: nat
  tg_renderer :: renderer
  tg_gix :: gix

datatype escape_mode = Literal_Mode | Posix_Mode

definition shell_escape_for :: "templating \<Rightarrow> escape_mode \<Rightarrow> string \<Rightarrow> string" where
  "shell_escape_for tg mode s = (case mode of Literal_Mode \<Rightarrow> s | Posix_Mode \<Rightarrow> tg_posix tg s)"

definition shell_join :: "templating \<Rightarrow> string list \<Rightarrow> string" where
  "shell_join tg args = join '' '' (map (shell_escape_for tg Posix_Mode) args)"

text \<open>\<open>Object::get_value\<close> and \<open>render\<close> of the two objects.\<close>

definition args_value :: "string list \<Rightarrow> nat option \<Rightarrow> tvalue option" where
  "args_value args key = (case key of Some i \<Rightarrow> if i < length args then Some (V_String (args ! i)) else None | None \<Rightarrow> None)"

definition literal_value :: "string \<Rightarrow> string \<Rightarrow> tvalue" where
  "literal_value path key = V_Vars (path @ ''.'' @ key)"

definition literal_text :: "string \<Rightarrow> string" where
  "literal_text path = [CHR 0x7B, CHR 0x7B] @ '' '' @ path @ '' '' @ [CHR 0x7D, CHR 0x7D]"

section \<open>Tables of variables\<close>

definition pad :: "nat \<Rightarrow> string \<Rightarrow> string" where
  "pad n s = s @ replicate (n - length s) (CHR '' '')"

definition format_variables_table :: "string list \<Rightarrow> template_context \<Rightarrow> var_scope \<Rightarrow> string" where
  "format_variables_table vars ctx scope =
     (let width = foldr max (map length vars) 0 in
      join NL (map (\<lambda>v.
        case bt_get ctx v of
          Some x \<Rightarrow> pad width v @ '' = '' @ x
        | None \<Rightarrow>
            if \<not> wants scope v \<and> v \<notin> set ALWAYS_COMPUTED_VARS then pad width v @ '' = (unused)''
            else pad width v @ '' = (unset)'') vars))"

definition hook_variables :: "hook_type \<Rightarrow> string list" where
  "hook_variables ht = ACTIVE_VARS @ hook_extras ht @ REPO_VARS @ EXEC_BASE_VARS @ HOOK_INFRASTRUCTURE_VARS"

definition format_hook_variables :: "hook_type \<Rightarrow> template_context \<Rightarrow> string" where
  "format_hook_variables ht ctx = format_variables_table (hook_variables ht) ctx All_Vars"

text \<open>\<open>None\<close> where \<open>expect\<close> panics: the key \<open>args\<close> does not hold a list of strings.\<close>

definition format_alias_variables :: "templating \<Rightarrow> template_context \<Rightarrow> var_scope \<Rightarrow> string option" where
  "format_alias_variables tg ctx scope =
     (let vars = ACTIVE_VARS @ REPO_VARS @ EXEC_BASE_VARS @ [ALIAS_ARGS_KEY] in
      case bt_get ctx ALIAS_ARGS_KEY of
        None \<Rightarrow> Some (format_variables_table vars ctx scope)
      | Some json \<Rightarrow>
          map_option (\<lambda>args. format_variables_table vars (bt_put ALIAS_ARGS_KEY (shell_join tg args) ctx) scope)
            (tg_args tg json))"

definition format_base_variables :: "template_context \<Rightarrow> string" where
  "format_base_variables ctx = format_variables_table base_vars ctx All_Vars"

definition alias_context_filter :: "string set \<Rightarrow> string set" where
  "alias_context_filter referenced =
     insert ALIAS_ARGS_KEY referenced \<union> (if ''vars'' \<in> referenced then {''branch''} else {})"

section \<open>Diagnostics\<close>

definition build_template_error :: "engine_error \<Rightarrow> string \<Rightarrow> string \<Rightarrow> string list \<Rightarrow> template_error" where
  "build_template_error e template name available =
     (let detail = (case ee_detail e of Some d \<Rightarrow> ee_text e @ '': '' @ d | None \<Rightarrow> ee_text e);
          ls = str_lines template
      in \<lparr>tx_message = ''Failed to expand '' @ name @ '': '' @ detail @
            (case ee_line e of Some n \<Rightarrow> '' @ line '' @ show_nat n | None \<Rightarrow> []),
          tx_source_line = Option.bind (ee_line e) (\<lambda>n. if n - 1 < length ls then Some (ls ! (n - 1)) else None),
          tx_available = (if ee_kind e = Undefined_Kind then available else []),
          tx_suggestion = None\<rparr>)"

definition sorted_available_vars :: "string list \<Rightarrow> string list" where
  "sorted_available_vars vars = remdups_adj (sort vars)"

definition build_undefined_vars_error ::
  "templating \<Rightarrow> string \<Rightarrow> string list \<Rightarrow> string list \<Rightarrow> string \<Rightarrow> nat option \<Rightarrow> template_error" where
  "build_undefined_vars_error tg name undefined_vars available template line =
     (let ls = str_lines template in
      \<lparr>tx_message = ''Failed to expand '' @ name @ '': undefined '' @
         (if length undefined_vars = 1 then ''variable'' else ''variables'') @ '' '' @ join '', '' undefined_vars @
         (case line of Some n \<Rightarrow> '' @ line '' @ show_nat n | None \<Rightarrow> []),
       tx_source_line =
         (case line of
            Some n \<Rightarrow> if n - 1 < length ls then Some (ls ! (n - 1)) else None
          | None \<Rightarrow> if contains_char template (CHR 0x0A) then None else Some template),
       tx_available = available,
       tx_suggestion =
         (case undefined_vars of
            [v] \<Rightarrow> if is_worktrunk_var v then None else head_option (did_you_mean (tg_score tg) v available)
          | _ \<Rightarrow> None)\<rparr>)"

section \<open>The environment\<close>

definition filter_string :: "templating \<Rightarrow> tvalue \<Rightarrow> engine_error + string" where
  "filter_string tg v =
     (case tg_input tg v of Some e \<Rightarrow> Inl e | None \<Rightarrow> Inr (case v of V_String s \<Rightarrow> s | _ \<Rightarrow> []))"

definition string_filter :: "templating \<Rightarrow> (string \<Rightarrow> string) \<Rightarrow> tvalue \<Rightarrow> tvalue list \<Rightarrow> engine_error + tvalue" where
  "string_filter tg f v args = rbind (filter_string tg v) (\<lambda>s. Inr (V_String (f s)))"

definition template_codename :: "templating \<Rightarrow> tvalue \<Rightarrow> tvalue list \<Rightarrow> engine_error + tvalue" where
  "template_codename tg v args =
     rbind (case args of w # _ \<Rightarrow> rbind (tg_count tg w) (\<lambda>n. Inr (Some n)) | [] \<Rightarrow> Inr None) (\<lambda>words.
       let input = filter_string tg v in
       case codename_filter (tg_sha tg) (tg_petnames tg) (case input of Inr s \<Rightarrow> s | Inl _ \<Rightarrow> []) words of
         Inl e \<Rightarrow> Inl (tg_invalid tg e)
       | Inr name \<Rightarrow> rbind input (\<lambda>_. Inr (V_String name)))"

definition template_filters :: "templating \<Rightarrow> (string \<times> (tvalue \<Rightarrow> tvalue list \<Rightarrow> engine_error + tvalue)) list" where
  "template_filters tg =
     [(''sanitize'', string_filter tg sanitize_branch_name),
      (''sanitize_db'', string_filter tg (sanitize_db (tg_hash tg))),
      (''sanitize_hash'', string_filter tg (sanitize_for_filename (tg_safe tg) (tg_hash tg))),
      (''hash'', string_filter tg (short_hash (tg_hash tg))),
      (''hash_port'', \<lambda>v _. rbind (tg_text tg v) (\<lambda>s. Inr (V_Other (show_nat (unat (string_to_port (tg_hash tg) s)))))),
      (''dirname'', string_filter tg (\<lambda>s. case path_parent s of Some p \<Rightarrow> p | None \<Rightarrow> [])),
      (''basename'', string_filter tg (\<lambda>s. case path_file_name s of Some n \<Rightarrow> n | None \<Rightarrow> [])),
      (''codename'', template_codename tg),
      (''tojson'', \<lambda>v args.
          case (if v = V_Undefined then tg_input tg v else None) of Some e \<Rightarrow> Inl e | None \<Rightarrow> tg_tojson tg v args)]"

text \<open>The result of a repository operation whose error the code drops, and one with its error translated.\<close>

definition dropping :: "('s, 'e, 'a) stateful \<Rightarrow> ('s, 'f, 'a option) stateful" where
  "dropping m s = io_bind (m s) (\<lambda>(s', r). Ret (s', Inr (case r of Inr x \<Rightarrow> Some x | Inl _ \<Rightarrow> None)))"

definition map_error :: "('e \<Rightarrow> 'f) \<Rightarrow> ('s, 'e, 'a) stateful \<Rightarrow> ('s, 'f, 'a) stateful" where
  "map_error g m s = io_bind (m s) (\<lambda>(s', r). Ret (s', case r of Inl e \<Rightarrow> Inl (g e) | Inr x \<Rightarrow> Inr x))"

text \<open>An option-valued query whose failure counts as no value.\<close>

definition optional :: "('s, 'e, 'a option) stateful \<Rightarrow> ('s, 'f, 'a option) stateful" where
  "optional m = abind (dropping m) (\<lambda>r. aret (Inr (Option.bind r id)))"

definition worktree_path_of_branch :: "repo_env \<Rightarrow> string \<Rightarrow> string call" where
  "worktree_path_of_branch env branch =
     abind (optional (worktree_for_branch env branch)) (\<lambda>p. aret (Inr (case p of Some p \<Rightarrow> p | None \<Rightarrow> [])))"

definition template_environment :: "templating \<Rightarrow> repo_env \<Rightarrow> (string \<Rightarrow> string call) \<Rightarrow> environment" where
  "template_environment tg env expected =
     \<lparr>env_filters = template_filters tg,
      env_functions = [(''worktree_path_of_branch'', worktree_path_of_branch env),
                       (''expected_worktree_path_of_branch'', expected)],
      env_keep_newline = False,
      env_formatter = None\<rparr>"

definition env_globals :: "templating \<Rightarrow> environment \<Rightarrow> string list" where
  "env_globals tg e = tg_globals tg @ map fst (env_functions e)"

text \<open>What is written for an interpolated value: every value but the two references is escaped.\<close>

definition format_value :: "templating \<Rightarrow> escape_mode \<Rightarrow> tvalue \<Rightarrow> string" where
  "format_value tg mode v =
     (case v of
        V_None \<Rightarrow> []
      | V_Args args \<Rightarrow> shell_join tg args
      | V_Vars path \<Rightarrow> literal_text path
      | _ \<Rightarrow> shell_escape_for tg mode (tg_display tg v))"

definition configured_environment ::
  "templating \<Rightarrow> repo_env \<Rightarrow> (string \<Rightarrow> string call) \<Rightarrow> escape_mode \<Rightarrow> engine_error + environment" where
  "configured_environment tg env expected mode =
     (let e = template_environment tg env expected in
      if mode = Literal_Mode then Inr e
      else case tg_syntax_error tg of
        Some err \<Rightarrow> Inl err
      | None \<Rightarrow> Inr (e\<lparr>env_keep_newline := True, env_formatter := Some (format_value tg mode)\<rparr>))"

section \<open>Expansion\<close>

datatype vars_mode = Resolve_Vars | Literal_Vars

definition vars_map_to_value :: "templating \<Rightarrow> (string, string) btree \<Rightarrow> tvalue" where
  "vars_map_to_value tg entries =
     V_Map (map (\<lambda>(k, v). (k, case tg_compound tg v of Some j \<Rightarrow> j | None \<Rightarrow> V_String v)) entries)"

definition context_values :: "templating \<Rightarrow> template_context \<Rightarrow> (string \<times> tvalue) list" where
  "context_values tg vars =
     map (\<lambda>(k, v). (k, if k = ALIAS_ARGS_KEY then V_Args (case tg_args tg v of Some xs \<Rightarrow> xs | None \<Rightarrow> []) else V_String v))
       vars"

definition vars_value :: "templating \<Rightarrow> repo_env \<Rightarrow> template_context \<Rightarrow> vars_mode \<Rightarrow> (handle, 'e, tvalue) stateful" where
  "vars_value tg env vars mode =
     (case mode of
        Literal_Vars \<Rightarrow> aret (Inr (V_Vars ''vars''))
      | Resolve_Vars \<Rightarrow>
          (case bt_get vars ''branch'' of
             None \<Rightarrow> aret (Inr (vars_map_to_value tg []))
           | Some branch \<Rightarrow>
               abind (dropping (vars_entries (tg_escape tg) env branch)) (\<lambda>es.
                 aret (Inr (vars_map_to_value tg (case es of Some es \<Rightarrow> es | None \<Rightarrow> []))))))"

definition render_error ::
  "templating \<Rightarrow> environment \<Rightarrow> string \<Rightarrow> string \<Rightarrow> template_context \<Rightarrow> engine_error \<Rightarrow> template_error" where
  "render_error tg e template name vars err =
     (let keys = bt_keys vars;
          missing = (if ee_kind err = Undefined_Kind
                     then Option.bind (ee_range err) (\<lambda>r. Option.bind (vars_of (tg_ast tg) template) (\<lambda>a. output_at a r))
                     else None)
      in case missing of
           Some v \<Rightarrow>
             if bt_get vars v = None \<and> v \<noteq> ''vars'' \<and> v \<notin> set (env_globals tg e)
             then build_undefined_vars_error tg name [v] keys template (ee_line err)
             else build_template_error err template name keys
         | None \<Rightarrow> build_template_error err template name keys)"

definition show_expansion :: "templating \<Rightarrow> string \<Rightarrow> string \<Rightarrow> string \<Rightarrow> (handle, 'e, unit) stateful" where
  "show_expansion tg name template result =
     (if tg_verbosity tg = 1
      then perform (Say (join NL [name @ '' source'', rn_bash (tg_renderer tg) template, name @ '' result'',
                                  rn_bash (tg_renderer tg) result]) (Ret ()))
      else aret (Inr ()))"

type_synonym 'a expansion = "(handle, template_error, 'a) stateful"

definition expand_in ::
  "templating \<Rightarrow> repo_env \<Rightarrow> (string \<Rightarrow> string call) \<Rightarrow> string \<Rightarrow> template_context \<Rightarrow> escape_mode \<Rightarrow> string \<Rightarrow> vars_mode \<Rightarrow>
   string expansion" where
  "expand_in tg env expected template vars mode name vmode =
     (case configured_environment tg env expected mode of
        Inl err \<Rightarrow> aret (Inl (build_template_error err template name []))
      | Inr e \<Rightarrow>
          (case tg_compile tg name template of
             Some err \<Rightarrow> aret (Inl (build_template_error err template name []))
           | None \<Rightarrow>
               abind (if ''vars'' \<in> set (tg_undeclared tg template)
                      then abind (vars_value tg env vars vmode) (\<lambda>v. aret (Inr (index_insert ''vars'' v (context_values tg vars))))
                      else aret (Inr (context_values tg vars))) (\<lambda>ctx.
               abind (map_error (render_error tg e template name vars) (tg_render tg e name template ctx)) (\<lambda>result.
               abind (show_expansion tg name template result) (\<lambda>_.
                 aret (Inr result))))))"

section \<open>Where a worktree goes\<close>

type_synonym 'a fallible = "(handle, error_chain, 'a) stateful"

definition from_repo :: "'a command \<Rightarrow> 'a fallible" where
  "from_repo m = map_error repo_chain m"

definition put_some :: "string \<Rightarrow> string option \<Rightarrow> template_context \<Rightarrow> template_context" where
  "put_some k v ctx = (case v of Some x \<Rightarrow> bt_put k x ctx | None \<Rightarrow> ctx)"

definition format_path ::
  "templating \<Rightarrow> repo_env \<Rightarrow> user_config \<Rightarrow> (string \<Rightarrow> string call) \<Rightarrow> string \<Rightarrow> string \<Rightarrow> project_id option \<Rightarrow>
   string fallible" where
  "format_path tg env uc expected main branch project =
     (let template = (case project of Some p \<Rightarrow> worktree_path_for_project uc p | None \<Rightarrow> worktree_path uc) in
      abind (from_repo (repo_path env)) (\<lambda>root.
      abind (optional (primary_remote_parsed_url (tg_gix tg) env)) (\<lambda>remote.
      abind (map_error (\<lambda>t. [Template_Failed t])
        (expand_in tg env expected template
          (put_some ''remote_repo'' (map_option gr_repo remote)
            (put_some ''owner'' (map_option gr_owner remote)
              (bt_put ''repo_path'' (from_utf8_lossy root) (bt_put ''branch'' branch (bt_put ''repo'' main [])))))
          Literal_Mode ''worktree-path'' Resolve_Vars)) (\<lambda>p.
        aret (Inr (tg_tilde tg p))))))"

definition expected_worktree_path_in ::
  "templating \<Rightarrow> repo_env \<Rightarrow> user_config \<Rightarrow> (string \<Rightarrow> string call) \<Rightarrow> string \<Rightarrow> string fallible" where
  "expected_worktree_path_in tg env uc expected branch =
     abind (from_repo (repo_path env)) (\<lambda>root.
     abind (optional (default_branch env)) (\<lambda>default.
     abind (from_repo (is_bare env)) (\<lambda>bare.
       if \<not> bare \<and> branch = (case default of Some d \<Rightarrow> d | None \<Rightarrow> []) then aret (Inr root)
       else case path_file_name root of
         None \<Rightarrow> aret (Inl [Plain (''Repository path has no filename: '' @ tg_show_path tg root)])
       | Some name \<Rightarrow>
           if \<not> valid_utf8 name then aret (Inl [Plain (''Repository path contains invalid UTF-8: '' @ tg_show_path tg root)])
           else
             abind (dropping (project_identifier (tg_gix tg) env)) (\<lambda>project.
             abind (format_path tg env uc expected name branch project) (\<lambda>p.
               aret (Inr (tg_normalize tg (path_join root p))))))))"

text \<open>
  The thread-local flag of \<open>expected_worktree_path_of_branch\<close>: while the path template renders for one call, a second
  call is an error. The flag is set exactly during the inner rendering, so the two levels are two environments.
\<close>

definition within_worktree_path :: "templating \<Rightarrow> string \<Rightarrow> string call" where
  "within_worktree_path tg branch =
     aret (Inl (tg_invalid tg ''expected_worktree_path_of_branch cannot be used in the worktree-path template''))"

definition expected_worktree_path_of_branch :: "templating \<Rightarrow> repo_env \<Rightarrow> user_config \<Rightarrow> string \<Rightarrow> string call" where
  "expected_worktree_path_of_branch tg env uc branch =
     map_error (\<lambda>ch. tg_invalid tg (join '': '' (show_chain (tg_renderer tg) ch)))
       (expected_worktree_path_in tg env uc (within_worktree_path tg) branch)"

definition expected_worktree_path :: "templating \<Rightarrow> repo_env \<Rightarrow> user_config \<Rightarrow> string \<Rightarrow> string fallible" where
  "expected_worktree_path tg env uc branch =
     expected_worktree_path_in tg env uc (expected_worktree_path_of_branch tg env uc) branch"

definition expand_template_with ::
  "templating \<Rightarrow> repo_env \<Rightarrow> user_config \<Rightarrow> string \<Rightarrow> template_context \<Rightarrow> escape_mode \<Rightarrow> string \<Rightarrow> vars_mode \<Rightarrow>
   string expansion" where
  "expand_template_with tg env uc template vars mode name vmode =
     expand_in tg env (expected_worktree_path_of_branch tg env uc) template vars mode name vmode"

definition expand_template ::
  "templating \<Rightarrow> repo_env \<Rightarrow> user_config \<Rightarrow> string \<Rightarrow> template_context \<Rightarrow> escape_mode \<Rightarrow> string \<Rightarrow> string expansion" where
  "expand_template tg env uc template vars mode name =
     expand_template_with tg env uc template vars mode name Resolve_Vars"

section \<open>What templates reference\<close>

definition referenced_vars :: "templating \<Rightarrow> string \<Rightarrow> string set" where
  "referenced_vars tg template =
     (case tg_compile tg ''<string>'' template of None \<Rightarrow> set (tg_undeclared tg template) | Some _ \<Rightarrow> {})"

definition template_references_var :: "templating \<Rightarrow> string \<Rightarrow> string \<Rightarrow> bool" where
  "template_references_var tg template v \<longleftrightarrow> v \<in> referenced_vars tg template"

definition referenced_vars_for_templates :: "templating \<Rightarrow> string list \<Rightarrow> string set" where
  "referenced_vars_for_templates tg templates = (\<Union>t\<in>set templates. referenced_vars tg t)"

fun referenced_in_commands ::
  "templating \<Rightarrow> (string option \<Rightarrow> string) \<Rightarrow> hook_command list \<Rightarrow> string set \<Rightarrow> template_error + string set" where
  "referenced_in_commands tg label [] out = Inr out"
| "referenced_in_commands tg label (c # cs) out =
     (case tg_compile tg ''<string>'' (cmd_template c) of
        Some e \<Rightarrow> Inl (build_template_error e (cmd_template c) (label (cmd_name c)) [])
      | None \<Rightarrow> referenced_in_commands tg label cs (out \<union> set (tg_undeclared tg (cmd_template c))))"

definition referenced_vars_for_config ::
  "templating \<Rightarrow> command_config \<Rightarrow> (string option \<Rightarrow> string) \<Rightarrow> template_error + string set" where
  "referenced_vars_for_config tg cfg label = referenced_in_commands tg label (config_commands cfg) {}"

section \<open>Validation\<close>

definition validate_template_syntax :: "templating \<Rightarrow> string \<Rightarrow> string \<Rightarrow> template_error + unit" where
  "validate_template_syntax tg template name =
     (case tg_compile tg name template of Some e \<Rightarrow> Inl (build_template_error e template name []) | None \<Rightarrow> Inr ())"

definition PLACEHOLDER :: tvalue where
  "PLACEHOLDER = V_String ''PLACEHOLDER''"

definition undefined_vars :: "templating \<Rightarrow> environment \<Rightarrow> string \<Rightarrow> (string \<Rightarrow> bool) \<Rightarrow> string list" where
  "undefined_vars tg e template allowed =
     sort (filter (\<lambda>v. \<not> allowed v \<and> v \<notin> set (env_globals tg e)) (tg_undeclared tg template))"

definition validate_template ::
  "templating \<Rightarrow> repo_env \<Rightarrow> user_config \<Rightarrow> string \<Rightarrow> validation_scope \<Rightarrow> string \<Rightarrow> unit expansion" where
  "validate_template tg env uc template scope name =
     (let available = vars_available_in scope;
          e = template_environment tg env (expected_worktree_path_of_branch tg env uc);
          ctx = map (\<lambda>k. (k, PLACEHOLDER)) (filter (\<lambda>k. k \<noteq> ALIAS_ARGS_KEY) available) @ [(''vars'', V_Map [])] @
                (if scope = Switch_Execute_Scope then [] else [(ALIAS_ARGS_KEY, V_Args [])])
      in case tg_compile tg name template of
           Some err \<Rightarrow> aret (Inl (build_template_error err template name []))
         | None \<Rightarrow>
             (case undefined_vars tg e template (\<lambda>v. v \<in> set available \<or> v = ''vars'') of
                [] \<Rightarrow>
                  abind (map_error (\<lambda>err. build_template_error err template name (sorted_available_vars available))
                          (tg_render tg e name template ctx)) (\<lambda>_. aret (Inr ()))
              | u # us \<Rightarrow>
                  aret (Inl (build_undefined_vars_error tg name (u # us) (sorted_available_vars available) template None))))"

definition validate_list_column_template ::
  "templating \<Rightarrow> repo_env \<Rightarrow> user_config \<Rightarrow> string \<Rightarrow> string \<Rightarrow> unit expansion" where
  "validate_list_column_template tg env uc template name =
     (let e = template_environment tg env (expected_worktree_path_of_branch tg env uc);
          ctx = map (\<lambda>k. (k, PLACEHOLDER)) LIST_COLUMN_VARS @ [(''vars'', V_Any_Key), (''git'', V_Map [(''branch'', V_Any_Key)])]
      in case tg_compile tg name template of
           Some err \<Rightarrow> aret (Inl (build_template_error err template name []))
         | None \<Rightarrow>
             (case undefined_vars tg e template (\<lambda>v. v = ''vars'' \<or> v = ''git'' \<or> v \<in> set LIST_COLUMN_VARS) of
                [] \<Rightarrow>
                  (\<lambda>s. io_bind (tg_render tg e name template ctx s) (\<lambda>(s', r). Ret (s',
                    case r of
                      Inr _ \<Rightarrow> Inr ()
                    | Inl err \<Rightarrow>
                        if ee_kind err = Undefined_Kind then Inr ()
                        else Inl (build_template_error err template name (sorted_available_vars LIST_COLUMN_VARS)))))
              | u # us \<Rightarrow>
                  aret (Inl (build_undefined_vars_error tg name (u # us)
                    (sorted_available_vars (LIST_COLUMN_VARS @ [''vars.<key>'', ''git.branch.<key>''])) template None))))"

end
