(* ===== verification/Pipeline_Steps.thy ===== *)
theory Pipeline_Steps
  imports Template_Expansion Hook_Approval
begin

text \<open>
  Preparation and foreground execution of hook and alias pipelines (\<open>src/commands/command_executor.rs\<close>, the
  preparing half of \<open>src/commands/hooks.rs\<close>, \<open>run_concurrent_commands\<close> of \<open>src/output/concurrent.rs\<close>). Templates
  are kept raw with a frozen context and rendered when their command runs. Running a command is the request
  \<open>Shell\<close>; a concurrent group is started command by command (\<open>Spawn\<close>) and its output drained (\<open>Drain\<close>).
  What a pipeline runs in is the record \<open>runner\<close>; loading the project configuration is an argument.
\<close>

section \<open>Prepared commands\<close>

record prepared_command =
  pr_name :: "string option"
  pr_template :: string
  pr_context :: template_context
  pr_template_name :: string
  pr_label :: string

datatype prepared_step = Single_Step prepared_command | Concurrent_Step "prepared_command list"

fun prepared_commands :: "prepared_step \<Rightarrow> prepared_command list" where
  "prepared_commands (Single_Step c) = [c]"
| "prepared_commands (Concurrent_Step cs) = cs"

datatype pipeline_kind = Hook_Kind hook_type "string option" | Alias_Kind string

definition log_label :: "pipeline_kind \<Rightarrow> prepared_command \<Rightarrow> string option" where
  "log_label k cmd = (case k of Hook_Kind ht _ \<Rightarrow> Some (hook_type_name ht @ '' '' @ pr_label cmd) | Alias_Kind _ \<Rightarrow> None)"

definition is_hook :: "pipeline_kind \<Rightarrow> bool" where
  "is_hook k \<longleftrightarrow> (case k of Hook_Kind _ _ \<Rightarrow> True | Alias_Kind _ \<Rightarrow> False)"

record sourced_step =
  ss_step :: prepared_step
  ss_source :: hook_source

record foreground_step =
  fs_step :: prepared_step
  fs_stdin :: stdin_policy
  fs_announce :: pipeline_kind
  fs_source :: hook_source
  fs_redirect :: bool
  fs_wrapper :: "prepared_command \<Rightarrow> error_chain \<Rightarrow> error_chain"
  fs_cd_file :: "string option"

datatype failure_strategy = Fail_Fast | Warn

record command_context =
  cx_config :: user_config
  cx_branch :: "string option"
  cx_path :: string
  cx_stdin :: stdin_policy

text \<open>
  \<open>ru_shell\<close> is why there is no shell, \<open>ru_listener\<close> why signals cannot be listened to, if so; \<open>ru_serial\<close> the test
  switch that runs concurrent groups one by one; \<open>ru_cd_file\<close> the inherited directive file.
\<close>

record runner =
  ru_templating :: templating
  ru_env :: repo_env
  ru_config :: user_config
  ru_shell :: "string option"
  ru_listener :: "string option"
  ru_serial :: bool
  ru_cd_file :: "string option"
  ru_show_path :: "string \<Rightarrow> string"
  ru_hook_path :: "string \<Rightarrow> string option"

section \<open>Context of a command\<close>

definition utf8_file_name :: "string \<Rightarrow> string" where
  "utf8_file_name p = (case path_file_name p of Some n \<Rightarrow> if valid_utf8 n then n else ''unknown'' | None \<Rightarrow> ''unknown'')"

definition head_sha_at :: "string \<Rightarrow> (handle, 'e, string option) stateful" where
  "head_sha_at dir =
     abind (dropping (git_text dir [''rev-parse'', ''HEAD''])) (\<lambda>out. aret (Inr (Option.bind (map_option trim out) nonempty)))"

definition short_sha :: "repo_env \<Rightarrow> string \<Rightarrow> string command" where
  "short_sha env sha =
     abind (git_text (discovery_path env) [''rev-parse'', ''--short'', sha]) (\<lambda>out. aret (Inr (trim out)))"

definition current_commit :: "repo_env \<Rightarrow> command_context \<Rightarrow> (handle, 'e, string option) stateful" where
  "current_commit env cx =
     (case cx_branch cx of
        Some branch \<Rightarrow>
          abind (dropping (git_text (discovery_path env) [''rev-parse'', ''--verify'', ''--end-of-options'', branch]))
            (\<lambda>out. aret (Inr (map_option trim out)))
      | None \<Rightarrow> head_sha_at (cx_path cx))"

definition when_wanted :: "bool \<Rightarrow> ('s, 'e, 'a) stateful \<Rightarrow> 'a \<Rightarrow> ('s, 'e, 'a) stateful" where
  "when_wanted b m x = (if b then m else aret (Inr x))"

definition add_commit :: "repo_env \<Rightarrow> command_context \<Rightarrow> var_scope \<Rightarrow> template_context \<Rightarrow> template_context fallible" where
  "add_commit env cx scope ctx =
     when_wanted (wants scope ''commit'' \<or> wants scope ''short_commit'')
       (abind (current_commit env cx) (\<lambda>c. case c of
          None \<Rightarrow> aret (Inr ctx)
        | Some commit \<Rightarrow>
            abind (when_wanted (wants scope ''short_commit'') (dropping (short_sha env commit)) None) (\<lambda>short.
              let ctx = put_some ''short_commit'' short ctx in
              aret (Inr (if wants scope ''commit'' then bt_put ''commit'' commit ctx else ctx)))))
       ctx"

definition add_remote :: "repo_env \<Rightarrow> command_context \<Rightarrow> var_scope \<Rightarrow> template_context \<Rightarrow> template_context fallible" where
  "add_remote env cx scope ctx =
     when_wanted (wants scope ''remote'' \<or> wants scope ''remote_url'' \<or> wants scope ''upstream'')
       (abind (dropping (primary_remote env)) (\<lambda>r. case r of
          None \<Rightarrow> aret (Inr ctx)
        | Some remote \<Rightarrow>
            abind (when_wanted (wants scope ''remote_url'') (optional (remote_url env remote)) None) (\<lambda>url.
            abind (case cx_branch cx of
                     Some branch \<Rightarrow> when_wanted (wants scope ''upstream'') (optional (upstream env branch)) None
                   | None \<Rightarrow> aret (Inr None)) (\<lambda>up.
              aret (Inr (put_some ''upstream'' up (put_some ''remote_url'' url
                (if wants scope ''remote'' then bt_put ''remote'' remote ctx else ctx))))))))
       ctx"

definition put_all :: "(string \<times> string) list \<Rightarrow> template_context \<Rightarrow> template_context" where
  "put_all kvs ctx = fold (\<lambda>(k, v). bt_put k v) kvs ctx"

definition build_hook_context ::
  "runner \<Rightarrow> command_context \<Rightarrow> (string \<times> string) list \<Rightarrow> var_scope \<Rightarrow> template_context fallible" where
  "build_hook_context ru cx extra scope =
     (let env = ru_env ru in
      abind (from_repo (repo_path env)) (\<lambda>root.
      abind (optional (primary_remote_parsed_url (tg_gix (ru_templating ru)) env)) (\<lambda>remote.
      abind (when_wanted (wants scope ''default_branch'') (optional (default_branch env)) None) (\<lambda>default.
      abind (when_wanted (wants scope ''primary_worktree_path'') (optional (primary_worktree env)) None) (\<lambda>primary.
      abind (add_commit env cx scope
        (put_some ''primary_worktree_path'' (map_option from_utf8_lossy primary) (put_some ''default_branch'' default
          (put_some ''remote_repo'' (map_option gr_repo remote) (put_some ''owner'' (map_option gr_owner remote)
            (bt_put ''worktree_path'' (from_utf8_lossy (cx_path cx)) (bt_put ''repo_path'' (from_utf8_lossy root)
              (bt_put ''worktree_name'' (utf8_file_name (cx_path cx))
                (put_some ''branch'' (cx_branch cx) (bt_put ''repo'' (utf8_file_name root) [])))))))))) (\<lambda>ctx.
      abind (add_remote env cx scope ctx) (\<lambda>ctx.
        aret (Inr (put_all extra (bt_put ''cwd'' (from_utf8_lossy (cx_path cx)) ctx)))))))))) "

section \<open>Preparation\<close>

definition prepare_command :: "hook_type \<Rightarrow> hook_source \<Rightarrow> template_context \<Rightarrow> hook_command \<Rightarrow> prepared_command" where
  "prepare_command ht source base cmd =
     \<lparr>pr_name = cmd_name cmd, pr_template = cmd_template cmd, pr_context = put_some ''hook_name'' (cmd_name cmd) base,
      pr_template_name = hook_label source ht (cmd_name cmd), pr_label = source_command_label source (cmd_name cmd)\<rparr>"

fun prepare_step :: "(hook_command \<Rightarrow> prepared_command) \<Rightarrow> hook_step \<Rightarrow> prepared_step" where
  "prepare_step f (Single c) = Single_Step (f c)"
| "prepare_step f (Concurrent cs) = Concurrent_Step (map f cs)"

definition map_config_steps :: "(hook_command \<Rightarrow> prepared_command) \<Rightarrow> command_config \<Rightarrow> prepared_step list" where
  "map_config_steps f cfg = map (prepare_step f) cfg"

definition prepare_steps ::
  "runner \<Rightarrow> command_config \<Rightarrow> command_context \<Rightarrow> (string \<times> string) list \<Rightarrow> hook_type \<Rightarrow> hook_source \<Rightarrow>
   prepared_step list fallible" where
  "prepare_steps ru cfg cx extra ht source =
     abind (build_hook_context ru cx extra All_Vars) (\<lambda>ctx.
       let base = bt_put ''hook_type'' (hook_type_name ht) ctx;
           base = (if bt_get base ALIAS_ARGS_KEY = None then bt_put ALIAS_ARGS_KEY ''[]'' base else base)
       in aret (Inr (map_config_steps (prepare_command ht source base) cfg)))"

fun check_syntax :: "templating \<Rightarrow> prepared_command list \<Rightarrow> template_error + unit" where
  "check_syntax tg [] = Inr ()"
| "check_syntax tg (c # cs) =
     rbind (validate_template_syntax tg (pr_template c) (pr_template_name c)) (\<lambda>_. check_syntax tg cs)"

definition validated :: "templating \<Rightarrow> prepared_step list \<Rightarrow> prepared_step list fallible" where
  "validated tg steps =
     aret (case check_syntax tg (concat (map prepared_commands steps)) of
             Inl e \<Rightarrow> Inl [Template_Failed e] | Inr _ \<Rightarrow> Inr steps)"

fun prepare_selected ::
  "runner \<Rightarrow> selection \<Rightarrow> command_context \<Rightarrow> (string \<times> string) list \<Rightarrow> hook_type \<Rightarrow> sourced_step list fallible" where
  "prepare_selected ru [] cx extra ht = aret (Inr [])"
| "prepare_selected ru ((source, cfg) # rest) cx extra ht =
     abind (prepare_steps ru cfg cx extra ht source) (\<lambda>steps.
     abind (validated (ru_templating ru) steps) (\<lambda>steps.
     abind (prepare_selected ru rest cx extra ht) (\<lambda>others.
       aret (Inr (map (\<lambda>st. \<lparr>ss_step = st, ss_source = source\<rparr>) steps @ others)))))"

definition source_config :: "command_config option \<Rightarrow> command_config option \<Rightarrow> hook_source \<Rightarrow> command_config option" where
  "source_config user project source = (case source of User \<Rightarrow> user | Project \<Rightarrow> project)"

definition configured :: "command_config option \<Rightarrow> command_config option \<Rightarrow> hook_source \<Rightarrow> bool" where
  "configured user project source \<longleftrightarrow>
     (case source_config user project source of Some cfg \<Rightarrow> config_commands cfg \<noteq> [] | None \<Rightarrow> False)"

definition available_names :: "parsed_filter list \<Rightarrow> command_config option \<Rightarrow> command_config option \<Rightarrow> hook_source \<Rightarrow> string list" where
  "available_names filters user project source =
     (case source_config user project source of
        Some cfg \<Rightarrow>
          if list_ex (\<lambda>f. matches_source f source) filters
          then filter_map (\<lambda>c. map_option (\<lambda>n. source_command_label source (Some n)) (cmd_name c)) (config_commands cfg)
          else []
      | None \<Rightarrow> [])"

definition other_source :: "hook_source \<Rightarrow> hook_source" where
  "other_source s = (case s of User \<Rightarrow> Project | Project \<Rightarrow> User)"

definition no_matching_commands_error ::
  "hook_type \<Rightarrow> string list \<Rightarrow> command_config option \<Rightarrow> command_config option \<Rightarrow> error_chain" where
  "no_matching_commands_error ht names user project =
     (let filters = map parse_filter names;
          missing = (if list_all (\<lambda>f. pf_name f = []) filters
                     then find (\<lambda>s. \<not> configured user project s) (filter_map pf_source filters) else None)
      in case missing of
           Some source \<Rightarrow>
             [Lookup_Error (Hook_Source_Not_Configured (source_name source) ht
                (if configured user project (other_source source) then Some (source_name (other_source source)) else None))]
         | None \<Rightarrow>
             [Lookup_Error (Hook_Command_Not_Found (join '', '' names)
                (available_names filters user project User @ available_names filters user project Project))])"

definition prepare_and_check ::
  "runner \<Rightarrow> command_context \<Rightarrow> command_config option \<Rightarrow> command_config option \<Rightarrow> hook_type \<Rightarrow>
   (string \<times> string) list \<Rightarrow> string list \<Rightarrow> sourced_step list fallible" where
  "prepare_and_check ru cx user project ht extra names =
     abind (prepare_selected ru (selected_hook_configs user project names) cx extra ht) (\<lambda>result.
       if names \<noteq> [] \<and> result = [] then aret (Inl (no_matching_commands_error ht names user project))
       else aret (Inr result))"

section \<open>Failures of a command\<close>

definition hook_error_wrapper :: "hook_type \<Rightarrow> hook_source \<Rightarrow> bool \<Rightarrow> prepared_command \<Rightarrow> error_chain \<Rightarrow> error_chain" where
  "hook_error_wrapper ht source show_template cmd err =
     (case downcast err of
        Template_Failed t # _ \<Rightarrow> err
      | _ \<Rightarrow> Hook_Failed ht source (pr_name cmd) (if show_template then Some (pr_template cmd) else None) # err)"

definition alias_error_wrapper :: "string \<Rightarrow> prepared_command \<Rightarrow> error_chain \<Rightarrow> error_chain" where
  "alias_error_wrapper alias cmd err =
     (case find worktrunk_error err of
        Some (Child_Exited _ (Some sig) _) \<Rightarrow> [Cancelled sig None]
      | _ \<Rightarrow>
          (case chain_exit_code err of
             Some code \<Rightarrow> [Already_Displayed code]
           | None \<Rightarrow>
               Context (case pr_name cmd of
                   Some name \<Rightarrow> ''Failed to run alias '' @ [CHR 0x27] @ alias @ [CHR 0x27] @ '' command '' @ [CHR 0x27] @ name @ [CHR 0x27]
                 | None \<Rightarrow> ''Failed to run alias '' @ [CHR 0x27] @ alias @ [CHR 0x27]) # err))"

text \<open>An interrupt ends the pipeline whatever its strategy; \<open>Warn\<close> shows any other failure and goes on.\<close>

definition handle_command_error ::
  "renderer \<Rightarrow> error_chain \<Rightarrow> prepared_command \<Rightarrow> (prepared_command \<Rightarrow> error_chain \<Rightarrow> error_chain) \<Rightarrow> failure_strategy \<Rightarrow>
   (error_chain + unit) io" where
  "handle_command_error rn err cmd wrapper strategy =
     (case chain_signal err of
        Some sig \<Rightarrow> Ret (Inl [Cancelled sig None])
      | None \<Rightarrow>
          (case strategy of
             Fail_Fast \<Rightarrow> Ret (Inl (wrapper cmd err))
           | Warn \<Rightarrow>
               (let e = wrapper cmd err in
                Say (case render_diagnostic rn e of Some r \<Rightarrow> r | None \<Rightarrow> error_text rn e) (Ret (Inr ())))))"

section \<open>Foreground execution\<close>

definition expand_shell_template ::
  "runner \<Rightarrow> string \<Rightarrow> template_context \<Rightarrow> string \<Rightarrow> string fallible" where
  "expand_shell_template ru template ctx name =
     map_error (\<lambda>t. [Template_Failed t])
       (expand_template (ru_templating ru) (ru_env ru) (ru_config ru) template ctx Posix_Mode name)"

definition resolve_command_str :: "runner \<Rightarrow> prepared_command \<Rightarrow> string fallible" where
  "resolve_command_str ru cmd = expand_shell_template ru (pr_template cmd) (pr_context cmd) (pr_template_name cmd)"

definition render_template_preview ::
  "runner \<Rightarrow> string \<Rightarrow> template_context \<Rightarrow> string \<Rightarrow> string fallible" where
  "render_template_preview ru template ctx name =
     map_error (\<lambda>t. [Template_Failed t])
       (expand_template_with (ru_templating ru) (ru_env ru) (ru_config ru) template ctx Posix_Mode name Literal_Vars)"

definition announcement :: "runner \<Rightarrow> prepared_command \<Rightarrow> hook_type \<Rightarrow> string option \<Rightarrow> hook_source \<Rightarrow> string" where
  "announcement ru cmd ht display source =
     (case pr_name cmd of
        Some _ \<Rightarrow> ''Running '' @ hook_type_name ht @ '' '' @ pr_label cmd
      | None \<Rightarrow> ''Running '' @ hook_label source ht None) @
     (case display of Some p \<Rightarrow> '' @ '' @ ru_show_path ru p | None \<Rightarrow> [])"

definition announce_command :: "runner \<Rightarrow> prepared_command \<Rightarrow> pipeline_kind \<Rightarrow> hook_source \<Rightarrow> string \<Rightarrow> unit io" where
  "announce_command ru cmd kind source text =
     (case kind of
        Alias_Kind _ \<Rightarrow> Ret ()
      | Hook_Kind ht display \<Rightarrow>
          (let rn = tg_renderer (ru_templating ru);
               rest = Say (announcement ru cmd ht display source) (Say (rn_bash rn text) (Ret ()))
           in if 1 \<le> tg_verbosity (ru_templating ru)
              then Say (hook_type_name ht @ '' template variables:'')
                     (Say (rn_gutter rn (format_hook_variables ht (pr_context cmd))) rest)
              else rest))"

definition shell_error :: "shell_result \<Rightarrow> error_chain option" where
  "shell_error r =
     (case r of
        Shell_Ok \<Rightarrow> None
      | Shell_Exited code sig cancellation \<Rightarrow> Some [Child_Exited code sig cancellation]
      | Shell_Cancelled sig \<Rightarrow> Some [Cancelled sig None]
      | Shell_Failed e \<Rightarrow> Some [Plain e])"

definition foreground_call :: "runner \<Rightarrow> string \<Rightarrow> foreground_step \<Rightarrow> stdin_policy \<Rightarrow> prepared_command \<Rightarrow> string \<Rightarrow> shell_call" where
  "foreground_call ru dir fs stdin cmd text =
     \<lparr>sh_dir = dir, sh_command = text, sh_label = log_label (fs_announce fs) cmd, sh_stdin = stdin,
      sh_merge_stdout = fs_redirect fs, sh_scrub = is_hook (fs_announce fs), sh_cd_file = fs_cd_file fs\<rparr>"

definition failing ::
  "runner \<Rightarrow> foreground_step \<Rightarrow> failure_strategy \<Rightarrow> prepared_command \<Rightarrow> error_chain \<Rightarrow> unit fallible" where
  "failing ru fs strategy cmd err s =
     io_bind (handle_command_error (tg_renderer (ru_templating ru)) err cmd (fs_wrapper fs) strategy) (\<lambda>r. Ret (s, r))"

definition run_one_command ::
  "runner \<Rightarrow> prepared_command \<Rightarrow> foreground_step \<Rightarrow> stdin_policy \<Rightarrow> string \<Rightarrow> failure_strategy \<Rightarrow> unit fallible" where
  "run_one_command ru cmd fs stdin dir strategy =
     abind (outcome (resolve_command_str ru cmd)) (\<lambda>r.
       case r of
         Inl err \<Rightarrow> failing ru fs strategy cmd err
       | Inr text \<Rightarrow>
           abind (perform (announce_command ru cmd (fs_announce fs) (fs_source fs) text)) (\<lambda>_.
           abind (perform (Shell (foreground_call ru dir fs stdin cmd text) Ret)) (\<lambda>res.
             case shell_error res of None \<Rightarrow> aret (Inr ()) | Some err \<Rightarrow> failing ru fs strategy cmd err)))"

text \<open>A concurrent group: a command runs, or its start failed.\<close>

datatype slot = Running nat | Refused error_chain

definition pids :: "slot list \<Rightarrow> nat list" where
  "pids ss = filter_map (\<lambda>s. case s of Running p \<Rightarrow> Some p | Refused _ \<Rightarrow> None) ss"

fun fill_slots :: "slot list \<Rightarrow> shell_result list \<Rightarrow> error_chain option list" where
  "fill_slots [] rs = []"
| "fill_slots (Refused e # ss) rs = Some e # fill_slots ss rs"
| "fill_slots (Running p # ss) (r # rs) = shell_error r # fill_slots ss rs"
| "fill_slots (Running p # ss) [] = None # fill_slots ss []"

definition error_of :: "shell_result \<Rightarrow> error_chain" where
  "error_of r = (case shell_error r of Some e \<Rightarrow> e | None \<Rightarrow> [])"

fun spawn_group :: "shell_call list \<Rightarrow> slot list \<Rightarrow> (error_chain + slot list) io" where
  "spawn_group [] acc = Ret (Inr acc)"
| "spawn_group (c # cs) acc =
     Spawn c (\<lambda>r. case r of
       Inr p \<Rightarrow> spawn_group cs (acc @ [Running p])
     | Inl e \<Rightarrow>
         if chain_signal (error_of e) \<noteq> None
         then Drain (pids acc) (\<lambda>d. Ret (Inl (case d of Inl f \<Rightarrow> error_of f | Inr _ \<Rightarrow> error_of e)))
         else spawn_group cs (acc @ [Refused (error_of e)]))"

fun run_serial_group :: "shell_call list \<Rightarrow> (error_chain + error_chain option list) io" where
  "run_serial_group [] = Ret (Inr [])"
| "run_serial_group (c # cs) =
     Spawn c (\<lambda>r. case r of
       Inr p \<Rightarrow>
         Drain [p] (\<lambda>d. case d of
           Inl f \<Rightarrow> Ret (Inl (error_of f))
         | Inr rs \<Rightarrow> io_bind (run_serial_group cs) (\<lambda>rest. Ret (rbind rest (\<lambda>xs. Inr (map shell_error rs @ xs)))))
     | Inl e \<Rightarrow>
         if chain_signal (error_of e) \<noteq> None then Ret (Inl (error_of e))
         else io_bind (run_serial_group cs) (\<lambda>rest. Ret (rbind rest (\<lambda>xs. Inr (Some (error_of e) # xs)))))"

definition run_concurrent_commands :: "runner \<Rightarrow> shell_call list \<Rightarrow> (error_chain + error_chain option list) io" where
  "run_concurrent_commands ru calls =
     (if calls = [] then Ret (Inr [])
      else case ru_shell ru of
        Some e \<Rightarrow> Ret (Inl [Plain e])
      | None \<Rightarrow>
          (case ru_listener ru of
             Some e \<Rightarrow> Ret (Inl [Plain e])
           | None \<Rightarrow>
               if ru_serial ru then run_serial_group calls
               else io_bind (spawn_group calls []) (\<lambda>r. case r of
                 Inl e \<Rightarrow> Ret (Inl e)
               | Inr slots \<Rightarrow>
                   Drain (pids slots) (\<lambda>d. Ret (case d of Inl f \<Rightarrow> Inl (error_of f) | Inr rs \<Rightarrow> Inr (fill_slots slots rs))))))"

fun admit ::
  "runner \<Rightarrow> foreground_step \<Rightarrow> failure_strategy \<Rightarrow> prepared_command list \<Rightarrow> (prepared_command \<times> string) list fallible" where
  "admit ru fs strategy [] = aret (Inr [])"
| "admit ru fs strategy (c # cs) =
     abind (outcome (resolve_command_str ru c)) (\<lambda>r.
     abind (case r of Inr text \<Rightarrow> aret (Inr [(c, text)])
                    | Inl err \<Rightarrow> abind (failing ru fs strategy c err) (\<lambda>_. aret (Inr []))) (\<lambda>first.
     abind (admit ru fs strategy cs) (\<lambda>rest. aret (Inr (first @ rest)))))"

fun announce_all :: "runner \<Rightarrow> foreground_step \<Rightarrow> (prepared_command \<times> string) list \<Rightarrow> unit io" where
  "announce_all ru fs [] = Ret ()"
| "announce_all ru fs ((c, text) # rest) =
     io_bind (announce_command ru c (fs_announce fs) (fs_source fs) text) (\<lambda>_. announce_all ru fs rest)"

text \<open>The outcomes in input order; the first error that is not only warned about is the group's.\<close>

fun fold_outcomes ::
  "renderer \<Rightarrow> foreground_step \<Rightarrow> failure_strategy \<Rightarrow> (prepared_command \<times> error_chain option) list \<Rightarrow>
   error_chain option \<Rightarrow> (error_chain + unit) io" where
  "fold_outcomes rn fs strategy [] first = Ret (case first of Some e \<Rightarrow> Inl e | None \<Rightarrow> Inr ())"
| "fold_outcomes rn fs strategy ((c, None) # rest) first = fold_outcomes rn fs strategy rest first"
| "fold_outcomes rn fs strategy ((c, Some err) # rest) first =
     io_bind (handle_command_error rn err c (fs_wrapper fs) strategy) (\<lambda>r.
       fold_outcomes rn fs strategy rest
         (case (first, r) of (None, Inl e) \<Rightarrow> Some e | _ \<Rightarrow> first))"

definition group_call :: "runner \<Rightarrow> string \<Rightarrow> foreground_step \<Rightarrow> prepared_command \<times> string \<Rightarrow> shell_call" where
  "group_call ru dir fs ct =
     \<lparr>sh_dir = dir, sh_command = snd ct, sh_label = log_label (fs_announce fs) (fst ct), sh_stdin = Closed_Stdin,
      sh_merge_stdout = False, sh_scrub = is_hook (fs_announce fs), sh_cd_file = fs_cd_file fs\<rparr>"

definition run_concurrent_group ::
  "runner \<Rightarrow> prepared_command list \<Rightarrow> foreground_step \<Rightarrow> string \<Rightarrow> failure_strategy \<Rightarrow> unit fallible" where
  "run_concurrent_group ru cmds fs dir strategy =
     abind (admit ru fs strategy cmds) (\<lambda>admitted.
     abind (perform (announce_all ru fs admitted)) (\<lambda>_.
     abind (\<lambda>s. io_bind (run_concurrent_commands ru (map (group_call ru dir fs) admitted)) (\<lambda>r. Ret (s, r))) (\<lambda>outs s.
       io_bind (fold_outcomes (tg_renderer (ru_templating ru)) fs strategy (zip (map fst admitted) outs) None)
         (\<lambda>r. Ret (s, r)))))"

definition step_stdin :: "foreground_step \<Rightarrow> bool \<Rightarrow> stdin_policy" where
  "step_stdin fs final =
     (if fs_stdin fs = Inherit_Stdin \<and> final \<and> \<not> is_hook (fs_announce fs) then Hand_Off else fs_stdin fs)"

fun execute_pipeline_foreground ::
  "runner \<Rightarrow> foreground_step list \<Rightarrow> string \<Rightarrow> failure_strategy \<Rightarrow> unit fallible" where
  "execute_pipeline_foreground ru [] dir strategy = aret (Inr ())"
| "execute_pipeline_foreground ru (fs # rest) dir strategy =
     abind (case fs_step fs of
              Single_Step cmd \<Rightarrow> run_one_command ru cmd fs (step_stdin fs (rest = [])) dir strategy
            | Concurrent_Step cmds \<Rightarrow> run_concurrent_group ru cmds fs dir strategy) (\<lambda>_.
       execute_pipeline_foreground ru rest dir strategy)"

definition to_foreground :: "runner \<Rightarrow> pipeline_kind \<Rightarrow> stdin_policy \<Rightarrow> sourced_step \<Rightarrow> foreground_step" where
  "to_foreground ru kind stdin ss =
     \<lparr>fs_step = ss_step ss, fs_stdin = stdin, fs_announce = kind, fs_source = ss_source ss,
      fs_redirect = is_hook kind,
      fs_wrapper = (case kind of Hook_Kind ht _ \<Rightarrow> hook_error_wrapper ht (ss_source ss) False
                               | Alias_Kind name \<Rightarrow> alias_error_wrapper name),
      fs_cd_file = ru_cd_file ru\<rparr>"

definition sourced_steps_to_foreground ::
  "runner \<Rightarrow> sourced_step list \<Rightarrow> pipeline_kind \<Rightarrow> stdin_policy \<Rightarrow> foreground_step list" where
  "sourced_steps_to_foreground ru steps kind stdin = map (to_foreground ru kind stdin) steps"

definition run_hooks_foreground ::
  "runner \<Rightarrow> command_context \<Rightarrow> command_config option \<Rightarrow> command_config option \<Rightarrow> hook_type \<Rightarrow> (string \<times> string) list \<Rightarrow>
   string list \<Rightarrow> failure_strategy \<Rightarrow> bool fallible" where
  "run_hooks_foreground ru cx user project ht extra names strategy =
     abind (prepare_and_check ru cx user project ht extra names) (\<lambda>steps.
       if steps = [] then aret (Inr False)
       else abind (execute_pipeline_foreground ru
              (sourced_steps_to_foreground ru steps (Hook_Kind ht (ru_hook_path ru (cx_path cx))) (cx_stdin cx))
              (cx_path cx) strategy) (\<lambda>_. aret (Inr True)))"

text \<open>The project configuration of the invoking worktree is given; a configuration that could not be read is its error.\<close>

definition hook_of :: "(error_chain + project_config option) \<Rightarrow> hook_type \<Rightarrow> error_chain + command_config option" where
  "hook_of pc ht = rbind pc (\<lambda>c. Inr (Option.bind c (\<lambda>c. hooks_get (pc_hooks c) ht)))"

definition execute_hook ::
  "runner \<Rightarrow> (error_chain + project_config option) \<Rightarrow> command_context \<Rightarrow> hook_type \<Rightarrow> (string \<times> string) list \<Rightarrow>
   failure_strategy \<Rightarrow> bool fallible" where
  "execute_hook ru pc cx ht extra strategy =
     abind (aret (hook_of pc ht)) (\<lambda>project.
     abind (dropping (project_identifier (tg_gix (ru_templating ru)) (ru_env ru))) (\<lambda>p.
       map_error add_hook_skip_hint
         (run_hooks_foreground ru cx (hooks_get (user_hooks (cx_config cx) p) ht) project ht extra [] strategy)))"

definition execute_planned_hook ::
  "runner \<Rightarrow> approved_plan \<Rightarrow> string \<Rightarrow> command_context \<Rightarrow> hook_type \<Rightarrow> (string \<times> string) list \<Rightarrow>
   failure_strategy \<Rightarrow> string option \<Rightarrow> unit fallible" where
  "execute_planned_hook ru plan anchor cx ht extra strategy display =
     abind (prepare_selected ru (plan_lookup plan ht anchor) cx extra ht) (\<lambda>steps.
       if steps = [] then aret (Inr ())
       else map_error add_hook_skip_hint
         (execute_pipeline_foreground ru
           (sourced_steps_to_foreground ru steps (Hook_Kind ht display) (cx_stdin cx)) (cx_path cx) strategy))"

end
