(* ===== verification/Repository_Reads.thy ===== *)
theory Repository_Reads
  imports Selectors
begin

text \<open>
  What the queries of a repository handle can ask of the world. The locale \<open>git_user\<close> is the contract of a set of
  effects that contains no git command but those that change refs: under it the queries a template, a hook context
  or a push makes avoid the set, whatever git answers. It is interpreted on the shell commands and on the
  git commands that change refs.
\<close>

locale git_user = config_reader +
  assumes git_any: "\<not> changes_refs args \<Longrightarrow> \<not> E (Ran d args r)"
begin

declare avoids_git [quiet_intros del] quiet_git_bytes [quiet_intros del] quiet_git_text [quiet_intros del]

lemma quiet_git_all [quiet_intros]:
  "\<not> changes_refs args \<Longrightarrow> quiet_for E (git_bytes d args)"
  "\<not> changes_refs args \<Longrightarrow> quiet_for E (git_text d args)"
  "\<not> changes_refs args \<Longrightarrow> quiet_for E (git_output d args)"
proof -
  assume a: "\<not> changes_refs args"
  show "quiet_for E (git_bytes d args)" by (rule quiet_git_call) (rule git_any[OF a])
  show "quiet_for E (git_text d args)" by (rule quiet_git_text_call) (rule git_any[OF a])
  show "quiet_for E (git_output d args)" by (auto simp: quiet_for_def avoids_def git_output_def git_any[OF a])
qed

lemma avoids_git_any [quiet_intros]: "\<not> changes_refs args \<Longrightarrow> (\<And>r. avoids E (f r)) \<Longrightarrow> avoids E (Git d args f)"
  by (simp add: avoids_def) (fastforce simp: git_any)

lemma avoids_find_registration [quiet_intros]: "avoids E (find_registration p ps)"
  by (induction ps) (auto intro!: quiet_intros split: option.split)

lemma quiet_cached: "quiet_for E m \<Longrightarrow> avoids E (case slot of Some x \<Rightarrow> Ret (f x) | None \<Rightarrow> m h)"
  by (auto simp: quiet_for_def avoids_Ret split: option.split)

lemma quiet_remember [quiet_intros]:
  "quiet_for E (remember_repo_path p)" "quiet_for E (remember_worktrees wts)" "quiet_for E (remember_default b)"
  "quiet_for E (remember_project q)" "quiet_for E (update_map g)"
  by (auto simp: remember_repo_path_def remember_worktrees_def remember_default_def remember_project_def update_map_def
      intro!: quiet_state avoids_Ret)

lemma quiet_is_bare [quiet_intros]: "quiet_for E (is_bare env)"
  unfolding is_bare_def by (intro quiet_intros)

lemma avoids_separate [quiet_intros]: "avoids E (separate_git_dir_work_tree env)"
  unfolding separate_git_dir_work_tree_def by (auto intro!: quiet_intros split: option.split)

lemma quiet_recorded [quiet_intros]: "quiet_for E (recorded_repo_path env)"
  unfolding recorded_repo_path_def by (auto intro!: quiet_intros split: option.split)

lemma quiet_find_repo_path [quiet_intros]: "quiet_for E (find_repo_path env)"
  unfolding find_repo_path_def by (intro quiet_intros) (auto intro!: quiet_intros split: sum.split option.split)

lemma quiet_repo_path [quiet_intros]: "quiet_for E (repo_path env)"
  unfolding repo_path_def by (rule quiet_state, rule quiet_cached) (intro quiet_intros)

lemma avoids_rebase [quiet_intros]: "avoids E (read_rebase_branch d)"
  unfolding read_rebase_branch_def Let_def by (auto intro!: quiet_intros split: sum.split)

lemma quiet_registration [quiet_intros]: "quiet_for E (in_process (registration_at env p))"
  unfolding registration_at_def Let_def by (auto intro!: quiet_intros split: option.split)

lemma quiet_name_stale [quiet_intros]: "quiet_for E (name_stale env wts)"
  by (induction wts) (auto intro!: quiet_intros split: option.split)

lemma quiet_trees_at [quiet_intros]: "quiet_for E (trees_at ps)"
  by (induction ps) (auto intro!: quiet_intros)

lemma quiet_git_dirs_of [quiet_intros]: "quiet_for E (git_dirs_of wts)"
  by (induction wts) (auto intro!: quiet_intros)

lemma quiet_name_live [quiet_intros]: "quiet_for E (name_live wts ds)"
  by (induction wts arbitrary: ds) (auto intro!: quiet_intros split: list.split option.split)

lemma quiet_correct_main [quiet_intros]: "quiet_for E (correct_main env wts)"
  unfolding correct_main_def by (auto intro!: quiet_intros split: list.split)

lemma quiet_list_worktrees [quiet_intros]: "quiet_for E (list_worktrees env)"
proof -
  have "quiet_for E (read_worktree_list env)" unfolding read_worktree_list_def by (intro quiet_intros) (simp_all add: WORKTREE_LIST_def)
  moreover have "quiet_for E (name_rebasing env wts)" for wts unfolding name_rebasing_def by (intro quiet_intros)
  ultimately have "quiet_for E (abind (read_worktree_list env) (\<lambda>out.
            case parse_porcelain_list_z out of
              Inl e \<Rightarrow> aret (Inl (Failed e))
            | Inr raw \<Rightarrow>
                abind (correct_main env (filter (\<lambda>wt. \<not> wi_bare wt) raw)) (\<lambda>wts.
                abind (name_rebasing env wts) remember_worktrees)))"
    by (auto intro!: quiet_intros split: sum.split)
  then show ?thesis unfolding list_worktrees_def by (rule quiet_state[OF quiet_cached])
qed

lemma quiet_warn [quiet_intros]: "quiet_for E (warn_duplicate_checkout b ps)"
  unfolding warn_duplicate_checkout_def by (rule quiet_state) (auto intro!: quiet_intros)

lemma quiet_worktree_for_branch [quiet_intros]: "quiet_for E (worktree_for_branch env b)"
  unfolding worktree_for_branch_def Let_def by (intro quiet_intros)

lemma quiet_detect [quiet_intros]: "quiet_for E (detect_default_branch env)"
proof -
  have "quiet_for E (query_remote_default_branch env r)" for r
    unfolding query_remote_default_branch_def by (intro quiet_intros) simp_all
  then have a: "quiet_for E (detect_from_remote env)"
    unfolding detect_from_remote_def by (auto intro!: quiet_intros split: option.split)
  have b: "quiet_for E (detected_after env r)" for r
    unfolding detected_after_def by (auto intro!: quiet_intros split: remote_detection.split)
  have c: "quiet_for E (store_detected env r d)" for r d
    unfolding store_detected_def set_config_value_def by (auto intro!: quiet_intros split: option.split)
  show ?thesis unfolding detect_default_branch_def by (intro quiet_intros a b c)
qed

lemma quiet_default_branch [quiet_intros]: "quiet_for E (default_branch env)"
  unfolding default_branch_def
  by (rule quiet_state[OF quiet_cached]) (auto intro!: quiet_intros split: option.split)

lemma quiet_remote_parsed [quiet_intros]: "quiet_for E (primary_remote_parsed_url gix env)"
  and quiet_project [quiet_intros]: "quiet_for E (project_identifier gix env)"
proof -
  have u: "quiet_for E (primary_remote_url env)"
    unfolding primary_remote_url_def by (auto intro!: quiet_intros split: option.split)
  show "quiet_for E (primary_remote_parsed_url gix env)"
    unfolding primary_remote_parsed_url_def by (intro quiet_intros u)
  show "quiet_for E (project_identifier gix env)"
    unfolding project_identifier_def
    by (rule quiet_state[OF quiet_cached]) (auto intro!: quiet_intros u split: option.split)
qed

lemma quiet_vars_entries [quiet_intros]: "quiet_for E (vars_entries esc env b)"
proof -
  have "quiet_for E (config_regexp_entries env p)" for p
    unfolding config_regexp_entries_def Let_def by (auto intro!: quiet_intros)
  then show ?thesis unfolding vars_entries_def by (intro quiet_intros)
qed

end

text \<open>The requests that start or wait for shell commands in the foreground.\<close>

definition starts_command :: "event \<Rightarrow> bool" where
  "starts_command e \<longleftrightarrow> (case e of Shell_Ran _ _ \<Rightarrow> True | Spawned _ _ \<Rightarrow> True | _ \<Rightarrow> False)"

definition shell_event :: "event \<Rightarrow> bool" where
  "shell_event e \<longleftrightarrow> (case e of Shell_Ran _ _ \<Rightarrow> True | Spawned _ _ \<Rightarrow> True | Drained _ _ \<Rightarrow> True
     | Child_Waited _ _ \<Rightarrow> True | Child_Killed _ \<Rightarrow> True | _ \<Rightarrow> False)"

interpretation shells: git_user shell_event
  by unfold_locales (simp_all add: shell_event_def)

end
