(* ===== verification/Pipeline_Properties.thy ===== *)
theory Pipeline_Properties
  imports Pipeline_Steps Repository_Reads
begin

text \<open>
  Properties of foreground pipelines: an interrupt of a command, and any failure of a fail-fast pipeline, is the end
  of it. The only law of the template engine this needs is that a rendering asks for nothing but what the functions
  installed in its environment ask for.
\<close>

section \<open>Rendering asks only for what its functions ask for\<close>

definition renders_through_functions :: "templating \<Rightarrow> bool" where
  "renders_through_functions tg \<longleftrightarrow>
     (\<forall>E e name template ctx. (\<forall>f\<in>set (env_functions e). \<forall>x. quiet_for E (snd f x)) \<longrightarrow>
        quiet_for E (tg_render tg e name template ctx))"

lemma quiet_dropping [quiet_intros]: "quiet_for E m \<Longrightarrow> quiet_for E (dropping m)"
  and quiet_map_error [quiet_intros]: "quiet_for E m \<Longrightarrow> quiet_for E (map_error g m)"
  by (auto simp: quiet_for_def dropping_def map_error_def intro!: quiet_intros)

lemma quiet_optional [quiet_intros]: "quiet_for E m \<Longrightarrow> quiet_for E (optional m)"
  unfolding optional_def by (intro quiet_intros)

lemma quiet_from_repo [quiet_intros]: "quiet_for E m \<Longrightarrow> quiet_for E (from_repo m)"
  unfolding from_repo_def by (intro quiet_intros)

context git_user begin

lemma quiet_show_expansion [quiet_intros]: "quiet_for E (show_expansion tg name t r)"
  unfolding show_expansion_def by (auto intro!: quiet_intros)

lemma quiet_vars_value [quiet_intros]: "quiet_for E (vars_value tg env vars mode)"
  unfolding vars_value_def by (auto intro!: quiet_intros split: vars_mode.split option.split)

lemma quiet_expand_in:
  assumes "renders_through_functions tg" "\<And>b. quiet_for E (expected b)"
  shows "quiet_for E (expand_in tg env expected t vars mode name vm)"
proof -
  have w: "quiet_for E (worktree_path_of_branch env b)" for b
    unfolding worktree_path_of_branch_def by (intro quiet_intros)
  have "quiet_for E (tg_render tg e n t c)" if "configured_environment tg env expected mode = Inr e" for e n t c
  proof -
    from that have "env_functions e = env_functions (template_environment tg env expected)"
      by (auto simp: configured_environment_def Let_def split: if_splits option.splits)
    with assms w show ?thesis by (auto simp: renders_through_functions_def template_environment_def)
  qed
  then show ?thesis
    unfolding expand_in_def by (auto intro!: quiet_intros split: sum.split option.split)
qed

lemma quiet_expected_in:
  assumes "renders_through_functions tg" "\<And>b. quiet_for E (expected b)"
  shows "quiet_for E (expected_worktree_path_in tg env uc expected b)"
proof -
  have f: "quiet_for E (format_path tg env uc expected m b pr)" for m pr
    unfolding format_path_def Let_def by (intro quiet_intros quiet_expand_in assms)
  show ?thesis
    unfolding expected_worktree_path_in_def
    by (intro quiet_intros) (auto intro!: quiet_intros f split: option.split)
qed

lemma quiet_expand:
  assumes "renders_through_functions tg"
  shows "quiet_for E (expand_template tg env uc t vars mode name)"
proof -
  have "quiet_for E (expected_worktree_path_of_branch tg env uc b)" for b
    unfolding expected_worktree_path_of_branch_def within_worktree_path_def
    by (intro quiet_intros quiet_expected_in assms)
  then show ?thesis
    unfolding expand_template_def expand_template_with_def by (intro quiet_expand_in assms)
qed

lemma quiet_resolve:
  "renders_through_functions (ru_templating ru) \<Longrightarrow> quiet_for E (resolve_command_str ru cmd)"
  unfolding resolve_command_str_def expand_shell_template_def by (intro quiet_intros quiet_expand)

lemma avoids_announce [quiet_intros]: "avoids E (announce_command ru c kind src text)"
  unfolding announce_command_def Let_def by (auto intro!: quiet_intros split: pipeline_kind.split)

lemma avoids_handle [quiet_intros]: "avoids E (handle_command_error rn err cmd w st)"
  unfolding handle_command_error_def Let_def by (auto intro!: quiet_intros split: option.split failure_strategy.split)

lemma quiet_failing [quiet_intros]: "quiet_for E (failing ru fs st c err)"
  by (auto simp: quiet_for_def failing_def intro!: quiet_intros)

lemma avoids_announce_all [quiet_intros]: "avoids E (announce_all ru fs xs)"
  by (induction xs rule: announce_all.induct) (auto intro!: quiet_intros)

lemma avoids_fold [quiet_intros]: "avoids E (fold_outcomes rn fs st xs first)"
  by (induction rn fs st xs first rule: fold_outcomes.induct) (auto intro!: quiet_intros)

lemma quiet_admit:
  "renders_through_functions (ru_templating ru) \<Longrightarrow> quiet_for E (admit ru fs st cs)"
  by (induction cs) (auto intro!: quiet_intros quiet_resolve split: sum.split)

end

section \<open>What ends a pipeline\<close>

text \<open>An error a pipeline does not go on after, a result that is one, and an answer that brings one.\<close>

definition grave :: "failure_strategy \<Rightarrow> error_chain \<Rightarrow> bool" where
  "grave st err \<longleftrightarrow> st = Fail_Fast \<or> chain_signal err \<noteq> None"

definition grave_result :: "failure_strategy \<Rightarrow> shell_result \<Rightarrow> bool" where
  "grave_result st r \<longleftrightarrow> (case shell_error r of Some err \<Rightarrow> grave st err | None \<Rightarrow> False)"

fun stops :: "failure_strategy \<Rightarrow> event \<Rightarrow> bool" where
  "stops st (Shell_Ran c r) = grave_result st r"
| "stops st (Spawned c (Inl r)) = (chain_signal (error_of r) \<noteq> None)"
| "stops st (Drained ps (Inl r)) = True"
| "stops st (Drained ps (Inr rs)) = list_ex (grave_result st) (take (length ps) rs)"
| "stops st e = False"

text \<open>After a stopping event nothing more is started and the action has failed; an interrupted command is its error.\<close>

definition last_start :: "failure_strategy \<Rightarrow> event \<Rightarrow> error_chain \<Rightarrow> bool" where
  "last_start st e ch \<longleftrightarrow> (\<forall>c r sig. e = Shell_Ran c r \<and> chain_signal (error_of r) = Some sig \<longrightarrow> ch = [Cancelled sig None])"

definition halts_on :: "(event \<Rightarrow> bool) \<Rightarrow> (event \<Rightarrow> error_chain \<Rightarrow> bool) \<Rightarrow> 'a fallible \<Rightarrow> bool" where
  "halts_on S V m \<longleftrightarrow>
     (\<forall>s tr s' r pre e post. runs (m s) tr (s', r) \<longrightarrow> tr = pre @ e # post \<longrightarrow> S e \<longrightarrow>
        (\<exists>ch. r = Inl ch \<and> V e ch) \<and> (\<forall>e'\<in>set post. \<not> starts_command e'))"

abbreviation halting :: "failure_strategy \<Rightarrow> 'a fallible \<Rightarrow> bool" where
  "halting st \<equiv> halts_on (stops st) (last_start st)"

lemma shell_event_stops: "stops st e \<Longrightarrow> shell_event e"
  and shell_event_starts: "starts_command e \<Longrightarrow> shell_event e"
  by (auto simp: shell_event_def starts_command_def split: event.splits)

lemma quiet_halts_on: "quiet_for shell_event m \<Longrightarrow> (\<And>e. S e \<Longrightarrow> shell_event e) \<Longrightarrow> halts_on S V m"
  unfolding halts_on_def by (metis quiet_run in_set_conv_decomp)

lemma quiet_halting: "quiet_for shell_event m \<Longrightarrow> halting st m"
  by (erule quiet_halts_on) (rule shell_event_stops)

lemma append_split_cases:
  assumes "t1 @ t2 = pre @ e # post"
  obtains (First) us where "t1 = pre @ e # us" "post = us @ t2"
    | (Second) us where "pre = t1 @ us" "t2 = us @ e # post"
  using assms by (auto simp: append_eq_append_conv2 append_eq_Cons_conv Cons_eq_append_conv)

lemma halts_on_bind:
  assumes m: "halts_on S V m" and f: "\<And>x. halts_on S V (f x)"
  shows "halts_on S V (abind m f)"
  unfolding halts_on_def
proof (intro allI impI)
  fix s tr s' r pre e post
  assume run: "runs (abind m f s) tr (s', r)" and tr: "tr = pre @ e # post" and st: "S e"
  from run show "(\<exists>ch. r = Inl ch \<and> V e ch) \<and> (\<forall>e'\<in>set post. \<not> starts_command e')"
  proof (cases rule: abindE)
    case (Err s1 ch)
    with m tr st show ?thesis unfolding halts_on_def by blast
  next
    case (Ok s1 x t1 t2)
    from Ok(1) tr have "t1 @ t2 = pre @ e # post" by simp
    then show ?thesis
    proof (cases rule: append_split_cases)
      case (First us)
      with m Ok(2) st show ?thesis unfolding halts_on_def by blast
    next
      case (Second us)
      with f[of x] Ok(3) st show ?thesis unfolding halts_on_def by blast
    qed
  qed
qed

lemma chain_signal_plain: "chain_signal [Plain e] = None"
  by (simp add: chain_signal_def operation_signal_def stream_status_def command_status_def cancelling_def)

lemma handled_grave:
  assumes "grave st err" "runs (handle_command_error rn err cmd w st) tr r"
  shows "\<exists>ch. r = Inl ch \<and> (\<forall>sig. chain_signal err = Some sig \<longrightarrow> ch = [Cancelled sig None])"
  using assms by (auto simp: handle_command_error_def grave_def split: option.splits failure_strategy.splits)

section \<open>One command\<close>

lemma halting_shell:
  "halting st (abind (perform (Shell call Ret)) (\<lambda>res.
     case shell_error res of None \<Rightarrow> aret (Inr ()) | Some err \<Rightarrow> failing ru fs st cmd err))"
  unfolding halts_on_def
proof (intro allI impI)
  fix s tr s' r pre e post
  assume run: "runs (abind (perform (Shell call Ret)) (\<lambda>res.
      case shell_error res of None \<Rightarrow> aret (Inr ()) | Some err \<Rightarrow> failing ru fs st cmd err) s) tr (s', r)"
    and tr: "tr = pre @ e # post" and st: "stops st e"
  let ?h = "\<lambda>err. handle_command_error (tg_renderer (ru_templating ru)) err cmd (fs_wrapper fs) st"
  from run obtain q t where q0: "tr = Shell_Ran call q # t"
      "runs ((case shell_error q of None \<Rightarrow> aret (Inr ()) | Some err \<Rightarrow> failing ru fs st cmd err) s) t (s', r)"
    by (auto simp: act_simps runs)
  then have q: "tr = Shell_Ran call q # t"
      "(shell_error q = None \<and> t = []) \<or> (\<exists>err. shell_error q = Some err \<and> runs (?h err) t r)"
    by (auto simp: act_simps runs failing_def split: option.splits)
  then have none: "\<forall>e'\<in>set t. \<not> shell_event e'"
    using avoidsD[OF shells.avoids_handle] by auto
  with tr q(1) st have e: "pre = []" "e = Shell_Ran call q" "post = t"
    by (auto simp: Cons_eq_append_conv dest!: shell_event_stops)
  with st obtain err where err: "shell_error q = Some err" "grave st err"
    by (auto simp: grave_result_def split: option.splits)
  with q(2) obtain ch where ch: "r = Inl ch" "\<forall>sig. chain_signal err = Some sig \<longrightarrow> ch = [Cancelled sig None]"
    using handled_grave by fastforce
  with e err show "(\<exists>ch. r = Inl ch \<and> last_start st e ch) \<and> (\<forall>e'\<in>set post. \<not> starts_command e')"
    using none by (auto simp: last_start_def error_of_def dest: shell_event_starts)
qed

lemma halting_run_one:
  assumes "renders_through_functions (ru_templating ru)"
  shows "halting st (run_one_command ru cmd fs stdin dir st)"
proof -
  have a: "halting st (abind (perform (announce_command ru cmd k src t)) (\<lambda>_.
      abind (perform (Shell call Ret)) (\<lambda>res.
        case shell_error res of None \<Rightarrow> aret (Inr ()) | Some err \<Rightarrow> failing ru fs st cmd err)))" for k src t call
    by (intro halts_on_bind halting_shell) (intro quiet_halting quiet_intros shells.avoids_announce)
  have b: "quiet_for shell_event (outcome (resolve_command_str ru cmd))"
    by (intro quiet_intros shells.quiet_resolve assms)
  show ?thesis
    unfolding run_one_command_def
  proof (rule halts_on_bind[OF quiet_halting[OF b]])
    fix r
    show "halting st (case r of
         Inl err \<Rightarrow> failing ru fs st cmd err
       | Inr text \<Rightarrow>
           abind (perform (announce_command ru cmd (fs_announce fs) (fs_source fs) text)) (\<lambda>_.
           abind (perform (Shell (foreground_call ru dir fs stdin cmd text) Ret)) (\<lambda>res.
             case shell_error res of None \<Rightarrow> aret (Inr ()) | Some err \<Rightarrow> failing ru fs st cmd err)))"
      by (cases r) (simp_all add: a quiet_halting[OF shells.quiet_failing])
  qed
qed

section \<open>A concurrent group\<close>

lemma fill_slots_length [simp]: "length (fill_slots ss rs) = length ss"
  by (induction ss rs rule: fill_slots.induct) auto

lemma pids_simps [simp]:
  "pids [] = []" "pids (Running p # ss) = p # pids ss" "pids (Refused e # ss) = pids ss"
  by (simp_all add: pids_def)

lemma fill_slots_errors: "set (map shell_error (take (length (pids ss)) rs)) \<subseteq> set (fill_slots ss rs)"
  by (induction ss rs rule: fill_slots.induct) auto

lemma spawn_group_cases:
  assumes "runs (spawn_group (c # cs) acc) tr y"
  obtains (Started) p t where "tr = Spawned c (Inr p) # t" "runs (spawn_group cs (acc @ [Running p])) t y"
    | (Interrupted) f d where "tr = [Spawned c (Inl f), Drained (pids acc) d]" "\<exists>ch. y = Inl ch"
    | (Refused) f t where "tr = Spawned c (Inl f) # t" "chain_signal (error_of f) = None"
        "runs (spawn_group cs (acc @ [Refused (error_of f)])) t y"
proof -
  from assms obtain r t where t: "tr = Spawned c r # t" "runs (case r of
       Inr p \<Rightarrow> spawn_group cs (acc @ [Running p])
     | Inl e \<Rightarrow>
         if chain_signal (error_of e) \<noteq> None
         then Drain (pids acc) (\<lambda>d. Ret (Inl (case d of Inl f \<Rightarrow> error_of f | Inr _ \<Rightarrow> error_of e)))
         else spawn_group cs (acc @ [Pipeline_Steps.Refused (error_of e)])) t y" by (auto simp: runs simp del: not_None_eq)
  show thesis
  proof (cases r)
    case (Inr p)
    with t Started show ?thesis by simp
  next
    case (Inl f)
    show ?thesis
    proof (cases "chain_signal (error_of f)")
      case None
      with Inl t Refused show ?thesis by simp
    next
      case (Some sig)
      with Inl t have "\<exists>d. t = [Drained (pids acc) d] \<and> (\<exists>ch. y = Inl ch)" by (auto simp: runs)
      with Inl t(1) Interrupted show ?thesis by blast
    qed
  qed
qed

lemma spawn_group_Inr:
  "runs (spawn_group cs acc) tr (Inr slots) \<Longrightarrow> length slots = length acc + length cs \<and> (\<forall>e\<in>set tr. \<not> stops st e)"
proof (induction cs arbitrary: acc tr)
  case (Cons c cs)
  from Cons.prems show ?case
    by (cases rule: spawn_group_cases) (auto dest!: Cons.IH)
qed simp

lemma spawn_group_Inl:
  "runs (spawn_group cs acc) tr (Inl ch) \<Longrightarrow> tr = pre @ e # post \<Longrightarrow> stops st e \<Longrightarrow> \<forall>e'\<in>set post. \<not> starts_command e'"
proof (induction cs arbitrary: acc tr pre)
  case (Cons c cs)
  from Cons.prems(1) show ?case
  proof (cases rule: spawn_group_cases)
    case (Started p t)
    with Cons.prems(2,3) have "\<exists>pre'. t = pre' @ e # post" by (auto simp: Cons_eq_append_conv)
    with Started(2) Cons.prems(3) Cons.IH show ?thesis by blast
  next
    case (Interrupted f d)
    with Cons.prems(2) show ?thesis by (auto simp: Cons_eq_append_conv starts_command_def)
  next
    case (Refused f t)
    with Cons.prems(2,3) have "\<exists>pre'. t = pre' @ e # post" by (auto simp: Cons_eq_append_conv)
    with Refused(3) Cons.prems(3) Cons.IH show ?thesis by blast
  qed
qed simp

lemma pids_length: "length (pids ss) \<le> length ss"
  by (induction ss) (auto simp: pids_def split: slot.split)

lemma concurrent_stops:
  assumes run: "runs (run_concurrent_commands ru calls) tr x" and serial: "\<not> ru_serial ru"
    and tr: "tr = pre @ e # post" and st: "stops st e"
  shows "(\<forall>e'\<in>set post. \<not> starts_command e') \<and> (\<forall>c r. e \<noteq> Shell_Ran c r) \<and>
    (case x of Inl ch \<Rightarrow> True | Inr outs \<Rightarrow> length outs = length calls \<and> (\<exists>err. Some err \<in> set outs \<and> grave st err))"
proof -
  have only: "\<forall>e\<in>set t. \<forall>c r. e \<noteq> Shell_Ran c r" if "runs (spawn_group cs acc) t y" for cs acc t y
    using that
  proof (induction cs arbitrary: acc t)
    case (Cons c cs)
    from Cons.prems show ?case by (cases rule: spawn_group_cases) (auto dest: Cons.IH)
  qed simp
  from run tr st have "ru_shell ru = None" "ru_listener ru = None" "calls \<noteq> []"
    by (auto simp: run_concurrent_commands_def runs split: if_splits option.splits)
  with run serial have "runs (io_bind (spawn_group calls []) (\<lambda>r. case r of
                 Inl e \<Rightarrow> Ret (Inl e)
               | Inr slots \<Rightarrow>
                   Drain (pids slots) (\<lambda>d. Ret (case d of Inl f \<Rightarrow> Inl (error_of f) | Inr rs \<Rightarrow> Inr (fill_slots slots rs))))) tr x"
    by (simp add: run_concurrent_commands_def)
  then show ?thesis
  proof (cases rule: io_bindE)
    case (1 r t1 t2)
    show ?thesis
    proof (cases r)
      case (Inl ch)
      with 1 tr spawn_group_Inl[of calls "[]" tr ch pre e post st] st only[of calls "[]" tr r]
      show ?thesis by (auto simp: runs)
    next
      case (Inr slots)
      with 1(2) spawn_group_Inr[of calls "[]" t1 slots st] have len: "length slots = length calls"
        and calm: "\<forall>e\<in>set t1. \<not> stops st e" by auto
      from 1(3) Inr obtain d where d: "t2 = [Drained (pids slots) d]"
          "x = (case d of Inl f \<Rightarrow> Inl (error_of f) | Inr rs \<Rightarrow> Inr (fill_slots slots rs))"
        by (auto simp: runs)
      from 1(1) tr d(1) calm st have e: "e = Drained (pids slots) d" "post = []"
        by (auto simp: append_eq_append_conv2 append_eq_Cons_conv Cons_eq_append_conv)
      have "\<exists>err. Some err \<in> set (fill_slots slots rs) \<and> grave st err" if "d = Inr rs" for rs
      proof -
        from st e that obtain q where q: "q \<in> set (take (length (pids slots)) rs)" "grave_result st q"
          by (auto simp: list_ex_iff)
        then obtain err where err: "shell_error q = Some err" "grave st err"
          by (auto simp: grave_result_def split: option.splits)
        from q(1) have "shell_error q \<in> set (fill_slots slots rs)"
          using fill_slots_errors[of slots rs] by auto
        with err show ?thesis by auto
      qed
      with e d(2) len show ?thesis by (auto split: sum.splits)
    qed
  qed
qed

lemma fold_outcomes_grave:
  "runs (fold_outcomes rn fs st xs first) tr r \<Longrightarrow> first \<noteq> None \<or> (\<exists>c err. (c, Some err) \<in> set xs \<and> grave st err)
   \<Longrightarrow> \<exists>ch. r = Inl ch"
proof (induction xs arbitrary: first tr)
  case (Cons x xs)
  obtain c o1 where x: "x = (c, o1)" by (cases x)
  show ?case
  proof (cases o1)
    case None
    with x Cons.prems Cons.IH show ?thesis by auto
  next
    case (Some err)
    with x Cons.prems(1) obtain q t1 t2 where q: "runs (handle_command_error rn err c (fs_wrapper fs) st) t1 q"
        "runs (fold_outcomes rn fs st xs (case (first, q) of (None, Inl e) \<Rightarrow> Some e | _ \<Rightarrow> first)) t2 r"
      by (auto simp: runs_bind)
    have "(case (first, q) of (None, Inl e) \<Rightarrow> Some e | _ \<Rightarrow> first) \<noteq> None \<or>
        (\<exists>c err. (c, Some err) \<in> set xs \<and> grave st err)"
    proof (cases "grave st err \<and> first = None")
      case True
      with handled_grave[OF _ q(1)] show ?thesis by auto
    next
      case False
      with Cons.prems(2) x Some show ?thesis by (auto split: sum.splits option.splits)
    qed
    with Cons.IH[OF q(2)] show ?thesis .
  qed
qed auto

lemma halting_group:
  assumes engine: "renders_through_functions (ru_templating ru)" and serial: "\<not> ru_serial ru"
  shows "halting st (run_concurrent_group ru cmds fs dir st)"
proof -
  have "halting st (abind (\<lambda>s. io_bind (run_concurrent_commands ru (map (group_call ru dir fs) admitted)) (\<lambda>r. Ret (s, r)))
      (\<lambda>outs s. io_bind (fold_outcomes (tg_renderer (ru_templating ru)) fs st (zip (map fst admitted) outs) None)
         (\<lambda>r. Ret (s, r))))" (is "halting st (abind ?run ?fold)") for admitted
    unfolding halts_on_def
  proof (intro allI impI)
    fix s tr s' r pre e post
    assume run: "runs (abind ?run ?fold s) tr (s', r)" and tr: "tr = pre @ e # post" and st: "stops st e"
    from run show "(\<exists>ch. r = Inl ch \<and> last_start st e ch) \<and> (\<forall>e'\<in>set post. \<not> starts_command e')"
    proof (cases rule: abindE)
      case (Err s1 ch)
      then have "runs (run_concurrent_commands ru (map (group_call ru dir fs) admitted)) tr (Inl ch)" "r = Inl ch"
        by (auto simp: runs_bind)
      with concurrent_stops[OF _ serial tr st] show ?thesis by (fastforce simp: last_start_def)
    next
      case (Ok s1 outs t1 t2)
      then have c: "runs (run_concurrent_commands ru (map (group_call ru dir fs) admitted)) t1 (Inr outs)"
        and f: "runs (fold_outcomes (tg_renderer (ru_templating ru)) fs st (zip (map fst admitted) outs) None) t2 r"
        by (auto simp: runs_bind)
      have none: "\<forall>e'\<in>set t2. \<not> shell_event e'" using avoidsD[OF shells.avoids_fold f] by auto
      from Ok(1) tr have "t1 @ t2 = pre @ e # post" by simp
      then obtain us where us: "t1 = pre @ e # us" "post = us @ t2"
        by (cases rule: append_split_cases) (use none st in \<open>auto dest: shell_event_stops\<close>)
      note stopped = concurrent_stops[OF c serial us(1) st]
      then obtain err where err: "Some err \<in> set outs" "grave st err" "length outs = length admitted" by auto
      then have "\<exists>c. (c, Some err) \<in> set (zip (map fst admitted) outs)"
        by (metis in_set_impl_in_set_zip2 length_map)
      with fold_outcomes_grave[OF f] err(2) obtain ch where "r = Inl ch" by blast
      with stopped us(2) none show ?thesis by (fastforce simp: last_start_def dest: shell_event_starts)
    qed
  qed
  then show ?thesis
    unfolding run_concurrent_group_def
    by (rule halts_on_bind[OF quiet_halting[OF shells.quiet_admit[OF engine]]
          halts_on_bind[OF quiet_halting[OF quiet_actions(2)[OF shells.avoids_announce_all]]]])
qed

lemma halting_pipeline:
  assumes "renders_through_functions (ru_templating ru)" "\<not> ru_serial ru"
  shows "halting st (execute_pipeline_foreground ru steps dir st)"
proof (induction steps)
  case Nil
  show ?case by (simp add: quiet_halting quiet_intros)
next
  case (Cons fs rest)
  have "halting st (case fs_step fs of
              Single_Step cmd \<Rightarrow> run_one_command ru cmd fs (step_stdin fs (rest = [])) dir st
            | Concurrent_Step cmds \<Rightarrow> run_concurrent_group ru cmds fs dir st)"
    using assms by (cases "fs_step fs") (simp_all add: halting_run_one halting_group)
  with Cons.IH show ?case by (auto intro: halts_on_bind)
qed


text \<open>An engine for templates without expressions, and a pipeline of two steps in it.\<close>

definition literal_renderer :: renderer where
  "literal_renderer = \<lparr>rn_title = \<lambda>_. ''error'', rn_git = \<lambda>_. ''error'', rn_lookup_title = \<lambda>_. ''error'',
     rn_lookup = \<lambda>_. ''error'', rn_command = \<lambda>_ _. ''error'', rn_gutter = id, rn_bash = id\<rparr>"

definition literal_engine :: templating where
  "literal_engine = \<lparr>tg_compile = \<lambda>_ _. None, tg_undeclared = \<lambda>_. [], tg_render = \<lambda>_ _ t _. aret (Inr t),
     tg_syntax_error = None, tg_globals = [], tg_ast = \<lambda>_. None,
     tg_invalid = \<lambda>e. \<lparr>ee_kind = Other_Kind, ee_text = e, ee_detail = None, ee_line = None, ee_range = None\<rparr>,
     tg_display = \<lambda>v. (case v of V_String s \<Rightarrow> s | _ \<Rightarrow> []), tg_input = \<lambda>_. None, tg_text = \<lambda>_. Inr [], tg_count = \<lambda>_. Inr 0,
     tg_tojson = \<lambda>v _. Inr v, tg_hash = \<lambda>_. 0, tg_safe = id, tg_sha = id, tg_petnames = \<lparr>adjectives = [], nouns = []\<rparr>,
     tg_score = \<lambda>_ _. 0, tg_posix = id, tg_args = \<lambda>_. None, tg_compound = \<lambda>_. None, tg_tilde = id, tg_normalize = id,
     tg_escape = id, tg_show_path = id, tg_verbosity = 0, tg_renderer = literal_renderer, tg_gix = \<lambda>_. None\<rparr>"

lemma literal_engine_law: "renders_through_functions literal_engine"
  by (simp add: renders_through_functions_def literal_engine_def quiet_intros)

definition sample_runner :: runner where
  "sample_runner = \<lparr>ru_templating = literal_engine, ru_env = config_env, ru_config = default_config, ru_shell = None,
     ru_listener = None, ru_serial = False, ru_cd_file = None, ru_show_path = id, ru_hook_path = \<lambda>_. None\<rparr>"

definition sample_command :: "string \<Rightarrow> prepared_command" where
  "sample_command t = \<lparr>pr_name = None, pr_template = t, pr_context = [], pr_template_name = t, pr_label = t\<rparr>"

definition sample_step :: "string \<Rightarrow> sourced_step" where
  "sample_step t = \<lparr>ss_step = Single_Step (sample_command t), ss_source = User\<rparr>"

definition sample_pipeline :: "foreground_step list" where
  "sample_pipeline =
     sourced_steps_to_foreground sample_runner (map sample_step [''build'', ''test'']) (Alias_Kind ''ci'') Inherit_Stdin"

lemma sample_resolves: "resolve_command_str sample_runner (sample_command t) s = Ret (s, Inr t)"
  by (simp add: resolve_command_str_def expand_shell_template_def expand_template_def expand_template_with_def expand_in_def
      configured_environment_def sample_runner_def sample_command_def literal_engine_def map_error_def abind_def aret_def
      show_expansion_def context_values_def)

lemma sample_fields: "ru_cd_file sample_runner = None" "pr_name (sample_command t) = None" "pr_label (sample_command t) = t"
  by (simp_all add: sample_runner_def sample_command_def)


section \<open>What a hook command can refer to\<close>

text \<open>What holds of every value an action returns.\<close>

definition delivers :: "('a \<Rightarrow> bool) \<Rightarrow> ('s, 'e, 'a) stateful \<Rightarrow> bool" where
  "delivers P m \<longleftrightarrow> (\<forall>s tr s' x. runs (m s) tr (s', Inr x) \<longrightarrow> P x)"

lemma deliversI_aret: "(\<And>x. r = Inr x \<Longrightarrow> P x) \<Longrightarrow> delivers P (aret r)"
  by (auto simp: delivers_def act_simps)

lemma delivers_bind: "delivers Q m \<Longrightarrow> (\<And>x. Q x \<Longrightarrow> delivers P (f x)) \<Longrightarrow> delivers P (abind m f)"
  unfolding delivers_def by (fastforce simp: act_simps)

lemma delivers_any: "delivers (\<lambda>_. True) m"
  by (simp add: delivers_def)

lemma delivers_then: "(\<And>x. delivers P (f x)) \<Longrightarrow> delivers P (abind m f)"
  by (rule delivers_bind[OF delivers_any])

lemma delivers_wanted: "(b \<Longrightarrow> delivers P m) \<Longrightarrow> (\<not> b \<Longrightarrow> P x) \<Longrightarrow> delivers P (when_wanted b m x)"
  by (auto simp: when_wanted_def intro: deliversI_aret)

text \<open>A context over the given names that has the given ones.\<close>

definition names_within :: "string set \<Rightarrow> string set \<Rightarrow> template_context \<Rightarrow> bool" where
  "names_within must may ctx \<longleftrightarrow> bt_inv ctx \<and> must \<subseteq> fst ` set ctx \<and> fst ` set ctx \<subseteq> may"

lemma names_put: "names_within must may ctx \<Longrightarrow> k \<in> may \<Longrightarrow> names_within (insert k must) may (bt_put k v ctx)"
  by (auto simp: names_within_def bt_inv_put fst_set_bt_put)

lemma names_put_keep: "names_within must may ctx \<Longrightarrow> k \<in> may \<Longrightarrow> names_within must may (bt_put k v ctx)"
  by (auto simp: names_within_def bt_inv_put fst_set_bt_put)

lemma names_put_some: "names_within must may ctx \<Longrightarrow> k \<in> may \<Longrightarrow> names_within must may (put_some k v ctx)"
  by (auto simp: put_some_def names_put_keep split: option.split)

lemma names_put_all:
  "names_within must may ctx \<Longrightarrow> fst ` set kvs \<subseteq> may \<Longrightarrow> names_within must may (put_all kvs ctx)"
  unfolding put_all_def by (induction kvs arbitrary: ctx) (auto simp: names_put_keep)

lemma get_put_all: "bt_inv ctx \<Longrightarrow> bt_get (put_all kvs ctx) k = (case map_of (rev kvs) k of Some v \<Rightarrow> Some v | None \<Rightarrow> bt_get ctx k)"
proof (induction kvs arbitrary: ctx)
  case (Cons kv kvs)
  obtain a b where kv: "kv = (a, b)" by (cases kv)
  have "put_all (kv # kvs) ctx = put_all kvs (bt_put a b ctx)" by (simp add: put_all_def kv)
  with Cons.IH[of "bt_put a b ctx"] Cons.prems kv show ?case
    by (auto simp: bt_inv_put bt_get_put map_add_def split: option.split)
qed (simp add: put_all_def)

definition hook_always :: "string set" where
  "hook_always = {''repo'', ''repo_path'', ''worktree_path'', ''worktree_name'', ''cwd''}"

lemma names_commit: "names_within must (set base_vars) ctx \<Longrightarrow> delivers (names_within must (set base_vars)) (add_commit env cx sc ctx)"
  unfolding add_commit_def Let_def
  by (intro delivers_wanted delivers_then)
    (auto intro!: delivers_then deliversI_aret names_put_some names_put_keep split: option.split
      simp: base_vars_def ACTIVE_VARS_def)

lemma names_remote: "names_within must (set base_vars) ctx \<Longrightarrow> delivers (names_within must (set base_vars)) (add_remote env cx sc ctx)"
  unfolding add_remote_def
  by (intro delivers_wanted delivers_then)
    (auto intro!: delivers_then deliversI_aret names_put_some names_put_keep split: option.split
      simp: base_vars_def ACTIVE_VARS_def REPO_VARS_def)

lemma context_delivers:
  "delivers (\<lambda>ctx. \<exists>base. names_within hook_always (set base_vars) base \<and> ctx = put_all extra base)
     (build_hook_context ru cx extra sc)"
proof -
  let ?four = "{''repo'', ''repo_path'', ''worktree_path'', ''worktree_name''}"
  have start: "names_within ?four (set base_vars)
      (put_some ''primary_worktree_path'' p (put_some ''default_branch'' d (put_some ''remote_repo'' rr (put_some ''owner'' ow
        (bt_put ''worktree_path'' wp (bt_put ''repo_path'' rp (bt_put ''worktree_name'' wn
          (put_some ''branch'' b (bt_put ''repo'' rn [])))))))))" for p d rr ow wp rp wn b rn
  proof -
    have "names_within {} (set base_vars) []" by (simp add: names_within_def bt_inv_def)
    then have "names_within (insert ''worktree_path'' (insert ''repo_path'' (insert ''worktree_name'' (insert ''repo'' {}))))
        (set base_vars)
      (put_some ''primary_worktree_path'' p (put_some ''default_branch'' d (put_some ''remote_repo'' rr (put_some ''owner'' ow
        (bt_put ''worktree_path'' wp (bt_put ''repo_path'' rp (bt_put ''worktree_name'' wn
          (put_some ''branch'' b (bt_put ''repo'' rn [])))))))))"
      by (intro names_put names_put_some) (simp_all add: base_vars_def ACTIVE_VARS_def REPO_VARS_def EXEC_BASE_VARS_def)
    moreover have "insert ''worktree_path'' (insert ''repo_path'' (insert ''worktree_name'' (insert ''repo'' {}))) = ?four" by blast
    ultimately show ?thesis by simp
  qed
  have cwd: "names_within hook_always (set base_vars) (bt_put ''cwd'' v ctx)" if "names_within ?four (set base_vars) ctx" for v ctx
  proof -
    have "insert ''cwd'' ?four = hook_always" by (auto simp: hook_always_def)
    with names_put[OF that, of "''cwd''" v] show ?thesis by (simp add: base_vars_def EXEC_BASE_VARS_def)
  qed
  show ?thesis
    unfolding build_hook_context_def Let_def
    by (intro delivers_then delivers_bind[OF names_commit[OF start]] delivers_bind[OF names_remote] deliversI_aret)
      (use cwd in auto)
qed

definition frozen_context :: "hook_type \<Rightarrow> template_context \<Rightarrow> template_context" where
  "frozen_context ht ctx =
     (let base = bt_put ''hook_type'' (hook_type_name ht) ctx
      in if bt_get base ALIAS_ARGS_KEY = None then bt_put ALIAS_ARGS_KEY ''[]'' base else base)"

lemma prepare_steps_delivers:
  "delivers (\<lambda>steps. \<exists>base. names_within hook_always (set base_vars) base \<and>
       steps = map_config_steps (prepare_command ht source (frozen_context ht (put_all extra base))) cfg)
     (prepare_steps ru cfg cx extra ht source)"
  unfolding prepare_steps_def
  by (rule delivers_bind[OF context_delivers]) (auto simp: frozen_context_def Let_def intro!: deliversI_aret)

lemma prepared_of_steps:
  "concat (map prepared_commands (map_config_steps f cfg)) = map f (config_commands cfg)"
proof -
  have "prepared_commands (prepare_step f st) = map f (step_commands st)" for st by (cases st) simp_all
  then show ?thesis by (simp add: map_config_steps_def config_commands_def map_concat comp_def)
qed

lemma frozen_context_get:
  assumes "names_within must (set base_vars) base"
  shows "bt_get (frozen_context ht (put_all extra base)) k =
    (if k = ''hook_type'' then Some (hook_type_name ht)
     else case map_of (rev extra) k of Some v \<Rightarrow> Some v
       | None \<Rightarrow> if k = ALIAS_ARGS_KEY then Some ''[]'' else bt_get base k)"
proof -
  from assms have inv: "bt_inv base" by (simp add: names_within_def)
  have "bt_inv (put_all extra base)"
    using names_put_all[of "{}" UNIV base extra] inv by (simp add: names_within_def)
  moreover have "bt_get base ALIAS_ARGS_KEY = None"
  proof -
    have "ALIAS_ARGS_KEY \<notin> set base_vars" by code_simp
    with assms show ?thesis by (auto simp: names_within_def map_of_eq_None_iff)
  qed
  ultimately show ?thesis
    using inv by (auto simp: frozen_context_def Let_def bt_get_put bt_inv_put get_put_all ALIAS_ARGS_KEY_def split: option.split)
qed

text \<open>
  The context a hook's command is rendered in. The commands prepared are the configured ones in order, each with
  its own template and name; whatever git answers, a context binds only the names the documentation of its hook type
  lists and those the caller passed, always binds the repository and worktree names, and resolves the hook's type
  and name, then the caller's variables (the last of a name), then the arguments (an empty list) before its own.
\<close>

theorem hook_context_of_commands:
  assumes "runs (prepare_steps ru cfg cx extra ht source s) tr (s', Inr steps)"
  shows "\<exists>base. fst ` set base \<subseteq> set (vars_available_in (Hook_Scope ht)) \<and>
      {''repo'', ''repo_path'', ''worktree_path'', ''worktree_name'', ''cwd''} \<subseteq> fst ` set base \<and>
      list_all2 (\<lambda>p c. pr_template p = cmd_template c \<and> pr_name p = cmd_name c \<and>
          (\<forall>k. bt_get (pr_context p) k =
            (if k = ''hook_name'' \<and> cmd_name c \<noteq> None then cmd_name c
             else if k = ''hook_type'' then Some (hook_type_name ht)
             else case map_of (rev extra) k of Some v \<Rightarrow> Some v
               | None \<Rightarrow> if k = ''args'' then Some ''[]'' else bt_get base k)))
        (concat (map prepared_commands steps)) (config_commands cfg)"
proof -
  from prepare_steps_delivers[of ht source extra cfg ru cx] assms obtain base where
    base: "names_within hook_always (set base_vars) base"
    and steps: "steps = map_config_steps (prepare_command ht source (frozen_context ht (put_all extra base))) cfg"
    unfolding delivers_def by blast
  let ?ctx = "frozen_context ht (put_all extra base)"
  from base have inv: "bt_inv ?ctx"
    using names_put_all[of hook_always UNIV base extra]
    by (simp add: frozen_context_def Let_def bt_inv_put names_within_def)
  from base have "fst ` set base \<subseteq> set (vars_available_in (Hook_Scope ht))" "hook_always \<subseteq> fst ` set base"
    by (auto simp: names_within_def vars_available_in_def)
  moreover have "bt_get (put_some ''hook_name'' n ?ctx) k =
      (if k = ''hook_name'' \<and> n \<noteq> None then n else bt_get ?ctx k)" for n k
    using inv by (auto simp: put_some_def bt_get_put split: option.split)
  ultimately show ?thesis
    unfolding steps prepared_of_steps hook_always_def
    by (intro exI[of _ base]) (auto simp: list_all2_conv_all_nth prepare_command_def frozen_context_get[OF base] ALIAS_ARGS_KEY_def)
qed

definition sample_handle :: handle where
  "sample_handle = one_worktree\<lparr>repo_path_slot := Some ''/r'', default_branch_slot := Some (Some ''main'')\<rparr>"

lemma sample_reads:
  "repo_path config_env sample_handle = Ret (sample_handle, Inr ''/r'')"
  "default_branch config_env sample_handle = Ret (sample_handle, Inr (Some ''main''))"
  "config_last config_env k sample_handle = Ret (sample_handle, Inr None)"
  "all_config config_env sample_handle = Ret (sample_handle, Inr [])"
proof -
  show a: "all_config config_env sample_handle = Ret (sample_handle, Inr [])"
    by (simp add: all_config_def sample_handle_def one_worktree_def config_handle_def)
  show "config_last config_env k sample_handle = Ret (sample_handle, Inr None)"
    by (simp add: config_last_def abind_def aret_def a cfg_get_def last_value_def)
qed (simp_all add: repo_path_def default_branch_def sample_handle_def)

lemma sample_queries:
  "primary_remote config_env sample_handle = Ret (sample_handle, Inl (Failed ''No remotes configured''))"
  "primary_worktree config_env sample_handle = Ret (sample_handle, Inr (Some ''/r''))"
  by (simp_all add: primary_remote_def first_remote_def abind_def aret_def sample_reads primary_worktree_def is_bare_def
      config_bool_def)

lemma sample_prepares:
  "\<exists>r. runs (prepare_steps sample_runner cfg \<lparr>cx_config = default_config, cx_branch = None, cx_path = ''/wt'', cx_stdin = Closed_Stdin\<rparr>
      extra ht src sample_handle) [Ran ''/wt'' [''rev-parse'', ''HEAD''] (Inl ''no commit'')] (sample_handle, Inr r)"
proof -
  have env: "ru_env sample_runner = config_env" by (simp add: sample_runner_def)
  have url: "primary_remote_parsed_url gix config_env sample_handle = Ret (sample_handle, Inr None)" for gix
    by (simp add: primary_remote_parsed_url_def primary_remote_url_def ok_def outcome_def abind_def aret_def sample_queries)
  show ?thesis
    by (simp add: prepare_steps_def build_hook_context_def Let_def abind_def aret_def env url sample_reads sample_queries from_repo_def
        map_error_def optional_def dropping_def when_wanted_def wants_def add_commit_def add_remote_def current_commit_def
        head_sha_at_def git_text_def git_bytes_def runs_replay command_result_def)
qed

theorem hook_context_of_commands_witness:
  "\<exists>base :: template_context. ''cwd'' \<in> fst ` set base \<and> fst ` set base \<subseteq> set (vars_available_in (Hook_Scope Pre_Merge))"
proof -
  obtain r where "runs (prepare_steps sample_runner [Single \<lparr>cmd_name = Some ''lint'', cmd_template = ''make''\<rparr>]
      \<lparr>cx_config = default_config, cx_branch = None, cx_path = ''/wt'', cx_stdin = Closed_Stdin\<rparr>
      [(''target'', ''main'')] Pre_Merge User sample_handle)
      [Ran ''/wt'' [''rev-parse'', ''HEAD''] (Inl ''no commit'')] (sample_handle, Inr r)"
    by (rule exE[OF sample_prepares])
  from hook_context_of_commands[OF this] obtain base :: template_context where
    "fst ` set base \<subseteq> set (vars_available_in (Hook_Scope Pre_Merge))"
    "{''repo'', ''repo_path'', ''worktree_path'', ''worktree_name'', ''cwd''} \<subseteq> fst ` set base" by (elim exE conjE)
  then show ?thesis by (intro exI[of _ base]) simp
qed

end
