(* ===== verification/Background_Hooks.thy ===== *)
theory Background_Hooks
  imports Pipeline_Steps
begin

text \<open>
  Background hooks: the announcer that collects pipelines and starts them when a command ends (\<open>HookAnnouncer\<close>,
  \<open>run_hooks_background\<close> and what they call in \<open>src/commands/hooks.rs\<close>, \<open>register_planned\<close> of \<open>hook_plan.rs\<close>), the
  detached process that runs one (\<open>src/commands/run_pipeline.rs\<close>), its logs and its start
  (\<open>src/commands/process.rs\<close>). The child processes are requests: \<open>Spawn\<close>, \<open>Wait_Child\<close>, \<open>Kill_Child\<close>; that a start
  failed for want of a second handle on the log is an answer of \<open>Spawn\<close>. serde_json and the path of the running
  program are the record \<open>launcher\<close>; the audit log of commands and the priority and environment of a detached
  process are not modelled.
\<close>

section \<open>Logs\<close>

datatype internal_op = Op_Remove | Op_Remove_Placeholder | Op_Trash_Sweep

fun internal_op_name :: "internal_op \<Rightarrow> string" where
  "internal_op_name Op_Remove = ''remove''"
| "internal_op_name Op_Remove_Placeholder = ''remove-placeholder''"
| "internal_op_name Op_Trash_Sweep = ''trash-sweep''"

datatype hook_log = Hook_Log hook_source hook_type string | Internal_Log internal_op | Shared_Log internal_op

definition log_file_name :: "templating \<Rightarrow> string \<Rightarrow> string" where
  "log_file_name tg = sanitize_for_filename (tg_safe tg) (tg_hash tg)"

fun log_path :: "templating \<Rightarrow> hook_log \<Rightarrow> string \<Rightarrow> string \<Rightarrow> string" where
  "log_path tg (Hook_Log src ht name) dir branch =
     path_join (path_join (path_join (path_join dir (log_file_name tg branch)) (source_name src)) (hook_type_name ht))
       (log_file_name tg name @ ''.log'')"
| "log_path tg (Internal_Log op) dir branch =
     path_join (path_join (path_join dir (log_file_name tg branch)) ''internal'') (internal_op_name op @ ''.log'')"
| "log_path tg (Shared_Log op) dir branch = path_join dir (''internal-'' @ internal_op_name op @ ''.log'')"

definition wt_logs_dir :: "repo_env \<Rightarrow> string" where
  "wt_logs_dir env = path_join (path_join (common_dir env) ''wt'') ''logs''"

section \<open>The process that runs a pipeline\<close>

record pipeline_spec =
  sp_worktree :: string
  sp_branch :: string
  sp_type :: hook_type
  sp_source :: hook_source
  sp_steps :: "prepared_step list"

definition command_log_name :: "string option \<Rightarrow> nat \<Rightarrow> string" where
  "command_log_name name i = (case name of Some n \<Rightarrow> n | None \<Rightarrow> ''cmd-'' @ show_nat i)"

definition create_command_log :: "runner \<Rightarrow> pipeline_spec \<Rightarrow> string \<Rightarrow> string \<Rightarrow> unit fallible" where
  "create_command_log ru spec log_dir name =
     (let relative = log_path (ru_templating ru) (Hook_Log (sp_source spec) (sp_type spec) name) [] (sp_branch spec) in
      abind (perform (Open_Log log_dir relative Ret)) (\<lambda>r.
        aret (case r of
                Some e \<Rightarrow> Inl [Context (''failed to create log file: '' @ path_join log_dir relative), Plain e]
              | None \<Rightarrow> Inr ())))"

text \<open>The started child, or why there is none.\<close>

definition spawn_shell_command :: "runner \<Rightarrow> string \<Rightarrow> string \<Rightarrow> (error_chain + nat) io" where
  "spawn_shell_command ru expanded worktree =
     (case ru_shell ru of
        Some e \<Rightarrow> Ret (Inl [Plain e])
      | None \<Rightarrow>
          Spawn \<lparr>sh_dir = worktree, sh_command = expanded, sh_label = None, sh_stdin = Closed_Stdin, sh_merge_stdout = False,
                 sh_scrub = True, sh_cd_file = None\<rparr>
            (\<lambda>r. Ret (case r of Inl e \<Rightarrow> Inl (error_of e) | Inr p \<Rightarrow> Inr p)))"

definition wait_resolving :: "nat \<Rightarrow> string \<Rightarrow> (int option \<times> int option) fallible" where
  "wait_resolving child expanded =
     abind (perform (Wait_Child child Ret)) (\<lambda>r.
       aret (case r of Inl e \<Rightarrow> Inl [Context (''failed to wait for: '' @ expanded), Plain e] | Inr status \<Rightarrow> Inr status))"

definition checked :: "pipeline_spec \<Rightarrow> prepared_command \<Rightarrow> int option \<times> int option \<Rightarrow> error_chain + unit" where
  "checked spec cmd status =
     (if fst status = Some 0 then Inr ()
      else Inl (hook_error_wrapper (sp_type spec) (sp_source spec) True cmd
                  [from_child_status (fst status) (snd status) None]))"

definition wrapping :: "pipeline_spec \<Rightarrow> prepared_command \<Rightarrow> error_chain + 'a \<Rightarrow> error_chain + 'a" where
  "wrapping spec cmd r =
     (case r of Inl e \<Rightarrow> Inl (hook_error_wrapper (sp_type spec) (sp_source spec) True cmd e) | Inr x \<Rightarrow> Inr x)"

text \<open>What every command of a pipeline starts with: its log, its text, its child.\<close>

definition start_command ::
  "runner \<Rightarrow> pipeline_spec \<Rightarrow> string \<Rightarrow> nat \<Rightarrow> prepared_command \<Rightarrow> (string \<times> (error_chain + nat)) fallible" where
  "start_command ru spec log_dir i cmd =
     abind (create_command_log ru spec log_dir (command_log_name (pr_name cmd) i)) (\<lambda>_.
     abind (resolve_command_str ru cmd) (\<lambda>expanded.
     abind (perform (spawn_shell_command ru expanded (sp_worktree spec))) (\<lambda>r.
       aret (Inr (expanded, wrapping spec cmd r)))))"

definition finish_command :: "pipeline_spec \<Rightarrow> prepared_command \<Rightarrow> string \<times> (error_chain + nat) \<Rightarrow> unit fallible" where
  "finish_command spec cmd started =
     abind (aret (snd started)) (\<lambda>child.
     abind (wait_resolving child (fst started)) (\<lambda>status.
       aret (checked spec cmd status)))"

definition run_single :: "runner \<Rightarrow> pipeline_spec \<Rightarrow> string \<Rightarrow> nat \<Rightarrow> prepared_command \<Rightarrow> unit fallible" where
  "run_single ru spec log_dir i cmd = abind (start_command ru spec log_dir i cmd) (finish_command spec cmd)"

text \<open>Starting a group. The children of a start that did not come to its end are killed and waited for.\<close>

fun tear_down :: "(prepared_command \<times> string \<times> (error_chain + nat)) list \<Rightarrow> unit io" where
  "tear_down [] = Ret ()"
| "tear_down ((cmd, text, Inr p) # rest) = Kill_Child p (Wait_Child p (\<lambda>_. tear_down rest))"
| "tear_down ((cmd, text, Inl e) # rest) = tear_down rest"

fun spawn_all ::
  "runner \<Rightarrow> pipeline_spec \<Rightarrow> string \<Rightarrow> nat \<Rightarrow> prepared_command list \<Rightarrow>
   (prepared_command \<times> string \<times> (error_chain + nat)) list \<Rightarrow>
   (prepared_command \<times> string \<times> (error_chain + nat)) list fallible" where
  "spawn_all ru spec log_dir i [] children = aret (Inr children)"
| "spawn_all ru spec log_dir i (cmd # cmds) children =
     abind (outcome (start_command ru spec log_dir i cmd)) (\<lambda>r.
       case r of
         Inl e \<Rightarrow> abind (perform (tear_down children)) (\<lambda>_. aret (Inl e))
       | Inr started \<Rightarrow> spawn_all ru spec log_dir (Suc i) cmds (children @ [(cmd, started)]))"

text \<open>\<open>wait_first_error\<close> over the lazy results: every child is waited for, the first error in order is returned.\<close>

fun wait_first_error :: "unit fallible list \<Rightarrow> error_chain option \<Rightarrow> unit fallible" where
  "wait_first_error [] first = aret (case first of Some e \<Rightarrow> Inl e | None \<Rightarrow> Inr ())"
| "wait_first_error (m # ms) first =
     abind (outcome m) (\<lambda>r. wait_first_error ms (case (r, first) of (Inl e, None) \<Rightarrow> Some e | _ \<Rightarrow> first))"

fun run_serially :: "runner \<Rightarrow> pipeline_spec \<Rightarrow> string \<Rightarrow> nat \<Rightarrow> prepared_command list \<Rightarrow> unit fallible" where
  "run_serially ru spec log_dir i [] = aret (Inr ())"
| "run_serially ru spec log_dir i (cmd # cmds) =
     abind (run_single ru spec log_dir i cmd) (\<lambda>_. run_serially ru spec log_dir (Suc i) cmds)"

definition run_group :: "runner \<Rightarrow> pipeline_spec \<Rightarrow> string \<Rightarrow> nat \<Rightarrow> prepared_command list \<Rightarrow> unit fallible" where
  "run_group ru spec log_dir i cmds =
     (if ru_serial ru then run_serially ru spec log_dir i cmds
      else abind (spawn_all ru spec log_dir i cmds []) (\<lambda>children.
        wait_first_error (map (\<lambda>(cmd, started). finish_command spec cmd started) children) None))"

fun run_spec_steps :: "runner \<Rightarrow> pipeline_spec \<Rightarrow> string \<Rightarrow> nat \<Rightarrow> prepared_step list \<Rightarrow> unit fallible" where
  "run_spec_steps ru spec log_dir i [] = aret (Inr ())"
| "run_spec_steps ru spec log_dir i (Single_Step cmd # rest) =
     abind (run_single ru spec log_dir i cmd) (\<lambda>_. run_spec_steps ru spec log_dir (Suc i) rest)"
| "run_spec_steps ru spec log_dir i (Concurrent_Step cmds # rest) =
     abind (run_group ru spec log_dir i cmds) (\<lambda>_. run_spec_steps ru spec log_dir (i + length cmds) rest)"

text \<open>Standard input as it was read, its decoding, and the repository discovered from a directory, are given.\<close>

definition in_context :: "string \<Rightarrow> error_chain + 'a \<Rightarrow> error_chain + 'a" where
  "in_context text r = (case r of Inl e \<Rightarrow> Inl (Context text # e) | Inr x \<Rightarrow> Inr x)"

definition run_pipeline ::
  "(error_chain + string) \<Rightarrow> (string \<Rightarrow> error_chain + pipeline_spec) \<Rightarrow> (string \<Rightarrow> error_chain + runner) \<Rightarrow> unit fallible" where
  "run_pipeline input decode repo_at =
     abind (aret (in_context ''failed to read pipeline spec from stdin'' input)) (\<lambda>contents.
     abind (aret (in_context ''failed to deserialize pipeline spec'' (decode contents))) (\<lambda>spec.
     abind (aret (in_context ''failed to open repository for pipeline'' (repo_at (sp_worktree spec)))) (\<lambda>ru.
       run_spec_steps ru spec (wt_logs_dir (ru_env ru)) 0 (sp_steps spec))))"

section \<open>Starting a detached process\<close>

text \<open>The encoding of a pipeline, and \<open>std::env::current_exe\<close>.\<close>

record launcher =
  la_encode :: "pipeline_spec \<Rightarrow> string + string"
  la_exe :: "string + string"
  la_shell :: "string + string list"

definition create_detach_log :: "runner \<Rightarrow> string \<Rightarrow> hook_log \<Rightarrow> (error_chain + string) io" where
  "create_detach_log ru branch hl =
     (let dir = wt_logs_dir (ru_env ru);
          relative = log_path (ru_templating ru) hl [] branch;
          path = path_join dir relative
      in Open_Log dir relative (\<lambda>r. Ret (case r of
           Some e \<Rightarrow> Inl [Context (''Failed to create log file '' @ ru_show_path ru path), Plain e]
         | None \<Rightarrow> Inr path)))"

definition spawn_detached_exec ::
  "runner \<Rightarrow> string \<Rightarrow> string \<Rightarrow> string list \<Rightarrow> string \<Rightarrow> hook_log \<Rightarrow> string \<Rightarrow> (error_chain + string) io" where
  "spawn_detached_exec ru worktree program args branch hl input =
     io_bind (create_detach_log ru branch hl) (\<lambda>r. case r of
       Inl e \<Rightarrow> Ret (Inl e)
     | Inr path \<Rightarrow>
         Spawn_Detached worktree (program # args) path input (\<lambda>r. Ret (case r of
           Some e \<Rightarrow> Inl [Context ''Failed to spawn detached process'', Plain e]
         | None \<Rightarrow> Inr path)))"

definition spawn_detached ::
  "runner \<Rightarrow> launcher \<Rightarrow> string \<Rightarrow> string list \<Rightarrow> string \<Rightarrow> hook_log \<Rightarrow> (error_chain + string) io" where
  "spawn_detached ru la worktree args branch hl =
     (case la_shell la of
        Inl e \<Rightarrow> Ret (Inl [Plain e])
      | Inr shell \<Rightarrow> spawn_detached_exec ru worktree (hd shell) (tl shell @ args) branch hl [])"

definition build_drain_trash_command :: "string \<Rightarrow> repo_env \<Rightarrow> string list" where
  "build_drain_trash_command executable env =
     [''exec '' @ [CHR 0x22] @ ''$@'' @ [CHR 0x22], ''wt'', executable, ''-C'', common_dir env, ''_drain-trash'']"

definition build_remove_placeholder_command :: "string \<Rightarrow> string list" where
  "build_remove_placeholder_command path =
     [''sleep 1 && rmdir -- '' @ [CHR 0x22] @ ''$1'' @ [CHR 0x22] @ '' 2>/dev/null'', ''wt'', path]"

definition build_remove_command :: "string \<Rightarrow> bool \<Rightarrow> bool \<Rightarrow> string list option \<Rightarrow> string list" where
  "build_remove_command path force changed_directory rest =
     [(if changed_directory then ''sleep 1 && '' else []) @ ''git worktree remove'' @ (if force then '' --force'' else []) @
        '' -- '' @ [CHR 0x22] @ ''$1'' @ [CHR 0x22] @
        (if rest \<noteq> None then '' && shift && '' @ [CHR 0x22] @ ''$@'' @ [CHR 0x22] else []),
      ''wt'', path] @ (case rest of Some xs \<Rightarrow> xs | None \<Rightarrow> [])"

section \<open>The announcer\<close>

record pending_pipeline =
  pp_worktree :: string
  pp_branch :: "string option"
  pp_type :: hook_type
  pp_display :: "string option"
  pp_steps :: "sourced_step list"

record announcer =
  an_pending :: "pending_pipeline list"
  an_removed :: "string list"
  an_show_branch :: bool

definition new_announcer :: "bool \<Rightarrow> announcer" where
  "new_announcer show_branch = \<lparr>an_pending = [], an_removed = [], an_show_branch = show_branch\<rparr>"

definition put_in_group :: "sourced_step list list \<Rightarrow> sourced_step \<Rightarrow> sourced_step list list" where
  "put_in_group groups step =
     (if groups \<noteq> [] \<and> last groups \<noteq> [] \<and> ss_source (last (last groups)) = ss_source step
      then butlast groups @ [last groups @ [step]]
      else groups @ [[step]])"

definition into_source_groups :: "sourced_step list \<Rightarrow> sourced_step list list" where
  "into_source_groups flat = foldl put_in_group [] flat"

definition add_steps :: "command_context \<Rightarrow> hook_type \<Rightarrow> string option \<Rightarrow> sourced_step list \<Rightarrow> announcer \<Rightarrow> announcer" where
  "add_steps cx ht display steps an =
     an\<lparr>an_pending := an_pending an @
          map (\<lambda>g. \<lparr>pp_worktree = cx_path cx, pp_branch = cx_branch cx, pp_type = ht, pp_display = display, pp_steps = g\<rparr>)
            (into_source_groups steps)\<rparr>"

definition register ::
  "runner \<Rightarrow> (error_chain + project_config option) \<Rightarrow> command_context \<Rightarrow> hook_type \<Rightarrow> (string \<times> string) list \<Rightarrow> string option \<Rightarrow>
   announcer \<Rightarrow> announcer fallible" where
  "register ru pc cx ht extra display an =
     abind (aret (hook_of pc ht)) (\<lambda>project.
     abind (dropping (project_identifier (tg_gix (ru_templating ru)) (ru_env ru))) (\<lambda>p.
     abind (prepare_and_check ru cx (hooks_get (user_hooks (cx_config cx) p) ht) project ht extra []) (\<lambda>flat.
       aret (Inr (add_steps cx ht display flat an)))))"

definition register_planned ::
  "runner \<Rightarrow> approved_plan \<Rightarrow> string \<Rightarrow> command_context \<Rightarrow> hook_type \<Rightarrow> (string \<times> string) list \<Rightarrow> string option \<Rightarrow>
   announcer \<Rightarrow> announcer fallible" where
  "register_planned ru plan anchor cx ht extra display an =
     abind (map_error (\<lambda>e. Context ''failed to render planned hooks'' # e)
       (prepare_selected ru (plan_lookup plan ht anchor) cx extra ht)) (\<lambda>sourced.
       aret (Inr (add_steps cx ht display sourced an)))"

definition mark_worktree_removed :: "string \<Rightarrow> announcer \<Rightarrow> announcer" where
  "mark_worktree_removed path an = an\<lparr>an_removed := an_removed an @ [path]\<rparr>"

section \<open>Starting what was announced\<close>

definition step_names :: "sourced_step list \<Rightarrow> string option list list" where
  "step_names steps = map (\<lambda>st. map pr_name (prepared_commands (ss_step st))) steps"

definition pipeline_source :: "pending_pipeline \<Rightarrow> hook_source" where
  "pipeline_source p = ss_source (hd (pp_steps p))"

definition pipeline_summary :: "pending_pipeline \<Rightarrow> string" where
  "pipeline_summary p = format_pipeline_summary id (pipeline_source p) (step_names (pp_steps p))"

definition em_dash :: string where
  "em_dash = [CHR 0xE2, CHR 0x80, CHR 0x94]"

fun say_all :: "string list \<Rightarrow> unit io" where
  "say_all [] = Ret ()"
| "say_all (m # ms) = Say m (say_all ms)"

definition report_dropped_pipelines :: "runner \<Rightarrow> pending_pipeline list \<Rightarrow> unit io" where
  "report_dropped_pipelines ru dropped =
     say_all (map (\<lambda>p. ''Skipped '' @ hook_type_name (pp_type p) @ '': '' @ pipeline_summary p @ '' '' @ em_dash @
         '' worktree removed @ '' @ ru_show_path ru (pp_worktree p)) dropped @
       (if dropped \<noteq> [] then [''To run commands in a worktree before it is removed, use pre-remove''] else []))"

fun add_summary :: "hook_type \<Rightarrow> string \<Rightarrow> (hook_type \<times> string list) list \<Rightarrow> (hook_type \<times> string list) list" where
  "add_summary ht s [] = [(ht, [s])]"
| "add_summary ht s ((h, ss) # rest) = (if h = ht then (h, ss @ [s]) # rest else (h, ss) # add_summary ht s rest)"

definition type_summaries :: "pending_pipeline list \<Rightarrow> (hook_type \<times> string list) list" where
  "type_summaries ps = foldl (\<lambda>acc p. add_summary (pp_type p) (pipeline_summary p) acc) [] ps"

definition background_variable_table :: "runner \<Rightarrow> pending_pipeline list \<Rightarrow> hook_type \<Rightarrow> string list" where
  "background_variable_table ru ps ht =
     (case find (\<lambda>p. pp_type p = ht) ps of
        None \<Rightarrow> []
      | Some p \<Rightarrow>
          [hook_type_name ht @ '' template variables:'',
           rn_gutter (tg_renderer (ru_templating ru))
             (format_hook_variables ht (pr_context (hd (prepared_commands (ss_step (hd (pp_steps p)))))))])"

definition branch_suffix :: "bool \<Rightarrow> pending_pipeline list \<Rightarrow> string" where
  "branch_suffix show_branch ps =
     (case ps of
        p # _ \<Rightarrow> (case pp_branch p of Some b \<Rightarrow> if show_branch then '' for '' @ b else [] | None \<Rightarrow> [])
      | [] \<Rightarrow> [])"

definition background_announcement :: "runner \<Rightarrow> bool \<Rightarrow> pending_pipeline list \<Rightarrow> string" where
  "background_announcement ru show_branch ps =
     ''Running '' @
     join ''; '' (map (\<lambda>(ht, ss). hook_type_name ht @ branch_suffix show_branch ps @ '': '' @ join ''; '' ss) (type_summaries ps)) @
     (case find_map pp_display ps of Some path \<Rightarrow> '' @ '' @ ru_show_path ru path | None \<Rightarrow> [])"

definition spec_of :: "pending_pipeline \<Rightarrow> pipeline_spec" where
  "spec_of p =
     \<lparr>sp_worktree = pp_worktree p, sp_branch = (case pp_branch p of Some b \<Rightarrow> b | None \<Rightarrow> ''HEAD''), sp_type = pp_type p,
      sp_source = pipeline_source p, sp_steps = map ss_step (pp_steps p)\<rparr>"

definition spawn_hook_pipeline_quiet :: "runner \<Rightarrow> launcher \<Rightarrow> pending_pipeline \<Rightarrow> (error_chain + unit) io" where
  "spawn_hook_pipeline_quiet ru la p =
     (let spec = spec_of p in
      case la_encode la spec of
        Inl e \<Rightarrow> Ret (Inl [Context ''failed to serialize pipeline spec'', Plain e])
      | Inr json \<Rightarrow>
          (case la_exe la of
             Inl e \<Rightarrow> Ret (Inl [Context ''failed to resolve wt binary path'', Plain e])
           | Inr wt \<Rightarrow>
               io_bind (spawn_detached_exec ru (sp_worktree spec) wt [''hook'', ''run-pipeline''] (sp_branch spec)
                   (Hook_Log (sp_source spec) (sp_type spec) ''runner'') json) (\<lambda>r. case r of
                 Inl err \<Rightarrow>
                   Say (''Failed to spawn pipeline: '' @ join '': '' (show_chain (tg_renderer (ru_templating ru)) err)) (Ret (Inr ()))
               | Inr _ \<Rightarrow> Ret (Inr ()))))"

fun spawn_pipelines :: "runner \<Rightarrow> launcher \<Rightarrow> pending_pipeline list \<Rightarrow> (error_chain + unit) io" where
  "spawn_pipelines ru la [] = Ret (Inr ())"
| "spawn_pipelines ru la (p # ps) =
     io_bind (spawn_hook_pipeline_quiet ru la p) (\<lambda>r. case r of Inl e \<Rightarrow> Ret (Inl e) | Inr _ \<Rightarrow> spawn_pipelines ru la ps)"

definition kept :: "string list \<Rightarrow> pending_pipeline \<Rightarrow> bool" where
  "kept removed p \<longleftrightarrow> \<not> list_ex (\<lambda>w. same_path w (pp_worktree p)) removed"

definition run_hooks_background ::
  "runner \<Rightarrow> launcher \<Rightarrow> pending_pipeline list \<Rightarrow> string list \<Rightarrow> bool \<Rightarrow> (error_chain + unit) io" where
  "run_hooks_background ru la pipelines removed show_branch =
     (let live = filter (kept removed) pipelines;
          dropped = filter (\<lambda>p. \<not> kept removed p) pipelines
      in io_bind (report_dropped_pipelines ru dropped) (\<lambda>_.
        if live = [] then Ret (Inr ())
        else io_bind (say_all
               ((if 1 \<le> tg_verbosity (ru_templating ru)
                 then concat (map (\<lambda>(ht, _). background_variable_table ru live ht) (type_summaries live)) else []) @
                [background_announcement ru show_branch live])) (\<lambda>_.
          spawn_pipelines ru la live)))"

definition flush :: "runner \<Rightarrow> launcher \<Rightarrow> announcer \<Rightarrow> (announcer \<times> (error_chain + unit)) io" where
  "flush ru la an =
     (if an_pending an = [] then Ret (an, Inr ())
      else io_bind (run_hooks_background ru la (an_pending an) (an_removed an) (an_show_branch an)) (\<lambda>r.
        Ret (an\<lparr>an_pending := []\<rparr>, r)))"

definition drop_announcer :: "runner \<Rightarrow> launcher \<Rightarrow> announcer \<Rightarrow> unit io" where
  "drop_announcer ru la an =
     (if an_pending an = [] then Ret ()
      else io_bind (flush ru la an) (\<lambda>(_, r).
        case r of
          Inr _ \<Rightarrow> Ret ()
        | Inl err \<Rightarrow>
            Say (''Failed to spawn pending hooks: '' @ join '': '' (show_chain (tg_renderer (ru_templating ru)) err)) (Ret ())))"

end
