(* ===== verification/Background_Properties.thy ===== *)
theory Background_Properties
  imports Background_Hooks Pipeline_Properties
begin

text \<open>
  Properties of background hooks: the process that runs a pipeline waits for every child it starts, exactly once,
  however it ends, and starts nothing after a failed one; the announcer starts the pipelines of the worktrees that
  are still there, one process for each source, in the order they were registered.
\<close>

section \<open>Children\<close>

definition started :: "event list \<Rightarrow> nat list" where
  "started = filter_map (\<lambda>e. case e of Spawned _ (Inr p) \<Rightarrow> Some p | _ \<Rightarrow> None)"

definition waited :: "event list \<Rightarrow> nat list" where
  "waited = filter_map (\<lambda>e. case e of Child_Waited p _ \<Rightarrow> Some p | _ \<Rightarrow> None)"

definition children_of :: "(prepared_command \<times> string \<times> (error_chain + nat)) list \<Rightarrow> nat list" where
  "children_of = filter_map (\<lambda>(_, _, r). case r of Inr p \<Rightarrow> Some p | Inl _ \<Rightarrow> None)"

lemma children_append [simp]:
  "started (a @ b) = started a @ started b" "waited (a @ b) = waited a @ waited b"
  "children_of (x @ y) = children_of x @ children_of y"
  by (simp_all add: started_def waited_def children_of_def filter_map_append)

lemma children_simps [simp]:
  "started [] = []" "waited [] = []" "children_of [] = []"
  "started (Spawned c (Inr p) # tr) = p # started tr" "started (Spawned c (Inl f) # tr) = started tr"
  "waited (Spawned c r # tr) = waited tr" "started (Child_Waited p w # tr) = started tr"
  "waited (Child_Waited p w # tr) = p # waited tr" "started (Child_Killed p # tr) = started tr"
  "waited (Child_Killed p # tr) = waited tr"
  "children_of ((cmd, t, Inr p) # xs) = p # children_of xs" "children_of ((cmd, t, Inl e) # xs) = children_of xs"
  by (simp_all add: started_def waited_def children_of_def)

lemma shell_event_simps [simp]:
  "shell_event (Spawned c q)" "shell_event (Child_Waited p w)" "shell_event (Child_Killed p)"
  by (simp_all add: shell_event_def)

lemma no_children:
  assumes "\<forall>e\<in>set tr. \<not> shell_event e"
  shows "started tr = []" "waited tr = []"
  using assms by (induction tr) (auto simp: started_def waited_def shell_event_def split: event.splits sum.splits)

lemma quiet_log: "quiet_for shell_event (create_command_log ru spec dir name)"
proof -
  have "avoids shell_event (Open_Log d f Ret)" for d f
    by (auto simp: avoids_def shell_event_def runs)
  then show ?thesis
    unfolding create_command_log_def Let_def by (intro quiet_intros)
qed

lemma start_cases:
  assumes "renders_through_functions (ru_templating ru)" "runs (start_command ru spec dir i cmd s) tr (s', r)"
  obtains (Failed) ch where "r = Inl ch" "\<forall>e\<in>set tr. \<not> shell_event e"
    | (Refused) t ch where "r = Inr (t, Inl ch)" "started tr = []" "waited tr = []" "\<forall>e\<in>set tr. \<forall>p w. e \<noteq> Child_Waited p w"
    | (Started) t1 c p t where "r = Inr (t, Inr p)" "tr = t1 @ [Spawned c (Inr p)]" "\<forall>e\<in>set t1. \<not> shell_event e"
proof -
  have l: "quiet_for shell_event (create_command_log ru spec dir (command_log_name (pr_name cmd) i))" by (rule quiet_log)
  have q: "quiet_for shell_event (resolve_command_str ru cmd)" by (rule shells.quiet_resolve[OF assms(1)])
  from assms(2) show thesis
    unfolding start_command_def
  proof (cases rule: abindE)
    case (Err s1 e)
    with quiet_run[OF l] show ?thesis by (intro Failed) auto
  next
    case (Ok s1 u t1 t2)
    from quiet_run[OF l Ok(2)] have n1: "\<forall>e\<in>set t1. \<not> shell_event e" by blast
    from Ok(3) show ?thesis
    proof (cases rule: abindE)
      case (Err s2 e)
      with Ok(1) n1 quiet_run[OF q Err(1)] show ?thesis by (intro Failed) auto
    next
      case (Ok s2 x u1 u2)
      from quiet_run[OF q Ok(2)] n1 have n2: "\<forall>e\<in>set (t1 @ u1). \<not> shell_event e" by auto
      have tr: "tr = (t1 @ u1) @ u2" using Ok(1) \<open>tr = t1 @ t2\<close> by simp
      from Ok(3) obtain q where q: "runs (spawn_shell_command ru x (sp_worktree spec)) u2 q" "r = Inr (x, wrapping spec cmd q)"
        by (auto simp: act_simps)
      show ?thesis
      proof (cases "\<exists>c p. u2 = [Spawned c (Inr p)] \<and> q = Inr p")
        case True
        with q tr n2 show ?thesis by (auto simp: wrapping_def intro!: Started)
      next
        case False
        with q(1) obtain ch where ch: "q = Inl ch" "u2 = [] \<or> (\<exists>c f. u2 = [Spawned c (Inl f)])"
          by (auto simp: spawn_shell_command_def runs split_sum_ex split: option.splits)
        with q(2) have "\<exists>ch. r = Inr (x, Inl ch)" by (simp add: wrapping_def)
        moreover have "started tr = []" "waited tr = []" using ch(2) tr no_children[OF n2] by auto
        moreover have "\<forall>e\<in>set tr. \<forall>p w. e \<noteq> Child_Waited p w"
          using ch(2) tr n2 by (fastforce dest: bspec[of _ _ "Child_Waited _ _"])
        ultimately show ?thesis using Refused by blast
      qed
    qed
  qed
qed

lemma finish_cases:
  assumes "runs (finish_command spec cmd st s) tr (s', r)"
  obtains (Refused) ch where "snd st = Inl ch" "tr = []" "r = Inl ch"
    | (Waited) p w where "snd st = Inr p" "tr = [Child_Waited p w]"
        "r = Inr () \<Longrightarrow> \<exists>sig. w = Inr (Some 0, sig)"
proof (cases "snd st")
  case (Inl ch)
  with assms Refused show thesis by (simp add: finish_command_def act_simps)
next
  case (Inr p)
  with assms have "(\<exists>e ch. tr = [Child_Waited p (Inl e)] \<and> r = Inl ch) \<or>
      (\<exists>c sig. tr = [Child_Waited p (Inr (c, sig))] \<and> r = checked spec cmd (c, sig))"
    by (auto simp: finish_command_def wait_resolving_def act_simps runs split_sum_ex)
  then show thesis
    using Inr Waited[of p] by (auto simp: checked_def split: if_splits)
qed

section \<open>Every child is waited for once\<close>

definition reaps :: "'a fallible \<Rightarrow> bool" where
  "reaps m \<longleftrightarrow> (\<forall>s tr s' r. runs (m s) tr (s', r) \<longrightarrow> mset (started tr) = mset (waited tr))"

lemma reaps_aret: "reaps (aret r)"
  by (auto simp: reaps_def act_simps)

lemma reaps_bind: "reaps m \<Longrightarrow> (\<And>x. reaps (f x)) \<Longrightarrow> reaps (abind m f)"
  unfolding reaps_def by (fastforce simp: act_simps)

lemma finish_children:
  "runs (finish_command spec cmd st s) tr (s', r) \<Longrightarrow> started tr = [] \<and> waited tr = children_of [(cmd, st)]"
  by (cases st) (erule finish_cases; auto)

lemma start_children:
  assumes "renders_through_functions (ru_templating ru)" "runs (start_command ru spec dir i cmd s) tr (s', r)"
  shows "waited tr = [] \<and> started tr = (case r of Inl _ \<Rightarrow> [] | Inr st \<Rightarrow> children_of [(cmd, st)])"
  using assms by (cases rule: start_cases) (auto simp: no_children)

lemma reaps_single:
  assumes "renders_through_functions (ru_templating ru)"
  shows "reaps (run_single ru spec dir i cmd)"
  unfolding reaps_def run_single_def
  by (auto simp: act_simps dest!: start_children[OF assms] finish_children)

lemma tear_down_children: "runs (tear_down cs) tr u \<Longrightarrow> started tr = [] \<and> waited tr = children_of cs"
  by (induction cs arbitrary: tr rule: tear_down.induct) (auto simp: runs)

lemma spawn_all_children:
  assumes "renders_through_functions (ru_templating ru)"
  shows "runs (spawn_all ru spec dir i cmds children s) tr (s', r) \<Longrightarrow>
    (case r of
       Inl _ \<Rightarrow> mset (waited tr) = mset (started tr) + mset (children_of children)
     | Inr cs \<Rightarrow> waited tr = [] \<and> children_of cs = children_of children @ started tr)"
proof (induction cmds arbitrary: i children s tr)
  case Nil
  then show ?case by (auto simp: act_simps)
next
  case (Cons cmd cmds)
  from Cons.prems obtain s1 q t1 t2 where tr: "tr = t1 @ t2" "runs (start_command ru spec dir i cmd s) t1 (s1, q)"
      "runs ((case q of
         Inl e \<Rightarrow> abind (perform (tear_down children)) (\<lambda>_. aret (Inl e))
       | Inr st \<Rightarrow> spawn_all ru spec dir (Suc i) cmds (children @ [(cmd, st)])) s1) t2 (s', r)"
    by (auto simp: act_simps)
  note c = start_children[OF assms tr(2)]
  show ?case
  proof (cases q)
    case (Inl e)
    with tr(3) have "runs (tear_down children) t2 ()" "r = Inl e" by (auto simp: act_simps)
    with tear_down_children c Inl tr(1) show ?thesis by fastforce
  next
    case (Inr st)
    with tr(3) have "runs (spawn_all ru spec dir (Suc i) cmds (children @ [(cmd, st)]) s1) t2 (s', r)" by simp
    from Cons.IH[OF this] c Inr tr(1) show ?thesis by (auto split: sum.splits)
  qed
qed

lemma wait_all_children:
  "runs (wait_first_error (map (\<lambda>(cmd, st). finish_command spec cmd st) cs) first s) tr (s', r) \<Longrightarrow>
   started tr = [] \<and> waited tr = children_of cs"
proof (induction cs arbitrary: first s tr)
  case Nil
  then show ?case by (auto simp: act_simps)
next
  case (Cons c cs)
  obtain cmd st where c: "c = (cmd, st)" by (cases c)
  have "children_of (c # cs) = children_of [(cmd, st)] @ children_of cs"
    using children_append(3)[of "[(cmd, st)]" cs] c by simp
  with Cons.prems c show ?case
    by (auto simp: act_simps dest!: Cons.IH finish_children)
qed

lemma reaps_group:
  assumes "renders_through_functions (ru_templating ru)"
  shows "reaps (run_group ru spec dir i cmds)"
proof (cases "ru_serial ru")
  case True
  have "reaps (run_serially ru spec dir i cmds)" for i
    by (induction cmds arbitrary: i) (auto intro: reaps_bind reaps_aret reaps_single[OF assms])
  with True show ?thesis by (simp add: run_group_def)
next
  case False
  then show ?thesis
    by (fastforce simp: reaps_def run_group_def act_simps dest!: spawn_all_children[OF assms] wait_all_children)
qed

lemma reaps_steps:
  assumes "renders_through_functions (ru_templating ru)"
  shows "reaps (run_spec_steps ru spec dir i steps)"
proof (induction steps arbitrary: i)
  case (Cons st steps)
  then show ?case
    by (cases st) (auto intro!: reaps_bind reaps_single[OF assms] reaps_group[OF assms])
qed (simp add: reaps_aret)

lemma reaps_given: "(\<And>y. x = Inr y \<Longrightarrow> reaps (f y)) \<Longrightarrow> reaps (abind (aret x) f)"
  unfolding reaps_def by (fastforce simp: act_simps)

lemma in_context_Inr [simp]: "in_context t r = Inr x \<longleftrightarrow> r = Inr x"
  by (cases r) (simp_all add: in_context_def)

text \<open>
  C34: The process of a background pipeline leaves no child behind. In every run, whatever fails (a log, a template,
  a start, a wait, a command), each child process it started is waited for exactly once, also the children that
  are killed because a later member of their group could not be set up.
\<close>

theorem background_children_are_reaped:
  assumes "\<And>dir ru. repo_at dir = Inr ru \<Longrightarrow> renders_through_functions (ru_templating ru)"
    and "runs (run_pipeline input decode repo_at s) tr (s', r)"
  shows "mset (started tr) = mset (waited tr)"
proof -
  have "reaps (run_pipeline input decode repo_at)"
    unfolding run_pipeline_def
    by (intro reaps_given reaps_steps) (simp add: assms(1))
  with assms(2) show ?thesis by (auto simp: reaps_def)
qed

section \<open>Nothing starts after a failure\<close>

definition failed_wait :: "event \<Rightarrow> bool" where
  "failed_wait e \<longleftrightarrow> (case e of Child_Waited p (Inr (code, sig)) \<Rightarrow> code \<noteq> Some 0 | Child_Waited p (Inl _) \<Rightarrow> True | _ \<Rightarrow> False)"

abbreviation stopping :: "'a fallible \<Rightarrow> bool" where
  "stopping \<equiv> halts_on failed_wait (\<lambda>_ _. True)"

lemma failed_wait_iff: "failed_wait e \<longleftrightarrow> (\<exists>p w. e = Child_Waited p w \<and> (\<forall>sig. w \<noteq> Inr (Some 0, sig)))"
  by (auto simp: failed_wait_def split: event.split sum.split prod.split)

lemma stopping_calm: "(\<And>s tr s' r e. runs (m s) tr (s', r) \<Longrightarrow> e \<in> set tr \<Longrightarrow> \<not> failed_wait e) \<Longrightarrow> stopping m"
  unfolding halts_on_def by (metis in_set_conv_decomp)

lemma stopping_final:
  "(\<And>s tr s' r. runs (m s) tr (s', r) \<Longrightarrow>
      (\<forall>e\<in>set tr. \<not> starts_command e) \<and> ((\<exists>e\<in>set tr. failed_wait e) \<longrightarrow> (\<exists>ch. r = Inl ch))) \<Longrightarrow> stopping m"
  unfolding halts_on_def by (metis Un_iff in_set_conv_decomp set_append list.set_intros(2))

lemma stopping_aret: "stopping (aret r)"
  by (auto intro: stopping_calm simp: act_simps)

lemma stopping_start:
  assumes "renders_through_functions (ru_templating ru)"
  shows "stopping (start_command ru spec dir i cmd)"
proof (rule stopping_calm)
  fix s tr s' r e
  assume "runs (start_command ru spec dir i cmd s) tr (s', r)" "e \<in> set tr"
  with assms show "\<not> failed_wait e"
    by (cases rule: start_cases) (auto simp: failed_wait_iff dest: bspec[of _ _ "Child_Waited _ _"])
qed

lemma finish_final:
  assumes "runs (finish_command spec cmd st s) tr (s', r)"
  shows "(\<forall>e\<in>set tr. \<not> starts_command e) \<and> ((\<exists>e\<in>set tr. failed_wait e) \<longrightarrow> (\<exists>ch. r = Inl ch))"
  using assms by (cases rule: finish_cases) (cases r; auto simp: failed_wait_iff starts_command_def)+

lemma stopping_single:
  assumes "renders_through_functions (ru_templating ru)"
  shows "stopping (run_single ru spec dir i cmd)"
  unfolding run_single_def
  by (rule halts_on_bind[OF stopping_start[OF assms]]) (rule stopping_final, rule finish_final)

lemma wait_all_final:
  "runs (wait_first_error (map (\<lambda>(cmd, st). finish_command spec cmd st) cs) first s) tr (s', r) \<Longrightarrow>
   (\<forall>e\<in>set tr. \<not> starts_command e) \<and> (first \<noteq> None \<or> (\<exists>e\<in>set tr. failed_wait e) \<longrightarrow> (\<exists>ch. r = Inl ch))"
proof (induction cs arbitrary: first s tr)
  case Nil
  then show ?case by (auto simp: act_simps)
next
  case (Cons c cs)
  obtain cmd st where c: "c = (cmd, st)" by (cases c)
  let ?first = "\<lambda>q. case (q, first) of (Inl e, None) \<Rightarrow> Some e | _ \<Rightarrow> first"
  from Cons.prems c obtain s1 q t1 t2 where tr: "tr = t1 @ t2" "runs (finish_command spec cmd st s) t1 (s1, q)"
      "runs (wait_first_error (map (\<lambda>(cmd, st). finish_command spec cmd st) cs) (?first q) s1) t2 (s', r)"
    by (auto simp: act_simps)
  have "?first q \<noteq> None" if "first \<noteq> None \<or> (\<exists>ch. q = Inl ch)" using that by (auto split: sum.splits option.splits)
  with Cons.IH[OF tr(3)] finish_final[OF tr(2)] tr(1) show ?case by auto
qed

lemma spawn_all_calm:
  assumes "renders_through_functions (ru_templating ru)"
  shows "runs (spawn_all ru spec dir i cmds children s) tr (s', r) \<Longrightarrow> tr = pre @ e # post \<Longrightarrow> failed_wait e \<Longrightarrow>
    (\<exists>ch. r = Inl ch) \<and> (\<forall>e'\<in>set post. \<not> starts_command e')"
proof (induction cmds arbitrary: i children s tr pre)
  case Nil
  then show ?case by (auto simp: act_simps)
next
  case (Cons cmd cmds)
  from Cons.prems(1) obtain s1 q t1 t2 where tr: "tr = t1 @ t2" "runs (start_command ru spec dir i cmd s) t1 (s1, q)"
      "runs ((case q of
         Inl e \<Rightarrow> abind (perform (tear_down children)) (\<lambda>_. aret (Inl e))
       | Inr st \<Rightarrow> spawn_all ru spec dir (Suc i) cmds (children @ [(cmd, st)])) s1) t2 (s', r)"
    by (auto simp: act_simps)
  have calm: "\<forall>e\<in>set t1. \<not> failed_wait e"
    using assms tr(2) by (cases rule: start_cases) (auto simp: failed_wait_iff dest: bspec[of _ _ "Child_Waited _ _"])
  from tr(1) Cons.prems(2) have "t1 @ t2 = pre @ e # post" by simp
  then obtain us where us: "t2 = us @ e # post"
    by (cases rule: append_split_cases) (use calm Cons.prems(3) in auto)
  show ?case
  proof (cases q)
    case (Inl ch)
    have "\<forall>e\<in>set t. \<not> starts_command e" if "runs (tear_down cs) t u" for cs t u
      using that by (induction cs arbitrary: t rule: tear_down.induct) (auto simp: runs starts_command_def)
    with Inl tr(3) us show ?thesis by (auto simp: act_simps)
  next
    case (Inr st)
    with tr(3) have "runs (spawn_all ru spec dir (Suc i) cmds (children @ [(cmd, st)]) s1) t2 (s', r)" by simp
    from Cons.IH[OF this us Cons.prems(3)] show ?thesis .
  qed
qed

lemma stopping_group:
  assumes "renders_through_functions (ru_templating ru)"
  shows "stopping (run_group ru spec dir i cmds)"
proof (cases "ru_serial ru")
  case True
  have "stopping (run_serially ru spec dir i cmds)" for i
    by (induction cmds arbitrary: i) (simp_all add: stopping_aret halts_on_bind stopping_single[OF assms])
  with True show ?thesis by (simp add: run_group_def)
next
  case False
  have "stopping (spawn_all ru spec dir i cmds [])"
    unfolding halts_on_def using spawn_all_calm[OF assms] by blast
  moreover have "stopping (wait_first_error (map (\<lambda>(cmd, st). finish_command spec cmd st) cs) None)" for cs
    by (rule stopping_final) (drule wait_all_final, blast)
  ultimately show ?thesis using False by (simp add: run_group_def halts_on_bind)
qed

lemma stopping_steps:
  assumes "renders_through_functions (ru_templating ru)"
  shows "stopping (run_spec_steps ru spec dir i steps)"
proof (induction steps arbitrary: i)
  case (Cons st steps)
  then show ?case
    by (cases st) (auto intro!: halts_on_bind stopping_single[OF assms] stopping_group[OF assms])
qed (simp add: stopping_aret)

lemma stopping_given: "(\<And>y. x = Inr y \<Longrightarrow> stopping (f y)) \<Longrightarrow> stopping (abind (aret x) f)"
  by (cases x) (auto simp: halts_on_def act_simps)

text \<open>
  C35: A background pipeline aborts at the first command that fails. After a wait for a child that ended by another
  status than success, or that could not be made, the process starts no further child and ends with an error; the
  other members of a concurrent group are still waited for.
\<close>

theorem background_stops_on_failure:
  assumes "\<And>dir ru. repo_at dir = Inr ru \<Longrightarrow> renders_through_functions (ru_templating ru)"
    and "runs (run_pipeline input decode repo_at s) (pre @ e # post) (s', r)" "failed_wait e"
  shows "(\<exists>ch. r = Inl ch) \<and> (\<forall>e'\<in>set post. \<not> starts_command e')"
proof -
  have "stopping (run_pipeline input decode repo_at)"
    unfolding run_pipeline_def by (intro stopping_given stopping_steps) (simp add: assms(1))
  then show ?thesis using assms(2,3) unfolding halts_on_def by blast
qed

text \<open>A pipeline of two steps whose first command ends with status 1.\<close>

definition sample_spec :: pipeline_spec where
  "sample_spec = \<lparr>sp_worktree = ''/wt'', sp_branch = ''b'', sp_type = Post_Merge, sp_source = User,
     sp_steps = [Single_Step (sample_command ''build''), Single_Step (sample_command ''test'')]\<rparr>"

definition sample_log :: event where
  "sample_log = Log_Opened (wt_logs_dir config_env)
     (log_path literal_engine (Hook_Log User Post_Merge (command_log_name None 0)) [] ''b'') None"

definition sample_start :: event where
  "sample_start = Spawned \<lparr>sh_dir = ''/wt'', sh_command = ''build'', sh_label = None, sh_stdin = Closed_Stdin,
     sh_merge_stdout = False, sh_scrub = True, sh_cd_file = None\<rparr> (Inr 7)"

lemma sample_background_run:
  "\<exists>r. runs (run_pipeline (Inr ''spec'') (\<lambda>_. Inr sample_spec) (\<lambda>_. Inr sample_runner) one_worktree)
     ([sample_log, sample_start] @ Child_Waited 7 (Inr (Some 1, None)) # []) (one_worktree, r)"
proof -
  have f: "ru_env sample_runner = config_env" "ru_templating sample_runner = literal_engine" "ru_shell sample_runner = None"
    by (simp_all add: sample_runner_def)
  show ?thesis
    by (simp add: run_pipeline_def in_context_def sample_spec_def f run_single_def start_command_def create_command_log_def
        Let_def abind_def aret_def perform_def sample_fields sample_resolves spawn_shell_command_def finish_command_def
        wait_resolving_def checked_def wrapping_def runs_replay sample_log_def sample_start_def)
qed

lemma sample_law: "(\<lambda>_ :: string. Inr sample_runner :: error_chain + runner) dir = Inr ru \<Longrightarrow> renders_through_functions (ru_templating ru)"
  by (auto simp: sample_runner_def literal_engine_law)

theorem background_children_are_reaped_witness:
  "mset (started [sample_log, sample_start, Child_Waited 7 (Inr (Some 1, None))]) =
   mset (waited [sample_log, sample_start, Child_Waited 7 (Inr (Some 1, None))])"
proof -
  obtain r where "runs (run_pipeline (Inr ''spec'') (\<lambda>_. Inr sample_spec) (\<lambda>_. Inr sample_runner) one_worktree)
     [sample_log, sample_start, Child_Waited 7 (Inr (Some 1, None))] (one_worktree, r)"
    using sample_background_run by auto
  from background_children_are_reaped[OF sample_law this] show ?thesis .
qed

theorem background_stops_on_failure_witness:
  "\<exists>ch. runs (run_pipeline (Inr ''spec'') (\<lambda>_. Inr sample_spec) (\<lambda>_. Inr sample_runner) one_worktree)
     [sample_log, sample_start, Child_Waited 7 (Inr (Some 1, None))] (one_worktree, Inl ch)"
proof -
  obtain r where run: "runs (run_pipeline (Inr ''spec'') (\<lambda>_. Inr sample_spec) (\<lambda>_. Inr sample_runner) one_worktree)
     ([sample_log, sample_start] @ Child_Waited 7 (Inr (Some 1, None)) # []) (one_worktree, r)"
    using sample_background_run by blast
  have "failed_wait (Child_Waited 7 (Inr (Some 1, None)))" by (simp add: failed_wait_def)
  from background_stops_on_failure[OF sample_law run this] run show ?thesis by auto
qed

section \<open>What the announcer starts\<close>

lemma put_in_group_concat: "concat (put_in_group gs st) = concat gs @ [st]"
  by (cases gs rule: rev_cases) (auto simp: put_in_group_def)

lemma groups_concat: "concat (into_source_groups steps) = steps"
  unfolding into_source_groups_def
  by (induction steps rule: rev_induct) (simp_all add: put_in_group_concat)

definition one_source :: "sourced_step list \<Rightarrow> bool" where
  "one_source g \<longleftrightarrow> g \<noteq> [] \<and> (\<exists>src. \<forall>st\<in>set g. ss_source st = src)"

lemma groups_one_source: "\<forall>g\<in>set (into_source_groups steps). one_source g"
proof -
  have put: "\<forall>g\<in>set (put_in_group gs st). one_source g" if "\<forall>g\<in>set gs. one_source g" for gs st
  proof (cases "gs \<noteq> [] \<and> last gs \<noteq> [] \<and> ss_source (last (last gs)) = ss_source st")
    case True
    with that have "one_source (last gs)" by simp
    then obtain src where src: "\<forall>g\<in>set (last gs). ss_source g = src" by (auto simp: one_source_def)
    with True have "ss_source st = src" by (metis last_in_set)
    with src have "one_source (last gs @ [st])" by (auto simp: one_source_def)
    with True that show ?thesis by (auto simp: put_in_group_def dest: in_set_butlastD)
  next
    case False
    with that show ?thesis by (auto simp: put_in_group_def one_source_def)
  qed
  show ?thesis
    unfolding into_source_groups_def by (induction steps rule: rev_induct) (simp_all add: put)
qed

definition launch_event :: "event \<Rightarrow> bool" where
  "launch_event e \<longleftrightarrow> (case e of Log_Opened _ _ _ \<Rightarrow> True | event.Detached _ _ _ _ _ \<Rightarrow> True | _ \<Rightarrow> False)"

text \<open>The start of one pipeline: its log, and its process if the log could be opened.\<close>

definition launch :: "runner \<Rightarrow> string \<Rightarrow> (pending_pipeline \<Rightarrow> string) \<Rightarrow> pending_pipeline \<Rightarrow> string + string option \<Rightarrow> event list" where
  "launch ru wt json p out =
     (let dir = wt_logs_dir (ru_env ru);
          branch = (case pp_branch p of Some b \<Rightarrow> b | None \<Rightarrow> ''HEAD'');
          relative = log_path (ru_templating ru) (Hook_Log (pipeline_source p) (pp_type p) ''runner'') [] branch
      in case out of
           Inl e \<Rightarrow> [Log_Opened dir relative (Some e)]
         | Inr d \<Rightarrow>
             [Log_Opened dir relative None,
              event.Detached (pp_worktree p) [wt, ''hook'', ''run-pipeline''] (path_join dir relative) (json p) d])"

lemma said_not_launch [simp]: "\<not> launch_event (Said m)"
  by (simp add: launch_event_def)

lemma say_all_runs: "runs (say_all ms) tr u \<longleftrightarrow> tr = map Said ms"
  by (induction ms arbitrary: tr) (auto simp: runs)

lemma detached_runs:
  fixes ru :: runner
  defines "dir \<equiv> wt_logs_dir (ru_env ru)"
  assumes "runs (spawn_detached_exec ru w wt args b hl input) tr q"
  shows "(\<exists>e. tr = [Log_Opened dir (log_path (ru_templating ru) hl [] b) (Some e)]) \<or>
    (\<exists>d. tr = [Log_Opened dir (log_path (ru_templating ru) hl [] b) None,
               event.Detached w (wt # args) (path_join dir (log_path (ru_templating ru) hl [] b)) input d])"
proof -
  from assms(2) obtain t1 t2 x where tr: "tr = t1 @ t2" "runs (create_detach_log ru b hl) t1 x"
      "runs (case x of
       Inl e \<Rightarrow> Ret (Inl e)
     | Inr path \<Rightarrow>
         Spawn_Detached w (wt # args) path input (\<lambda>r. Ret (case r of
           Some e \<Rightarrow> Inl [Context ''Failed to spawn detached process'', Plain e]
         | None \<Rightarrow> Inr path))) t2 q"
    unfolding spawn_detached_exec_def by (rule io_bindE)
  from tr(2) obtain o1 where o1: "t1 = [Log_Opened dir (log_path (ru_templating ru) hl [] b) o1]"
      "x = (case o1 of Some e \<Rightarrow> Inl [Context (''Failed to create log file '' @ ru_show_path ru (path_join dir (log_path (ru_templating ru) hl [] b))), Plain e]
            | None \<Rightarrow> Inr (path_join dir (log_path (ru_templating ru) hl [] b)))"
    unfolding create_detach_log_def Let_def dir_def by (auto simp: runs simp del: log_path.simps)
  with tr(1,3) show ?thesis by (cases o1) (auto simp: runs)
qed

lemma spawn_one:
  assumes "la_encode la (spec_of p) = Inr (json p)" "la_exe la = Inr wt"
    and "runs (spawn_hook_pipeline_quiet ru la p) tr r"
  shows "r = Inr () \<and> (\<exists>out. filter launch_event tr = launch ru wt json p out)"
proof -
  let ?dir = "wt_logs_dir (ru_env ru)"
  let ?hl = "Hook_Log (pipeline_source p) (pp_type p) ''runner''"
  let ?branch = "case pp_branch p of Some b \<Rightarrow> b | None \<Rightarrow> ''HEAD''"
  let ?rel = "log_path (ru_templating ru) ?hl [] ?branch"
  let ?args = "[''hook'', ''run-pipeline'']"
  have "runs (io_bind (spawn_detached_exec ru (pp_worktree p) wt ?args ?branch ?hl (json p)) (\<lambda>r. case r of
         Inl err \<Rightarrow>
           Say (''Failed to spawn pipeline: '' @ join '': '' (show_chain (tg_renderer (ru_templating ru)) err)) (Ret (Inr ()))
       | Inr _ \<Rightarrow> Ret (Inr ()))) tr r"
    using assms(3) unfolding spawn_hook_pipeline_quiet_def Let_def assms(1,2) sum.case
    by (simp only: spec_of_def pipeline_spec.simps)
  then obtain t1 t2 q where tr0: "tr = t1 @ t2"
      "runs (spawn_detached_exec ru (pp_worktree p) wt ?args ?branch ?hl (json p)) t1 q"
      "runs (case q of
         Inl err \<Rightarrow>
           Say (''Failed to spawn pipeline: '' @ join '': '' (show_chain (tg_renderer (ru_templating ru)) err)) (Ret (Inr ()))
       | Inr _ \<Rightarrow> Ret (Inr ())) t2 r"
    by (rule io_bindE)
  then have "r = Inr ()" "filter launch_event t2 = []" by (auto simp: runs split: sum.splits)
  note tr = tr0(1,2) this
  from detached_runs[OF tr(2)] have "\<exists>out. t1 = launch ru wt json p out"
  proof
    assume "\<exists>e. t1 = [Log_Opened ?dir ?rel (Some e)]"
    then obtain e where "t1 = [Log_Opened ?dir ?rel (Some e)]" by blast
    then have "t1 = launch ru wt json p (Inl e)" by (simp add: launch_def Let_def del: log_path.simps)
    then show ?thesis by blast
  next
    assume "\<exists>d. t1 = [Log_Opened ?dir ?rel None, event.Detached (pp_worktree p) (wt # ?args) (path_join ?dir ?rel) (json p) d]"
    then obtain d where "t1 = [Log_Opened ?dir ?rel None, event.Detached (pp_worktree p) (wt # ?args) (path_join ?dir ?rel) (json p) d]"
      by blast
    then have "t1 = launch ru wt json p (Inr d)" by (simp add: launch_def Let_def del: log_path.simps)
    then show ?thesis by blast
  qed
  moreover have "filter launch_event (launch ru wt json p out) = launch ru wt json p out" for out
    by (simp add: launch_def Let_def launch_event_def split: sum.split)
  ultimately show ?thesis using tr by auto
qed

lemma spawn_each:
  assumes "la_exe la = Inr wt"
  shows "runs (spawn_pipelines ru la ps) tr r \<Longrightarrow> (\<And>p. p \<in> set ps \<Longrightarrow> la_encode la (spec_of p) = Inr (json p)) \<Longrightarrow>
    r = Inr () \<and> (\<exists>outs. length outs = length ps \<and> filter launch_event tr = concat (map2 (launch ru wt json) ps outs))"
proof (induction ps arbitrary: tr)
  case Nil
  then show ?case by auto
next
  case (Cons p ps)
  from Cons.prems(1) obtain q t1 t2 where tr: "tr = t1 @ t2" "runs (spawn_hook_pipeline_quiet ru la p) t1 q"
      "runs (case q of Inl e \<Rightarrow> Ret (Inl e) | Inr _ \<Rightarrow> spawn_pipelines ru la ps) t2 r"
    by (auto simp: runs_bind)
  from spawn_one[OF _ assms tr(2), of json] Cons.prems(2) obtain out where
    out: "q = Inr ()" "filter launch_event t1 = launch ru wt json p out" by auto
  with tr(3) Cons.IH[of t2] Cons.prems(2) obtain outs where
    "r = Inr ()" "length outs = length ps" "filter launch_event t2 = concat (map2 (launch ru wt json) ps outs)" by auto
  with out tr(1) show ?case by (intro conjI exI[of _ "out # outs"]) auto
qed

text \<open>
  C36: What a flush starts. If a pipeline can be encoded and the program's own path is known, a flush opens the
  runner's log and starts a process for exactly the registered pipelines whose worktree was not removed by the
  command, one for each in the order of registration, in its worktree and with its own steps; a log that cannot be
  opened or a process that cannot be started skips that pipeline only. Nothing is pending afterwards.
\<close>

theorem flush_starts_live_pipelines:
  assumes "la_exe la = Inr wt" "\<And>p. p \<in> set (an_pending an) \<Longrightarrow> la_encode la (spec_of p) = Inr (json p)"
    and "runs (flush ru la an) tr (an', r)"
  shows "r = Inr () \<and> an' = an\<lparr>an_pending := []\<rparr> \<and>
    (\<exists>outs. length outs = length (filter (kept (an_removed an)) (an_pending an)) \<and>
       filter launch_event tr = concat (map2 (launch ru wt json) (filter (kept (an_removed an)) (an_pending an)) outs))"
proof (cases "an_pending an = []")
  case True
  with assms(3) show ?thesis by (cases an) (simp add: flush_def)
next
  case False
  let ?live = "filter (kept (an_removed an)) (an_pending an)"
  from False assms(3) have an: "an' = an\<lparr>an_pending := []\<rparr>"
    and run: "runs (run_hooks_background ru la (an_pending an) (an_removed an) (an_show_branch an)) tr r"
    by (auto simp: flush_def runs_bind)
  have said: "filter launch_event (map Said ms) = []" for ms by (simp add: filter_empty_conv)
  show ?thesis
  proof (cases "?live = []")
    case True
    with run said an show ?thesis
      by (auto simp: run_hooks_background_def Let_def runs_bind report_dropped_pipelines_def say_all_runs)
  next
    case nonempty: False
    with run obtain t2 ms where t2: "runs (spawn_pipelines ru la ?live) t2 r" "tr = map Said ms @ t2"
      by (auto simp: run_hooks_background_def Let_def runs_bind report_dropped_pipelines_def say_all_runs simp flip: map_append append_assoc)
    from spawn_each[OF assms(1) t2(1), of json] assms(2) t2(2) said an show ?thesis by auto
  qed
qed

lemma some_run: "\<exists>tr y. runs p tr y"
proof (induction p)
  case (Ret x)
  show ?case by (auto simp: runs)
qed (simp add: runs; blast?)+

text \<open>Two registered pipelines, the worktree of the second removed by the command.\<close>

definition sample_pending :: "string \<Rightarrow> pending_pipeline" where
  "sample_pending w = \<lparr>pp_worktree = w, pp_branch = Some ''b'', pp_type = Post_Merge, pp_display = None, pp_steps = [sample_step ''build'']\<rparr>"

definition sample_announcer :: announcer where
  "sample_announcer = \<lparr>an_pending = [sample_pending ''/wt'', sample_pending ''/gone''], an_removed = [''/gone/''], an_show_branch = False\<rparr>"

definition sample_launcher :: launcher where
  "sample_launcher = \<lparr>la_encode = \<lambda>_. Inr ''{}'', la_exe = Inr ''/bin/wt'', la_shell = Inr [''sh'', ''-c'']\<rparr>"

theorem flush_starts_live_pipelines_witness:
  "\<exists>tr an' out. runs (flush sample_runner sample_launcher sample_announcer) tr (an', Inr ()) \<and> an_pending an' = [] \<and>
     filter launch_event tr = launch sample_runner ''/bin/wt'' (\<lambda>_. ''{}'') (sample_pending ''/wt'') out"
proof -
  obtain tr y where "runs (flush sample_runner sample_launcher sample_announcer) tr y"
    using some_run[of "flush sample_runner sample_launcher sample_announcer"] by blast
  then obtain an' r where run: "runs (flush sample_runner sample_launcher sample_announcer) tr (an', r)" by (cases y) auto
  have exe: "la_exe sample_launcher = Inr ''/bin/wt''" by (simp add: sample_launcher_def)
  have enc: "la_encode sample_launcher (spec_of p) = Inr ((\<lambda>_. ''{}'') p)" for p by (simp add: sample_launcher_def)
  have live: "filter (kept (an_removed sample_announcer)) (an_pending sample_announcer) = [sample_pending ''/wt'']"
    by code_simp
  from flush_starts_live_pipelines[OF exe enc run, unfolded live] obtain outs where
    o: "r = Inr ()" "an' = sample_announcer\<lparr>an_pending := []\<rparr>" "length outs = 1"
      "filter launch_event tr = concat (map2 (launch sample_runner ''/bin/wt'' (\<lambda>_. ''{}'')) [sample_pending ''/wt''] outs)"
    by auto
  then obtain out where "outs = [out]" by (cases outs) auto
  with o run show ?thesis by (intro exI[of _ tr] exI[of _ an'] exI[of _ out]) auto
qed

end
