(* ===== verification/List_Columns.thy ===== *)
theory List_Columns
  imports List_Drain User_Settings Path_Resolution
begin

text \<open>
  The columns of \<open>wt list\<close> (\<open>src/commands/list/columns.rs\<close>): their registry with headers and priorities, the tasks
  whose results they show, the gates that hide a column, the plan of tasks of a run and the selection
  \<open>[list] columns\<close>. A custom column is known by its index, an 8-bit number.
\<close>

datatype column_kind =
    C_Gutter | C_Branch | C_Status | C_Working_Diff | C_Ahead_Behind | C_Branch_Diff | C_Summary | C_Upstream
  | C_Ci_Status | C_Path | C_Url | C_Commit | C_Time | C_Message | C_Custom nat

text \<open>\<open>i as u8\<close>\<close>

definition custom_kind :: "nat \<Rightarrow> column_kind" where
  "custom_kind i = C_Custom (i mod 256)"

fun column_header :: "column_kind \<Rightarrow> string" where
  "column_header C_Gutter = []"
| "column_header C_Branch = ''Branch''"
| "column_header C_Status = ''Status''"
| "column_header C_Working_Diff = ''HEAD'' @ utf8 [0xC2, 0xB1]"
| "column_header C_Ahead_Behind = ''main'' @ utf8 [0xE2, 0x86, 0x95]"
| "column_header C_Branch_Diff = ''main'' @ utf8 [0xE2, 0x80, 0xA6, 0xC2, 0xB1]"
| "column_header C_Path = ''Path''"
| "column_header C_Upstream = ''Remote'' @ utf8 [0xE2, 0x87, 0x85]"
| "column_header C_Url = ''URL''"
| "column_header C_Time = ''Age''"
| "column_header C_Ci_Status = ''CI''"
| "column_header C_Commit = ''Commit''"
| "column_header C_Summary = ''Summary''"
| "column_header C_Message = ''Message''"
| "column_header (C_Custom i) = []"

record column_spec =
  spec_kind :: column_kind
  base_priority :: nat
  shrinkable :: bool

definition spec_new :: "column_kind \<Rightarrow> nat \<Rightarrow> column_spec" where
  "spec_new k p = \<lparr>spec_kind = k, base_priority = p, shrinkable = False\<rparr>"

definition spec_shrinkable :: "column_spec \<Rightarrow> column_spec" where
  "spec_shrinkable s = s\<lparr>shrinkable := True\<rparr>"

definition column_specs :: "column_spec list" where
  "column_specs =
     [spec_new C_Gutter 0, spec_shrinkable (spec_new C_Branch 1), spec_new C_Status 2, spec_new C_Working_Diff 3,
      spec_new C_Ahead_Behind 4, spec_new C_Branch_Diff 6, spec_new C_Summary 10, spec_new C_Upstream 8,
      spec_new C_Ci_Status 5, spec_new C_Path 7, spec_new C_Url 9, spec_new C_Commit 11, spec_new C_Time 12,
      spec_new C_Message 13]"

definition column_priority :: "column_kind \<Rightarrow> nat" where
  "column_priority k = (case find (\<lambda>s. spec_kind s = k) column_specs of Some s \<Rightarrow> base_priority s | None \<Rightarrow> 255)"

fun config_name :: "column_kind \<Rightarrow> string option" where
  "config_name C_Gutter = None"
| "config_name C_Branch = Some ''branch''"
| "config_name C_Status = Some ''status''"
| "config_name C_Working_Diff = Some ''working-diff''"
| "config_name C_Ahead_Behind = Some ''ahead-behind''"
| "config_name C_Branch_Diff = Some ''branch-diff''"
| "config_name C_Summary = Some ''summary''"
| "config_name C_Upstream = Some ''upstream''"
| "config_name C_Ci_Status = Some ''ci''"
| "config_name C_Path = Some ''path''"
| "config_name C_Url = Some ''url''"
| "config_name C_Commit = Some ''commit''"
| "config_name C_Time = Some ''age''"
| "config_name C_Message = Some ''message''"
| "config_name (C_Custom i) = None"

definition from_config_name :: "string \<Rightarrow> column_kind option" where
  "from_config_name name = find (\<lambda>k. config_name k = Some name) (map spec_kind column_specs)"

definition selectable_names :: "string list" where
  "selectable_names = filter_map (\<lambda>s. config_name (spec_kind s)) column_specs"

section \<open>Columns and tasks\<close>

fun column_tasks :: "column_kind \<Rightarrow> task_kind list" where
  "column_tasks C_Status =
     [K_Working_Tree_Diff, K_Git_Operation, K_Ahead_Behind, K_Merge_Tree_Conflicts, K_Working_Tree_Conflicts,
      K_Committed_Trees_Match, K_Has_File_Changes, K_Would_Merge_Add, K_Is_Ancestor, K_Upstream, K_User_Marker]"
| "column_tasks C_Working_Diff = [K_Working_Tree_Diff]"
| "column_tasks C_Ahead_Behind = [K_Ahead_Behind]"
| "column_tasks C_Branch_Diff = [K_Branch_Diff]"
| "column_tasks C_Upstream = [K_Upstream]"
| "column_tasks C_Ci_Status = [K_Ci_Status]"
| "column_tasks C_Url = [K_Url_Status]"
| "column_tasks C_Summary = [K_Summary_Generate]"
| "column_tasks C_Gutter = []"
| "column_tasks C_Branch = []"
| "column_tasks C_Path = []"
| "column_tasks C_Commit = []"
| "column_tasks C_Time = []"
| "column_tasks C_Message = []"
| "column_tasks (C_Custom i) = []"

definition renders_given_run :: "task_kind set \<Rightarrow> column_kind \<Rightarrow> bool" where
  "renders_given_run run k \<longleftrightarrow> column_tasks k = [] \<or> list_ex (\<lambda>t. t \<in> run) (column_tasks k)"

definition all_columns :: "column_kind list" where
  "all_columns = map spec_kind column_specs"

record column_gates =
  show_full :: bool
  summary_enabled :: bool
  has_llm_command :: bool
  has_url_template :: bool

datatype column_source = From_Default | Listed

definition column_renders :: "column_source \<Rightarrow> column_gates \<Rightarrow> column_kind \<Rightarrow> bool" where
  "column_renders src g k =
     (let listed = (src = Listed) in
      case k of
        C_Ci_Status \<Rightarrow> listed \<or> show_full g
      | C_Summary \<Rightarrow> has_llm_command g \<and> (listed \<or> show_full g \<and> summary_enabled g)
      | C_Url \<Rightarrow> has_url_template g
      | _ \<Rightarrow> True)"

definition required_tasks_for_render :: "column_kind list \<Rightarrow> column_source \<Rightarrow> column_gates \<Rightarrow> task_kind set" where
  "required_tasks_for_render rendered src g =
     set (concat (map column_tasks (filter (column_renders src g) rendered)))"

section \<open>The selection \<open>[list] columns\<close>\<close>

text \<open>\<open>Iterator::position\<close>\<close>

fun position :: "('a \<Rightarrow> bool) \<Rightarrow> 'a list \<Rightarrow> nat option" where
  "position p [] = None"
| "position p (x # xs) = (if p x then Some 0 else map_option Suc (position p xs))"

definition resolve_column_name :: "string list \<Rightarrow> string \<Rightarrow> column_kind option" where
  "resolve_column_name custom_names name =
     (case from_config_name name of
        Some k \<Rightarrow> Some k
      | None \<Rightarrow> map_option custom_kind (position (\<lambda>c. c = name) custom_names))"

datatype column_error = Unknown_Column string string | Duplicate_Column string

definition valid_columns :: "string list \<Rightarrow> string" where
  "valid_columns custom_names =
     join '', '' selectable_names @
     (if custom_names \<noteq> [] then ''; custom columns: '' @ join '', '' custom_names else [])"

fun parse_selected :: "string list \<Rightarrow> column_kind list \<Rightarrow> string list \<Rightarrow> column_error + column_kind list" where
  "parse_selected custom_names selected [] = Inr selected"
| "parse_selected custom_names selected (name # names) =
     (case resolve_column_name custom_names name of
        None \<Rightarrow> Inl (Unknown_Column name (valid_columns custom_names))
      | Some k \<Rightarrow>
          if k \<in> set selected then Inl (Duplicate_Column name)
          else parse_selected custom_names (selected @ [k]) names)"

definition parse_selected_columns :: "string list \<Rightarrow> string list \<Rightarrow> column_error + column_kind list" where
  "parse_selected_columns names custom_names = parse_selected custom_names [] names"

text \<open>Order of display: the slot of the registry and the place among the custom columns in it.\<close>

definition column_display_index :: "column_kind \<Rightarrow> nat \<times> nat" where
  "column_display_index k =
     (let slot = (\<lambda>k. case position (\<lambda>s. spec_kind s = k) column_specs of Some i \<Rightarrow> i | None \<Rightarrow> 2 ^ 64 - 1) in
      case k of C_Custom i \<Rightarrow> (slot C_Url, i + 1) | _ \<Rightarrow> (slot k, 0))"

datatype diff_variant = Signs | Arrows | Upstream_Arrows

text \<open>A custom column of the configuration, resolved (\<open>src/commands/list/custom_columns.rs\<close>).\<close>

record custom_column =
  cust_name :: string
  cust_template :: string
  cust_max_width :: nat
  cust_priority :: nat

end
