(* ===== verification/List_Layout.thy ===== *)
theory List_Layout
  imports List_Columns
begin

text \<open>
  Which columns of \<open>wt list\<close> fit a terminal (\<open>src/commands/list/layout.rs\<close>): estimates of the widths, allocation in
  the order of priorities, the space Summary reclaims, the final positions. Display widths are the parameter \<open>dw\<close>
  (\<open>unicode_width\<close>); the styles of numbers are opening and closing text.
\<close>

section \<open>Widths and formats\<close>

definition fit_header :: "(string \<Rightarrow> nat) \<Rightarrow> string \<Rightarrow> nat \<Rightarrow> nat" where
  "fit_header dw header w = max w (dw header)"

text \<open>The width given, 0 when there is none, and what remains of the budget.\<close>

definition try_allocate :: "nat \<Rightarrow> nat \<Rightarrow> nat option \<Rightarrow> nat \<Rightarrow> bool \<Rightarrow> nat \<times> nat" where
  "try_allocate remaining ideal_width min_width spacing is_first =
     (if ideal_width = 0 then (0, remaining)
      else
        let cost = (if is_first then 0 else spacing) in
        if ideal_width + cost \<le> remaining then (ideal_width, remaining - (ideal_width + cost))
        else (case min_width of
                Some least \<Rightarrow> if least + cost \<le> remaining then (remaining - cost, 0) else (0, remaining)
              | None \<Rightarrow> (0, remaining)))"

record diff_widths =
  dw_total :: nat
  positive_digits :: nat
  negative_digits :: nat

record column_widths =
  w_branch :: nat
  w_status :: nat
  w_time :: nat
  w_url :: nat
  w_ci_status :: nat
  w_ahead_behind :: diff_widths
  w_working_diff :: diff_widths
  w_branch_diff :: diff_widths
  w_upstream :: diff_widths
  w_custom :: "nat list"

record repo_facts =
  has_remote :: bool
  url_template :: "string option"
  max_pr_number :: "nat option"

record data_flags =
  f_status :: bool
  f_working_diff :: bool
  f_ahead_behind :: bool
  f_branch_diff :: bool
  f_upstream :: bool
  f_url :: bool
  f_ci_status :: bool
  f_path :: bool

record layout_metadata =
  lm_widths :: column_widths
  lm_flags :: data_flags
  lm_mask :: "nat list"

definition empty_penalty :: nat where "empty_penalty = 14"

definition max_branch_width :: nat where "max_branch_width = 32"

datatype diff_style = Addition | Deletion | Dimmed_Deletion

record diff_display =
  dd_variant :: diff_variant
  dd_positive :: diff_style
  dd_negative :: diff_style

fun diff_symbols :: "diff_variant \<Rightarrow> string \<times> string" where
  "diff_symbols Signs = (''+'', ''-'')"
| "diff_symbols Arrows = (utf8 [0xE2, 0x86, 0x91], utf8 [0xE2, 0x86, 0x93])"
| "diff_symbols Upstream_Arrows = (utf8 [0xE2, 0x87, 0xA1], utf8 [0xE2, 0x87, 0xA3])"

fun diff_display_config :: "column_kind \<Rightarrow> diff_display option" where
  "diff_display_config C_Working_Diff = Some \<lparr>dd_variant = Signs, dd_positive = Addition, dd_negative = Deletion\<rparr>"
| "diff_display_config C_Branch_Diff = Some \<lparr>dd_variant = Signs, dd_positive = Addition, dd_negative = Deletion\<rparr>"
| "diff_display_config C_Ahead_Behind = Some \<lparr>dd_variant = Arrows, dd_positive = Addition, dd_negative = Dimmed_Deletion\<rparr>"
| "diff_display_config C_Upstream =
     Some \<lparr>dd_variant = Upstream_Arrows, dd_positive = Addition, dd_negative = Dimmed_Deletion\<rparr>"
| "diff_display_config _ = None"

definition format_plain :: "(diff_style \<Rightarrow> string \<times> string) \<Rightarrow> diff_display \<Rightarrow> nat \<Rightarrow> nat \<Rightarrow> string option" where
  "format_plain style d positive negative =
     (if positive = 0 \<and> negative = 0 then None
      else
        let part = (\<lambda>st sym n. if 0 < n then [fst (style st) @ sym @ show_nat n @ snd (style st)] else []);
            (up, down) = diff_symbols (dd_variant d);
            parts = part (dd_positive d) up positive @ part (dd_negative d) down negative
        in if parts = [] then None else Some (join '' '' parts))"

definition format_diff_plain :: "(diff_style \<Rightarrow> string \<times> string) \<Rightarrow> column_kind \<Rightarrow> nat \<Rightarrow> nat \<Rightarrow> string option" where
  "format_diff_plain style k positive negative =
     Option.bind (diff_display_config k) (\<lambda>d. format_plain style d positive negative)"

fun has_data :: "data_flags \<Rightarrow> column_kind \<Rightarrow> bool" where
  "has_data fl C_Status = f_status fl"
| "has_data fl C_Working_Diff = f_working_diff fl"
| "has_data fl C_Ahead_Behind = f_ahead_behind fl"
| "has_data fl C_Branch_Diff = f_branch_diff fl"
| "has_data fl C_Path = f_path fl"
| "has_data fl C_Upstream = f_upstream fl"
| "has_data fl C_Url = f_url fl"
| "has_data fl C_Ci_Status = f_ci_status fl"
| "has_data fl _ = True"

record diff_config =
  dc_positive :: nat
  dc_negative :: nat
  dc_total :: nat
  dc_display :: diff_display

datatype column_format = Text_Format | Diff_Format diff_config

definition text_column :: "nat \<Rightarrow> (nat \<times> column_format) option" where
  "text_column w = (if 0 < w then Some (w, Text_Format) else None)"

definition diff_column :: "column_kind \<Rightarrow> diff_widths \<Rightarrow> (nat \<times> column_format) option" where
  "diff_column k d =
     (if dw_total d = 0 then None
      else map_option (\<lambda>display. (dw_total d,
             Diff_Format \<lparr>dc_positive = positive_digits d, dc_negative = negative_digits d, dc_total = dw_total d,
                          dc_display = display\<rparr>)) (diff_display_config k))"

definition nth_or :: "'a \<Rightarrow> 'a list \<Rightarrow> nat \<Rightarrow> 'a" where
  "nth_or d xs i = (if i < length xs then xs ! i else d)"

fun ideal :: "column_widths \<Rightarrow> nat \<Rightarrow> nat \<Rightarrow> column_kind \<Rightarrow> (nat \<times> column_format) option" where
  "ideal w path_w commit_w C_Gutter = text_column 2"
| "ideal w path_w commit_w C_Branch = text_column (w_branch w)"
| "ideal w path_w commit_w C_Status = text_column (w_status w)"
| "ideal w path_w commit_w C_Path = text_column path_w"
| "ideal w path_w commit_w C_Time = text_column (w_time w)"
| "ideal w path_w commit_w C_Url = text_column (w_url w)"
| "ideal w path_w commit_w C_Ci_Status = text_column (w_ci_status w)"
| "ideal w path_w commit_w C_Commit = text_column commit_w"
| "ideal w path_w commit_w C_Summary = None"
| "ideal w path_w commit_w C_Message = None"
| "ideal w path_w commit_w C_Working_Diff = diff_column C_Working_Diff (w_working_diff w)"
| "ideal w path_w commit_w C_Ahead_Behind = diff_column C_Ahead_Behind (w_ahead_behind w)"
| "ideal w path_w commit_w C_Branch_Diff = diff_column C_Branch_Diff (w_branch_diff w)"
| "ideal w path_w commit_w C_Upstream = diff_column C_Upstream (w_upstream w)"
| "ideal w path_w commit_w (C_Custom i) = text_column (nth_or 0 (w_custom w) i)"

record column_layout =
  cl_kind :: column_kind
  cl_header :: string
  cl_start :: nat
  cl_width :: nat
  cl_format :: column_format

datatype link_style = Link_Linked | Link_Unlinked | Link_Expanded

record layout_config =
  lay_columns :: "column_layout list"
  lay_main_path :: string
  max_message_len :: nat
  max_summary_len :: nat
  hidden_columns :: "string list"
  lay_mask :: "nat list"
  lay_link_style :: link_style

record grid_column =
  gc_kind :: column_kind
  gc_start :: nat
  gc_width :: nat

record column_grid =
  cg_columns :: "grid_column list"
  cg_link_style :: link_style

definition default_grid :: column_grid where
  "default_grid = \<lparr>cg_columns = [], cg_link_style = Link_Expanded\<rparr>"

definition grid_column_of :: "column_grid \<Rightarrow> column_kind \<Rightarrow> grid_column option" where
  "grid_column_of g k = find (\<lambda>c. gc_kind c = k) (cg_columns g)"

definition column_grid_of :: "layout_config \<Rightarrow> column_grid" where
  "column_grid_of l =
     \<lparr>cg_columns = map (\<lambda>c. \<lparr>gc_kind = cl_kind c, gc_start = cl_start c, gc_width = cl_width c\<rparr>) (lay_columns l),
      cg_link_style = lay_link_style l\<rparr>"

record column_selection =
  sel_selected :: "column_kind list option"
  sel_custom :: "custom_column list"

record candidate =
  cand_spec :: column_spec
  cand_priority :: nat

record pending_column =
  pc_spec :: column_spec
  pc_priority :: nat
  pc_width :: nat
  pc_format :: column_format

abbreviation cand_kind :: "candidate \<Rightarrow> column_kind" where "cand_kind c \<equiv> spec_kind (cand_spec c)"

abbreviation pc_kind :: "pending_column \<Rightarrow> column_kind" where "pc_kind c \<equiv> spec_kind (pc_spec c)"

text \<open>\<open>supports_hyperlinks\<close> of the terminal is the argument \<open>draws\<close>.\<close>

definition link_for_destination :: "bool \<Rightarrow> bool \<Rightarrow> link_style" where
  "link_for_destination draws carries_escapes =
     (if \<not> draws then Link_Expanded else if carries_escapes then Link_Linked else Link_Unlinked)"

record destination =
  dest_width :: nat
  dest_link :: link_style

definition dest_terminal :: "bool \<Rightarrow> nat \<Rightarrow> destination" where
  "dest_terminal draws w = \<lparr>dest_width = w, dest_link = link_for_destination draws True\<rparr>"

definition dest_picker :: "bool \<Rightarrow> nat \<Rightarrow> destination" where
  "dest_picker draws w = \<lparr>dest_width = w, dest_link = link_for_destination draws False\<rparr>"

section \<open>URLs\<close>

text \<open>\<open>parse_port_from_url\<close> of \<open>collect/tasks.rs\<close>\<close>

definition parse_port_from_url :: "string \<Rightarrow> nat option" where
  "parse_port_from_url u =
     Option.bind (case strip_prefix u ''http://'' of Some r \<Rightarrow> Some r | None \<Rightarrow> strip_prefix u ''https://'') (\<lambda>rest.
     Option.bind (rsplit_once CHR '':'' (takeWhile (\<lambda>c. c \<notin> {CHR ''/'', CHR ''?'', CHR ''#''}) rest)) (\<lambda>(host, port).
       parse_uint 16 port))"

definition format_url_cell :: "(string \<Rightarrow> string \<Rightarrow> string) \<Rightarrow> string \<Rightarrow> link_style \<Rightarrow> string" where
  "format_url_cell hyperlink u link =
     (case (link, parse_port_from_url u) of
        (Link_Linked, Some port) \<Rightarrow> hyperlink u ('':'' @ show_nat port)
      | (Link_Unlinked, Some port) \<Rightarrow> '':'' @ show_nat port
      | _ \<Rightarrow> u)"

text \<open>\<open>str::replace\<close> of a non-empty pattern: matches from the left that do not overlap; \<open>skip\<close> counts the bytes of
  the match still to be dropped.\<close>

fun replace_at :: "string \<Rightarrow> string \<Rightarrow> nat \<Rightarrow> string \<Rightarrow> string" where
  "replace_at p r n [] = []"
| "replace_at p r (Suc n) (c # cs) = replace_at p r n cs"
| "replace_at p r 0 (c # cs) =
     (if starts_with (c # cs) p then r @ replace_at p r (length p - 1) cs else c # replace_at p r 0 cs)"

definition replace_str :: "string \<Rightarrow> string \<Rightarrow> string \<Rightarrow> string" where
  "replace_str p r s = replace_at p r 0 s"

definition estimate_url_width :: "string option \<Rightarrow> link_style \<Rightarrow> nat" where
  "estimate_url_width template link =
     (case template of
        None \<Rightarrow> 0
      | Some t \<Rightarrow>
          if link \<noteq> Link_Expanded \<and>
             (is_infix ''hash_port'' t \<or> is_infix '':{{'' t \<or> parse_port_from_url t \<noteq> None) then 6
          else length (replace_str ''{{ branch }}'' ''feature-xx'' (replace_str ''{{ branch | hash_port }}'' ''12345'' t)))"

text \<open>\<open>pr_ref_width\<close> of \<open>ci_status/mod.rs\<close>: one column and as many as the number has digits.\<close>

definition ilog10 :: "nat \<Rightarrow> nat" where
  "ilog10 n = length (show_nat n) - 1"

definition pr_ref_width :: "nat \<Rightarrow> nat" where
  "pr_ref_width n = 2 + (if n = 0 then 0 else ilog10 n)"

section \<open>Estimates\<close>

definition build_estimated_widths ::
  "(string \<Rightarrow> nat) \<Rightarrow> nat \<Rightarrow> task_kind set \<Rightarrow> bool \<Rightarrow> nat \<Rightarrow> nat list \<Rightarrow> repo_facts \<Rightarrow> layout_metadata" where
  "build_estimated_widths dw max_branch tasks path_is_informative url_width custom facts =
     (let fit = (\<lambda>k w. fit_header dw (column_header k) w);
          diff = (\<lambda>k w d. \<lparr>dw_total = fit k w, positive_digits = d, negative_digits = d\<rparr>)
      in \<lparr>lm_widths =
            \<lparr>w_branch = max_branch,
             w_status = fit C_Status (total_width full_mask),
             w_time = 4,
             w_url = (if 0 < url_width then fit C_Url url_width else 0),
             w_ci_status = fit C_Ci_Status (pr_ref_width (or_default 9999 (max_pr_number facts))),
             w_ahead_behind = diff C_Ahead_Behind 7 2,
             w_working_diff = diff C_Working_Diff 9 3,
             w_branch_diff = diff C_Branch_Diff 9 3,
             w_upstream = diff C_Upstream 7 2,
             w_custom = custom\<rparr>,
          lm_flags =
            \<lparr>f_status = True, f_working_diff = True, f_ahead_behind = True,
             f_branch_diff = (K_Branch_Diff \<in> tasks), f_upstream = has_remote facts,
             f_url = (K_Url_Status \<in> tasks), f_ci_status = (K_Ci_Status \<in> tasks), f_path = path_is_informative\<rparr>,
          lm_mask = full_mask\<rparr>)"

definition display_sort_key :: "column_kind list option \<Rightarrow> column_kind \<Rightarrow> nat \<times> nat" where
  "display_sort_key selected k =
     (case selected of
        None \<Rightarrow> column_display_index k
      | Some order \<Rightarrow>
          if k = C_Gutter then (0, 0)
          else (case position (\<lambda>c. c = k) order of Some i \<Rightarrow> (i + 1, 0) | None \<Rightarrow> (2 ^ 64 - 1, 0)))"

section \<open>Allocation\<close>

definition chosen :: "column_kind list option \<Rightarrow> column_kind \<Rightarrow> bool" where
  "chosen selected k = (case selected of Some order \<Rightarrow> k \<in> set order | None \<Rightarrow> True)"

definition custom_specs :: "column_widths \<Rightarrow> column_selection \<Rightarrow> column_spec list" where
  "custom_specs w sel =
     map (\<lambda>(i, c). spec_new (custom_kind i) (cust_priority c))
       (filter (\<lambda>(i, c). chosen (sel_selected sel) (custom_kind i))
         (filter (\<lambda>(i, c). 0 < nth_or 0 (w_custom w) i) (enumerate 0 (sel_custom sel))))"

definition candidate_of :: "data_flags \<Rightarrow> column_spec \<Rightarrow> candidate" where
  "candidate_of fl s =
     \<lparr>cand_spec = s,
      cand_priority = (if has_data fl (spec_kind s) then base_priority s else base_priority s + empty_penalty)\<rparr>"

definition column_candidates :: "layout_metadata \<Rightarrow> task_kind set \<Rightarrow> column_selection \<Rightarrow> candidate list" where
  "column_candidates md tasks sel =
     sort_key cand_priority
       (map (candidate_of (lm_flags md))
         (filter (\<lambda>s. spec_kind s = C_Gutter \<or> chosen (sel_selected sel) (spec_kind s))
            (filter (\<lambda>s. renders_given_run tasks (spec_kind s)) column_specs) @
          custom_specs (lm_widths md) sel))"

definition needs_spacing :: "pending_column list \<Rightarrow> bool" where
  "needs_spacing ps \<longleftrightarrow> ps \<noteq> [] \<and> pc_kind (last ps) \<noteq> C_Gutter"

record allocation =
  al_remaining :: nat
  al_pending :: "pending_column list"
  al_dropped :: bool

definition push_column :: "candidate \<Rightarrow> nat \<Rightarrow> column_format \<Rightarrow> nat \<Rightarrow> allocation \<Rightarrow> allocation" where
  "push_column c w f remaining a =
     a\<lparr>al_remaining := remaining,
       al_pending := al_pending a @
         [\<lparr>pc_spec = cand_spec c, pc_priority = cand_priority c, pc_width = w, pc_format = f\<rparr>]\<rparr>"

definition allocate_flexible :: "bool \<Rightarrow> candidate \<Rightarrow> allocation \<Rightarrow> allocation" where
  "allocate_flexible is_empty c a =
     (let min_width = 10;
          cost = (if needs_spacing (al_pending a) then 2 else 0)
      in if cost < al_remaining a \<and> min_width \<le> al_remaining a - cost
         then push_column c min_width Text_Format (al_remaining a - (min_width + cost)) a
         else a\<lparr>al_dropped := al_dropped a \<or> \<not> is_empty\<rparr>)"

definition allocate_fixed ::
  "(string \<Rightarrow> nat) \<Rightarrow> bool \<Rightarrow> candidate \<Rightarrow> nat \<Rightarrow> column_format \<Rightarrow> allocation \<Rightarrow> allocation" where
  "allocate_fixed dw is_empty c ideal_width f a =
     (let min_width = (if shrinkable (cand_spec c) then Some (max (dw (column_header (cand_kind c))) 1) else None);
          (w, remaining) = try_allocate (al_remaining a) ideal_width min_width 2 (\<not> needs_spacing (al_pending a))
      in if 0 < w then push_column c w f remaining a
         else if \<not> is_empty then a\<lparr>al_remaining := remaining, al_dropped := True\<rparr>
         else a\<lparr>al_remaining := remaining\<rparr>)"

definition allocate_one ::
  "(string \<Rightarrow> nat) \<Rightarrow> layout_metadata \<Rightarrow> nat \<Rightarrow> nat \<Rightarrow> candidate \<Rightarrow> allocation \<Rightarrow> allocation" where
  "allocate_one dw md path_w commit_w c a =
     (let is_empty = (\<not> has_data (lm_flags md) (cand_kind c)) in
      if is_empty \<and> al_dropped a then a
      else if cand_kind c = C_Summary \<or> cand_kind c = C_Message then allocate_flexible is_empty c a
      else (case ideal (lm_widths md) path_w commit_w (cand_kind c) of
              None \<Rightarrow> a
            | Some (ideal_width, f) \<Rightarrow> allocate_fixed dw is_empty c ideal_width f a))"

definition allocate_all ::
  "(string \<Rightarrow> nat) \<Rightarrow> layout_metadata \<Rightarrow> nat \<Rightarrow> nat \<Rightarrow> nat \<Rightarrow> candidate list \<Rightarrow> allocation" where
  "allocate_all dw md path_w commit_w width cs =
     fold (allocate_one dw md path_w commit_w) cs \<lparr>al_remaining = width, al_pending = [], al_dropped = False\<rparr>"

section \<open>Flexible columns\<close>

text \<open>The width of the first column of a kind after it took what it may of the rest, and that rest.\<close>

fun expand_kind :: "column_kind \<Rightarrow> nat \<Rightarrow> nat \<Rightarrow> pending_column list \<Rightarrow> pending_column list \<times> nat \<times> nat" where
  "expand_kind k cap remaining [] = ([], remaining, 0)"
| "expand_kind k cap remaining (p # ps) =
     (if pc_kind p = k then
        let expansion = (if pc_width p < cap then min remaining (cap - pc_width p) else 0)
        in (p\<lparr>pc_width := pc_width p + expansion\<rparr> # ps, remaining - expansion, pc_width p + expansion)
      else let (ps', r, w) = expand_kind k cap remaining ps in (p # ps', r, w))"

definition max_summary :: nat where "max_summary = 70"

definition max_message :: nat where "max_message = 100"

definition droppable :: "nat \<Rightarrow> pending_column \<Rightarrow> bool" where
  "droppable summary_len p \<longleftrightarrow>
     \<not> (pc_kind p = C_Summary \<or> pc_priority p \<le> column_priority C_Summary) \<and>
     summary_len < (if pc_priority p - column_priority C_Summary \<le> 4 then 50 else max_summary)"

text \<open>\<open>max_by_key\<close> gives the last of the greatest.\<close>

fun last_max :: "('a \<Rightarrow> nat) \<Rightarrow> 'a list \<Rightarrow> 'a option" where
  "last_max f [] = None"
| "last_max f (x # xs) =
     (case last_max f xs of None \<Rightarrow> Some x | Some y \<Rightarrow> if f x \<le> f y then Some y else Some x)"

definition drop_pos :: "nat \<Rightarrow> pending_column list \<Rightarrow> nat option" where
  "drop_pos summary_len ps =
     map_option fst (last_max (\<lambda>(i, p). pc_priority p)
       (filter (\<lambda>(i, p). droppable summary_len p) (enumerate 0 ps)))"

definition remove_nth :: "nat \<Rightarrow> 'a list \<Rightarrow> 'a list" where
  "remove_nth i xs = take i xs @ drop (Suc i) xs"

lemma last_max_None: "last_max f xs = None \<longleftrightarrow> xs = []"
  by (cases xs) (auto split: option.splits)

lemma last_max_Some: "last_max f xs = Some y \<Longrightarrow> y \<in> set xs \<and> (\<forall>x\<in>set xs. f x \<le> f y)"
proof (induction xs arbitrary: y)
  case (Cons a xs)
  show ?case
  proof (cases "last_max f xs")
    case None
    then have "xs = []" by (simp add: last_max_None)
    with Cons.prems show ?thesis by simp
  next
    case (Some z)
    with Cons.IH[OF Some] Cons.prems show ?thesis by (fastforce split: if_splits)
  qed
qed simp

lemma drop_pos_Some:
  assumes "drop_pos n ps = Some i"
  shows "i < length ps" and "droppable n (ps ! i)"
    and "\<And>p. p \<in> set ps \<Longrightarrow> droppable n p \<Longrightarrow> pc_priority p \<le> pc_priority (ps ! i)"
proof -
  obtain q where q: "last_max (\<lambda>(i, p). pc_priority p) (filter (\<lambda>(i, p). droppable n p) (enumerate 0 ps)) = Some (i, q)"
    using assms unfolding drop_pos_def by auto
  from last_max_Some[OF this] have in_ps: "(i, q) \<in> set (enumerate 0 ps)" and ok: "droppable n q"
    and great: "\<And>j p. (j, p) \<in> set (enumerate 0 ps) \<Longrightarrow> droppable n p \<Longrightarrow> pc_priority p \<le> pc_priority q" by auto
  then have "i < length ps" and "q = ps ! i" by (auto simp: in_set_enumerate_eq)
  then show "i < length ps" and "droppable n (ps ! i)" using ok by auto
  show "pc_priority p \<le> pc_priority (ps ! i)" if "p \<in> set ps" "droppable n p" for p
  proof -
    obtain j where "j < length ps" "ps ! j = p" using \<open>p \<in> set ps\<close> by (auto simp: in_set_conv_nth)
    then show ?thesis using great[of j p] that \<open>q = ps ! i\<close> by (auto simp: in_set_enumerate_eq)
  qed
qed

lemma drop_pos_None: "drop_pos n ps = None \<longleftrightarrow> (\<forall>p\<in>set ps. \<not> droppable n p)"
proof -
  have "drop_pos n ps = None \<longleftrightarrow> (\<forall>x\<in>set (enumerate 0 ps). \<not> droppable n (snd x))"
    by (auto simp: drop_pos_def last_max_None filter_empty_conv split: prod.splits)
  also have "\<dots> \<longleftrightarrow> (\<forall>p\<in>snd ` set (enumerate 0 ps). \<not> droppable n p)" by auto
  also have "snd ` set (enumerate 0 ps) = set ps" by (metis map_snd_enumerate set_map)
  finally show ?thesis .
qed

lemma expand_kind_length: "expand_kind k cap r ps = (ps', x) \<Longrightarrow> length ps' = length ps"
  by (induction k cap r ps arbitrary: ps' x rule: expand_kind.induct) (auto split: prod.splits if_splits simp: Let_def)

function reclaim :: "nat \<Rightarrow> nat \<Rightarrow> pending_column list \<Rightarrow> pending_column list \<times> nat \<times> nat" where
  "reclaim summary_len remaining ps =
     (if 0 < summary_len \<and> summary_len < max_summary then
        (case drop_pos summary_len ps of
           None \<Rightarrow> (ps, remaining, summary_len)
         | Some i \<Rightarrow>
             let ps' = remove_nth i ps;
                 remaining' = remaining + (pc_width (ps ! i) + 2)
             in if \<exists>p\<in>set ps'. pc_kind p = C_Summary then
                  let (ps2, r, w) = expand_kind C_Summary max_summary remaining' ps' in reclaim w r ps2
                else reclaim summary_len remaining' ps')
      else (ps, remaining, summary_len))"
  by pat_completeness auto
termination
  by (relation "measure (\<lambda>(n, r, ps). length ps)")
     (auto simp: remove_nth_def dest!: drop_pos_Some(1) expand_kind_length[OF sym])

declare reclaim.simps [simp del]

section \<open>Positions\<close>

definition final_header :: "custom_column list \<Rightarrow> column_kind \<Rightarrow> string" where
  "final_header custom k = (case k of C_Custom i \<Rightarrow> cust_name (custom ! i) | _ \<Rightarrow> column_header k)"

text \<open>\<open>prev\<close> is the kind of the column before, \<open>pos\<close> where it ends.\<close>

fun place_columns :: "custom_column list \<Rightarrow> column_kind option \<Rightarrow> nat \<Rightarrow> pending_column list \<Rightarrow> column_layout list" where
  "place_columns custom prev pos [] = []"
| "place_columns custom prev pos (p # ps) =
     (let start = (case prev of None \<Rightarrow> 0 | Some k \<Rightarrow> if k = C_Gutter then pos else pos + 2) in
      \<lparr>cl_kind = pc_kind p, cl_header = final_header custom (pc_kind p), cl_start = start, cl_width = pc_width p,
       cl_format = pc_format p\<rparr> # place_columns custom (Some (pc_kind p)) (start + pc_width p) ps)"

definition hidden_kinds :: "column_kind list option \<Rightarrow> candidate list \<Rightarrow> column_layout list \<Rightarrow> column_kind list" where
  "hidden_kinds selected cs columns =
     sort_key (display_sort_key selected) (filter (\<lambda>k. k \<notin> cl_kind ` set columns) (map cand_kind cs))"

definition allocate_columns_with_priority ::
  "(string \<Rightarrow> nat) \<Rightarrow> layout_metadata \<Rightarrow> task_kind set \<Rightarrow> nat \<Rightarrow> nat \<Rightarrow> destination \<Rightarrow> string \<Rightarrow> column_selection \<Rightarrow>
   layout_config" where
  "allocate_columns_with_priority dw md tasks path_w commit_w dest main_path sel =
     (let cs = column_candidates md tasks sel;
          a = allocate_all dw md path_w commit_w (dest_width dest) cs;
          (ps1, r1, s1) = expand_kind C_Summary max_summary (al_remaining a) (al_pending a);
          (ps2, r2, s2) = reclaim s1 r1 ps1;
          (ps3, r3, m) = expand_kind C_Message max_message r2 ps2;
          columns = place_columns (sel_custom sel) None 0 (sort_key (\<lambda>p. display_sort_key (sel_selected sel) (pc_kind p)) ps3)
      in \<lparr>lay_columns = columns,
          lay_main_path = main_path,
          max_message_len = m,
          max_summary_len = s2,
          hidden_columns = map (final_header (sel_custom sel)) (hidden_kinds (sel_selected sel) cs columns),
          lay_mask = lm_mask md,
          lay_link_style = dest_link dest\<rparr>)"

text \<open>The greatest of some numbers, 0 when there is none.\<close>

definition widest :: "nat list \<Rightarrow> nat" where
  "widest xs = fold max xs 0"

text \<open>\<open>shorten\<close> is \<open>shorten_path\<close> against the main worktree.\<close>

definition calculate_layout_with_width ::
  "(string \<Rightarrow> nat) \<Rightarrow> (string \<Rightarrow> string) \<Rightarrow> 'p list_item list \<Rightarrow> task_kind set \<Rightarrow> destination \<Rightarrow> string \<Rightarrow>
   column_selection \<Rightarrow> repo_facts \<Rightarrow> layout_config" where
  "calculate_layout_with_width dw shorten items tasks dest main_path sel facts =
     (let branch_width = widest (map dw (filter_map item_branch items));
          detached_width = widest (map (\<lambda>it. dw (short_sha it)) (filter (\<lambda>it. item_branch it = None) items));
          max_branch = fit_header dw (column_header C_Branch) (min (max branch_width detached_width) max_branch_width);
          path_w = fit_header dw (column_header C_Path)
                     (widest (map (\<lambda>p. dw (shorten p)) (filter_map (\<lambda>it. branch_ref.worktree_path (li_ref it)) items)));
          path_is_informative = list_ex (\<lambda>it.
             case worktree_data_of it of
               Some d \<Rightarrow> branch_worktree_mismatch d \<or> duplicate_branch d \<or> item_branch it = None
             | None \<Rightarrow> False) items;
          url_width = estimate_url_width (url_template facts) (dest_link dest);
          custom_widths = map (\<lambda>(i, c).
             let w = widest (map (\<lambda>it. dw (custom_values it ! i)) (filter (\<lambda>it. i < length (custom_values it)) items))
             in if w = 0 then 0 else fit_header dw (cust_name c) (min w (cust_max_width c)))
             (enumerate 0 (sel_custom sel));
          md = build_estimated_widths dw max_branch tasks path_is_informative url_width custom_widths facts;
          commit_w = fit_header dw (column_header C_Commit) (widest (map (\<lambda>it. dw (short_sha it)) items))
      in allocate_columns_with_priority dw md tasks path_w commit_w dest main_path sel)"

section \<open>Paths and ages (\<open>src/display.rs\<close>)\<close>

text \<open>\<open>relative\<close> is \<open>pathdiff::diff_paths\<close>, \<open>shown\<close> is \<open>format_path_for_display\<close>; a path of Unix is its own slash form.\<close>

definition shorten_path :: "(string \<Rightarrow> string \<Rightarrow> string option) \<Rightarrow> (string \<Rightarrow> string) \<Rightarrow> string \<Rightarrow> string \<Rightarrow> string" where
  "shorten_path relative shown path main_path =
     (if same_path path main_path then ''.''
      else case relative path main_path of
        Some r \<Rightarrow>
          if \<not> is_absolute r \<and> (case components r of c # _ \<Rightarrow> c = ''..'' | [] \<Rightarrow> False) then from_utf8_lossy r
          else ''./'' @ from_utf8_lossy r
      | None \<Rightarrow> shown path)"

definition time_units :: "(int \<times> string) list" where
  "time_units = [(31536000, ''y''), (2592000, ''mo''), (604800, ''w''), (86400, ''d''), (3600, ''h''), (60, ''m'')]"

definition format_relative_time :: "int \<Rightarrow> int \<Rightarrow> string" where
  "format_relative_time stamp now =
     (let ago = now - stamp in
      if ago < 0 then ''future''
      else if ago < 60 then ''now''
      else (case find (\<lambda>(u, a). 0 < ago div u) time_units of
              Some (u, a) \<Rightarrow> show_nat (nat (ago div u)) @ a
            | None \<Rightarrow> ''now''))"

end
