(* ===== verification/Layout_Properties.thy ===== *)
theory Layout_Properties
  imports List_Layout
begin

text \<open>
  What the layout of \<open>wt list\<close> guarantees: the columns shown fit the terminal and do not overlap, and a column that is
  empty on every row is shown only when every column with something to show is.
\<close>

section \<open>The space columns take\<close>

definition plain_count :: "pending_column list \<Rightarrow> nat" where
  "plain_count ps = length (filter (\<lambda>p. pc_kind p \<noteq> C_Gutter) ps)"

text \<open>The widths and the gaps between the columns other than the gutter.\<close>

definition occupied :: "pending_column list \<Rightarrow> nat" where
  "occupied ps = sum_list (map pc_width ps) + 2 * (plain_count ps - 1)"

definition gutter_first :: "pending_column list \<Rightarrow> bool" where
  "gutter_first ps \<longleftrightarrow> (\<forall>p\<in>set (tl ps). pc_kind p \<noteq> C_Gutter)"

lemma plain_count_append [simp]: "plain_count (ps @ qs) = plain_count ps + plain_count qs"
  by (simp add: plain_count_def)

lemma plain_count_simps [simp]:
  "plain_count [] = 0"
  "plain_count (p # ps) = (if pc_kind p = C_Gutter then 0 else 1) + plain_count ps"
  by (simp_all add: plain_count_def)

lemma plain_count_pos: "0 < plain_count ps \<longleftrightarrow> (\<exists>p\<in>set ps. pc_kind p \<noteq> C_Gutter)"
  by (induction ps) auto

lemma plain_count_cong: "map pc_kind ps = map pc_kind qs \<Longrightarrow> plain_count ps = plain_count qs"
proof -
  assume kinds: "map pc_kind ps = map pc_kind qs"
  have "plain_count rs = length (filter (\<lambda>k. k \<noteq> C_Gutter) (map pc_kind rs))" for rs
    by (induction rs) auto
  then show ?thesis using kinds by metis
qed

lemma needs_spacing_iff: "gutter_first ps \<Longrightarrow> needs_spacing ps \<longleftrightarrow> 0 < plain_count ps"
proof (cases ps rule: rev_cases)
  case (snoc qs p)
  assume "gutter_first ps"
  then show ?thesis using snoc by (cases qs) (auto simp: needs_spacing_def gutter_first_def plain_count_pos)
qed (simp add: needs_spacing_def)

lemma gutter_first_snoc: "gutter_first ps \<Longrightarrow> pc_kind p \<noteq> C_Gutter \<or> ps = [] \<Longrightarrow> gutter_first (ps @ [p])"
  by (cases ps) (auto simp: gutter_first_def)

section \<open>Allocation keeps the budget\<close>

definition budgeted :: "nat \<Rightarrow> allocation \<Rightarrow> bool" where
  "budgeted width a \<longleftrightarrow>
     occupied (al_pending a) + al_remaining a = width \<and> gutter_first (al_pending a)"

lemma try_allocate_cases:
  assumes "try_allocate remaining i m spacing first = (w, r)" and "m \<noteq> Some 0"
  shows "if w = 0 then r = remaining else w + (if first then 0 else spacing) + r = remaining"
  using assms by (auto simp: try_allocate_def Let_def split: if_splits option.splits)

lemma push_column_budgeted:
  assumes "budgeted width a" and "pc_kind \<lparr>pc_spec = cand_spec c, pc_priority = cand_priority c, pc_width = w, pc_format = f\<rparr> \<noteq> C_Gutter \<or> al_pending a = []"
    and "w + (if needs_spacing (al_pending a) then 2 else 0) + r = al_remaining a"
  shows "budgeted width (push_column c w f r a)"
proof -
  let ?p = "\<lparr>pc_spec = cand_spec c, pc_priority = cand_priority c, pc_width = w, pc_format = f\<rparr>"
  have gf: "gutter_first (al_pending a)" and sum: "occupied (al_pending a) + al_remaining a = width"
    using assms(1) by (auto simp: budgeted_def)
  have "gutter_first (al_pending a @ [?p])" using gutter_first_snoc[OF gf, of ?p] assms(2) by blast
  moreover have "occupied (al_pending a @ [?p]) = occupied (al_pending a) + w + (if needs_spacing (al_pending a) then 2 else 0)"
    using assms(2) needs_spacing_iff[OF gf] by (cases "al_pending a") (auto simp: occupied_def)
  ultimately show ?thesis using sum assms(3) by (simp add: budgeted_def push_column_def)
qed

lemma allocate_one_budgeted:
  assumes "budgeted width a" and "cand_kind c \<noteq> C_Gutter \<or> al_pending a = []"
  shows "budgeted width (allocate_one dw md path_w commit_w c a)"
proof -
  have flexible: "budgeted width (allocate_flexible e c a)" for e
    using assms push_column_budgeted[OF assms(1), of c 10 Text_Format]
    by (auto simp: allocate_flexible_def Let_def budgeted_def)
  have fixed: "budgeted width (allocate_fixed dw e c i f a)" for e i f
  proof -
    let ?m = "if shrinkable (cand_spec c) then Some (max (dw (column_header (cand_kind c))) 1) else None"
    obtain w r where t: "try_allocate (al_remaining a) i ?m 2 (\<not> needs_spacing (al_pending a)) = (w, r)"
      by fastforce
    have "?m \<noteq> Some 0" by simp
    note spent = try_allocate_cases[OF t this]
    have code: "allocate_fixed dw e c i f a =
        (if 0 < w then push_column c w f r a
         else if \<not> e then a\<lparr>al_remaining := r, al_dropped := True\<rparr> else a\<lparr>al_remaining := r\<rparr>)"
      using t by (simp add: allocate_fixed_def Let_def)
    show ?thesis
    proof (cases "w = 0")
      case True
      then show ?thesis using code spent assms(1) by (simp add: budgeted_def)
    next
      case False
      then show ?thesis using code spent push_column_budgeted[OF assms(1), of c w f r] assms(2) by (auto split: if_splits)
    qed
  qed
  show ?thesis using flexible fixed assms(1) by (auto simp: allocate_one_def Let_def split: option.split)
qed

lemma allocate_rest_budgeted:
  assumes "budgeted width a" and "\<forall>c\<in>set cs. cand_kind c \<noteq> C_Gutter"
  shows "budgeted width (fold (allocate_one dw md path_w commit_w) cs a)"
  using assms by (induction cs arbitrary: a) (auto simp: allocate_one_budgeted)

lemma sort_key_least: "f x = (0::nat) \<Longrightarrow> sort_key f (x # xs) = x # sort_key f xs"
  by (cases "sort_key f xs") auto

lemma custom_kind_neq [simp]: "custom_kind i \<noteq> C_Gutter" "C_Gutter \<noteq> custom_kind i"
  by (simp_all add: custom_kind_def)

definition other_specs :: "layout_metadata \<Rightarrow> task_kind set \<Rightarrow> column_selection \<Rightarrow> column_spec list" where
  "other_specs md tasks sel =
     filter (\<lambda>s. chosen (sel_selected sel) (spec_kind s)) (filter (\<lambda>s. renders_given_run tasks (spec_kind s)) (tl column_specs)) @
     custom_specs (lm_widths md) sel"

lemma custom_specs_kind: "s \<in> set (custom_specs w sel) \<Longrightarrow> \<exists>i. spec_kind s = C_Custom i"
  by (auto simp: custom_specs_def spec_new_def custom_kind_def)

lemma tl_specs_kind: "s \<in> set (tl column_specs) \<Longrightarrow> spec_kind s \<noteq> C_Gutter"
  by (auto simp: column_specs_def spec_new_def spec_shrinkable_def)

lemma other_specs_kind: "s \<in> set (other_specs md tasks sel) \<Longrightarrow> spec_kind s \<noteq> C_Gutter"
  using tl_specs_kind custom_specs_kind by (fastforce simp: other_specs_def)

lemma column_specs_Cons: "column_specs = spec_new C_Gutter 0 # tl column_specs"
  by (simp add: column_specs_def)

lemma column_candidates_Cons:
  "column_candidates md tasks sel =
     candidate_of (lm_flags md) (spec_new C_Gutter 0) #
     sort_key cand_priority (map (candidate_of (lm_flags md)) (other_specs md tasks sel))"
proof -
  have "filter (\<lambda>s. spec_kind s = C_Gutter \<or> chosen (sel_selected sel) (spec_kind s))
          (filter (\<lambda>s. renders_given_run tasks (spec_kind s)) column_specs) @ custom_specs (lm_widths md) sel =
        spec_new C_Gutter 0 # other_specs md tasks sel"
    using tl_specs_kind
    by (subst column_specs_Cons)
       (auto simp: other_specs_def spec_new_def renders_given_run_def intro!: filter_cong)
  then show ?thesis
    by (simp add: column_candidates_def sort_key_least candidate_of_def spec_new_def del: sort_key_simps)
qed

lemma allocation_budgeted: "budgeted width (allocate_all dw md path_w commit_w width (column_candidates md tasks sel))"
proof -
  let ?a = "\<lparr>al_remaining = width, al_pending = [], al_dropped = False\<rparr>"
  have "budgeted width ?a" by (simp add: budgeted_def occupied_def gutter_first_def)
  then have "budgeted width (allocate_one dw md path_w commit_w (candidate_of (lm_flags md) (spec_new C_Gutter 0)) ?a)"
    by (rule allocate_one_budgeted) simp
  then show ?thesis
    unfolding allocate_all_def column_candidates_Cons
    using other_specs_kind by (auto simp: candidate_of_def intro!: allocate_rest_budgeted)
qed

section \<open>Expansion and reclaiming keep the budget\<close>

definition origin :: "pending_column \<Rightarrow> column_spec \<times> nat" where
  "origin p = (pc_spec p, pc_priority p)"

lemma expand_kind_props:
  assumes "expand_kind k cap r ps = (ps', r', w)"
  shows "map origin ps' = map origin ps"
    and "sum_list (map pc_width ps') + r' = sum_list (map pc_width ps) + r"
    and "(\<exists>p\<in>set ps. pc_kind p = k) \<or> w = 0"
  using assms
  by (induction k cap r ps arbitrary: ps' r' w rule: expand_kind.induct)
     (auto split: prod.splits if_splits simp: Let_def origin_def)

lemma origin_kinds: "map origin ps = map origin qs \<Longrightarrow> map pc_kind ps = map pc_kind qs"
proof -
  assume same: "map origin ps = map origin qs"
  have "map pc_kind rs = map (\<lambda>x. spec_kind (fst x)) (map origin rs)" for rs by (simp add: origin_def)
  then show ?thesis using same by metis
qed

lemma gutter_first_cong: "map pc_kind ps = map pc_kind qs \<Longrightarrow> gutter_first ps = gutter_first qs"
proof -
  assume kinds: "map pc_kind ps = map pc_kind qs"
  have "gutter_first rs \<longleftrightarrow> C_Gutter \<notin> set (tl (map pc_kind rs))" for rs
    by (cases rs) (auto simp: gutter_first_def image_iff)
  then show ?thesis using kinds by metis
qed

lemma expand_kind_occupied:
  assumes "expand_kind k cap r ps = (ps', r', w)"
  shows "occupied ps' + r' = occupied ps + r" and "gutter_first ps' = gutter_first ps"
  using expand_kind_props[OF assms] origin_kinds[of ps' ps] plain_count_cong[of ps' ps] gutter_first_cong[of ps' ps]
  by (simp_all add: occupied_def)

text \<open>Every pending column is one of the candidates.\<close>

definition drawn :: "candidate list \<Rightarrow> pending_column list \<Rightarrow> bool" where
  "drawn cs ps \<longleftrightarrow> origin ` set ps \<subseteq> (\<lambda>c. (cand_spec c, cand_priority c)) ` set cs"

lemma drawn_cong: "map origin ps = map origin qs \<Longrightarrow> drawn cs ps = drawn cs qs"
  unfolding drawn_def set_map[symmetric] by (simp only:)

lemma drawnD: "drawn cs ps \<Longrightarrow> p \<in> set ps \<Longrightarrow> \<exists>c\<in>set cs. pc_spec p = cand_spec c \<and> pc_priority p = cand_priority c"
  unfolding drawn_def origin_def by blast

lemma summary_priority [simp]: "column_priority C_Summary = 10"
  by (simp add: column_priority_def column_specs_def spec_new_def spec_shrinkable_def)

lemma set_remove_nth: "set (remove_nth i ps) \<subseteq> set ps"
  by (auto simp: remove_nth_def dest: in_set_takeD in_set_dropD)

lemma remove_nth_split: "i < length ps \<Longrightarrow> ps = take i ps @ ps ! i # drop (Suc i) ps"
  by (rule id_take_nth_drop)

lemma remove_nth_other: "i < length ps \<Longrightarrow> q \<in> set ps \<Longrightarrow> q \<noteq> ps ! i \<Longrightarrow> q \<in> set (remove_nth i ps)"
proof -
  assume "i < length ps" "q \<in> set ps" "q \<noteq> ps ! i"
  then show ?thesis using remove_nth_split[of i ps]
    by (metis Un_iff remove_nth_def set_append set_ConsD)
qed

lemma remove_nth_occupied:
  assumes "i < length ps" and "pc_kind (ps ! i) \<noteq> C_Gutter" and "1 < plain_count ps"
  shows "occupied (remove_nth i ps) + (pc_width (ps ! i) + 2) = occupied ps"
proof -
  let ?p = "ps ! i"
  have split: "ps = take i ps @ ?p # drop (Suc i) ps" using assms(1) by (rule remove_nth_split)
  have widths: "sum_list (map pc_width ps) = sum_list (map pc_width (remove_nth i ps)) + pc_width ?p"
    by (subst split) (simp add: remove_nth_def)
  have counts: "plain_count ps = Suc (plain_count (remove_nth i ps))"
    by (subst split) (use assms(2) in \<open>simp add: remove_nth_def\<close>)
  show ?thesis using assms(3) widths counts by (auto simp: occupied_def)
qed

lemma remove_nth_gutter_first: "gutter_first ps \<Longrightarrow> gutter_first (remove_nth i ps)"
proof -
  assume gf: "gutter_first ps"
  have "set (tl (remove_nth i ps)) \<subseteq> set (tl ps)"
  proof (cases ps)
    case (Cons p qs)
    show ?thesis
    proof (cases i)
      case 0
      then show ?thesis using Cons by (cases qs) (auto simp: remove_nth_def)
    next
      case (Suc n)
      then have "tl (remove_nth i ps) = remove_nth n qs" using Cons by (simp add: remove_nth_def)
      then show ?thesis using set_remove_nth[of n qs] Cons by simp
    qed
  qed (simp add: remove_nth_def)
  then show ?thesis using gf by (auto simp: gutter_first_def)
qed

text \<open>What the loop that reclaims space keeps.\<close>

definition reclaimable :: "candidate list \<Rightarrow> nat \<Rightarrow> nat \<Rightarrow> nat \<Rightarrow> pending_column list \<Rightarrow> bool" where
  "reclaimable cs width n r ps \<longleftrightarrow>
     occupied ps + r = width \<and> gutter_first ps \<and> drawn cs ps \<and> (n = 0 \<or> (\<exists>p\<in>set ps. pc_kind p = C_Summary))"

lemma drop_keeps_summary:
  assumes drop: "drop_pos n ps = Some i" and "\<exists>p\<in>set ps. pc_kind p = C_Summary"
  shows "\<exists>p\<in>set (remove_nth i ps). pc_kind p = C_Summary"
  using drop_pos_Some(1,2)[OF drop] assms(2) remove_nth_other[of i ps] by (fastforce simp: droppable_def)

lemma two_plain:
  assumes "p \<in> set ps" "q \<in> set ps" "p \<noteq> q" "pc_kind p \<noteq> C_Gutter" "pc_kind q \<noteq> C_Gutter"
  shows "1 < plain_count ps"
proof -
  have "{p, q} \<subseteq> set (filter (\<lambda>p. pc_kind p \<noteq> C_Gutter) ps)" using assms by auto
  then have "card {p, q} \<le> card (set (filter (\<lambda>p. pc_kind p \<noteq> C_Gutter) ps))" by (rule card_mono[rotated]) simp
  also have "\<dots> \<le> plain_count ps" unfolding plain_count_def by (rule card_length)
  finally show ?thesis using assms(3) by simp
qed

lemma reclaim_props:
  assumes "reclaimable cs width n r ps" and gutters: "\<forall>c\<in>set cs. cand_kind c = C_Gutter \<longrightarrow> cand_priority c = 0"
    and "reclaim n r ps = (ps', r', n')"
  shows "occupied ps' + r' = width \<and> gutter_first ps' \<and> drawn cs ps'"
  using assms
proof (induction n r ps rule: reclaim.induct)
  case (1 n r ps)
  show ?case
  proof (cases "0 < n \<and> n < max_summary")
    case False
    then show ?thesis using "1.prems" by (subst (asm) reclaim.simps) (auto simp: reclaimable_def)
  next
    case loop: True
    show ?thesis
    proof (cases "drop_pos n ps")
      case None
      then show ?thesis using "1.prems" loop by (subst (asm) reclaim.simps) (auto simp: reclaimable_def)
    next
      case (Some i)
      note d = drop_pos_Some(1,2)[OF Some]
      have inv: "occupied ps + r = width" "gutter_first ps" "drawn cs ps" "\<exists>p\<in>set ps. pc_kind p = C_Summary"
        using "1.prems"(1) loop by (auto simp: reclaimable_def)
      then obtain q where q: "q \<in> set ps" "pc_kind q = C_Summary" by blast
      have plain: "pc_kind (ps ! i) \<noteq> C_Gutter"
        using drawnD[OF inv(3) nth_mem[OF d(1)]] gutters d(2) by (auto simp: droppable_def)
      have "q \<noteq> ps ! i" using d(2) q(2) by (auto simp: droppable_def)
      then have many: "1 < plain_count ps" using two_plain[of q ps "ps ! i"] q plain nth_mem[OF d(1)] by simp
      let ?ps = "remove_nth i ps" and ?r = "r + (pc_width (ps ! i) + 2)"
      have summary: "\<exists>p\<in>set ?ps. pc_kind p = C_Summary" by (rule drop_keeps_summary[OF Some inv(4)])
      obtain ps2 r2 w where e: "expand_kind C_Summary max_summary ?r ?ps = (ps2, r2, w)" by (metis prod_cases3)
      have step: "reclaim n r ps = reclaim w r2 ps2"
        using loop Some summary e by (subst reclaim.simps) (auto simp: Let_def)
      have "occupied ?ps + ?r = width"
        using remove_nth_occupied[OF d(1) plain many] inv(1) by simp
      moreover have "drawn cs ?ps" using inv(3) set_remove_nth[of i ps] by (auto simp: drawn_def)
      moreover have "\<exists>p\<in>set ps2. pc_kind p = C_Summary"
        using summary origin_kinds[OF expand_kind_props(1)[OF e]] by (metis (mono_tags, lifting) image_iff list.set_map)
      ultimately have "reclaimable cs width w r2 ps2"
        using expand_kind_occupied[OF e] expand_kind_props[OF e] remove_nth_gutter_first[OF inv(2)]
          drawn_cong[of ps2 ?ps cs] by (simp add: reclaimable_def)
      from "1.IH"(1)[OF loop Some refl refl summary e[symmetric] refl refl this gutters] "1.prems"(3) step
      show ?thesis by simp
    qed
  qed
qed

section \<open>Candidates and what is drawn from them\<close>

lemma candidates_kinds:
  "c \<in> set (column_candidates md tasks sel) \<Longrightarrow> cand_kind c = C_Gutter \<Longrightarrow> cand_priority c = 0"
  using other_specs_kind by (fastforce simp: column_candidates_Cons candidate_of_def spec_new_def)

lemma allocate_one_pending:
  "\<exists>extra. al_pending (allocate_one dw md path_w commit_w c a) = al_pending a @ extra \<and>
     (\<forall>p\<in>set extra. origin p = (cand_spec c, cand_priority c))"
  by (auto simp: allocate_one_def allocate_flexible_def allocate_fixed_def push_column_def origin_def Let_def
      split: option.split prod.split)

lemma allocate_one_drawn:
  "drawn cs (al_pending a) \<Longrightarrow> c \<in> set cs \<Longrightarrow> drawn cs (al_pending (allocate_one dw md path_w commit_w c a))"
proof -
  assume "drawn cs (al_pending a)" "c \<in> set cs"
  moreover obtain extra where "al_pending (allocate_one dw md path_w commit_w c a) = al_pending a @ extra"
      "\<forall>p\<in>set extra. origin p = (cand_spec c, cand_priority c)"
    using allocate_one_pending[of dw md path_w commit_w c a] by blast
  ultimately show ?thesis by (simp add: drawn_def image_subset_iff ball_Un)
qed

lemma fold_drawn:
  "drawn cs (al_pending a) \<Longrightarrow> set ds \<subseteq> set cs \<Longrightarrow> drawn cs (al_pending (fold (allocate_one dw md path_w commit_w) ds a))"
  by (induction ds arbitrary: a) (auto simp: allocate_one_drawn)

lemma allocation_drawn: "drawn cs (al_pending (allocate_all dw md path_w commit_w width cs))"
  unfolding allocate_all_def by (rule fold_drawn) (auto simp: drawn_def)

section \<open>Positions\<close>

definition lead :: "column_kind option \<Rightarrow> nat \<Rightarrow> nat" where
  "lead prev pos = (case prev of None \<Rightarrow> 0 | Some k \<Rightarrow> if k = C_Gutter then pos else pos + 2)"

definition apart :: "column_layout \<Rightarrow> column_layout \<Rightarrow> bool" where
  "apart a b \<longleftrightarrow> cl_start a + cl_width a + (if cl_kind a = C_Gutter then 0 else 2) \<le> cl_start b"

lemma place_columns_plain:
  assumes "\<forall>p\<in>set ps. pc_kind p \<noteq> C_Gutter"
  shows "(\<forall>c\<in>set (place_columns custom prev pos ps).
            lead prev pos \<le> cl_start c \<and>
            cl_start c + cl_width c \<le> lead prev pos + sum_list (map pc_width ps) + 2 * (length ps - 1)) \<and>
         sorted_wrt apart (place_columns custom prev pos ps)"
  using assms
proof (induction ps arbitrary: prev pos)
  case (Cons p ps)
  let ?start = "lead prev pos"
  have plain: "pc_kind p \<noteq> C_Gutter" "\<forall>q\<in>set ps. pc_kind q \<noteq> C_Gutter" using Cons.prems by auto
  have rest: "lead (Some (pc_kind p)) (?start + pc_width p) = ?start + pc_width p + 2"
    using plain(1) by (simp add: lead_def)
  note ih = Cons.IH[OF plain(2), of "Some (pc_kind p)" "?start + pc_width p", unfolded rest]
  have code: "place_columns custom prev pos (p # ps) =
      \<lparr>cl_kind = pc_kind p, cl_header = final_header custom (pc_kind p), cl_start = ?start, cl_width = pc_width p,
       cl_format = pc_format p\<rparr> # place_columns custom (Some (pc_kind p)) (?start + pc_width p) ps"
    by (simp add: lead_def Let_def)
  show ?case
  proof (cases ps)
    case Nil
    show ?thesis unfolding code by (simp add: Nil)
  next
    case (Cons q qs)
    then show ?thesis using ih plain(1) unfolding code by (fastforce simp: apart_def)
  qed
qed simp

lemma place_columns_fits:
  assumes "gutter_first ps"
  shows "(\<forall>c\<in>set (place_columns custom None 0 ps). cl_start c + cl_width c \<le> occupied ps) \<and>
         sorted_wrt apart (place_columns custom None 0 ps)"
proof (cases ps)
  case (Cons p qs)
  then have plain: "\<forall>q\<in>set qs. pc_kind q \<noteq> C_Gutter" using assms by (simp add: gutter_first_def)
  then have count: "plain_count qs = length qs" by (simp add: plain_count_def)
  show ?thesis
  proof (cases "pc_kind p = C_Gutter")
    case True
    have "lead (Some C_Gutter) (pc_width p) = pc_width p" by (simp add: lead_def)
    then show ?thesis
      using place_columns_plain[OF plain, of custom "Some C_Gutter" "pc_width p"] Cons True count
      by (fastforce simp: occupied_def apart_def Let_def)
  next
    case False
    with plain Cons have "\<forall>q\<in>set ps. pc_kind q \<noteq> C_Gutter" by simp
    from place_columns_plain[OF this, of custom None 0] show ?thesis
      using Cons False count by (simp add: occupied_def lead_def)
  qed
qed simp

lemma gutter_key: "display_sort_key selected C_Gutter = (0, 0)"
  by (auto simp: display_sort_key_def column_display_index_def column_specs_def spec_new_def split: option.split)

lemma sorted_gutter_first:
  assumes "gutter_first ps"
  shows "gutter_first (sort_key (\<lambda>p. display_sort_key selected (pc_kind p)) ps)" (is "gutter_first (sort_key ?f ps)")
proof (cases "\<exists>p\<in>set ps. pc_kind p = C_Gutter")
  case True
  then obtain g qs where ps: "ps = g # qs" and g: "pc_kind g = C_Gutter"
    using assms by (cases ps) (auto simp: gutter_first_def)
  have "sort_key ?f ps = g # sort_key ?f qs"
    unfolding ps using g by (auto intro!: insort_is_Cons simp: gutter_key split: prod.split) (metis less_eq_prod_simp zero_le prod.exhaust)
  then show ?thesis using assms by (simp add: gutter_first_def ps)
next
  case False
  have "set (tl (sort_key ?f ps)) \<subseteq> set (sort_key ?f ps)" by (cases "sort_key ?f ps") auto
  then show ?thesis using False by (auto simp: gutter_first_def)
qed

lemma occupied_sort: "occupied (sort_key f ps) = occupied ps"
proof -
  have "plain_count qs = size (filter_mset (\<lambda>p. pc_kind p \<noteq> C_Gutter) (mset qs))" for qs
    by (simp add: plain_count_def flip: size_mset mset_filter)
  moreover have "sum_list (map pc_width (sort_key f ps)) = sum_list (map pc_width ps)"
    by (metis mset_map mset_sort sum_mset_sum_list)
  ultimately show ?thesis by (simp add: occupied_def)
qed

section \<open>The layout as a whole\<close>

definition cand_origin :: "candidate \<Rightarrow> column_spec \<times> nat" where
  "cand_origin c = (cand_spec c, cand_priority c)"

text \<open>Something to show, and something to show it in.\<close>

definition wants :: "layout_metadata \<Rightarrow> nat \<Rightarrow> nat \<Rightarrow> candidate \<Rightarrow> bool" where
  "wants md path_w commit_w c \<longleftrightarrow>
     has_data (lm_flags md) (cand_kind c) \<and>
     (cand_kind c = C_Summary \<or> cand_kind c = C_Message \<or> ideal (lm_widths md) path_w commit_w (cand_kind c) \<noteq> None)"

abbreviation blank :: "layout_metadata \<Rightarrow> column_spec \<Rightarrow> bool" where
  "blank md s \<equiv> \<not> has_data (lm_flags md) (spec_kind s)"

text \<open>A blank column is there only when every column that wants a place has one.\<close>

definition deferent :: "layout_metadata \<Rightarrow> nat \<Rightarrow> nat \<Rightarrow> candidate list \<Rightarrow> pending_column list \<Rightarrow> bool" where
  "deferent md path_w commit_w cs ps \<longleftrightarrow>
     ((\<exists>x\<in>origin ` set ps. blank md (fst x)) \<longrightarrow>
        (\<forall>c\<in>set cs. wants md path_w commit_w c \<longrightarrow> cand_origin c \<in> origin ` set ps))"

lemma deferent_cong:
  "map origin ps = map origin qs \<Longrightarrow> deferent md path_w commit_w cs ps = deferent md path_w commit_w cs qs"
  unfolding deferent_def set_map[symmetric] by (simp only:)

definition ranked :: "layout_metadata \<Rightarrow> candidate list \<Rightarrow> bool" where
  "ranked md cs \<longleftrightarrow>
     (\<forall>c\<in>set cs. if blank md (cand_spec c) then 14 < cand_priority c else cand_priority c \<le> 13) \<and>
     sorted (map cand_priority cs)"

lemma rankedD:
  assumes "ranked md cs" and "c \<in> set cs"
  shows "blank md (cand_spec c) \<Longrightarrow> 14 < cand_priority c" and "\<not> blank md (cand_spec c) \<Longrightarrow> cand_priority c \<le> 13"
  using assms by (auto simp: ranked_def split: if_splits)

lemma push_column_origins [simp]:
  "origin ` set (al_pending (push_column c w f r a)) = insert (cand_origin c) (origin ` set (al_pending a))"
  "al_dropped (push_column c w f r a) = al_dropped a"
  by (auto simp: push_column_def origin_def cand_origin_def)

lemma allocate_one_outcome:
  assumes "a' = allocate_one dw md path_w commit_w c a"
  shows "origin ` set (al_pending a') = origin ` set (al_pending a) \<and>
           (al_dropped a' \<longleftrightarrow> al_dropped a \<or> wants md path_w commit_w c) \<or>
         origin ` set (al_pending a') = insert (cand_origin c) (origin ` set (al_pending a)) \<and>
           al_dropped a' = al_dropped a \<and> (blank md (cand_spec c) \<longrightarrow> \<not> al_dropped a)"
proof -
  have flexible: "origin ` set (al_pending (allocate_flexible e c a)) = insert (cand_origin c) (origin ` set (al_pending a)) \<and>
        al_dropped (allocate_flexible e c a) = al_dropped a \<or>
      origin ` set (al_pending (allocate_flexible e c a)) = origin ` set (al_pending a) \<and>
        (al_dropped (allocate_flexible e c a) \<longleftrightarrow> al_dropped a \<or> \<not> e)" for e
    by (auto simp: allocate_flexible_def Let_def)
  have fixed: "origin ` set (al_pending (allocate_fixed dw e c i f a)) = insert (cand_origin c) (origin ` set (al_pending a)) \<and>
        al_dropped (allocate_fixed dw e c i f a) = al_dropped a \<or>
      origin ` set (al_pending (allocate_fixed dw e c i f a)) = origin ` set (al_pending a) \<and>
        (al_dropped (allocate_fixed dw e c i f a) \<longleftrightarrow> al_dropped a \<or> \<not> e)" for e i f
    by (auto simp: allocate_fixed_def Let_def split: prod.split)
  have wanted: "wants md path_w commit_w c \<longleftrightarrow> \<not> blank md (cand_spec c) \<and>
      (cand_kind c = C_Summary \<or> cand_kind c = C_Message \<or> ideal (lm_widths md) path_w commit_w (cand_kind c) \<noteq> None)"
    by (auto simp: wants_def)
  show ?thesis
  proof (cases "blank md (cand_spec c) \<and> al_dropped a")
    case True
    then show ?thesis by (simp add: assms allocate_one_def Let_def wants_def)
  next
    case False
    show ?thesis
    proof (cases "cand_kind c = C_Summary \<or> cand_kind c = C_Message")
      case True
      then have "a' = allocate_flexible (blank md (cand_spec c)) c a"
        using False by (auto simp: assms allocate_one_def Let_def)
      then show ?thesis using flexible[of "blank md (cand_spec c)"] False True wanted by metis
    next
      case kind: False
      show ?thesis
      proof (cases "ideal (lm_widths md) path_w commit_w (cand_kind c)")
        case None
        then have "a' = a" using False kind by (auto simp: assms allocate_one_def Let_def)
        then show ?thesis using None kind wanted by simp
      next
        case (Some x)
        then have "a' = allocate_fixed dw (blank md (cand_spec c)) c (fst x) (snd x) a"
          using False kind by (cases x) (auto simp: assms allocate_one_def Let_def)
        then show ?thesis using fixed[of "blank md (cand_spec c)" "fst x" "snd x"] False Some wanted by (metis option.distinct(1))
      qed
    qed
  qed
qed

lemma allocate_fold_deferent:
  assumes "sorted_wrt (\<lambda>c d. blank md (cand_spec c) \<longrightarrow> blank md (cand_spec d)) (old @ ds)"
    and "al_dropped a \<or> (\<forall>c\<in>set old. wants md path_w commit_w c \<longrightarrow> cand_origin c \<in> origin ` set (al_pending a))"
    and "deferent md path_w commit_w (old @ ds) (al_pending a)"
  shows "deferent md path_w commit_w (old @ ds) (al_pending (fold (allocate_one dw md path_w commit_w) ds a))"
  using assms
proof (induction ds arbitrary: old a)
  case (Cons c ds)
  let ?a = "allocate_one dw md path_w commit_w c a" and ?O = "origin ` set (al_pending a)"
  note out = allocate_one_outcome[OF refl, of dw md path_w commit_w c a]
  have A: "al_dropped ?a \<or> (\<forall>d\<in>set (old @ [c]). wants md path_w commit_w d \<longrightarrow> cand_origin d \<in> origin ` set (al_pending ?a))"
    using out Cons.prems(2) by auto
  have later: "wants md path_w commit_w d \<Longrightarrow> False" if "blank md (cand_spec c)" "d \<in> set ds" for d
    using Cons.prems(1) that by (auto simp: sorted_wrt_append wants_def)
  have B: "deferent md path_w commit_w (old @ c # ds) (al_pending ?a)"
  proof (cases "origin ` set (al_pending ?a) = ?O")
    case True
    then show ?thesis using Cons.prems(3) by (simp add: deferent_def)
  next
    case False
    then have new: "origin ` set (al_pending ?a) = insert (cand_origin c) ?O"
        "blank md (cand_spec c) \<longrightarrow> \<not> al_dropped a" using out by auto
    show ?thesis
    proof (cases "blank md (cand_spec c)")
      case True
      then have "\<forall>d\<in>set old. wants md path_w commit_w d \<longrightarrow> cand_origin d \<in> ?O" using new Cons.prems(2) by blast
      then show ?thesis using later[OF True] new(1) by (auto simp: deferent_def)
    next
      case False
      then show ?thesis using Cons.prems(3) new(1) by (auto simp: deferent_def cand_origin_def)
    qed
  qed
  from Cons.IH[of "old @ [c]" ?a] A B Cons.prems(1) show ?case by simp
qed simp

lemma ranked_blank_last:
  assumes "ranked md cs"
  shows "sorted_wrt (\<lambda>c d. blank md (cand_spec c) \<longrightarrow> blank md (cand_spec d)) cs"
proof -
  have "sorted_wrt (\<lambda>c d. cand_priority c \<le> cand_priority d) cs"
    using assms by (simp add: ranked_def sorted_map)
  then show ?thesis
  proof (rule sorted_wrt_mono_rel[rotated])
    fix c d
    assume cs: "c \<in> set cs" "d \<in> set cs" "cand_priority c \<le> cand_priority d"
    show "blank md (cand_spec c) \<longrightarrow> blank md (cand_spec d)"
      using rankedD(1)[OF assms cs(1)] rankedD(2)[OF assms cs(2)] cs(3) by linarith
  qed
qed

lemma allocation_deferent:
  assumes "ranked md cs"
  shows "deferent md path_w commit_w cs (al_pending (allocate_all dw md path_w commit_w width cs))"
  using allocate_fold_deferent[of md "[]" cs "\<lparr>al_remaining = width, al_pending = [], al_dropped = False\<rparr>" path_w commit_w dw]
    ranked_blank_last[OF assms]
  by (simp add: allocate_all_def deferent_def)

lemma remove_nth_origins:
  "i < length ps \<Longrightarrow> x \<in> origin ` set ps \<Longrightarrow> x \<noteq> origin (ps ! i) \<Longrightarrow> x \<in> origin ` set (remove_nth i ps)"
  using remove_nth_other[of i ps] by blast

lemma drop_deferent:
  assumes "ranked md cs" and "drawn cs ps" and "deferent md path_w commit_w cs ps"
    and drop: "drop_pos n ps = Some i" and "n < max_summary"
  shows "deferent md path_w commit_w cs (remove_nth i ps)"
proof (cases "blank md (pc_spec (ps ! i))")
  case True
  have other: "cand_origin c \<noteq> origin (ps ! i)" if "wants md path_w commit_w c" for c
    using that True by (auto simp: cand_origin_def origin_def wants_def)
  have "\<exists>x\<in>origin ` set ps. blank md (fst x)" if "\<exists>x\<in>origin ` set (remove_nth i ps). blank md (fst x)"
    using that set_remove_nth[of i ps] by blast
  then show ?thesis
    using assms(3) remove_nth_origins[OF drop_pos_Some(1)[OF drop] _ other] unfolding deferent_def by blast
next
  case False
  have "\<not> blank md (fst (origin q))" if q: "q \<in> set (remove_nth i ps)" for q
  proof
    assume blank: "blank md (fst (origin q))"
    have in_ps: "q \<in> set ps" using q set_remove_nth[of i ps] by blast
    obtain c where c: "c \<in> set cs" "pc_spec q = cand_spec c" "pc_priority q = cand_priority c"
      using drawnD[OF assms(2) in_ps] by blast
    have high: "14 < pc_priority q"
      using rankedD(1)[OF assms(1) c(1)] c(2,3) blank by (simp add: origin_def)
    have "pc_kind q \<noteq> C_Summary" using blank by (auto simp: origin_def)
    moreover have "\<not> pc_priority q - 10 \<le> 4" "\<not> pc_priority q \<le> 10" using high by linarith+
    ultimately have "droppable n q" using assms(5) by (simp add: droppable_def)
    then have le: "pc_priority q \<le> pc_priority (ps ! i)" using drop_pos_Some(3)[OF drop in_ps] by blast
    obtain d where d: "d \<in> set cs" "pc_spec (ps ! i) = cand_spec d" "pc_priority (ps ! i) = cand_priority d"
      using drawnD[OF assms(2) nth_mem[OF drop_pos_Some(1)[OF drop]]] by blast
    have "pc_priority (ps ! i) \<le> 13" using rankedD(2)[OF assms(1) d(1)] d(2,3) False by simp
    with le high show False by simp
  qed
  then show ?thesis by (simp add: deferent_def)
qed

lemma reclaim_deferent:
  assumes "ranked md cs" and "drawn cs ps" and "deferent md path_w commit_w cs ps"
    and "n = 0 \<or> (\<exists>p\<in>set ps. pc_kind p = C_Summary)" and "reclaim n r ps = (ps', r', n')"
  shows "deferent md path_w commit_w cs ps'"
  using assms
proof (induction n r ps rule: reclaim.induct)
  case (1 n r ps)
  show ?case
  proof (cases "0 < n \<and> n < max_summary \<and> drop_pos n ps \<noteq> None")
    case False
    then show ?thesis using "1.prems" by (subst (asm) reclaim.simps) (auto split: if_splits)
  next
    case True
    then obtain i where i: "drop_pos n ps = Some i" and loop: "0 < n \<and> n < max_summary" by blast
    let ?ps = "remove_nth i ps" and ?r = "r + (pc_width (ps ! i) + 2)"
    have summary: "\<exists>p\<in>set ?ps. pc_kind p = C_Summary"
      using drop_keeps_summary[OF i] "1.prems"(4) loop by blast
    obtain ps2 r2 w where e: "expand_kind C_Summary max_summary ?r ?ps = (ps2, r2, w)" by (metis prod_cases3)
    have step: "reclaim n r ps = reclaim w r2 ps2"
      using loop i summary e by (subst reclaim.simps) (auto simp: Let_def)
    note same = expand_kind_props(1)[OF e]
    have "drawn cs ?ps" using "1.prems"(2) set_remove_nth[of i ps] by (auto simp: drawn_def)
    then have "drawn cs ps2" using drawn_cong[OF same] by simp
    moreover have "deferent md path_w commit_w cs ps2"
      using drop_deferent[OF "1.prems"(1-3) i] loop deferent_cong[OF same] by simp
    moreover have "\<exists>p\<in>set ps2. pc_kind p = C_Summary"
      using summary origin_kinds[OF same] by (metis (mono_tags, lifting) image_iff list.set_map)
    ultimately show ?thesis
      using "1.IH"(1)[OF loop i refl refl summary e[symmetric] refl refl "1.prems"(1)] "1.prems"(5) step by simp
  qed
qed

lemma custom_priorities:
  assumes "\<forall>c\<in>set (sel_custom sel). cust_priority c \<le> 13" and "s \<in> set (custom_specs w sel)"
  shows "base_priority s \<le> 13"
proof -
  obtain i c where "(i, c) \<in> set (enumerate 0 (sel_custom sel))" "s = spec_new (custom_kind i) (cust_priority c)"
    using assms(2) by (auto simp: custom_specs_def)
  moreover from this(1) have "c \<in> set (sel_custom sel)" by (auto simp: in_set_enumerate_eq)
  ultimately show ?thesis using assms(1) by (simp add: spec_new_def)
qed

lemma candidates_ranked:
  assumes "\<forall>c\<in>set (sel_custom sel). cust_priority c \<le> 13"
  shows "ranked md (column_candidates md tasks sel)"
proof -
  have registry: "base_priority s \<le> 13 \<and> (blank md s \<longrightarrow> 1 < base_priority s)" if "s \<in> set column_specs" for s
    using that by (auto simp: column_specs_def spec_new_def spec_shrinkable_def)
  have sub: "set (column_candidates md tasks sel) \<subseteq>
      candidate_of (lm_flags md) ` (set column_specs \<union> set (custom_specs (lm_widths md) sel))"
    by (auto simp: column_candidates_def)
  have "if blank md (cand_spec c) then 14 < cand_priority c else cand_priority c \<le> 13"
    if in_cs: "c \<in> set (column_candidates md tasks sel)" for c
  proof -
    obtain s where s: "c = candidate_of (lm_flags md) s" "s \<in> set column_specs \<or> s \<in> set (custom_specs (lm_widths md) sel)"
      using in_cs sub by blast
    then have "base_priority s \<le> 13 \<and> (blank md s \<longrightarrow> 1 < base_priority s)"
      using registry custom_priorities[OF assms] custom_specs_kind by fastforce
    then show ?thesis by (auto simp: s(1) candidate_of_def empty_penalty_def)
  qed
  moreover have "sorted (map cand_priority (column_candidates md tasks sel))"
    by (simp add: column_candidates_def)
  ultimately show ?thesis unfolding ranked_def by blast
qed

text \<open>Everything the properties need of a layout: the columns that were placed.\<close>

lemma layout_parts:
  assumes "l = allocate_columns_with_priority dw md tasks path_w commit_w dest main_path sel"
  obtains ps where
    "lay_columns l = place_columns (sel_custom sel) None 0 (sort_key (\<lambda>p. display_sort_key (sel_selected sel) (pc_kind p)) ps)"
    and "occupied ps \<le> dest_width dest" and "gutter_first ps"
    and "ranked md (column_candidates md tasks sel) \<Longrightarrow> deferent md path_w commit_w (column_candidates md tasks sel) ps"
proof -
  let ?cs = "column_candidates md tasks sel"
  let ?a = "allocate_all dw md path_w commit_w (dest_width dest) ?cs"
  obtain ps1 r1 s1 where e1: "expand_kind C_Summary max_summary (al_remaining ?a) (al_pending ?a) = (ps1, r1, s1)"
    by (metis prod_cases3)
  obtain ps2 r2 s2 where e2: "reclaim s1 r1 ps1 = (ps2, r2, s2)" by (metis prod_cases3)
  obtain ps3 r3 m where e3: "expand_kind C_Message max_message r2 ps2 = (ps3, r3, m)" by (metis prod_cases3)
  have budget: "occupied (al_pending ?a) + al_remaining ?a = dest_width dest" "gutter_first (al_pending ?a)"
    using allocation_budgeted by (auto simp: budgeted_def)
  have drawn1: "drawn ?cs ps1"
    using drawn_cong[OF expand_kind_props(1)[OF e1]] allocation_drawn by simp
  have summary1: "s1 = 0 \<or> (\<exists>p\<in>set ps1. pc_kind p = C_Summary)"
    using expand_kind_props(3)[OF e1] origin_kinds[OF expand_kind_props(1)[OF e1]]
    by (metis (mono_tags, lifting) image_iff list.set_map)
  have "reclaimable ?cs (dest_width dest) s1 r1 ps1"
    using expand_kind_occupied[OF e1] budget drawn1 summary1 by (simp add: reclaimable_def)
  then have "occupied ps2 + r2 = dest_width dest \<and> gutter_first ps2 \<and> drawn ?cs ps2"
    by (rule reclaim_props) (use candidates_kinds e2 in auto)
  then have "occupied ps3 \<le> dest_width dest" and gf: "gutter_first ps3"
    using expand_kind_occupied[OF e3] by auto
  moreover have "deferent md path_w commit_w ?cs ps3" if "ranked md ?cs"
  proof -
    have "deferent md path_w commit_w ?cs ps1"
      using deferent_cong[OF expand_kind_props(1)[OF e1]] allocation_deferent[OF that] by simp
    then have "deferent md path_w commit_w ?cs ps2"
      by (rule reclaim_deferent[OF that drawn1 _ summary1 e2])
    then show ?thesis using deferent_cong[OF expand_kind_props(1)[OF e3]] by simp
  qed
  ultimately show ?thesis
    using that e1 e2 e3 by (simp add: assms allocate_columns_with_priority_def Let_def)
qed

lemma place_columns_kinds: "map cl_kind (place_columns custom prev pos ps) = map pc_kind ps"
  by (induction custom prev pos ps rule: place_columns.induct) (auto simp: Let_def)

section \<open>Properties\<close>

text \<open>
  C37. The columns of a table fit the terminal: whatever the rows, the widths, the selection and the custom columns
  are, every column ends within the width of the destination, and each starts after the one before it has ended,
  two columns later unless that is the gutter.
\<close>

theorem layout_fits_terminal:
  assumes "l = calculate_layout_with_width dw shorten items tasks dest main_path sel facts"
  shows "(\<forall>c\<in>set (lay_columns l). cl_start c + cl_width c \<le> dest_width dest) \<and>
         sorted_wrt (\<lambda>a b. cl_start a + cl_width a + (if cl_kind a = C_Gutter then 0 else 2) \<le> cl_start b) (lay_columns l)"
proof -
  obtain md path_w commit_w where "l = allocate_columns_with_priority dw md tasks path_w commit_w dest main_path sel"
    using assms unfolding calculate_layout_with_width_def Let_def by (rule_tac that)
  from layout_parts[OF this] obtain ps where
    ps: "lay_columns l = place_columns (sel_custom sel) None 0 (sort_key (\<lambda>p. display_sort_key (sel_selected sel) (pc_kind p)) ps)"
    "occupied ps \<le> dest_width dest" "gutter_first ps" by metis
  from place_columns_fits[OF sorted_gutter_first[OF ps(3)], of "sel_custom sel" "sel_selected sel"]
  have fits: "(\<forall>c\<in>set (lay_columns l). cl_start c + cl_width c \<le> occupied ps) \<and> sorted_wrt apart (lay_columns l)"
    by (simp add: ps(1) occupied_sort)
  then have "\<forall>c\<in>set (lay_columns l). cl_start c + cl_width c \<le> dest_width dest"
    using ps(2) order_trans by blast
  with fits show ?thesis by (simp add: apart_def[abs_def])
qed

text \<open>
  A column that is blank on every row is shown only when every column with something to show is, as long as no
  custom column has a priority number above that of Message: neither the allocation nor the space Summary reclaims
  leaves a blank column where a populated one was dropped.
\<close>

theorem blank_columns_yield:
  assumes "l = allocate_columns_with_priority dw md tasks path_w commit_w dest main_path sel"
    and "\<forall>c\<in>set (sel_custom sel). cust_priority c \<le> 13"
    and "b \<in> set (lay_columns l)" and "\<not> has_data (lm_flags md) (cl_kind b)"
    and "c \<in> set (column_candidates md tasks sel)" and "has_data (lm_flags md) (cand_kind c)"
    and "cand_kind c = C_Summary \<or> cand_kind c = C_Message \<or> ideal (lm_widths md) path_w commit_w (cand_kind c) \<noteq> None"
  shows "\<exists>d\<in>set (lay_columns l). cl_kind d = cand_kind c"
proof -
  obtain ps where
    ps: "lay_columns l = place_columns (sel_custom sel) None 0 (sort_key (\<lambda>p. display_sort_key (sel_selected sel) (pc_kind p)) ps)"
    and df: "deferent md path_w commit_w (column_candidates md tasks sel) ps"
    using layout_parts[OF assms(1)] candidates_ranked[OF assms(2)] by metis
  have kinds: "cl_kind ` set (lay_columns l) = pc_kind ` set ps"
    unfolding ps by (metis place_columns_kinds list.set_map set_sort)
  then have "cl_kind b \<in> pc_kind ` set ps" using assms(3) by blast
  then obtain p where "p \<in> set ps" "pc_kind p = cl_kind b" by auto
  then have "\<exists>x\<in>origin ` set ps. blank md (fst x)" using assms(4) by (force simp: origin_def)
  moreover have "wants md path_w commit_w c" using assms(6,7) by (simp add: wants_def)
  ultimately have "cand_origin c \<in> origin ` set ps" using df assms(5) unfolding deferent_def by blast
  then have "cand_kind c \<in> pc_kind ` set ps" by (auto simp: cand_origin_def origin_def)
  then have "cand_kind c \<in> cl_kind ` set (lay_columns l)" by (simp add: kinds)
  then show ?thesis by auto
qed

definition sample_facts :: repo_facts where
  "sample_facts = \<lparr>has_remote = False, url_template = None, max_pr_number = None\<rparr>"

definition sample_selection :: column_selection where
  "sample_selection = \<lparr>sel_selected = Some [C_Branch, C_Upstream], sel_custom = []\<rparr>"

definition sample_metadata :: layout_metadata where
  "sample_metadata = build_estimated_widths length 7 {K_Upstream} False 0 [] sample_facts"

definition sample_dest :: destination where
  "sample_dest = \<lparr>dest_width = 30, dest_link = Link_Linked\<rparr>"

definition sample_layout :: layout_config where
  "sample_layout =
     allocate_columns_with_priority length sample_metadata {K_Upstream} 4 6 sample_dest ''/repo'' sample_selection"

lemma sample_widths [simp]:
  "lm_flags sample_metadata = \<lparr>f_status = True, f_working_diff = True, f_ahead_behind = True, f_branch_diff = False,
     f_upstream = False, f_url = False, f_ci_status = False, f_path = False\<rparr>"
  "w_branch (lm_widths sample_metadata) = 7" "w_custom (lm_widths sample_metadata) = []"
  "w_upstream (lm_widths sample_metadata) = \<lparr>dw_total = 9, positive_digits = 2, negative_digits = 2\<rparr>"
  by (simp_all add: sample_metadata_def build_estimated_widths_def sample_facts_def fit_header_def utf8_def Let_def)

lemma sample_candidates:
  "column_candidates sample_metadata {K_Upstream} sample_selection =
     [\<lparr>cand_spec = spec_new C_Gutter 0, cand_priority = 0\<rparr>,
      \<lparr>cand_spec = spec_shrinkable (spec_new C_Branch 1), cand_priority = 1\<rparr>,
      \<lparr>cand_spec = spec_new C_Upstream 8, cand_priority = 22\<rparr>]"
  by (simp add: column_candidates_def sample_selection_def column_specs_def renders_given_run_def chosen_def
      custom_specs_def candidate_of_def empty_penalty_def spec_new_def spec_shrinkable_def)

lemma sample_selected [simp]: "sel_selected sample_selection = Some [C_Branch, C_Upstream]" "sel_custom sample_selection = []"
  by (simp_all add: sample_selection_def)

lemma sample_columns:
  "map cl_kind (lay_columns sample_layout) = [C_Gutter, C_Branch, C_Upstream]"
  by (simp add: sample_layout_def allocate_columns_with_priority_def sample_candidates allocate_all_def allocate_one_def
      allocate_fixed_def try_allocate_def needs_spacing_def push_column_def text_column_def diff_column_def
      spec_new_def spec_shrinkable_def sample_dest_def Let_def reclaim.simps display_sort_key_def
      place_columns_kinds)

theorem blank_columns_yield_witness:
  "C_Upstream \<in> cl_kind ` set (lay_columns sample_layout) \<and> \<not> has_data (lm_flags sample_metadata) C_Upstream \<and>
   (\<exists>d\<in>set (lay_columns sample_layout). cl_kind d = C_Branch)"
proof -
  have shown: "C_Upstream \<in> set (map cl_kind (lay_columns sample_layout))" unfolding sample_columns by simp
  then obtain b where b: "b \<in> set (lay_columns sample_layout)" "cl_kind b = C_Upstream" by auto
  have "\<exists>d\<in>set (lay_columns sample_layout).
      cl_kind d = cand_kind \<lparr>cand_spec = spec_shrinkable (spec_new C_Branch 1), cand_priority = 1\<rparr>"
    by (rule blank_columns_yield[OF sample_layout_def _ b(1)])
       (simp_all add: b(2) sample_candidates spec_new_def spec_shrinkable_def text_column_def)
  then show ?thesis using shown by (simp add: spec_new_def spec_shrinkable_def)
qed

definition sample_table :: layout_config where
  "sample_table = calculate_layout_with_width length id ([] :: unit list_item list) {K_Upstream} sample_dest ''/repo'' sample_selection sample_facts"

lemma sample_table_columns: "map cl_kind (lay_columns sample_table) = [C_Gutter, C_Branch, C_Upstream]"
proof -
  have table: "sample_table = allocate_columns_with_priority length
      (build_estimated_widths length 6 {K_Upstream} False 0 [] sample_facts) {K_Upstream} 4 6 sample_dest ''/repo'' sample_selection"
    by (simp add: sample_table_def calculate_layout_with_width_def widest_def fit_header_def estimate_url_width_def
        sample_facts_def eval_nat_numeral)
  show ?thesis
    by (simp add: table allocate_columns_with_priority_def build_estimated_widths_def sample_facts_def fit_header_def utf8_def
        column_candidates_def column_specs_def renders_given_run_def chosen_def custom_specs_def candidate_of_def
        empty_penalty_def allocate_all_def allocate_one_def allocate_fixed_def try_allocate_def needs_spacing_def
        push_column_def text_column_def diff_column_def spec_new_def spec_shrinkable_def sample_dest_def Let_def
        reclaim.simps display_sort_key_def place_columns_kinds)
qed

theorem layout_fits_terminal_witness:
  "map cl_kind (lay_columns sample_table) = [C_Gutter, C_Branch, C_Upstream] \<and>
   list_all (\<lambda>c. cl_start c + cl_width c \<le> 30) (lay_columns sample_table)"
  using layout_fits_terminal[OF sample_table_def] sample_table_columns by (simp add: sample_dest_def list_all_iff)

end
