(* ===== verification/Target_Push.thy ===== *)
theory Target_Push
  imports Selectors Pipeline_Steps
begin

text \<open>
  Landing commits on a target branch (\<open>src/commands/worktree/push.rs\<close>): the checks before anything moves, the
  compare-and-swap of the branch with the synchronisation of the worktree it is checked out in and the rollback,
  the fast-forward push and the merge commit; with the diffs they show (\<open>src/git/repository/diff.rs\<close>), the check for
  conflicting changes (\<open>src/commands/repository_ext.rs\<close>) and what is asked of the repository
  (\<open>src/git/repository/mod.rs\<close>). The text of an error in a message is the argument \<open>show\<close>, the gutter of quoted
  text \<open>gutter\<close>; text is without its styling.
\<close>

section \<open>Failures that carry a result\<close>

text \<open>\<open>CommandResult\<close>: an error may carry the result of the work that was completed.\<close>

type_synonym ('r, 'a) completing = "(handle, wt_error \<times> 'r option, 'a) stateful"

definition failing_plain :: "'a command \<Rightarrow> ('r, 'a) completing" where
  "failing_plain m h = io_bind (m h) (\<lambda>(h', r). Ret (h', case r of Inl e \<Rightarrow> Inl (e, None) | Inr x \<Rightarrow> Inr x))"

definition speak :: "string \<Rightarrow> ('s, 'e, unit) stateful" where
  "speak txt = perform (Say txt (Ret ()))"

section \<open>Diffs\<close>

datatype diff_sides = Sides_Working_Tree string | Sides_Staged string | Sides_Commits string string

record prepared_diff =
  pd_dir :: string
  pd_sides :: diff_sides

definition diff_revisions :: "diff_sides \<Rightarrow> string list" where
  "diff_revisions sides =
     (case sides of
        Sides_Working_Tree base \<Rightarrow> [base] | Sides_Staged base \<Rightarrow> [base] | Sides_Commits from_rev to_rev \<Rightarrow> [from_rev, to_rev])"

definition diff_run :: "prepared_diff \<Rightarrow> string list \<Rightarrow> ('s, wt_error, string) stateful" where
  "diff_run pd args s =
     Git (pd_dir pd) args (\<lambda>r. Ret (s,
       case r of
         Inl e \<Rightarrow> Inl (With_Context (''Failed to execute: git '' @ join '' '' args) (Git_Failed (Not_Run e)))
       | Inr out \<Rightarrow> if exit_code out \<noteq> Some 0 then Inl (Git_Failed (Command_Failed args out))
                   else Inr (from_utf8_lossy (stdout out))))"

definition diff_command :: "diff_sides \<Rightarrow> string list" where
  "diff_command sides =
     (case sides of
        Sides_Working_Tree _ \<Rightarrow> plumbing_args Diff_Index []
      | Sides_Staged _ \<Rightarrow> plumbing_args Diff_Index [''--cached'', ''--ita-invisible-in-index'']
      | Sides_Commits _ _ \<Rightarrow> plumbing_args Diff_Tree [''-r''])"

definition diff_capture :: "prepared_diff \<Rightarrow> string list \<Rightarrow> ('s, wt_error, string) stateful" where
  "diff_capture pd options =
     diff_run pd ([''--no-optional-locks''] @ diff_command (pd_sides pd) @ [''--find-renames'', ''--textconv''] @ options @
       [''--end-of-options''] @ diff_revisions (pd_sides pd) @ [''--''])"

definition stats_summary :: "prepared_diff \<Rightarrow> string list command" where
  "stats_summary pd =
     abind (ok (diff_capture pd [''--shortstat''])) (\<lambda>out.
       aret (Inr (case out of None \<Rightarrow> [] | Some o1 \<Rightarrow> format_summary id id (diff_stats_from_shortstat o1))))"

definition prepare_diff :: "repo_env \<Rightarrow> string \<Rightarrow> string \<Rightarrow> prepared_diff" where
  "prepare_diff env from_rev to_rev = \<lparr>pd_dir = discovery_path env, pd_sides = Sides_Commits from_rev to_rev\<rparr>"

definition prepare_commit_diff :: "string \<Rightarrow> string \<Rightarrow> string \<Rightarrow> prepared_diff" where
  "prepare_commit_diff wt from_rev to_rev = \<lparr>pd_dir = wt, pd_sides = Sides_Commits from_rev to_rev\<rparr>"

text \<open>The width of the terminal, if it has one, is \<open>width\<close>; the gutter takes two columns.\<close>

definition show_diffstat ::
  "nat option \<Rightarrow> (string \<Rightarrow> string) \<Rightarrow> repo_env \<Rightarrow> string \<Rightarrow> string \<Rightarrow> unit command" where
  "show_diffstat width gutter env base head =
     abind (diff_capture (prepare_diff env base head)
              ([''--color=always'', ''--stat''] @
               (case width of Some w \<Rightarrow> [''--stat-width='' @ show_nat (w - 2)] | None \<Rightarrow> []))) (\<lambda>out.
       let stat = trim_end out in
       if stat \<noteq> [] then speak (gutter stat) else aret (Inr ()))"

section \<open>Questions to the repository\<close>

definition parse_int_error :: "string \<Rightarrow> string" where
  "parse_int_error s =
     (if s = [] then ''cannot parse integer from empty string''
      else if list_all is_ascii_digit s then ''number too large to fit in target type''
      else ''invalid digit found in string'')"

definition count_commits :: "repo_env \<Rightarrow> string \<Rightarrow> string \<Rightarrow> nat command" where
  "count_commits env base head =
     abind (git_text (discovery_path env) [''rev-list'', ''--count'', ''--end-of-options'', base @ ''..'' @ head]) (\<lambda>out.
       case parse_usize (trim out) of
         Some n \<Rightarrow> aret (Inr n)
       | None \<Rightarrow> aret (Inl (With_Context ''Failed to parse commit count'' (Failed (parse_int_error (trim out))))))"

definition changed_files :: "repo_env \<Rightarrow> string \<Rightarrow> string \<Rightarrow> string list command" where
  "changed_files env base head =
     abind (git_bytes (discovery_path env)
              (plumbing_args Diff_Tree [''-r'', ''--name-only'', ''-z'', ''--end-of-options'', base, head, ''--''])) (\<lambda>out.
       aret (Inr (filter (\<lambda>p. p \<noteq> []) (split_on CHR 0x00 out))))"

definition signs_commits :: "repo_env \<Rightarrow> bool command" where
  "signs_commits env h =
     (let args = [''config'', ''--type=bool'', ''--get'', ''commit.gpgSign''] in
      Git (discovery_path env) args (\<lambda>r. Ret (h,
        case r of
          Inl e \<Rightarrow> Inl (Git_Failed (Not_Run e))
        | Inr out \<Rightarrow>
            if exit_code out = Some 0 then Inr (trim (from_utf8_lossy (stdout out)) = ''true'')
            else if exit_code out = Some 1 then Inr False
            else Inl (Git_Failed (Command_Failed args out)))))"

definition repo_operation_in_progress :: "repo_env \<Rightarrow> in_progress_operation option command" where
  "repo_operation_in_progress env =
     abind (perform (worktree_at (discovery_path env))) (\<lambda>wt. in_process (operation_in_progress wt))"

definition ensure_no_operation_in_progress :: "repo_env \<Rightarrow> string \<Rightarrow> unit command" where
  "ensure_no_operation_in_progress env act =
     abind (repo_operation_in_progress env) (\<lambda>op.
       aret (if op = None then Inr () else Inl (Operation_In_Progress act None)))"

definition ensure_no_target_conflicts :: "repo_env \<Rightarrow> string option \<Rightarrow> string \<Rightarrow> string \<Rightarrow> string \<Rightarrow> unit command" where
  "ensure_no_target_conflicts env target_worktree tgt target_tip source_sha =
     (case target_worktree of
        None \<Rightarrow> aret (Inr ())
      | Some path \<Rightarrow>
          abind (perform (worktree_at path)) (\<lambda>wt.
          abind (git_bytes wt [''status'', ''--porcelain'', ''-z'', ''-uall'']) (\<lambda>status.
            if status = [] then aret (Inr ())
            else abind (changed_files env target_tip source_sha) (\<lambda>push_files.
              let wt_files = parse_porcelain_z status;
                  overlapping = map from_utf8_lossy (filter (\<lambda>f. f \<in> set wt_files) push_files)
              in aret (if overlapping = [] then Inr () else Inl (Conflicting_Changes tgt overlapping path))))))"

section \<open>What a push is about\<close>

datatype push_kind = Standalone | Merge_Fast_Forward

fun verb_past :: "push_kind \<Rightarrow> string" where
  "verb_past Standalone = ''Pushed to''"
| "verb_past Merge_Fast_Forward = ''Merged to''"

fun verb_progressive :: "push_kind \<Rightarrow> string" where
  "verb_progressive Standalone = ''Pushing''"
| "verb_progressive Merge_Fast_Forward = ''Merging''"

fun reflog_message :: "push_kind \<Rightarrow> string" where
  "reflog_message Standalone = ''wt step push: fast-forward''"
| "reflog_message Merge_Fast_Forward = ''wt merge: fast-forward''"

datatype push_outcome = Fast_Forwarded | Up_To_Date | Merge_Commit string

record push_result =
  pu_target :: string
  pu_count :: nat
  pu_outcome :: push_outcome

record merge_operations =
  mo_committed :: bool
  mo_squashed :: bool
  mo_rebased :: bool

record merge_context =
  mc_target :: string
  mc_worktree :: "string option"
  mc_tip :: string
  mc_head :: string
  mc_count :: nat
  mc_stats :: "string list"

text \<open>What a push runs in: git for the ancestry query, the parser of remote URLs, the paths the user may type, and
  how errors and quoted text are shown.\<close>

record pusher =
  ph_git :: git
  ph_gix :: gix
  ph_paths :: user_paths
  ph_show :: "wt_error \<Rightarrow> string"
  ph_gutter :: "string \<Rightarrow> string"
  ph_width :: "nat option"

definition branch_ref_name :: "string \<Rightarrow> string" where
  "branch_ref_name branch = ''refs/heads/'' @ branch"

definition refuse_busy_target :: "string option \<Rightarrow> string \<Rightarrow> unit command" where
  "refuse_busy_target worktree tgt =
     (case worktree of
        None \<Rightarrow> aret (Inr ())
      | Some path \<Rightarrow>
          abind (perform (worktree_at path)) (\<lambda>wt.
          abind (in_process (operation_in_progress wt)) (\<lambda>op.
            aret (if op = None then Inr () else Inl (Operation_In_Progress ''push'' (Some tgt))))))"

definition require_ancestor :: "pusher \<Rightarrow> repo_env \<Rightarrow> string \<Rightarrow> string \<Rightarrow> string \<Rightarrow> bool \<Rightarrow> unit command" where
  "require_ancestor ph env tgt target_tip head_sha in_merge =
     abind (in_process (query (is_ancestor_by_sha (ph_git ph) target_tip head_sha))) (\<lambda>anc.
       if anc then aret (Inr ())
       else abind (git_text (discovery_path env)
                     [''log'', ''--color=always'', ''--graph'', ''--oneline'', head_sha @ ''..'' @ target_tip]) (\<lambda>out.
              aret (Inl (Not_Fast_Forward tgt (trim out) in_merge))))"

definition push_stats :: "string \<Rightarrow> string \<Rightarrow> string \<Rightarrow> nat \<Rightarrow> string list command" where
  "push_stats wt target_tip head_sha n =
     (if 0 < n then stats_summary (prepare_commit_diff wt target_tip head_sha) else aret (Inr []))"

definition merge_context_prepare ::
  "pusher \<Rightarrow> repo_env \<Rightarrow> string option \<Rightarrow> merge_operations option \<Rightarrow> merge_context command" where
  "merge_context_prepare ph env target operations =
     abind (ensure_no_operation_in_progress env ''push'') (\<lambda>_.
     abind (require_target_branch (ph_gix ph) (ph_paths ph) env target) (\<lambda>tgt.
     abind (usable_worktree_for_branch env tgt) (\<lambda>worktree.
     abind (refuse_busy_target worktree tgt) (\<lambda>_.
     abind (git_text (discovery_path env) [''rev-parse'', branch_ref_name tgt]) (\<lambda>tip_out.
     abind (current_worktree env) (\<lambda>wt.
     abind (git_text wt [''rev-parse'', ''HEAD'']) (\<lambda>head_out.
       let target_tip = trim tip_out; head_sha = trim head_out in
     abind (require_ancestor ph env tgt target_tip head_sha (operations \<noteq> None)) (\<lambda>_.
     abind (ensure_no_target_conflicts env worktree tgt target_tip head_sha) (\<lambda>_.
     abind (count_commits env target_tip head_sha) (\<lambda>n.
     abind (push_stats wt target_tip head_sha n) (\<lambda>stats.
       aret (Inr \<lparr>mc_target = tgt, mc_worktree = worktree, mc_tip = target_tip, mc_head = head_sha,
                   mc_count = n, mc_stats = stats\<rparr>))))))))))))"

section \<open>Messages\<close>

definition operations_note :: "merge_operations option \<Rightarrow> string" where
  "operations_note operations =
     (case operations of
        None \<Rightarrow> []
      | Some ops \<Rightarrow>
          let skipped = (if \<not> mo_committed ops \<and> \<not> mo_squashed ops then [''commit/squash''] else []) @
                        (if \<not> mo_rebased ops then [''rebase''] else [])
          in if skipped = [] then [] else '' (no '' @ join ''/'' skipped @ '' needed)'')"

definition up_to_date_context :: "merge_operations option \<Rightarrow> string" where
  "up_to_date_context operations =
     (case operations of
        None \<Rightarrow> []
      | Some ops \<Rightarrow>
          let notes = (if \<not> mo_committed ops \<and> \<not> mo_squashed ops then [''no new commits''] else []) @
                      (if \<not> mo_rebased ops then [''no rebase needed''] else [])
          in if notes = [] then [] else '' ('' @ join '', '' notes @ '')'')"

definition show_progress ::
  "pusher \<Rightarrow> repo_env \<Rightarrow> merge_context \<Rightarrow> string \<Rightarrow> string \<Rightarrow> merge_operations option \<Rightarrow> unit command" where
  "show_progress ph env mc verb extra_note operations =
     (if mc_count mc = 0 then aret (Inr ())
      else
        abind (short_sha env (mc_head mc)) (\<lambda>short.
        abind (speak (verb @ '' '' @ show_nat (mc_count mc) @ (if mc_count mc = 1 then '' commit'' else '' commits'') @
                 '' to '' @ mc_target mc @ '' @ '' @ short @ extra_note @ operations_note operations)) (\<lambda>_.
        abind (git_text (discovery_path env)
                 [''log'', ''--color=always'', ''--graph'', ''--oneline'', ''--end-of-options'',
                  mc_tip mc @ ''..'' @ mc_head mc]) (\<lambda>out.
        abind (speak (ph_gutter ph out)) (\<lambda>_.
          show_diffstat (ph_width ph) (ph_gutter ph) env (mc_tip mc) (mc_head mc))))))"

definition show_up_to_date :: "merge_context \<Rightarrow> merge_operations option \<Rightarrow> unit command" where
  "show_up_to_date mc operations =
     (if 0 < mc_count mc then aret (Inr ())
      else speak (''Already up to date with '' @ mc_target mc @ up_to_date_context operations))"

definition show_success :: "merge_context \<Rightarrow> string \<Rightarrow> string \<Rightarrow> string \<Rightarrow> ('s, 'e, unit) stateful" where
  "show_success mc verb sha_suffix extra_stats =
     (let parts = (show_nat (mc_count mc) @ '' commit'' @ (if mc_count mc = 1 then [] else ''s'')) # mc_stats mc in
      speak (verb @ '' '' @ mc_target mc @ sha_suffix @ '' ('' @ join '', '' parts @ extra_stats @ '')''))"

section \<open>Moving the target\<close>

definition update_ref :: "repo_env \<Rightarrow> string \<Rightarrow> string \<Rightarrow> string \<Rightarrow> string \<Rightarrow> ('s, wt_error, string) stateful" where
  "update_ref env message ref new_sha old_sha =
     git_text (discovery_path env) [''update-ref'', ''-m'', message, ref, new_sha, old_sha]"

definition sync_worktree :: "string \<Rightarrow> string \<Rightarrow> string \<Rightarrow> string command" where
  "sync_worktree wt old_sha new_sha =
     abind (git_text wt [''update-index'', ''-q'', ''--refresh'']) (\<lambda>_.
       git_text wt [''-c'', ''submodule.recurse=false'', ''read-tree'', ''-m'', ''-u'', old_sha, new_sha])"

definition check_tip ::
  "repo_env \<Rightarrow> string \<Rightarrow> string \<Rightarrow> string \<Rightarrow> string \<Rightarrow> (unit, unit) completing" where
  "check_tip env tgt wt_path ref new_sha h =
     io_bind (git_text (discovery_path env) [''rev-parse'', ref] h) (\<lambda>(h', r).
       case r of
         Inl e \<Rightarrow> Ret (h', Inl (e, Some ()))
       | Inr tip_after \<Rightarrow>
           if trim tip_after \<noteq> new_sha
           then speak (tgt @ '' moved while its worktree was being synced; check git -C '' @ wt_path @ '' status'') h'
           else Ret (h', Inr ()))"

definition roll_back ::
  "pusher \<Rightarrow> repo_env \<Rightarrow> string \<Rightarrow> string \<Rightarrow> string \<Rightarrow> string \<Rightarrow> wt_error \<Rightarrow> (unit, unit) completing" where
  "roll_back ph env tgt ref old_sha new_sha e h =
     io_bind (update_ref env ''wt: rollback (worktree sync failed)'' ref old_sha new_sha h) (\<lambda>(h', r).
       let context = (case r of
             Inr _ \<Rightarrow> ''Syncing the '' @ tgt @ '' worktree failed; the ref change was rolled back''
           | Inl rollback_err \<Rightarrow>
               ''Syncing the '' @ tgt @ '' worktree failed, and the ref change could not be rolled back ('' @
               ph_show ph rollback_err @ ''); '' @ tgt @ '' has advanced but its worktree was not synced'')
       in Ret (h', Inl (With_Context context e, None)))"

definition advance_target ::
  "pusher \<Rightarrow> repo_env \<Rightarrow> (string \<Rightarrow> string) \<Rightarrow> string \<Rightarrow> string option \<Rightarrow> string \<Rightarrow> string \<Rightarrow> string \<Rightarrow>
   (unit, unit) completing" where
  "advance_target ph env shown tgt worktree old_sha new_sha message h =
     (let ref = branch_ref_name tgt in
      io_bind (update_ref env message ref new_sha old_sha h) (\<lambda>(h1, r).
        case r of
          Inl e \<Rightarrow> Ret (h1, Inl (Push_Failed tgt e, None))
        | Inr _ \<Rightarrow>
            (case worktree of
               None \<Rightarrow> Ret (h1, Inr ())
             | Some path \<Rightarrow>
                 io_bind (worktree_at path) (\<lambda>wt.
                 io_bind (sync_worktree wt old_sha new_sha h1) (\<lambda>(h2, synced).
                   case synced of
                     Inr _ \<Rightarrow> check_tip env tgt (shown path) ref new_sha h2
                   | Inl e \<Rightarrow> roll_back ph env tgt ref old_sha new_sha e h2)))))"

text \<open>The result of a push, carried by its error when the move itself was completed.\<close>

definition landed ::
  "merge_context \<Rightarrow> push_outcome \<Rightarrow> string \<Rightarrow> string \<Rightarrow> string \<Rightarrow> (unit, unit) completing \<Rightarrow> (push_result, push_result) completing" where
  "landed mc kind verb sha_suffix extra_stats m h =
     io_bind (m h) (\<lambda>(h', r).
       let result = \<lparr>pu_target = mc_target mc, pu_count = mc_count mc, pu_outcome = kind\<rparr> in
       case r of
         Inr _ \<Rightarrow> abind (show_success mc verb sha_suffix extra_stats) (\<lambda>_. aret (Inr result)) h'
       | Inl (e, completed) \<Rightarrow> Ret (h', Inl (e, map_option (\<lambda>_. result) completed)))"

definition up_to_date :: "merge_context \<Rightarrow> merge_operations option \<Rightarrow> push_result command" where
  "up_to_date mc operations =
     abind (show_up_to_date mc operations) (\<lambda>_.
       aret (Inr \<lparr>pu_target = mc_target mc, pu_count = 0, pu_outcome = Up_To_Date\<rparr>))"

definition handle_push ::
  "pusher \<Rightarrow> repo_env \<Rightarrow> (string \<Rightarrow> string) \<Rightarrow> string option \<Rightarrow> push_kind \<Rightarrow> merge_operations option \<Rightarrow>
   (push_result, push_result) completing" where
  "handle_push ph env shown target pk operations =
     abind (failing_plain (merge_context_prepare ph env target operations)) (\<lambda>mc.
     abind (failing_plain (show_progress ph env mc (verb_progressive pk) [] operations)) (\<lambda>_.
       if mc_count mc = 0 then failing_plain (up_to_date mc operations)
       else landed mc Fast_Forwarded (verb_past pk) [] []
              (advance_target ph env shown (mc_target mc) (mc_worktree mc) (mc_tip mc) (mc_head mc) (reflog_message pk))))"

text \<open>CHR 0x27 is the apostrophe.\<close>

definition merge_message :: "string \<Rightarrow> string \<Rightarrow> string" where
  "merge_message feature_branch tgt =
     ''Merge branch '' @ [CHR 0x27] @ feature_branch @ [CHR 0x27] @ '' into '' @ tgt"

definition commit_tree_args :: "string \<Rightarrow> merge_context \<Rightarrow> string \<Rightarrow> bool \<Rightarrow> string list" where
  "commit_tree_args tree mc message sign =
     [''commit-tree'', tree, ''-p'', mc_tip mc, ''-p'', mc_head mc, ''-m'', message] @
     (if sign then [''--gpg-sign''] else [])"

definition create_merge_commit :: "repo_env \<Rightarrow> merge_context \<Rightarrow> string \<Rightarrow> (string \<times> string) command" where
  "create_merge_commit env mc feature_branch =
     abind (git_text (discovery_path env) [''rev-parse'', mc_head mc @ ''^{tree}'']) (\<lambda>tree_out.
     abind (signs_commits env) (\<lambda>sign.
     abind (in_context_of ''Failed to create merge commit''
              (git_text (discovery_path env)
                 (commit_tree_args (trim tree_out) mc (merge_message feature_branch (mc_target mc)) sign))) (\<lambda>sha_out.
     abind (short_sha env (trim sha_out)) (\<lambda>short. aret (Inr (trim sha_out, short))))))"

definition handle_no_ff_merge ::
  "pusher \<Rightarrow> repo_env \<Rightarrow> (string \<Rightarrow> string) \<Rightarrow> string option \<Rightarrow> merge_operations option \<Rightarrow> string \<Rightarrow>
   (push_result, push_result) completing" where
  "handle_no_ff_merge ph env shown target operations feature_branch =
     abind (failing_plain (merge_context_prepare ph env target operations)) (\<lambda>mc.
     abind (failing_plain (show_progress ph env mc ''Merging'' '' (--no-ff)'' operations)) (\<lambda>_.
       if mc_count mc = 0 then failing_plain (up_to_date mc operations)
       else abind (failing_plain (create_merge_commit env mc feature_branch)) (\<lambda>(merge_sha, short).
         landed mc (Merge_Commit merge_sha) ''Merged to'' ('' @ '' @ short) '', --no-ff''
           (advance_target ph env shown (mc_target mc) (mc_worktree mc) (mc_tip mc) merge_sha
              (if operations \<noteq> None then ''wt merge: no-ff'' else ''wt step push: no-ff'')))))"

end
