(* ===== verification/Push_Properties.thy ===== *)
theory Push_Properties
  imports Target_Push Repository_Reads
begin

context git_user begin

lemma avoids_if_exists [quiet_intros]: "avoids E yes \<Longrightarrow> avoids E no \<Longrightarrow> avoids E (if_exists p yes no)"
  unfolding if_exists_def by (intro quiet_intros) simp

lemma avoids_operation [quiet_intros]: "avoids E (operation_in_progress_at d)"
proof -
  have "avoids E (sequencer_operation d)" unfolding sequencer_operation_def by (intro quiet_intros)
  then show ?thesis
    unfolding operation_in_progress_at_def by (auto intro!: quiet_intros split: option.split)
qed

lemma quiet_operation [quiet_intros]: "quiet_for E (operation_in_progress wt)"
  unfolding operation_in_progress_def by (intro quiet_intros)

lemma quiet_no_operation [quiet_intros]: "quiet_for E (ensure_no_operation_in_progress env act)"
  unfolding ensure_no_operation_in_progress_def repo_operation_in_progress_def by (intro quiet_intros)

lemma quiet_current [quiet_intros]: "quiet_for E (current_worktree env)"
  unfolding current_worktree_def by (intro quiet_intros)

lemma quiet_previous [quiet_intros]: "quiet_for E (switch_previous env)"
  unfolding switch_previous_def by (auto intro!: quiet_intros split: option.split)

lemma quiet_shortcut [quiet_intros]: "quiet_for E (expand_shortcut env n)"
  unfolding expand_shortcut_def by (intro quiet_intros)

lemma quiet_selector [quiet_intros]: "quiet_for E (expand_selector env n)"
  unfolding expand_selector_def Let_def by (intro quiet_intros)

lemma quiet_target_selector [quiet_intros]: "quiet_for E (resolve_target_selector env t)"
  unfolding resolve_target_selector_def by (auto intro!: quiet_intros split: option.split)

lemma quiet_remote_branches [quiet_intros]: "quiet_for E (remote_branches env)"
proof -
  have "quiet_for E (remember_remotes bs)" for bs
    by (simp add: quiet_for_def remember_remotes_def avoids_Ret)
  then have "quiet_for E (abind (git_text (discovery_path env) [''for-each-ref'', REMOTE_BRANCH_FORMAT, ''refs/remotes/''])
      (\<lambda>out. abind (all_remote_urls env) (\<lambda>rs. remember_remotes (remote_records rs out))))"
    unfolding all_remote_urls_def by (intro quiet_intros) simp_all
  then show ?thesis
    by (auto simp: quiet_for_def remote_branches_def avoids_Ret split: option.split)
qed

lemma quiet_check [quiet_intros]: "\<not> changes_refs args \<Longrightarrow> quiet_for E (git_check d args)"
  unfolding git_check_def by (intro quiet_intros) simp

lemma quiet_branch_exists [quiet_intros]: "quiet_for E (branch_exists env b)"
  unfolding branch_exists_def exists_locally_def ref_exists_def branch_remotes_def by (auto intro!: quiet_intros)

lemma avoids_find_at [quiet_intros]: "avoids E (find_at_path p wts)"
  by (induction wts) (auto intro!: quiet_intros)

lemma quiet_at_path [quiet_intros]: "quiet_for E (worktree_at_path env p)"
  unfolding worktree_at_path_def by (intro quiet_intros)

lemma quiet_target_at_path [quiet_intros]: "quiet_for E (target_worktree_at_path up env s)"
  unfolding target_worktree_at_path_def worktree_at_input_path_def by (intro quiet_intros)

lemma avoids_git_data [quiet_intros]: "avoids E (holds_git_data p)"
  unfolding holds_git_data_def is_bare_repo_dir_def by (auto intro!: quiet_intros)

lemma quiet_selector_dir [quiet_intros]: "quiet_for E (path_selector_directory up env s)"
  unfolding path_selector_directory_def Let_def by (auto intro!: quiet_intros)

lemma quiet_ref_type [quiet_intros]: "quiet_for E (detect_ref_type gix env)"
proof -
  have "quiet_for E (remember_url r u)" for r u
    by (simp add: quiet_for_def remember_url_def avoids_Ret)
  then have "quiet_for E (abind (ok (git_text (discovery_path env) [''remote'', ''get-url'', ''--'', r])) (\<lambda>out.
      remember_url r (Option.bind (map_option trim out) nonempty)))" for r
    by (intro quiet_intros) simp_all
  then have "quiet_for E (effective_remote_url env r)" for r
    by (auto simp: quiet_for_def effective_remote_url_def avoids_Ret split: option.split)
  then show ?thesis unfolding detect_ref_type_def by (auto intro!: quiet_intros split: option.split)
qed

lemma quiet_missing [quiet_intros]: "quiet_for E (missing_target_branch gix up env b)"
  unfolding missing_target_branch_def by (auto intro!: quiet_intros split: option.split)

lemma quiet_default_error [quiet_intros]: "quiet_for E (uncached_default_branch_error env b)"
  unfolding uncached_default_branch_error_def is_unborn_branch_def by (intro quiet_intros)

lemma quiet_require_target [quiet_intros]: "quiet_for E (require_target_branch gix up env t)"
  unfolding require_target_branch_def by (auto intro!: quiet_intros split: option.split)

lemma quiet_unusable [quiet_intros]: "quiet_for E (worktree_is_unusable env p)"
proof -
  have "avoids E (prunable_at p wts)" for wts by (induction wts) (auto intro!: quiet_intros)
  then show ?thesis unfolding worktree_is_unusable_def by (auto intro!: quiet_intros)
qed

lemma quiet_usable [quiet_intros]: "quiet_for E (usable_worktree_for_branch env b)"
  unfolding usable_worktree_for_branch_def by (auto intro!: quiet_intros split: option.split)

lemma quiet_refuse [quiet_intros]: "quiet_for E (refuse_busy_target w t)"
  unfolding refuse_busy_target_def by (auto intro!: quiet_intros split: option.split)

lemma quiet_changed_files [quiet_intros]: "quiet_for E (changed_files env a b)"
  unfolding changed_files_def by (intro quiet_intros) (simp add: plumbing_args_def)

lemma quiet_no_conflicts [quiet_intros]: "quiet_for E (ensure_no_target_conflicts env w t a b)"
  unfolding ensure_no_target_conflicts_def Let_def by (auto intro!: quiet_intros split: option.split)

lemma quiet_ancestor [quiet_intros]: "quiet_for E (require_ancestor ph env t a b m)"
  unfolding require_ancestor_def by (auto intro!: quiet_intros)

lemma quiet_count [quiet_intros]: "quiet_for E (count_commits env a b)"
  unfolding count_commits_def by (auto intro!: quiet_intros split: option.split)

lemma quiet_capture [quiet_intros]: "quiet_for E (diff_capture pd opts)"
  unfolding diff_capture_def diff_run_def
  by (auto intro!: quiet_state quiet_intros split: sum.split)

lemma quiet_push_stats [quiet_intros]: "quiet_for E (push_stats wt a b n)"
  unfolding push_stats_def stats_summary_def by (intro quiet_intros)

lemma quiet_prepare [quiet_intros]: "quiet_for E (merge_context_prepare ph env t ops)"
  unfolding merge_context_prepare_def Let_def by (intro quiet_intros) simp_all

lemma quiet_speak [quiet_intros]: "quiet_for E (speak s)"
  unfolding speak_def by (intro quiet_intros)

lemma quiet_short [quiet_intros]: "quiet_for E (short_sha env s)"
  unfolding short_sha_def by (intro quiet_intros) simp

lemma quiet_diffstat [quiet_intros]: "quiet_for E (show_diffstat w g env a b)"
  unfolding show_diffstat_def Let_def by (intro quiet_intros)

lemma quiet_progress [quiet_intros]: "quiet_for E (show_progress ph env mc v x ops)"
  unfolding show_progress_def by (intro quiet_intros) simp_all

lemma quiet_up_to_date [quiet_intros]: "quiet_for E (up_to_date mc ops)"
  unfolding up_to_date_def show_up_to_date_def by (intro quiet_intros)

lemma quiet_success [quiet_intros]: "quiet_for E (show_success mc v x y)"
  unfolding show_success_def Let_def by (intro quiet_intros)

lemma quiet_merge_commit [quiet_intros]: "quiet_for E (create_merge_commit env mc f)"
proof -
  have s: "quiet_for E (signs_commits env)"
    unfolding signs_commits_def Let_def by (auto intro!: quiet_state quiet_intros)
  show ?thesis
    unfolding create_merge_commit_def in_context_of_def
    by (intro quiet_intros s) (auto intro!: quiet_intros simp: commit_tree_args_def split: prod.split)
qed

lemma quiet_sync [quiet_intros]: "quiet_for E (sync_worktree wt a b)"
  unfolding sync_worktree_def by (intro quiet_intros) simp_all

lemma quiet_plain [quiet_intros]: "quiet_for E m \<Longrightarrow> quiet_for E (failing_plain m)"
  by (auto simp: quiet_for_def failing_plain_def intro!: quiet_intros split: prod.split)

end

section \<open>The moves of a run\<close>

definition moves_ref :: "event \<Rightarrow> bool" where
  "moves_ref e \<longleftrightarrow> (case e of Ran d args r \<Rightarrow> changes_refs args | _ \<Rightarrow> False)"

definition ref_moves :: "event list \<Rightarrow> event list" where
  "ref_moves tr = filter moves_ref tr"

interpretation ref_moves: git_user moves_ref
  by unfold_locales (simp_all add: moves_ref_def CONFIG_LIST_def)

lemma ref_moves_simps [simp]:
  "ref_moves [] = []" "ref_moves (t1 @ t2) = ref_moves t1 @ ref_moves t2"
  "ref_moves (e # t) = (if moves_ref e then e # ref_moves t else ref_moves t)"
  by (simp_all add: ref_moves_def)

lemma quiet_no_moves: "quiet_for moves_ref m \<Longrightarrow> runs (m s) tr y \<Longrightarrow> ref_moves tr = []"
  unfolding quiet_for_def by (cases y) (auto simp: avoids_def ref_moves_def filter_empty_conv)

lemma avoids_no_moves: "avoids moves_ref p \<Longrightarrow> runs p tr y \<Longrightarrow> ref_moves tr = []"
  by (auto simp: avoids_def ref_moves_def filter_empty_conv)

text \<open>The compare-and-swap of a ref: git moves it to \<open>new\<close> only if it still is \<open>old\<close>.\<close>

definition swap :: "repo_env \<Rightarrow> string \<Rightarrow> string \<Rightarrow> string \<Rightarrow> string \<Rightarrow> string + cmd_output \<Rightarrow> event" where
  "swap env message ref new old r = Ran (discovery_path env) [''update-ref'', ''-m'', message, ref, new, old] r"

definition swapped :: "event \<Rightarrow> bool" where
  "swapped e = (case e of Ran d args r \<Rightarrow> (case command_result args r of Inr _ \<Rightarrow> True | Inl _ \<Rightarrow> False) | _ \<Rightarrow> False)"

lemma moves_swap [simp]: "moves_ref (swap env m ref new old r)"
  by (simp add: swap_def moves_ref_def)

lemma git_text_unfold:
  "git_text d args s = Git d args (\<lambda>r. Ret (s, map_sum id from_utf8_lossy (command_result args r)))"
  by (auto simp: git_text_def git_bytes_def abind_def aret_def intro!: arg_cong[where f = "Git d args"] split: sum.split)

lemma update_ref_run:
  assumes "runs (update_ref env m ref new old h) tr (h', res)"
  obtains r where "tr = [swap env m ref new old r]" "h' = h" "swapped (swap env m ref new old r) \<longleftrightarrow> (\<exists>x. res = Inr x)"
proof -
  let ?args = "[''update-ref'', ''-m'', m, ref, new, old]"
  from assms obtain r where r: "tr = [swap env m ref new old r]" "h' = h"
    "res = map_sum id from_utf8_lossy (command_result ?args r)"
    by (auto simp: update_ref_def swap_def git_text_unfold)
  then have "swapped (swap env m ref new old r) \<longleftrightarrow> (\<exists>x. res = Inr x)"
    unfolding swapped_def swap_def by (cases "command_result ?args r") simp_all
  with r(1,2) that show thesis by blast
qed

text \<open>The moves of a run that reports a landing, and of one that does not.\<close>

fun moved_and_kept :: "event list \<Rightarrow> bool" where
  "moved_and_kept [e] = swapped e"
| "moved_and_kept _ = False"

definition reports_landing :: "('e \<times> push_result option) + push_result \<Rightarrow> bool" where
  "reports_landing res = (case res of Inr x \<Rightarrow> pu_outcome x \<noteq> Up_To_Date | Inl (_, completed) \<Rightarrow> completed \<noteq> None)"

definition ROLLBACK :: string where
  "ROLLBACK = ''wt: rollback (worktree sync failed)''"

definition swap_then_rollback ::
  "repo_env \<Rightarrow> string \<Rightarrow> string \<Rightarrow> string \<Rightarrow> string \<Rightarrow> event list \<Rightarrow> bool" where
  "swap_then_rollback env m ref new old es \<longleftrightarrow>
     (\<exists>r. es = [swap env m ref new old r]) \<or>
     (\<exists>r r'. es = [swap env m ref new old r, swap env ROLLBACK ref old new r'] \<and> swapped (swap env m ref new old r))"

lemma check_tip_run:
  assumes "runs (check_tip env tgt wt ref new h) tr (h', res)"
  shows "ref_moves tr = [] \<and> ((\<exists>x. res = Inr x) \<or> (\<exists>e. res = Inl (e, Some ())))"
proof -
  from assms obtain r t where r: "tr = Ran (discovery_path env) [''rev-parse'', ref] r # t"
    "runs (case map_sum id from_utf8_lossy (command_result [''rev-parse'', ref] r) of
         Inl e \<Rightarrow> Ret (h, Inl (e, Some ()))
       | Inr tip_after \<Rightarrow>
           if trim tip_after \<noteq> new
           then speak (tgt @ '' moved while its worktree was being synced; check git -C '' @ wt @ '' status'') h
           else Ret (h, Inr ())) t (h', res)"
    by (auto simp: check_tip_def git_text_unfold simp del: append_assoc)
  then show ?thesis
    by (cases "map_sum id from_utf8_lossy (command_result [''rev-parse'', ref] r)")
       (auto simp: moves_ref_def speak_def act_simps split: if_splits)
qed

lemma advance_target_run:
  assumes "runs (advance_target ph env shown tgt w old new m h) tr (h', res)"
  obtains r post where
    "tr = swap env m (branch_ref_name tgt) new old r # post"
    "swap_then_rollback env m (branch_ref_name tgt) new old (ref_moves tr)"
    "moved_and_kept (ref_moves tr) \<longleftrightarrow> (\<exists>x. res = Inr x) \<or> (\<exists>e. res = Inl (e, Some ()))"
    "w = None \<longrightarrow> post = []"
proof -
  let ?ref = "branch_ref_name tgt" and ?sw = "swap env m (branch_ref_name tgt) new old"
  from assms obtain t1 h1 r1 t2 where first: "runs (update_ref env m ?ref new old h) t1 (h1, r1)" and tr: "tr = t1 @ t2"
    and rest: "runs (case r1 of
          Inl e \<Rightarrow> Ret (h1, Inl (Push_Failed tgt e, None))
        | Inr _ \<Rightarrow>
            (case w of
               None \<Rightarrow> Ret (h1, Inr ())
             | Some path \<Rightarrow>
                 io_bind (worktree_at path) (\<lambda>wt.
                 io_bind (sync_worktree wt old new h1) (\<lambda>(h2, synced).
                   case synced of
                     Inr _ \<Rightarrow> check_tip env tgt (shown path) ?ref new h2
                   | Inl e \<Rightarrow> roll_back ph env tgt ?ref old new e h2)))) t2 (h', res)"
    by (auto simp: advance_target_def runs_bind Let_def)
  from first obtain r where r: "t1 = [?sw r]" "swapped (?sw r) \<longleftrightarrow> (\<exists>x. r1 = Inr x)"
    by (rule update_ref_run)
  show thesis
  proof (cases "\<exists>e. r1 = Inl e \<or> w = None")
    case True
    with rest tr r show thesis
      by (intro that[of r t2]) (auto simp: swap_then_rollback_def split: sum.splits)
  next
    case False
    then obtain path x where p: "w = Some path" "r1 = Inr x" by (cases r1) auto
    with rest obtain wt t3 h2 synced t4 t5 where synced: "w = Some path" "t2 = t3 @ t4 @ t5"
        "runs (worktree_at path) t3 wt" "runs (sync_worktree wt old new h1) t4 (h2, synced)"
        "runs (case synced of Inr _ \<Rightarrow> check_tip env tgt (shown path) ?ref new h2
                 | Inl e \<Rightarrow> roll_back ph env tgt ?ref old new e h2) t5 (h', res)"
      by (auto simp: runs_bind)
    have quiet: "ref_moves t3 = []" "ref_moves t4 = []"
      by (rule avoids_no_moves[OF ref_moves.quiet_paths(5) synced(3)], rule quiet_no_moves[OF ref_moves.quiet_sync synced(4)])
    show thesis
    proof (cases synced)
      case (Inr x)
      with synced(5) have "ref_moves t5 = []" "(\<exists>x. res = Inr x) \<or> (\<exists>e. res = Inl (e, Some ()))"
        using check_tip_run by auto
      with quiet synced r tr p show thesis
        by (intro that[of r t2]) (auto simp: swap_then_rollback_def)
    next
      case (Inl e)
      with synced(5) obtain r2 where "runs (update_ref env ROLLBACK ?ref old new h2) t5 (h', r2)" "\<exists>e. res = Inl (e, None)"
        by (auto simp: roll_back_def runs_bind Let_def ROLLBACK_def)
      moreover from this(1) obtain r' where "t5 = [swap env ROLLBACK ?ref old new r']" by (rule update_ref_run)
      ultimately show thesis using quiet synced r tr p
        by (intro that[of r t2]) (auto simp: swap_then_rollback_def)
    qed
  qed
qed

lemma landed_run:
  assumes "runs (landed mc kind v sfx ex (advance_target ph env shown tgt w old new m) h) tr (h', res)" "kind \<noteq> Up_To_Date"
  obtains r post where
    "tr = swap env m (branch_ref_name tgt) new old r # post"
    "swap_then_rollback env m (branch_ref_name tgt) new old (ref_moves tr)"
    "moved_and_kept (ref_moves tr) \<longleftrightarrow> reports_landing res"
    "w = None \<longrightarrow> (\<forall>e\<in>set post. \<exists>s. e = Said s)"
proof -
  let ?result = "\<lparr>pu_target = mc_target mc, pu_count = mc_count mc, pu_outcome = kind\<rparr>"
  from assms(1) obtain t1 h1 q t2 where adv: "runs (advance_target ph env shown tgt w old new m h) t1 (h1, q)"
    and tr: "tr = t1 @ t2" and end_run: "runs (case q of
         Inr _ \<Rightarrow> abind (show_success mc v sfx ex) (\<lambda>_. aret (Inr ?result)) h1
       | Inl (e, completed) \<Rightarrow> Ret (h1, Inl (e, map_option (\<lambda>_. ?result) completed))) t2 (h', res)"
    unfolding landed_def runs_bind Let_def by (elim exE conjE) (auto simp del: runs_simps)
  have rest: "(\<exists>s. t2 = [Said s]) \<and> (\<exists>x. q = Inr x) \<and> res = Inr ?result
      \<or> t2 = [] \<and> (\<exists>e c. q = Inl (e, c) \<and> (\<exists>c'. res = Inl (e, c') \<and> (c' = None \<longleftrightarrow> c = None)))"
  proof (cases q)
    case (Inl ec)
    with end_run show ?thesis by (cases ec) auto
  next
    case (Inr x)
    with end_run show ?thesis by (auto simp: show_success_def Let_def speak_def act_simps)
  qed
  from adv obtain r post where a: "t1 = swap env m (branch_ref_name tgt) new old r # post"
      "swap_then_rollback env m (branch_ref_name tgt) new old (ref_moves t1)"
      "moved_and_kept (ref_moves t1) \<longleftrightarrow> (\<exists>x. q = Inr x) \<or> (\<exists>e. q = Inl (e, Some ()))"
      "w = None \<longrightarrow> post = []"
    by (rule advance_target_run)
  have moves: "ref_moves tr = ref_moves t1" using tr rest by (auto simp: moves_ref_def)
  have iff: "reports_landing res \<longleftrightarrow> (\<exists>x. q = Inr x) \<or> (\<exists>e. q = Inl (e, Some ()))"
    using rest assms(2) by (auto simp: reports_landing_def)
  have said: "\<forall>e\<in>set t2. \<exists>s. e = Said s" using rest by auto
  from a(1) tr have "tr = swap env m (branch_ref_name tgt) new old r # (post @ t2)" by simp
  then show thesis
    by (rule that) (use a moves iff said in auto)
qed

section \<open>What is checked before\<close>

text \<open>A git command on the trace was answered with a text.\<close>

definition answered :: "event list \<Rightarrow> string \<Rightarrow> string list \<Rightarrow> string \<Rightarrow> bool" where
  "answered tr d args s \<longleftrightarrow>
     (\<exists>r out. Ran d args r \<in> set tr \<and> command_result args r = Inr out \<and> trim (from_utf8_lossy out) = s)"

definition STATUS_ALL :: "string list" where
  "STATUS_ALL = [''status'', ''--porcelain'', ''-z'', ''-uall'']"

definition changed_names :: "string \<Rightarrow> string \<Rightarrow> string list" where
  "changed_names old new =
     plumbing_args Diff_Tree [''-r'', ''--name-only'', ''-z'', ''--end-of-options'', old, new, ''--'']"

text \<open>The worktree was seen clean, or what was dirty in it disjoint from what changes between the commits.\<close>

definition saw_no_conflict :: "repo_env \<Rightarrow> event list \<Rightarrow> string \<Rightarrow> string \<Rightarrow> bool" where
  "saw_no_conflict env tr old new \<longleftrightarrow>
     (\<exists>wt r status. Ran wt STATUS_ALL r \<in> set tr \<and> command_result STATUS_ALL r = Inr status \<and>
        (status = [] \<or>
         (\<exists>q files. Ran (discovery_path env) (changed_names old new) q \<in> set tr \<and>
            command_result (changed_names old new) q = Inr files \<and>
            (\<forall>f\<in>set (split_on CHR 0x00 files). f \<noteq> [] \<longrightarrow> f \<notin> set (parse_porcelain_z status)))))"

definition guarded :: "pusher \<Rightarrow> repo_env \<Rightarrow> event list \<Rightarrow> string \<Rightarrow> string option \<Rightarrow> string \<Rightarrow> string \<Rightarrow> bool" where
  "guarded ph env tr tgt w old head \<longleftrightarrow>
     answered tr (discovery_path env) [''rev-parse'', branch_ref_name tgt] old \<and>
     (\<exists>wt. answered tr wt [''rev-parse'', ''HEAD''] head) \<and>
     (\<exists>q. snd (is_ancestor_by_sha (ph_git ph) old head q) = Inr True) \<and>
     (w = None \<or> saw_no_conflict env tr old head)"

lemma answered_text: "runs (git_text d args s) t (s', Inr out) \<Longrightarrow> answered t d args (trim out)"
proof -
  assume "runs (git_text d args s) t (s', Inr out)"
  then obtain r where r: "t = [Ran d args r]" "map_sum id from_utf8_lossy (command_result args r) = Inr out"
    by (auto simp: git_text_unfold)
  then show ?thesis unfolding answered_def by (cases "command_result args r") auto
qed

lemma answered_later: "answered t2 d args s \<Longrightarrow> answered (t1 @ t2 @ t3) d args s"
  by (auto simp: answered_def)

lemma no_conflict_later: "saw_no_conflict env t2 old new \<Longrightarrow> saw_no_conflict env (t1 @ t2 @ t3) old new"
  unfolding saw_no_conflict_def by (elim exE conjE) (intro exI conjI, auto)

lemma ancestor_run:
  "runs (require_ancestor ph env tgt old head m h) t (h', Inr u) \<Longrightarrow> \<exists>q. snd (is_ancestor_by_sha (ph_git ph) old head q) = Inr True"
  by (auto simp: require_ancestor_def act_simps in_process_def runs_bind query_def split: if_splits prod.splits sum.splits)
     (metis snd_conv)+

lemma conflict_free_run:
  assumes "runs (ensure_no_target_conflicts env w tgt old new h) t (h', Inr u)" "w \<noteq> None"
  shows "saw_no_conflict env t old new"
proof -
  from assms obtain path where w: "w = Some path" by auto
  let ?rest = "\<lambda>status. if status = [] then aret (Inr ())
      else abind (changed_files env old new) (\<lambda>push_files.
        aret (if map from_utf8_lossy (filter (\<lambda>f. f \<in> set (parse_porcelain_z status)) push_files) = [] then Inr ()
              else Inl (Conflicting_Changes tgt (map from_utf8_lossy (filter (\<lambda>f. f \<in> set (parse_porcelain_z status)) push_files)) path)))"
  from assms(1) have "runs (abind (perform (worktree_at path)) (\<lambda>wt. abind (git_bytes wt STATUS_ALL) ?rest) h) t (h', Inr ())"
    unfolding ensure_no_target_conflicts_def STATUS_ALL_def Let_def w by simp
  then obtain wt t1 r status t2 where s: "t = t1 @ Ran wt STATUS_ALL r # t2" "command_result STATUS_ALL r = Inr status"
    and more: "runs (?rest status h) t2 (h', Inr ())"
    by (elim abindE) (auto simp: runs_perform runs_git_bytes simp del: if_split dest!: sym[of "Inr _"])
  have rest: "\<exists>files h1. runs (changed_files env old new h) t2 (h1, Inr files) \<and>
        (\<forall>f\<in>set files. f \<notin> set (parse_porcelain_z status))" if "status \<noteq> []"
    using more that by (auto simp: filter_empty_conv runs_aret elim!: abindE split: if_splits) blast
  have "(\<exists>q files. Ran (discovery_path env) (changed_names old new) q \<in> set t \<and>
            command_result (changed_names old new) q = Inr files \<and>
            (\<forall>f\<in>set (split_on CHR 0x00 files). f \<noteq> [] \<longrightarrow> f \<notin> set (parse_porcelain_z status)))" if "status \<noteq> []"
  proof -
    from rest[OF that] obtain files h1 where "runs (changed_files env old new h) t2 (h1, Inr files)"
        "\<forall>f\<in>set files. f \<notin> set (parse_porcelain_z status)" by blast
    then show ?thesis using s(1)
      by (auto simp: changed_files_def changed_names_def[symmetric] act_simps) (metis list.set_intros(1))
  qed
  with s show ?thesis unfolding saw_no_conflict_def by (metis in_set_conv_decomp)
qed

lemma guarded_later: "guarded ph env t tgt w old head \<Longrightarrow> guarded ph env (t @ t2) tgt w old head"
  unfolding guarded_def using answered_later[of t _ _ _ "[]" t2] no_conflict_later[of env t _ _ "[]" t2] by auto

lemma prepared_run:
  assumes "runs (merge_context_prepare ph env target ops h) t (h', Inr mc)"
  shows "guarded ph env t (mc_target mc) (mc_worktree mc) (mc_tip mc) (mc_head mc)"
proof -
  obtain h1 t1 h2 t2 wt h3 t3 h4 t4 tip_out head_out w tgt h5 h6 t5 m pre mid u v where
    t: "t = pre @ t1 @ mid @ t2 @ t3 @ t4 @ t5" and
    tip: "runs (git_text (discovery_path env) [''rev-parse'', branch_ref_name tgt] (h1 :: handle)) t1 (h2, Inr tip_out)" and
    head: "runs (git_text wt [''rev-parse'', ''HEAD''] h3) t2 (h4, Inr head_out)" and
    anc: "runs (require_ancestor ph env tgt (trim tip_out) (trim head_out) m h4) t3 (h5, Inr u)" and
    clear: "runs (ensure_no_target_conflicts env w tgt (trim tip_out) (trim head_out) h5) t4 (h6, Inr v)" and
    mc: "mc_target mc = tgt" "mc_worktree mc = w" "mc_tip mc = trim tip_out" "mc_head mc = trim head_out"
  proof -
    note run = assms[unfolded merge_context_prepare_def Let_def]
    from run show thesis
      apply (elim abind_okE)
      subgoal for _ _ a1 b1 _ tgt a2 b2 _ w a3 b3 _ _ a4 b4 _ tip_out a5 b5 _ wt a6 b6 _ head_out a7 b7 _ u1 a8 b8 _ u2 a9 b9 _ n a10 b10
        by (rule that[where pre = "a1 @ a2 @ a3 @ a4" and ?t1.0 = a5 and mid = a6 and ?t2.0 = a7 and ?t3.0 = a8
              and ?t4.0 = a9 and ?t5.0 = b9]) (simp, assumption, assumption, assumption, assumption, auto simp: runs_aret)
      done
  qed
  have "answered t (discovery_path env) [''rev-parse'', branch_ref_name tgt] (trim tip_out)"
    using answered_later[OF answered_text[OF tip]] t by simp
  moreover have "answered t wt [''rev-parse'', ''HEAD''] (trim head_out)"
    using answered_later[OF answered_text[OF head], of "pre @ t1 @ mid"] t by simp
  moreover have "saw_no_conflict env t (trim tip_out) (trim head_out)" if "w \<noteq> None"
    using no_conflict_later[OF conflict_free_run[OF clear that], of "pre @ t1 @ mid @ t2 @ t3"] t by simp
  ultimately show ?thesis unfolding guarded_def mc using ancestor_run[OF anc] by blast
qed

section \<open>The two commands\<close>

lemma speak_only: "runs (up_to_date mc ops h) t (h', res) \<Longrightarrow> \<exists>x. res = Inr x \<and> pu_outcome x = Up_To_Date"
  by (auto simp: up_to_date_def show_up_to_date_def speak_def act_simps split: if_splits)

lemma plain_run: "runs (failing_plain m h) t (h', r) \<Longrightarrow>
    (\<exists>e. r = Inl (e, None) \<and> runs (m h) t (h', Inl e)) \<or> (\<exists>x. r = Inr x \<and> runs (m h) t (h', Inr x))"
  by (cases r) (auto simp: failing_plain_def runs_bind split_sum_ex)

lemma quiet_still:
  assumes "quiet_for moves_ref m" "runs (failing_plain m h) t y"
  shows "ref_moves t = []"
  by (rule quiet_no_moves[OF ref_moves.quiet_plain[OF assms(1)] assms(2)])

text \<open>What both do up to the point where something may be landed.\<close>

definition prepared ::
  "pusher \<Rightarrow> repo_env \<Rightarrow> string option \<Rightarrow> merge_operations option \<Rightarrow> string \<Rightarrow> string \<Rightarrow>
   (merge_context \<Rightarrow> (push_result, push_result) completing) \<Rightarrow> (push_result, push_result) completing" where
  "prepared ph env target ops verb note land =
     abind (failing_plain (merge_context_prepare ph env target ops)) (\<lambda>mc.
     abind (failing_plain (show_progress ph env mc verb note ops)) (\<lambda>_.
       if mc_count mc = 0 then failing_plain (up_to_date mc ops) else land mc))"

lemma prepared_cases:
  assumes "runs (prepared ph env target ops verb note land h) tr (h', res)"
  obtains (Nothing) "ref_moves tr = []" "\<not> reports_landing res"
    | (Landing) mc pre t h1 where "tr = pre @ t" "ref_moves pre = []"
        "guarded ph env pre (mc_target mc) (mc_worktree mc) (mc_tip mc) (mc_head mc)" "runs (land mc h1) t (h', res)"
  using assms unfolding prepared_def
proof (cases rule: abindE)
  case (Err s1 e)
  with plain_run[OF Err(1)] quiet_still[OF ref_moves.quiet_prepare Err(1)] show thesis
    by (intro Nothing) (auto simp: reports_landing_def)
next
  case (Ok s1 mc t1 t2)
  have q1: "ref_moves t1 = []" by (rule quiet_still[OF ref_moves.quiet_prepare Ok(2)])
  have g: "guarded ph env t1 (mc_target mc) (mc_worktree mc) (mc_tip mc) (mc_head mc)"
    using plain_run[OF Ok(2)] by (auto dest: prepared_run)
  note outer = Ok(1)
  from Ok(3) show thesis
  proof (cases rule: abindE)
    case (Err s2 e)
    with plain_run[OF Err(1)] quiet_still[OF ref_moves.quiet_progress Err(1)] q1 outer show thesis
      by (intro Nothing) (auto simp: reports_landing_def)
  next
    case (Ok s2 u t3 t4)
    have q3: "ref_moves t3 = []" by (rule quiet_still[OF ref_moves.quiet_progress Ok(2)])
    show thesis
    proof (cases "mc_count mc = 0")
      case True
      with Ok(3) have up: "runs (failing_plain (up_to_date mc ops) s2) t4 (h', res)" by simp
      show thesis
        using plain_run[OF up] quiet_still[OF ref_moves.quiet_up_to_date up] q1 q3 outer Ok(1)
        by (intro Nothing) (auto simp: reports_landing_def dest!: speak_only)
    next
      case False
      with Ok(3) have "runs (land mc s2) t4 (h', res)" by simp
      with q1 q3 outer Ok(1) guarded_later[OF g, of t3] show thesis by (intro Landing[of "t1 @ t3" t4]) auto
    qed
  qed
qed

lemma handle_push_prepared:
  "handle_push ph env shown target pk ops =
     prepared ph env target ops (verb_progressive pk) [] (\<lambda>mc.
       landed mc Fast_Forwarded (verb_past pk) [] []
         (advance_target ph env shown (mc_target mc) (mc_worktree mc) (mc_tip mc) (mc_head mc) (reflog_message pk)))"
  by (simp add: handle_push_def prepared_def)

lemma handle_no_ff_prepared:
  "handle_no_ff_merge ph env shown target ops feature =
     prepared ph env target ops ''Merging'' '' (--no-ff)'' (\<lambda>mc.
       abind (failing_plain (create_merge_commit env mc feature)) (\<lambda>(merge_sha, short).
         landed mc (Merge_Commit merge_sha) ''Merged to'' ('' @ '' @ short) '', --no-ff''
           (advance_target ph env shown (mc_target mc) (mc_worktree mc) (mc_tip mc) merge_sha
              (if ops \<noteq> None then ''wt merge: no-ff'' else ''wt step push: no-ff''))))"
  unfolding handle_no_ff_merge_def prepared_def ..

lemma merge_commit_run:
  assumes "runs (create_merge_commit env mc feature h) t (h', Inr (sha, short))"
  shows "\<exists>tree sign. answered t (discovery_path env) [''rev-parse'', mc_head mc @ ''^{tree}''] tree \<and>
    answered t (discovery_path env) (commit_tree_args tree mc (merge_message feature (mc_target mc)) sign) sha"
  using assms unfolding create_merge_commit_def in_context_of_def
proof (elim abind_okE, goal_cases)
  case (1 s1 tree_out t1 t2 s2 sign t3 t4 s3 sha_out t5 t6 s4 sh t7 t8)
  let ?args = "commit_tree_args (trim tree_out) mc (merge_message feature (mc_target mc)) sign"
  from 1(6) have "runs (git_text (discovery_path env) ?args s2) t5 (s3, Inr sha_out)"
    by (auto simp: runs_with_error)
  from answered_text[OF this] have "answered t (discovery_path env) ?args (trim sha_out)"
    using answered_later[of t5 _ _ _ "t1 @ t3" t6] 1(1,3,5) by simp
  moreover have "answered t (discovery_path env) [''rev-parse'', mc_head mc @ ''^{tree}''] (trim tree_out)"
    using answered_later[OF answered_text[OF 1(2)], of "[]" t2] 1(1) by simp
  moreover have "sha = trim sha_out" using 1(9) by (simp add: runs_aret)
  ultimately show ?case by blast
qed

section \<open>Properties\<close>



text \<open>
  C40. What is reported is what happened: a push or a merge reports a landing, as its result or as the result its error
  carries, exactly when it has moved the target and made no attempt to move it back.
\<close>

theorem landing_reported_exactly:
  assumes "push = handle_push ph env shown target pk ops \<or> push = handle_no_ff_merge ph env shown target ops feature"
    and "runs (push h) tr (h', res)"
  shows "reports_landing res \<longleftrightarrow> moved_and_kept (ref_moves tr)"
  using assms(1)
proof
  assume "push = handle_push ph env shown target pk ops"
  with assms(2) have "runs (prepared ph env target ops (verb_progressive pk) [] (\<lambda>mc.
       landed mc Fast_Forwarded (verb_past pk) [] []
         (advance_target ph env shown (mc_target mc) (mc_worktree mc) (mc_tip mc) (mc_head mc) (reflog_message pk))) h) tr (h', res)"
    by (simp add: handle_push_prepared)
  then show ?thesis by (rule prepared_cases) (auto elim!: landed_run)
next
  assume p: "push = handle_no_ff_merge ph env shown target ops feature"
  show ?thesis using assms(2) unfolding p handle_no_ff_prepared
  proof (cases rule: prepared_cases)
    case Nothing
    then show ?thesis by simp
  next
    case (Landing mc pre t h1)
    note outer = Landing(1,2)
    from Landing(4) show ?thesis
    proof (cases rule: abindE)
      case (Err s1 e)
      with plain_run[OF Err(1)] quiet_still[OF ref_moves.quiet_merge_commit Err(1)] outer show ?thesis
        by (auto simp: reports_landing_def)
    next
      case (Ok s1 x t1 t2)
      with quiet_still[OF ref_moves.quiet_merge_commit Ok(2)] outer show ?thesis
        by (cases x) (auto elim!: landed_run)
    qed
  qed
qed

section \<open>Two pushes\<close>

text \<open>
  Branch \<open>m\<close> at commit \<open>o\<close> is checked out in \<open>/m\<close>, the head of \<open>/r\<close> is \<open>n\<close>; git confirms the ancestry. In the first
  run the synchronisation of \<open>/m\<close> fails, in the second a merge commit \<open>c\<close> is landed.
\<close>

definition answer :: "string \<Rightarrow> string + cmd_output" where
  "answer out = Inr \<lparr>exit_code = Some 0, term_signal = None, stdout = out\<rparr>"

definition pushing_handle :: handle where
  "pushing_handle =
     (config_handle \<lparr>queries = empty_repo, git_dirs = [''/r'' \<mapsto> ''/g'', ''/m'' \<mapsto> ''/h''], current_branches = (\<lambda>_. None),
        latch = None\<rparr> [])
       \<lparr>worktrees_slot := Some [blank_worktree ''/r'', (blank_worktree ''/m'')\<lparr>wi_branch := Some ''m''\<rparr>]\<rparr>"

definition pushing :: pusher where
  "pushing = \<lparr>ph_git = (\<lambda>_ _. answer []), ph_gix = (\<lambda>_. None), ph_paths = \<lparr>base_dir = None, home_dir = None\<rparr>,
     ph_show = (\<lambda>_. []), ph_gutter = id, ph_width = None\<rparr>"

definition idle_events :: "string \<Rightarrow> event list" where
  "idle_events d =
     [Existed (d @ ''/MERGE_HEAD'') False, Existed (d @ ''/rebase-merge'') False, Existed (d @ ''/rebase-apply'') False,
      Existed (d @ ''/CHERRY_PICK_HEAD'') False, Existed (d @ ''/REVERT_HEAD'') False,
      File_Read (d @ ''/sequencer/todo'') (Inl Not_Found), Existed (d @ ''/BISECT_LOG'') False]"

definition found :: "string \<Rightarrow> event" where
  "found p = Canonicalized p (Some p)"

definition checking_events :: "string \<Rightarrow> event list" where
  "checking_events heading =
     [found ''/r''] @ idle_events ''/g'' @
     [Ran ''/r'' [''rev-parse'', ''--verify'', ''--quiet'', ''--end-of-options'', ''refs/heads/m^{commit}''] (answer []),
      Existed ''/m'' True, found ''/r'', found ''/m'', found ''/m'', found ''/m'', found ''/m''] @ idle_events ''/h'' @
     [Ran ''/r'' [''rev-parse'', ''refs/heads/m''] (answer ''o''), found ''/r'',
      Ran ''/r'' [''rev-parse'', ''HEAD''] (answer ''n''), found ''/m'',
      Ran ''/m'' [''status'', ''--porcelain'', ''-z'', ''-uall''] (answer []),
      Ran ''/r'' [''rev-list'', ''--count'', ''--end-of-options'', ''o..n''] (answer ''1''),
      Ran ''/r'' [''--no-optional-locks'', ''diff-tree'', ''--ignore-submodules=none'', ''-r'', ''--find-renames'',
        ''--textconv'', ''--shortstat'', ''--end-of-options'', ''o'', ''n'', ''--''] (answer []),
      Ran ''/r'' [''rev-parse'', ''--short'', ''n''] (answer ''n''),
      Said heading,
      Ran ''/r'' [''log'', ''--color=always'', ''--graph'', ''--oneline'', ''--end-of-options'', ''o..n''] (answer []),
      Said [],
      Ran ''/r'' [''--no-optional-locks'', ''diff-tree'', ''--ignore-submodules=none'', ''-r'', ''--find-renames'',
        ''--textconv'', ''--color=always'', ''--stat'', ''--end-of-options'', ''o'', ''n'', ''--''] (answer [])]"

definition rolled_back_run :: "event list" where
  "rolled_back_run =
     checking_events ''Pushing 1 commit to m @ n'' @
     [Ran ''/r'' [''update-ref'', ''-m'', ''wt step push: fast-forward'', ''refs/heads/m'', ''n'', ''o''] (answer []),
      found ''/m'', Ran ''/m'' [''update-index'', ''-q'', ''--refresh''] (Inl ''killed''),
      Ran ''/r'' [''update-ref'', ''-m'', ''wt: rollback (worktree sync failed)'', ''refs/heads/m'', ''o'', ''n''] (answer [])]"

definition merged_run :: "event list" where
  "merged_run =
     checking_events ''Merging 1 commit to m @ n (--no-ff)'' @
     [Ran ''/r'' [''rev-parse'', ''n^{tree}''] (answer ''t''),
      Ran ''/r'' [''config'', ''--type=bool'', ''--get'', ''commit.gpgSign''] (answer ''false''),
      Ran ''/r'' [''commit-tree'', ''t'', ''-p'', ''o'', ''-p'', ''n'', ''-m'', merge_message ''f'' ''m''] (answer ''c''),
      Ran ''/r'' [''rev-parse'', ''--short'', ''c''] (answer ''c''),
      Ran ''/r'' [''update-ref'', ''-m'', ''wt step push: no-ff'', ''refs/heads/m'', ''c'', ''o''] (answer []),
      found ''/m'', Ran ''/m'' [''update-index'', ''-q'', ''--refresh''] (answer []),
      Ran ''/m'' [''-c'', ''submodule.recurse=false'', ''read-tree'', ''-m'', ''-u'', ''o'', ''c''] (answer []),
      Ran ''/r'' [''rev-parse'', ''refs/heads/m''] (answer ''c''),
      Said ''Merged to m @ c (1 commit, --no-ff)'']"

lemma rolled_back_runs:
  "\<exists>h' e. runs (handle_push pushing config_env id (Some ''m'') Standalone None pushing_handle) rolled_back_run (h', Inl (e, None))"
proof -
  have "map_option snd (replay (handle_push pushing config_env id (Some ''m'') Standalone None pushing_handle) rolled_back_run) =
      Some (Inl (With_Context ''Syncing the m worktree failed; the ref change was rolled back''
        (Git_Failed (Not_Run ''killed'')), None))"
    by code_simp
  from runs_result[OF this] show ?thesis by blast
qed

lemma merged_runs:
  "\<exists>h'. runs (handle_no_ff_merge pushing config_env id (Some ''m'') None ''f'' pushing_handle) merged_run
     (h', Inr \<lparr>pu_target = ''m'', pu_count = 1, pu_outcome = Merge_Commit ''c''\<rparr>)"
proof -
  have "map_option snd (replay (handle_no_ff_merge pushing config_env id (Some ''m'') None ''f'' pushing_handle) merged_run) =
      Some (Inr \<lparr>pu_target = ''m'', pu_count = 1, pu_outcome = Merge_Commit ''c''\<rparr>)"
    by code_simp
  from runs_result[OF this] show ?thesis by blast
qed


text \<open>The changes of refs in the two runs.\<close>

lemma moves_of_runs:
  "ref_moves rolled_back_run =
     [swap config_env ''wt step push: fast-forward'' ''refs/heads/m'' ''n'' ''o'' (answer []),
      swap config_env ROLLBACK ''refs/heads/m'' ''o'' ''n'' (answer [])]"
  "ref_moves merged_run = [swap config_env ''wt step push: no-ff'' ''refs/heads/m'' ''c'' ''o'' (answer [])]"
  by (simp_all add: rolled_back_run_def merged_run_def checking_events_def idle_events_def found_def moves_ref_def swap_def
      config_env_def ROLLBACK_def)



lemma landing_reported_exactly_witness:
  "\<not> moved_and_kept (ref_moves rolled_back_run) \<and> moved_and_kept (ref_moves merged_run)"
proof -
  from rolled_back_runs obtain h' e where
    "runs (handle_push pushing config_env id (Some ''m'') Standalone None pushing_handle) rolled_back_run (h', Inl (e, None))"
    by blast
  from landing_reported_exactly[OF disjI1[OF refl] this] have "\<not> moved_and_kept (ref_moves rolled_back_run)"
    by (simp add: reports_landing_def)
  moreover from merged_runs obtain h2 where
    "runs (handle_no_ff_merge pushing config_env id (Some ''m'') None ''f'' pushing_handle) merged_run
      (h2, Inr \<lparr>pu_target = ''m'', pu_count = 1, pu_outcome = Merge_Commit ''c''\<rparr>)"
    by blast
  from landing_reported_exactly[OF disjI2[OF refl] this] have "moved_and_kept (ref_moves merged_run)"
    by (simp add: reports_landing_def)
  ultimately show ?thesis by blast
qed

end
