(* ===== verification/Spec2Isabelle.thy ===== *)
theory Spec2Isabelle
  imports Approvals List_Properties Integration_Properties Removal_Properties Cleanup_Properties Git_Parse Selectors Hook_Approval Template_Filters Template_Syntax Config_Layers Pipeline_Properties Background_Properties Layout_Properties Push_Properties
begin

text \<open>
  A verification library for worktrunk (\<open>wt\<close>), a command-line manager of git worktrees written in Rust. Paths below
  are relative to the crate (\<open>src/\<close> of the repository).

  \<^bold>\<open>The program.\<close> \<open>wt\<close> reads what git knows of a repository (\<open>src/git/\<close>), decides with it which branch or worktree a
  command means, which branches are integrated and what may be removed, moves branches and worktrees, shows them in a
  table (\<open>src/commands/list/\<close>), and runs the user's and the project's commands around its operations
  (\<open>src/commands/hook*.rs\<close>, \<open>command_executor.rs\<close>), the project's only after approval (\<open>src/config/approvals.rs\<close>).
  Other processes (git, editors, other runs of \<open>wt\<close>) change the repository meanwhile. Most of the code is
  therefore sequences of requests to git and the file system whose order, error paths and re-checks carry the correctness.

  \<^bold>\<open>How it is modelled.\<close> \<open>Interaction\<close> has the type \<open>io\<close> of programs as trees of requests, one constructor for each primitive
  the code calls, and the relation \<open>runs p tr x\<close> of a program, a trace of requests with their answers, and a result.
  The world is not modelled: a property of all runs holds whatever other processes do between any two requests. An operation
  of the code is an \<open>action\<close> (threads the process-wide caches, \<open>Actions\<close>), a \<open>command\<close> (threads the repository handle
  with its caches, \<open>Git_Config\<close>) or a program over the state of its component; all return an error of the code
  or a value, and keep the state that was reached when they fail. \<open>replay\<close> evaluates a program on a trace; the
  witnesses use it. Code without interaction is plain functions. Queries whose answer is fixed by commit ids
  (\<open>Integration\<close>) call git as a function, the parameter \<open>git\<close>.

  \<^bold>\<open>Theories, in the order of their dependencies.\<close>
  \<^item> Shared: \<open>Prelude\<close> (lists, options, results, byte strings), \<open>Ordered_Map\<close> (\<open>BTreeMap\<close>, locale \<open>ordered_map\<close>),
    \<open>Text_Decode\<close> (UTF-8, lines, numbers of the standard library).
  \<^item> Approvals: \<open>Project_Match\<close> (\<open>config/user/project_match.rs\<close>: the glob matcher against its declarative meaning, ranking
    of project keys, locale \<open>key_matcher\<close>), \<open>Approvals\<close> (\<open>config/approvals.rs\<close> and template normalisation of
    \<open>config/deprecation.rs\<close>: store, locked mutations, refinement of a set of granted commands under any interleaving of
    processes).
  \<^item> Git data: \<open>Git_Command\<close>, \<open>Git_Refs\<close> (\<open>git/mod.rs\<close>), \<open>Git_Parse\<close> (\<open>git/parse.rs\<close>, \<open>git/diff.rs\<close>), \<open>Remote_Url\<close>
    (\<open>git/url.rs\<close>), \<open>Path_Resolution\<close> (\<open>path.rs\<close>, \<open>git/repository/mod.rs\<close>), \<open>Ref_Snapshot\<close>.
  \<^item> Integration: \<open>Integration_Check\<close>, \<open>Sha_Cache\<close> (\<open>cache.rs\<close>, \<open>git/repository/sha_cache.rs\<close>, locale \<open>result_cache\<close>),
    \<open>Integration\<close> (\<open>git/repository/integration.rs\<close>), \<open>Integration_Caches\<close> (locale \<open>sound_memo\<close>: each cached query refines
    the uncached one), \<open>Integration_Properties\<close>.
  \<^item> The repository: \<open>Interaction\<close>, \<open>Actions\<close>, \<open>Working_Tree\<close>, \<open>Observation\<close> (locale \<open>observer\<close>: which requests the
    queries cannot make), \<open>Git_Config\<close>, \<open>Worktree_Inventory\<close>, \<open>Default_Branch\<close> (locale \<open>config_reader\<close>), \<open>Remotes\<close>,
    \<open>Selectors\<close>, \<open>Repository_Reads\<close> (locale \<open>git_user\<close>); the code is \<open>git/repository/*.rs\<close>.
  \<^item> Removal: \<open>Worktree_Removal\<close> (\<open>git/remove.rs\<close>, \<open>git/repository/ref_deletion.rs\<close>), \<open>Removal_Order\<close>,
    \<open>Removal_Properties\<close>; \<open>Background_Cleanup\<close> (trash, \<open>git/fsmonitor.rs\<close>, \<open>git/reap.rs\<close>), \<open>Cleanup_Properties\<close>.
  \<^item> Landing: \<open>Target_Push\<close> (\<open>commands/worktree/push.rs\<close>, \<open>git/repository/diff.rs\<close>), \<open>Push_Properties\<close>.
  \<^item> The list: \<open>List_State\<close>, \<open>List_Item\<close>, \<open>List_Drain\<close> (\<open>commands/list/model/\<close>, \<open>collect/\<close>), \<open>List_Convergence\<close>,
    \<open>List_Properties\<close>; \<open>List_Columns\<close>, \<open>List_Layout\<close> (\<open>columns.rs\<close>, \<open>layout.rs\<close>), \<open>Layout_Properties\<close>.
  \<^item> Configuration: \<open>User_Settings\<close> (\<open>config/user/\<close>, locales \<open>layered_setting\<close> and \<open>section_monoid\<close>), \<open>Config_Layers\<close>
    (merging of layers and loading).
  \<^item> Templates: \<open>Template_Syntax\<close>, \<open>Template_Filters\<close>, \<open>Template_Expansion\<close> (\<open>config/template_analysis.rs\<close>,
    \<open>config/expansion.rs\<close>).
  \<^item> Hooks: \<open>Hook_Commands\<close> (\<open>config/commands.rs\<close>, \<open>config/hooks.rs\<close>), \<open>Hook_Approval\<close> (\<open>command_approval.rs\<close>,
    \<open>hook_plan.rs\<close>), \<open>Error_Chain\<close> (\<open>git/error.rs\<close>), \<open>Pipeline_Steps\<close> (\<open>command_executor.rs\<close>, \<open>output/concurrent.rs\<close>),
    \<open>Pipeline_Properties\<close>, \<open>Background_Hooks\<close> (\<open>hooks.rs\<close>, \<open>run_pipeline.rs\<close>, \<open>process.rs\<close>),
    \<open>Background_Properties\<close>.

  \<^bold>\<open>What the lemmas show.\<close> The gates come before the effects: a worktree is removed, a branch deleted or moved, a process
  signalled and a project command run only after what was asked of the world or the user, in the same run
  (\<open>Removal_Properties\<close>, \<open>Push_Properties\<close>, \<open>Cleanup_Properties\<close>, \<open>Hook_Approval\<close>). What is reported is what
  happened (deletions, landings, timed-out rows). Caches are invisible (\<open>Integration_Caches\<close>, \<open>Git_Config\<close>, \<open>Default_Branch\<close>).
  The table is a function of the results alone, not of their order (\<open>List_Convergence\<close>). What is written is
  read back (approvals, worktree lists, hook configurations). Loops end (\<open>Project_Match\<close>, the escalation of signals).
  Pipelines stop at a failure and no child process is left behind. Where the code does something else than its
  comments say, a lemma states what it does.

  \<^bold>\<open>Interfaces.\<close> Each locale is a contract a client relies on, with its laws as assumptions, and is interpreted on the
  model's own definitions: maps (\<open>ordered_map\<close> on the sorted association list), matching of project keys
  (\<open>key_matcher\<close> on \<open>glob_matches\<close>), caches on disk (\<open>result_cache\<close>, six kinds), memoised queries (\<open>sound_memo\<close>, ten
  caches), requests a query cannot make (\<open>observer\<close>, \<open>config_reader\<close>, \<open>git_user\<close> on mutations, signals, configuration
  requests, shell commands and changes of refs), settings of merged sections (\<open>layered_setting\<close>, \<open>section_monoid\<close>).

  \<^bold>\<open>Parameters.\<close> What is not in the repository is an argument of the definitions that use it: git itself; gix-url, urlencoding,
  serde and serde_json, toml and toml_edit, minijinja, regex, sha2, petname, sanitize-filename, strsim, shell-escape,
  shellexpand, pathdiff, chrono, unicode-width, and the standard hash. They come in records
  (\<open>store_io\<close>, \<open>templating\<close>, \<open>config_codec\<close>, \<open>renderer\<close>, \<open>runner\<close>, \<open>launcher\<close>, \<open>pusher\<close>, \<open>approval_env\<close>, \<open>user_paths\<close>).
  A law a property needs of one is a hypothesis of the property, and its witness gives an instance; the one
  about minijinja, \<open>renders_through_functions\<close>, says that rendering makes no request but through the functions it is given.

  \<^bold>\<open>Bounds and fuel.\<close> Text is bytes; terminal widths, counts and indices are natural numbers, with the wrap-around or
  saturation of the code written out where a value can reach it; hashes are 64-bit words. Recursion follows the
  code; loops that wait for the world carry fuel. The poll loop of a termination has 31 rounds of 50 ms for a deadline of
  1500 ms and is proved to end within them on a clock on which sleeping takes its time.

  \<^bold>\<open>Not modelled.\<close> The interactive picker (\<open>commands/picker/\<close>), the rendering of table cells and progressive redraws, and
  styling, help pages, completion, logging, tracing and progress (terminal output and threads). CI status and remote
  references (\<open>commands/list/ci_status/\<close>, \<open>git/remote_ref/\<close>: parsing of the JSON of other programs). LLM calls and
  commit messages (\<open>llm.rs\<close>, \<open>summary.rs\<close>, \<open>commit.rs\<close>, squash). Process control below the level of one command
  (\<open>shell_exec.rs\<close>, \<open>signal_forwarder.rs\<close>: threads and signals). Text edits of configuration files (\<open>toml_edit\<close>), migration
  of deprecated settings beyond template names, shell integration scripts, the recursive copy and deletion of
  directories. The command lines (\<open>cli/\<close>, \<open>main.rs\<close>) and the handlers that only chain the operations above.
\<close>

end
